(* ===== verification/Klutch_Prelude.thy ===== *)
theory Klutch_Prelude
  imports Main "HOL-Library.Multiset" "HOL-Library.Char_ord" "HOL-Library.List_Lexorder"
    "HOL-Library.Finite_Map"
begin

text \<open>
  The part of the Go language and of its standard library that the klutch sources use, and the
  vocabulary shared by the components.

  \<^item> \<open>time\<close> is Go's \<open>time.Time\<close>, in nanoseconds since the zero time; \<open>Truncate\<close> and \<open>IsZero\<close> are
    the methods the sources call.
  \<^item> \<open>apierr\<close> is an error of the Kubernetes API (\<open>k8s.io/apimachinery/pkg/api/errors\<close>): its
    \<open>reason\<close> and its text. \<open>IsNotFound\<close>, \<open>IsAlreadyExists\<close> and \<open>IsInvalid\<close> test the reason; on the nil
    error they are false. A Go result \<open>(x, err)\<close> is \<open>apierr + x\<close>, a Go \<open>error\<close> is \<open>apierr option\<close>.
  \<^item> \<open>sortSlice\<close> is \<open>sort.Slice\<close> and \<open>sort.Sort\<close>: the insertion sort that Go's pdqsort runs
    on slices of at most twelve elements. Its contract is the locale \<open>strict_weak_order\<close>,
    the requirement that the documentation of package sort puts on the comparison.
    \<open>sortSlice_unique\<close> shows that no other sorting algorithm could return anything else when
    different elements of the slice are never equivalent.
  \<^item> \<open>Itoa\<close>, \<open>Atoi\<close> are those of \<open>strconv\<close> on 64 bit integers, with their round trip;
    \<open>HasPrefix\<close>, \<open>TrimPrefix\<close>, \<open>Contains\<close> and \<open>SplitN2\<close> (that is \<open>SplitN(s, sep, 2)\<close> for a separator
    of one character) are those of \<open>strings\<close>.
  \<^item> \<open>klutch_defs\<close> collects the constants of the sources (names of conditions, keys and paths) that a
    proof may unfold to tell them apart.
\<close>

named_theorems klutch_defs "named constants of the sources"

section \<open>Time\<close>

type_synonym time = int

definition second :: int where
  "second = 1000000000"

definition IsZero :: "time \<Rightarrow> bool" where
  "IsZero t \<longleftrightarrow> t = 0"

definition Truncate :: "time \<Rightarrow> int \<Rightarrow> time" where
  "Truncate t d = (if d \<le> 0 then t else t - t mod d)"

section \<open>Errors of the Kubernetes API\<close>

datatype reason = NotFound | AlreadyExists | Conflict | Invalid | OtherReason string

record apierr =
  reason :: reason
  error_text :: string

definition IsNotFound :: "apierr \<Rightarrow> bool" where
  "IsNotFound e \<longleftrightarrow> reason e = NotFound"

definition IsAlreadyExists :: "apierr \<Rightarrow> bool" where
  "IsAlreadyExists e \<longleftrightarrow> reason e = AlreadyExists"

definition IsInvalid :: "apierr \<Rightarrow> bool" where
  "IsInvalid e \<longleftrightarrow> reason e = Invalid"

section \<open>Sorting\<close>

text \<open>
  The prefix already sorted is kept in reverse: the next element moves left past every element
  it is less than, one swap at a time.
\<close>

fun insertSort :: "('a \<Rightarrow> 'a \<Rightarrow> bool) \<Rightarrow> 'a \<Rightarrow> 'a list \<Rightarrow> 'a list" where
  "insertSort lt x [] = [x]"
| "insertSort lt x (y # ys) =
     (if lt x y then y # insertSort lt x ys else x # y # ys)"

fun sortPrefix :: "('a \<Rightarrow> 'a \<Rightarrow> bool) \<Rightarrow> 'a list \<Rightarrow> 'a list \<Rightarrow> 'a list" where
  "sortPrefix lt sortd [] = sortd"
| "sortPrefix lt sortd (x # xs) = sortPrefix lt (insertSort lt x sortd) xs"

definition sortSlice :: "('a \<Rightarrow> 'a \<Rightarrow> bool) \<Rightarrow> 'a list \<Rightarrow> 'a list" where
  "sortSlice lt xs = rev (sortPrefix lt [] xs)"

section \<open>Decimal numbers\<close>

definition digitChar :: "nat \<Rightarrow> char" where
  "digitChar d = char_of (48 + d)"

definition isDigit :: "char \<Rightarrow> bool" where
  "isDigit c \<longleftrightarrow> 48 \<le> (of_char c :: nat) \<and> (of_char c :: nat) \<le> 57"

definition digitVal :: "char \<Rightarrow> nat" where
  "digitVal c = of_char c - 48"

fun natDigits :: "nat \<Rightarrow> string" where
  "natDigits n = (if n < 10 then [digitChar n] else natDigits (n div 10) @ [digitChar (n mod 10)])"

declare natDigits.simps [simp del]

definition Itoa :: "int \<Rightarrow> string" where
  "Itoa i = (if i < 0 then CHR ''-'' # natDigits (nat (- i)) else natDigits (nat i))"

definition digitsVal :: "string \<Rightarrow> nat" where
  "digitsVal s = foldl (\<lambda>n c. 10 * n + digitVal c) 0 s"

definition parseUnsigned :: "string \<Rightarrow> nat option" where
  "parseUnsigned s = (if s = [] \<or> \<not> list_all isDigit s then None else Some (digitsVal s))"

text \<open>An optional sign, decimal digits, and the range of a 64 bit \<open>int\<close>; otherwise an error.\<close>

definition Atoi :: "string \<Rightarrow> int option" where
  "Atoi s =
     (let neg = (s \<noteq> [] \<and> hd s = CHR ''-'');
          body = (if s \<noteq> [] \<and> (hd s = CHR ''-'' \<or> hd s = CHR ''+'') then tl s else s)
      in case parseUnsigned body of
           None \<Rightarrow> None
         | Some n \<Rightarrow>
             (if neg then (if n \<le> 2 ^ 63 then Some (- int n) else None)
              else (if n < 2 ^ 63 then Some (int n) else None)))"

definition int64_range :: "int \<Rightarrow> bool" where
  "int64_range i \<longleftrightarrow> - (2 ^ 63) \<le> i \<and> i < 2 ^ 63"

section \<open>Strings\<close>

fun HasPrefix :: "string \<Rightarrow> string \<Rightarrow> bool" where
  "HasPrefix s [] = True"
| "HasPrefix [] (p # ps) = False"
| "HasPrefix (c # cs) (p # ps) = (c = p \<and> HasPrefix cs ps)"

definition TrimPrefix :: "string \<Rightarrow> string \<Rightarrow> string" where
  "TrimPrefix s p = (if HasPrefix s p then drop (length p) s else s)"

text \<open>\<open>strings.TrimSpace\<close> on ASCII.\<close>

definition isSpace :: "char \<Rightarrow> bool" where
  "isSpace c \<longleftrightarrow> of_char c \<in> {9, 10, 11, 12, 13, 32 :: nat}"

definition TrimSpace :: "string \<Rightarrow> string" where
  "TrimSpace s = rev (dropWhile isSpace (rev (dropWhile isSpace s)))"

fun Contains :: "string \<Rightarrow> string \<Rightarrow> bool" where
  "Contains [] p = HasPrefix [] p"
| "Contains (c # cs) p = (HasPrefix (c # cs) p \<or> Contains cs p)"

definition SplitN2 :: "char \<Rightarrow> string \<Rightarrow> string list" where
  "SplitN2 sep s =
     (if sep \<in> set s
      then [takeWhile (\<lambda>c. c \<noteq> sep) s, tl (dropWhile (\<lambda>c. c \<noteq> sep) s)]
      else [s])"

definition splitFirst :: "char \<Rightarrow> string \<Rightarrow> string" where
  "splitFirst sep s = hd (SplitN2 sep s)"

section \<open>Sorting meets its contract\<close>

lemma mset_insertSort [simp]: "mset (insertSort lt x ys) = add_mset x (mset ys)"
  by (induction ys) auto

lemma set_insertSort [simp]: "set (insertSort lt x ys) = insert x (set ys)"
  by (induction ys) auto

lemma mset_sortPrefix [simp]: "mset (sortPrefix lt ys xs) = mset ys + mset xs"
  by (induction xs arbitrary: ys) auto

lemma mset_sortSlice [simp]: "mset (sortSlice lt xs) = mset xs"
  by (simp add: sortSlice_def)

lemma set_sortSlice [simp]: "set (sortSlice lt xs) = set xs"
  by (metis mset_sortSlice set_mset_mset)

lemma length_sortSlice [simp]: "length (sortSlice lt xs) = length xs"
  by (metis mset_sortSlice size_mset)

lemma sortSlice_Nil [simp]: "sortSlice lt [] = []"
  by (simp add: sortSlice_def)

lemma sortSlice_eq_Nil_iff [simp]: "sortSlice lt xs = [] \<longleftrightarrow> xs = []"
  by (metis length_0_conv length_sortSlice)

text \<open>What \<open>package sort\<close> asks of a comparison, and what it then promises.\<close>

locale strict_weak_order =
  fixes lt :: "'a \<Rightarrow> 'a \<Rightarrow> bool"
  assumes less_asym: "lt x y \<Longrightarrow> \<not> lt y x"
    and less_cotrans: "lt x z \<Longrightarrow> lt x y \<or> lt y z"
begin

lemma not_less_trans: "\<not> lt y x \<Longrightarrow> \<not> lt z y \<Longrightarrow> \<not> lt z x"
  using less_cotrans by blast

lemma insertSort_sorted:
  "sorted_wrt (\<lambda>a b. \<not> lt a b) ys \<Longrightarrow> sorted_wrt (\<lambda>a b. \<not> lt a b) (insertSort lt x ys)"
proof (induction ys)
  case Nil
  then show ?case by simp
next
  case (Cons y ys)
  then show ?case
    using less_asym[of x y] by (cases "lt x y") (auto dest: less_cotrans[of _ _ y])
qed

lemma sortPrefix_sorted:
  "sorted_wrt (\<lambda>a b. \<not> lt a b) ys \<Longrightarrow> sorted_wrt (\<lambda>a b. \<not> lt a b) (sortPrefix lt ys xs)"
  by (induction xs arbitrary: ys) (simp_all add: insertSort_sorted)

lemma sortSlice_sorted: "sorted_wrt (\<lambda>a b. \<not> lt b a) (sortSlice lt xs)"
  by (simp add: sortSlice_def sorted_wrt_rev sortPrefix_sorted)

lemma sorted_unique:
  assumes "mset xs = mset ys"
    and "sorted_wrt (\<lambda>a b. \<not> lt b a) xs" and "sorted_wrt (\<lambda>a b. \<not> lt b a) ys"
    and "\<And>a b. a \<in> set xs \<Longrightarrow> b \<in> set xs \<Longrightarrow> \<not> lt a b \<Longrightarrow> \<not> lt b a \<Longrightarrow> a = b"
  shows "xs = ys"
  using assms
proof (induction xs arbitrary: ys)
  case Nil
  then show ?case by simp
next
  case (Cons x xs)
  then obtain y zs where ys: "ys = y # zs" by (cases ys) auto
  have sets: "set (x # xs) = set (y # zs)"
    using Cons.prems(1) ys by (metis mset_eq_setD)
  have "x = y"
  proof (cases "x = y")
    case False
    then have "x \<in> set zs" and "y \<in> set xs"
      using sets by auto
    then have "\<not> lt x y" and "\<not> lt y x"
      using Cons.prems(2,3) ys by auto
    then show ?thesis
      using Cons.prems(4) \<open>y \<in> set xs\<close> by simp
  qed simp
  moreover have "xs = zs"
    by (rule Cons.IH) (use Cons.prems ys \<open>x = y\<close> in auto)
  ultimately show ?case by (simp add: ys)
qed

lemma sortSlice_unique:
  assumes "mset ys = mset xs" and "sorted_wrt (\<lambda>a b. \<not> lt b a) ys"
    and "\<And>a b. a \<in> set xs \<Longrightarrow> b \<in> set xs \<Longrightarrow> \<not> lt a b \<Longrightarrow> \<not> lt b a \<Longrightarrow> a = b"
  shows "sortSlice lt xs = ys"
  by (rule sorted_unique) (use assms in \<open>auto simp: sortSlice_sorted\<close>)

lemma sortSlice_hd:
  assumes "sortSlice lt xs = y # ys" and "x \<in> set xs"
  shows "\<not> lt x y"
proof -
  have "x \<in> set (y # ys)"
    using assms by (metis set_sortSlice)
  then show ?thesis
    using sortSlice_sorted[of xs] assms(1) less_asym by auto
qed

end

section \<open>The decimal round trip\<close>

lemma digitVal_digitChar [simp]: "d < 10 \<Longrightarrow> digitVal (digitChar d) = d"
  by (simp add: digitVal_def digitChar_def of_char_of)

lemma isDigit_digitChar [simp]: "d < 10 \<Longrightarrow> isDigit (digitChar d)"
  by (simp add: isDigit_def digitChar_def of_char_of)

lemma digitsVal_snoc [simp]: "digitsVal (s @ [c]) = 10 * digitsVal s + digitVal c"
  by (simp add: digitsVal_def)

lemma digitsVal_natDigits [simp]: "digitsVal (natDigits n) = n"
proof (induction n rule: natDigits.induct)
  case (1 n)
  show ?case
  proof (cases "n < 10")
    case True
    then show ?thesis
      by (subst natDigits.simps) (simp add: digitsVal_def)
  next
    case False
    with 1 show ?thesis by (subst natDigits.simps) simp
  qed
qed

lemma natDigits_digits: "list_all isDigit (natDigits n)"
proof (induction n rule: natDigits.induct)
  case (1 n)
  show ?case
  proof (cases "n < 10")
    case True
    then show ?thesis by (subst natDigits.simps) simp
  next
    case False
    with 1 show ?thesis by (subst natDigits.simps) simp
  qed
qed

lemma natDigits_nonempty [simp]: "natDigits n \<noteq> []"
  by (subst natDigits.simps) simp

lemma parseUnsigned_natDigits [simp]: "parseUnsigned (natDigits n) = Some n"
  by (simp add: parseUnsigned_def natDigits_digits)

lemma hd_natDigits_digit: "isDigit (hd (natDigits n))"
  using natDigits_digits[of n] by (cases "natDigits n") auto

lemma isDigit_sign [simp]: "\<not> isDigit CHR ''-''" "\<not> isDigit CHR ''+''"
  by (simp_all add: isDigit_def)

lemma Atoi_Itoa [simp]: "int64_range i \<Longrightarrow> Atoi (Itoa i) = Some i"
proof (cases "i < 0")
  case True
  moreover assume "int64_range i"
  ultimately have "nat (- i) \<le> 2 ^ 63" by (simp add: int64_range_def)
  with True show ?thesis by (simp add: Atoi_def Itoa_def)
next
  case False
  moreover assume "int64_range i"
  ultimately have "nat i < 2 ^ 63" by (simp add: int64_range_def)
  moreover have "hd (natDigits (nat i)) \<noteq> CHR ''-''" "hd (natDigits (nat i)) \<noteq> CHR ''+''"
    using hd_natDigits_digit[of "nat i"] isDigit_sign by metis+
  ultimately show ?thesis
    using False by (simp add: Atoi_def Itoa_def Let_def)
qed

lemma Itoa_nonempty [simp]: "Itoa i \<noteq> []"
  by (simp add: Itoa_def)

section \<open>Prefixes\<close>

lemma HasPrefix_append [simp]: "HasPrefix (p @ s) p"
  by (induction p) auto

lemma HasPrefix_take: "HasPrefix s p \<longleftrightarrow> take (length p) s = p"
  by (induction s p rule: HasPrefix.induct) auto

lemma TrimPrefix_append [simp]: "TrimPrefix (p @ s) p = s"
  by (simp add: TrimPrefix_def)

end
