(* ===== verification/Go_Fmt.thy ===== *)
theory Go_Fmt
  imports Klutch_Prelude
begin

text \<open>
  \<open>fmt.Sprintf\<close>, as far as the klutch sources use it: the verbs \<open>%s\<close>, \<open>%v\<close>, \<open>%q\<close> and \<open>%d\<close>
  on strings and integers, \<open>%%\<close>, and Go's own rendering of a missing argument, a surplus argument
  and a verb that does not fit its argument. \<open>%v\<close> of an \<open>error\<close> is its text, and so is \<open>%w\<close>, which
  the sources only give to \<open>fmt.Errorf\<close>. \<open>Quote\<close> is
  \<open>strconv.Quote\<close> on ASCII bytes; bytes from 128 on are copied, as Go does with printable UTF-8.
\<close>

datatype fmtarg = FStr string | FInt int

fun argText :: "fmtarg \<Rightarrow> string" where
  "argText (FStr s) = s"
| "argText (FInt i) = Itoa i"

fun argType :: "fmtarg \<Rightarrow> string" where
  "argType (FStr s) = ''string''"
| "argType (FInt i) = ''int''"

definition hexDigit :: "nat \<Rightarrow> char" where
  "hexDigit d = (if d < 10 then digitChar d else char_of (87 + d))"

definition quoteChar :: "char \<Rightarrow> string" where
  "quoteChar c =
     (let n = (of_char c :: nat) in
      if n = 34 then [char_of (92::nat), c]
      else if n = 92 then [c, c]
      else if n = 7 then char_of (92::nat) # ''a''
      else if n = 8 then char_of (92::nat) # ''b''
      else if n = 9 then char_of (92::nat) # ''t''
      else if n = 10 then char_of (92::nat) # ''n''
      else if n = 11 then char_of (92::nat) # ''v''
      else if n = 12 then char_of (92::nat) # ''f''
      else if n = 13 then char_of (92::nat) # ''r''
      else if n < 32 \<or> n = 127 then [char_of (92::nat), CHR ''x'', hexDigit (n div 16), hexDigit (n mod 16)]
      else [c])"

definition Quote :: "string \<Rightarrow> string" where
  "Quote s = [char_of (34::nat)] @ concat (map quoteChar s) @ [char_of (34::nat)]"

definition badVerb :: "char \<Rightarrow> fmtarg \<Rightarrow> string" where
  "badVerb v a = ''%!'' @ [v] @ ''('' @ argType a @ ''='' @ argText a @ '')''"

fun fmtVerb :: "char \<Rightarrow> fmtarg \<Rightarrow> string" where
  "fmtVerb v (FStr s) =
     (if v = CHR ''s'' \<or> v = CHR ''v'' \<or> v = CHR ''w'' then s else if v = CHR ''q'' then Quote s else badVerb v (FStr s))"
| "fmtVerb v (FInt i) =
     (if v = CHR ''d'' \<or> v = CHR ''v'' then Itoa i else badVerb v (FInt i))"

fun fmtExtra :: "fmtarg list \<Rightarrow> string" where
  "fmtExtra [] = ''''"
| "fmtExtra [a] = argType a @ ''='' @ argText a"
| "fmtExtra (a # as) = argType a @ ''='' @ argText a @ '', '' @ fmtExtra as"

fun Sprintf :: "string \<Rightarrow> fmtarg list \<Rightarrow> string" where
  "Sprintf [] as = (if as = [] then [] else ''%!(EXTRA '' @ fmtExtra as @ '')'')"
| "Sprintf [c] as =
     (if c = CHR ''%'' then ''%!(NOVERB)'' @ Sprintf [] as else c # Sprintf [] as)"
| "Sprintf (c # v # f) as =
     (if c \<noteq> CHR ''%'' then c # Sprintf (v # f) as
      else if v = CHR ''%'' then CHR ''%'' # Sprintf f as
      else case as of
             [] \<Rightarrow> ''%!'' @ [v] @ ''(MISSING)'' @ Sprintf f []
           | a # as' \<Rightarrow> fmtVerb v a @ Sprintf f as')"

lemma Sprintf_s [simp]: "Sprintf ''%s'' [FStr m] = m"
  by simp

lemma Sprintf_noverb: "CHR ''%'' \<notin> set f \<Longrightarrow> Sprintf f [] = f"
  by (induction f "[]::fmtarg list" rule: Sprintf.induct) auto

end
