(* ===== verification/Conditions.thy ===== *)
theory Conditions
  imports Go_Fmt
begin

text \<open>
  The conditions package of the bind API:
  \<open>bind/pkg/apis/third_party/conditions/apis/conditions/v1alpha1/types.go\<close> (the record
  \<open>condition\<close>) and \<open>util/conditions/getter.go\<close> and \<open>setter.go\<close> (the operations).

  The Go interfaces \<open>Getter\<close> and \<open>Setter\<close> are records of their methods, so the operations below work
  on any object type \<open>'o\<close>, as the Go functions do. What they rely on is the locale
  \<open>condition_setter\<close>: \<open>GetConditions\<close> reads back what \<open>SetConditions\<close> wrote, and
  \<open>SetConditions\<close> changes nothing else. The object types of the API interpret it. The clock
  (\<open>time.Now()\<close>) is the parameter \<open>now\<close>.

  The lemmas show: the order \<open>lexicographicLess\<close> is the one \<open>package sort\<close> requires and puts
  \<open>Ready\<close> first; the list of conditions keeps distinct types and stays sorted
  (\<open>wf_conditions\<close>); \<open>Set\<close> updates exactly one entry of the map from types to conditions, and
  moves its transition time only on a change; \<open>Delete\<close> removes exactly one entry.
\<close>

section \<open>Data\<close>

type_synonym ConditionType = string
type_synonym ConditionStatus = string
type_synonym ConditionSeverity = string

definition ConditionTrue :: ConditionStatus where [simp]: "ConditionTrue = ''True''"
definition ConditionFalse :: ConditionStatus where [simp]: "ConditionFalse = ''False''"
definition ConditionUnknown :: ConditionStatus where [simp]: "ConditionUnknown = ''Unknown''"

definition ConditionSeverityError :: ConditionSeverity where
  [simp]: "ConditionSeverityError = ''Error''"
definition ConditionSeverityWarning :: ConditionSeverity where
  [simp]: "ConditionSeverityWarning = ''Warning''"
definition ConditionSeverityInfo :: ConditionSeverity where
  [simp]: "ConditionSeverityInfo = ''Info''"
definition ConditionSeverityNone :: ConditionSeverity where
  [simp]: "ConditionSeverityNone = ''''"

definition ReadyCondition :: ConditionType where
  [klutch_defs]: "ReadyCondition = ''Ready''"

record condition =
  Type :: ConditionType
  Status :: ConditionStatus
  Severity :: ConditionSeverity
  LastTransitionTime :: time
  Reason :: string
  Message :: string

type_synonym conditions = "condition list"

section \<open>The interfaces Getter and Setter\<close>

record 'o getter =
  GetConditions :: "'o \<Rightarrow> conditions"
  GetName :: "'o \<Rightarrow> string"
  GetKind :: "'o \<Rightarrow> string"

record 'o setter = "'o getter" +
  SetConditions :: "'o \<Rightarrow> conditions \<Rightarrow> 'o"

section \<open>Reading conditions\<close>

fun findCondition :: "conditions \<Rightarrow> ConditionType \<Rightarrow> condition option" where
  "findCondition [] t = None"
| "findCondition (c # cs) t = (if Type c = t then Some c else findCondition cs t)"

definition Get_condition :: "('o, 'x) getter_scheme \<Rightarrow> 'o \<Rightarrow> ConditionType \<Rightarrow> condition option" where
  "Get_condition I from t = findCondition (GetConditions I from) t"

definition Has_condition :: "('o, 'x) getter_scheme \<Rightarrow> 'o \<Rightarrow> ConditionType \<Rightarrow> bool" where
  "Has_condition I from t \<longleftrightarrow> Get_condition I from t \<noteq> None"

definition IsTrue :: "('o, 'x) getter_scheme \<Rightarrow> 'o \<Rightarrow> ConditionType \<Rightarrow> bool" where
  "IsTrue I from t =
     (case Get_condition I from t of Some c \<Rightarrow> Status c = ConditionTrue | None \<Rightarrow> False)"

definition IsFalse :: "('o, 'x) getter_scheme \<Rightarrow> 'o \<Rightarrow> ConditionType \<Rightarrow> bool" where
  "IsFalse I from t =
     (case Get_condition I from t of Some c \<Rightarrow> Status c = ConditionFalse | None \<Rightarrow> False)"

definition IsUnknown :: "('o, 'x) getter_scheme \<Rightarrow> 'o \<Rightarrow> ConditionType \<Rightarrow> bool" where
  "IsUnknown I from t =
     (case Get_condition I from t of Some c \<Rightarrow> Status c = ConditionUnknown | None \<Rightarrow> True)"

definition GetReason :: "('o, 'x) getter_scheme \<Rightarrow> 'o \<Rightarrow> ConditionType \<Rightarrow> string" where
  "GetReason I from t = (case Get_condition I from t of Some c \<Rightarrow> Reason c | None \<Rightarrow> '''')"

definition GetMessage :: "('o, 'x) getter_scheme \<Rightarrow> 'o \<Rightarrow> ConditionType \<Rightarrow> string" where
  "GetMessage I from t = (case Get_condition I from t of Some c \<Rightarrow> Message c | None \<Rightarrow> '''')"

definition GetSeverity ::
  "('o, 'x) getter_scheme \<Rightarrow> 'o \<Rightarrow> ConditionType \<Rightarrow> ConditionSeverity option" where
  "GetSeverity I from t = (case Get_condition I from t of Some c \<Rightarrow> Some (Severity c) | None \<Rightarrow> None)"

definition GetLastTransitionTime ::
  "('o, 'x) getter_scheme \<Rightarrow> 'o \<Rightarrow> ConditionType \<Rightarrow> time option" where
  "GetLastTransitionTime I from t =
     (case Get_condition I from t of Some c \<Rightarrow> Some (LastTransitionTime c) | None \<Rightarrow> None)"

section \<open>Writing conditions\<close>

definition lexicographicLess :: "condition \<Rightarrow> condition \<Rightarrow> bool" where
  "lexicographicLess i j \<longleftrightarrow>
     (Type i = ReadyCondition \<or> Type i < Type j) \<and> Type j \<noteq> ReadyCondition"

definition hasSameState :: "condition \<Rightarrow> condition \<Rightarrow> bool" where
  "hasSameState i j \<longleftrightarrow>
     Type i = Type j \<and> Status i = Status j \<and> Reason i = Reason j \<and>
     Severity i = Severity j \<and> Message i = Message j"

text \<open>The loop of \<open>Set\<close> over the existing conditions, up to the first one of the same type.\<close>

fun setExisting :: "time \<Rightarrow> condition \<Rightarrow> conditions \<Rightarrow> conditions" where
  "setExisting now new [] = []"
| "setExisting now new (c # cs) =
     (if Type c = Type new
      then (if \<not> hasSameState c new
            then new\<lparr>LastTransitionTime := Truncate now second\<rparr> # cs
            else c # cs)
      else c # setExisting now new cs)"

definition existsType :: "ConditionType \<Rightarrow> conditions \<Rightarrow> bool" where
  "existsType t cs = list_ex (\<lambda>c. Type c = t) cs"

definition newEntry :: "time \<Rightarrow> condition \<Rightarrow> condition" where
  "newEntry now new =
     (if IsZero (LastTransitionTime new)
      then new\<lparr>LastTransitionTime := Truncate now second\<rparr> else new)"

definition updateConditions :: "time \<Rightarrow> condition \<Rightarrow> conditions \<Rightarrow> conditions" where
  "updateConditions now new cs =
     sortSlice lexicographicLess
       (if existsType (Type new) cs then setExisting now new cs else cs @ [newEntry now new])"

definition Set_condition :: "('o, 'x) setter_scheme \<Rightarrow> time \<Rightarrow> 'o \<Rightarrow> condition option \<Rightarrow> 'o" where
  "Set_condition I now to copt =
     (case copt of
        None \<Rightarrow> to
      | Some new \<Rightarrow> SetConditions I to (updateConditions now new (GetConditions I to)))"

definition TrueCondition :: "ConditionType \<Rightarrow> condition" where
  "TrueCondition t =
     \<lparr>Type = t, Status = ConditionTrue, Severity = '''', LastTransitionTime = 0,
      Reason = '''', Message = ''''\<rparr>"

definition FalseConditionWithFormat ::
  "ConditionType \<Rightarrow> string \<Rightarrow> ConditionSeverity \<Rightarrow> string \<Rightarrow> fmtarg list \<Rightarrow> condition" where
  "FalseConditionWithFormat t rsn sev messageFormat messageArgs =
     \<lparr>Type = t, Status = ConditionFalse, Severity = sev, LastTransitionTime = 0,
      Reason = rsn, Message = Sprintf messageFormat messageArgs\<rparr>"

definition FalseCondition ::
  "ConditionType \<Rightarrow> string \<Rightarrow> ConditionSeverity \<Rightarrow> string \<Rightarrow> condition" where
  "FalseCondition t rsn sev msg = FalseConditionWithFormat t rsn sev ''%s'' [FStr msg]"

definition UnknownConditionWithFormat ::
  "ConditionType \<Rightarrow> string \<Rightarrow> string \<Rightarrow> fmtarg list \<Rightarrow> condition" where
  "UnknownConditionWithFormat t rsn messageFormat messageArgs =
     \<lparr>Type = t, Status = ConditionUnknown, Severity = '''', LastTransitionTime = 0,
      Reason = rsn, Message = Sprintf messageFormat messageArgs\<rparr>"

definition UnknownCondition ::
  "ConditionType \<Rightarrow> string \<Rightarrow> string \<Rightarrow> fmtarg list \<Rightarrow> condition" where
  "UnknownCondition t rsn msg messageArgs = UnknownConditionWithFormat t rsn ''%s'' [FStr msg]"

definition MarkTrue :: "('o, 'x) setter_scheme \<Rightarrow> time \<Rightarrow> 'o \<Rightarrow> ConditionType \<Rightarrow> 'o" where
  "MarkTrue I now to t = Set_condition I now to (Some (TrueCondition t))"

definition MarkUnknown ::
  "('o, 'x) setter_scheme \<Rightarrow> time \<Rightarrow> 'o \<Rightarrow> ConditionType \<Rightarrow> string \<Rightarrow> string \<Rightarrow> fmtarg list \<Rightarrow> 'o" where
  "MarkUnknown I now to t rsn messageFormat messageArgs =
     Set_condition I now to (Some (UnknownCondition t rsn messageFormat messageArgs))"

definition MarkFalse ::
  "('o, 'x) setter_scheme \<Rightarrow> time \<Rightarrow> 'o \<Rightarrow> ConditionType \<Rightarrow> string \<Rightarrow> ConditionSeverity \<Rightarrow>
     string \<Rightarrow> fmtarg list \<Rightarrow> 'o" where
  "MarkFalse I now to t rsn sev messageFormat messageArgs =
     Set_condition I now to (Some (FalseConditionWithFormat t rsn sev messageFormat messageArgs))"

definition Delete_condition :: "('o, 'x) setter_scheme \<Rightarrow> 'o \<Rightarrow> ConditionType \<Rightarrow> 'o" where
  "Delete_condition I to t =
     SetConditions I to (filter (\<lambda>c. Type c \<noteq> t) (GetConditions I to))"

section \<open>The order of conditions\<close>

interpretation cond_order: strict_weak_order lexicographicLess
  by unfold_locales (auto simp: lexicographicLess_def)

text \<open>
  The abstract view: a list of conditions is a map from condition types to conditions; it is
  well-formed when no type occurs twice and the list is in the order of \<open>lexicographicLess\<close>.
\<close>

definition distinctTypes :: "conditions \<Rightarrow> bool" where
  "distinctTypes cs = distinct (map Type cs)"

definition wf_conditions :: "conditions \<Rightarrow> bool" where
  "wf_conditions cs \<longleftrightarrow> distinctTypes cs \<and> sorted_wrt lexicographicLess cs"

lemma lexicographicLess_total: "Type i \<noteq> Type j \<Longrightarrow> lexicographicLess i j \<or> lexicographicLess j i"
  by (auto simp: lexicographicLess_def)

lemma distinctTypes_mset: "mset cs = mset ds \<Longrightarrow> distinctTypes cs \<longleftrightarrow> distinctTypes ds"
  by (metis distinctTypes_def mset_eq_imp_distinct_iff mset_map)

lemma distinctTypes_sortSlice [simp]: "distinctTypes (sortSlice lexicographicLess cs) = distinctTypes cs"
  by (rule distinctTypes_mset) simp

lemma sorted_strict:
  "distinctTypes cs \<Longrightarrow> sorted_wrt (\<lambda>a b. \<not> lexicographicLess b a) cs \<Longrightarrow> sorted_wrt lexicographicLess cs"
proof (induction cs)
  case (Cons c cs)
  then have "\<forall>d \<in> set cs. Type c \<noteq> Type d"
    by (auto simp: distinctTypes_def)
  with Cons show ?case
    using lexicographicLess_total by (fastforce simp: distinctTypes_def)
qed simp

lemma wf_sortSlice: "distinctTypes cs \<Longrightarrow> wf_conditions (sortSlice lexicographicLess cs)"
  by (simp add: wf_conditions_def sorted_strict cond_order.sortSlice_sorted)

section \<open>Lookup\<close>

lemma findCondition_None_iff: "findCondition cs t = None \<longleftrightarrow> t \<notin> Type ` set cs"
  by (induction cs) auto

lemma findCondition_SomeD: "findCondition cs t = Some c \<Longrightarrow> c \<in> set cs \<and> Type c = t"
  by (induction cs) (auto split: if_splits)

lemma findCondition_eq_Some_iff:
  "distinctTypes cs \<Longrightarrow> findCondition cs t = Some c \<longleftrightarrow> c \<in> set cs \<and> Type c = t"
  by (induction cs) (auto simp: distinctTypes_def image_iff)

lemma findCondition_mset:
  assumes "mset cs = mset ds" and "distinctTypes cs"
  shows "findCondition cs t = findCondition ds t"
proof -
  have "distinctTypes ds" and sets: "set cs = set ds"
    using assms distinctTypes_mset[OF assms(1)] mset_eq_setD[OF assms(1)] by simp_all
  then have "findCondition cs t = Some c \<longleftrightarrow> findCondition ds t = Some c" for c
    using assms(2) by (simp add: findCondition_eq_Some_iff)
  then show ?thesis
    by (metis not_Some_eq)
qed

lemma findCondition_sortSlice:
  "distinctTypes cs \<Longrightarrow> findCondition (sortSlice lexicographicLess cs) t = findCondition cs t"
  by (rule findCondition_mset) simp_all

lemma findCondition_append:
  "findCondition (cs @ ds) t = (case findCondition cs t of None \<Rightarrow> findCondition ds t | Some c \<Rightarrow> Some c)"
  by (induction cs) auto

lemma existsType_iff: "existsType t cs \<longleftrightarrow> t \<in> Type ` set cs"
  by (auto simp: existsType_def list_ex_iff)

lemma Type_newEntry [simp]: "Type (newEntry now c) = Type c"
  by (simp add: newEntry_def)

lemma map_Type_setExisting: "map Type (setExisting now new cs) = map Type cs"
  by (induction cs) auto

lemma distinctTypes_before_sort:
  "distinctTypes cs \<Longrightarrow>
   distinctTypes (if existsType (Type new) cs then setExisting now new cs else cs @ [newEntry now new])"
  by (auto simp: distinctTypes_def map_Type_setExisting existsType_iff)

text \<open>The entry that \<open>Set\<close> stores, given the one it finds.\<close>

definition storedEntry :: "time \<Rightarrow> condition \<Rightarrow> condition option \<Rightarrow> condition" where
  "storedEntry now new old =
     (case old of
        None \<Rightarrow> newEntry now new
      | Some c \<Rightarrow> if hasSameState c new then c else new\<lparr>LastTransitionTime := Truncate now second\<rparr>)"

lemma findCondition_setExisting:
  "existsType (Type new) cs \<Longrightarrow>
   findCondition (setExisting now new cs) t =
     (if t = Type new then Some (storedEntry now new (findCondition cs t)) else findCondition cs t)"
  by (induction cs) (auto simp: existsType_def storedEntry_def hasSameState_def)

lemma findCondition_updateConditions:
  assumes "distinctTypes cs"
  shows "findCondition (updateConditions now new cs) t =
     (if t = Type new then Some (storedEntry now new (findCondition cs t)) else findCondition cs t)"
proof (cases "existsType (Type new) cs")
  case True
  then show ?thesis
    using distinctTypes_before_sort[OF assms, of new now]
    by (simp add: updateConditions_def findCondition_sortSlice findCondition_setExisting)
next
  case False
  then have "findCondition cs (Type new) = None"
    by (simp add: findCondition_None_iff existsType_iff)
  with False show ?thesis
    using distinctTypes_before_sort[OF assms, of new now]
    by (auto simp: updateConditions_def findCondition_sortSlice findCondition_append storedEntry_def
        split: option.splits)
qed

lemma wf_updateConditions: "distinctTypes cs \<Longrightarrow> wf_conditions (updateConditions now new cs)"
  unfolding updateConditions_def by (intro wf_sortSlice distinctTypes_before_sort)

lemma hasSameState_storedEntry: "hasSameState (storedEntry now new (findCondition cs (Type new))) new"
  by (auto simp: storedEntry_def hasSameState_def newEntry_def split: option.splits)

lemma storedEntry_stable:
  "storedEntry now' new (Some (storedEntry now new (findCondition cs (Type new)))) =
   storedEntry now new (findCondition cs (Type new))"
  by (simp add: storedEntry_def[of now'] hasSameState_storedEntry)

text \<open>Two well-formed lists that agree as maps are equal: the order is canonical.\<close>

lemma wf_conditions_ext:
  assumes "wf_conditions cs" and "wf_conditions ds"
    and "\<And>t. findCondition cs t = findCondition ds t"
  shows "cs = ds"
proof -
  have dt: "distinctTypes cs" "distinctTypes ds"
    using assms by (simp_all add: wf_conditions_def)
  then have "set cs = set ds"
    using assms(3) findCondition_eq_Some_iff by (metis subsetI subset_antisym)
  moreover have "distinct cs" "distinct ds"
    using dt by (simp_all add: distinctTypes_def distinct_map)
  ultimately have "mset cs = mset ds"
    by (simp add: set_eq_iff_mset_eq_distinct)
  moreover have "sorted_wrt (\<lambda>a b. \<not> lexicographicLess b a) cs"
      "sorted_wrt (\<lambda>a b. \<not> lexicographicLess b a) ds"
    using assms(1,2) cond_order.less_asym by (auto simp: wf_conditions_def elim: sorted_wrt_mono_rel[rotated])
  moreover have "a = b" if "a \<in> set cs" "b \<in> set cs" "\<not> lexicographicLess a b" "\<not> lexicographicLess b a"
    for a b
    using that dt(1) lexicographicLess_total[of a b] by (metis distinctTypes_def distinct_map inj_onD)
  ultimately show ?thesis
    by (rule cond_order.sorted_unique)
qed

section \<open>The contract of Setter\<close>

text \<open>
  What the package relies on in an object: its conditions are a field of their own.
\<close>

locale condition_setter =
  fixes I :: "('o, 'x) setter_scheme"
  assumes get_set [simp]: "GetConditions I (SetConditions I to cs) = cs"
    and set_set [simp]: "SetConditions I (SetConditions I to cs) ds = SetConditions I to ds"
    and name_set [simp]: "GetName I (SetConditions I to cs) = GetName I to"
    and kind_set [simp]: "GetKind I (SetConditions I to cs) = GetKind I to"
begin

lemma get_Set:
  assumes "distinctTypes (GetConditions I to)"
  shows "Get_condition I (Set_condition I now to (Some new)) t =
     (if t = Type new then Some (storedEntry now new (Get_condition I to t)) else Get_condition I to t)"
  by (simp add: Get_condition_def Set_condition_def findCondition_updateConditions assms)

lemma distinctTypes_Set:
  "distinctTypes (GetConditions I to) \<Longrightarrow> distinctTypes (GetConditions I (Set_condition I now to copt))"
  using wf_updateConditions
  by (auto simp: Set_condition_def wf_conditions_def split: option.splits)

lemma wf_Set:
  "distinctTypes (GetConditions I to) \<Longrightarrow> wf_conditions (GetConditions I (Set_condition I now to (Some new)))"
  by (simp add: Set_condition_def wf_updateConditions)

lemma Set_frame: "SetConditions I (Set_condition I now to copt) cs = SetConditions I to cs"
  by (simp add: Set_condition_def split: option.splits)

lemma name_Set [simp]: "GetName I (Set_condition I now to copt) = GetName I to"
  by (simp add: Set_condition_def split: option.splits)

lemma Set_again:
  assumes "distinctTypes (GetConditions I to)"
  shows "Set_condition I now' (Set_condition I now to (Some new)) (Some new) =
         Set_condition I now to (Some new)"
proof -
  let ?cs = "GetConditions I to"
  have dt: "distinctTypes (updateConditions now new ?cs)"
    using wf_updateConditions[OF assms] by (simp add: wf_conditions_def)
  have "updateConditions now' new (updateConditions now new ?cs) = updateConditions now new ?cs"
    by (rule wf_conditions_ext)
      (simp_all add: wf_updateConditions dt assms findCondition_updateConditions storedEntry_stable)
  then show ?thesis
    by (simp add: Set_condition_def)
qed

lemma get_Delete:
  "Get_condition I (Delete_condition I to t) t' = (if t' = t then None else Get_condition I to t')"
proof -
  have "findCondition (filter (\<lambda>c. Type c \<noteq> t) cs) t' = (if t' = t then None else findCondition cs t')" for cs
    by (induction cs) auto
  then show ?thesis
    by (simp add: Get_condition_def Delete_condition_def)
qed

lemma distinctTypes_Delete:
  "distinctTypes (GetConditions I to) \<Longrightarrow> distinctTypes (GetConditions I (Delete_condition I to t))"
  by (simp add: Delete_condition_def distinctTypes_def distinct_map_filter)

lemma Status_storedEntry:
  "Status (storedEntry now new (Get_condition I to (Type new))) = Status new"
  using hasSameState_storedEntry[of now new "GetConditions I to"]
  by (simp add: hasSameState_def Get_condition_def)

lemma IsTrue_MarkTrue [simp]:
  "distinctTypes (GetConditions I to) \<Longrightarrow> IsTrue I (MarkTrue I now to t) t"
  using Status_storedEntry[of now "TrueCondition t" to]
  by (simp add: IsTrue_def MarkTrue_def get_Set) (simp add: TrueCondition_def)

lemma IsFalse_MarkFalse [simp]:
  "distinctTypes (GetConditions I to) \<Longrightarrow> IsFalse I (MarkFalse I now to t r s f as) t"
  using Status_storedEntry[of now "FalseConditionWithFormat t r s f as" to]
  by (simp add: IsFalse_def MarkFalse_def get_Set) (simp add: FalseConditionWithFormat_def)

lemma Mark_other:
  assumes "distinctTypes (GetConditions I to)" and "t' \<noteq> t"
  shows "Get_condition I (MarkTrue I now to t) t' = Get_condition I to t'"
    and "Get_condition I (MarkFalse I now to t r s f as) t' = Get_condition I to t'"
  using assms
  by (simp_all add: MarkTrue_def MarkFalse_def get_Set TrueCondition_def FalseConditionWithFormat_def)

lemma distinctTypes_Mark:
  assumes "distinctTypes (GetConditions I to)"
  shows "distinctTypes (GetConditions I (MarkTrue I now to t))"
    and "distinctTypes (GetConditions I (MarkFalse I now to t r s f as))"
  using assms by (simp_all add: MarkTrue_def MarkFalse_def distinctTypes_Set)

end

section \<open>Reading marks back\<close>

text \<open>\<open>marked I o' t st sev\<close>: the object has a condition of this type with this status and severity.\<close>

definition marked ::
  "('o, 'x) getter_scheme \<Rightarrow> 'o \<Rightarrow> ConditionType \<Rightarrow> ConditionStatus \<Rightarrow> ConditionSeverity \<Rightarrow> bool" where
  "marked I o' t st sev =
     (case Get_condition I o' t of None \<Rightarrow> False | Some c \<Rightarrow> Status c = st \<and> Severity c = sev)"

lemma IsTrue_marked: "marked I o' t st sev \<Longrightarrow> IsTrue I o' t \<longleftrightarrow> st = ConditionTrue"
  by (simp add: marked_def IsTrue_def split: option.splits)

context condition_setter
begin

lemma marked_Set:
  assumes "distinctTypes (GetConditions I to)"
  shows "marked I (Set_condition I now to (Some new)) (Type new) (Status new) (Severity new)"
  using hasSameState_storedEntry[of now new "GetConditions I to"]
  by (simp add: marked_def get_Set assms) (simp add: hasSameState_def Get_condition_def)

lemma marked_MarkTrue:
  "distinctTypes (GetConditions I to) \<Longrightarrow> marked I (MarkTrue I now to t) t ConditionTrue ''''"
  using marked_Set[of to now "TrueCondition t"] unfolding MarkTrue_def by (simp add: TrueCondition_def)

lemma marked_MarkFalse:
  "distinctTypes (GetConditions I to) \<Longrightarrow> marked I (MarkFalse I now to t r s f as) t ConditionFalse s"
  using marked_Set[of to now "FalseConditionWithFormat t r s f as"]
  unfolding MarkFalse_def by (simp add: FalseConditionWithFormat_def)

lemma marked_other:
  assumes "distinctTypes (GetConditions I to)" and "t' \<noteq> t"
  shows "marked I (MarkTrue I now to t) t' = marked I to t'"
    and "marked I (MarkFalse I now to t r s f as) t' = marked I to t'"
  by (simp_all add: marked_def fun_eq_iff Mark_other[OF assms])

lemma types_Set:
  "Type ` set (GetConditions I (Set_condition I now to (Some new))) =
     insert (Type new) (Type ` set (GetConditions I to))"
proof -
  have types: "Type ` set cs = set (map Type cs)" for cs by simp
  have "Type ` set (setExisting now new cs) = Type ` set cs" for cs
    unfolding types map_Type_setExisting ..
  then show ?thesis
    by (auto simp: Set_condition_def updateConditions_def existsType_iff)
qed

lemma types_Mark:
  "Type ` set (GetConditions I (MarkTrue I now to t)) = insert t (Type ` set (GetConditions I to))"
  "Type ` set (GetConditions I (MarkFalse I now to t r s f as)) = insert t (Type ` set (GetConditions I to))"
  by (simp_all add: MarkTrue_def MarkFalse_def types_Set TrueCondition_def FalseConditionWithFormat_def)

end

end
