(* ===== verification/Condition_Merge.thy ===== *)
theory Condition_Merge
  imports Conditions
begin

text \<open>
  Merging conditions: \<open>util/conditions/merge.go\<close>, \<open>merge_strategies.go\<close> and the functions
  \<open>summary\<close>, \<open>mirror\<close> and \<open>aggregate\<close> of \<open>getter.go\<close> with their setters. A
  \<open>localizedCondition\<close> is a condition, or nil, with the object it comes from; a group never
  holds a nil condition. An option is a function on \<open>mergeOptions\<close>, and the nil slice is the empty
  list, since a variadic call without arguments passes nil.

  The lemmas show that the merged condition is decided by a condition of least
  \<open>mergePriority\<close>, whatever the order of the list (\<open>merge_decided\<close>), and from it what
  the Ready condition of an object says after \<open>SetSummary\<close>.
\<close>

section \<open>Groups\<close>

type_synonym 'o localizedCondition = "condition option \<times> 'o"
type_synonym 'o located = "condition \<times> 'o"

record 'o conditionGroup =
  g_status :: ConditionStatus
  g_severity :: ConditionSeverity
  g_conditions :: "'o located list"

definition priorityOf :: "ConditionStatus \<Rightarrow> ConditionSeverity \<Rightarrow> nat" where
  "priorityOf st sev =
     (if st = ConditionFalse \<and> sev = ConditionSeverityError then 0
      else if st = ConditionFalse \<and> sev = ConditionSeverityWarning then 1
      else if st = ConditionFalse \<and> sev = ConditionSeverityInfo then 2
      else if st = ConditionTrue then 3
      else if st = ConditionUnknown then 4
      else 99)"

definition mergePriority :: "('o, 'x) conditionGroup_scheme \<Rightarrow> nat" where
  "mergePriority g = priorityOf (g_status g) (g_severity g)"

definition groupsLess :: "'o conditionGroup \<Rightarrow> 'o conditionGroup \<Rightarrow> bool" where
  "groupsLess a b \<longleftrightarrow> mergePriority a < mergePriority b"

fun addToGroups :: "'o conditionGroup list \<Rightarrow> 'o located \<Rightarrow> 'o conditionGroup list" where
  "addToGroups [] lc =
     [\<lparr>g_status = Status (fst lc), g_severity = Severity (fst lc), g_conditions = [lc]\<rparr>]"
| "addToGroups (g # gs) lc =
     (if g_status g = Status (fst lc) \<and> g_severity g = Severity (fst lc)
      then g\<lparr>g_conditions := g_conditions g @ [lc]\<rparr> # gs
      else g # addToGroups gs lc)"

fun groupConditions ::
  "'o conditionGroup list \<Rightarrow> 'o localizedCondition list \<Rightarrow> 'o conditionGroup list" where
  "groupConditions gs [] = gs"
| "groupConditions gs ((None, src) # lcs) = groupConditions gs lcs"
| "groupConditions gs ((Some c, src) # lcs) = groupConditions (addToGroups gs (c, src)) lcs"

definition topLess :: "('o, 'x) getter_scheme \<Rightarrow> 'o located \<Rightarrow> 'o located \<Rightarrow> bool" where
  "topLess I a b =
     (if Type (fst a) \<noteq> Type (fst b) then lexicographicLess (fst a) (fst b)
      else GetName I (snd a) < GetName I (snd b))"

definition getConditionGroups ::
  "('o, 'x) getter_scheme \<Rightarrow> 'o localizedCondition list \<Rightarrow> 'o conditionGroup list" where
  "getConditionGroups I conditions =
     (case sortSlice groupsLess (groupConditions [] conditions) of
        [] \<Rightarrow> []
      | g # gs \<Rightarrow> g\<lparr>g_conditions := sortSlice (topLess I) (g_conditions g)\<rparr> # gs)"

definition TopGroup :: "'o conditionGroup list \<Rightarrow> 'o conditionGroup option" where
  "TopGroup gs = (case gs of [] \<Rightarrow> None | g # _ \<Rightarrow> Some g)"

definition getByStatusAndSeverity ::
  "'o conditionGroup list \<Rightarrow> ConditionStatus \<Rightarrow> ConditionSeverity \<Rightarrow> 'o conditionGroup option" where
  "getByStatusAndSeverity gs st sev = find (\<lambda>g. g_status g = st \<and> g_severity g = sev) gs"

definition TrueGroup :: "'o conditionGroup list \<Rightarrow> 'o conditionGroup option" where
  "TrueGroup gs = getByStatusAndSeverity gs ConditionTrue ConditionSeverityNone"

definition ErrorGroup :: "'o conditionGroup list \<Rightarrow> 'o conditionGroup option" where
  "ErrorGroup gs = getByStatusAndSeverity gs ConditionFalse ConditionSeverityError"

definition WarningGroup :: "'o conditionGroup list \<Rightarrow> 'o conditionGroup option" where
  "WarningGroup gs = getByStatusAndSeverity gs ConditionFalse ConditionSeverityWarning"

section \<open>Strategies\<close>

record mergeOptions =
  conditionTypes :: "ConditionType list"
  addSourceRef :: bool
  addStepCounter :: bool
  addStepCounterIfOnlyConditionTypes :: "ConditionType list"
  stepCounter :: nat

type_synonym MergeOption = "mergeOptions \<Rightarrow> mergeOptions"

definition noMergeOptions :: mergeOptions where
  "noMergeOptions = \<lparr>conditionTypes = [], addSourceRef = False, addStepCounter = False,
     addStepCounterIfOnlyConditionTypes = [], stepCounter = 0\<rparr>"

definition WithConditions :: "ConditionType list \<Rightarrow> MergeOption" where
  "WithConditions t = (\<lambda>c. c\<lparr>conditionTypes := t\<rparr>)"

definition WithStepCounter :: MergeOption where
  "WithStepCounter = (\<lambda>c. c\<lparr>addStepCounter := True\<rparr>)"

definition WithStepCounterIf :: "bool \<Rightarrow> MergeOption" where
  "WithStepCounterIf v = (\<lambda>c. c\<lparr>addStepCounter := v\<rparr>)"

definition WithStepCounterIfOnly :: "ConditionType list \<Rightarrow> MergeOption" where
  "WithStepCounterIfOnly t = (\<lambda>c. c\<lparr>addStepCounterIfOnlyConditionTypes := t\<rparr>)"

definition AddSourceRef :: MergeOption where
  "AddSourceRef = (\<lambda>c. c\<lparr>addSourceRef := True\<rparr>)"

definition applyMergeOptions :: "MergeOption list \<Rightarrow> mergeOptions \<Rightarrow> mergeOptions" where
  "applyMergeOptions options o0 = foldl (\<lambda>m opt. opt m) o0 options"

fun firstByPriority :: "ConditionType list \<Rightarrow> 'o located list \<Rightarrow> 'o located option" where
  "firstByPriority [] lcs = None"
| "firstByPriority (p # ps) lcs =
     (case find (\<lambda>lc. Type (fst lc) = p) lcs of
        Some lc \<Rightarrow> Some lc
      | None \<Rightarrow> firstByPriority ps lcs)"

definition getFirstCondition ::
  "'o conditionGroup list \<Rightarrow> ConditionType list \<Rightarrow> 'o located option" where
  "getFirstCondition gs prio =
     (case TopGroup gs of
        None \<Rightarrow> None
      | Some g \<Rightarrow>
          (case g_conditions g of
             [] \<Rightarrow> None
           | [lc] \<Rightarrow> Some lc
           | lc # lcs \<Rightarrow>
               (case firstByPriority prio (lc # lcs) of
                  Some lc' \<Rightarrow> Some lc'
                | None \<Rightarrow> Some lc)))"

definition localizeReason :: "('o, 'x) getter_scheme \<Rightarrow> string \<Rightarrow> 'o \<Rightarrow> string" where
  "localizeReason I rsn src =
     (if Contains rsn ''@'' then rsn
      else Sprintf ''%s @ %s/%s'' [FStr rsn, FStr (GetKind I src), FStr (GetName I src)])"

definition getFirstReason ::
  "('o, 'x) getter_scheme \<Rightarrow> 'o conditionGroup list \<Rightarrow> ConditionType list \<Rightarrow> bool \<Rightarrow> string" where
  "getFirstReason I gs order addRef =
     (case getFirstCondition gs order of
        None \<Rightarrow> ''''
      | Some lc \<Rightarrow> if addRef then localizeReason I (Reason (fst lc)) (snd lc) else Reason (fst lc))"

definition getReason_merge ::
  "('o, 'x) getter_scheme \<Rightarrow> 'o conditionGroup list \<Rightarrow> mergeOptions \<Rightarrow> string" where
  "getReason_merge I gs options = getFirstReason I gs (conditionTypes options) (addSourceRef options)"

definition getStepCounterMessage :: "'o conditionGroup list \<Rightarrow> nat \<Rightarrow> string" where
  "getStepCounterMessage gs to =
     (let ct = (case TrueGroup gs of None \<Rightarrow> 0 | Some g \<Rightarrow> length (g_conditions g))
      in Sprintf ''%d of %d completed'' [FInt (int ct), FInt (int to)])"

definition getFirstMessage :: "'o conditionGroup list \<Rightarrow> ConditionType list \<Rightarrow> string" where
  "getFirstMessage gs order =
     (case getFirstCondition gs order of None \<Rightarrow> '''' | Some lc \<Rightarrow> Message (fst lc))"

definition getMessage_merge :: "'o conditionGroup list \<Rightarrow> mergeOptions \<Rightarrow> string" where
  "getMessage_merge gs options =
     (if addStepCounter options then getStepCounterMessage gs (stepCounter options)
      else getFirstMessage gs (conditionTypes options))"

section \<open>merge, summary, mirror, aggregate\<close>

definition merge_conditions ::
  "('o, 'x) getter_scheme \<Rightarrow> 'o localizedCondition list \<Rightarrow> ConditionType \<Rightarrow> mergeOptions \<Rightarrow>
     condition option" where
  "merge_conditions I conditions target options =
     (let g = getConditionGroups I conditions in
      case TopGroup g of
        None \<Rightarrow> None
      | Some tg \<Rightarrow>
          if g_status tg = ConditionTrue then Some (TrueCondition target)
          else
            (let targetReason = getReason_merge I g options;
                 targetMessage = getMessage_merge g options
             in if g_status tg = ConditionFalse
                then Some (FalseCondition target targetReason (g_severity tg) targetMessage)
                else Some (UnknownCondition target targetReason targetMessage [])))"

definition inScope :: "mergeOptions \<Rightarrow> condition \<Rightarrow> bool" where
  "inScope opts c \<longleftrightarrow>
     Type c \<noteq> ReadyCondition \<and> (conditionTypes opts \<noteq> [] \<longrightarrow> Type c \<in> set (conditionTypes opts))"

definition summaryCounter :: "condition list \<Rightarrow> mergeOptions \<Rightarrow> mergeOptions" where
  "summaryCounter scope opts =
     (let only = addStepCounterIfOnlyConditionTypes opts;
          opts1 = (if only \<noteq> [] \<and> \<not> list_all (\<lambda>c. Type c \<in> set only) scope
                   then opts\<lparr>addStepCounter := False\<rparr> else opts)
      in if addStepCounter opts1
         then opts1\<lparr>stepCounter :=
                (if only \<noteq> [] then length only
                 else if conditionTypes opts \<noteq> [] then length (conditionTypes opts)
                 else length scope)\<rparr>
         else opts1)"

definition summary ::
  "('o, 'x) getter_scheme \<Rightarrow> 'o \<Rightarrow> MergeOption list \<Rightarrow> condition option" where
  "summary I src options =
     (let opts = applyMergeOptions options noMergeOptions;
          scope = filter (inScope opts) (GetConditions I src)
      in merge_conditions I (map (\<lambda>c. (Some c, src)) scope) ReadyCondition (summaryCounter scope opts))"

definition SetSummary ::
  "('o, 'x) setter_scheme \<Rightarrow> time \<Rightarrow> 'o \<Rightarrow> MergeOption list \<Rightarrow> 'o" where
  "SetSummary I now to options = Set_condition I now to (summary I to options)"

record mirrorOptions =
  fallbackTo :: "bool option"
  fallbackReason :: string
  fallbackSeverity :: ConditionSeverity
  fallbackMessage :: string

definition noMirrorOptions :: mirrorOptions where
  "noMirrorOptions = \<lparr>fallbackTo = None, fallbackReason = '''', fallbackSeverity = '''', fallbackMessage = ''''\<rparr>"

definition WithFallbackValue ::
  "bool \<Rightarrow> string \<Rightarrow> ConditionSeverity \<Rightarrow> string \<Rightarrow> mirrorOptions \<Rightarrow> mirrorOptions" where
  "WithFallbackValue v rsn sev msg c =
     c\<lparr>fallbackTo := Some v, fallbackReason := rsn, fallbackSeverity := sev, fallbackMessage := msg\<rparr>"

definition mirror ::
  "('p, 'y) getter_scheme \<Rightarrow> 'p \<Rightarrow> ConditionType \<Rightarrow> (mirrorOptions \<Rightarrow> mirrorOptions) list \<Rightarrow>
     condition option" where
  "mirror J src target options =
     (let opt = foldl (\<lambda>m f. f m) noMirrorOptions options;
          found = Get_condition J src ReadyCondition;
          c = (case (fallbackTo opt, found) of
                 (Some True, None) \<Rightarrow> Some (TrueCondition target)
               | (Some False, None) \<Rightarrow>
                   Some (FalseCondition target (fallbackReason opt) (fallbackSeverity opt) (fallbackMessage opt))
               | _ \<Rightarrow> found)
      in map_option (\<lambda>d. d\<lparr>Type := target\<rparr>) c)"

definition SetMirror ::
  "('o, 'x) setter_scheme \<Rightarrow> ('p, 'y) getter_scheme \<Rightarrow> time \<Rightarrow> 'o \<Rightarrow> ConditionType \<Rightarrow> 'p \<Rightarrow>
     (mirrorOptions \<Rightarrow> mirrorOptions) list \<Rightarrow> 'o" where
  "SetMirror I J now to target src options = Set_condition I now to (mirror J src target options)"

definition aggregate ::
  "('p, 'y) getter_scheme \<Rightarrow> 'p list \<Rightarrow> ConditionType \<Rightarrow> MergeOption list \<Rightarrow> condition option" where
  "aggregate J src target options =
     merge_conditions J (map (\<lambda>o'. (Get_condition J o' ReadyCondition, o')) src) target
       (applyMergeOptions options (noMergeOptions\<lparr>addStepCounter := True, stepCounter := length src\<rparr>))"

definition SetAggregate ::
  "('o, 'x) setter_scheme \<Rightarrow> ('p, 'y) getter_scheme \<Rightarrow> time \<Rightarrow> 'o \<Rightarrow> ConditionType \<Rightarrow> 'p list \<Rightarrow>
     MergeOption list \<Rightarrow> 'o" where
  "SetAggregate I J now to target src options = Set_condition I now to (aggregate J src target options)"

section \<open>The orders are those package sort requires\<close>

interpretation group_order: strict_weak_order groupsLess
  by unfold_locales (auto simp: groupsLess_def)

interpretation top_order: strict_weak_order "topLess I" for I :: "('o, 'x) getter_scheme"
  by unfold_locales (auto simp: topLess_def lexicographicLess_def split: if_splits)

section \<open>What the groups hold\<close>

definition nonNil :: "'o localizedCondition list \<Rightarrow> 'o located set" where
  "nonNil lcs = {(c, src). (Some c, src) \<in> set lcs}"

definition uniformGroup :: "'o conditionGroup \<Rightarrow> bool" where
  "uniformGroup g \<longleftrightarrow> g_conditions g \<noteq> [] \<and>
     (\<forall>lc \<in> set (g_conditions g). Status (fst lc) = g_status g \<and> Severity (fst lc) = g_severity g)"

definition members :: "'o conditionGroup list \<Rightarrow> 'o located set" where
  "members gs = (\<Union>g \<in> set gs. set (g_conditions g))"

definition groupsHold :: "'o conditionGroup list \<Rightarrow> 'o located set \<Rightarrow> bool" where
  "groupsHold gs S \<longleftrightarrow> members gs = S \<and> list_all uniformGroup gs"

lemma members_simps [simp]:
  "members [] = {}" "members (g # gs) = set (g_conditions g) \<union> members gs"
  by (simp_all add: members_def)

lemma uniformGroup_new:
  "uniformGroup \<lparr>g_status = Status (fst lc), g_severity = Severity (fst lc), g_conditions = [lc]\<rparr>"
  by (simp add: uniformGroup_def)

lemma uniformGroup_append:
  "uniformGroup g \<Longrightarrow> g_status g = Status (fst lc) \<Longrightarrow> g_severity g = Severity (fst lc) \<Longrightarrow>
   uniformGroup (g\<lparr>g_conditions := g_conditions g @ [lc]\<rparr>)"
  by (simp add: uniformGroup_def)

lemma uniformGroup_sorted:
  "uniformGroup (g\<lparr>g_conditions := sortSlice lt (g_conditions g)\<rparr>) = uniformGroup g"
  by (simp add: uniformGroup_def)

lemma members_add: "members (addToGroups gs lc) = insert lc (members gs)"
  by (induction gs) simp_all

lemma uniform_add: "list_all uniformGroup gs \<Longrightarrow> list_all uniformGroup (addToGroups gs lc)"
  by (induction gs) (simp_all add: uniformGroup_new uniformGroup_append)

lemma groupsHold_add: "groupsHold gs S \<Longrightarrow> groupsHold (addToGroups gs lc) (insert lc S)"
  by (simp add: groupsHold_def members_add uniform_add)

lemma nonNil_simps [simp]:
  "nonNil [] = {}" "nonNil ((None, src) # lcs) = nonNil lcs"
  "nonNil ((Some c, src) # lcs) = insert (c, src) (nonNil lcs)"
  by (auto simp: nonNil_def)

lemma groupsHold_group: "groupsHold gs S \<Longrightarrow> groupsHold (groupConditions gs lcs) (S \<union> nonNil lcs)"
proof (induction gs lcs arbitrary: S rule: groupConditions.induct)
  case (3 gs c src lcs)
  from 3(1)[OF groupsHold_add[OF 3(2), of "(c, src)"]] show ?case by simp
qed auto

lemma groupsHold_sort: "groupsHold (sortSlice groupsLess gs) S = groupsHold gs S"
  by (simp add: groupsHold_def members_def list_all_iff)

lemma groupsHold_groups: "groupsHold (getConditionGroups I lcs) (nonNil lcs)"
proof -
  have h: "groupsHold (sortSlice groupsLess (groupConditions [] lcs)) (nonNil lcs)"
    using groupsHold_group[of "[]" "{}" lcs] by (simp add: groupsHold_sort) (simp add: groupsHold_def)
  show ?thesis
  proof (cases "sortSlice groupsLess (groupConditions [] lcs)")
    case Nil
    with h show ?thesis by (simp add: getConditionGroups_def)
  next
    case (Cons g gs)
    with h have "groupsHold (g # gs) (nonNil lcs)" by simp
    with Cons show ?thesis
      by (simp add: getConditionGroups_def groupsHold_def uniformGroup_sorted)
  qed
qed

lemma topGroup_least:
  assumes "getConditionGroups I lcs = tg # gs" and "g \<in> set (tg # gs)"
  shows "mergePriority tg \<le> mergePriority g"
proof -
  let ?s = "sortSlice groupsLess (groupConditions [] lcs)"
  obtain t where t: "?s = t # gs" and tg: "tg = t\<lparr>g_conditions := sortSlice (topLess I) (g_conditions t)\<rparr>"
    using assms(1) by (auto simp: getConditionGroups_def split: list.splits)
  have p: "mergePriority tg = mergePriority t"
    by (simp add: tg mergePriority_def)
  show ?thesis
  proof (cases "g = tg")
    case False
    with assms(2) have "g \<in> set (t # gs)" by simp
    then have "g \<in> set (groupConditions [] lcs)"
      using t by (metis set_sortSlice)
    from group_order.sortSlice_hd[OF t this] show ?thesis
      by (simp add: p groupsLess_def)
  qed simp
qed

definition condPriority :: "condition \<Rightarrow> nat" where
  "condPriority c = priorityOf (Status c) (Severity c)"

lemma topGroup_props:
  assumes "TopGroup (getConditionGroups I lcs) = Some tg"
  shows "g_conditions tg \<noteq> []"
    and "set (g_conditions tg) \<subseteq> nonNil lcs"
    and "lc \<in> set (g_conditions tg) \<Longrightarrow> Status (fst lc) = g_status tg \<and> Severity (fst lc) = g_severity tg"
    and "lc' \<in> nonNil lcs \<Longrightarrow> mergePriority tg \<le> condPriority (fst lc')"
proof -
  obtain gs where gs: "getConditionGroups I lcs = tg # gs"
    using assms by (auto simp: TopGroup_def split: list.splits)
  note h = groupsHold_groups[of I lcs, unfolded gs]
  show "g_conditions tg \<noteq> []" "set (g_conditions tg) \<subseteq> nonNil lcs"
    "lc \<in> set (g_conditions tg) \<Longrightarrow> Status (fst lc) = g_status tg \<and> Severity (fst lc) = g_severity tg"
    using h by (auto simp: groupsHold_def uniformGroup_def)
  assume "lc' \<in> nonNil lcs"
  then obtain g where g: "g \<in> set (tg # gs)" "lc' \<in> set (g_conditions g)"
    using h by (auto simp: groupsHold_def members_def)
  moreover have "uniformGroup g"
    using h g(1) by (auto simp: groupsHold_def list_all_iff)
  ultimately have "mergePriority g = condPriority (fst lc')"
    by (simp add: uniformGroup_def mergePriority_def condPriority_def)
  with topGroup_least[OF gs g(1)] show "mergePriority tg \<le> condPriority (fst lc')"
    by simp
qed

lemma TopGroup_None_iff: "TopGroup (getConditionGroups I lcs) = None \<longleftrightarrow> nonNil lcs = {}"
proof -
  have "getConditionGroups I lcs = [] \<longleftrightarrow> nonNil lcs = {}"
    using groupsHold_groups[of I lcs] by (cases "getConditionGroups I lcs") (auto simp: groupsHold_def uniformGroup_def)
  then show ?thesis
    by (cases "getConditionGroups I lcs") (simp_all add: TopGroup_def)
qed

lemma firstByPriority_in: "firstByPriority ps lcs = Some lc \<Longrightarrow> lc \<in> set lcs"
  by (induction ps) (auto split: option.splits simp: find_Some_iff)

lemma getFirstCondition_in:
  assumes "TopGroup gs = Some tg" and "g_conditions tg \<noteq> []"
  shows "\<exists>lc. getFirstCondition gs ps = Some lc \<and> lc \<in> set (g_conditions tg)"
  using assms by (auto simp: getFirstCondition_def split: list.splits option.splits dest: firstByPriority_in)

section \<open>The merged condition\<close>

text \<open>
  The reason and message come from one condition of the top group; the status and the severity
  are those of that group.
\<close>

lemma merge_None_iff: "merge_conditions I lcs t opts = None \<longleftrightarrow> nonNil lcs = {}"
  unfolding TopGroup_None_iff[of I lcs, symmetric]
  by (auto simp: merge_conditions_def Let_def split: option.splits)

lemma merge_decided:
  assumes "merge_conditions I lcs t opts = Some r"
  obtains c src where "(c, src) \<in> nonNil lcs"
    and "\<And>d src'. (d, src') \<in> nonNil lcs \<Longrightarrow> condPriority c \<le> condPriority d"
    and "Type r = t"
    and "Status r = (if Status c = ConditionTrue then ConditionTrue
                     else if Status c = ConditionFalse then ConditionFalse else ConditionUnknown)"
    and "Status c = ConditionFalse \<Longrightarrow> Severity r = Severity c"
    and "Status c \<noteq> ConditionTrue \<Longrightarrow> \<not> addSourceRef opts \<Longrightarrow> Reason r = Reason c"
    and "Status c \<noteq> ConditionTrue \<Longrightarrow> \<not> addStepCounter opts \<Longrightarrow> Message r = Message c"
proof -
  let ?g = "getConditionGroups I lcs"
  obtain tg where tg: "TopGroup ?g = Some tg"
    using assms by (auto simp: merge_conditions_def Let_def split: option.splits)
  note props = topGroup_props[OF tg]
  obtain c src where c: "getFirstCondition ?g (conditionTypes opts) = Some (c, src)"
      "(c, src) \<in> set (g_conditions tg)"
    using getFirstCondition_in[OF tg props(1)] by (metis surj_pair)
  have st: "g_status tg = Status c" "g_severity tg = Severity c"
    using props(3)[OF c(2)] by auto
  have pr: "condPriority c = mergePriority tg"
    by (simp add: condPriority_def mergePriority_def st)
  have rs: "\<not> addSourceRef opts \<Longrightarrow> getReason_merge I ?g opts = Reason c"
    by (simp add: getReason_merge_def getFirstReason_def c)
  have ms: "\<not> addStepCounter opts \<Longrightarrow> getMessage_merge ?g opts = Message c"
    by (simp add: getMessage_merge_def getFirstMessage_def c)
  have r: "r = (if Status c = ConditionTrue then TrueCondition t
     else if Status c = ConditionFalse
     then FalseCondition t (getReason_merge I ?g opts) (Severity c) (getMessage_merge ?g opts)
     else UnknownCondition t (getReason_merge I ?g opts) (getMessage_merge ?g opts) [])"
    using assms by (auto simp: merge_conditions_def Let_def tg st split: if_splits)
  note conds = TrueCondition_def FalseCondition_def FalseConditionWithFormat_def UnknownCondition_def
    UnknownConditionWithFormat_def Sprintf_s
  show thesis
  proof (rule that[of c "src"])
    show "(c, src) \<in> nonNil lcs" using c(2) props(2) by auto
    show "condPriority c \<le> condPriority d" if "(d, src') \<in> nonNil lcs" for d src'
      using props(4)[OF that] pr by simp
  qed (simp_all only: r conds if_distrib, simp_all add: rs ms)
qed

section \<open>The Ready condition\<close>

text \<open>
  \<open>readyHolds cs\<close>: some condition is true, and none is false with one of the three severities. A
  false condition without severity and an unknown one do not count against readiness.
\<close>

definition readyHolds :: "conditions \<Rightarrow> bool" where
  "readyHolds cs \<longleftrightarrow>
     (\<exists>c \<in> set cs. Type c \<noteq> ReadyCondition \<and> Status c = ConditionTrue) \<and>
     (\<forall>c \<in> set cs. Type c \<noteq> ReadyCondition \<longrightarrow>
        \<not> (Status c = ConditionFalse \<and>
           Severity c \<in> {ConditionSeverityError, ConditionSeverityWarning, ConditionSeverityInfo}))"

lemma priorityOf_True: "priorityOf st sev = 3 \<longleftrightarrow> st = ConditionTrue"
  by (auto simp: priorityOf_def)

lemma priorityOf_blocking:
  "priorityOf st sev < 3 \<longleftrightarrow>
   st = ConditionFalse \<and> sev \<in> {ConditionSeverityError, ConditionSeverityWarning, ConditionSeverityInfo}"
  by (auto simp: priorityOf_def)

lemma readyHolds_priority:
  "readyHolds cs \<longleftrightarrow>
   (\<exists>c \<in> set cs. Type c \<noteq> ReadyCondition \<and> condPriority c = 3) \<and>
   (\<forall>c \<in> set cs. Type c \<noteq> ReadyCondition \<longrightarrow> 3 \<le> condPriority c)"
proof -
  have "3 \<le> condPriority c \<longleftrightarrow>
      \<not> (Status c = ConditionFalse \<and>
         Severity c \<in> {ConditionSeverityError, ConditionSeverityWarning, ConditionSeverityInfo})" for c
    using priorityOf_blocking[of "Status c" "Severity c"] unfolding condPriority_def by (metis not_less)
  then show ?thesis
    by (simp add: readyHolds_def condPriority_def priorityOf_True)
qed

text \<open>Readiness in terms of the marks: what the controllers' properties use.\<close>

definition blocking :: "ConditionStatus \<Rightarrow> ConditionSeverity \<Rightarrow> bool" where
  "blocking st sev \<longleftrightarrow> st = ConditionFalse \<and>
     sev \<in> {ConditionSeverityError, ConditionSeverityWarning, ConditionSeverityInfo}"

lemma readyHolds_marked:
  assumes "distinctTypes (GetConditions I o')"
  shows "readyHolds (GetConditions I o') \<longleftrightarrow>
    (\<exists>t sev. t \<noteq> ReadyCondition \<and> marked I o' t ConditionTrue sev) \<and>
    (\<forall>t st sev. t \<noteq> ReadyCondition \<longrightarrow> marked I o' t st sev \<longrightarrow> \<not> blocking st sev)"
proof -
  have "marked I o' t st sev \<longleftrightarrow>
      (\<exists>c. findCondition (GetConditions I o') t = Some c \<and> Status c = st \<and> Severity c = sev)" for t st sev
    by (simp add: marked_def Get_condition_def split: option.splits)
  then have m: "marked I o' t st sev \<longleftrightarrow>
      (\<exists>c \<in> set (GetConditions I o'). Type c = t \<and> Status c = st \<and> Severity c = sev)" for t st sev
    unfolding findCondition_eq_Some_iff[OF assms] by blast
  show ?thesis
    unfolding m readyHolds_def blocking_def by blast
qed

lemma marked_unique:
  "marked I o' t st sev \<Longrightarrow> marked I o' t st' sev' \<longleftrightarrow> st' = st \<and> sev' = sev"
  by (auto simp: marked_def split: option.splits)
lemma summary_scope:
  "nonNil (map (\<lambda>c. (Some c, src)) cs) = (\<lambda>c. (c, src)) ` set cs"
  by (auto simp: nonNil_def)

lemma summary_default:
  "summary I src [] =
     merge_conditions I (map (\<lambda>c. (Some c, src)) (filter (\<lambda>c. Type c \<noteq> ReadyCondition) (GetConditions I src)))
       ReadyCondition noMergeOptions"
proof -
  have "inScope noMergeOptions = (\<lambda>c. Type c \<noteq> ReadyCondition)"
    by (simp add: inScope_def noMergeOptions_def fun_eq_iff)
  then show ?thesis
    by (simp add: summary_def applyMergeOptions_def summaryCounter_def)
      (simp add: noMergeOptions_def)
qed

lemma summary_None_iff:
  "summary I src [] = None \<longleftrightarrow> (\<forall>c \<in> set (GetConditions I src). Type c = ReadyCondition)"
  by (auto simp: summary_default merge_None_iff summary_scope)

lemma summary_Some:
  assumes "summary I src [] = Some r"
  shows "Type r = ReadyCondition \<and>
    (Status r = ConditionTrue \<longleftrightarrow> readyHolds (GetConditions I src))"
proof -
  let ?cs = "filter (\<lambda>c. Type c \<noteq> ReadyCondition) (GetConditions I src)"
  obtain c s where c: "(c, s) \<in> nonNil (map (\<lambda>c. (Some c, src)) ?cs)"
      and least: "\<And>d s'. (d, s') \<in> nonNil (map (\<lambda>c. (Some c, src)) ?cs) \<Longrightarrow> condPriority c \<le> condPriority d"
      and r: "Type r = ReadyCondition"
        "Status r = (if Status c = ConditionTrue then ConditionTrue
                     else if Status c = ConditionFalse then ConditionFalse else ConditionUnknown)"
    using merge_decided[OF assms[unfolded summary_default]] by metis
  have mem: "c \<in> set (GetConditions I src)" "Type c \<noteq> ReadyCondition"
    using c by (auto simp: summary_scope)
  have min: "condPriority c \<le> condPriority d"
      if "d \<in> set (GetConditions I src)" "Type d \<noteq> ReadyCondition" for d
    using least that by (auto simp: summary_scope)
  have "Status r = ConditionTrue \<longleftrightarrow> condPriority c = 3"
    using r(2) by (simp add: condPriority_def priorityOf_True)
  also have "\<dots> \<longleftrightarrow> readyHolds (GetConditions I src)"
    unfolding readyHolds_priority using mem min by (metis le_antisym)
  finally show ?thesis using r(1) by simp
qed

context condition_setter
begin

lemma get_SetSummary_other:
  assumes "distinctTypes (GetConditions I to)" and "t \<noteq> ReadyCondition"
  shows "Get_condition I (SetSummary I now to []) t = Get_condition I to t"
proof (cases "summary I to []")
  case None
  then show ?thesis by (simp add: SetSummary_def Set_condition_def)
next
  case (Some r)
  then show ?thesis
    using summary_Some[OF Some] assms by (simp add: SetSummary_def get_Set)
qed

lemma distinctTypes_SetSummary:
  "distinctTypes (GetConditions I to) \<Longrightarrow> distinctTypes (GetConditions I (SetSummary I now to opts))"
  by (simp add: SetSummary_def distinctTypes_Set)

lemma IsTrue_SetSummary:
  assumes "distinctTypes (GetConditions I to)"
    and "c \<in> set (GetConditions I to)" and "Type c \<noteq> ReadyCondition"
  shows "IsTrue I (SetSummary I now to []) ReadyCondition \<longleftrightarrow> readyHolds (GetConditions I to)"
proof -
  obtain r where r: "summary I to [] = Some r"
    using assms(2,3) summary_None_iff[of I to] by (cases "summary I to []") auto
  note s = summary_Some[OF r]
  have "Get_condition I (SetSummary I now to []) ReadyCondition =
      Some (storedEntry now r (Get_condition I to ReadyCondition))"
    using s by (simp add: SetSummary_def r get_Set assms(1))
  moreover have "Status (storedEntry now r (Get_condition I to ReadyCondition)) = Status r"
    using Status_storedEntry[of now r to] s by simp
  ultimately show ?thesis
    using s by (simp add: IsTrue_def)
qed

text \<open>
  The summary of an object all of whose conditions have just been marked: those of the types \<open>T\<close>, true
  where \<open>ok\<close> says so, and false with a severity otherwise.
\<close>

lemma Ready_of_marks:
  assumes d: "distinctTypes (GetConditions I to)"
    and types: "Type ` set (GetConditions I to) \<subseteq> insert ReadyCondition T"
    and T: "t0 \<in> T" "ReadyCondition \<notin> T"
    and marks: "\<And>t. t \<in> T \<Longrightarrow> \<exists>st sev. marked I to t st sev \<and> (if ok t then st = ConditionTrue else blocking st sev)"
  shows "IsTrue I (SetSummary I now to []) ReadyCondition \<longleftrightarrow> (\<forall>t \<in> T. ok t)"
proof -
  have ok: "\<exists>sev. marked I to t ConditionTrue sev" if "t \<in> T" "ok t" for t
    using marks[OF that(1)] that(2) by auto
  have bad: "\<exists>st sev. marked I to t st sev \<and> blocking st sev" if "t \<in> T" "\<not> ok t" for t
    using marks[OF that(1)] that(2) by auto
  have only: "t \<in> T" if "marked I to t st sev" "t \<noteq> ReadyCondition" for t st sev
  proof -
    have "t \<in> Type ` set (GetConditions I to)"
      using that(1) findCondition_None_iff[of "GetConditions I to" t]
      by (auto simp: marked_def Get_condition_def split: option.splits)
    then show ?thesis using types that(2) by auto
  qed
  have ex: "\<exists>st sev. marked I to t st sev" if "t \<in> T" for t
    using marks[OF that] by blast
  obtain c where c: "c \<in> set (GetConditions I to)" "Type c \<noteq> ReadyCondition"
  proof -
    obtain st sev where "marked I to t0 st sev" using ex[OF T(1)] by blast
    then obtain c where "Get_condition I to t0 = Some c"
      by (auto simp: marked_def split: option.splits)
    then have "c \<in> set (GetConditions I to)" "Type c = t0"
      using findCondition_SomeD[of "GetConditions I to" t0 c] by (simp_all add: Get_condition_def)
    then show thesis using that T by metis
  qed
  have nb: "\<not> blocking ConditionTrue sev" for sev
    by (simp add: blocking_def)
  have "readyHolds (GetConditions I to) \<longleftrightarrow> (\<forall>t \<in> T. ok t)"
    unfolding readyHolds_marked[OF d]
  proof
    assume "(\<exists>t sev. t \<noteq> ReadyCondition \<and> marked I to t ConditionTrue sev) \<and>
      (\<forall>t st sev. t \<noteq> ReadyCondition \<longrightarrow> marked I to t st sev \<longrightarrow> \<not> blocking st sev)"
    then show "\<forall>t \<in> T. ok t" using bad T(2) by metis
  next
    assume all: "\<forall>t \<in> T. ok t"
    then have "t \<noteq> ReadyCondition \<longrightarrow> marked I to t st sev \<longrightarrow> \<not> blocking st sev" for t st sev
      using only ok nb marked_unique by metis
    then show "(\<exists>t sev. t \<noteq> ReadyCondition \<and> marked I to t ConditionTrue sev) \<and>
      (\<forall>t st sev. t \<noteq> ReadyCondition \<longrightarrow> marked I to t st sev \<longrightarrow> \<not> blocking st sev)"
      using all ok[OF T(1)] T by metis
  qed
  with IsTrue_SetSummary[OF d c] show ?thesis by simp
qed

lemma get_SetSummary_marked:
  "distinctTypes (GetConditions I to) \<Longrightarrow> t \<noteq> ReadyCondition \<Longrightarrow>
   marked I (SetSummary I now to []) t = marked I to t"
  by (simp add: marked_def fun_eq_iff get_SetSummary_other)

end

end
