(* ===== verification/Condition_Patch.thy ===== *)
theory Condition_Patch
  imports Conditions
begin

text \<open>
  Condition patches, \<open>util/conditions/patch.go\<close>: \<open>NewPatch\<close> computes the operations that
  turn the conditions of one object into those of another, and \<open>Apply\<close> replays them on a third
  object as a three-way merge. \<open>PatchOperation\<close> has one constructor per \<open>PatchOperationType\<close>,
  with the pointers that operation sets. \<open>Apply\<close> returns the error and the object as it was left:
  the operations before the conflict stay applied. The diff that the messages print is left out.

  The lemmas show that \<open>NewPatch\<close> names exactly the types on which the two objects differ, and that
  \<open>Apply\<close> succeeds and brings every one of those types to its target state whenever the third
  object still agrees with the base there, or the type is owned, or overwriting is forced.
\<close>

section \<open>Patches\<close>

datatype PatchOperation =
    AddConditionPatch condition
  | ChangeConditionPatch condition condition
  | RemoveConditionPatch condition

type_synonym Patch = "PatchOperation list"

fun patchTargets :: "conditions \<Rightarrow> conditions \<Rightarrow> Patch" where
  "patchTargets before [] = []"
| "patchTargets before (target # targets) =
     (case findCondition before (Type target) of
        None \<Rightarrow> AddConditionPatch target # patchTargets before targets
      | Some current \<Rightarrow>
          if target \<noteq> current
          then ChangeConditionPatch current target # patchTargets before targets
          else patchTargets before targets)"

fun patchRemovals :: "conditions \<Rightarrow> conditions \<Rightarrow> Patch" where
  "patchRemovals after [] = []"
| "patchRemovals after (base # bases) =
     (case findCondition after (Type base) of
        None \<Rightarrow> RemoveConditionPatch base # patchRemovals after bases
      | Some _ \<Rightarrow> patchRemovals after bases)"

definition NewPatch :: "('o, 'x) getter_scheme \<Rightarrow> 'o \<Rightarrow> 'o \<Rightarrow> Patch" where
  "NewPatch I before after =
     patchTargets (GetConditions I before) (GetConditions I after) @
     patchRemovals (GetConditions I after) (GetConditions I before)"

definition Patch_IsZero :: "Patch \<Rightarrow> bool" where
  "Patch_IsZero p \<longleftrightarrow> length p = 0"

section \<open>Applying a patch\<close>

record applyOptions =
  ownedConditions :: "ConditionType list"
  forceOverwrite :: bool

definition noApplyOptions :: applyOptions where
  "noApplyOptions = \<lparr>ownedConditions = [], forceOverwrite = False\<rparr>"

definition isOwnedCondition :: "applyOptions \<Rightarrow> ConditionType \<Rightarrow> bool" where
  "isOwnedCondition ao t = list_ex (\<lambda>i. i = t) (ownedConditions ao)"

definition WithOwnedConditions :: "ConditionType list \<Rightarrow> applyOptions \<Rightarrow> applyOptions" where
  "WithOwnedConditions t c = c\<lparr>ownedConditions := t\<rparr>"

definition WithForceOverwrite :: "bool \<Rightarrow> applyOptions \<Rightarrow> applyOptions" where
  "WithForceOverwrite v c = c\<lparr>forceOverwrite := v\<rparr>"

datatype patchError =
    AddConditionConflict ConditionType
  | ChangeConditionDeleted ConditionType
  | ChangeConditionConflict ConditionType
  | RemoveConditionConflict ConditionType

fun applyOperation ::
  "('o, 'x) setter_scheme \<Rightarrow> time \<Rightarrow> applyOptions \<Rightarrow> PatchOperation \<Rightarrow> 'o \<Rightarrow> patchError option \<times> 'o" where
  "applyOperation I now ao (AddConditionPatch new) latest =
     (if forceOverwrite ao \<or> isOwnedCondition ao (Type new)
      then (None, Set_condition I now latest (Some new))
      else case Get_condition I latest (Type new) of
             Some c \<Rightarrow>
               if \<not> hasSameState c new then (Some (AddConditionConflict (Type new)), latest)
               else (None, latest)
           | None \<Rightarrow> (None, Set_condition I now latest (Some new)))"
| "applyOperation I now ao (ChangeConditionPatch old new) latest =
     (if forceOverwrite ao \<or> isOwnedCondition ao (Type new)
      then (None, Set_condition I now latest (Some new))
      else case Get_condition I latest (Type new) of
             None \<Rightarrow> (Some (ChangeConditionDeleted (Type new)), latest)
           | Some c \<Rightarrow>
               if c \<noteq> old
               then (if \<not> hasSameState c new then (Some (ChangeConditionConflict (Type new)), latest)
                     else (None, latest))
               else (None, Set_condition I now latest (Some new)))"
| "applyOperation I now ao (RemoveConditionPatch old) latest =
     (if forceOverwrite ao \<or> isOwnedCondition ao (Type old)
      then (None, Delete_condition I latest (Type old))
      else case Get_condition I latest (Type old) of
             Some c \<Rightarrow>
               if \<not> hasSameState c old then (Some (RemoveConditionConflict (Type old)), latest)
               else (None, Delete_condition I latest (Type old))
           | None \<Rightarrow> (None, Delete_condition I latest (Type old)))"

fun applyOperations ::
  "('o, 'x) setter_scheme \<Rightarrow> time \<Rightarrow> applyOptions \<Rightarrow> Patch \<Rightarrow> 'o \<Rightarrow> patchError option \<times> 'o" where
  "applyOperations I now ao [] latest = (None, latest)"
| "applyOperations I now ao (p # ps) latest =
     (case applyOperation I now ao p latest of
        (Some e, l) \<Rightarrow> (Some e, l)
      | (None, l) \<Rightarrow> applyOperations I now ao ps l)"

definition Patch_Apply ::
  "('o, 'x) setter_scheme \<Rightarrow> time \<Rightarrow> Patch \<Rightarrow> 'o \<Rightarrow> (applyOptions \<Rightarrow> applyOptions) list \<Rightarrow>
     patchError option \<times> 'o" where
  "Patch_Apply I now p latest options =
     (if length p = 0 then (None, latest)
      else applyOperations I now (foldl (\<lambda>c f. f c) noApplyOptions options) p latest)"

section \<open>What a patch operation means\<close>

fun opType :: "PatchOperation \<Rightarrow> ConditionType" where
  "opType (AddConditionPatch new) = Type new"
| "opType (ChangeConditionPatch old new) = Type new"
| "opType (RemoveConditionPatch old) = Type old"

fun opBase :: "PatchOperation \<Rightarrow> condition option" where
  "opBase (AddConditionPatch new) = None"
| "opBase (ChangeConditionPatch old new) = Some old"
| "opBase (RemoveConditionPatch old) = Some old"

fun opTarget :: "PatchOperation \<Rightarrow> condition option" where
  "opTarget (AddConditionPatch new) = Some new"
| "opTarget (ChangeConditionPatch old new) = Some new"
| "opTarget (RemoveConditionPatch old) = None"

definition mayOverwrite :: "applyOptions \<Rightarrow> ConditionType \<Rightarrow> bool" where
  "mayOverwrite ao t \<longleftrightarrow> forceOverwrite ao \<or> isOwnedCondition ao t"

lemma hasSameState_refl [simp]: "hasSameState c c"
  by (simp add: hasSameState_def)

section \<open>NewPatch names exactly the differences\<close>

lemma patchTargets_mem:
  assumes "p \<in> set (patchTargets before targets)"
  shows "\<exists>target \<in> set targets. opTarget p = Some target \<and> opType p = Type target \<and>
     opBase p = findCondition before (Type target) \<and> findCondition before (Type target) \<noteq> Some target"
  using assms by (induction targets) (auto split: option.splits if_splits)

lemma patchRemovals_mem:
  assumes "p \<in> set (patchRemovals after bases)"
  shows "\<exists>base \<in> set bases. p = RemoveConditionPatch base \<and> findCondition after (Type base) = None"
  using assms by (induction bases) (auto split: option.splits)

lemma patchTargets_types: "set (map opType (patchTargets before targets)) \<subseteq> Type ` set targets"
  using patchTargets_mem by fastforce

lemma patchRemovals_types: "set (map opType (patchRemovals after bases)) \<subseteq> Type ` set bases"
  using patchRemovals_mem by fastforce

lemma distinct_patchTargets:
  "distinctTypes targets \<Longrightarrow> distinct (map opType (patchTargets before targets))"
proof (induction targets)
  case (Cons c cs)
  moreover have "Type c \<notin> set (map opType (patchTargets before cs))"
    using Cons.prems patchTargets_types[of before cs] by (auto simp: distinctTypes_def)
  ultimately show ?case
    by (auto simp: distinctTypes_def split: option.splits)
qed simp

lemma distinct_patchRemovals:
  "distinctTypes bases \<Longrightarrow> distinct (map opType (patchRemovals after bases))"
proof (induction bases)
  case (Cons c cs)
  moreover have "Type c \<notin> set (map opType (patchRemovals after cs))"
    using Cons.prems patchRemovals_types[of after cs] by (auto simp: distinctTypes_def)
  ultimately show ?case
    by (auto simp: distinctTypes_def split: option.splits)
qed simp

lemma patchTargets_complete:
  "c \<in> set targets \<Longrightarrow> findCondition before (Type c) \<noteq> Some c \<Longrightarrow>
   Type c \<in> opType ` set (patchTargets before targets)"
  by (induction targets) (auto split: option.splits)

lemma patchRemovals_complete:
  "c \<in> set bases \<Longrightarrow> findCondition after (Type c) = None \<Longrightarrow>
   Type c \<in> opType ` set (patchRemovals after bases)"
  by (induction bases) (auto split: option.splits)

lemma distinct_NewPatch:
  assumes "distinctTypes (GetConditions I before)" and "distinctTypes (GetConditions I after)"
  shows "distinct (map opType (NewPatch I before after))"
proof -
  have "opType p \<noteq> opType q"
    if p: "p \<in> set (patchTargets (GetConditions I before) (GetConditions I after))"
      and q: "q \<in> set (patchRemovals (GetConditions I after) (GetConditions I before))" for p q
    using patchTargets_mem[OF p] patchRemovals_mem[OF q] by (auto simp: findCondition_None_iff)
  then show ?thesis
    using assms by (auto simp: NewPatch_def distinct_patchTargets distinct_patchRemovals)
qed

lemma NewPatch_op:
  assumes "distinctTypes (GetConditions I before)" and "distinctTypes (GetConditions I after)"
    and "p \<in> set (NewPatch I before after)"
  shows "opBase p = Get_condition I before (opType p) \<and> opTarget p = Get_condition I after (opType p) \<and>
     opBase p \<noteq> opTarget p"
proof (cases "p \<in> set (patchTargets (GetConditions I before) (GetConditions I after))")
  case True
  then obtain c where "c \<in> set (GetConditions I after)" "opTarget p = Some c" "opType p = Type c"
      "opBase p = findCondition (GetConditions I before) (Type c)" "opBase p \<noteq> Some c"
    using patchTargets_mem[OF True] by auto
  then show ?thesis
    using assms(2) by (simp add: Get_condition_def findCondition_eq_Some_iff[THEN iffD2])
next
  case False
  with assms(3) have "p \<in> set (patchRemovals (GetConditions I after) (GetConditions I before))"
    by (simp add: NewPatch_def)
  from patchRemovals_mem[OF this] show ?thesis
    using assms(1) by (auto simp: Get_condition_def findCondition_eq_Some_iff[THEN iffD2])
qed

lemma NewPatch_types:
  assumes "distinctTypes (GetConditions I before)" and "distinctTypes (GetConditions I after)"
  shows "opType ` set (NewPatch I before after) =
     {t. Get_condition I before t \<noteq> Get_condition I after t}"
proof (intro equalityI subsetI)
  fix t assume "t \<in> opType ` set (NewPatch I before after)"
  then obtain p where p: "p \<in> set (NewPatch I before after)" "t = opType p" by blast
  from NewPatch_op[OF assms p(1)] have "Get_condition I before t \<noteq> Get_condition I after t"
    unfolding p(2) by (elim conjE) (erule subst, erule subst)
  then show "t \<in> {t. Get_condition I before t \<noteq> Get_condition I after t}" ..
next
  fix t assume "t \<in> {t. Get_condition I before t \<noteq> Get_condition I after t}"
  then have ne: "findCondition (GetConditions I before) t \<noteq> findCondition (GetConditions I after) t"
    by (simp add: Get_condition_def)
  show "t \<in> opType ` set (NewPatch I before after)"
  proof (cases "findCondition (GetConditions I after) t")
    case None
    with ne obtain c where "findCondition (GetConditions I before) t = Some c" by auto
    then have "c \<in> set (GetConditions I before)" "Type c = t" by (auto dest: findCondition_SomeD)
    with None show ?thesis
      using patchRemovals_complete[of c "GetConditions I before" "GetConditions I after"]
      by (auto simp: NewPatch_def)
  next
    case (Some c)
    then have "c \<in> set (GetConditions I after)" "Type c = t" by (auto dest: findCondition_SomeD)
    with Some ne show ?thesis
      using patchTargets_complete[of c "GetConditions I after" "GetConditions I before"]
      by (auto simp: NewPatch_def)
  qed
qed

section \<open>Apply brings the types of the patch to their targets\<close>

context condition_setter
begin

lemma same_after_Set:
  "distinctTypes (GetConditions I to) \<Longrightarrow>
   rel_option hasSameState (Get_condition I (Set_condition I now to (Some new)) (Type new)) (Some new)"
  using hasSameState_storedEntry[of now new "GetConditions I to"]
  by (simp add: get_Set) (simp add: Get_condition_def)

lemma applyOperation_ok:
  assumes "distinctTypes (GetConditions I latest)"
    and "mayOverwrite ao (opType p) \<or> Get_condition I latest (opType p) = opBase p"
  obtains l where "applyOperation I now ao p latest = (None, l)"
    and "distinctTypes (GetConditions I l)"
    and "\<And>t. t \<noteq> opType p \<Longrightarrow> Get_condition I l t = Get_condition I latest t"
    and "rel_option hasSameState (Get_condition I l (opType p)) (opTarget p)"
proof -
  let ?l = "case opTarget p of Some new \<Rightarrow> Set_condition I now latest (Some new)
                             | None \<Rightarrow> Delete_condition I latest (opType p)"
  show thesis
  proof (rule that[of ?l])
    show "applyOperation I now ao p latest = (None, ?l)"
      using assms(2) by (cases p) (auto simp: mayOverwrite_def)
    show "distinctTypes (GetConditions I ?l)"
      using assms(1) by (simp add: distinctTypes_Set distinctTypes_Delete split: option.splits)
    show "Get_condition I ?l t = Get_condition I latest t" if "t \<noteq> opType p" for t
      using that assms(1) by (cases p) (simp_all add: get_Set get_Delete)
    show "rel_option hasSameState (Get_condition I ?l (opType p)) (opTarget p)"
      by (cases p) (use same_after_Set[OF assms(1)] in \<open>simp_all add: get_Delete\<close>)
  qed
qed

lemma applyOperations_ok:
  assumes "distinctTypes (GetConditions I latest)" and "distinct (map opType ps)"
    and "\<And>p. p \<in> set ps \<Longrightarrow> mayOverwrite ao (opType p) \<or> Get_condition I latest (opType p) = opBase p"
  shows "\<exists>l. applyOperations I now ao ps latest = (None, l) \<and> distinctTypes (GetConditions I l) \<and>
    (\<forall>t. t \<notin> opType ` set ps \<longrightarrow> Get_condition I l t = Get_condition I latest t) \<and>
    (\<forall>p \<in> set ps. rel_option hasSameState (Get_condition I l (opType p)) (opTarget p))"
  using assms
proof (induction ps arbitrary: latest)
  case Nil
  then show ?case by simp
next
  case (Cons p ps)
  obtain m where m: "applyOperation I now ao p latest = (None, m)" "distinctTypes (GetConditions I m)"
      "\<And>t. t \<noteq> opType p \<Longrightarrow> Get_condition I m t = Get_condition I latest t"
      "rel_option hasSameState (Get_condition I m (opType p)) (opTarget p)"
    using applyOperation_ok[OF Cons.prems(1), of ao p now] Cons.prems(3)[of p] by auto
  have notin: "opType p \<notin> opType ` set ps" and dist: "distinct (map opType ps)"
    using Cons.prems(2) by simp_all
  have "mayOverwrite ao (opType q) \<or> Get_condition I m (opType q) = opBase q" if "q \<in> set ps" for q
  proof -
    have "opType q \<noteq> opType p" using notin that by (metis image_eqI)
    then show ?thesis using Cons.prems(3)[of q] m(3)[of "opType q"] that by simp
  qed
  from Cons.IH[OF m(2) dist this] obtain l where l: "applyOperations I now ao ps m = (None, l)"
      "distinctTypes (GetConditions I l)"
      "\<And>t. t \<notin> opType ` set ps \<Longrightarrow> Get_condition I l t = Get_condition I m t"
      "\<And>q. q \<in> set ps \<Longrightarrow> rel_option hasSameState (Get_condition I l (opType q)) (opTarget q)"
    by blast
  show ?case
    using m l notin by (auto simp: m(1))
qed

lemma apply_NewPatch:
  assumes "distinctTypes (GetConditions I before)" and "distinctTypes (GetConditions I after)"
    and "distinctTypes (GetConditions I latest)"
    and "\<And>t. Get_condition I before t \<noteq> Get_condition I after t \<Longrightarrow>
           mayOverwrite (foldl (\<lambda>c f. f c) noApplyOptions options) t \<or>
           Get_condition I latest t = Get_condition I before t"
  shows "\<exists>l. Patch_Apply I now (NewPatch I before after) latest options = (None, l) \<and>
    (\<forall>t. if Get_condition I before t = Get_condition I after t
         then Get_condition I l t = Get_condition I latest t
         else rel_option hasSameState (Get_condition I l t) (Get_condition I after t))"
proof -
  let ?p = "NewPatch I before after" and ?ao = "foldl (\<lambda>c f. f c) noApplyOptions options"
  have types: "opType ` set ?p = {t. Get_condition I before t \<noteq> Get_condition I after t}"
    by (rule NewPatch_types[OF assms(1,2)])
  have "mayOverwrite ?ao (opType p) \<or> Get_condition I latest (opType p) = opBase p" if "p \<in> set ?p" for p
    using assms(4)[of "opType p"] NewPatch_op[OF assms(1,2) that] by auto
  from applyOperations_ok[OF assms(3) distinct_NewPatch[OF assms(1,2)] this]
  obtain l where l: "applyOperations I now ?ao ?p latest = (None, l)"
      "\<And>t. t \<notin> opType ` set ?p \<Longrightarrow> Get_condition I l t = Get_condition I latest t"
      "\<And>p. p \<in> set ?p \<Longrightarrow> rel_option hasSameState (Get_condition I l (opType p)) (opTarget p)"
    by blast
  have "rel_option hasSameState (Get_condition I l t) (Get_condition I after t)"
    if "Get_condition I before t \<noteq> Get_condition I after t" for t
  proof -
    from that types obtain p where "p \<in> set ?p" "t = opType p" by blast
    with l(3) NewPatch_op[OF assms(1,2)] show ?thesis by metis
  qed
  moreover have "Patch_Apply I now ?p latest options = (None, l)"
    using l(1) by (cases ?p) (simp_all add: Patch_Apply_def)
  ultimately show ?thesis
    using l(2) types by auto
qed

end

end
