(* ===== verification/Kube_Object.thy ===== *)
theory Kube_Object
  imports Klutch_Prelude
begin

text \<open>
  Kubernetes objects as the konnector handles them, and the interface through which its
  reconcilers reach the two clusters.

  \<^item> \<open>unstructured\<close> holds what the sources read and write of an \<open>unstructured.Unstructured\<close>: the
    metadata fields, the top-level fields \<open>spec\<close> and \<open>status\<close>, and everything else in \<open>u_rest\<close>.
    A nil map of annotations is \<open>None\<close>; nil and empty finalizers and owner references are
    the empty list, as \<open>SetFinalizers\<close> and \<open>SetOwnerReferences\<close> store them.
  \<^item> \<open>InjectBoundAnnotation\<close> is \<open>bind/pkg/konnector/adopt\<close>.
  \<^item> A reconciler struct of the konnector is a record of functions, wired to API clients and
    informers that are not part of this repository. \<open>sync_reconciler\<close> has the fields of all of them,
    with the names of the sources. What a call answers may depend on everything that was
    called before: every field takes the list of earlier calls. A reconciler returns the error of
    the Go function, if any, and the list of calls it made. The lemmas hold for every
    behaviour of the clusters; \<open>requests\<close> are the calls that can change a cluster.
\<close>

section \<open>Objects\<close>

datatype json =
    JNull
  | JBool bool
  | JNum int
  | JStr string
  | JArr "json list"
  | JObj "(string, json) fmap"

record OwnerReference =
  or_APIVersion :: string
  or_Kind :: string
  or_Name :: string
  or_UID :: string
  or_Controller :: "bool option"

type_synonym annotationMap = "(string, string) fmap"

record unstructured =
  u_name :: string
  u_namespace :: string
  u_uid :: string
  u_resourceVersion :: string
  u_managedFields :: "json option"
  u_deletionTimestamp :: "time option"
  u_deletionGracePeriodSeconds :: "int option"
  u_ownerReferences :: "OwnerReference list"
  u_finalizers :: "string list"
  u_annotations :: "annotationMap option"
  u_spec :: "json option"
  u_status :: "json option"
  u_rest :: "(string, json) fmap"

definition annotationsOf :: "unstructured \<Rightarrow> annotationMap" where
  "annotationsOf obj = (case u_annotations obj of None \<Rightarrow> fmempty | Some m \<Rightarrow> m)"

text \<open>\<open>obj.GetDeletionTimestamp() != nil && !obj.GetDeletionTimestamp().IsZero()\<close>\<close>

definition isDeleting :: "unstructured \<Rightarrow> bool" where
  "isDeleting obj = (case u_deletionTimestamp obj of None \<Rightarrow> False | Some t \<Rightarrow> \<not> IsZero t)"

definition boundKey :: string where
  "boundKey = ''klutch.anynines.com/bound''"

definition InjectBoundAnnotation :: "unstructured \<Rightarrow> unstructured" where
  "InjectBoundAnnotation obj =
     obj\<lparr>u_annotations := Some (fmupd boundKey ''true'' (annotationsOf obj))\<rparr>"

definition DownstreamFinalizer :: string where
  "DownstreamFinalizer = ''klutch.anynines.com/syncer''"

record APIServiceNamespace =
  sn_Name :: string
  sn_Namespace :: string
  sn_Status_Namespace :: string

section \<open>The calls of the sync reconcilers\<close>

datatype call =
    GetServiceNamespace string
  | CreateServiceNamespace APIServiceNamespace
  | GetProviderObject string string
  | CreateProviderObject unstructured
  | UpdateProviderObject unstructured
  | DeleteProviderObject string string
  | GetConsumerObject string string
  | CreateConsumerObject unstructured
  | UpdateConsumerObject unstructured
  | UpdateConsumerObjectStatus unstructured
  | DeleteConsumerObject string string
  | Requeue unstructured int

type_synonym calls = "call list"

record sync_reconciler =
  providerNamespace :: string
  getServiceNamespace :: "calls \<Rightarrow> string \<Rightarrow> apierr + APIServiceNamespace"
  createServiceNamespace :: "calls \<Rightarrow> APIServiceNamespace \<Rightarrow> apierr + APIServiceNamespace"
  getProviderObject :: "calls \<Rightarrow> string \<Rightarrow> string \<Rightarrow> apierr + unstructured"
  createProviderObject :: "calls \<Rightarrow> unstructured \<Rightarrow> apierr + unstructured"
  updateProviderObject :: "calls \<Rightarrow> unstructured \<Rightarrow> apierr + unstructured"
  deleteProviderObject :: "calls \<Rightarrow> string \<Rightarrow> string \<Rightarrow> apierr option"
  getConsumerObject :: "calls \<Rightarrow> string \<Rightarrow> string \<Rightarrow> apierr + unstructured"
  createConsumerObject :: "calls \<Rightarrow> unstructured \<Rightarrow> apierr + unstructured"
  updateConsumerObject :: "calls \<Rightarrow> unstructured \<Rightarrow> apierr + unstructured"
  updateConsumerObjectStatus :: "calls \<Rightarrow> unstructured \<Rightarrow> apierr + unstructured"
  deleteConsumerObject :: "calls \<Rightarrow> string \<Rightarrow> string \<Rightarrow> apierr option"
  requeue :: "calls \<Rightarrow> unstructured \<Rightarrow> int \<Rightarrow> apierr option"

type_synonym outcome = "apierr option \<times> calls"

fun errOf :: "apierr + 'a \<Rightarrow> apierr option" where
  "errOf (Inl e) = Some e"
| "errOf (Inr _) = None"

fun isRequest :: "call \<Rightarrow> bool" where
  "isRequest (GetServiceNamespace n) = False"
| "isRequest (GetProviderObject ns n) = False"
| "isRequest (GetConsumerObject ns n) = False"
| "isRequest (Requeue o' d) = False"
| "isRequest c = True"

definition requests :: "calls \<Rightarrow> calls" where
  "requests l = filter isRequest l"

text \<open>
  The lookup that the status, the adopt and the claimed-resources reconcilers open with: from the
  provider namespace of an object to the consumer namespace, through the APIServiceNamespace. A
  service namespace whose status is still empty makes the Go code return \<open>err\<close>, which is nil there.
\<close>

definition consumerNamespace ::
  "sync_reconciler \<Rightarrow> calls \<Rightarrow> string \<Rightarrow> (apierr option + string) \<times> calls" where
  "consumerNamespace R l ns =
     (if ns = '''' then (Inr '''', l)
      else case getServiceNamespace R l ns of
             Inl e \<Rightarrow> (Inl (Some e), l @ [GetServiceNamespace ns])
           | Inr sn \<Rightarrow>
               if sn_Status_Namespace sn = '''' then (Inl None, l @ [GetServiceNamespace ns])
               else (Inr (sn_Name sn), l @ [GetServiceNamespace ns]))"

section \<open>Facts shared by the reconcilers\<close>


lemma requests_simps [simp]:
  "requests [] = []" "requests (l @ m) = requests l @ requests m"
  "requests (c # l) = (if isRequest c then c # requests l else requests l)"
  by (simp_all add: requests_def)

lemma consumerNamespace_calls:
  "\<exists>m. snd (consumerNamespace R l ns) = l @ m \<and> requests m = []"
  by (auto simp: consumerNamespace_def split: sum.splits)

lemma bound_InjectBoundAnnotation [simp]:
  "fmlookup (annotationsOf (InjectBoundAnnotation obj)) boundKey = Some ''true''"
  by (simp add: InjectBoundAnnotation_def annotationsOf_def)

lemma InjectBoundAnnotation_frame [simp]:
  "u_name (InjectBoundAnnotation obj) = u_name obj"
  "u_namespace (InjectBoundAnnotation obj) = u_namespace obj"
  "u_uid (InjectBoundAnnotation obj) = u_uid obj"
  "u_resourceVersion (InjectBoundAnnotation obj) = u_resourceVersion obj"
  "u_deletionTimestamp (InjectBoundAnnotation obj) = u_deletionTimestamp obj"
  "u_ownerReferences (InjectBoundAnnotation obj) = u_ownerReferences obj"
  "u_finalizers (InjectBoundAnnotation obj) = u_finalizers obj"
  "u_spec (InjectBoundAnnotation obj) = u_spec obj"
  "u_status (InjectBoundAnnotation obj) = u_status obj"
  "u_rest (InjectBoundAnnotation obj) = u_rest obj"
  by (simp_all add: InjectBoundAnnotation_def)

lemma InjectBoundAnnotation_idem [simp]:
  "InjectBoundAnnotation (InjectBoundAnnotation obj) = InjectBoundAnnotation obj"
  by (simp add: InjectBoundAnnotation_def annotationsOf_def)

lemma annotation_other [simp]:
  "k \<noteq> boundKey \<Longrightarrow>
   fmlookup (annotationsOf (InjectBoundAnnotation obj)) k = fmlookup (annotationsOf obj) k"
  by (simp add: InjectBoundAnnotation_def annotationsOf_def)

lemma errOf_None_iff: "errOf r = None \<longleftrightarrow> (\<exists>x. r = Inr x)"
  by (cases r) auto

end
