(* ===== verification/Bind_API.thy ===== *)
theory Bind_API
  imports Condition_Merge Condition_Patch Kube_Object
begin

text \<open>
  The types of the API group \<open>klutch.anynines.com\<close>, \<open>bind/pkg/apis/bind/v1alpha1\<close>, with the fields that
  the controllers read or write, and their helpers: \<open>helpers/crd.go\<close> and
  \<open>helpers/serviceexport.go\<close>. The objects with conditions implement the interface \<open>Setter\<close>
  of the conditions package: \<open>clusterBindingSetter\<close> and so on are those method tables, and each
  interprets the locale \<open>condition_setter\<close>.

  Parameters of the model, since they are libraries: \<open>unmarshal\<close> and \<open>marshal\<close> stand for
  \<open>yaml.Unmarshal\<close> and \<open>json.Marshal\<close> on the schema of a CRD version (the type \<open>json\<close>),
  \<open>marshalSpec\<close> and \<open>sum224\<close> for \<open>json.Marshal\<close> of a CRD spec and \<open>sha256.Sum224\<close>.

  The lemmas show the round trip between a CRD and an APIServiceExport, what survives a
  CRD with a conversion webhook, and that the hash is written in base 62 without loss.
\<close>

section \<open>Metadata\<close>

record ObjectMeta =
  om_Name :: string
  om_Namespace :: string
  om_UID :: string
  om_ResourceVersion :: string
  om_Generation :: int
  om_Labels :: "(string, string) fmap"
  om_Annotations :: annotationMap
  om_OwnerReferences :: "OwnerReference list"
  om_Finalizers :: "string list"
  om_DeletionTimestamp :: "time option"

definition namedMeta :: "string \<Rightarrow> ObjectMeta" where
  "namedMeta n = \<lparr>om_Name = n, om_Namespace = '''', om_UID = '''', om_ResourceVersion = '''',
     om_Generation = 0, om_Labels = fmempty, om_Annotations = fmempty, om_OwnerReferences = [],
     om_Finalizers = [], om_DeletionTimestamp = None\<rparr>"

record LocalSecretKeyRef =
  ref_Name :: string
  ref_Key :: string

record ClusterSecretKeyRef = LocalSecretKeyRef +
  ref_Namespace :: string

record Secret =
  sec_Name :: string
  sec_Namespace :: string
  sec_Labels :: "(string, string) fmap"
  sec_Data :: "(string, string) fmap"
  sec_Type :: string

section \<open>ClusterBinding\<close>

definition ClusterBindingConditionSecretValid :: ConditionType where
  [klutch_defs]: "ClusterBindingConditionSecretValid = ''SecretValid''"
definition ClusterBindingConditionValidVersion :: ConditionType where
  [klutch_defs]: "ClusterBindingConditionValidVersion = ''ValidVersion''"
definition ClusterBindingConditionHealthy :: ConditionType where
  [klutch_defs]: "ClusterBindingConditionHealthy = ''Healthy''"

record ClusterBinding =
  cb_Kind :: string
  cb_Meta :: ObjectMeta
  cb_KubeconfigSecretRef :: LocalSecretKeyRef
  cb_ProviderPrettyName :: string
  cb_LastHeartbeatTime :: time
  cb_HeartbeatInterval :: int
  cb_KonnectorVersion :: string
  cb_Conditions :: conditions

definition clusterBindingSetter :: "ClusterBinding setter" where
  "clusterBindingSetter =
     \<lparr>GetConditions = cb_Conditions, GetName = (\<lambda>o'. om_Name (cb_Meta o')), GetKind = cb_Kind,
      SetConditions = (\<lambda>o' cs. o'\<lparr>cb_Conditions := cs\<rparr>)\<rparr>"

interpretation cb: condition_setter clusterBindingSetter
  by unfold_locales (simp_all add: clusterBindingSetter_def)

section \<open>APIServiceBinding\<close>

definition APIServiceBindingConditionSecretValid :: ConditionType where
  [klutch_defs]: "APIServiceBindingConditionSecretValid = ''SecretValid''"
definition APIServiceBindingConditionConnected :: ConditionType where
  [klutch_defs]: "APIServiceBindingConditionConnected = ''Connected''"
definition APIServiceBindingConditionSchemaInSync :: ConditionType where
  [klutch_defs]: "APIServiceBindingConditionSchemaInSync = ''SchemaInSync''"

record GroupResource =
  gr_Group :: string
  gr_Resource :: string

text \<open>The namespaces of a claim's selector: a nil slice and an empty one differ for the konnector.\<close>

record ResourceSelector =
  rs_Names :: "string list"
  rs_Namespaces :: "string list option"
  rs_Owner :: string

record PermissionClaim = GroupResource +
  pc_Version :: string
  pc_Selector :: "ResourceSelector option"
  pc_Required :: bool

record AcceptablePermissionClaim = PermissionClaim +
  apc_State :: string

definition ClaimAccepted :: string where
  [klutch_defs]: "ClaimAccepted = ''Accepted''"

record APIServiceBinding =
  sb_Kind :: string
  sb_Meta :: ObjectMeta
  sb_KubeconfigSecretRef :: ClusterSecretKeyRef
  sb_PermissionClaims :: "AcceptablePermissionClaim list"
  sb_ProviderPrettyName :: string
  sb_Conditions :: conditions

definition serviceBindingSetter :: "APIServiceBinding setter" where
  "serviceBindingSetter =
     \<lparr>GetConditions = sb_Conditions, GetName = (\<lambda>o'. om_Name (sb_Meta o')), GetKind = sb_Kind,
      SetConditions = (\<lambda>o' cs. o'\<lparr>sb_Conditions := cs\<rparr>)\<rparr>"

interpretation sb: condition_setter serviceBindingSetter
  by unfold_locales (simp_all add: serviceBindingSetter_def)

section \<open>APIServiceExport\<close>

definition APIServiceExportConditionConnected :: ConditionType where
  [klutch_defs]: "APIServiceExportConditionConnected = ''Connected''"
definition APIServiceExportConditionConsumerInSync :: ConditionType where
  [klutch_defs]: "APIServiceExportConditionConsumerInSync = ''ConsumerInSync''"
definition SourceSpecHashAnnotationKey :: string where
  [klutch_defs]: "SourceSpecHashAnnotationKey = ''klutch.anynines.com/source-spec-hash''"

record CRDNames =
  n_Plural :: string
  n_Singular :: string
  n_ShortNames :: "string list"
  n_Kind :: string
  n_ListKind :: string
  n_Categories :: "string list"

record Subresources =
  sub_Status :: "json option"
  sub_Scale :: "json option"

definition noSubresources :: Subresources where
  "noSubresources = \<lparr>sub_Status = None, sub_Scale = None\<rparr>"

text \<open>\<open>ev_Schema\<close> is \<open>Schema.OpenAPIV3Schema.Raw\<close>, the bytes of the schema.\<close>

record APIServiceExportVersion =
  ev_Name :: string
  ev_Served :: bool
  ev_Storage :: bool
  ev_Deprecated :: bool
  ev_DeprecationWarning :: "string option"
  ev_Schema :: string
  ev_Subresources :: Subresources
  ev_AdditionalPrinterColumns :: "json list"

record APIServiceExportCRDSpec =
  es_Group :: string
  es_Names :: CRDNames
  es_Scope :: string
  es_Versions :: "APIServiceExportVersion list"

record APIServiceExport =
  ex_Kind :: string
  ex_Meta :: ObjectMeta
  ex_Spec :: APIServiceExportCRDSpec
  ex_PermissionClaims :: "PermissionClaim list"
  ex_InformerScope :: string
  ex_ClusterScopedIsolation :: string
  ex_AcceptedNames :: CRDNames
  ex_StoredVersions :: "string list"
  ex_Conditions :: conditions

definition serviceExportSetter :: "APIServiceExport setter" where
  "serviceExportSetter =
     \<lparr>GetConditions = ex_Conditions, GetName = (\<lambda>o'. om_Name (ex_Meta o')), GetKind = ex_Kind,
      SetConditions = (\<lambda>o' cs. o'\<lparr>ex_Conditions := cs\<rparr>)\<rparr>"

interpretation ex: condition_setter serviceExportSetter
  by unfold_locales (simp_all add: serviceExportSetter_def)

section \<open>CustomResourceDefinition\<close>

record CRDVersion =
  cv_Name :: string
  cv_Served :: bool
  cv_Storage :: bool
  cv_Deprecated :: bool
  cv_DeprecationWarning :: "string option"
  cv_Schema :: "json option"
  cv_Subresources :: "Subresources option"
  cv_AdditionalPrinterColumns :: "json list"

record CRDCondition =
  cc_Type :: string
  cc_Status :: string
  cc_LastTransitionTime :: time
  cc_Reason :: string
  cc_Message :: string

text \<open>\<open>crd_Conversion\<close> is the conversion strategy, when there is one.\<close>

record CRD =
  crd_Meta :: ObjectMeta
  crd_Group :: string
  crd_Names :: CRDNames
  crd_Scope :: string
  crd_Versions :: "CRDVersion list"
  crd_Conversion :: "string option"
  crd_Conditions :: "CRDCondition list"
  crd_AcceptedNames :: CRDNames
  crd_StoredVersions :: "string list"

definition noNames :: CRDNames where
  "noNames = \<lparr>n_Plural = '''', n_Singular = '''', n_ShortNames = [], n_Kind = '''', n_ListKind = '''',
     n_Categories = []\<rparr>"

section \<open>Helpers\<close>

definition GroupName :: string where
  [klutch_defs]: "GroupName = ''klutch.anynines.com''"

definition IsOwnedByBinding :: "string \<Rightarrow> string \<Rightarrow> OwnerReference list \<Rightarrow> bool" where
  "IsOwnedByBinding name uid refs =
     list_ex (\<lambda>ref.
       splitFirst (CHR ''/'') (or_APIVersion ref) = GroupName \<and> or_Kind ref = ''APIServiceBinding'' \<and>
       or_Name ref = name \<and> (uid = '''' \<or> or_UID ref = uid)) refs"

definition versionToCRD ::
  "(string \<Rightarrow> string + json) \<Rightarrow> APIServiceExportVersion \<Rightarrow> string + CRDVersion" where
  "versionToCRD unmarshal v =
     (let crdVersion = \<lparr>cv_Name = ev_Name v, cv_Served = ev_Served v, cv_Storage = ev_Storage v,
            cv_Deprecated = ev_Deprecated v, cv_DeprecationWarning = ev_DeprecationWarning v,
            cv_Schema = None, cv_Subresources = Some (ev_Subresources v),
            cv_AdditionalPrinterColumns = ev_AdditionalPrinterColumns v\<rparr>
      in if length (ev_Schema v) > 0
         then (case unmarshal (ev_Schema v) of
                 Inl e \<Rightarrow>
                   Inl (Sprintf ''failed to unmarshal schema for version %q: %w'' [FStr (ev_Name v), FStr e])
               | Inr schema \<Rightarrow> Inr (crdVersion\<lparr>cv_Schema := Some schema\<rparr>))
         else Inr crdVersion)"

fun versionsToCRD ::
  "(string \<Rightarrow> string + json) \<Rightarrow> APIServiceExportVersion list \<Rightarrow> string + CRDVersion list" where
  "versionsToCRD unmarshal [] = Inr []"
| "versionsToCRD unmarshal (v # vs) =
     (case versionToCRD unmarshal v of
        Inl e \<Rightarrow> Inl e
      | Inr c \<Rightarrow>
          (case versionsToCRD unmarshal vs of Inl e \<Rightarrow> Inl e | Inr cs \<Rightarrow> Inr (c # cs)))"

definition ServiceExportToCRD :: "(string \<Rightarrow> string + json) \<Rightarrow> APIServiceExport \<Rightarrow> string + CRD" where
  "ServiceExportToCRD unmarshal export =
     (case versionsToCRD unmarshal (es_Versions (ex_Spec export)) of
        Inl e \<Rightarrow> Inl e
      | Inr versions \<Rightarrow>
          Inr \<lparr>crd_Meta = namedMeta (om_Name (ex_Meta export)), crd_Group = es_Group (ex_Spec export),
               crd_Names = es_Names (ex_Spec export), crd_Scope = es_Scope (ex_Spec export),
               crd_Versions = versions, crd_Conversion = None, crd_Conditions = [],
               crd_AcceptedNames = noNames, crd_StoredVersions = []\<rparr>)"

definition versionFromCRD ::
  "(json \<Rightarrow> string + string) \<Rightarrow> string \<Rightarrow> CRDVersion \<Rightarrow> string + APIServiceExportVersion" where
  "versionFromCRD marshal crdName c =
     (let v = \<lparr>ev_Name = cv_Name c, ev_Served = cv_Served c, ev_Storage = cv_Storage c,
            ev_Deprecated = cv_Deprecated c, ev_DeprecationWarning = cv_DeprecationWarning c,
            ev_Schema = '''', ev_Subresources = noSubresources,
            ev_AdditionalPrinterColumns = cv_AdditionalPrinterColumns c\<rparr>;
          v1 = (case cv_Subresources c of None \<Rightarrow> v | Some s \<Rightarrow> v\<lparr>ev_Subresources := s\<rparr>)
      in case cv_Schema c of
           None \<Rightarrow> Inr v1
         | Some schema \<Rightarrow>
             (case marshal schema of
                Inl e \<Rightarrow> Inl (Sprintf ''failed to marshal CRD %s schema for version %q: %w''
                                [FStr crdName, FStr (cv_Name c), FStr e])
              | Inr raw \<Rightarrow> Inr (v1\<lparr>ev_Schema := raw\<rparr>)))"

text \<open>
  The loop over the versions. With a conversion webhook it ends at the first version that is
  served and stored, whose storage flag it sets; \<open>spec.Versions\<close> is empty before that.
\<close>

fun versionsFromCRD ::
  "(json \<Rightarrow> string + string) \<Rightarrow> string \<Rightarrow> bool \<Rightarrow> CRDVersion list \<Rightarrow>
     string + APIServiceExportVersion list" where
  "versionsFromCRD marshal crdName onlyFirst [] = Inr []"
| "versionsFromCRD marshal crdName onlyFirst (c # cs) =
     (if \<not> cv_Served c then versionsFromCRD marshal crdName onlyFirst cs
      else if onlyFirst \<and> \<not> cv_Storage c then versionsFromCRD marshal crdName onlyFirst cs
      else case versionFromCRD marshal crdName c of
             Inl e \<Rightarrow> Inl e
           | Inr v \<Rightarrow>
               if onlyFirst then Inr [v\<lparr>ev_Storage := True\<rparr>]
               else (case versionsFromCRD marshal crdName onlyFirst cs of
                       Inl e \<Rightarrow> Inl e
                     | Inr vs \<Rightarrow> Inr (v # vs)))"

definition CRDToServiceExport ::
  "(json \<Rightarrow> string + string) \<Rightarrow> CRD \<Rightarrow> string + APIServiceExportCRDSpec" where
  "CRDToServiceExport marshal crd =
     (let onlyFirstServingVersion = (crd_Conversion crd = Some ''Webhook'') in
      case versionsFromCRD marshal (om_Name (crd_Meta crd)) onlyFirstServingVersion (crd_Versions crd) of
        Inl e \<Rightarrow> Inl e
      | Inr vs \<Rightarrow>
          Inr \<lparr>es_Group = crd_Group crd, es_Names = crd_Names crd, es_Scope = crd_Scope crd,
               es_Versions = vs\<rparr>)"

text \<open>\<open>big.Int.Text(62)\<close>: the digits are \<open>0-9a-zA-Z\<close>.\<close>

definition base62Char :: "nat \<Rightarrow> char" where
  "base62Char d =
     (if d < 10 then char_of (48 + d) else if d < 36 then char_of (97 + (d - 10))
      else char_of (65 + (d - 36)))"

fun text62 :: "nat \<Rightarrow> string" where
  "text62 n = (if n < 62 then [base62Char n] else text62 (n div 62) @ [base62Char (n mod 62)])"

declare text62.simps [simp del]

definition setBytes :: "nat list \<Rightarrow> nat" where
  "setBytes bs = foldl (\<lambda>n b. 256 * n + b) 0 bs"

definition toBase62 :: "nat list \<Rightarrow> string" where
  "toBase62 hash = text62 (setBytes hash)"

definition toSha224Base62 :: "(string \<Rightarrow> nat list) \<Rightarrow> string \<Rightarrow> string" where
  "toSha224Base62 sum224 s = toBase62 (sum224 s)"

definition APIServiceExportCRDSpecHash ::
  "(APIServiceExportCRDSpec \<Rightarrow> string + string) \<Rightarrow> (string \<Rightarrow> nat list) \<Rightarrow> APIServiceExportCRDSpec \<Rightarrow> string" where
  "APIServiceExportCRDSpecHash marshalSpec sum224 obj =
     (case marshalSpec obj of Inl e \<Rightarrow> '''' | Inr bs \<Rightarrow> toSha224Base62 sum224 bs)"

section \<open>The CRD round trip\<close>

text \<open>A version as it comes back: subresources are always set.\<close>

definition withSubresources :: "CRDVersion \<Rightarrow> CRDVersion" where
  "withSubresources c =
     c\<lparr>cv_Subresources := Some (case cv_Subresources c of None \<Rightarrow> noSubresources | Some s \<Rightarrow> s)\<rparr>"

text \<open>The two codecs agree on the schema of a version.\<close>

definition codec :: "(json \<Rightarrow> string + string) \<Rightarrow> (string \<Rightarrow> string + json) \<Rightarrow> CRDVersion \<Rightarrow> bool" where
  "codec marshal unmarshal c =
     (case cv_Schema c of
        None \<Rightarrow> True
      | Some s \<Rightarrow>
          (case marshal s of Inl _ \<Rightarrow> False | Inr raw \<Rightarrow> raw \<noteq> '''' \<and> unmarshal raw = Inr s))"

lemma version_roundtrip:
  assumes "codec marshal unmarshal c"
  obtains v where "versionFromCRD marshal n c = Inr v"
    and "versionToCRD unmarshal v = Inr (withSubresources c)"
    and "ev_Name v = cv_Name c" and "ev_Served v = cv_Served c" and "ev_Storage v = cv_Storage c"
proof (cases "cv_Schema c")
  case None
  then show thesis
    by (intro that[of "projr (versionFromCRD marshal n c)"])
      (simp_all add: versionFromCRD_def versionToCRD_def withSubresources_def Let_def split: option.splits)
next
  case (Some s)
  obtain raw where "marshal s = Inr raw" "raw \<noteq> ''''" "unmarshal raw = Inr s"
    using assms Some by (auto simp: codec_def split: sum.splits)
  with Some show thesis
    by (intro that[of "projr (versionFromCRD marshal n c)"])
      (simp_all add: versionFromCRD_def versionToCRD_def withSubresources_def Let_def split: option.splits)
qed

lemma versions_roundtrip:
  assumes "list_all (codec marshal unmarshal) cs"
  shows "\<exists>vs. versionsFromCRD marshal n False cs = Inr vs \<and>
     versionsToCRD unmarshal vs = Inr (map withSubresources (filter cv_Served cs))"
  using assms
proof (induction cs)
  case (Cons c cs)
  then obtain vs where "versionsFromCRD marshal n False cs = Inr vs"
      "versionsToCRD unmarshal vs = Inr (map withSubresources (filter cv_Served cs))" by auto
  moreover obtain v where "versionFromCRD marshal n c = Inr v"
      "versionToCRD unmarshal v = Inr (withSubresources c)"
    using version_roundtrip[of marshal unmarshal c] Cons.prems by auto
  ultimately show ?case by auto
qed simp

lemma webhook_versions:
  assumes "list_all (codec marshal unmarshal) cs"
  shows "\<exists>vs. versionsFromCRD marshal n True cs = Inr vs \<and>
     (case find (\<lambda>c. cv_Served c \<and> cv_Storage c) cs of
        None \<Rightarrow> vs = []
      | Some c \<Rightarrow> \<exists>v. vs = [v] \<and> ev_Name v = cv_Name c \<and> ev_Served v \<and> ev_Storage v)"
  using assms
proof (induction cs)
  case (Cons c cs)
  obtain v where "versionFromCRD marshal n c = Inr v" "ev_Name v = cv_Name c" "ev_Served v = cv_Served c"
    using version_roundtrip[of marshal unmarshal c] Cons.prems by auto
  with Cons show ?case by auto
qed simp

section \<open>Base 62\<close>

definition base62Val :: "char \<Rightarrow> nat" where
  "base62Val c =
     (let n = of_char c in if n < 58 then n - 48 else if n < 91 then n - 65 + 36 else n - 97 + 10)"

definition val62 :: "string \<Rightarrow> nat" where
  "val62 s = foldl (\<lambda>n c. 62 * n + base62Val c) 0 s"

lemma base62Val_base62Char [simp]: "d < 62 \<Longrightarrow> base62Val (base62Char d) = d"
  by (simp add: base62Val_def base62Char_def Let_def of_char_of)

lemma val62_text62 [simp]: "val62 (text62 n) = n"
proof (induction n rule: text62.induct)
  case (1 n)
  show ?case
  proof (cases "n < 62")
    case True
    then show ?thesis by (subst text62.simps) (simp add: val62_def)
  next
    case False
    with 1 show ?thesis by (subst text62.simps) (simp add: val62_def)
  qed
qed

lemma setBytes_snoc: "setBytes (bs @ [b]) = 256 * setBytes bs + b"
  by (simp add: setBytes_def)

lemma setBytes_inj:
  "length xs = length ys \<Longrightarrow> list_all (\<lambda>b. b < 256) xs \<Longrightarrow> list_all (\<lambda>b. b < 256) ys \<Longrightarrow>
   setBytes xs = setBytes ys \<Longrightarrow> xs = ys"
proof (induction xs arbitrary: ys rule: rev_induct)
  case (snoc x xs)
  obtain zs z where ys: "ys = zs @ [z]"
    using snoc.prems(1) by (cases ys rule: rev_cases) auto
  with snoc.prems have eq: "256 * setBytes xs + x = 256 * setBytes zs + z" and b: "x < 256" "z < 256"
    by (simp_all add: setBytes_snoc)
  from eq have "(256 * setBytes xs + x) mod 256 = (256 * setBytes zs + z) mod 256" by simp
  then have "x = z" using b by simp
  with eq have "setBytes xs = setBytes zs" by simp
  with snoc.IH[of zs] snoc.prems ys \<open>x = z\<close> show ?case by simp
qed simp

lemma toBase62_inj:
  assumes "length xs = length ys" and "list_all (\<lambda>b. b < 256) xs" and "list_all (\<lambda>b. b < 256) ys"
    and "toBase62 xs = toBase62 ys"
  shows "xs = ys"
proof (rule setBytes_inj[OF assms(1-3)])
  show "setBytes xs = setBytes ys"
    using assms(4) val62_text62 unfolding toBase62_def by metis
qed

end
