(* ===== verification/Bind_Samples.thy ===== *)
theory Bind_Samples
  imports Bind_API
begin

text \<open>
  Small concrete objects of the bind API, on which the witnesses of the properties run.
\<close>

section \<open>Sample objects\<close>

definition sampleCondition :: "string \<Rightarrow> string \<Rightarrow> string \<Rightarrow> condition" where
  "sampleCondition t st sev =
     \<lparr>Type = t, Status = st, Severity = sev, LastTransitionTime = 7, Reason = '''', Message = ''''\<rparr>"

definition sampleCluster :: ClusterBinding where
  "sampleCluster =
     \<lparr>cb_Kind = ''ClusterBinding'', cb_Meta = namedMeta ''cluster'',
      cb_KubeconfigSecretRef = \<lparr>ref_Name = ''kubeconfig'', ref_Key = ''kubeconfig''\<rparr>,
      cb_ProviderPrettyName = ''a9s'', cb_LastHeartbeatTime = 0, cb_HeartbeatInterval = 0,
      cb_KonnectorVersion = '''',
      cb_Conditions = [sampleCondition ''SecretValid'' ''True'' '''',
                       sampleCondition ''ValidVersion'' ''False'' ''Warning'']\<rparr>"

definition sampleBinding :: APIServiceBinding where
  "sampleBinding =
     \<lparr>sb_Kind = ''APIServiceBinding'', sb_Meta = (namedMeta ''pg'')\<lparr>om_UID := ''u1''\<rparr>,
      sb_KubeconfigSecretRef = \<lparr>ref_Name = ''kubeconfig'', ref_Key = ''kubeconfig'', ref_Namespace = ''klutch''\<rparr>,
      sb_PermissionClaims = [], sb_ProviderPrettyName = '''',
      sb_Conditions = [sampleCondition ''Connected'' ''False'' ''Error'']\<rparr>"

definition sampleVersion :: APIServiceExportVersion where
  "sampleVersion =
     \<lparr>ev_Name = ''v1'', ev_Served = True, ev_Storage = True, ev_Deprecated = False,
      ev_DeprecationWarning = None, ev_Schema = '''', ev_Subresources = noSubresources,
      ev_AdditionalPrinterColumns = []\<rparr>"

definition sampleExport :: APIServiceExport where
  "sampleExport =
     \<lparr>ex_Kind = ''APIServiceExport'', ex_Meta = (namedMeta ''pg'')\<lparr>om_Generation := 2\<rparr>,
      ex_Spec = \<lparr>es_Group = ''g'', es_Names = noNames\<lparr>n_Plural := ''pgs''\<rparr>, es_Scope = ''Namespaced'',
                 es_Versions = [sampleVersion]\<rparr>,
      ex_PermissionClaims = [], ex_InformerScope = ''Cluster'', ex_ClusterScopedIsolation = '''',
      ex_AcceptedNames = noNames, ex_StoredVersions = [],
      ex_Conditions = [sampleCondition ''Connected'' ''True'' '''']\<rparr>"

definition sampleCRD :: CRD where
  "sampleCRD =
     \<lparr>crd_Meta = namedMeta ''pg'', crd_Group = ''g'', crd_Names = noNames, crd_Scope = ''Namespaced'',
      crd_Versions = [\<lparr>cv_Name = ''v1'', cv_Served = True, cv_Storage = True, cv_Deprecated = False,
         cv_DeprecationWarning = None, cv_Schema = Some (JStr ''s''), cv_Subresources = None,
         cv_AdditionalPrinterColumns = []\<rparr>],
      crd_Conversion = None,
      crd_Conditions = [\<lparr>cc_Type = ''Established'', cc_Status = ''True'', cc_LastTransitionTime = 3,
         cc_Reason = '''', cc_Message = ''''\<rparr>],
      crd_AcceptedNames = noNames, crd_StoredVersions = []\<rparr>"

lemmas sample_defs = sampleCondition_def sampleCluster_def sampleBinding_def sampleVersion_def
  sampleExport_def sampleCRD_def clusterBindingSetter_def serviceBindingSetter_def serviceExportSetter_def
  namedMeta_def

lemma sample_distinct [simp]:
  "distinctTypes (GetConditions clusterBindingSetter sampleCluster)"
  "distinctTypes (GetConditions serviceBindingSetter sampleBinding)"
  "distinctTypes (GetConditions serviceExportSetter sampleExport)"
  by (simp_all add: sample_defs distinctTypes_def)

end
