(* ===== verification/Condition_Properties.thy ===== *)
theory Condition_Properties
  imports Bind_Samples
begin

text \<open>
  The properties of the conditions package, on the object types of the bind API. They rest on the facts
  of the interpretations \<open>cb\<close>, \<open>sb\<close> and \<open>ex\<close> of the locale \<open>condition_setter\<close>.
\<close>

section \<open>Properties of the conditions package\<close>

text \<open>C7: \<open>Set\<close> is an update of the map from condition types to conditions: on an object without duplicate
  types, the entry of the new condition's type becomes the stored entry (the new condition with the
  truncated current time when its state changed, the old entry untouched when it did not,
  the new condition with its own time if it had one when the type is new), and no other
  entry changes.\<close>

theorem Set_updates_one_type:
  assumes "distinctTypes (GetConditions clusterBindingSetter b)"
  shows "Get_condition clusterBindingSetter (Set_condition clusterBindingSetter now b (Some new)) t =
    (if t = Type new
     then Some (case Get_condition clusterBindingSetter b t of
                  None \<Rightarrow> if IsZero (LastTransitionTime new)
                          then new\<lparr>LastTransitionTime := Truncate now second\<rparr> else new
                | Some c \<Rightarrow> if hasSameState c new then c
                            else new\<lparr>LastTransitionTime := Truncate now second\<rparr>)
     else Get_condition clusterBindingSetter b t)"
  using cb.get_Set[OF assms, of now new t] by (simp only: storedEntry_def newEntry_def)

theorem Set_updates_one_type_witness:
  "LastTransitionTime (the (Get_condition clusterBindingSetter
     (Set_condition clusterBindingSetter 5000000001 sampleCluster (Some (TrueCondition ''ValidVersion'')))
     ''ValidVersion'')) = 5000000000"
  using Set_updates_one_type[OF sample_distinct(1), of 5000000001 "TrueCondition ''ValidVersion''" "''ValidVersion''"]
  by (simp add: TrueCondition_def Get_condition_def sample_defs hasSameState_def Truncate_def second_def)

text \<open>Every \<open>Set\<close> leaves the list of conditions well-formed: no type twice, and sorted by
  \<open>lexicographicLess\<close>, so Ready comes first.\<close>

lemma Set_keeps_wf:
  assumes "distinctTypes (GetConditions serviceBindingSetter b)"
  shows "wf_conditions (GetConditions serviceBindingSetter (Set_condition serviceBindingSetter now b (Some new)))"
  by (rule sb.wf_Set[OF assms])

lemma Set_keeps_wf_example:
  "wf_conditions (GetConditions serviceBindingSetter
     (Set_condition serviceBindingSetter 9 sampleBinding (Some (TrueCondition ''Ready''))))"
  by (rule Set_keeps_wf) simp

text \<open>Setting the same condition again, at any later time, changes nothing: a reconcile loop that marks
  the same state over and over does not touch the object.\<close>

lemma Set_idempotent:
  assumes "distinctTypes (GetConditions serviceExportSetter e)"
  shows "Set_condition serviceExportSetter now' (Set_condition serviceExportSetter now e (Some new)) (Some new) =
         Set_condition serviceExportSetter now e (Some new)"
  by (rule ex.Set_again[OF assms])

text \<open>\<open>SetSummary\<close> makes an object Ready exactly when one of its other conditions is true and none is
  false with severity Error, Warning or Info.\<close>

lemma SetSummary_Ready:
  assumes "distinctTypes (GetConditions clusterBindingSetter b)"
    and "c \<in> set (GetConditions clusterBindingSetter b)" and "Type c \<noteq> ReadyCondition"
  shows "IsTrue clusterBindingSetter (SetSummary clusterBindingSetter now b []) ReadyCondition \<longleftrightarrow>
    (\<exists>d \<in> set (GetConditions clusterBindingSetter b).
       Type d \<noteq> ReadyCondition \<and> Status d = ConditionTrue) \<and>
    (\<forall>d \<in> set (GetConditions clusterBindingSetter b). Type d \<noteq> ReadyCondition \<longrightarrow>
       \<not> (Status d = ConditionFalse \<and>
          Severity d \<in> {ConditionSeverityError, ConditionSeverityWarning, ConditionSeverityInfo}))"
  using cb.IsTrue_SetSummary[OF assms] by (simp only: readyHolds_def)

lemma SetSummary_Ready_example:
  "\<not> IsTrue clusterBindingSetter (SetSummary clusterBindingSetter 9 sampleCluster []) ReadyCondition"
  using SetSummary_Ready[OF sample_distinct(1), of "sampleCondition ''SecretValid'' ''True'' ''''" 9]
  by (simp add: sample_defs klutch_defs)

text \<open>The merged condition is decided by a condition of least priority (False with Error, Warning, Info, then
  True, then Unknown), whatever the order of the list: it has that condition's status, and its severity, reason
  and message when it is not true. Nothing is merged only when there is no condition at all.\<close>

lemma merge_takes_least_priority:
  "case merge_conditions I lcs t noMergeOptions of
     None \<Rightarrow> \<not> (\<exists>c src. (Some c, src) \<in> set lcs)
   | Some r \<Rightarrow> \<exists>c src. (Some c, src) \<in> set lcs \<and>
       \<not> (\<exists>d src'. (Some d, src') \<in> set lcs \<and>
            priorityOf (Status d) (Severity d) < priorityOf (Status c) (Severity c)) \<and>
       Type r = t \<and>
       (if Status c = ConditionTrue then Status r = ConditionTrue
        else Reason r = Reason c \<and> Message r = Message c \<and>
          (if Status c = ConditionFalse then Status r = ConditionFalse \<and> Severity r = Severity c
           else Status r = ConditionUnknown))"
proof (cases "merge_conditions I lcs t noMergeOptions")
  case None
  then have "nonNil lcs = {}" by (simp add: merge_None_iff)
  with None show ?thesis by (auto simp: nonNil_def)
next
  case (Some r)
  show ?thesis
  proof (rule merge_decided[OF Some])
    fix c src assume c: "(c, src) \<in> nonNil lcs"
      "\<And>d s. (d, s) \<in> nonNil lcs \<Longrightarrow> condPriority c \<le> condPriority d" "Type r = t"
      "Status r = (if Status c = ConditionTrue then ConditionTrue
                   else if Status c = ConditionFalse then ConditionFalse else ConditionUnknown)"
      "Status c = ConditionFalse \<Longrightarrow> Severity r = Severity c"
      "Status c \<noteq> ConditionTrue \<Longrightarrow> \<not> addSourceRef noMergeOptions \<Longrightarrow> Reason r = Reason c"
      "Status c \<noteq> ConditionTrue \<Longrightarrow> \<not> addStepCounter noMergeOptions \<Longrightarrow> Message r = Message c"
    have flags: "\<not> addSourceRef noMergeOptions" "\<not> addStepCounter noMergeOptions"
      by (simp_all add: noMergeOptions_def)
    have mem: "(Some c, src) \<in> set lcs" using c(1) by (simp add: nonNil_def)
    have "\<not> condPriority d < condPriority c" if "(Some d, s) \<in> set lcs" for d s
      using c(2)[of d s] that by (simp add: nonNil_def)
    then have least: "\<not> (\<exists>d src'. (Some d, src') \<in> set lcs \<and>
        priorityOf (Status d) (Severity d) < priorityOf (Status c) (Severity c))"
      unfolding condPriority_def by blast
    have "if Status c = ConditionTrue then Status r = ConditionTrue
          else Reason r = Reason c \<and> Message r = Message c \<and>
            (if Status c = ConditionFalse then Status r = ConditionFalse \<and> Severity r = Severity c
             else Status r = ConditionUnknown)"
      using c(4-7) flags by simp
    with mem least c(3) show ?thesis unfolding Some option.case by blast
  qed
qed

text \<open>C5: applying the difference of two objects to a third one is a three-way merge. If the third object still
  agrees with the first one on every type that changed, or that type is owned or overwriting is
  forced, \<open>Apply\<close> returns no error, every changed type reaches the state it has in the second
  object, and every other type keeps what the third object says.\<close>

theorem Patch_three_way_merge:
  assumes "distinctTypes (GetConditions clusterBindingSetter before)"
    and "distinctTypes (GetConditions clusterBindingSetter after)"
    and "distinctTypes (GetConditions clusterBindingSetter latest)"
    and "\<And>t. Get_condition clusterBindingSetter before t \<noteq> Get_condition clusterBindingSetter after t \<Longrightarrow>
           mayOverwrite (foldl (\<lambda>c f. f c) noApplyOptions options) t \<or>
           Get_condition clusterBindingSetter latest t = Get_condition clusterBindingSetter before t"
  shows "\<exists>l. Patch_Apply clusterBindingSetter now (NewPatch clusterBindingSetter before after) latest options = (None, l) \<and>
    (\<forall>t. if Get_condition clusterBindingSetter before t = Get_condition clusterBindingSetter after t
         then Get_condition clusterBindingSetter l t = Get_condition clusterBindingSetter latest t
         else rel_option hasSameState (Get_condition clusterBindingSetter l t)
                (Get_condition clusterBindingSetter after t))"
  by (rule cb.apply_NewPatch[OF assms])

theorem Patch_three_way_merge_witness:
  "\<exists>l. Patch_Apply clusterBindingSetter 3
         (NewPatch clusterBindingSetter (sampleCluster\<lparr>cb_Conditions := []\<rparr>) sampleCluster)
         (sampleCluster\<lparr>cb_Conditions := [sampleCondition ''Healthy'' ''True'' '''']\<rparr>)
         [WithForceOverwrite True] = (None, l) \<and>
       Get_condition clusterBindingSetter l ''Healthy'' = Some (sampleCondition ''Healthy'' ''True'' '''')"
proof -
  let ?b = "sampleCluster\<lparr>cb_Conditions := []\<rparr>"
  let ?l = "sampleCluster\<lparr>cb_Conditions := [sampleCondition ''Healthy'' ''True'' '''']\<rparr>"
  have "distinctTypes (GetConditions clusterBindingSetter ?b)" "distinctTypes (GetConditions clusterBindingSetter ?l)"
    by (simp_all add: sample_defs distinctTypes_def)
  from Patch_three_way_merge[OF this(1) sample_distinct(1) this(2), of "[WithForceOverwrite True]" 3]
  obtain l where l: "Patch_Apply clusterBindingSetter 3 (NewPatch clusterBindingSetter ?b sampleCluster) ?l
        [WithForceOverwrite True] = (None, l)"
      "\<forall>t. if Get_condition clusterBindingSetter ?b t = Get_condition clusterBindingSetter sampleCluster t
           then Get_condition clusterBindingSetter l t = Get_condition clusterBindingSetter ?l t
           else rel_option hasSameState (Get_condition clusterBindingSetter l t)
                  (Get_condition clusterBindingSetter sampleCluster t)"
    by (auto simp: mayOverwrite_def WithForceOverwrite_def)
  have "Get_condition clusterBindingSetter ?b ''Healthy'' = Get_condition clusterBindingSetter sampleCluster ''Healthy''"
      "Get_condition clusterBindingSetter ?l ''Healthy'' = Some (sampleCondition ''Healthy'' ''True'' '''')"
    by (simp_all add: Get_condition_def sample_defs)
  with l show ?thesis by metis
qed

text \<open>A patch names each type at most once, and exactly the types on which the two objects differ.\<close>

lemma NewPatch_exact:
  assumes "distinctTypes (GetConditions serviceBindingSetter before)"
    and "distinctTypes (GetConditions serviceBindingSetter after)"
  shows "distinct (map opType (NewPatch serviceBindingSetter before after)) \<and>
    opType ` set (NewPatch serviceBindingSetter before after) =
      {t. Get_condition serviceBindingSetter before t \<noteq> Get_condition serviceBindingSetter after t}"
  by (simp add: distinct_NewPatch[OF assms] NewPatch_types[OF assms])

section \<open>Properties of the CRD conversion\<close>

text \<open>Exporting a CRD without conversion webhook and installing it again gives back the served versions, in
  order and with their schemas, under the same group, names and scope; only missing subresources become
  empty ones. The hypothesis is that the JSON and YAML codecs invert each other on the schemas at hand.\<close>

lemma CRD_roundtrip:
  assumes "list_all (codec marshal unmarshal) (crd_Versions crd)" and "crd_Conversion crd \<noteq> Some ''Webhook''"
  shows "\<exists>spec. CRDToServiceExport marshal crd = Inr spec \<and>
    (\<exists>crd'. ServiceExportToCRD unmarshal (export\<lparr>ex_Spec := spec\<rparr>) = Inr crd' \<and>
       crd_Versions crd' = map withSubresources (filter cv_Served (crd_Versions crd)) \<and>
       crd_Group crd' = crd_Group crd \<and> crd_Names crd' = crd_Names crd \<and> crd_Scope crd' = crd_Scope crd \<and>
       om_Name (crd_Meta crd') = om_Name (ex_Meta export))"
proof -
  obtain vs where "versionsFromCRD marshal (om_Name (crd_Meta crd)) False (crd_Versions crd) = Inr vs"
      "versionsToCRD unmarshal vs = Inr (map withSubresources (filter cv_Served (crd_Versions crd)))"
    using versions_roundtrip[OF assms(1)] by blast
  with assms(2) show ?thesis
    by (simp add: CRDToServiceExport_def ServiceExportToCRD_def Let_def namedMeta_def)
qed

lemma CRD_roundtrip_example:
  "\<exists>spec crd'. CRDToServiceExport (\<lambda>_. Inr ''s'') sampleCRD = Inr spec \<and>
     ServiceExportToCRD (\<lambda>_. Inr (JStr ''s'')) (sampleExport\<lparr>ex_Spec := spec\<rparr>) = Inr crd' \<and>
     map cv_Schema (crd_Versions crd') = [Some (JStr ''s'')]"
proof -
  have "list_all (codec (\<lambda>_. Inr ''s'') (\<lambda>_. Inr (JStr ''s''))) (crd_Versions sampleCRD)"
      "crd_Conversion sampleCRD \<noteq> Some ''Webhook''"
    by (simp_all add: sampleCRD_def codec_def)
  from CRD_roundtrip[OF this, of sampleExport] show ?thesis
    by (auto simp: sampleCRD_def withSubresources_def)
qed

end
