(* ===== verification/Spec_Sync.thy ===== *)
theory Spec_Sync
  imports Kube_Object
begin

text \<open>
  The spec syncer, \<open>bind/pkg/konnector/controllers/cluster/serviceexport/spec/spec_reconcile.go\<close>: it
  copies a consumer object (downstream) to the provider cluster (upstream) and deletes the copy when
  the original goes. \<open>spec_reconcile\<close> is \<open>reconcile\<close>, cut at its three stages:
  finding the provider namespace, creating the missing upstream object, and syncing the
  existing one. A stage either returns from \<open>reconcile\<close> (\<open>Inl\<close>, with the error that is
  returned) or goes on (\<open>Inr\<close>). The error branches of \<open>NestedFieldNoCopy\<close> and
  \<open>SetNestedField\<close> are not modelled: on one field of a top-level map they do not occur.

  The lemmas show, for every behaviour of the two clusters: an object under deletion is never
  created or written upstream; its finalizer goes only when the upstream object is gone or its
  deletion was accepted; an upstream object is created only after the finalizer is on the
  downstream object, and it carries none of its identity; and a run that returns without error
  leaves the upstream spec equal to the downstream one or has asked for it.
\<close>

section \<open>Finalizers\<close>

definition ensureDownstreamFinalizer ::
  "sync_reconciler \<Rightarrow> calls \<Rightarrow> unstructured \<Rightarrow> (apierr + unstructured) \<times> calls" where
  "ensureDownstreamFinalizer R l obj =
     (if list_ex (\<lambda>f. f = DownstreamFinalizer) (u_finalizers obj) then (Inr obj, l)
      else (let obj' = obj\<lparr>u_finalizers := u_finalizers obj @ [DownstreamFinalizer]\<rparr>
            in (updateConsumerObject R l obj', l @ [UpdateConsumerObject obj'])))"

definition removeDownstreamFinalizer ::
  "sync_reconciler \<Rightarrow> calls \<Rightarrow> unstructured \<Rightarrow> (apierr + unstructured) \<times> calls" where
  "removeDownstreamFinalizer R l obj =
     (if list_ex (\<lambda>f. f = DownstreamFinalizer) (u_finalizers obj)
      then (let obj' = obj\<lparr>u_finalizers := filter (\<lambda>f. f \<noteq> DownstreamFinalizer) (u_finalizers obj)\<rparr>
            in (updateConsumerObject R l obj', l @ [UpdateConsumerObject obj']))
      else (Inr obj, l))"

section \<open>The stages of reconcile\<close>

definition spec_namespace ::
  "sync_reconciler \<Rightarrow> calls \<Rightarrow> unstructured \<Rightarrow> (apierr option + string) \<times> calls" where
  "spec_namespace R l obj =
     (let ns = u_namespace obj in
      if ns = '''' then (Inr ns, l)
      else
        (let l1 = l @ [GetServiceNamespace ns];
             new = \<lparr>sn_Name = ns, sn_Namespace = providerNamespace R, sn_Status_Namespace = ''''\<rparr>;
             (r, l2) = (case getServiceNamespace R l ns of
                          Inr sn \<Rightarrow> (Inr sn, l1)
                        | Inl e \<Rightarrow>
                            if \<not> IsNotFound e then (Inl e, l1)
                            else (createServiceNamespace R l1 new, l1 @ [CreateServiceNamespace new]))
         in case r of
              Inl e \<Rightarrow> (Inl (Some e), l2)
            | Inr sn \<Rightarrow>
                if sn_Status_Namespace sn = ''''
                then (Inl (requeue R l2 obj second), l2 @ [Requeue obj second])
                else (Inr (sn_Status_Namespace sn), l2)))"

text \<open>The copy that is created upstream.\<close>

definition upstreamCopy :: "string \<Rightarrow> unstructured \<Rightarrow> unstructured" where
  "upstreamCopy ns obj =
     InjectBoundAnnotation
       (obj\<lparr>u_uid := '''', u_resourceVersion := '''', u_namespace := ns, u_managedFields := None,
            u_deletionTimestamp := None, u_deletionGracePeriodSeconds := None,
            u_ownerReferences := [], u_finalizers := [], u_status := None\<rparr>)"

definition spec_upstream ::
  "sync_reconciler \<Rightarrow> calls \<Rightarrow> string \<Rightarrow> unstructured \<Rightarrow>
     (apierr option + unstructured \<times> unstructured) \<times> calls" where
  "spec_upstream R l ns obj =
     (let l1 = l @ [GetProviderObject ns (u_name obj)] in
      case getProviderObject R l ns (u_name obj) of
        Inr upstream \<Rightarrow> (Inr (obj, upstream), l1)
      | Inl e \<Rightarrow>
          if \<not> IsNotFound e then (Inl (Some e), l1)
          else if isDeleting obj
          then (let (r, l2) = removeDownstreamFinalizer R l1 obj in (Inl (errOf r), l2))
          else
            (case ensureDownstreamFinalizer R l1 obj of
               (Inl e', l2) \<Rightarrow> (Inl (Some e'), l2)
             | (Inr obj', l2) \<Rightarrow>
                 (let upstream = upstreamCopy ns obj';
                      l3 = l2 @ [CreateProviderObject upstream]
                  in case createProviderObject R l2 upstream of
                       Inl e' \<Rightarrow>
                         if \<not> IsAlreadyExists e' then (Inl (Some e'), l3) else (Inr (obj', upstream), l3)
                     | Inr _ \<Rightarrow> (Inr (obj', upstream), l3))))"

text \<open>The upstream object with the downstream spec, as it is sent to the provider.\<close>

definition withSpecOf :: "unstructured \<Rightarrow> unstructured \<Rightarrow> unstructured" where
  "withSpecOf obj upstream =
     InjectBoundAnnotation (upstream\<lparr>u_spec := u_spec obj, u_managedFields := None\<rparr>)"

text \<open>
  The comparison is that of the values of the two \<open>spec\<close> fields, where a missing field reads as
  a nil value: \<open>specValue\<close>.
\<close>

definition specValue :: "unstructured \<Rightarrow> json" where
  "specValue obj = (case u_spec obj of None \<Rightarrow> JNull | Some v \<Rightarrow> v)"

definition spec_sync ::
  "sync_reconciler \<Rightarrow> calls \<Rightarrow> string \<Rightarrow> unstructured \<Rightarrow> unstructured \<Rightarrow> outcome" where
  "spec_sync R l ns obj upstream =
     (if isDeleting obj
      then (if isDeleting upstream then (None, l)
            else
              (let l1 = l @ [DeleteProviderObject ns (u_name obj)] in
               case deleteProviderObject R l ns (u_name obj) of
                 Some e \<Rightarrow>
                   if \<not> IsNotFound e then (Some e, l1)
                   else (let (r, l2) = removeDownstreamFinalizer R l1 obj in (errOf r, l2))
               | None \<Rightarrow> (let (r, l2) = removeDownstreamFinalizer R l1 obj in (errOf r, l2))))
      else
        (case ensureDownstreamFinalizer R l obj of
           (Inl e, l1) \<Rightarrow> (Some e, l1)
         | (Inr obj', l1) \<Rightarrow>
             if specValue obj' = specValue upstream then (None, l1)
             else (let upstream' = withSpecOf obj' upstream
                   in (errOf (updateProviderObject R l1 upstream'), l1 @ [UpdateProviderObject upstream']))))"

definition spec_reconcile :: "sync_reconciler \<Rightarrow> calls \<Rightarrow> unstructured \<Rightarrow> outcome" where
  "spec_reconcile R l obj =
     (case spec_namespace R l obj of
        (Inl ret, l1) \<Rightarrow> (ret, l1)
      | (Inr ns, l1) \<Rightarrow>
          (case spec_upstream R l1 ns obj of
             (Inl ret, l2) \<Rightarrow> (ret, l2)
           | (Inr (obj', upstream), l2) \<Rightarrow> spec_sync R l2 ns obj' upstream))"

section \<open>What each stage may call\<close>

lemmas finalizer_defs = ensureDownstreamFinalizer_def removeDownstreamFinalizer_def list_ex_iff

lemma namespace_calls:
  "\<exists>m. snd (spec_namespace R l obj) = l @ m \<and>
       set (requests m) \<subseteq> range CreateServiceNamespace"
  by (auto simp: spec_namespace_def Let_def split: sum.splits prod.splits if_splits)

lemma upstream_calls_deleting:
  assumes "isDeleting obj"
  shows "\<exists>m. snd (spec_upstream R l ns obj) = l @ m \<and> set (requests m) \<subseteq> range UpdateConsumerObject"
  using assms
  by (auto simp: spec_upstream_def Let_def finalizer_defs split: sum.splits)

lemma spec_upstream_deleting_cont:
  "isDeleting obj \<Longrightarrow> fst (spec_upstream R l ns obj) = Inr (obj', up) \<Longrightarrow> obj' = obj"
  by (auto simp: spec_upstream_def Let_def split: sum.splits prod.splits if_splits)

lemma sync_calls_deleting:
  assumes "isDeleting obj"
  shows "\<exists>m. snd (spec_sync R l ns obj up) = l @ m \<and>
     set (requests m) \<subseteq> {DeleteProviderObject ns (u_name obj)} \<union> range UpdateConsumerObject"
  using assms
  by (auto simp: spec_sync_def Let_def finalizer_defs split: option.splits)

text \<open>
  An object under deletion: no request of the run creates or updates an upstream object.
\<close>

lemma spec_deleting_requests:
  assumes "isDeleting obj"
  shows "\<exists>m ns. snd (spec_reconcile R l obj) = l @ m \<and>
     set (requests m) \<subseteq> range CreateServiceNamespace \<union> range UpdateConsumerObject \<union>
       {DeleteProviderObject ns (u_name obj)}"
proof -
  obtain r1 l1 where 1: "spec_namespace R l obj = (r1, l1)" by fastforce
  obtain m1 where m1: "l1 = l @ m1" "set (requests m1) \<subseteq> range CreateServiceNamespace"
    using namespace_calls[of R l obj] 1 by auto
  show ?thesis
  proof (cases r1)
    case (Inl ret)
    with 1 m1 show ?thesis by (auto simp: spec_reconcile_def)
  next
    case (Inr ns)
    obtain r2 l2 where 2: "spec_upstream R l1 ns obj = (r2, l2)" by fastforce
    obtain m2 where m2: "l2 = l1 @ m2" "set (requests m2) \<subseteq> range UpdateConsumerObject"
      using upstream_calls_deleting[OF assms, of R l1 ns] 2 by auto
    show ?thesis
    proof (cases r2)
      case (Inl ret)
      with 1 2 Inr m1 m2 show ?thesis
        by (intro exI[of _ "m1 @ m2"]) (auto simp: spec_reconcile_def)
    next
      case (Inr p)
      then obtain up where up: "r2 = Inr (obj, up)"
        using spec_upstream_deleting_cont[OF assms, of R l1 ns] 2 by (cases p) auto
      obtain m3 where "snd (spec_sync R l2 ns obj up) = l2 @ m3"
          "set (requests m3) \<subseteq> {DeleteProviderObject ns (u_name obj)} \<union> range UpdateConsumerObject"
        using sync_calls_deleting[OF assms, of R l2 ns up] by auto
      with 1 2 \<open>r1 = Inr ns\<close> up m1 m2 show ?thesis
        by (intro exI[of _ "m1 @ m2 @ m3"] exI[of _ ns]) (auto simp: spec_reconcile_def)
    qed
  qed
qed

section \<open>Creation follows the finalizer\<close>

lemma upstreamCopy_clean:
  "u_uid (upstreamCopy ns obj) = ''''" "u_resourceVersion (upstreamCopy ns obj) = ''''"
  "u_namespace (upstreamCopy ns obj) = ns" "u_name (upstreamCopy ns obj) = u_name obj"
  "u_ownerReferences (upstreamCopy ns obj) = []" "u_finalizers (upstreamCopy ns obj) = []"
  "u_deletionTimestamp (upstreamCopy ns obj) = None" "u_status (upstreamCopy ns obj) = None"
  "u_spec (upstreamCopy ns obj) = u_spec obj" "u_rest (upstreamCopy ns obj) = u_rest obj"
  "fmlookup (annotationsOf (upstreamCopy ns obj)) boundKey = Some ''true''"
  by (simp_all add: upstreamCopy_def)

text \<open>
  \<open>finalized R l obj obj'\<close>: the object that goes on after \<open>l\<close> has the finalizer, because
  it had it before or because the last call put it there and was accepted.
\<close>

definition finalized :: "sync_reconciler \<Rightarrow> calls \<Rightarrow> unstructured \<Rightarrow> unstructured \<Rightarrow> bool" where
  "finalized R l obj obj' \<longleftrightarrow>
     (DownstreamFinalizer \<in> set (u_finalizers obj) \<and> obj' = obj) \<or>
     (\<exists>pre. let o1 = obj\<lparr>u_finalizers := u_finalizers obj @ [DownstreamFinalizer]\<rparr>
            in l = pre @ [UpdateConsumerObject o1] \<and> updateConsumerObject R pre o1 = Inr obj')"

lemma ensure_finalized:
  "ensureDownstreamFinalizer R l obj = (Inr obj', l1) \<Longrightarrow> finalized R l1 obj obj'"
  by (auto simp: finalizer_defs finalized_def Let_def split: if_splits)

lemma ensure_calls:
  "\<exists>m. snd (ensureDownstreamFinalizer R l obj) = l @ m \<and> set m \<subseteq> range UpdateConsumerObject"
  by (auto simp: finalizer_defs Let_def)

lemma upstream_create:
  assumes "snd (spec_upstream R l ns obj) = l @ m" and "CreateProviderObject up \<in> set m"
  shows "\<exists>pre obj'. m = pre @ [CreateProviderObject up] \<and> pre \<noteq> [] \<and> \<not> isDeleting obj \<and>
     up = upstreamCopy ns obj' \<and> finalized R (l @ pre) obj obj'"
proof -
  let ?l1 = "l @ [GetProviderObject ns (u_name obj)]"
  obtain r l2 where e: "ensureDownstreamFinalizer R ?l1 obj = (r, l2)" by fastforce
  obtain k where k: "l2 = ?l1 @ k" "set k \<subseteq> range UpdateConsumerObject"
    using ensure_calls[of R ?l1 obj] e by auto
  then have nk: "CreateProviderObject up \<notin> set k" by auto
  have nd: "\<not> isDeleting obj" and nf: "\<exists>err. getProviderObject R l ns (u_name obj) = Inl err \<and> IsNotFound err"
    using assms by (auto simp: spec_upstream_def Let_def finalizer_defs split: sum.splits if_splits)
  show ?thesis
  proof (cases r)
    case (Inl x)
    with assms nd nf e k(1) nk show ?thesis by (auto simp: spec_upstream_def Let_def)
  next
    case (Inr obj')
    have "m = GetProviderObject ns (u_name obj) # k @ [CreateProviderObject (upstreamCopy ns obj')]"
      using assms(1) nd nf e Inr k(1) by (auto simp: spec_upstream_def Let_def split: sum.splits if_splits)
    with assms(2) nd k ensure_finalized[of R ?l1 obj obj' l2] e Inr show ?thesis
      by (intro exI[of _ "GetProviderObject ns (u_name obj) # k"] exI[of _ obj']) auto
  qed
qed

lemma upstream_prefix: "\<exists>m. snd (spec_upstream R l ns obj) = l @ m"
  by (auto simp: spec_upstream_def Let_def finalizer_defs split: sum.splits)

lemma sync_nocreate: "\<exists>m. snd (spec_sync R l ns obj up) = l @ m \<and> set m \<inter> range CreateProviderObject = {}"
  by (auto simp: spec_sync_def Let_def finalizer_defs split: option.splits sum.splits)

lemma namespace_nocreate:
  "\<exists>m. snd (spec_namespace R l obj) = l @ m \<and> set m \<inter> range CreateProviderObject = {}"
  by (auto simp: spec_namespace_def Let_def split: sum.splits prod.splits if_splits)

lemma spec_create:
  assumes "snd (spec_reconcile R l obj) = l @ m" and "CreateProviderObject up \<in> set m"
  shows "\<exists>pre post ns obj'. m = pre @ CreateProviderObject up # post \<and> pre \<noteq> [] \<and> \<not> isDeleting obj \<and>
     fst (spec_namespace R l obj) = Inr ns \<and> up = upstreamCopy ns obj' \<and>
     finalized R (l @ pre) obj obj'"
proof -
  obtain r1 l1 where 1: "spec_namespace R l obj = (r1, l1)" by fastforce
  obtain m1 where m1: "l1 = l @ m1" "CreateProviderObject up \<notin> set m1"
    using namespace_nocreate[of R l obj] 1 by auto
  obtain ns where r1: "r1 = Inr ns"
    using 1 m1 assms by (cases r1) (auto simp: spec_reconcile_def)
  obtain r2 m2 where 2: "spec_upstream R l1 ns obj = (r2, l1 @ m2)"
    using upstream_prefix[of R l1 ns obj] by (metis prod.collapse)
  obtain post where m: "m = m1 @ m2 @ post" "CreateProviderObject up \<notin> set post"
  proof (cases r2)
    case (Inl x)
    with 1 2 r1 m1 assms(1) show thesis
      using that[of "[]"] by (simp add: spec_reconcile_def)
  next
    case (Inr p)
    then obtain obj' up' where p: "r2 = Inr (obj', up')" by (cases p) auto
    obtain m3 where "snd (spec_sync R (l1 @ m2) ns obj' up') = l1 @ m2 @ m3"
        "set m3 \<inter> range CreateProviderObject = {}"
      using sync_nocreate[of R "l1 @ m2" ns obj' up'] by auto
    with 1 2 r1 p m1 assms(1) show thesis
      using that[of m3] by (auto simp: spec_reconcile_def)
  qed
  then have "CreateProviderObject up \<in> set m2"
    using assms(2) m1(2) by simp
  from upstream_create[of R l1 ns obj m2, OF _ this] 2
  obtain pre obj' where "m2 = pre @ [CreateProviderObject up]" "pre \<noteq> []" "\<not> isDeleting obj"
      "up = upstreamCopy ns obj'" "finalized R (l1 @ pre) obj obj'"
    by auto
  with m m1 1 r1 show ?thesis
    by (intro exI[of _ "m1 @ pre"] exI[of _ post] exI[of _ ns] exI[of _ obj']) auto
qed

section \<open>The finalizer is released only when upstream is gone\<close>

definition released :: "unstructured \<Rightarrow> unstructured" where
  "released obj = obj\<lparr>u_finalizers := filter (\<lambda>f. f \<noteq> DownstreamFinalizer) (u_finalizers obj)\<rparr>"

lemma remove_calls:
  "snd (removeDownstreamFinalizer R l obj) = l @ m \<Longrightarrow> set m \<subseteq> {UpdateConsumerObject (released obj)}"
  by (auto simp: finalizer_defs Let_def released_def split: if_splits)

text \<open>
  \<open>upstreamGone\<close>: the provider said that the object does not exist, or accepted its deletion, or
  answered the deletion with not found.
\<close>

definition upstreamGone :: "sync_reconciler \<Rightarrow> calls \<Rightarrow> string \<Rightarrow> string \<Rightarrow> bool" where
  "upstreamGone R l ns name \<longleftrightarrow>
     (\<exists>pre post e. l = pre @ GetProviderObject ns name # post \<and>
        getProviderObject R pre ns name = Inl e \<and> IsNotFound e) \<or>
     (\<exists>pre post. l = pre @ DeleteProviderObject ns name # post \<and>
        (case deleteProviderObject R pre ns name of None \<Rightarrow> True | Some e \<Rightarrow> IsNotFound e))"

lemma upstream_release:
  assumes "isDeleting obj" and "snd (spec_upstream R l ns obj) = l @ m"
    and "UpdateConsumerObject o' \<in> set m"
  shows "\<exists>pre. m = pre @ [UpdateConsumerObject o'] \<and> o' = released obj \<and>
     upstreamGone R (l @ pre) ns (u_name obj)"
proof -
  let ?l1 = "l @ [GetProviderObject ns (u_name obj)]"
  obtain e where e: "getProviderObject R l ns (u_name obj) = Inl e" "IsNotFound e"
    using assms by (auto simp: spec_upstream_def Let_def split: sum.splits if_splits)
  then have m: "snd (removeDownstreamFinalizer R ?l1 obj) = l @ m"
    using assms(1,2) by (simp add: spec_upstream_def split: prod.splits)
  then have "m = [GetProviderObject ns (u_name obj), UpdateConsumerObject (released obj)]"
    using assms(3) by (auto simp: finalizer_defs released_def Let_def split: if_splits)
  with e assms(3) show ?thesis
    by (intro exI[of _ "[GetProviderObject ns (u_name obj)]"]) (auto simp: upstreamGone_def)
qed

lemma sync_release:
  assumes "isDeleting obj" and "snd (spec_sync R l ns obj up) = l @ m"
    and "UpdateConsumerObject o' \<in> set m"
  shows "\<exists>pre. m = pre @ [UpdateConsumerObject o'] \<and> o' = released obj \<and>
     upstreamGone R (l @ pre) ns (u_name obj)"
proof -
  let ?d = "DeleteProviderObject ns (u_name obj)"
  have ok: "case deleteProviderObject R l ns (u_name obj) of None \<Rightarrow> True | Some e \<Rightarrow> IsNotFound e"
    using assms by (auto simp: spec_sync_def Let_def split: option.splits if_splits)
  then have "snd (removeDownstreamFinalizer R (l @ [?d]) obj) = l @ m"
    using assms by (auto simp: spec_sync_def Let_def split: option.splits if_splits prod.splits)
  then have "m = [?d, UpdateConsumerObject (released obj)]"
    using assms(3) by (auto simp: finalizer_defs released_def Let_def split: if_splits)
  with ok assms(3) show ?thesis
    by (intro exI[of _ "[?d]"]) (auto simp: upstreamGone_def)
qed

lemma upstreamGone_append: "upstreamGone R l ns n \<Longrightarrow> upstreamGone R (l @ m) ns n"
  unfolding upstreamGone_def by (metis append.assoc append_Cons)

lemma namespace_noupdate:
  "\<exists>m. snd (spec_namespace R l obj) = l @ m \<and> set m \<inter> range UpdateConsumerObject = {}"
  by (auto simp: spec_namespace_def Let_def split: sum.splits prod.splits if_splits)

lemma spec_release:
  assumes "isDeleting obj" and "snd (spec_reconcile R l obj) = l @ m"
    and "UpdateConsumerObject o' \<in> set m"
  shows "\<exists>ns pre. fst (spec_namespace R l obj) = Inr ns \<and> m = pre @ [UpdateConsumerObject o'] \<and>
     o' = released obj \<and> upstreamGone R (l @ pre) ns (u_name obj)"
proof -
  obtain r1 l1 where 1: "spec_namespace R l obj = (r1, l1)" by fastforce
  obtain m1 where m1: "l1 = l @ m1" "UpdateConsumerObject o' \<notin> set m1"
    using namespace_noupdate[of R l obj] 1 by auto
  obtain ns where r1: "r1 = Inr ns"
    using 1 m1 assms by (cases r1) (auto simp: spec_reconcile_def)
  obtain r2 m2 where 2: "spec_upstream R l1 ns obj = (r2, l1 @ m2)"
    using upstream_prefix[of R l1 ns obj] by (metis prod.collapse)
  show ?thesis
  proof (cases r2)
    case (Inl x)
    then have "m = m1 @ m2" using 1 2 r1 m1 assms(2) by (simp add: spec_reconcile_def)
    with assms(3) m1(2) have "UpdateConsumerObject o' \<in> set m2" by simp
    from upstream_release[OF assms(1) _ this, of R l1 ns] 2 \<open>m = m1 @ m2\<close> 1 r1 m1 show ?thesis
      by (auto intro: exI[of _ "m1 @ _"])
  next
    case (Inr p)
    then obtain obj' up where p: "r2 = Inr (obj', up)" by (cases p) auto
    have m2: "m2 = [GetProviderObject ns (u_name obj)]" "obj' = obj"
      using 2 p assms(1) by (auto simp: spec_upstream_def Let_def split: sum.splits if_splits prod.splits)
    obtain m3 where m3: "snd (spec_sync R (l1 @ m2) ns obj up) = (l1 @ m2) @ m3"
      using sync_nocreate[of R "l1 @ m2" ns obj up] by auto
    have m: "m = m1 @ m2 @ m3"
      using 1 2 r1 p m1 m2 m3 assms(2) by (simp add: spec_reconcile_def)
    with assms(3) m1(2) m2 have "UpdateConsumerObject o' \<in> set m3" by simp
    from sync_release[OF assms(1) m3 this] m 1 r1 m1 show ?thesis
      by (auto intro: exI[of _ "m1 @ m2 @ _"])
  qed
qed

section \<open>Convergence\<close>

text \<open>
  \<open>keepsSpec\<close>: an accepted update of the downstream object answers with the spec and the deletion
  state that were sent, which is what an API server does.
\<close>

definition keepsSpec :: "sync_reconciler \<Rightarrow> bool" where
  "keepsSpec R \<longleftrightarrow>
     (\<forall>k o1 o2. updateConsumerObject R k o1 = Inr o2 \<longrightarrow>
        u_spec o2 = u_spec o1 \<and> isDeleting o2 = isDeleting o1)"

text \<open>
  A create that the API server accepted, and one that it refused because another writer made the object since it was looked
  up. The code goes on in both cases, but only the first leaves the provider with what was sent.
\<close>

definition created :: "sync_reconciler \<Rightarrow> calls \<Rightarrow> unstructured \<Rightarrow> bool" where
  "created R l up = (case createProviderObject R l up of Inr _ \<Rightarrow> True | Inl _ \<Rightarrow> False)"

definition overtaken :: "sync_reconciler \<Rightarrow> calls \<Rightarrow> unstructured \<Rightarrow> bool" where
  "overtaken R l up = (case createProviderObject R l up of Inr _ \<Rightarrow> False | Inl e \<Rightarrow> IsAlreadyExists e)"

lemma ensure_keepsSpec:
  assumes "keepsSpec R" and "ensureDownstreamFinalizer R k o1 = (Inr o2, k')"
  shows "u_spec o2 = u_spec o1 \<and> isDeleting o2 = isDeleting o1"
proof (cases "DownstreamFinalizer \<in> set (u_finalizers o1)")
  case True
  with assms(2) show ?thesis by (simp add: finalizer_defs)
next
  case False
  let ?o = "o1\<lparr>u_finalizers := u_finalizers o1 @ [DownstreamFinalizer]\<rparr>"
  have "updateConsumerObject R k ?o = Inr o2"
    using assms(2) False by (simp add: finalizer_defs Let_def)
  then have "u_spec o2 = u_spec ?o \<and> isDeleting o2 = isDeleting ?o"
    using assms(1) unfolding keepsSpec_def by blast
  then show ?thesis by (simp add: isDeleting_def)
qed

text \<open>How the second stage goes on: with the object that was found, or with the one it created.\<close>

definition foundMissing :: "sync_reconciler \<Rightarrow> calls \<Rightarrow> string \<Rightarrow> unstructured \<Rightarrow> bool" where
  "foundMissing R l ns obj = (case getProviderObject R l ns (u_name obj) of Inr _ \<Rightarrow> False | Inl e \<Rightarrow> IsNotFound e)"

lemma upstream_continues:
  assumes "keepsSpec R" and "\<not> isDeleting obj" and "spec_upstream R l ns obj = (r, l2)"
  shows "(\<exists>e. r = Inl (Some e)) \<or>
     (\<exists>up. r = Inr (obj, up) \<and> getProviderObject R l ns (u_name obj) = Inr up \<and>
        l2 = l @ [GetProviderObject ns (u_name obj)]) \<or>
     (\<exists>obj' up pre. r = Inr (obj', up) \<and> u_spec obj' = u_spec obj \<and> \<not> isDeleting obj' \<and>
        l2 = pre @ [CreateProviderObject up] \<and> u_spec up = u_spec obj \<and> u_namespace up = ns \<and>
        (created R pre up \<or> foundMissing R l ns obj \<and> overtaken R pre up))"
proof (cases "getProviderObject R l ns (u_name obj)")
  case (Inr up)
  with assms show ?thesis by (simp add: spec_upstream_def Let_def)
next
  case (Inl e)
  let ?l1 = "l @ [GetProviderObject ns (u_name obj)]"
  obtain r' k where ens: "ensureDownstreamFinalizer R ?l1 obj = (r', k)" by fastforce
  show ?thesis
  proof (cases r')
    fix e' assume "r' = Inl e'"
    with Inl ens assms(2,3) show ?thesis by (auto simp: spec_upstream_def Let_def split: if_splits)
  next
    fix obj' assume r': "r' = Inr obj'"
    have "u_spec obj' = u_spec obj" "\<not> isDeleting obj'"
      using ensure_keepsSpec[OF assms(1)] ens r' assms(2) by blast+
    moreover have "(\<exists>e. r = Inl (Some e)) \<or> (r = Inr (obj', upstreamCopy ns obj') \<and>
        l2 = k @ [CreateProviderObject (upstreamCopy ns obj')] \<and>
        (created R k (upstreamCopy ns obj') \<or> foundMissing R l ns obj \<and> overtaken R k (upstreamCopy ns obj')))"
      using r' Inl ens assms(2,3)
      by (auto simp: spec_upstream_def Let_def created_def overtaken_def foundMissing_def split: if_splits sum.splits)
    ultimately show ?thesis
      by (metis upstreamCopy_clean(3,9))
  qed
qed

lemma sync_converges:
  assumes "keepsSpec R" and "\<not> isDeleting obj" and "spec_sync R l ns obj up = (None, l')"
  shows "\<exists>m. l' = l @ m \<and> (specValue up = specValue obj \<or>
     (\<exists>pre up' v. l' = pre @ [UpdateProviderObject up'] \<and> u_spec up' = u_spec obj \<and>
        updateProviderObject R pre up' = Inr v))"
proof -
  obtain r k where ens: "ensureDownstreamFinalizer R l obj = (r, k)" by fastforce
  obtain m where m: "k = l @ m" using ensure_calls[of R l obj] ens by auto
  obtain obj' where r: "r = Inr obj'"
    using ens assms(2,3) by (cases r) (simp_all add: spec_sync_def)
  have "u_spec obj' = u_spec obj"
    using ensure_keepsSpec[OF assms(1)] ens r by blast
  moreover from this have "specValue obj' = specValue obj" by (simp add: specValue_def)
  ultimately show ?thesis
    using ens assms(2,3) r m
    by (auto simp: spec_sync_def Let_def withSpecOf_def errOf_None_iff split: if_splits)
qed

lemma spec_converges:
  assumes "keepsSpec R" and "\<not> isDeleting obj"
    and "spec_namespace R l obj = (Inr ns, l1)" and "spec_reconcile R l obj = (None, l')"
  shows "(\<exists>pre post up. l' = pre @ GetProviderObject ns (u_name obj) # post \<and>
            getProviderObject R pre ns (u_name obj) = Inr up \<and> specValue up = specValue obj) \<or>
         (\<exists>pre post up. l' = pre @ CreateProviderObject up # post \<and> u_spec up = u_spec obj \<and>
            u_namespace up = ns \<and>
            (created R pre up \<or> foundMissing R l1 ns obj \<and> overtaken R pre up)) \<or>
         (\<exists>pre up v. l' = pre @ [UpdateProviderObject up] \<and> u_spec up = u_spec obj \<and>
            updateProviderObject R pre up = Inr v)"
proof -
  obtain r l2 where 2: "spec_upstream R l1 ns obj = (r, l2)" by fastforce
  from upstream_continues[OF assms(1,2) 2] show ?thesis
  proof (elim disjE)
    assume "\<exists>e. r = Inl (Some e)"
    with 2 assms(3,4) show ?thesis by (auto simp: spec_reconcile_def)
  next
    assume "\<exists>up. r = Inr (obj, up) \<and> getProviderObject R l1 ns (u_name obj) = Inr up \<and>
       l2 = l1 @ [GetProviderObject ns (u_name obj)]"
    then obtain up where up: "r = Inr (obj, up)" "getProviderObject R l1 ns (u_name obj) = Inr up"
      "l2 = l1 @ [GetProviderObject ns (u_name obj)]" by blast
    have "spec_sync R l2 ns obj up = (None, l')"
      using 2 up(1) assms(3,4) by (simp add: spec_reconcile_def)
    from sync_converges[OF assms(1,2) this] obtain m where m: "l' = l2 @ m"
        "specValue up = specValue obj \<or>
         (\<exists>pre up' v. l' = pre @ [UpdateProviderObject up'] \<and> u_spec up' = u_spec obj \<and>
            updateProviderObject R pre up' = Inr v)" by blast
    from m(2) show ?thesis
    proof
      assume "specValue up = specValue obj"
      with m(1) up(2,3) show ?thesis
        by (intro disjI1 exI[of _ l1] exI[of _ m] exI[of _ up]) simp
    qed blast
  next
    assume "\<exists>obj' up pre. r = Inr (obj', up) \<and> u_spec obj' = u_spec obj \<and> \<not> isDeleting obj' \<and>
        l2 = pre @ [CreateProviderObject up] \<and> u_spec up = u_spec obj \<and> u_namespace up = ns \<and>
        (created R pre up \<or> foundMissing R l1 ns obj \<and> overtaken R pre up)"
    then obtain obj' up pre where c: "r = Inr (obj', up)" "u_spec obj' = u_spec obj" "\<not> isDeleting obj'"
      "l2 = pre @ [CreateProviderObject up]" "u_spec up = u_spec obj" "u_namespace up = ns"
      "created R pre up \<or> foundMissing R l1 ns obj \<and> overtaken R pre up" by blast
    have "spec_sync R l2 ns obj' up = (None, l')"
      using 2 c(1) assms(3,4) by (simp add: spec_reconcile_def)
    from sync_converges[OF assms(1) c(3) this] obtain m where "l' = l2 @ m" by blast
    with c(4-7) show ?thesis
      by (intro disjI2 disjI1 exI[of _ pre] exI[of _ m] exI[of _ up]) simp
  qed
qed

end
