(* ===== verification/Sync_Properties.thy ===== *)
theory Sync_Properties
  imports Cluster_Scoped Spec_Sync Adopt_Sync Claimed_Resources
begin

text \<open>
  The properties of the syncers of the konnector: spec, status, adopt, claimed resources and the translation of
  cluster-scoped objects. They hold for every behaviour of the two clusters, that is for every
  \<open>sync_reconciler\<close> and every list of earlier calls.
\<close>

section \<open>Samples\<close>

definition sampleObject :: unstructured where
  "sampleObject =
     \<lparr>u_name = ''db'', u_namespace = ''team'', u_uid = ''u'', u_resourceVersion = ''1'', u_managedFields = None,
      u_deletionTimestamp = None, u_deletionGracePeriodSeconds = None, u_ownerReferences = [],
      u_finalizers = [], u_annotations = None, u_spec = Some (JStr ''small''), u_status = None,
      u_rest = fmempty\<rparr>"

definition deletingObject :: unstructured where
  "deletingObject = sampleObject\<lparr>u_deletionTimestamp := Some 5, u_finalizers := [DownstreamFinalizer]\<rparr>"

definition missing :: apierr where
  "missing = \<lparr>reason = NotFound, error_text = ''not found''\<rparr>"

text \<open>Two clusters without any object, that accept every request; the service namespace is ready.\<close>

definition emptyClusters :: sync_reconciler where
  "emptyClusters =
     \<lparr>providerNamespace = ''kube-bind-x'',
      getServiceNamespace = (\<lambda>l n. Inr \<lparr>sn_Name = n, sn_Namespace = ''kube-bind-x'', sn_Status_Namespace = ''x-team''\<rparr>),
      createServiceNamespace = (\<lambda>l sn. Inr sn),
      getProviderObject = (\<lambda>l ns n. Inl missing), createProviderObject = (\<lambda>l o'. Inr o'),
      updateProviderObject = (\<lambda>l o'. Inr o'), deleteProviderObject = (\<lambda>l ns n. None),
      getConsumerObject = (\<lambda>l ns n. Inl missing), createConsumerObject = (\<lambda>l o'. Inr o'),
      updateConsumerObject = (\<lambda>l o'. Inr o'), updateConsumerObjectStatus = (\<lambda>l o'. Inr o'),
      deleteConsumerObject = (\<lambda>l ns n. None), requeue = (\<lambda>l o' d. None)\<rparr>"

definition providerHas :: "unstructured \<Rightarrow> sync_reconciler" where
  "providerHas obj = emptyClusters\<lparr>getProviderObject := (\<lambda>l ns n. Inr obj)\<rparr>"

lemmas sync_samples = sampleObject_def deletingObject_def missing_def emptyClusters_def providerHas_def
  isDeleting_def IsZero_def IsNotFound_def DownstreamFinalizer_def Let_def

lemma sample_run:
  "spec_reconcile emptyClusters [] sampleObject =
     (None, [GetServiceNamespace ''team'', GetProviderObject ''x-team'' ''db'',
             UpdateConsumerObject (sampleObject\<lparr>u_finalizers := [DownstreamFinalizer]\<rparr>),
             CreateProviderObject (upstreamCopy ''x-team'' (sampleObject\<lparr>u_finalizers := [DownstreamFinalizer]\<rparr>))])"
  by (simp add: spec_reconcile_def spec_namespace_def spec_upstream_def spec_sync_def specValue_def
      finalizer_defs sync_samples upstreamCopy_clean)

section \<open>The spec syncer\<close>

text \<open>For an object under deletion the spec syncer never creates or updates anything at the provider: its only
  requests create the service namespace, update the consumer object, or delete the provider object
  of the same name.\<close>

lemma spec_deleting_never_writes_upstream:
  assumes "isDeleting obj"
  shows "\<exists>m ns. snd (spec_reconcile R l obj) = l @ m \<and>
     set (requests m) \<subseteq> range CreateServiceNamespace \<union> range UpdateConsumerObject \<union>
       {DeleteProviderObject ns (u_name obj)}"
  by (rule spec_deleting_requests[OF assms])

lemma spec_deleting_never_writes_upstream_example:
  "\<exists>m ns. snd (spec_reconcile emptyClusters [] deletingObject) = [] @ m \<and>
     set (requests m) \<subseteq> range CreateServiceNamespace \<union> range UpdateConsumerObject \<union>
       {DeleteProviderObject ns (u_name deletingObject)}"
  by (rule spec_deleting_never_writes_upstream) (simp add: sync_samples)

text \<open>C1: the provider object is created only for an object that is not under deletion, and only after the syncer
  finalizer is on the consumer object: it was there, or the last call put it there and was accepted.
  What is created is the cleaned copy, in the provider namespace of the object's namespace.\<close>

theorem spec_creates_after_finalizer:
  assumes "snd (spec_reconcile R l obj) = l @ m" and "CreateProviderObject up \<in> set m"
  shows "\<exists>pre post ns obj'. m = pre @ CreateProviderObject up # post \<and> \<not> isDeleting obj \<and>
     fst (spec_namespace R l obj) = Inr ns \<and> up = upstreamCopy ns obj' \<and>
     ((DownstreamFinalizer \<in> set (u_finalizers obj) \<and> obj' = obj) \<or>
      (\<exists>pre'. pre = pre' @ [UpdateConsumerObject (obj\<lparr>u_finalizers := u_finalizers obj @ [DownstreamFinalizer]\<rparr>)] \<and>
         updateConsumerObject R (l @ pre') (obj\<lparr>u_finalizers := u_finalizers obj @ [DownstreamFinalizer]\<rparr>) = Inr obj'))"
proof -
  obtain pre post ns obj' where *: "m = pre @ CreateProviderObject up # post" "pre \<noteq> []" "\<not> isDeleting obj"
      "fst (spec_namespace R l obj) = Inr ns" "up = upstreamCopy ns obj'" "finalized R (l @ pre) obj obj'"
    using spec_create[OF assms] by blast
  then obtain p c where "pre = p @ [c]" by (cases pre rule: rev_cases) auto
  with * show ?thesis
    by (intro exI[of _ pre] exI[of _ post] exI[of _ ns] exI[of _ obj']) (auto simp: finalized_def Let_def)
qed

theorem spec_creates_after_finalizer_witness:
  "\<exists>pre post ns obj'. snd (spec_reconcile emptyClusters [] sampleObject) =
       pre @ CreateProviderObject (upstreamCopy ns obj') # post \<and> obj' \<noteq> sampleObject"
proof -
  let ?o = "sampleObject\<lparr>u_finalizers := [DownstreamFinalizer]\<rparr>"
  have run: "snd (spec_reconcile emptyClusters [] sampleObject) =
      [] @ [GetServiceNamespace ''team'', GetProviderObject ''x-team'' ''db'', UpdateConsumerObject ?o,
             CreateProviderObject (upstreamCopy ''x-team'' ?o)]"
    by (simp add: sample_run)
  from spec_creates_after_finalizer[OF run, of "upstreamCopy ''x-team'' ?o"] show ?thesis
    unfolding run by (auto simp: sync_samples)
qed

text \<open>C2: for an object under deletion, the only change of the consumer object is the removal of the syncer
  finalizer; it is the last call of the run, and before it the provider answered that its object
  does not exist, or accepted its deletion, or answered the deletion with not found.\<close>

theorem spec_releases_finalizer_when_gone:
  assumes "isDeleting obj" and "snd (spec_reconcile R l obj) = l @ m" and "UpdateConsumerObject o' \<in> set m"
  shows "\<exists>ns pre. fst (spec_namespace R l obj) = Inr ns \<and> m = pre @ [UpdateConsumerObject o'] \<and>
     o' = obj\<lparr>u_finalizers := filter (\<lambda>f. f \<noteq> DownstreamFinalizer) (u_finalizers obj)\<rparr> \<and>
     upstreamGone R (l @ pre) ns (u_name obj)"
  using spec_release[OF assms] unfolding released_def .

theorem spec_releases_finalizer_when_gone_witness:
  "\<exists>ns pre. fst (spec_namespace emptyClusters [] deletingObject) = Inr ns \<and>
     upstreamGone emptyClusters pre ns ''db''"
proof -
  let ?m = "[GetServiceNamespace ''team'', GetProviderObject ''x-team'' ''db'',
             UpdateConsumerObject (released deletingObject)]"
  have run: "snd (spec_reconcile emptyClusters [] deletingObject) = [] @ ?m"
    by (simp add: spec_reconcile_def spec_namespace_def spec_upstream_def finalizer_defs sync_samples released_def)
  have "isDeleting deletingObject" by (simp add: sync_samples)
  from spec_releases_finalizer_when_gone[OF this run, of "released deletingObject"] show ?thesis
    by (auto simp: sync_samples)
qed

text \<open>C6: a run that returns without error for an object that is not under deletion, with a ready service
  namespace, has brought the provider up to date: it found a provider object with the same spec, or it
  created one with that spec and the API server accepted it, or its last call updated one to that spec and was
  accepted. There is one exception: the lookup found no provider object and the create was answered with AlreadyExists,
  because another writer made the object in between; that object is not read, and the run ends without error whatever
  its spec is. The hypothesis \<open>keepsSpec\<close> on the clusters is that an accepted update of the consumer object
  keeps its spec and deletion state.\<close>

theorem spec_sync_converges:
  assumes "keepsSpec R" and "\<not> isDeleting obj"
    and "spec_namespace R l obj = (Inr ns, l1)" and "spec_reconcile R l obj = (None, l')"
  shows "(\<exists>pre post up. l' = pre @ GetProviderObject ns (u_name obj) # post \<and>
            getProviderObject R pre ns (u_name obj) = Inr up \<and> specValue up = specValue obj) \<or>
         (\<exists>pre post up. l' = pre @ CreateProviderObject up # post \<and> u_spec up = u_spec obj \<and>
            u_namespace up = ns \<and> created R pre up) \<or>
         (\<exists>pre up v. l' = pre @ [UpdateProviderObject up] \<and> u_spec up = u_spec obj \<and>
            updateProviderObject R pre up = Inr v) \<or>
         (foundMissing R l1 ns obj \<and> (\<exists>pre post up. l' = pre @ CreateProviderObject up # post \<and>
            u_spec up = u_spec obj \<and> u_namespace up = ns \<and> overtaken R pre up))"
  using spec_converges[OF assms] by blast

theorem spec_sync_converges_witness:
  "\<exists>pre post up. snd (spec_reconcile emptyClusters [] sampleObject) = pre @ CreateProviderObject up # post \<and>
     u_spec up = Some (JStr ''small'') \<and> u_namespace up = ''x-team'' \<and> created emptyClusters pre up"
proof -
  have keeps: "keepsSpec emptyClusters"
    by (simp add: keepsSpec_def emptyClusters_def)
  have ns: "spec_namespace emptyClusters [] sampleObject = (Inr ''x-team'', [GetServiceNamespace ''team''])"
    by (simp add: spec_namespace_def sync_samples)
  have "\<not> isDeleting sampleObject" by (simp add: sync_samples)
  from spec_sync_converges[OF keeps this ns sample_run] show ?thesis
    unfolding sample_run by (auto simp: emptyClusters_def sampleObject_def overtaken_def)
qed

text \<open>The finalizer does not wait for the provider object to be gone. When the provider object exists and its
  deletion is accepted, the same run removes the finalizer from the consumer object, whatever finalizers keep
  the provider object alive.\<close>

lemma spec_releases_on_accepted_deletion:
  assumes "isDeleting obj" and "DownstreamFinalizer \<in> set (u_finalizers obj)"
    and "spec_namespace R l obj = (Inr ns, l1)"
    and "getProviderObject R l1 ns (u_name obj) = Inr up" and "\<not> isDeleting up"
    and "deleteProviderObject R (l1 @ [GetProviderObject ns (u_name obj)]) ns (u_name obj) = None"
  shows "snd (spec_reconcile R l obj) =
     l1 @ [GetProviderObject ns (u_name obj), DeleteProviderObject ns (u_name obj),
           UpdateConsumerObject (obj\<lparr>u_finalizers := filter (\<lambda>f. f \<noteq> DownstreamFinalizer) (u_finalizers obj)\<rparr>)]"
  using assms by (auto simp: spec_reconcile_def spec_upstream_def spec_sync_def finalizer_defs Let_def split: prod.splits)

lemma spec_releases_on_accepted_deletion_example:
  "UpdateConsumerObject (released deletingObject) \<in>
     set (snd (spec_reconcile (providerHas (sampleObject\<lparr>u_finalizers := [''keep'']\<rparr>)) [] deletingObject))"
proof -
  let ?R = "providerHas (sampleObject\<lparr>u_finalizers := [''keep'']\<rparr>)"
  have "spec_namespace ?R [] deletingObject = (Inr ''x-team'', [GetServiceNamespace ''team''])"
    by (simp add: spec_namespace_def sync_samples)
  from spec_releases_on_accepted_deletion[OF _ _ this, of "sampleObject\<lparr>u_finalizers := [''keep'']\<rparr>"]
  show ?thesis by (simp add: sync_samples released_def)
qed

section \<open>The status syncer\<close>

text \<open>A run of the status syncer makes at most one request: it deletes the provider object, which
  carries the bound annotation, when the consumer object is not found; or it writes to the
  consumer object that it read the provider's status and the bound annotation, when that changes it.\<close>

lemma status_sync_requests:
  "\<exists>m. snd (status_reconcile R l obj) = l @ m \<and>
    (requests m = [] \<or>
     (\<exists>ns l1 e. consumerNamespace R l (u_namespace obj) = (Inr ns, l1) \<and>
        getConsumerObject R l1 ns (u_name obj) = Inl e \<and> IsNotFound e \<and>
        fmlookup (annotationsOf obj) boundKey \<noteq> None \<and>
        requests m = [DeleteProviderObject (u_namespace obj) (u_name obj)]) \<or>
     (\<exists>ns l1 d d'. consumerNamespace R l (u_namespace obj) = (Inr ns, l1) \<and>
        getConsumerObject R l1 ns (u_name obj) = Inr d \<and>
        d' = (InjectBoundAnnotation d)\<lparr>u_status := u_status obj\<rparr> \<and> d' \<noteq> d \<and>
        requests m = [UpdateConsumerObjectStatus d']))"
  using status_requests[of R l obj] unfolding withStatusOf_def by blast

text \<open>When the consumer object exists, a run without error leaves it with the provider's status: it had that
  status and the bound annotation already, or the update was accepted.\<close>

lemma status_sync_converges:
  assumes "consumerNamespace R l (u_namespace obj) = (Inr ns, l1)"
    and "getConsumerObject R l1 ns (u_name obj) = Inr d" and "fst (status_reconcile R l obj) = None"
  shows "(u_status d = u_status obj \<and> fmlookup (annotationsOf d) boundKey = Some ''true'') \<or>
    (\<exists>d' v. last (snd (status_reconcile R l obj)) = UpdateConsumerObjectStatus d' \<and>
       u_status d' = u_status obj \<and> u_spec d' = u_spec d \<and>
       updateConsumerObjectStatus R (butlast (snd (status_reconcile R l obj))) d' = Inr v)"
proof (cases "withStatusOf obj d = d")
  case True
  then have "u_status d = u_status obj" "annotationsOf (InjectBoundAnnotation d) = annotationsOf d"
    unfolding withStatusOf_def annotationsOf_def
    by (metis unstructured.select_convs(12) unstructured.surjective unstructured.update_convs(12),
        metis InjectBoundAnnotation_def unstructured.select_convs(10) unstructured.surjective
          unstructured.update_convs(10) unstructured.update_convs(12))
  then show ?thesis by (simp add: bound_same_annotations)
next
  case False
  then have run: "status_reconcile R l obj =
      (errOf (updateConsumerObjectStatus R (l1 @ [GetConsumerObject ns (u_name obj)]) (withStatusOf obj d)),
       l1 @ [GetConsumerObject ns (u_name obj), UpdateConsumerObjectStatus (withStatusOf obj d)])"
    using assms(2) by (simp add: status_reconcile_cases[OF assms(1)])
  then obtain v where "updateConsumerObjectStatus R (l1 @ [GetConsumerObject ns (u_name obj)]) (withStatusOf obj d) = Inr v"
    using assms(3) by (auto simp: errOf_None_iff)
  then show ?thesis
    using run by (intro disjI2 exI[of _ "withStatusOf obj d"] exI[of _ v])
      (simp add: withStatusOf_frame butlast_append)
qed

lemma status_sync_converges_example:
  "\<exists>d'. last (snd (status_reconcile (emptyClusters\<lparr>getConsumerObject := (\<lambda>l ns n. Inr sampleObject)\<rparr>) []
            (sampleObject\<lparr>u_status := Some (JStr ''ready'')\<rparr>))) = UpdateConsumerObjectStatus d' \<and>
        u_status d' = Some (JStr ''ready'')"
proof -
  let ?R = "emptyClusters\<lparr>getConsumerObject := (\<lambda>l ns n. Inr sampleObject)\<rparr>"
  let ?o = "sampleObject\<lparr>u_status := Some (JStr ''ready'')\<rparr>"
  have "consumerNamespace ?R [] (u_namespace ?o) = (Inr ''team'', [GetServiceNamespace ''team''])"
    by (simp add: consumerNamespace_def sync_samples)
  moreover have "fst (status_reconcile ?R [] ?o) = None"
    using calculation by (simp add: status_reconcile_def) (simp add: sync_samples)
  ultimately show ?thesis
    using status_sync_converges[of ?R "[]" ?o "''team''" _ sampleObject] by (simp add: sync_samples) blast
qed

section \<open>The adopter\<close>

text \<open>The adopter creates an object at the consumer only from a provider object without the bound
  annotation, in the consumer namespace, marked as bound; it is then the only request of the run.\<close>

lemma adopt_creates_unbound_only:
  assumes "snd (adopt_reconcile R l obj) = l @ m" and "CreateConsumerObject new \<in> set m"
  shows "\<exists>ns. fst (consumerNamespace R l (u_namespace obj)) = Inr ns \<and> u_namespace new = ns \<and>
     u_name new = u_name obj \<and> u_spec new = u_spec obj \<and> u_resourceVersion new = '''' \<and>
     fmlookup (annotationsOf new) boundKey = Some ''true'' \<and>
     fmlookup (annotationsOf obj) boundKey = None \<and> requests m = [CreateConsumerObject new]"
  using adopt_creates[OF assms] by (auto simp: adoptCandidate_frame)

lemma adopt_creates_unbound_only_example:
  "requests (snd (adopt_reconcile emptyClusters [] sampleObject)) =
     [CreateConsumerObject (adoptCandidate ''team'' sampleObject)]"
proof -
  have "snd (adopt_reconcile emptyClusters [] sampleObject) =
      [] @ [GetServiceNamespace ''team'', GetConsumerObject ''team'' ''db'',
            CreateConsumerObject (adoptCandidate ''team'' sampleObject)]"
    by (simp add: adopt_reconcile_def consumerNamespace_def hasBoundAnnotation_iff annotationsOf_def sync_samples)
  from adopt_creates_unbound_only[OF this, of "adoptCandidate ''team'' sampleObject"] this show ?thesis by auto
qed

text \<open>Whether the adopter writes the bound annotation to the provider object does not depend on that object's
  own annotations but on those of the consumer object: it writes unless the marked provider annotations
  equal the consumer's. So a provider object that is bound is written on every run while the two sides
  have different annotations.\<close>

lemma adopt_provider_write_iff:
  "UpdateProviderObject (InjectBoundAnnotation obj) \<in> set (drop (length l) (snd (adopt_mark R l obj c))) \<longleftrightarrow>
   annotationsOf (InjectBoundAnnotation obj) \<noteq> annotationsOf c"
  using adopt_mark_requests[of R l obj c] by auto

section \<open>Claimed resources\<close>

text \<open>The owner's own copy is only ever changed by the owner annotation, and the other side is the one that is
  created, updated and deleted: with the provider as owner the only request on the provider
  cluster writes that annotation, with the consumer as owner likewise on the consumer cluster, and
  without an owner the run makes no call.\<close>

lemma claimed_owner_copy_untouched:
  "\<exists>m. snd (claimed_sync R l pns cns name po co) = l @ m \<and>
    (case determineOwner po co of
       None \<Rightarrow> m = []
     | Some Provider \<Rightarrow>
         set m \<subseteq> (case po of None \<Rightarrow> {} | Some p \<Rightarrow> {UpdateProviderObject (setOwner Provider p)}) \<union>
           range CreateConsumerObject \<union> range UpdateConsumerObject \<union> range (\<lambda>(a, b). DeleteConsumerObject a b)
     | Some Consumer \<Rightarrow>
         set m \<subseteq> (case co of None \<Rightarrow> {} | Some c \<Rightarrow> {UpdateConsumerObject (setOwner Consumer c)}) \<union>
           range CreateProviderObject \<union> range UpdateProviderObject \<union> range (\<lambda>(a, b). DeleteProviderObject a b))"
proof (cases "determineOwner po co")
  case None
  then show ?thesis by (simp add: claimed_sync_def)
next
  case (Some w)
  then have "\<not> (po = None \<and> co = None)" by (metis determineOwner_nil option.distinct(1))
  then have run: "claimed_sync R l pns cns name po co =
      (case w of Provider \<Rightarrow> claimed_provider R l pns cns name po co | Consumer \<Rightarrow> claimed_consumer R l pns name po co)"
    using Some by (cases w) (auto simp: claimed_sync_def)
  show ?thesis
    using claimed_provider_requests[of R l pns cns name po co, unfolded owner_defs]
      claimed_consumer_requests[of R l pns name po co, unfolded owner_defs]
    unfolding run Some option.case by (cases w) (simp_all only: Owner.case)
qed

text \<open>A copy that the claimed-resources syncer creates names the owner it was made for, so the next run finds
  the same owner on whichever side it looks first.\<close>

lemma claimed_copy_names_owner:
  assumes "c \<in> set (drop (length l) (snd (claimed_sync R l pns cns name po co)))"
    and "c = CreateConsumerObject x \<or> c = CreateProviderObject x"
  shows "\<exists>w. determineOwner po co = Some w \<and> determineOwner None (Some x) = Some w \<and>
     determineOwner (Some x) co = Some w \<and> u_namespace x = (if w = Provider then cns else pns)"
proof -
  have run: "drop (length l) (snd (claimed_sync R l pns cns name po co)) \<noteq> []"
    using assms(1) by auto
  obtain w where w: "determineOwner po co = Some w"
    using run by (cases "determineOwner po co") (simp_all add: claimed_sync_def)
  then have ne: "\<not> (po = None \<and> co = None)" by (metis determineOwner_nil option.distinct(1))
  show ?thesis
  proof (cases w)
    case Provider
    then obtain p where "x = setOwner Provider (candidateFromOwnerObj cns p)"
      using assms w ne
      by (auto simp: claimed_sync_def claimed_provider_def owner_defs Let_def split: option.splits if_splits)
    with Provider w show ?thesis
      by (simp add: determineOwner_annotated setOwner_frame candidateFromOwnerObj_frame)
  next
    case Consumer
    then obtain p where "x = setOwner Consumer (candidateFromOwnerObj pns p)"
      using assms w ne
      by (auto simp: claimed_sync_def claimed_consumer_def owner_defs Let_def split: option.splits if_splits)
    with Consumer w show ?thesis
      by (simp add: determineOwner_annotated setOwner_frame candidateFromOwnerObj_frame)
  qed
qed

text \<open>When a provider-owned object is under deletion, the deletion of its consumer copy is sent with the
  provider's namespace, where every other request on the consumer cluster uses the consumer's.\<close>

lemma claimed_deletion_uses_provider_namespace:
  assumes "isDeleting p" and "ownerAnnotation p = ''Provider''" and "p = setOwner Provider p"
  shows "\<exists>m. snd (claimed_sync R l pns cns name (Some p) (Some c)) = l @ DeleteConsumerObject pns (u_name p) # m"
  using claimed_provider_deleting[OF assms(1,2), of R l pns cns name c] assms
  by (simp add: claimed_sync_def determineOwner_def owner_defs)

lemma claimed_deletion_uses_provider_namespace_example:
  "\<exists>m. snd (claimed_sync emptyClusters [] ''p'' ''c'' ''db'' (Some (setOwner Provider deletingObject)) (Some sampleObject)) =
     [] @ DeleteConsumerObject ''p'' ''db'' # m"
proof -
  have "isDeleting (setOwner Provider deletingObject)" "u_name (setOwner Provider deletingObject) = ''db''"
    by (simp_all add: setOwner_frame) (simp_all add: sync_samples)
  then show ?thesis
    using claimed_deletion_uses_provider_namespace
      [of "setOwner Provider deletingObject" emptyClusters "[]" "''p''" "''c''" "''db''" sampleObject] by simp
qed

section \<open>Cluster-scoped objects\<close>

text \<open>C13: an object that has no trace of a cluster namespace goes to the provider and back unchanged, except that
  missing annotations become empty ones; at the provider its name carries the namespace as prefix.\<close>

theorem cluster_scoped_roundtrip:
  assumes "fmlookup (annotationsOf obj) ClusterNsAnnotationKey = None"
    and "findOwnerReferenceToClusterNs (u_ownerReferences obj) ns = None"
  shows "\<exists>up. TranslateFromDownstream obj ns uid = Inr up \<and> u_name up = ns @ ''-'' @ u_name obj \<and>
     TranslateFromUpstream up = Inr (obj\<lparr>u_annotations := Some (annotationsOf obj)\<rparr>)"
  using translate_roundtrip[OF assms, of uid] by (simp add: Prepend_def)

theorem cluster_scoped_roundtrip_witness:
  "\<exists>up. TranslateFromDownstream sampleObject ''ns'' ''u9'' = Inr up \<and> u_name up = ''ns-db'' \<and>
     TranslateFromUpstream up = Inr (sampleObject\<lparr>u_annotations := Some fmempty\<rparr>)"
  using cluster_scoped_roundtrip[of sampleObject "''ns''" "''u9''"]
  by (simp add: sampleObject_def annotationsOf_def)

end
