(* ===== verification/Committer.thy ===== *)
theory Committer
  imports Bind_API
begin

text \<open>
  The committer that every controller of the konnector and of the backend uses to write
  the object it has reconciled, \<open>bind/pkg/committer/committer.go\<close>, and the part of the function \<open>process\<close>
  that those controllers share: reconcile a copy, commit the difference, report the errors of both.

  A \<open>Resource\<close> is the metadata of an object with pointers to its spec and its status. The
  function that \<open>NewCommitter\<close> returns is \<open>commit\<close>: it panics when both sides of the object have
  changed, sends nothing when neither has, and else sends one merge patch. Parameters of
  the model, the fields of \<open>committer\<close>, since they are libraries: \<open>equality.Semantic.DeepEqual\<close> on
  each of the three types, \<open>json.Marshal\<close>, \<open>jsonpatch.CreateMergePatch\<close>, and the \<open>Patch\<close> call of the client. What is
  relied on in \<open>DeepEqual\<close> is that it is reflexive (\<open>reflexiveEqual\<close>).

  The contract of a controller is the locale \<open>status_reconciler\<close>: its reconcile leaves the
  metadata and the spec alone. The lemmas of the locale show that committing its result
  never panics and patches at most the status. Each controller interprets it.
\<close>

section \<open>Wrapped errors\<close>

text \<open>\<open>fmt.Errorf\<close> with the verb \<open>%w\<close>: the text is new, and \<open>IsNotFound\<close> and its like see through it.\<close>

definition wrapErr :: "string \<Rightarrow> fmtarg list \<Rightarrow> apierr \<Rightarrow> apierr" where
  "wrapErr fmt args e =
     \<lparr>reason = reason e, error_text = Sprintf fmt args @ '': '' @ error_text e\<rparr>"

lemma reason_wrapErr [simp]: "reason (wrapErr fmt args e) = reason e"
  by (simp add: wrapErr_def)

section \<open>The committer\<close>

record ('sp, 'st) Resource =
  r_Meta :: ObjectMeta
  r_Spec :: "'sp option"
  r_Status :: "'st option"

datatype patch_call = PatchCall string string string "string list"

record ('sp, 'st) committer =
  cm_focusType :: string
  cm_EqualMeta :: "ObjectMeta \<Rightarrow> ObjectMeta \<Rightarrow> bool"
  cm_EqualSpec :: "'sp option \<Rightarrow> 'sp option \<Rightarrow> bool"
  cm_EqualStatus :: "'st option \<Rightarrow> 'st option \<Rightarrow> bool"
  cm_Marshal :: "('sp, 'st) Resource \<Rightarrow> apierr + string"
  cm_CreateMergePatch :: "string \<Rightarrow> string \<Rightarrow> apierr + string"
  cm_Patch :: "patch_call \<Rightarrow> apierr option"

datatype commit_result = CommitPanics | CommitReturns "apierr option" "patch_call list"

definition specOrObjectMetaChanged :: "('sp, 'st) committer \<Rightarrow> ('sp, 'st) Resource \<Rightarrow> ('sp, 'st) Resource \<Rightarrow> bool" where
  "specOrObjectMetaChanged C old obj \<longleftrightarrow>
     \<not> cm_EqualSpec C (r_Spec old) (r_Spec obj) \<or> \<not> cm_EqualMeta C (r_Meta old) (r_Meta obj)"

definition statusChanged :: "('sp, 'st) committer \<Rightarrow> ('sp, 'st) Resource \<Rightarrow> ('sp, 'st) Resource \<Rightarrow> bool" where
  "statusChanged C old obj \<longleftrightarrow> \<not> cm_EqualStatus C (r_Status old) (r_Status obj)"

definition forPatch :: "bool \<Rightarrow> ('sp, 'st) Resource \<Rightarrow> ('sp, 'st) Resource" where
  "forPatch specSide r =
     (if specSide then \<lparr>r_Meta = r_Meta r, r_Spec = r_Spec r, r_Status = None\<rparr>
      else \<lparr>r_Meta = namedMeta '''', r_Spec = None, r_Status = r_Status r\<rparr>)"

definition withPreconditions :: "string \<Rightarrow> string \<Rightarrow> ('sp, 'st) Resource \<Rightarrow> ('sp, 'st) Resource" where
  "withPreconditions uid rv r =
     r\<lparr>r_Meta := (r_Meta r)\<lparr>om_UID := uid, om_ResourceVersion := rv\<rparr>\<rparr>"

definition commitErr :: "('sp, 'st) committer \<Rightarrow> string \<Rightarrow> ('sp, 'st) Resource \<Rightarrow> apierr \<Rightarrow> apierr" where
  "commitErr C what old e =
     wrapErr (''failed to '' @ what @ '' %s %s/%s'')
       [FStr (cm_focusType C), FStr (om_Namespace (r_Meta old)), FStr (om_Name (r_Meta old))] e"

definition commit :: "('sp, 'st) committer \<Rightarrow> ('sp, 'st) Resource \<Rightarrow> ('sp, 'st) Resource \<Rightarrow> commit_result" where
  "commit C old obj =
     (let specSide = specOrObjectMetaChanged C old obj; statusSide = statusChanged C old obj;
          failed = (\<lambda>what e. CommitReturns (Some (commitErr C what old e)) [])
      in if specSide \<and> statusSide then CommitPanics
         else if \<not> specSide \<and> \<not> statusSide then CommitReturns None []
         else
           case cm_Marshal C (withPreconditions '''' '''' (forPatch specSide old)) of
             Inl e \<Rightarrow> failed ''Marshal old data for'' e
           | Inr oldData \<Rightarrow>
             (case cm_Marshal C (withPreconditions (om_UID (r_Meta old)) (om_ResourceVersion (r_Meta old))
                                   (forPatch specSide obj)) of
                Inl e \<Rightarrow> failed ''Marshal new data for'' e
              | Inr newData \<Rightarrow>
                (case cm_CreateMergePatch C oldData newData of
                   Inl e \<Rightarrow> failed ''create patch for'' e
                 | Inr patch \<Rightarrow>
                   (let p = PatchCall (om_Namespace (r_Meta obj)) (om_Name (r_Meta obj)) patch
                              (if statusSide then [''status''] else [])
                    in case cm_Patch C p of
                         None \<Rightarrow> CommitReturns None [p]
                       | Some e \<Rightarrow> CommitReturns (Some (commitErr C ''patch'' old e)) [p]))))"

definition reflexiveEqual :: "('sp, 'st) committer \<Rightarrow> bool" where
  "reflexiveEqual C \<longleftrightarrow>
     (\<forall>x. cm_EqualMeta C x x) \<and> (\<forall>x. cm_EqualSpec C x x) \<and> (\<forall>x. cm_EqualStatus C x x)"

fun patchesOf :: "commit_result \<Rightarrow> patch_call list" where
  "patchesOf CommitPanics = []"
| "patchesOf (CommitReturns _ ps) = ps"

fun subresourceOf :: "patch_call \<Rightarrow> string list" where
  "subresourceOf (PatchCall _ _ _ subs) = subs"

lemma commit_panics_iff:
  "commit C old obj = CommitPanics \<longleftrightarrow> specOrObjectMetaChanged C old obj \<and> statusChanged C old obj"
  by (auto simp: commit_def Let_def split: sum.splits option.splits)

lemma patchesOf_commit:
  "patchesOf (commit C old obj) = [] \<or>
   (\<exists>patch. patchesOf (commit C old obj) =
      [PatchCall (om_Namespace (r_Meta obj)) (om_Name (r_Meta obj)) patch
         (if statusChanged C old obj then [''status''] else [])] \<and>
      (specOrObjectMetaChanged C old obj \<or> statusChanged C old obj))"
  by (auto simp: commit_def Let_def split: sum.splits option.splits)

lemma commit_unchanged:
  assumes "reflexiveEqual C"
  shows "commit C r r = CommitReturns None []"
  using assms
  by (auto simp: commit_def reflexiveEqual_def specOrObjectMetaChanged_def statusChanged_def)

text \<open>An update that did not change the status, and one that changed the status only.\<close>

lemma one_side_never_panics:
  assumes "reflexiveEqual C"
    and "r_Status obj = r_Status old \<or> r_Spec obj = r_Spec old \<and> r_Meta obj = r_Meta old"
  shows "commit C old obj \<noteq> CommitPanics"
  using assms
  by (auto simp: commit_panics_iff reflexiveEqual_def specOrObjectMetaChanged_def statusChanged_def)

lemma commit_one_patch: "length (patchesOf (commit C old obj)) \<le> 1"
  using patchesOf_commit[of C old obj] by auto

section \<open>Reconcile and commit\<close>

datatype processed = ProcessPanics | Processed "apierr list" "patch_call list"

text \<open>
  The second half of \<open>process\<close>: \<open>errs\<close> is what \<open>reconcile\<close> reported, \<open>new\<close> the object it left.
\<close>

definition afterReconcile ::
  "('sp, 'st) committer \<Rightarrow> ('o \<Rightarrow> ('sp, 'st) Resource) \<Rightarrow> 'o \<Rightarrow> apierr list \<Rightarrow> 'o \<Rightarrow> processed" where
  "afterReconcile C res old errs new =
     (case commit C (res old) (res new) of
        CommitPanics \<Rightarrow> ProcessPanics
      | CommitReturns None ps \<Rightarrow> Processed errs ps
      | CommitReturns (Some e) ps \<Rightarrow> Processed (errs @ [e]) ps)"

text \<open>
  What a controller that leaves metadata and spec alone does to its object: at most one patch, of the status.
\<close>

fun statusOnly :: "processed \<Rightarrow> bool" where
  "statusOnly ProcessPanics = False"
| "statusOnly (Processed errs ps) = (length ps \<le> 1 \<and> (\<forall>p \<in> set ps. subresourceOf p = [''status'']))"

text \<open>A run that sends at most one patch, of whichever side.\<close>

fun onePatch :: "processed \<Rightarrow> bool" where
  "onePatch ProcessPanics = False"
| "onePatch (Processed errs ps) = (length ps \<le> 1)"

text \<open>A controller that only ever changes the status of the object.\<close>

locale status_reconciler =
  fixes res :: "'o \<Rightarrow> ('sp, 'st) Resource"
    and run :: "'env \<Rightarrow> 'o \<Rightarrow> 'o"
  assumes keeps_meta: "r_Meta (res (run env o')) = r_Meta (res o')"
    and keeps_spec: "r_Spec (res (run env o')) = r_Spec (res o')"
begin

lemma commit_patches_status:
  assumes "reflexiveEqual C"
  shows "commit C (res o') (res (run env o')) \<noteq> CommitPanics"
    and "\<forall>p \<in> set (patchesOf (commit C (res o') (res (run env o')))). subresourceOf p = [''status'']"
proof -
  show "commit C (res o') (res (run env o')) \<noteq> CommitPanics"
    using one_side_never_panics[OF assms] keeps_meta keeps_spec by blast
  have "\<not> specOrObjectMetaChanged C (res o') (res (run env o'))"
    using assms by (simp add: specOrObjectMetaChanged_def reflexiveEqual_def keeps_meta keeps_spec)
  then show "\<forall>p \<in> set (patchesOf (commit C (res o') (res (run env o')))). subresourceOf p = [''status'']"
    using patchesOf_commit[of C "res o'" "res (run env o')"] by auto
qed

lemma afterReconcile_status:
  assumes "reflexiveEqual C"
  shows "statusOnly (afterReconcile C res o' errs (run env o'))"
proof (cases "commit C (res o') (res (run env o'))")
  case CommitPanics
  then show ?thesis
    using commit_patches_status(1)[OF assms, of o' env] by simp
next
  case (CommitReturns e ps)
  have "length ps \<le> 1"
    using patchesOf_commit[of C "res o'" "res (run env o')"] CommitReturns by auto
  moreover have "\<forall>p \<in> set ps. subresourceOf p = [''status'']"
    using commit_patches_status(2)[OF assms, of o' env] CommitReturns by simp
  ultimately show ?thesis
    by (cases e) (simp_all add: afterReconcile_def CommitReturns)
qed

end

end
