(* ===== verification/Cluster_Binding.thy ===== *)
theory Cluster_Binding
  imports Bind_API "HOL-Library.Signed_Division"
begin

text \<open>
  The ClusterBinding controller of the konnector,
  \<open>bind/pkg/konnector/controllers/cluster/clusterbinding/clusterbinding_reconcile.go\<close>, with
  \<open>bind/pkg/version\<close>: it copies the provider's kubeconfig secret to the consumer
  cluster, sends the heartbeat and reports the version of the konnector. The functions that the Go struct
  holds are the fields of \<open>cluster_reconciler\<close>; each is called at most once in a run. The
  key of the consumer secret is split by client-go (\<open>splitKey\<close>), and \<open>gitVersion\<close> is what the
  linker stored in the binary. A step returns its error, the binding it mutated, and the secrets it
  wrote; \<open>errs\<close> is the list that \<open>NewAggregate\<close> gets.

  The lemmas show the four outcomes of the secret step, that the consumer secret always
  gets the data of the provider secret, that a heartbeat is never older than half an
  interval after a run, and when the binding ends up Ready.
\<close>

datatype secret_call = CreateConsumerSecret Secret | UpdateConsumerSecret Secret

record cluster_reconciler =
  consumerSecretRefKey :: string
  cr_providerNamespace :: string
  heartbeatInterval :: int
  cr_controlPlaneMode :: bool
  getProviderSecret :: "apierr + Secret"
  getConsumerSecret :: "apierr + Secret"
  updateConsumerSecret :: "Secret \<Rightarrow> apierr + Secret"
  createConsumerSecret :: "Secret \<Rightarrow> apierr + Secret"
  splitKey :: "string \<Rightarrow> apierr + string \<times> string"
  gitVersion :: string

section \<open>The version of the binary\<close>

definition BinaryVersion :: "string \<Rightarrow> string + string" where
  "BinaryVersion s =
     (if HasPrefix s ''v0.0.0-'' then Inr ''v0.0.0''
      else (let parts = SplitN2 (CHR ''+'') s;
                failed = Inl (Sprintf ''failed to parse version %q'' [FStr s])
            in if length parts < 2 then failed
               else (let prefix = ''kube-bind'' in
                     if \<not> HasPrefix (parts ! 1) prefix then failed
                     else Inr (SplitN2 (CHR ''-'') (TrimPrefix (parts ! 1) (prefix @ ''-'')) ! 0))))"

section \<open>The steps\<close>

definition ensureHeartbeat :: "cluster_reconciler \<Rightarrow> time \<Rightarrow> ClusterBinding \<Rightarrow> ClusterBinding" where
  "ensureHeartbeat R now binding =
     (let b = binding\<lparr>cb_HeartbeatInterval := heartbeatInterval R\<rparr> in
      if IsZero (cb_LastHeartbeatTime b) \<or> now > cb_LastHeartbeatTime b + heartbeatInterval R sdiv 2
      then b\<lparr>cb_LastHeartbeatTime := now\<rparr> else b)"

definition secretCondition :: "cluster_reconciler \<Rightarrow> time \<Rightarrow> ClusterBinding \<Rightarrow> string \<Rightarrow> string \<Rightarrow> fmtarg list \<Rightarrow> ClusterBinding" where
  "secretCondition R now binding rsn fmt args =
     MarkFalse clusterBindingSetter now binding ClusterBindingConditionSecretValid rsn
       ConditionSeverityWarning fmt args"

definition ensureConsumerSecret ::
  "cluster_reconciler \<Rightarrow> time \<Rightarrow> ClusterBinding \<Rightarrow> apierr option \<times> ClusterBinding \<times> secret_call list" where
  "ensureConsumerSecret R now binding =
     (case getProviderSecret R of
        Inl e \<Rightarrow>
          if \<not> IsNotFound e then (Some e, binding, [])
          else (None, secretCondition R now binding ''ProviderSecretNotFound''
                  ''Provider secret %s/%s not found''
                  [FStr (om_Namespace (cb_Meta binding)), FStr (ref_Name (cb_KubeconfigSecretRef binding))], [])
      | Inr providerSecret \<Rightarrow>
          if fmlookup (sec_Data providerSecret) (ref_Key (cb_KubeconfigSecretRef binding)) = None
          then (None, secretCondition R now binding ''ProviderSecretInvalid''
                  ''Provider secret %s/%s is missing %q string key.''
                  [FStr (cr_providerNamespace R), FStr (ref_Name (cb_KubeconfigSecretRef binding)),
                   FStr (ref_Key (cb_KubeconfigSecretRef binding))], [])
          else
            (let ok = MarkTrue clusterBindingSetter now binding ClusterBindingConditionSecretValid in
             case getConsumerSecret R of
               Inl e \<Rightarrow>
                 if \<not> IsNotFound e then (Some e, binding, [])
                 else (case splitKey R (consumerSecretRefKey R) of
                         Inl e' \<Rightarrow> (Some e', binding, [])
                       | Inr (ns, name) \<Rightarrow>
                           (let new = \<lparr>sec_Name = name, sec_Namespace = ns, sec_Labels = fmempty,
                                       sec_Data = sec_Data providerSecret, sec_Type = sec_Type providerSecret\<rparr>
                            in case createConsumerSecret R new of
                                 Inl e' \<Rightarrow> (Some e', binding, [CreateConsumerSecret new])
                               | Inr _ \<Rightarrow> (None, ok, [CreateConsumerSecret new])))
             | Inr consumerSecret \<Rightarrow>
                 (let new = consumerSecret\<lparr>sec_Data := sec_Data providerSecret, sec_Type := sec_Type providerSecret\<rparr>
                  in case updateConsumerSecret R new of
                       Inl e' \<Rightarrow> (Some e', binding, [UpdateConsumerSecret new])
                     | Inr _ \<Rightarrow> (None, ok, [UpdateConsumerSecret new]))))"

definition ensureKonnectorVersion :: "cluster_reconciler \<Rightarrow> time \<Rightarrow> ClusterBinding \<Rightarrow> ClusterBinding" where
  "ensureKonnectorVersion R now binding =
     (case BinaryVersion (gitVersion R) of
        Inl err \<Rightarrow>
          MarkFalse clusterBindingSetter now (binding\<lparr>cb_KonnectorVersion := ''unknown''\<rparr>)
            ClusterBindingConditionValidVersion ''ParseError'' ConditionSeverityWarning
            ''Konnector binary version string %q cannot be parsed: %v'' [FStr (gitVersion R), FStr err]
      | Inr ver \<Rightarrow>
          MarkTrue clusterBindingSetter now (binding\<lparr>cb_KonnectorVersion := ver\<rparr>)
            ClusterBindingConditionValidVersion)"

definition cluster_reconcile ::
  "cluster_reconciler \<Rightarrow> time \<Rightarrow> ClusterBinding \<Rightarrow> apierr list \<times> ClusterBinding \<times> secret_call list" where
  "cluster_reconcile R now binding =
     (let (err, b1, w) = (if \<not> cr_controlPlaneMode R then ensureConsumerSecret R now binding
                          else (None, binding, []));
          b2 = ensureHeartbeat R now b1;
          b3 = ensureKonnectorVersion R now b2
      in (case err of None \<Rightarrow> [] | Some e \<Rightarrow> [e], SetSummary clusterBindingSetter now b3 [], w))"

section \<open>The secret step\<close>

abbreviation cbGet :: "ClusterBinding \<Rightarrow> conditions" where
  "cbGet \<equiv> GetConditions clusterBindingSetter"

definition providerSecretUsable :: "cluster_reconciler \<Rightarrow> ClusterBinding \<Rightarrow> bool" where
  "providerSecretUsable R binding =
     (case getProviderSecret R of
        Inl _ \<Rightarrow> False
      | Inr s \<Rightarrow> fmlookup (sec_Data s) (ref_Key (cb_KubeconfigSecretRef binding)) \<noteq> None)"

fun writtenSecret :: "secret_call \<Rightarrow> Secret" where
  "writtenSecret (CreateConsumerSecret s) = s"
| "writtenSecret (UpdateConsumerSecret s) = s"

lemma consumerSecret_writes:
  assumes "ensureConsumerSecret R now b = (err, b', w)"
  shows "w = [] \<or> (\<exists>c s. w = [c] \<and> getProviderSecret R = Inr s \<and> providerSecretUsable R b \<and>
           sec_Data (writtenSecret c) = sec_Data s \<and> sec_Type (writtenSecret c) = sec_Type s)"
  using assms
  by (auto simp: ensureConsumerSecret_def providerSecretUsable_def Let_def split: sum.splits if_splits prod.splits)

lemma consumerSecret_ok:
  assumes "ensureConsumerSecret R now b = (None, b', w)" and "distinctTypes (cbGet b)"
  shows "marked clusterBindingSetter b' ClusterBindingConditionSecretValid
           (if providerSecretUsable R b then ConditionTrue else ConditionFalse)
           (if providerSecretUsable R b then '''' else ConditionSeverityWarning)"
    and "w \<noteq> [] \<longleftrightarrow> providerSecretUsable R b"
  using assms
  by (auto simp: ensureConsumerSecret_def providerSecretUsable_def secretCondition_def Let_def
      simp del: ConditionTrue_def ConditionFalse_def ConditionSeverityWarning_def
      intro: cb.marked_MarkTrue cb.marked_MarkFalse split: sum.splits if_splits prod.splits)

text \<open>The binding is left alone or gets one mark; an error leaves it alone.\<close>

lemma consumerSecret_shape:
  assumes "ensureConsumerSecret R now b = (err, b', w)"
  shows "b' = b \<or>
    err = None \<and> (b' = MarkTrue clusterBindingSetter now b ClusterBindingConditionSecretValid \<or>
      (\<exists>r f as. b' = MarkFalse clusterBindingSetter now b ClusterBindingConditionSecretValid r
                      ConditionSeverityWarning f as))"
  using assms
  by (auto simp: ensureConsumerSecret_def secretCondition_def Let_def split: sum.splits if_splits prod.splits)

lemma consumerSecret_frame:
  assumes "ensureConsumerSecret R now b = (err, b', w)" and "distinctTypes (cbGet b)"
  shows "distinctTypes (cbGet b')"
    and "Type ` set (cbGet b') \<subseteq> insert ClusterBindingConditionSecretValid (Type ` set (cbGet b))"
    and "err \<noteq> None \<Longrightarrow> b' = b"
    and "t \<noteq> ClusterBindingConditionSecretValid \<Longrightarrow>
         marked clusterBindingSetter b' t = marked clusterBindingSetter b t"
proof -
  note shape = consumerSecret_shape[OF assms(1)]
  show "distinctTypes (cbGet b')"
    using shape cb.distinctTypes_Mark[OF assms(2)] assms(2) by (elim disjE exE conjE) simp_all
  show "Type ` set (cbGet b') \<subseteq> insert ClusterBindingConditionSecretValid (Type ` set (cbGet b))"
    using shape by (elim disjE exE conjE) (simp_all add: cb.types_Mark subset_insertI)
  show "err \<noteq> None \<Longrightarrow> b' = b"
    using shape by blast
  show "t \<noteq> ClusterBindingConditionSecretValid \<Longrightarrow>
      marked clusterBindingSetter b' t = marked clusterBindingSetter b t"
    using shape cb.marked_other[OF assms(2)] by (elim disjE exE conjE) simp_all
qed

section \<open>The heartbeat\<close>

lemma conditions_heartbeat [simp]: "cbGet (ensureHeartbeat R now b) = cbGet b"
  by (simp add: ensureHeartbeat_def clusterBindingSetter_def Let_def)

lemma heartbeat_version [simp]:
  "cb_LastHeartbeatTime (MarkTrue clusterBindingSetter now b t) = cb_LastHeartbeatTime b"
  "cb_LastHeartbeatTime (MarkFalse clusterBindingSetter now b t r s f as) = cb_LastHeartbeatTime b"
  "cb_LastHeartbeatTime (Set_condition clusterBindingSetter now b copt) = cb_LastHeartbeatTime b"
  by (simp_all add: MarkTrue_def MarkFalse_def Set_condition_def clusterBindingSetter_def split: option.splits)

lemma heartbeat_ensureKonnectorVersion [simp]:
  "cb_LastHeartbeatTime (ensureKonnectorVersion R now b) = cb_LastHeartbeatTime b"
  by (simp add: ensureKonnectorVersion_def split: sum.splits)

lemma heartbeat_secret:
  "ensureConsumerSecret R now b = (err, b', w) \<Longrightarrow> cb_LastHeartbeatTime b' = cb_LastHeartbeatTime b"
  using consumerSecret_shape[of R now b err b' w] by auto

lemma heartbeat_fresh:
  "0 \<le> heartbeatInterval R \<Longrightarrow>
   now - cb_LastHeartbeatTime (ensureHeartbeat R now b) \<le> heartbeatInterval R sdiv 2"
  by (auto simp: ensureHeartbeat_def Let_def signed_divide_int_def sgn_if)

section \<open>Readiness\<close>

lemma conditions_version [simp]: "cbGet (b\<lparr>cb_KonnectorVersion := v\<rparr>) = cbGet b"
  by (simp add: clusterBindingSetter_def)

lemma ensureKonnectorVersion_marks:
  assumes "distinctTypes (cbGet b)"
  shows "marked clusterBindingSetter (ensureKonnectorVersion R now b) ClusterBindingConditionValidVersion
           (if isl (BinaryVersion (gitVersion R)) then ConditionFalse else ConditionTrue)
           (if isl (BinaryVersion (gitVersion R)) then ConditionSeverityWarning else '''')"
    and "t \<noteq> ClusterBindingConditionValidVersion \<Longrightarrow>
         marked clusterBindingSetter (ensureKonnectorVersion R now b) t = marked clusterBindingSetter b t"
    and "distinctTypes (cbGet (ensureKonnectorVersion R now b))"
    and "Type ` set (cbGet (ensureKonnectorVersion R now b)) =
         insert ClusterBindingConditionValidVersion (Type ` set (cbGet b))"
proof -
  have same: "marked clusterBindingSetter (b\<lparr>cb_KonnectorVersion := v\<rparr>) = marked clusterBindingSetter b" for v
    by (simp add: marked_def fun_eq_iff Get_condition_def)
  have d: "distinctTypes (cbGet (b\<lparr>cb_KonnectorVersion := v\<rparr>))" for v
    using assms by simp
  show "marked clusterBindingSetter (ensureKonnectorVersion R now b) ClusterBindingConditionValidVersion
           (if isl (BinaryVersion (gitVersion R)) then ConditionFalse else ConditionTrue)
           (if isl (BinaryVersion (gitVersion R)) then ConditionSeverityWarning else '''')"
    using cb.marked_MarkTrue[OF d] cb.marked_MarkFalse[OF d]
    by (auto simp: ensureKonnectorVersion_def split: sum.splits)
  show "t \<noteq> ClusterBindingConditionValidVersion \<Longrightarrow>
         marked clusterBindingSetter (ensureKonnectorVersion R now b) t = marked clusterBindingSetter b t"
    using cb.marked_other[OF d] same by (simp add: ensureKonnectorVersion_def split: sum.splits)
  show "distinctTypes (cbGet (ensureKonnectorVersion R now b))"
    using cb.distinctTypes_Mark[OF d] by (simp add: ensureKonnectorVersion_def split: sum.splits)
  show "Type ` set (cbGet (ensureKonnectorVersion R now b)) =
         insert ClusterBindingConditionValidVersion (Type ` set (cbGet b))"
    by (simp add: ensureKonnectorVersion_def cb.types_Mark split: sum.splits)
qed

lemma cluster_reconcile_ready:
  assumes run: "cluster_reconcile R now b = ([], b', w)" and mode: "\<not> cr_controlPlaneMode R"
    and d: "distinctTypes (cbGet b)"
    and types: "Type ` set (cbGet b) \<subseteq>
      {ClusterBindingConditionSecretValid, ClusterBindingConditionValidVersion, ReadyCondition}"
  shows "IsTrue clusterBindingSetter b' ReadyCondition \<longleftrightarrow>
    providerSecretUsable R b \<and> \<not> isl (BinaryVersion (gitVersion R))"
proof -
  obtain b1 where s: "ensureConsumerSecret R now b = (None, b1, w)"
    using run mode by (auto simp: cluster_reconcile_def Let_def split: prod.splits option.splits)
  define b3 where "b3 = ensureKonnectorVersion R now (ensureHeartbeat R now b1)"
  have b': "b' = SetSummary clusterBindingSetter now b3 []"
    using run mode s by (simp add: cluster_reconcile_def Let_def b3_def)
  note secret = consumerSecret_ok(1)[OF s d] consumerSecret_frame[OF s d]
  have d1: "distinctTypes (cbGet (ensureHeartbeat R now b1))" using secret(2) by simp
  note version = ensureKonnectorVersion_marks[OF d1, where R = R and now = now, folded b3_def]
  have same: "marked clusterBindingSetter (ensureHeartbeat R now b1) = marked clusterBindingSetter b1"
    by (simp add: marked_def fun_eq_iff Get_condition_def)
  have ne: "ClusterBindingConditionSecretValid \<noteq> ClusterBindingConditionValidVersion"
      "ClusterBindingConditionSecretValid \<noteq> ReadyCondition" "ClusterBindingConditionValidVersion \<noteq> ReadyCondition"
    by (simp_all add: klutch_defs)
  have sv: "marked clusterBindingSetter b3 ClusterBindingConditionSecretValid
       (if providerSecretUsable R b then ConditionTrue else ConditionFalse)
       (if providerSecretUsable R b then '''' else ConditionSeverityWarning)"
    using version(2)[OF ne(1)] same secret(1) by simp
  let ?T = "{ClusterBindingConditionSecretValid, ClusterBindingConditionValidVersion}"
  let ?ok = "\<lambda>t. if t = ClusterBindingConditionSecretValid then providerSecretUsable R b
                 else \<not> isl (BinaryVersion (gitVersion R))"
  have "Type ` set (cbGet b3) \<subseteq> insert ReadyCondition ?T"
    using version(4) secret(3) types by auto
  moreover have "\<exists>st sev. marked clusterBindingSetter b3 t st sev \<and>
      (if ?ok t then st = ConditionTrue else blocking st sev)" if "t \<in> ?T" for t
  proof (cases "t = ClusterBindingConditionSecretValid")
    case True
    with sv show ?thesis by (intro exI conjI) (auto simp: blocking_def)
  next
    case False
    with that version(1) show ?thesis by (intro exI conjI) (auto simp: blocking_def)
  qed
  ultimately have "IsTrue clusterBindingSetter b' ReadyCondition \<longleftrightarrow> (\<forall>t \<in> ?T. ?ok t)"
    unfolding b' using ne(2,3) by (intro cb.Ready_of_marks[OF version(3)]) auto
  with ne(1) show ?thesis by auto
qed

end
