(* ===== verification/Service_Binding.thy ===== *)
theory Service_Binding
  imports Bind_API
begin

text \<open>
  The two controllers of APIServiceBindings in the konnector.

  \<^item> \<open>bind/pkg/konnector/controllers/servicebinding/servicebinding_reconcile.go\<close> checks the kubeconfig
    secret of a binding: \<open>ensureValidKubeconfigSecret\<close>, \<open>sb_reconcile\<close>. The functions
    \<open>Load\<close> and \<open>RESTConfigFromKubeConfig\<close> of client-go are parameters (\<open>clientcmd\<close>).
  \<^item> \<open>bind/pkg/konnector/controllers/cluster/servicebinding/servicebinding_reconcile.go\<close> installs the CRD
    of a binding in the consumer cluster: \<open>csb_reconcile\<close>. What a call answers may depend
    on the calls made before, as in the sync reconcilers; \<open>csb_call\<close> records them.

  The lemmas show that the condition SecretValid says exactly whether the kubeconfig is usable, that a
  CRD is never changed unless it is owned by the binding, and what a run says about Connected,
  including that a failed CRD update goes unreported.
\<close>

section \<open>The kubeconfig secret\<close>

text \<open>A loaded kubeconfig: its current context, and the namespace of each of its contexts.\<close>

record kubeConfig =
  CurrentContext :: string
  Contexts :: "(string, string) fmap"

record clientcmd =
  Load :: "string \<Rightarrow> string + kubeConfig"
  RESTConfigFromKubeConfig :: "string \<Rightarrow> string + string"

record sb_reconciler =
  sbr_controlPlaneMode :: bool
  sbr_getConsumerSecret :: "string \<Rightarrow> string \<Rightarrow> apierr + Secret"
  sbr_clientcmd :: clientcmd

definition secretInvalid ::
  "time \<Rightarrow> APIServiceBinding \<Rightarrow> string \<Rightarrow> string \<Rightarrow> fmtarg list \<Rightarrow> APIServiceBinding" where
  "secretInvalid now binding rsn fmt args =
     MarkFalse serviceBindingSetter now binding APIServiceBindingConditionSecretValid rsn
       ConditionSeverityError fmt args"

definition ensureValidKubeconfigSecret ::
  "sb_reconciler \<Rightarrow> time \<Rightarrow> APIServiceBinding \<Rightarrow> apierr option \<times> APIServiceBinding" where
  "ensureValidKubeconfigSecret R now binding =
     (let ref = sb_KubeconfigSecretRef binding;
          ns = FStr (ref_Namespace ref);
          name = FStr (ref_Name ref)
      in case sbr_getConsumerSecret R (ref_Namespace ref) (ref_Name ref) of
           Inl e \<Rightarrow>
             if \<not> IsNotFound e then (Some e, binding)
             else (None, secretInvalid now binding ''KubeconfigSecretNotFound''
                     ''Kubeconfig secret %s/%s not found. Rerun kubectl bind for repair.'' [ns, name])
         | Inr secret \<Rightarrow>
             (case fmlookup (sec_Data secret) (ref_Key ref) of
                None \<Rightarrow> (None, secretInvalid now binding ''KubeconfigSecretInvalid''
                           ''Kubeconfig secret %s/%s is missing %q string key.'' [ns, name, FStr (ref_Key ref)])
              | Some kubeconfig \<Rightarrow>
                  (case Load (sbr_clientcmd R) kubeconfig of
                     Inl err \<Rightarrow> (None, secretInvalid now binding ''KubeconfigSecretInvalid''
                                  ''Kubeconfig secret %s/%s has an invalid kubeconfig: %v'' [ns, name, FStr err])
                   | Inr cfg \<Rightarrow>
                       (case fmlookup (Contexts cfg) (CurrentContext cfg) of
                          None \<Rightarrow> (None, secretInvalid now binding ''KubeconfigSecretInvalid''
                             ''Kubeconfig secret %s/%s has an invalid kubeconfig: current context %q not found''
                             [ns, name, FStr (CurrentContext cfg)])
                        | Some contextNamespace \<Rightarrow>
                            if \<not> sbr_controlPlaneMode R \<and> contextNamespace = ''''
                            then (None, secretInvalid now binding ''KubeconfigSecretInvalid''
                               ''Kubeconfig secret %s/%s has an invalid kubeconfig: current context %q has no namespace set''
                               [ns, name, FStr (CurrentContext cfg)])
                            else
                              (case RESTConfigFromKubeConfig (sbr_clientcmd R) kubeconfig of
                                 Inl err \<Rightarrow> (None, secretInvalid now binding ''KubeconfigSecretInvalid''
                                    ''Kubeconfig secret %s/%s has an invalid kubeconfig: %v'' [ns, name, FStr err])
                               | Inr _ \<Rightarrow>
                                   (None, MarkTrue serviceBindingSetter now binding
                                            APIServiceBindingConditionSecretValid))))))"

definition sb_reconcile ::
  "sb_reconciler \<Rightarrow> time \<Rightarrow> APIServiceBinding \<Rightarrow> apierr list \<times> APIServiceBinding" where
  "sb_reconcile R now binding =
     (let (err, b) = ensureValidKubeconfigSecret R now binding
      in (case err of None \<Rightarrow> [] | Some e \<Rightarrow> [e], SetSummary serviceBindingSetter now b []))"

section \<open>The CRD of a binding\<close>

datatype csb_call =
    GetServiceExport string
  | GetCRD string
  | CreateCRD CRD
  | UpdateCRD CRD
  | GetClusterBinding

type_synonym csb_calls = "csb_call list"

record csb_reconciler =
  reconcileServiceBinding :: "APIServiceBinding \<Rightarrow> bool"
  getServiceExport :: "csb_calls \<Rightarrow> string \<Rightarrow> apierr + APIServiceExport"
  getClusterBinding :: "csb_calls \<Rightarrow> apierr + ClusterBinding"
  getCRD :: "csb_calls \<Rightarrow> string \<Rightarrow> apierr + CRD"
  updateCRD :: "csb_calls \<Rightarrow> CRD \<Rightarrow> apierr + CRD"
  createCRD :: "csb_calls \<Rightarrow> CRD \<Rightarrow> apierr + CRD"
  csb_unmarshal :: "string \<Rightarrow> string + json"

type_synonym csb_step = "apierr option \<times> APIServiceBinding \<times> csb_calls"

definition notConnected ::
  "time \<Rightarrow> APIServiceBinding \<Rightarrow> string \<Rightarrow> string \<Rightarrow> fmtarg list \<Rightarrow> APIServiceBinding" where
  "notConnected now binding rsn fmt args =
     MarkFalse serviceBindingSetter now binding APIServiceBindingConditionConnected rsn
       ConditionSeverityError fmt args"

definition nowConnected :: "time \<Rightarrow> APIServiceBinding \<Rightarrow> APIServiceBinding" where
  "nowConnected now binding =
     MarkTrue serviceBindingSetter now binding APIServiceBindingConditionConnected"

definition bindingName :: "APIServiceBinding \<Rightarrow> string" where
  "bindingName binding = om_Name (sb_Meta binding)"

definition ensureValidServiceExport ::
  "csb_reconciler \<Rightarrow> time \<Rightarrow> csb_calls \<Rightarrow> APIServiceBinding \<Rightarrow> csb_step" where
  "ensureValidServiceExport R now l binding =
     (let l1 = l @ [GetServiceExport (bindingName binding)] in
      case getServiceExport R l (bindingName binding) of
        Inl e \<Rightarrow>
          if \<not> IsNotFound e then (Some e, binding, l1)
          else (None, notConnected now binding ''APIServiceExportNotFound''
                  ''APIServiceExport %s not found on the service provider cluster. Rerun kubectl bind for repair.''
                  [FStr (bindingName binding)], l1)
      | Inr _ \<Rightarrow> (None, nowConnected now binding, l1))"

definition bindingReference :: "APIServiceBinding \<Rightarrow> OwnerReference" where
  "bindingReference binding =
     \<lparr>or_APIVersion = GroupName @ ''/v1alpha1'', or_Kind = ''APIServiceBinding'',
      or_Name = bindingName binding, or_UID = om_UID (sb_Meta binding), or_Controller = Some True\<rparr>"

definition withOwner :: "APIServiceBinding \<Rightarrow> CRD \<Rightarrow> CRD" where
  "withOwner binding crd =
     crd\<lparr>crd_Meta := (crd_Meta crd)\<lparr>om_OwnerReferences :=
            om_OwnerReferences (crd_Meta crd) @ [bindingReference binding]\<rparr>\<rparr>"

text \<open>The last part of \<open>ensureCRDs\<close>, given the CRD to install.\<close>

definition installCRD ::
  "csb_reconciler \<Rightarrow> time \<Rightarrow> csb_calls \<Rightarrow> APIServiceBinding \<Rightarrow> CRD \<Rightarrow> csb_step" where
  "installCRD R now l binding crd =
     (let name = om_Name (crd_Meta crd);
          l1 = l @ [GetCRD name]
      in case getCRD R l name of
           Inl e \<Rightarrow>
             if \<not> IsNotFound e then (Some e, binding, l1)
             else
               (let l2 = l1 @ [CreateCRD crd] in
                case createCRD R l1 crd of
                  Inl e' \<Rightarrow>
                    if \<not> IsInvalid e' then (Some e', binding, l2)
                    else (None, notConnected now binding ''CustomResourceDefinitionCreateFailed''
                            ''CustomResourceDefinition %s cannot be created: %s''
                            [FStr (bindingName binding), FStr (error_text e')], l2)
                | Inr _ \<Rightarrow> (None, nowConnected now binding, l2))
         | Inr existing \<Rightarrow>
             if \<not> IsOwnedByBinding (bindingName binding) (om_UID (sb_Meta binding))
                    (om_OwnerReferences (crd_Meta existing))
             then (None, notConnected now binding ''ForeignCustomResourceDefinition''
                     ''CustomResourceDefinition %s is not owned by klutch.anynines.com.''
                     [FStr (bindingName binding)], l1)
             else
               (let crd' = crd\<lparr>crd_Meta := crd_Meta existing\<rparr>;
                    l2 = l1 @ [UpdateCRD crd']
                in case updateCRD R l1 crd' of
                     Inl e' \<Rightarrow>
                       if \<not> IsInvalid e' then (None, binding, l2)
                       else (None, notConnected now binding ''CustomResourceDefinitionUpdateFailed''
                               ''CustomResourceDefinition %s cannot be updated: %s''
                               [FStr (bindingName binding), FStr (error_text e')], l2)
                   | Inr _ \<Rightarrow> (None, nowConnected now binding, l2)))"

definition ensureCRDs :: "csb_reconciler \<Rightarrow> time \<Rightarrow> csb_calls \<Rightarrow> APIServiceBinding \<Rightarrow> csb_step" where
  "ensureCRDs R now l binding =
     (let l1 = l @ [GetServiceExport (bindingName binding)] in
      case getServiceExport R l (bindingName binding) of
        Inl e \<Rightarrow>
          if \<not> IsNotFound e then (Some e, binding, l1)
          else (None, notConnected now binding ''APIServiceExportNotFound''
                  ''APIServiceExport %s not found on the service provider cluster.''
                  [FStr (bindingName binding)], l1)
      | Inr export \<Rightarrow>
          (case ServiceExportToCRD (csb_unmarshal R) export of
             Inl err \<Rightarrow>
               (None, notConnected now binding ''APIServiceExportInvalid''
                  ''APIServiceExport %s on the service provider cluster is invalid: %s''
                  [FStr (bindingName binding), FStr err], l1)
           | Inr crd \<Rightarrow> installCRD R now l1 binding (withOwner binding crd)))"

definition ensurePrettyName :: "csb_reconciler \<Rightarrow> csb_calls \<Rightarrow> APIServiceBinding \<Rightarrow> csb_step" where
  "ensurePrettyName R l binding =
     (let l1 = l @ [GetClusterBinding] in
      case getClusterBinding R l of
        Inl e \<Rightarrow>
          if \<not> IsNotFound e then (Some e, binding, l1)
          else (None, binding\<lparr>sb_ProviderPrettyName := ''''\<rparr>, l1)
      | Inr clusterBinding \<Rightarrow>
          (None, binding\<lparr>sb_ProviderPrettyName := cb_ProviderPrettyName clusterBinding\<rparr>, l1))"

definition errList :: "'e option \<Rightarrow> 'e list" where
  "errList err = (case err of None \<Rightarrow> [] | Some e \<Rightarrow> [e])"

definition csb_reconcile ::
  "csb_reconciler \<Rightarrow> time \<Rightarrow> csb_calls \<Rightarrow> APIServiceBinding \<Rightarrow>
     apierr list \<times> APIServiceBinding \<times> csb_calls" where
  "csb_reconcile R now l binding =
     (if \<not> reconcileServiceBinding R binding then ([], binding, l)
      else
        (let (err1, b1, l1) = ensureValidServiceExport R now l binding;
             (err2, b2, l2) = ensureCRDs R now l1 b1;
             (err3, b3, l3) = ensurePrettyName R l2 b2
         in (errList err1 @ errList err2 @ errList err3, SetSummary serviceBindingSetter now b3 [], l3)))"

section \<open>What a mark leaves alone\<close>

abbreviation sbGet :: "APIServiceBinding \<Rightarrow> conditions" where
  "sbGet \<equiv> GetConditions serviceBindingSetter"

lemma sb_Set_frame [simp]:
  "sb_Meta (Set_condition serviceBindingSetter now b copt) = sb_Meta b"
  "sb_KubeconfigSecretRef (Set_condition serviceBindingSetter now b copt) = sb_KubeconfigSecretRef b"
  "sb_ProviderPrettyName (Set_condition serviceBindingSetter now b copt) = sb_ProviderPrettyName b"
  by (simp_all add: Set_condition_def serviceBindingSetter_def split: option.splits)

lemmas mark_defs = MarkTrue_def MarkFalse_def secretInvalid_def notConnected_def nowConnected_def

section \<open>SecretValid tells whether the kubeconfig is usable\<close>

definition kubeconfigUsable :: "clientcmd \<Rightarrow> bool \<Rightarrow> string \<Rightarrow> bool" where
  "kubeconfigUsable C controlPlane kubeconfig =
     (case Load C kubeconfig of
        Inl _ \<Rightarrow> False
      | Inr cfg \<Rightarrow>
          (case fmlookup (Contexts cfg) (CurrentContext cfg) of
             None \<Rightarrow> False
           | Some ns \<Rightarrow> (controlPlane \<or> ns \<noteq> '''') \<and> \<not> isl (RESTConfigFromKubeConfig C kubeconfig)))"

definition bindingSecretUsable :: "sb_reconciler \<Rightarrow> APIServiceBinding \<Rightarrow> bool" where
  "bindingSecretUsable R b =
     (case sbr_getConsumerSecret R (ref_Namespace (sb_KubeconfigSecretRef b)) (ref_Name (sb_KubeconfigSecretRef b)) of
        Inl _ \<Rightarrow> False
      | Inr secret \<Rightarrow>
          (case fmlookup (sec_Data secret) (ref_Key (sb_KubeconfigSecretRef b)) of
             None \<Rightarrow> False
           | Some kubeconfig \<Rightarrow> kubeconfigUsable (sbr_clientcmd R) (sbr_controlPlaneMode R) kubeconfig))"

lemma ensureValidKubeconfigSecret_cases:
  "ensureValidKubeconfigSecret R now b = (err, b') \<Longrightarrow>
   (\<exists>e. err = Some e \<and> b' = b \<and> \<not> bindingSecretUsable R b) \<or>
   (err = None \<and> bindingSecretUsable R b \<and>
      b' = MarkTrue serviceBindingSetter now b APIServiceBindingConditionSecretValid) \<or>
   (err = None \<and> \<not> bindingSecretUsable R b \<and>
      (\<exists>r f as. b' = MarkFalse serviceBindingSetter now b APIServiceBindingConditionSecretValid r
                       ConditionSeverityError f as))"
  by (auto simp: ensureValidKubeconfigSecret_def bindingSecretUsable_def kubeconfigUsable_def
      secretInvalid_def Let_def split: sum.splits option.splits if_splits)

lemma SecretValid_marked:
  assumes "ensureValidKubeconfigSecret R now b = (None, b')" and "distinctTypes (sbGet b)"
  shows "marked serviceBindingSetter b' APIServiceBindingConditionSecretValid
     (if bindingSecretUsable R b then ConditionTrue else ConditionFalse)
     (if bindingSecretUsable R b then '''' else ConditionSeverityError)"
    and "distinctTypes (sbGet b')"
  using ensureValidKubeconfigSecret_cases[OF assms(1)] sb.marked_MarkTrue[OF assms(2)]
    sb.marked_MarkFalse[OF assms(2)] sb.distinctTypes_Mark[OF assms(2)]
  by (elim disjE exE conjE; simp; fail)+

lemma sb_reconcile_SecretValid:
  assumes "sb_reconcile R now b = ([], b')" and "distinctTypes (sbGet b)"
  shows "marked serviceBindingSetter b' APIServiceBindingConditionSecretValid
     (if bindingSecretUsable R b then ConditionTrue else ConditionFalse)
     (if bindingSecretUsable R b then '''' else ConditionSeverityError)"
proof -
  obtain b1 where "ensureValidKubeconfigSecret R now b = (None, b1)"
      and b': "b' = SetSummary serviceBindingSetter now b1 []"
    using assms(1) by (auto simp: sb_reconcile_def Let_def split: prod.splits option.splits)
  note m = SecretValid_marked[OF this(1) assms(2)]
  have "APIServiceBindingConditionSecretValid \<noteq> ReadyCondition"
    by (simp add: klutch_defs)
  from sb.get_SetSummary_marked[OF m(2) this] m(1) b' show ?thesis by simp
qed

section \<open>Requests on CRDs\<close>

definition crdRequest :: "csb_call \<Rightarrow> bool" where
  "crdRequest c = (case c of CreateCRD _ \<Rightarrow> True | UpdateCRD _ \<Rightarrow> True | _ \<Rightarrow> False)"

lemma validServiceExport_frame:
  assumes "ensureValidServiceExport R now l b = (err, b1, l1)"
  shows "sb_Meta b1 = sb_Meta b" and "l1 = l @ [GetServiceExport (bindingName b)]"
  using assms by (auto simp: ensureValidServiceExport_def mark_defs Let_def split: sum.splits if_splits)

lemma installCRD_calls:
  assumes "installCRD R now l b crd = (err, b', l')"
  shows "\<exists>w. l' = l @ GetCRD (om_Name (crd_Meta crd)) # w \<and>
    (w = [] \<or>
     (w = [CreateCRD crd] \<and> (\<exists>e. getCRD R l (om_Name (crd_Meta crd)) = Inl e \<and> IsNotFound e)) \<or>
     (\<exists>existing. getCRD R l (om_Name (crd_Meta crd)) = Inr existing \<and>
        w = [UpdateCRD (crd\<lparr>crd_Meta := crd_Meta existing\<rparr>)] \<and>
        IsOwnedByBinding (bindingName b) (om_UID (sb_Meta b)) (om_OwnerReferences (crd_Meta existing))))"
  using assms by (auto simp: installCRD_def Let_def split: sum.splits if_splits)

lemma ensureCRDs_calls:
  assumes "ensureCRDs R now l b = (err, b', l')"
  shows "l' = l @ [GetServiceExport (bindingName b)] \<or>
    (\<exists>export crd. getServiceExport R l (bindingName b) = Inr export \<and>
       ServiceExportToCRD (csb_unmarshal R) export = Inr crd \<and>
       installCRD R now (l @ [GetServiceExport (bindingName b)]) b (withOwner b crd) = (err, b', l'))"
  using assms by (auto simp: ensureCRDs_def Let_def split: sum.splits if_splits)

lemma prettyName_calls:
  "ensurePrettyName R l b = (err, b', l') \<Longrightarrow> l' = l @ [GetClusterBinding]"
  by (auto simp: ensurePrettyName_def Let_def split: sum.splits if_splits)

text \<open>
  A run makes at most one request on a CRD. A creation answers a lookup that found nothing and carries
  the owner reference; an update answers a lookup that found a CRD owned by this binding, and
  keeps its metadata.
\<close>

lemma csb_requests:
  assumes "csb_reconcile R now l b = (errs, b', l')"
  shows "filter crdRequest (drop (length l) l') = [] \<or>
   (\<exists>pre post name crd e. l' = pre @ GetCRD name # CreateCRD crd # post \<and>
      filter crdRequest (drop (length l) l') = [CreateCRD crd] \<and>
      getCRD R pre name = Inl e \<and> IsNotFound e \<and> om_Name (crd_Meta crd) = name \<and>
      IsOwnedByBinding (bindingName b) (om_UID (sb_Meta b)) (om_OwnerReferences (crd_Meta crd))) \<or>
   (\<exists>pre post name crd existing. l' = pre @ GetCRD name # UpdateCRD crd # post \<and>
      filter crdRequest (drop (length l) l') = [UpdateCRD crd] \<and>
      getCRD R pre name = Inr existing \<and> crd_Meta crd = crd_Meta existing \<and>
      IsOwnedByBinding (bindingName b) (om_UID (sb_Meta b)) (om_OwnerReferences (crd_Meta existing)))"
proof (cases "reconcileServiceBinding R b")
  case False
  with assms show ?thesis by (simp add: csb_reconcile_def)
next
  case True
  obtain e1 b1 l1 where 1: "ensureValidServiceExport R now l b = (e1, b1, l1)" by (metis prod_cases3)
  obtain e2 b2 l2 where 2: "ensureCRDs R now l1 b1 = (e2, b2, l2)" by (metis prod_cases3)
  obtain e3 b3 l3 where 3: "ensurePrettyName R l2 b2 = (e3, b3, l3)" by (metis prod_cases3)
  note f1 = validServiceExport_frame[OF 1]
  have l': "l' = l2 @ [GetClusterBinding]"
    using assms True 1 2 prettyName_calls[OF 3] 3 by (simp add: csb_reconcile_def)
  have nm: "bindingName b1 = bindingName b" by (simp add: bindingName_def f1)
  let ?k0 = "l1 @ [GetServiceExport (bindingName b1)]"
  have none: "?thesis" if "l2 = ?k0 @ w" "filter crdRequest w = []" for w
    using that by (simp add: l' f1 crdRequest_def)
  from ensureCRDs_calls[OF 2] show ?thesis
  proof (elim disjE exE conjE)
    assume "l2 = ?k0"
    with none[of "[]"] show ?thesis by simp
  next
    fix export crd
    assume ins: "installCRD R now ?k0 b1 (withOwner b1 crd) = (e2, b2, l2)"
    let ?name = "om_Name (crd_Meta (withOwner b1 crd))"
    have owned: "IsOwnedByBinding (bindingName b) (om_UID (sb_Meta b))
        (om_OwnerReferences (crd_Meta (withOwner b1 crd)))"
      by (simp add: withOwner_def IsOwnedByBinding_def bindingReference_def nm f1 bindingName_def
          GroupName_def splitFirst_def SplitN2_def)
    from installCRD_calls[OF ins] show ?thesis
    proof (elim disjE exE conjE)
      fix w assume "l2 = ?k0 @ GetCRD ?name # w" "w = []"
      with none[of "[GetCRD ?name]"] show ?thesis by (simp add: crdRequest_def)
    next
      fix w e assume "l2 = ?k0 @ GetCRD ?name # w" "w = [CreateCRD (withOwner b1 crd)]"
        "getCRD R ?k0 ?name = Inl e" "IsNotFound e"
      with owned show ?thesis
        by (intro disjI2 disjI1 exI[of _ ?k0] exI[of _ "[GetClusterBinding]"] exI[of _ ?name]
            exI[of _ "withOwner b1 crd"] exI[of _ e]) (simp add: l' f1 crdRequest_def)
    next
      fix w existing assume "l2 = ?k0 @ GetCRD ?name # w" "getCRD R ?k0 ?name = Inr existing"
        "w = [UpdateCRD (withOwner b1 crd\<lparr>crd_Meta := crd_Meta existing\<rparr>)]"
        "IsOwnedByBinding (bindingName b1) (om_UID (sb_Meta b1)) (om_OwnerReferences (crd_Meta existing))"
      then show ?thesis
        by (intro disjI2 exI[of _ ?k0] exI[of _ "[GetClusterBinding]"] exI[of _ ?name]
            exI[of _ "withOwner b1 crd\<lparr>crd_Meta := crd_Meta existing\<rparr>"] exI[of _ existing])
          (simp add: l' f1 nm crdRequest_def)
    qed
  qed
qed

section \<open>A failed update of the CRD\<close>

text \<open>
  When the update of the CRD fails with an error other than Invalid, \<open>ensureCRDs\<close> returns nil: the run
  has no error and leaves Connected as the first step set it, true.
\<close>

lemma csb_update_error_unreported:
  assumes "reconcileServiceBinding R b" and d: "distinctTypes (sbGet b)"
    and "\<And>k. getServiceExport R k (bindingName b) = Inr export"
    and "ServiceExportToCRD (csb_unmarshal R) export = Inr crd"
    and "\<And>k. getCRD R k (om_Name (crd_Meta crd)) = Inr existing"
    and "IsOwnedByBinding (bindingName b) (om_UID (sb_Meta b)) (om_OwnerReferences (crd_Meta existing))"
    and "\<And>k c. updateCRD R k c = Inl e" and "\<not> IsInvalid e"
    and "\<And>k. getClusterBinding R k = Inr cbind"
  shows "\<exists>b' l'. csb_reconcile R now l b = ([], b', l') \<and>
     IsTrue serviceBindingSetter b' APIServiceBindingConditionConnected"
proof -
  let ?b1 = "nowConnected now b"
  have meta: "sb_Meta ?b1 = sb_Meta b" "bindingName ?b1 = bindingName b"
    by (simp_all add: mark_defs bindingName_def)
  have name: "om_Name (crd_Meta (withOwner ?b1 crd)) = om_Name (crd_Meta crd)"
    by (simp add: withOwner_def)
  let ?b3 = "?b1\<lparr>sb_ProviderPrettyName := cb_ProviderPrettyName cbind\<rparr>"
  obtain l' where "csb_reconcile R now l b = ([], SetSummary serviceBindingSetter now ?b3 [], l')"
    using assms(1,3-9) meta name
    by (simp add: csb_reconcile_def ensureValidServiceExport_def ensureCRDs_def installCRD_def
        ensurePrettyName_def errList_def)
  moreover have conds: "sbGet ?b3 = sbGet ?b1"
    by (simp add: serviceBindingSetter_def)
  have d3: "distinctTypes (sbGet ?b3)"
    using conds sb.distinctTypes_Mark(1)[OF d] by (simp add: nowConnected_def)
  have "IsTrue serviceBindingSetter ?b1 APIServiceBindingConditionConnected"
    using d by (simp add: nowConnected_def)
  then have "IsTrue serviceBindingSetter ?b3 APIServiceBindingConditionConnected"
    using conds by (simp add: IsTrue_def Get_condition_def)
  moreover have "APIServiceBindingConditionConnected \<noteq> ReadyCondition"
    by (simp add: klutch_defs)
  note other = sb.get_SetSummary_other[OF d3 this]
  ultimately show ?thesis
    by (auto simp: IsTrue_def other)
qed

end
