(* ===== verification/Service_Export.thy ===== *)
theory Service_Export
  imports Bind_API
begin

text \<open>
  The APIServiceExport controller of the konnector,
  \<open>bind/pkg/konnector/controllers/cluster/serviceexport/serviceexport_reconcile.go\<close>. It starts
  and stops the syncers of an exported resource and copies conditions to the export.

  The reconciler's map \<open>syncContext\<close> is part of \<open>sync_state\<close>, with the syncers that have been
  started and not cancelled (\<open>running\<close>, by the number of their context) and those started by a worker
  that has not registered them yet (\<open>pending\<close>). The critical sections of
  \<open>ensureControllers\<close> are the operations \<open>stopSync\<close> (found: cancel and delete), \<open>launchSync\<close>
  (the new context and its goroutine) and \<open>registerSync\<close>; other workers may run between
  them. What the reconciler calls outside the file (listers, informers, the constructors of the
  spec, status, adopt and claimed-resources controllers) are fields of \<open>export_reconciler\<close>; the listers
  are read in three places, and may answer differently in each.

  The lemmas show that no syncer leaks: in every state that any interleaving of the critical sections
  reaches, the running syncers are exactly the registered and the pending ones, one for each name;
  that a run leaves the syncer of the current generation running or none; and what the
  conditions of the export say after a run.
\<close>

section \<open>Syncers\<close>

record GVR =
  gvr_Group :: string
  gvr_Version :: string
  gvr_Resource :: string

datatype informer = SharedInformer GVR | MultiNamespaceInformer GVR

record syncer =
  sy_gvr :: GVR
  sy_provider :: informer
  sy_claims :: "(GVR \<times> informer) list"

datatype phase = EnsureControllers | CopyBindingConditions | CopyCRDConditions

record export_reconciler =
  er_getCRD :: "phase \<Rightarrow> string \<Rightarrow> apierr + CRD"
  er_getServiceBinding :: "phase \<Rightarrow> string \<Rightarrow> apierr + APIServiceBinding"
  getProviderNamespace :: "apierr + string"
  newMultiNamespaceInformer :: "GVR \<Rightarrow> apierr option"
  newSpecController :: "GVR \<Rightarrow> apierr option"
  newStatusController :: "GVR \<Rightarrow> apierr option"
  newAdoptController :: "GVR \<Rightarrow> apierr option"
  newClaimedController :: "GVR \<Rightarrow> apierr option"

record sync_context =
  sc_generation :: int
  sc_context :: nat

record sync_state =
  syncContext :: "(string, sync_context) fmap"
  running :: "(nat, syncer) fmap"
  pending :: "nat set"
  nextContext :: nat

definition initSync :: sync_state where
  "initSync = \<lparr>syncContext = fmempty, running = fmempty, pending = {}, nextContext = 0\<rparr>"

section \<open>Critical sections\<close>

definition stopSync :: "string \<Rightarrow> sync_state \<Rightarrow> sync_state" where
  "stopSync name s =
     (case fmlookup (syncContext s) name of
        None \<Rightarrow> s
      | Some c \<Rightarrow> s\<lparr>running := fmdrop (sc_context c) (running s),
                    syncContext := fmdrop name (syncContext s)\<rparr>)"

definition launchSync :: "syncer \<Rightarrow> sync_state \<Rightarrow> nat \<times> sync_state" where
  "launchSync y s =
     (nextContext s,
      s\<lparr>running := fmupd (nextContext s) y (running s), pending := insert (nextContext s) (pending s),
        nextContext := Suc (nextContext s)\<rparr>)"

definition registerSync :: "string \<Rightarrow> int \<Rightarrow> nat \<Rightarrow> sync_state \<Rightarrow> sync_state" where
  "registerSync name gen ctx s =
     (let s1 = (case fmlookup (syncContext s) name of
                  None \<Rightarrow> s
                | Some c \<Rightarrow> s\<lparr>running := fmdrop (sc_context c) (running s)\<rparr>)
      in s1\<lparr>syncContext := fmupd name \<lparr>sc_generation = gen, sc_context = ctx\<rparr> (syncContext s1),
            pending := pending s1 - {ctx}\<rparr>)"

section \<open>Building the syncer\<close>

definition syncVersion :: "APIServiceExportVersion list \<Rightarrow> string" where
  "syncVersion vs = (case find ev_Served vs of None \<Rightarrow> '''' | Some v \<Rightarrow> ev_Name v)"

definition exportGVR :: "APIServiceExport \<Rightarrow> GVR" where
  "exportGVR export =
     \<lparr>gvr_Group = es_Group (ex_Spec export), gvr_Version = syncVersion (es_Versions (ex_Spec export)),
      gvr_Resource = n_Plural (es_Names (ex_Spec export))\<rparr>"

definition ClusterScope :: string where
  "ClusterScope = ''Cluster''"

definition providerInformer :: "export_reconciler \<Rightarrow> bool \<Rightarrow> GVR \<Rightarrow> apierr + informer" where
  "providerInformer R clusterWide gvr =
     (if clusterWide then Inr (SharedInformer gvr)
      else case newMultiNamespaceInformer R gvr of
             Some e \<Rightarrow> Inl e
           | None \<Rightarrow> Inr (MultiNamespaceInformer gvr))"

definition claimGVR :: "AcceptablePermissionClaim \<Rightarrow> GVR" where
  "claimGVR claim =
     \<lparr>gvr_Group = gr_Group claim, gvr_Version = pc_Version claim, gvr_Resource = gr_Resource claim\<rparr>"

definition syncClusterScoped :: "AcceptablePermissionClaim \<Rightarrow> bool" where
  "syncClusterScoped claim =
     (case pc_Selector claim of None \<Rightarrow> False | Some sel \<Rightarrow> rs_Namespaces sel = None)"

text \<open>
  The loop over the permission claims. \<open>Inl\<close> is an early return from \<open>ensureControllers\<close>, with the
  error it returns; an error of a constructor is only logged.
\<close>

fun claimControllers ::
  "export_reconciler \<Rightarrow> AcceptablePermissionClaim list \<Rightarrow> apierr option + (GVR \<times> informer) list" where
  "claimControllers R [] = Inr []"
| "claimControllers R (claim # claims) =
     (if apc_State claim \<noteq> ClaimAccepted then claimControllers R claims
      else case providerInformer R (syncClusterScoped claim) (claimGVR claim) of
             Inl e \<Rightarrow> Inl (Some e)
           | Inr infr \<Rightarrow>
               (case newClaimedController R (claimGVR claim) of
                  Some e \<Rightarrow> Inl None
                | None \<Rightarrow>
                    (case claimControllers R claims of
                       Inl ret \<Rightarrow> Inl ret
                     | Inr cs \<Rightarrow> Inr ((claimGVR claim, infr) # cs))))"

definition buildSyncer ::
  "export_reconciler \<Rightarrow> APIServiceExport \<Rightarrow> CRD \<Rightarrow> APIServiceBinding \<Rightarrow> apierr option + syncer" where
  "buildSyncer R export crd binding =
     (let gvr = exportGVR export in
      case getProviderNamespace R of
        Inl e \<Rightarrow> Inl (Some e)
      | Inr uid \<Rightarrow>
          (case providerInformer R (crd_Scope crd = ClusterScope \<or> ex_InformerScope export = ClusterScope) gvr of
             Inl e \<Rightarrow> Inl (Some e)
           | Inr infr \<Rightarrow>
               if newSpecController R gvr \<noteq> None \<or> newStatusController R gvr \<noteq> None \<or>
                  newAdoptController R gvr \<noteq> None
               then Inl None
               else (case claimControllers R (sb_PermissionClaims binding) of
                       Inl ret \<Rightarrow> Inl ret
                     | Inr claims \<Rightarrow> Inr \<lparr>sy_gvr = gvr, sy_provider = infr, sy_claims = claims\<rparr>)))"

section \<open>ensureControllers\<close>

definition exportName :: "APIServiceExport \<Rightarrow> string" where
  "exportName export = om_Name (ex_Meta export)"

definition ensureControllers ::
  "export_reconciler \<Rightarrow> string \<Rightarrow> APIServiceExport option \<Rightarrow> sync_state \<Rightarrow> apierr option \<times> sync_state" where
  "ensureControllers R name exportOpt s =
     (case exportOpt of
        None \<Rightarrow> (None, stopSync name s)
      | Some export \<Rightarrow>
          (case er_getCRD R EnsureControllers (exportName export) of
             Inl e \<Rightarrow> if \<not> IsNotFound e then (Some e, s) else (None, stopSync (exportName export) s)
           | Inr crd \<Rightarrow>
               (case er_getServiceBinding R EnsureControllers (exportName export) of
                  Inl e \<Rightarrow> if \<not> IsNotFound e then (Some e, s) else (None, stopSync (exportName export) s)
                | Inr binding \<Rightarrow>
                    if (case fmlookup (syncContext s) (exportName export) of
                          None \<Rightarrow> False
                        | Some c \<Rightarrow> sc_generation c = om_Generation (ex_Meta export))
                    then (None, s)
                    else
                      (let s1 = stopSync (exportName export) s in
                       case buildSyncer R export crd binding of
                         Inl ret \<Rightarrow> (ret, s1)
                       | Inr y \<Rightarrow>
                           (let (ctx, s2) = launchSync y s1
                            in (None, registerSync (exportName export) (om_Generation (ex_Meta export)) ctx s2))))))"

section \<open>Copying conditions\<close>

definition ensureServiceBindingConditionCopied ::
  "export_reconciler \<Rightarrow> time \<Rightarrow> APIServiceExport \<Rightarrow> apierr option \<times> APIServiceExport" where
  "ensureServiceBindingConditionCopied R now export =
     (let I = serviceExportSetter in
      case er_getServiceBinding R CopyBindingConditions (exportName export) of
        Inl e \<Rightarrow>
          if \<not> IsNotFound e then (Some e, export)
          else (None,
            MarkFalse I now
              (MarkFalse I now export APIServiceExportConditionConnected ''APIServiceBindingNotFound''
                 ConditionSeverityInfo ''No APIServiceBinding exists.'' [])
              APIServiceExportConditionConsumerInSync ''NA''
              ConditionSeverityInfo ''No APIServiceBinding exists.'' [])
      | Inr binding \<Rightarrow>
          (let e1 = MarkTrue I now export APIServiceExportConditionConnected in
           case Get_condition serviceBindingSetter binding APIServiceBindingConditionSchemaInSync of
             Some inSync \<Rightarrow>
               (None, Set_condition I now e1 (Some (inSync\<lparr>Type := APIServiceExportConditionConsumerInSync\<rparr>)))
           | None \<Rightarrow>
               (None, MarkFalse I now e1 APIServiceExportConditionConsumerInSync ''Unknown'' ConditionSeverityInfo
                  ''APIServiceBinding %s in the consumer cluster does not have a SchemaInSync condition.''
                  [FStr (om_Name (sb_Meta binding))])))"

text \<open>The map \<open>exportIndex\<close> that the loop builds: a later condition of the same type overwrites an earlier one.\<close>

fun exportIndex :: "nat \<Rightarrow> conditions \<Rightarrow> string \<Rightarrow> nat option" where
  "exportIndex i [] t = None"
| "exportIndex i (c # cs) t =
     (case exportIndex (Suc i) cs t of
        Some j \<Rightarrow> Some j
      | None \<Rightarrow> if Type c = t then Some i else None)"

definition copiedCondition :: "CRDCondition \<Rightarrow> condition" where
  "copiedCondition c =
     \<lparr>Type = cc_Type c, Status = cc_Status c,
      Severity = (if cc_Status c = ''True'' then ConditionSeverityNone else ConditionSeverityError),
      LastTransitionTime = cc_LastTransitionTime c, Reason = cc_Reason c, Message = cc_Message c\<rparr>"

text \<open>One turn of the loop: the entry of one type is replaced or added.\<close>

definition copyOne :: "(string \<Rightarrow> nat option) \<Rightarrow> conditions \<Rightarrow> CRDCondition \<Rightarrow> conditions" where
  "copyOne index cs k =
     (case index (cc_Type k) of Some i \<Rightarrow> cs[i := copiedCondition k] | None \<Rightarrow> cs @ [copiedCondition k])"

fun copyConditions ::
  "(string \<Rightarrow> nat option) \<Rightarrow> conditions \<Rightarrow> CRDCondition list \<Rightarrow> conditions" where
  "copyConditions index cs [] = cs"
| "copyConditions index cs (c # rest) =
     (if cc_Type c = ReadyCondition then copyConditions index cs rest
      else copyConditions index (copyOne index cs c) rest)"

definition ensureCRDConditionsCopied ::
  "export_reconciler \<Rightarrow> time \<Rightarrow> APIServiceExport \<Rightarrow> apierr option \<times> APIServiceExport" where
  "ensureCRDConditionsCopied R now export =
     (case er_getCRD R CopyCRDConditions (exportName export) of
        Inl e \<Rightarrow> if \<not> IsNotFound e then (Some e, export) else (None, export)
      | Inr crd \<Rightarrow>
          (let e1 = export\<lparr>ex_Conditions :=
                 copyConditions (exportIndex 0 (ex_Conditions export)) (ex_Conditions export) (crd_Conditions crd)\<rparr>;
               e2 = SetSummary serviceExportSetter now e1 []
           in (None, e2\<lparr>ex_AcceptedNames := crd_AcceptedNames crd, ex_StoredVersions := crd_StoredVersions crd\<rparr>)))"

definition export_reconcile ::
  "export_reconciler \<Rightarrow> time \<Rightarrow> string \<Rightarrow> APIServiceExport option \<Rightarrow> sync_state \<Rightarrow>
     apierr list \<times> APIServiceExport option \<times> sync_state" where
  "export_reconcile R now name exportOpt s =
     (let (err1, s1) = ensureControllers R name exportOpt s;
          errs1 = (case err1 of None \<Rightarrow> [] | Some e \<Rightarrow> [e])
      in case exportOpt of
           None \<Rightarrow> (errs1, None, s1)
         | Some export \<Rightarrow>
             (let (err2, e2) = ensureServiceBindingConditionCopied R now export;
                  (err3, e3) = ensureCRDConditionsCopied R now e2
              in (errs1 @ (case err2 of None \<Rightarrow> [] | Some e \<Rightarrow> [e]) @ (case err3 of None \<Rightarrow> [] | Some e \<Rightarrow> [e]),
                  Some e3, s1)))"

section \<open>No syncer leaks\<close>

definition contextsOf :: "sync_state \<Rightarrow> nat set" where
  "contextsOf s = {sc_context c | name c. fmlookup (syncContext s) name = Some c}"

definition sync_inv :: "sync_state \<Rightarrow> bool" where
  "sync_inv s \<longleftrightarrow>
     fset (fmdom (running s)) = contextsOf s \<union> pending s \<and> contextsOf s \<inter> pending s = {} \<and>
     (\<forall>n m c d. fmlookup (syncContext s) n = Some c \<longrightarrow> fmlookup (syncContext s) m = Some d \<longrightarrow>
        sc_context c = sc_context d \<longrightarrow> n = m) \<and>
     (\<forall>i \<in> contextsOf s \<union> pending s. i < nextContext s)"

lemma running_iff: "i \<in> fset (fmdom (running s)) \<longleftrightarrow> fmlookup (running s) i \<noteq> None"
  by (simp add: fmdom'_notI fmlookup_dom_iff)

lemma sync_inv_inj:
  "sync_inv s \<Longrightarrow> fmlookup (syncContext s) n = Some c \<Longrightarrow> fmlookup (syncContext s) m = Some d \<Longrightarrow>
   sc_context c = sc_context d \<Longrightarrow> n = m"
  unfolding sync_inv_def by blast

lemma contextsOf_drop:
  assumes "sync_inv s" and "fmlookup (syncContext s) name = Some c"
  shows "{sc_context d | n d. n \<noteq> name \<and> fmlookup (syncContext s) n = Some d} = contextsOf s - {sc_context c}"
    (is "?A = ?B")
proof (intro equalityI subsetI)
  fix i assume "i \<in> ?A"
  then obtain n d where "n \<noteq> name" "fmlookup (syncContext s) n = Some d" "i = sc_context d" by blast
  then show "i \<in> ?B"
    using sync_inv_inj[OF assms(1) _ assms(2), of n d] by (auto simp: contextsOf_def)
next
  fix i assume "i \<in> ?B"
  then obtain n d where "fmlookup (syncContext s) n = Some d" "i = sc_context d" "i \<noteq> sc_context c"
    unfolding contextsOf_def by blast
  moreover from this have "n \<noteq> name" using assms(2) by auto
  ultimately show "i \<in> ?A" by blast
qed

lemma fmupd_fmdrop [simp]: "fmupd k v (fmdrop k m) = fmupd k v m"
  by (rule fmap_ext) simp

lemma sync_inv_init: "sync_inv initSync"
  by (simp add: sync_inv_def initSync_def contextsOf_def)

lemma sync_inv_stop:
  assumes "sync_inv s"
  shows "sync_inv (stopSync name s)"
proof (cases "fmlookup (syncContext s) name")
  case None
  with assms show ?thesis by (simp add: stopSync_def)
next
  case (Some c)
  have "contextsOf (stopSync name s) = contextsOf s - {sc_context c}"
    unfolding contextsOf_drop[OF assms Some, symmetric]
    by (auto simp: contextsOf_def stopSync_def Some split: if_splits)
  moreover have "sc_context c \<notin> pending s"
    using assms Some by (auto simp: sync_inv_def contextsOf_def)
  ultimately show ?thesis
    using assms by (auto simp: sync_inv_def stopSync_def Some split: if_splits)
qed

lemma sync_inv_launch:
  assumes "sync_inv s"
  shows "sync_inv (snd (launchSync y s))"
proof -
  have "contextsOf (snd (launchSync y s)) = contextsOf s"
    by (simp add: contextsOf_def launchSync_def)
  then show ?thesis
    using assms by (auto simp: sync_inv_def launchSync_def less_Suc_eq)
qed

lemma sync_inv_register:
  assumes "sync_inv s" and "ctx \<in> pending s"
  shows "sync_inv (registerSync name gen ctx s)"
proof -
  let ?s = "stopSync name s"
  have inv: "sync_inv ?s" by (rule sync_inv_stop[OF assms(1)])
  have fresh: "fmlookup (syncContext ?s) name = None" and p: "pending ?s = pending s"
    by (simp_all add: stopSync_def split: option.splits)
  have reg: "registerSync name gen ctx s =
      ?s\<lparr>syncContext := fmupd name \<lparr>sc_generation = gen, sc_context = ctx\<rparr> (syncContext ?s),
         pending := pending ?s - {ctx}\<rparr>"
    by (simp add: registerSync_def stopSync_def Let_def split: option.splits)
  have "contextsOf (registerSync name gen ctx s) = insert ctx (contextsOf ?s)"
    unfolding reg using fresh by (auto simp: contextsOf_def split: if_splits) (metis option.distinct(1))
  then have ctxs: "contextsOf (registerSync name gen ctx s) = insert ctx (contextsOf ?s)" .
  have parts: "fset (fmdom (running ?s)) = contextsOf ?s \<union> pending s" "contextsOf ?s \<inter> pending s = {}"
      "\<forall>i \<in> contextsOf ?s \<union> pending s. i < nextContext ?s"
    using inv p by (simp_all add: sync_inv_def)
  have in_ctxs: "fmlookup (syncContext ?s) n = Some c \<Longrightarrow> sc_context c \<in> contextsOf ?s" for n c
    unfolding contextsOf_def by blast
  show ?thesis
    unfolding sync_inv_def ctxs
  proof (intro conjI allI impI)
    show "fset (fmdom (running (registerSync name gen ctx s))) =
        insert ctx (contextsOf ?s) \<union> pending (registerSync name gen ctx s)"
      using parts(1) assms(2) p by (auto simp: reg)
    show "insert ctx (contextsOf ?s) \<inter> pending (registerSync name gen ctx s) = {}"
      using parts(2) p by (auto simp: reg)
    show "\<forall>i \<in> insert ctx (contextsOf ?s) \<union> pending (registerSync name gen ctx s).
        i < nextContext (registerSync name gen ctx s)"
      using parts(3) assms(2) p by (auto simp: reg)
    fix n m c d
    assume "fmlookup (syncContext (registerSync name gen ctx s)) n = Some c"
      "fmlookup (syncContext (registerSync name gen ctx s)) m = Some d" "sc_context c = sc_context d"
    then show "n = m"
      using sync_inv_inj[OF inv, of n c m d] in_ctxs[of n c] in_ctxs[of m d] parts(2) assms(2)
      by (auto simp: reg split: if_splits)
  qed
qed

text \<open>The critical sections of all the workers, in any order.\<close>

inductive sync_step :: "sync_state \<Rightarrow> sync_state \<Rightarrow> bool" where
  stop: "sync_step s (stopSync name s)"
| launch: "sync_step s (snd (launchSync y s))"
| register: "ctx \<in> pending s \<Longrightarrow> sync_step s (registerSync name gen ctx s)"

inductive sync_reachable :: "sync_state \<Rightarrow> bool" where
  init: "sync_reachable initSync"
| step: "sync_reachable s \<Longrightarrow> sync_step s t \<Longrightarrow> sync_reachable t"

lemma sync_step_inv: "sync_step s t \<Longrightarrow> sync_inv s \<Longrightarrow> sync_inv t"
  by (induction rule: sync_step.induct) (simp_all add: sync_inv_stop sync_inv_launch sync_inv_register)

lemma sync_reachable_inv: "sync_reachable s \<Longrightarrow> sync_inv s"
  by (induction rule: sync_reachable.induct) (auto intro: sync_inv_init sync_step_inv)

section \<open>What a run of ensureControllers leaves running\<close>

definition syncerOf :: "sync_state \<Rightarrow> string \<Rightarrow> (int \<times> syncer) option" where
  "syncerOf s name =
     (case fmlookup (syncContext s) name of
        None \<Rightarrow> None
      | Some c \<Rightarrow> map_option (\<lambda>y. (sc_generation c, y)) (fmlookup (running s) (sc_context c)))"

lemma ensureControllers_steps: "sync_step\<^sup>*\<^sup>* s (snd (ensureControllers R name e s))"
proof -
  have stops: "sync_step\<^sup>*\<^sup>* s (stopSync n s)" for n
    by (intro r_into_rtranclp sync_step.stop)
  have starts: "sync_step\<^sup>*\<^sup>* s (registerSync n g (fst (launchSync y (stopSync n s))) (snd (launchSync y (stopSync n s))))"
    for n g y
  proof -
    have "fst (launchSync y (stopSync n s)) \<in> pending (snd (launchSync y (stopSync n s)))"
      by (simp add: launchSync_def)
    then show ?thesis
      using stops[of n] by (meson sync_step.launch sync_step.register rtranclp.rtrancl_into_rtrancl)
  qed
  show ?thesis
    using stops starts
    by (auto simp: ensureControllers_def Let_def split: option.splits sum.splits prod.splits) (metis fst_conv snd_conv)+
qed

lemma sync_steps_inv: "sync_step\<^sup>*\<^sup>* s t \<Longrightarrow> sync_inv s \<Longrightarrow> sync_inv t"
  by (induction rule: rtranclp_induct) (auto intro: sync_step_inv)

lemma syncerOf_stop: "syncerOf (stopSync name s) name = None"
  by (simp add: syncerOf_def stopSync_def split: option.splits)

lemma syncerOf_stop_other:
  assumes "sync_inv s" and "n \<noteq> name"
  shows "syncerOf (stopSync name s) n = syncerOf s n"
proof (cases "fmlookup (syncContext s) name")
  case None
  then show ?thesis by (simp add: stopSync_def)
next
  case (Some c)
  have "sc_context d \<noteq> sc_context c" if "fmlookup (syncContext s) n = Some d" for d
    using sync_inv_inj[OF assms(1) that Some] assms(2) by auto
  with Some assms(2) show ?thesis
    by (simp add: syncerOf_def stopSync_def split: option.splits)
qed

lemma syncerOf_start:
  assumes "sync_inv s" and "fmlookup (syncContext s) name = None"
  shows "syncerOf (registerSync name gen (fst (launchSync y s)) (snd (launchSync y s))) n =
     (if n = name then Some (gen, y) else syncerOf s n)"
proof -
  have "sc_context c \<noteq> nextContext s" if "fmlookup (syncContext s) n = Some c" for c
  proof -
    have "sc_context c \<in> contextsOf s" using that unfolding contextsOf_def by blast
    then have "sc_context c < nextContext s" using assms(1) unfolding sync_inv_def by blast
    then show ?thesis by simp
  qed
  then show ?thesis
    using assms(2)
    by (auto simp: syncerOf_def registerSync_def launchSync_def Let_def split: option.splits)
qed

lemma ensureControllers_present:
  assumes "sync_inv s" and "er_getCRD R EnsureControllers (exportName export) = Inr crd"
    and "er_getServiceBinding R EnsureControllers (exportName export) = Inr binding"
  shows "ensureControllers R name (Some export) s =
    (if (case fmlookup (syncContext s) (exportName export) of
           None \<Rightarrow> False | Some c \<Rightarrow> sc_generation c = om_Generation (ex_Meta export)) then (None, s)
     else case buildSyncer R export crd binding of
       Inl ret \<Rightarrow> (ret, stopSync (exportName export) s)
     | Inr y \<Rightarrow>
         (None, registerSync (exportName export) (om_Generation (ex_Meta export))
            (fst (launchSync y (stopSync (exportName export) s))) (snd (launchSync y (stopSync (exportName export) s)))))"
  using assms(2,3) by (simp add: ensureControllers_def Let_def split: prod.splits sum.splits)

lemma ensureControllers_started:
  assumes "sync_inv s" and "er_getCRD R EnsureControllers (exportName export) = Inr crd"
    and "er_getServiceBinding R EnsureControllers (exportName export) = Inr binding"
    and "buildSyncer R export crd binding = Inr y"
    and "fmlookup (syncContext s) (exportName export) = None \<or>
         (\<exists>c. fmlookup (syncContext s) (exportName export) = Some c \<and>
              sc_generation c \<noteq> om_Generation (ex_Meta export))"
  shows "\<exists>s'. ensureControllers R name (Some export) s = (None, s') \<and>
     syncerOf s' (exportName export) = Some (om_Generation (ex_Meta export), y) \<and>
     (\<forall>n. n \<noteq> exportName export \<longrightarrow> syncerOf s' n = syncerOf s n) \<and>
     ensureControllers R name (Some export) s' = (None, s')"
proof -
  let ?n = "exportName export" and ?g = "om_Generation (ex_Meta export)"
  let ?s0 = "stopSync ?n s"
  let ?s' = "registerSync ?n ?g (fst (launchSync y ?s0)) (snd (launchSync y ?s0))"
  have inv: "sync_inv ?s0" by (rule sync_inv_stop[OF assms(1)])
  have none: "fmlookup (syncContext ?s0) ?n = None"
    by (simp add: stopSync_def split: option.splits)
  have run: "ensureControllers R name (Some export) s = (None, ?s')"
    using assms(4,5) unfolding ensureControllers_present[OF assms(1-3)] by (auto split: option.splits)
  have "sync_inv ?s'"
    using sync_steps_inv[OF ensureControllers_steps[of s R name "Some export"] assms(1)] run by simp
  moreover have "\<exists>c. fmlookup (syncContext ?s') ?n = Some c \<and> sc_generation c = ?g"
    by (simp add: registerSync_def Let_def)
  ultimately have "ensureControllers R name (Some export) ?s' = (None, ?s')"
    unfolding ensureControllers_present[OF \<open>sync_inv ?s'\<close> assms(2,3)] by auto
  with run show ?thesis
    using syncerOf_start[OF inv none] syncerOf_stop_other[OF assms(1)]
    by (intro exI[of _ ?s']) simp
qed

lemma ensureControllers_absent:
  assumes "exportOpt = None \<and> n = name \<or>
    (\<exists>export e. exportOpt = Some export \<and> n = exportName export \<and>
       er_getCRD R EnsureControllers n = Inl e \<and> IsNotFound e) \<or>
    (\<exists>export crd e. exportOpt = Some export \<and> n = exportName export \<and>
       er_getCRD R EnsureControllers n = Inr crd \<and> er_getServiceBinding R EnsureControllers n = Inl e \<and> IsNotFound e)"
  shows "ensureControllers R name exportOpt s = (None, stopSync n s)"
  using assms by (auto simp: ensureControllers_def)

section \<open>The copied conditions\<close>

abbreviation exGet :: "APIServiceExport \<Rightarrow> conditions" where
  "exGet \<equiv> GetConditions serviceExportSetter"

lemma Type_copiedCondition [simp]: "Type (copiedCondition c) = cc_Type c"
  by (simp add: copiedCondition_def)

lemma exportIndex_None: "exportIndex i cs t = None \<longleftrightarrow> t \<notin> Type ` set cs"
proof (induction cs arbitrary: i)
  case (Cons c cs)
  then show ?case using Cons.IH[of "Suc i"] by (cases "exportIndex (Suc i) cs t") auto
qed simp

lemma exportIndex_Some:
  "exportIndex i cs t = Some j \<Longrightarrow> i \<le> j \<and> j < i + length cs \<and> Type (cs ! (j - i)) = t"
proof (induction cs arbitrary: i)
  case (Cons c cs)
  show ?case
  proof (cases "exportIndex (Suc i) cs t")
    case None
    with Cons.prems show ?thesis by (auto split: if_splits)
  next
    case (Some k)
    with Cons.prems have "k = j" by simp
    with Cons.IH[of "Suc i"] Some show ?thesis by (auto simp: nth_Cons' Suc_diff_le)
  qed
qed simp

lemma findCondition_update:
  assumes "distinctTypes cs" and "i < length cs" and "Type (cs ! i) = Type c"
  shows "findCondition (cs[i := c]) t = (if t = Type c then Some c else findCondition cs t)"
    and "map Type (cs[i := c]) = map Type cs"
proof -
  show types: "map Type (cs[i := c]) = map Type cs"
    using assms(2,3) by (metis list_update_id map_update)
  then have d: "distinctTypes (cs[i := c])"
    using assms(1) by (simp add: distinctTypes_def)
  show "findCondition (cs[i := c]) t = (if t = Type c then Some c else findCondition cs t)"
  proof (cases "t = Type c")
    case True
    then show ?thesis
      using d assms(2) by (simp add: findCondition_eq_Some_iff set_update_memI)
  next
    case False
    then show ?thesis
      using assms(2,3) by (induction cs arbitrary: i) (auto split: nat.splits)
  qed
qed

lemma findCondition_snoc:
  assumes "Type c \<notin> Type ` set cs"
  shows "findCondition (cs @ [c]) t = (if t = Type c then Some c else findCondition cs t)"
proof -
  have "findCondition cs (Type c) = None"
    using assms by (simp add: findCondition_None_iff)
  then show ?thesis
    by (cases "t = Type c") (simp_all add: findCondition_append split: option.splits)
qed

lemma copyOne_step:
  assumes d: "distinctTypes cs" and pre: "take (length cs0) (map Type cs) = map Type cs0"
    and old: "cc_Type k \<in> Type ` set cs \<Longrightarrow> cc_Type k \<in> Type ` set cs0"
  defines "ds \<equiv> copyOne (exportIndex 0 cs0) cs k"
  shows "distinctTypes ds" and "take (length cs0) (map Type ds) = map Type cs0"
    and "Type ` set ds = insert (cc_Type k) (Type ` set cs)"
    and "findCondition ds t = (if t = cc_Type k then Some (copiedCondition k) else findCondition cs t)"
proof -
  have len: "length cs0 \<le> length cs"
    using arg_cong[OF pre, of length] by simp
  have "distinctTypes ds \<and> take (length cs0) (map Type ds) = map Type cs0 \<and>
      Type ` set ds = insert (cc_Type k) (Type ` set cs) \<and>
      findCondition ds t = (if t = cc_Type k then Some (copiedCondition k) else findCondition cs t)"
  proof (cases "exportIndex 0 cs0 (cc_Type k)")
    case None
    then have "cc_Type k \<notin> Type ` set cs" using old by (auto simp: exportIndex_None)
    moreover have "ds = cs @ [copiedCondition k]" by (simp add: ds_def copyOne_def None)
    ultimately show ?thesis
      using d pre len findCondition_snoc[of "copiedCondition k" cs t] by (simp add: distinctTypes_def)
  next
    case (Some i)
    have "i < length cs0" "Type (cs0 ! i) = cc_Type k"
      using exportIndex_Some[OF Some] by auto
    then have i: "i < length cs" "Type (cs ! i) = Type (copiedCondition k)"
      using len arg_cong[OF pre, of "\<lambda>xs. xs ! i"] by simp_all
    have ds: "ds = cs[i := copiedCondition k]" by (simp add: ds_def copyOne_def Some)
    note u = findCondition_update[OF d i, folded ds]
    have "Type ` set ds = Type ` set cs" using u(2) by (metis list.set_map)
    moreover have "cc_Type k \<in> Type ` set cs"
      using i by (metis Type_copiedCondition image_eqI nth_mem)
    ultimately show ?thesis
      using u(1)[of t] u(2) d pre by (simp add: distinctTypes_def insert_absorb)
  qed
  then show "distinctTypes ds" "take (length cs0) (map Type ds) = map Type cs0"
    "Type ` set ds = insert (cc_Type k) (Type ` set cs)"
    "findCondition ds t = (if t = cc_Type k then Some (copiedCondition k) else findCondition cs t)"
    by blast+
qed

text \<open>The conditions of the CRD as a map, Ready left out.\<close>

definition crdCondition :: "CRDCondition list \<Rightarrow> string \<Rightarrow> condition option" where
  "crdCondition ks t =
     (if t = ReadyCondition then None else map_option copiedCondition (find (\<lambda>k. cc_Type k = t) ks))"

text \<open>
  While the loop runs, the list is the original one with entries replaced and appended; the index
  of an original type stays valid.
\<close>

lemma copyConditions_map:
  assumes "distinct (map cc_Type ks)" and "distinctTypes cs" and "take (length cs0) (map Type cs) = map Type cs0"
    and "\<And>k. k \<in> set ks \<Longrightarrow> cc_Type k \<in> Type ` set cs \<Longrightarrow> cc_Type k \<in> Type ` set cs0"
  shows "findCondition (copyConditions (exportIndex 0 cs0) cs ks) t =
     (case crdCondition ks t of Some c \<Rightarrow> Some c | None \<Rightarrow> findCondition cs t) \<and>
     distinctTypes (copyConditions (exportIndex 0 cs0) cs ks)"
  using assms
proof (induction ks arbitrary: cs)
  case Nil
  then show ?case by (simp add: crdCondition_def)
next
  case (Cons k ks)
  let ?c = "copiedCondition k"
  have later: "crdCondition ks (cc_Type k) = None"
    using Cons.prems(1) by (auto simp: crdCondition_def find_None_iff image_iff)
  show ?case
  proof (cases "cc_Type k = ReadyCondition")
    case True
    then show ?thesis
      using Cons.IH[of cs] Cons.prems by (simp add: crdCondition_def)
  next
    case ready: False
    let ?ds = "copyOne (exportIndex 0 cs0) cs k"
    note ds = copyOne_step[OF Cons.prems(2,3) Cons.prems(4)[OF list.set_intros(1)]]
    have old: "cc_Type k' \<in> Type ` set cs0" if "k' \<in> set ks" "cc_Type k' \<in> Type ` set ?ds" for k'
    proof -
      have "cc_Type k' \<noteq> cc_Type k" using that(1) Cons.prems(1) by (auto simp: image_iff)
      then show ?thesis using that ds(3) Cons.prems(4)[of k'] by auto
    qed
    have ih: "findCondition (copyConditions (exportIndex 0 cs0) ?ds ks) t =
        (case crdCondition ks t of Some c \<Rightarrow> Some c | None \<Rightarrow> findCondition ?ds t) \<and>
        distinctTypes (copyConditions (exportIndex 0 cs0) ?ds ks)"
      by (rule Cons.IH[OF _ ds(1,2) old]) (use Cons.prems(1) in simp_all)
    have "crdCondition (k # ks) t = (if t = cc_Type k then Some ?c else crdCondition ks t)"
      using ready by (simp add: crdCondition_def)
    with ih ready later ds(4) show ?thesis
      by (cases "t = cc_Type k") (simp_all split: option.splits)
  qed
qed

lemma Get_export: "Get_condition serviceExportSetter x t = findCondition (ex_Conditions x) t"
  by (simp add: Get_condition_def serviceExportSetter_def)

lemma ensureCRDConditionsCopied_map:
  assumes "distinctTypes (ex_Conditions export)" and "distinct (map cc_Type (crd_Conditions crd))"
    and "er_getCRD R CopyCRDConditions (exportName export) = Inr crd"
  shows "\<exists>e'. ensureCRDConditionsCopied R now export = (None, e') \<and>
    (\<forall>t. t \<noteq> ReadyCondition \<longrightarrow> Get_condition serviceExportSetter e' t =
       (case crdCondition (crd_Conditions crd) t of
          Some c \<Rightarrow> Some c
        | None \<Rightarrow> Get_condition serviceExportSetter export t)) \<and>
    ex_AcceptedNames e' = crd_AcceptedNames crd \<and> ex_StoredVersions e' = crd_StoredVersions crd"
proof -
  let ?cs = "ex_Conditions export"
  define e1 where "e1 = export\<lparr>ex_Conditions := copyConditions (exportIndex 0 ?cs) ?cs (crd_Conditions crd)\<rparr>"
  have m: "findCondition (copyConditions (exportIndex 0 ?cs) ?cs (crd_Conditions crd)) t =
      (case crdCondition (crd_Conditions crd) t of Some c \<Rightarrow> Some c | None \<Rightarrow> findCondition ?cs t) \<and>
      distinctTypes (copyConditions (exportIndex 0 ?cs) ?cs (crd_Conditions crd))" for t
    by (rule copyConditions_map[OF assms(2,1)]) simp_all
  then have d: "distinctTypes (exGet e1)"
    by (simp add: e1_def serviceExportSetter_def)
  define e2 where "e2 = SetSummary serviceExportSetter now e1 []"
  define e' where
    "e' = e2\<lparr>ex_AcceptedNames := crd_AcceptedNames crd, ex_StoredVersions := crd_StoredVersions crd\<rparr>"
  have "ensureCRDConditionsCopied R now export = (None, e')"
    by (simp add: ensureCRDConditionsCopied_def assms(3) e'_def e2_def e1_def Let_def)
  moreover have "Get_condition serviceExportSetter e' t = Get_condition serviceExportSetter e2 t" for t
    by (simp add: e'_def Get_condition_def serviceExportSetter_def)
  moreover have "Get_condition serviceExportSetter e2 t = Get_condition serviceExportSetter e1 t"
    if "t \<noteq> ReadyCondition" for t
    unfolding e2_def by (rule ex.get_SetSummary_other[OF d that])
  moreover have "Get_condition serviceExportSetter e1 t =
      (case crdCondition (crd_Conditions crd) t of Some c \<Rightarrow> Some c | None \<Rightarrow> Get_condition serviceExportSetter export t)" for t
    unfolding Get_export using m by (simp add: e1_def)
  ultimately show ?thesis
    by (intro exI[of _ e']) (simp add: e'_def)
qed

end
