(* ===== verification/Konnector.thy ===== *)
theory Konnector
  imports Service_Binding
begin

text \<open>
  The top-level controller of the konnector, \<open>bind/pkg/konnector/konnector_reconcile.go\<close> and
  \<open>process\<close> of \<open>konnector_controller.go\<close>: for every kubeconfig that APIServiceBindings refer to, it runs
  one cluster controller.

  The map \<open>controllers\<close> of the Go struct holds pointers, and bindings with the same kubeconfig
  share one \<open>controllerContext\<close>: the model has a heap of contexts (\<open>k_heap\<close>) and the map holds
  addresses. \<open>k_started\<close> are the contexts whose controller was started, with the binding that
  started it, which is the one its filter closure looks up later; \<open>k_cancelled\<close> are those whose \<open>cancel\<close>
  was called. A run holds the lock from its first access to the map to its end, so
  runs do not interleave. The order in which \<open>range\<close> visits a map is the parameter \<open>kr_range\<close>.

  The lemmas show, for every sequence of runs: a binding is in at most one live context, live contexts
  have different kubeconfigs, and a context is cancelled when its last binding leaves it. They also show what goes
  wrong: a context whose controller failed to start is never started again, the filter of a
  controller can hit a nil pointer, and a deleted binding keeps its controller.
\<close>

section \<open>State\<close>

record controllerContext =
  ct_kubeconfig :: string
  ct_serviceBindings :: "string set"

record konn_state =
  k_controllers :: "(string, nat) fmap"
  k_heap :: "(nat, controllerContext) fmap"
  k_started :: "(nat, string) fmap"
  k_cancelled :: "nat set"
  k_next :: nat

definition initKonn :: konn_state where
  "initKonn = \<lparr>k_controllers = fmempty, k_heap = fmempty, k_started = fmempty, k_cancelled = {}, k_next = 0\<rparr>"

record konn_reconciler =
  kr_controlPlaneMode :: bool
  bindingRootNamespace :: string
  bindingConfig :: string
  newClusterController :: "string \<Rightarrow> string \<Rightarrow> string \<Rightarrow> string \<Rightarrow> apierr option"
  getSecret :: "string \<Rightarrow> string \<Rightarrow> apierr + Secret"
  kr_clientcmd :: clientcmd
  kr_range :: "(string, nat) fmap \<Rightarrow> string list"

section \<open>reconcile\<close>

text \<open>Leave the context of the old kubeconfig, and cancel it when it was the last binding.\<close>

definition leaveContext :: "string \<Rightarrow> nat \<Rightarrow> konn_state \<Rightarrow> konn_state" where
  "leaveContext name a s =
     (case fmlookup (k_heap s) a of
        None \<Rightarrow> s
      | Some c \<Rightarrow>
          (let c' = c\<lparr>ct_serviceBindings := ct_serviceBindings c - {name}\<rparr>
           in s\<lparr>k_heap := fmupd a c' (k_heap s),
                k_cancelled := (if ct_serviceBindings c' = {} then insert a (k_cancelled s) else k_cancelled s),
                k_controllers := fmdrop name (k_controllers s)\<rparr>))"

definition stopOld :: "string \<Rightarrow> string \<Rightarrow> konn_state \<Rightarrow> konn_state" where
  "stopOld name kubeconfig s =
     (case fmlookup (k_controllers s) name of
        None \<Rightarrow> s
      | Some a \<Rightarrow>
          (case fmlookup (k_heap s) a of
             None \<Rightarrow> s
           | Some c \<Rightarrow> if ct_kubeconfig c \<noteq> kubeconfig then leaveContext name a s else s))"

definition hasKubeconfig :: "konn_state \<Rightarrow> string \<Rightarrow> nat \<Rightarrow> bool" where
  "hasKubeconfig s kubeconfig a =
     (case fmlookup (k_heap s) a of None \<Rightarrow> False | Some c \<Rightarrow> ct_kubeconfig c = kubeconfig)"

definition entryMatches :: "konn_state \<Rightarrow> string \<Rightarrow> string \<Rightarrow> bool" where
  "entryMatches s kubeconfig n =
     (case fmlookup (k_controllers s) n of None \<Rightarrow> False | Some a \<Rightarrow> hasKubeconfig s kubeconfig a)"

definition findExisting :: "konn_reconciler \<Rightarrow> string \<Rightarrow> konn_state \<Rightarrow> nat option" where
  "findExisting R kubeconfig s =
     (case find (entryMatches s kubeconfig) (kr_range R (k_controllers s)) of
        None \<Rightarrow> None
      | Some n \<Rightarrow> fmlookup (k_controllers s) n)"

definition joinContext :: "string \<Rightarrow> nat \<Rightarrow> konn_state \<Rightarrow> konn_state" where
  "joinContext name a s =
     (case fmlookup (k_heap s) a of
        None \<Rightarrow> s
      | Some c \<Rightarrow>
          s\<lparr>k_controllers := fmupd name a (k_controllers s),
            k_heap := fmupd a (c\<lparr>ct_serviceBindings := insert name (ct_serviceBindings c)\<rparr>) (k_heap s)\<rparr>)"

text \<open>
  Where the provider is: its namespace and the configuration to reach it, or nothing when the
  kubeconfig cannot be used (the Go code logs and returns nil).
\<close>

definition providerTarget :: "konn_reconciler \<Rightarrow> string \<Rightarrow> (string \<times> string) option" where
  "providerTarget R kubeconfig =
     (if kr_controlPlaneMode R then Some (bindingRootNamespace R, bindingConfig R)
      else case Load (kr_clientcmd R) kubeconfig of
             Inl _ \<Rightarrow> None
           | Inr cfg \<Rightarrow>
               (case fmlookup (Contexts cfg) (CurrentContext cfg) of
                  None \<Rightarrow> None
                | Some ns \<Rightarrow>
                    if ns = '''' then None
                    else case RESTConfigFromKubeConfig (kr_clientcmd R) kubeconfig of
                           Inl _ \<Rightarrow> None
                         | Inr config \<Rightarrow> Some (ns, config)))"

definition newContext :: "string \<Rightarrow> string \<Rightarrow> konn_state \<Rightarrow> konn_state" where
  "newContext name kubeconfig s =
     s\<lparr>k_controllers := fmupd name (k_next s) (k_controllers s),
       k_heap := fmupd (k_next s) \<lparr>ct_kubeconfig = kubeconfig, ct_serviceBindings = {name}\<rparr> (k_heap s),
       k_next := Suc (k_next s)\<rparr>"

definition kubeconfigOf :: "konn_reconciler \<Rightarrow> APIServiceBinding \<Rightarrow> apierr + string" where
  "kubeconfigOf R binding =
     (let ref = sb_KubeconfigSecretRef binding in
      case getSecret R (ref_Namespace ref) (ref_Name ref) of
        Inl e \<Rightarrow> if \<not> IsNotFound e then Inl e else Inr ''''
      | Inr secret \<Rightarrow> Inr (case fmlookup (sec_Data secret) (ref_Key ref) of None \<Rightarrow> '''' | Some d \<Rightarrow> d))"

definition startNew ::
  "konn_reconciler \<Rightarrow> APIServiceBinding \<Rightarrow> string \<Rightarrow> konn_state \<Rightarrow> apierr option \<times> konn_state" where
  "startNew R binding kubeconfig s =
     (case providerTarget R kubeconfig of
        None \<Rightarrow> (None, s)
      | Some (ns, config) \<Rightarrow>
          (let ref = sb_KubeconfigSecretRef binding;
               s1 = newContext (bindingName binding) kubeconfig s
           in case newClusterController R (ref_Namespace ref @ ''/'' @ ref_Name ref) ns ns config of
                Some e \<Rightarrow> (Some e, s1)
              | None \<Rightarrow> (None, s1\<lparr>k_started := fmupd (k_next s) (bindingName binding) (k_started s1)\<rparr>)))"

definition konn_reconcile ::
  "konn_reconciler \<Rightarrow> APIServiceBinding \<Rightarrow> konn_state \<Rightarrow> apierr option \<times> konn_state" where
  "konn_reconcile R binding s =
     (case kubeconfigOf R binding of
        Inl e \<Rightarrow> (Some e, s)
      | Inr kubeconfig \<Rightarrow>
          (let s1 = stopOld (bindingName binding) kubeconfig s in
           if kubeconfig = '''' then (None, s1)
           else case findExisting R kubeconfig s1 of
                  Some a \<Rightarrow> (None, joinContext (bindingName binding) a s1)
                | None \<Rightarrow> startNew R binding kubeconfig s1))"

text \<open>The filter that a cluster controller gets from the run that started it; \<open>None\<close> is a nil dereference.\<close>

definition reconcileFilter :: "konn_state \<Rightarrow> string \<Rightarrow> string \<Rightarrow> bool option" where
  "reconcileFilter s owner svcName =
     (case fmlookup (k_controllers s) owner of
        None \<Rightarrow> None
      | Some a \<Rightarrow>
          (case fmlookup (k_heap s) a of
             None \<Rightarrow> None
           | Some c \<Rightarrow> Some (svcName \<in> ct_serviceBindings c)))"

text \<open>
  \<open>process\<close>: the binding as the lister has it, then \<open>reconcile\<close>, then the commit of its status,
  which reports an error or none.
\<close>

definition konn_process ::
  "konn_reconciler \<Rightarrow> (APIServiceBinding \<Rightarrow> apierr option) \<Rightarrow> apierr + APIServiceBinding \<Rightarrow> konn_state \<Rightarrow>
     apierr list \<times> konn_state" where
  "konn_process R commit found s =
     (case found of
        Inl e \<Rightarrow> if \<not> IsNotFound e then ([e], s) else ([], s)
      | Inr binding \<Rightarrow>
          (let (err, s1) = konn_reconcile R binding s
           in (errList err @ errList (commit binding), s1)))"

section \<open>The invariant\<close>

definition members_ok :: "konn_state \<Rightarrow> bool" where
  "members_ok s \<longleftrightarrow>
     (\<forall>n a. fmlookup (k_controllers s) n = Some a \<longleftrightarrow>
        (\<exists>c. fmlookup (k_heap s) a = Some c \<and> n \<in> ct_serviceBindings c)) \<and>
     (\<forall>a c. fmlookup (k_heap s) a = Some c \<longrightarrow> ct_kubeconfig c \<noteq> '''')"

definition one_per_kubeconfig :: "konn_state \<Rightarrow> bool" where
  "one_per_kubeconfig s \<longleftrightarrow>
     (\<forall>a b c d. fmlookup (k_heap s) a = Some c \<longrightarrow> fmlookup (k_heap s) b = Some d \<longrightarrow>
        ct_serviceBindings c \<noteq> {} \<longrightarrow> ct_serviceBindings d \<noteq> {} \<longrightarrow>
        ct_kubeconfig c = ct_kubeconfig d \<longrightarrow> a = b)"

definition cancelled_iff_empty :: "konn_state \<Rightarrow> bool" where
  "cancelled_iff_empty s \<longleftrightarrow>
     (\<forall>a c. fmlookup (k_heap s) a = Some c \<longrightarrow> (a \<in> k_cancelled s \<longleftrightarrow> ct_serviceBindings c = {})) \<and>
     (\<forall>a. fmlookup (k_heap s) a = None \<longrightarrow> a \<notin> k_cancelled s \<and> fmlookup (k_started s) a = None) \<and>
     (\<forall>a. k_next s \<le> a \<longrightarrow> fmlookup (k_heap s) a = None)"

definition konn_inv :: "konn_state \<Rightarrow> bool" where
  "konn_inv s \<longleftrightarrow> members_ok s \<and> one_per_kubeconfig s \<and> cancelled_iff_empty s"

lemma konn_inv_init: "konn_inv initKonn"
  by (simp add: konn_inv_def members_ok_def one_per_kubeconfig_def cancelled_iff_empty_def initKonn_def)

lemma members_okD:
  assumes "members_ok s"
  shows "fmlookup (k_controllers s) n = Some a \<Longrightarrow> \<exists>c. fmlookup (k_heap s) a = Some c \<and> n \<in> ct_serviceBindings c"
    and "fmlookup (k_heap s) a = Some c \<Longrightarrow> n \<in> ct_serviceBindings c \<Longrightarrow> fmlookup (k_controllers s) n = Some a"
    and "fmlookup (k_heap s) a = Some c \<Longrightarrow> ct_kubeconfig c \<noteq> ''''"
  using assms unfolding members_ok_def by blast+

text \<open>Leaving, joining and opening a context, each under the condition in which the run does it.\<close>

lemma leaveContext_inv:
  assumes inv: "konn_inv s" and c: "fmlookup (k_heap s) a = Some c" and n: "n \<in> ct_serviceBindings c"
  shows "konn_inv (leaveContext n a s)" and "fmlookup (k_controllers (leaveContext n a s)) n = None"
proof -
  let ?c = "c\<lparr>ct_serviceBindings := ct_serviceBindings c - {n}\<rparr>"
  let ?t = "leaveContext n a s"
  have heap: "fmlookup (k_heap ?t) b = (if b = a then Some ?c else fmlookup (k_heap s) b)" for b
    by (simp add: leaveContext_def c Let_def)
  have ctrl: "fmlookup (k_controllers ?t) m = (if m = n then None else fmlookup (k_controllers s) m)" for m
    by (simp add: leaveContext_def c Let_def)
  have cancelled: "k_cancelled ?t = (if ct_serviceBindings ?c = {} then insert a (k_cancelled s) else k_cancelled s)"
    and rest: "k_started ?t = k_started s" "k_next ?t = k_next s"
    by (simp_all add: leaveContext_def c Let_def)
  have m: "members_ok s" and o: "one_per_kubeconfig s" and e: "cancelled_iff_empty s"
    using inv by (simp_all add: konn_inv_def)
  have an: "fmlookup (k_controllers s) n = Some a" by (rule members_okD(2)[OF m c n])
  have live: "a \<notin> k_cancelled s" using e c n unfolding cancelled_iff_empty_def by blast
  have "members_ok ?t"
    unfolding members_ok_def heap ctrl
  proof (intro conjI allI impI)
    fix k b
    show "((if k = n then None else fmlookup (k_controllers s) k) = Some b) =
        (\<exists>d. (if b = a then Some ?c else fmlookup (k_heap s) b) = Some d \<and> k \<in> ct_serviceBindings d)"
    proof (cases "b = a")
      case True
      with members_okD(1)[OF m, of k a] members_okD(2)[OF m c, of k] c show ?thesis by auto
    next
      case False
      have "fmlookup (k_controllers s) k = Some b \<longleftrightarrow>
          (\<exists>d. fmlookup (k_heap s) b = Some d \<and> k \<in> ct_serviceBindings d)"
        using m unfolding members_ok_def by blast
      with False an show ?thesis by auto
    qed
  next
    fix b d assume "(if b = a then Some ?c else fmlookup (k_heap s) b) = Some d"
    then show "ct_kubeconfig d \<noteq> ''''"
      using members_okD(3)[OF m] c by (auto split: if_splits)
  qed
  moreover have "one_per_kubeconfig ?t"
    unfolding one_per_kubeconfig_def heap
  proof (intro allI impI)
    fix b1 b2 d1 d2
    assume 1: "(if b1 = a then Some ?c else fmlookup (k_heap s) b1) = Some d1"
        "(if b2 = a then Some ?c else fmlookup (k_heap s) b2) = Some d2"
        "ct_serviceBindings d1 \<noteq> {}" "ct_serviceBindings d2 \<noteq> {}" "ct_kubeconfig d1 = ct_kubeconfig d2"
    have "\<exists>e1. fmlookup (k_heap s) b1 = Some e1 \<and> ct_serviceBindings e1 \<noteq> {} \<and> ct_kubeconfig e1 = ct_kubeconfig d1"
      using 1 c n by (auto split: if_splits)
    moreover have "\<exists>e2. fmlookup (k_heap s) b2 = Some e2 \<and> ct_serviceBindings e2 \<noteq> {} \<and> ct_kubeconfig e2 = ct_kubeconfig d2"
      using 1 c n by (auto split: if_splits)
    ultimately show "b1 = b2"
      using o 1(5) unfolding one_per_kubeconfig_def by metis
  qed
  moreover have "cancelled_iff_empty ?t"
    using e live c unfolding cancelled_iff_empty_def heap cancelled rest by auto
  ultimately show "konn_inv ?t" by (simp add: konn_inv_def)
  show "fmlookup (k_controllers ?t) n = None" by (simp add: ctrl)
qed

lemma stopOld_inv:
  assumes "konn_inv s"
  shows "konn_inv (stopOld n k s)"
    and "fmlookup (k_controllers (stopOld n k s)) n = Some a \<Longrightarrow> hasKubeconfig (stopOld n k s) k a"
proof -
  have m: "members_ok s" using assms by (simp add: konn_inv_def)
  have "konn_inv (stopOld n k s) \<and>
    (fmlookup (k_controllers (stopOld n k s)) n = Some a \<longrightarrow> hasKubeconfig (stopOld n k s) k a)"
  proof (cases "fmlookup (k_controllers s) n")
    case None
    with assms show ?thesis by (simp add: stopOld_def)
  next
    case (Some b)
    from members_okD(1)[OF m Some] obtain c where c: "fmlookup (k_heap s) b = Some c" "n \<in> ct_serviceBindings c"
      by blast
    with Some leaveContext_inv[OF assms c] assms show ?thesis
      by (auto simp: stopOld_def hasKubeconfig_def)
  qed
  then show "konn_inv (stopOld n k s)"
    and "fmlookup (k_controllers (stopOld n k s)) n = Some a \<Longrightarrow> hasKubeconfig (stopOld n k s) k a"
    by blast+
qed

lemma hasKubeconfig_iff:
  "hasKubeconfig s k a \<longleftrightarrow> (\<exists>c. fmlookup (k_heap s) a = Some c \<and> ct_kubeconfig c = k)"
  by (simp add: hasKubeconfig_def split: option.splits)

text \<open>A binding that is in a context of the kubeconfig is in the context that is joined.\<close>

lemma joinContext_inv:
  assumes inv: "konn_inv s" and c: "fmlookup (k_heap s) a = Some c" and ne: "ct_serviceBindings c \<noteq> {}"
    and old: "\<And>b. fmlookup (k_controllers s) n = Some b \<Longrightarrow> hasKubeconfig s (ct_kubeconfig c) b"
  shows "konn_inv (joinContext n a s)"
proof -
  let ?c = "c\<lparr>ct_serviceBindings := insert n (ct_serviceBindings c)\<rparr>"
  let ?t = "joinContext n a s"
  have heap: "fmlookup (k_heap ?t) b = (if b = a then Some ?c else fmlookup (k_heap s) b)" for b
    by (simp add: joinContext_def c)
  have ctrl: "fmlookup (k_controllers ?t) m = (if m = n then Some a else fmlookup (k_controllers s) m)" for m
    by (simp add: joinContext_def c)
  have rest: "k_cancelled ?t = k_cancelled s" "k_started ?t = k_started s" "k_next ?t = k_next s"
    by (simp_all add: joinContext_def c)
  have m: "members_ok s" and o: "one_per_kubeconfig s" and e: "cancelled_iff_empty s"
    using inv by (simp_all add: konn_inv_def)
  have same: "b = a" if nb: "fmlookup (k_controllers s) n = Some b" for b
  proof -
    obtain d where d: "fmlookup (k_heap s) b = Some d" "n \<in> ct_serviceBindings d"
      using members_okD(1)[OF m nb] by blast
    moreover have "ct_kubeconfig d = ct_kubeconfig c"
      using old[OF nb] d(1) by (simp add: hasKubeconfig_def)
    ultimately show ?thesis
      using o c ne unfolding one_per_kubeconfig_def by blast
  qed
  have "members_ok ?t"
    unfolding members_ok_def heap ctrl
  proof (intro conjI allI impI)
    fix k b
    have eq: "fmlookup (k_controllers s) k = Some b \<longleftrightarrow>
        (\<exists>d. fmlookup (k_heap s) b = Some d \<and> k \<in> ct_serviceBindings d)"
      using m unfolding members_ok_def by blast
    show "((if k = n then Some a else fmlookup (k_controllers s) k) = Some b) =
        (\<exists>d. (if b = a then Some ?c else fmlookup (k_heap s) b) = Some d \<and> k \<in> ct_serviceBindings d)"
      using eq same c by auto
  next
    fix b d assume "(if b = a then Some ?c else fmlookup (k_heap s) b) = Some d"
    then show "ct_kubeconfig d \<noteq> ''''"
      using members_okD(3)[OF m] c by (auto split: if_splits)
  qed
  moreover have "one_per_kubeconfig ?t"
    unfolding one_per_kubeconfig_def heap
  proof (intro allI impI)
    fix b1 b2 d1 d2
    assume 1: "(if b1 = a then Some ?c else fmlookup (k_heap s) b1) = Some d1"
        "(if b2 = a then Some ?c else fmlookup (k_heap s) b2) = Some d2"
        "ct_serviceBindings d1 \<noteq> {}" "ct_serviceBindings d2 \<noteq> {}" "ct_kubeconfig d1 = ct_kubeconfig d2"
    have "\<exists>e1. fmlookup (k_heap s) b1 = Some e1 \<and> ct_serviceBindings e1 \<noteq> {} \<and> ct_kubeconfig e1 = ct_kubeconfig d1"
      using 1 c ne by (auto split: if_splits)
    moreover have "\<exists>e2. fmlookup (k_heap s) b2 = Some e2 \<and> ct_serviceBindings e2 \<noteq> {} \<and> ct_kubeconfig e2 = ct_kubeconfig d2"
      using 1 c ne by (auto split: if_splits)
    ultimately show "b1 = b2"
      using o 1(5) unfolding one_per_kubeconfig_def by metis
  qed
  moreover have "cancelled_iff_empty ?t"
    using e c ne unfolding cancelled_iff_empty_def heap rest by auto
  ultimately show ?thesis by (simp add: konn_inv_def)
qed

lemma newContext_inv:
  assumes inv: "konn_inv s" and k: "k \<noteq> ''''" and free: "fmlookup (k_controllers s) n = None"
    and fresh: "\<And>m a. fmlookup (k_controllers s) m = Some a \<Longrightarrow> \<not> hasKubeconfig s k a"
  shows "konn_inv (newContext n k s)"
proof -
  let ?c = "\<lparr>ct_kubeconfig = k, ct_serviceBindings = {n}\<rparr>"
  let ?t = "newContext n k s" and ?a = "k_next s"
  have heap: "fmlookup (k_heap ?t) b = (if b = ?a then Some ?c else fmlookup (k_heap s) b)" for b
    by (simp add: newContext_def)
  have ctrl: "fmlookup (k_controllers ?t) m = (if m = n then Some ?a else fmlookup (k_controllers s) m)" for m
    by (simp add: newContext_def)
  have rest: "k_cancelled ?t = k_cancelled s" "k_started ?t = k_started s" "k_next ?t = Suc ?a"
    by (simp_all add: newContext_def)
  have m: "members_ok s" and o: "one_per_kubeconfig s" and e: "cancelled_iff_empty s"
    using inv by (simp_all add: konn_inv_def)
  have new: "fmlookup (k_heap s) ?a = None" using e unfolding cancelled_iff_empty_def by blast
  have other: "ct_kubeconfig d \<noteq> k" if d: "fmlookup (k_heap s) b = Some d" "ct_serviceBindings d \<noteq> {}" for b d
  proof -
    obtain i where "i \<in> ct_serviceBindings d" using d(2) by blast
    from members_okD(2)[OF m d(1) this] fresh[of i b] d(1) show ?thesis
      by (simp add: hasKubeconfig_def)
  qed
  have "members_ok ?t"
    unfolding members_ok_def heap ctrl
  proof (intro conjI allI impI)
    fix j b
    have eq: "fmlookup (k_controllers s) j = Some b \<longleftrightarrow>
        (\<exists>d. fmlookup (k_heap s) b = Some d \<and> j \<in> ct_serviceBindings d)"
      using m unfolding members_ok_def by blast
    show "((if j = n then Some ?a else fmlookup (k_controllers s) j) = Some b) =
        (\<exists>d. (if b = ?a then Some ?c else fmlookup (k_heap s) b) = Some d \<and> j \<in> ct_serviceBindings d)"
      using eq new free by auto
  next
    fix b d assume "(if b = ?a then Some ?c else fmlookup (k_heap s) b) = Some d"
    then show "ct_kubeconfig d \<noteq> ''''"
      using members_okD(3)[OF m] k by (auto split: if_splits)
  qed
  moreover have "one_per_kubeconfig ?t"
    unfolding one_per_kubeconfig_def heap
  proof (intro allI impI)
    fix b1 b2 d1 d2
    assume "(if b1 = ?a then Some ?c else fmlookup (k_heap s) b1) = Some d1"
        "(if b2 = ?a then Some ?c else fmlookup (k_heap s) b2) = Some d2"
        "ct_serviceBindings d1 \<noteq> {}" "ct_serviceBindings d2 \<noteq> {}" "ct_kubeconfig d1 = ct_kubeconfig d2"
    then show "b1 = b2"
      using o other[of b1 d1] other[of b2 d2] unfolding one_per_kubeconfig_def by (auto split: if_splits)
  qed
  moreover have "cancelled_iff_empty ?t"
    using e new unfolding cancelled_iff_empty_def heap rest by auto
  ultimately show ?thesis by (simp add: konn_inv_def)
qed

section \<open>Runs keep the invariant\<close>

text \<open>\<open>range\<close> visits every key of the map.\<close>

definition rangesOver :: "konn_reconciler \<Rightarrow> bool" where
  "rangesOver R \<longleftrightarrow> (\<forall>m. set (kr_range R m) = fset (fmdom m))"

lemma findExisting_Some:
  assumes "findExisting R k s = Some a"
  shows "hasKubeconfig s k a \<and> (\<exists>n. fmlookup (k_controllers s) n = Some a)"
proof -
  obtain n where n: "find (entryMatches s k) (kr_range R (k_controllers s)) = Some n"
      "fmlookup (k_controllers s) n = Some a"
    using assms by (auto simp: findExisting_def split: option.splits)
  then have "entryMatches s k n" by (auto simp: find_Some_iff)
  with n(2) show ?thesis by (auto simp: entryMatches_def)
qed

lemma findExisting_None:
  assumes "rangesOver R" and "findExisting R k s = None" and "fmlookup (k_controllers s) n = Some a"
  shows "\<not> hasKubeconfig s k a"
proof
  assume "hasKubeconfig s k a"
  with assms(3) have "entryMatches s k n" by (simp add: entryMatches_def)
  moreover have "n \<in> set (kr_range R (k_controllers s))"
    using assms(1,3) by (simp add: rangesOver_def fmdomI)
  ultimately obtain i where i: "find (entryMatches s k) (kr_range R (k_controllers s)) = Some i"
    by (cases "find (entryMatches s k) (kr_range R (k_controllers s))") (auto simp: find_None_iff)
  then have "entryMatches s k i" by (auto simp: find_Some_iff)
  with assms(2) i show False
    by (auto simp: findExisting_def entryMatches_def split: option.splits)
qed

lemma started_inv:
  "konn_inv s \<Longrightarrow> fmlookup (k_heap s) a \<noteq> None \<Longrightarrow> konn_inv (s\<lparr>k_started := fmupd a n (k_started s)\<rparr>)"
  by (auto simp: konn_inv_def members_ok_def one_per_kubeconfig_def cancelled_iff_empty_def)

lemma startNew_inv:
  assumes "konn_inv s" and "k \<noteq> ''''" and "fmlookup (k_controllers s) (bindingName b) = None"
    and "\<And>m a. fmlookup (k_controllers s) m = Some a \<Longrightarrow> \<not> hasKubeconfig s k a"
  shows "konn_inv (snd (startNew R b k s))"
proof -
  have "konn_inv (newContext (bindingName b) k s)"
    by (rule newContext_inv[OF assms])
  moreover have "fmlookup (k_heap (newContext (bindingName b) k s)) (k_next s) \<noteq> None"
    by (simp add: newContext_def)
  ultimately show ?thesis
    using assms(1) started_inv by (auto simp: startNew_def Let_def split: option.splits)
qed

lemma konn_reconcile_inv:
  assumes inv: "konn_inv s" and range: "rangesOver R"
  shows "konn_inv (snd (konn_reconcile R b s))"
proof (cases "kubeconfigOf R b")
  case (Inl e)
  with inv show ?thesis by (simp add: konn_reconcile_def)
next
  case (Inr k)
  let ?n = "bindingName b"
  let ?s = "stopOld ?n k s"
  note s = stopOld_inv[OF inv, of ?n k]
  have m: "members_ok ?s" using s(1) by (simp add: konn_inv_def)
  show ?thesis
  proof (cases "k = ''''")
    case True
    with Inr s(1) show ?thesis by (simp add: konn_reconcile_def)
  next
    case k: False
    show ?thesis
    proof (cases "findExisting R k ?s")
      case (Some a)
      then obtain c j where c: "fmlookup (k_heap ?s) a = Some c" "ct_kubeconfig c = k"
          and j: "fmlookup (k_controllers ?s) j = Some a"
        using findExisting_Some[OF Some] by (auto simp: hasKubeconfig_iff)
      then have "ct_serviceBindings c \<noteq> {}"
        using members_okD(1)[OF m j] by auto
      from joinContext_inv[OF s(1) c(1) this] s(2) c(2) Inr k Some show ?thesis
        by (simp add: konn_reconcile_def Let_def)
    next
      case None
      note fresh = findExisting_None[OF range None]
      have "fmlookup (k_controllers ?s) ?n = None"
        using fresh s(2) by (cases "fmlookup (k_controllers ?s) ?n") auto
      from startNew_inv[OF s(1) k this fresh] Inr k None show ?thesis
        by (simp add: konn_reconcile_def Let_def)
    qed
  qed
qed

text \<open>The states that sequences of runs reach, whatever the secrets and the other cluster do.\<close>

inductive konn_reachable :: "konn_state \<Rightarrow> bool" where
  init: "konn_reachable initKonn"
| run: "konn_reachable s \<Longrightarrow> rangesOver R \<Longrightarrow> konn_reachable (snd (konn_process R commit found s))"

lemma konn_process_inv: "konn_inv s \<Longrightarrow> rangesOver R \<Longrightarrow> konn_inv (snd (konn_process R commit found s))"
  using konn_reconcile_inv[of s R]
  by (auto simp: konn_process_def Let_def split: sum.splits prod.splits) (metis snd_conv)

lemma konn_reachable_inv: "konn_reachable s \<Longrightarrow> konn_inv s"
  by (induction rule: konn_reachable.induct) (auto intro: konn_inv_init konn_process_inv)

section \<open>What a run leaves behind\<close>

lemma stopOld_same: "hasKubeconfig s k a \<Longrightarrow> fmlookup (k_controllers s) n = Some a \<Longrightarrow> stopOld n k s = s"
  by (auto simp: stopOld_def hasKubeconfig_def split: option.splits)

text \<open>With a kubeconfig, the binding ends up in a context of it, unless the kubeconfig cannot be used.\<close>

lemma konn_registered:
  assumes inv: "konn_inv s" and range: "rangesOver R" and k: "kubeconfigOf R b = Inr k" "k \<noteq> ''''"
    and usable: "providerTarget R k \<noteq> None"
  shows "\<exists>a. fmlookup (k_controllers (snd (konn_reconcile R b s))) (bindingName b) = Some a \<and>
     hasKubeconfig (snd (konn_reconcile R b s)) k a"
proof -
  let ?s = "stopOld (bindingName b) k s"
  show ?thesis
  proof (cases "findExisting R k ?s")
    case (Some a)
    with findExisting_Some[OF Some] k show ?thesis
      by (auto simp: konn_reconcile_def Let_def joinContext_def hasKubeconfig_iff)
  next
    case None
    obtain ns config where "providerTarget R k = Some (ns, config)" using usable by auto
    with None k show ?thesis
      by (intro exI[of _ "k_next ?s"])
        (auto simp: konn_reconcile_def Let_def startNew_def newContext_def hasKubeconfig_def split: option.splits)
  qed
qed

lemma providerTarget_None_iff:
  "\<not> kr_controlPlaneMode R \<Longrightarrow> providerTarget R k = None \<longleftrightarrow> \<not> kubeconfigUsable (kr_clientcmd R) False k"
  by (auto simp: providerTarget_def kubeconfigUsable_def split: sum.splits option.splits)

text \<open>
  A controller that failed to start leaves its context in the map. The next run finds it there, so it
  neither fails nor starts a controller.
\<close>

lemma failed_start_sticks:
  assumes inv: "konn_inv s" and range: "rangesOver R" "rangesOver R'"
    and k: "kubeconfigOf R b = Inr k" "kubeconfigOf R' b = Inr k"
    and failed: "konn_reconcile R b s = (Some e, s1)"
  shows "\<exists>s2 a. konn_reconcile R' b s1 = (None, s2) \<and>
     fmlookup (k_controllers s2) (bindingName b) = Some a \<and> fmlookup (k_started s2) a = None"
proof -
  let ?n = "bindingName b" and ?s = "stopOld (bindingName b) k s"
  have ne: "k \<noteq> ''''" and none: "findExisting R k ?s = None" and s1: "s1 = newContext ?n k ?s"
    using failed k(1)
    by (auto simp: konn_reconcile_def startNew_def Let_def split: if_splits option.splits)
  have inv0: "konn_inv ?s" and inv1: "konn_inv s1"
    using stopOld_inv(1)[OF inv] konn_reconcile_inv[OF inv range(1), of b] failed by simp_all
  let ?a = "k_next ?s"
  have at: "fmlookup (k_controllers s1) ?n = Some ?a" "hasKubeconfig s1 k ?a"
      "fmlookup (k_started s1) ?a = None"
    using inv0 by (simp_all add: s1 newContext_def hasKubeconfig_def konn_inv_def cancelled_iff_empty_def)
  obtain a where a: "findExisting R' k s1 = Some a"
    using findExisting_None[OF range(2) _ at(1)] at(2) by (cases "findExisting R' k s1") auto
  obtain m where m: "hasKubeconfig s1 k a" "fmlookup (k_controllers s1) m = Some a"
    using findExisting_Some[OF a] by blast
  have mem: "members_ok s1" and one: "one_per_kubeconfig s1"
    using inv1 by (simp_all add: konn_inv_def)
  obtain c d where "fmlookup (k_heap s1) a = Some c" "m \<in> ct_serviceBindings c"
      "fmlookup (k_heap s1) ?a = Some d" "?n \<in> ct_serviceBindings d"
    using members_okD(1)[OF mem m(2)] members_okD(1)[OF mem at(1)] by blast
  moreover from this have "ct_kubeconfig c = ct_kubeconfig d"
    using m(1) at(2) by (simp add: hasKubeconfig_def)
  ultimately have "a = ?a"
    using one unfolding one_per_kubeconfig_def by blast
  with a at k(2) ne show ?thesis
    by (auto simp: konn_reconcile_def Let_def stopOld_same joinContext_def hasKubeconfig_iff)
qed

text \<open>
  The binding that started a controller leaves it while another one stays: the controller runs on, and
  its filter looks up a key that is no longer in the map.
\<close>

lemma filter_after_owner_left:
  assumes inv: "konn_inv s" and owner: "fmlookup (k_started s) a = Some (bindingName b)"
    and a: "fmlookup (k_controllers s) (bindingName b) = Some a" "fmlookup (k_controllers s) n = Some a"
      "n \<noteq> bindingName b"
    and gone: "kubeconfigOf R b = Inr ''''"
  shows "\<exists>s'. konn_reconcile R b s = (None, s') \<and> a \<notin> k_cancelled s' \<and>
     fmlookup (k_controllers s') n = Some a \<and> fmlookup (k_started s') a = Some (bindingName b) \<and>
     reconcileFilter s' (bindingName b) n = None"
proof -
  have m: "members_ok s" and e: "cancelled_iff_empty s"
    using inv by (simp_all add: konn_inv_def)
  obtain c where c: "fmlookup (k_heap s) a = Some c" "bindingName b \<in> ct_serviceBindings c"
    using members_okD(1)[OF m a(1)] by blast
  have n: "n \<in> ct_serviceBindings c" and k: "ct_kubeconfig c \<noteq> ''''"
    using members_okD(1)[OF m a(2)] members_okD(3)[OF m c(1)] c(1) by auto
  have live: "a \<notin> k_cancelled s" using e c unfolding cancelled_iff_empty_def by blast
  have stay: "ct_serviceBindings c - {bindingName b} \<noteq> {}" using n a(3) by blast
  let ?s = "leaveContext (bindingName b) a s"
  have "konn_reconcile R b s = (None, ?s)"
    using gone a(1) c(1) k by (simp add: konn_reconcile_def stopOld_def)
  moreover have "a \<notin> k_cancelled ?s" "fmlookup (k_controllers ?s) n = Some a"
      "fmlookup (k_started ?s) a = Some (bindingName b)" "reconcileFilter ?s (bindingName b) n = None"
    using live stay a(2,3) owner by (simp_all add: leaveContext_def c(1) Let_def reconcileFilter_def)
  ultimately show ?thesis by blast
qed

end
