(* ===== verification/Konnector_Process.thy ===== *)
theory Konnector_Process
  imports Committer Cluster_Binding Service_Binding Service_Export Konnector
begin

text \<open>
  The controllers around the reconcilers of the konnector: the functions \<open>process\<close> and
  \<open>enqueue...\<close> of \<open>clusterbinding_controller.go\<close>, both \<open>servicebinding_controller.go\<close>,
  \<open>serviceexport_controller.go\<close> and \<open>konnector_controller.go\<close> under \<open>bind/pkg/konnector\<close>, with the index functions of
  \<open>bind/pkg/indexers\<close> they look objects up with.

  \<open>process\<close> gets the key of an object from the work queue, reads the object from its lister (a field of
  \<open>lister\<close>), reconciles a copy and commits it; the ClusterBinding controller then reports to
  the APIServiceBindings of its secret whether the heartbeat went through. An \<open>enqueue\<close>
  function gets the key of a changed object and returns the keys that it adds to the queue. The functions on keys and
  the index lookups are client-go: fields of \<open>keyfuncs\<close> and of \<open>indexer\<close>, with what
  client-go documents of them as \<open>keysSplit\<close> and \<open>indexes\<close>. The work queue itself and its rate limits are client-go as well; the
  workers are in \<open>Work_Queue\<close>.

  The lemmas show that no controller of the konnector can panic in its commit, what the heartbeat
  condition says, and that a change of a secret or an export queues every object whose
  reconcile reads it.
\<close>

section \<open>Keys, listers and indexers\<close>

record keyfuncs =
  metaKey :: "string \<Rightarrow> string \<Rightarrow> string"
  splitMetaNamespaceKey :: "string \<Rightarrow> apierr + string \<times> string"

text \<open>\<open>SplitMetaNamespaceKey\<close> inverts \<open>MetaNamespaceKeyFunc\<close> on names, which have no slash.\<close>

definition plainName :: "string \<Rightarrow> bool" where
  "plainName s \<longleftrightarrow> s \<noteq> '''' \<and> CHR ''/'' \<notin> set s"

definition keysSplit :: "keyfuncs \<Rightarrow> bool" where
  "keysSplit K \<longleftrightarrow>
     (\<forall>ns name. plainName ns \<longrightarrow> plainName name \<longrightarrow>
        metaKey K ns name = ns @ ''/'' @ name \<and>
        splitMetaNamespaceKey K (metaKey K ns name) = Inr (ns, name))"

type_synonym 'o lister = "string \<Rightarrow> string \<Rightarrow> apierr + 'o"
type_synonym 'o indexer = "('o \<Rightarrow> string list) \<Rightarrow> string \<Rightarrow> 'o list"

text \<open>\<open>ByIndex\<close> on a cache returns the objects whose index values contain the key.\<close>

definition indexes :: "'o set \<Rightarrow> 'o indexer \<Rightarrow> bool" where
  "indexes cached ix \<longleftrightarrow> (\<forall>f key. set (ix f key) = {obj \<in> cached. key \<in> set (f obj)})"

text \<open>Reading the object of a key: nothing to do, an error to report, or the object.\<close>

datatype 'o found = NothingToDo | ReadFailed apierr | Found 'o

definition readObject :: "keyfuncs \<Rightarrow> 'o lister \<Rightarrow> string \<Rightarrow> 'o found" where
  "readObject K L key =
     (case splitMetaNamespaceKey K key of
        Inl _ \<Rightarrow> NothingToDo
      | Inr (ns, name) \<Rightarrow>
          (case L ns name of
             Inl e \<Rightarrow> if \<not> IsNotFound e then ReadFailed e else NothingToDo
           | Inr obj \<Rightarrow> Found obj))"

section \<open>Index functions\<close>

definition ByServiceBindingKubeconfigSecretKey :: "APIServiceBinding \<Rightarrow> string" where
  "ByServiceBindingKubeconfigSecretKey binding =
     ref_Namespace (sb_KubeconfigSecretRef binding) @ ''/'' @ ref_Name (sb_KubeconfigSecretRef binding)"

definition IndexServiceBindingByKubeconfigSecret :: "APIServiceBinding \<Rightarrow> string list" where
  "IndexServiceBindingByKubeconfigSecret binding = [ByServiceBindingKubeconfigSecretKey binding]"

definition IndexServiceExportByCustomResourceDefinition :: "APIServiceExport \<Rightarrow> string list" where
  "IndexServiceExportByCustomResourceDefinition export = [om_Name (ex_Meta export)]"

definition IndexServiceNamespaceByNamespace :: "APIServiceNamespace \<Rightarrow> string list" where
  "IndexServiceNamespaceByNamespace sn =
     (if sn_Status_Namespace sn = '''' then [] else [sn_Status_Namespace sn])"

definition IndexCRDByServiceBinding :: "CRD \<Rightarrow> string list" where
  "IndexCRDByServiceBinding crd =
     map or_Name (filter (\<lambda>r. splitFirst (CHR ''/'') (or_APIVersion r) = ''klutch.anynines.com'' \<and>
                              or_Kind r = ''APIServiceBinding'')
                    (om_OwnerReferences (crd_Meta crd)))"

section \<open>The two sides of an object\<close>

type_synonym cb_sides = "(LocalSecretKeyRef \<times> string, time \<times> int \<times> string \<times> conditions) Resource"
type_synonym sb_sides =
  "(ClusterSecretKeyRef \<times> AcceptablePermissionClaim list, string \<times> conditions) Resource"
type_synonym ex_sides =
  "(APIServiceExportCRDSpec \<times> PermissionClaim list \<times> string \<times> string,
    CRDNames \<times> string list \<times> conditions) Resource"

definition clusterBindingResource :: "ClusterBinding \<Rightarrow> cb_sides" where
  "clusterBindingResource b =
     \<lparr>r_Meta = cb_Meta b, r_Spec = Some (cb_KubeconfigSecretRef b, cb_ProviderPrettyName b),
      r_Status = Some (cb_LastHeartbeatTime b, cb_HeartbeatInterval b, cb_KonnectorVersion b, cb_Conditions b)\<rparr>"

definition serviceBindingResource :: "APIServiceBinding \<Rightarrow> sb_sides" where
  "serviceBindingResource b =
     \<lparr>r_Meta = sb_Meta b, r_Spec = Some (sb_KubeconfigSecretRef b, sb_PermissionClaims b),
      r_Status = Some (sb_ProviderPrettyName b, sb_Conditions b)\<rparr>"

definition serviceExportResource :: "APIServiceExport \<Rightarrow> ex_sides" where
  "serviceExportResource e =
     \<lparr>r_Meta = ex_Meta e,
      r_Spec = Some (ex_Spec e, ex_PermissionClaims e, ex_InformerScope e, ex_ClusterScopedIsolation e),
      r_Status = Some (ex_AcceptedNames e, ex_StoredVersions e, ex_Conditions e)\<rparr>"

text \<open>A condition is on the status side of each of them.\<close>

lemma sides_Set [simp]:
  "r_Meta (clusterBindingResource (Set_condition clusterBindingSetter now b c)) = r_Meta (clusterBindingResource b)"
  "r_Spec (clusterBindingResource (Set_condition clusterBindingSetter now b c)) = r_Spec (clusterBindingResource b)"
  "r_Meta (serviceBindingResource (Set_condition serviceBindingSetter now s c)) = r_Meta (serviceBindingResource s)"
  "r_Spec (serviceBindingResource (Set_condition serviceBindingSetter now s c)) = r_Spec (serviceBindingResource s)"
  "r_Meta (serviceExportResource (Set_condition serviceExportSetter now e c)) = r_Meta (serviceExportResource e)"
  "r_Spec (serviceExportResource (Set_condition serviceExportSetter now e c)) = r_Spec (serviceExportResource e)"
  by (simp_all add: Set_condition_def clusterBindingSetter_def serviceBindingSetter_def serviceExportSetter_def
      clusterBindingResource_def serviceBindingResource_def serviceExportResource_def split: option.splits)

lemma sides_update [simp]:
  "r_Meta (clusterBindingResource (b\<lparr>cb_HeartbeatInterval := i\<rparr>)) = r_Meta (clusterBindingResource b)"
  "r_Spec (clusterBindingResource (b\<lparr>cb_HeartbeatInterval := i\<rparr>)) = r_Spec (clusterBindingResource b)"
  "r_Meta (clusterBindingResource (b\<lparr>cb_LastHeartbeatTime := t\<rparr>)) = r_Meta (clusterBindingResource b)"
  "r_Spec (clusterBindingResource (b\<lparr>cb_LastHeartbeatTime := t\<rparr>)) = r_Spec (clusterBindingResource b)"
  "r_Meta (clusterBindingResource (b\<lparr>cb_KonnectorVersion := v\<rparr>)) = r_Meta (clusterBindingResource b)"
  "r_Spec (clusterBindingResource (b\<lparr>cb_KonnectorVersion := v\<rparr>)) = r_Spec (clusterBindingResource b)"
  "r_Meta (serviceBindingResource (s\<lparr>sb_ProviderPrettyName := p\<rparr>)) = r_Meta (serviceBindingResource s)"
  "r_Spec (serviceBindingResource (s\<lparr>sb_ProviderPrettyName := p\<rparr>)) = r_Spec (serviceBindingResource s)"
  "r_Meta (serviceExportResource (e\<lparr>ex_Conditions := cs\<rparr>)) = r_Meta (serviceExportResource e)"
  "r_Spec (serviceExportResource (e\<lparr>ex_Conditions := cs\<rparr>)) = r_Spec (serviceExportResource e)"
  "r_Meta (serviceExportResource (e\<lparr>ex_AcceptedNames := n\<rparr>)) = r_Meta (serviceExportResource e)"
  "r_Spec (serviceExportResource (e\<lparr>ex_AcceptedNames := n\<rparr>)) = r_Spec (serviceExportResource e)"
  "r_Meta (serviceExportResource (e\<lparr>ex_StoredVersions := l\<rparr>)) = r_Meta (serviceExportResource e)"
  "r_Spec (serviceExportResource (e\<lparr>ex_StoredVersions := l\<rparr>)) = r_Spec (serviceExportResource e)"
  by (simp_all add: clusterBindingResource_def serviceBindingResource_def serviceExportResource_def)

text \<open>\<open>oneSide res x y\<close>: \<open>y\<close> differs from \<open>x\<close> in its status at most.\<close>

definition oneSide :: "('o \<Rightarrow> ('sp, 'st) Resource) \<Rightarrow> 'o \<Rightarrow> 'o \<Rightarrow> bool" where
  "oneSide res x y \<longleftrightarrow> r_Meta (res y) = r_Meta (res x) \<and> r_Spec (res y) = r_Spec (res x)"

lemma oneSide_refl [simp]: "oneSide res x x"
  by (simp add: oneSide_def)

lemma oneSide_trans [trans]: "oneSide res x y \<Longrightarrow> oneSide res y z \<Longrightarrow> oneSide res x z"
  by (simp add: oneSide_def)

lemmas side_simps = oneSide_def mark_defs SetSummary_def secretCondition_def Let_def

lemma cluster_oneSide: "oneSide clusterBindingResource b (fst (snd (cluster_reconcile R now b)))"
proof -
  have 1: "oneSide clusterBindingResource b (fst (snd (ensureConsumerSecret R now b)))"
    by (auto simp: ensureConsumerSecret_def side_simps split: sum.splits if_splits prod.splits)
  have 2: "oneSide clusterBindingResource x (ensureHeartbeat R now x)" for x
    by (simp add: ensureHeartbeat_def side_simps)
  have 3: "oneSide clusterBindingResource x (ensureKonnectorVersion R now x)" for x
    by (simp add: ensureKonnectorVersion_def side_simps split: sum.splits)
  show ?thesis
    using 1 2 3 by (auto simp: cluster_reconcile_def Let_def oneSide_def SetSummary_def split: prod.splits)
qed

lemma sb_oneSide: "oneSide serviceBindingResource b (snd (sb_reconcile R now b))"
proof -
  have "oneSide serviceBindingResource b (snd (ensureValidKubeconfigSecret R now b))"
    by (auto simp: ensureValidKubeconfigSecret_def side_simps split: sum.splits option.splits if_splits)
  then show ?thesis
    by (auto simp: sb_reconcile_def Let_def oneSide_def SetSummary_def split: prod.splits)
qed

lemma installCRD_oneSide: "oneSide serviceBindingResource b (fst (snd (installCRD R now l b crd)))"
  by (auto simp: installCRD_def side_simps split: sum.splits option.splits if_splits)

lemma csb_oneSide: "oneSide serviceBindingResource b (fst (snd (csb_reconcile R now l b)))"
proof -
  have 1: "oneSide serviceBindingResource b (fst (snd (ensureValidServiceExport R now l b)))"
    by (auto simp: ensureValidServiceExport_def side_simps split: sum.splits if_splits)
  have 2: "oneSide serviceBindingResource x (fst (snd (ensureCRDs R now k x)))" for k x
    using installCRD_oneSide[of x R now]
    by (auto simp: ensureCRDs_def side_simps split: sum.splits if_splits)
  have 3: "oneSide serviceBindingResource x (fst (snd (ensurePrettyName R k x)))" for k x
    by (auto simp: ensurePrettyName_def side_simps split: sum.splits if_splits)
  obtain e1 b1 l1 where s1: "ensureValidServiceExport R now l b = (e1, b1, l1)" by (cases rule: prod_cases3)
  obtain e2 b2 l2 where s2: "ensureCRDs R now l1 b1 = (e2, b2, l2)" by (cases rule: prod_cases3)
  obtain e3 b3 l3 where s3: "ensurePrettyName R l2 b2 = (e3, b3, l3)" by (cases rule: prod_cases3)
  have "oneSide serviceBindingResource b b3"
    using 1 2[of b1 l1] 3[of b2 l2] s1 s2 s3 by (simp add: oneSide_def)
  then show ?thesis
    by (simp add: csb_reconcile_def s1 s2 s3 oneSide_def SetSummary_def)
qed

definition reconciledExport ::
  "export_reconciler \<times> time \<times> sync_state \<Rightarrow> APIServiceExport \<Rightarrow> APIServiceExport" where
  "reconciledExport env e =
     (case env of (R, now, s) \<Rightarrow>
        snd (ensureCRDConditionsCopied R now (snd (ensureServiceBindingConditionCopied R now e))))"

lemma export_oneSide: "oneSide serviceExportResource e (reconciledExport env e)"
proof -
  have 1: "oneSide serviceExportResource x (snd (ensureServiceBindingConditionCopied R now x))" for x R now
    by (auto simp: ensureServiceBindingConditionCopied_def side_simps split: sum.splits option.splits if_splits)
  have 2: "oneSide serviceExportResource x (snd (ensureCRDConditionsCopied R now x))" for x R now
    by (auto simp: ensureCRDConditionsCopied_def side_simps split: sum.splits option.splits if_splits)
  show ?thesis
    by (auto simp: reconciledExport_def split: prod.splits intro: oneSide_trans[OF 1 2])
qed

interpretation cluster_status:
  status_reconciler clusterBindingResource "\<lambda>(R, now) b. fst (snd (cluster_reconcile R now b))"
  using cluster_oneSide by unfold_locales (auto simp: oneSide_def)

interpretation sb_status:
  status_reconciler serviceBindingResource "\<lambda>(R, now) b. snd (sb_reconcile R now b)"
  using sb_oneSide by unfold_locales (auto simp: oneSide_def)

interpretation csb_status:
  status_reconciler serviceBindingResource "\<lambda>(R, now, l) b. fst (snd (csb_reconcile R now l b))"
  using csb_oneSide by unfold_locales (auto simp: oneSide_def)

interpretation export_status: status_reconciler serviceExportResource reconciledExport
  using export_oneSide by unfold_locales (auto simp: oneSide_def)

section \<open>process\<close>

definition sb_process ::
  "keyfuncs \<Rightarrow> APIServiceBinding lister \<Rightarrow> (_, _) committer \<Rightarrow> sb_reconciler \<Rightarrow> time \<Rightarrow> string \<Rightarrow> processed" where
  "sb_process K L C R now key =
     (case readObject K L key of
        NothingToDo \<Rightarrow> Processed [] []
      | ReadFailed e \<Rightarrow> Processed [e] []
      | Found old \<Rightarrow>
          (let (errs, obj) = sb_reconcile R now old
           in afterReconcile C serviceBindingResource old errs obj))"

definition csb_process ::
  "keyfuncs \<Rightarrow> APIServiceBinding lister \<Rightarrow> (_, _) committer \<Rightarrow> csb_reconciler \<Rightarrow> time \<Rightarrow> csb_calls \<Rightarrow> string \<Rightarrow>
     processed \<times> csb_calls" where
  "csb_process K L C R now l key =
     (case readObject K L key of
        NothingToDo \<Rightarrow> (Processed [] [], l)
      | ReadFailed e \<Rightarrow> (Processed [e] [], l)
      | Found old \<Rightarrow>
          (let (errs, obj, l1) = csb_reconcile R now l old
           in (afterReconcile C serviceBindingResource old errs obj, l1)))"

text \<open>An export that is gone is reconciled too, to stop its syncers.\<close>

definition export_process ::
  "keyfuncs \<Rightarrow> APIServiceExport lister \<Rightarrow> (_, _) committer \<Rightarrow> export_reconciler \<Rightarrow> time \<Rightarrow> sync_state \<Rightarrow> string \<Rightarrow>
     processed \<times> sync_state" where
  "export_process K L C R now s key =
     (case splitMetaNamespaceKey K key of
        Inl _ \<Rightarrow> (Processed [] [], s)
      | Inr (ns, name) \<Rightarrow>
          (case L ns name of
             Inl e \<Rightarrow>
               if \<not> IsNotFound e then (Processed [e] [], s)
               else (let (errs, _, s1) = export_reconcile R now name None s in (Processed errs [], s1))
           | Inr old \<Rightarrow>
               (case export_reconcile R now name (Some old) s of
                  (errs, Some obj, s1) \<Rightarrow> (afterReconcile C serviceExportResource old errs obj, s1)
                | (errs, None, s1) \<Rightarrow> (Processed errs [], s1))))"

text \<open>
  The top-level controller. Its \<open>reconcile\<close> reads the binding and never assigns to it, so that the copy it leaves for the
  commit is the object of the lister.
\<close>

definition konn_processKey ::
  "keyfuncs \<Rightarrow> APIServiceBinding lister \<Rightarrow> (_, _) committer \<Rightarrow> konn_reconciler \<Rightarrow> konn_state \<Rightarrow> string \<Rightarrow>
     processed \<times> konn_state" where
  "konn_processKey K L C R s key =
     (case readObject K L key of
        NothingToDo \<Rightarrow> (Processed [] [], s)
      | ReadFailed e \<Rightarrow> (Processed [e] [], s)
      | Found old \<Rightarrow>
          (let (err, s1) = konn_reconcile R old s
           in (afterReconcile C serviceBindingResource old (errList err) old, s1)))"

section \<open>The heartbeat report\<close>

definition APIServiceBindingConditionHeartbeating :: ConditionType where
  [klutch_defs]: "APIServiceBindingConditionHeartbeating = ''Heartbeating''"

text \<open>The bindings whose status is written; a failed write is only logged.\<close>

definition updateServiceBindings ::
  "apierr + APIServiceBinding list \<Rightarrow> (APIServiceBinding \<Rightarrow> APIServiceBinding) \<Rightarrow> APIServiceBinding list" where
  "updateServiceBindings objs update =
     (case objs of
        Inl _ \<Rightarrow> []
      | Inr bindings \<Rightarrow>
          map update (filter (\<lambda>b. sb_Conditions (update b) \<noteq> sb_Conditions b) bindings))"

definition heartbeatFailed :: "time \<Rightarrow> apierr \<Rightarrow> APIServiceBinding \<Rightarrow> APIServiceBinding" where
  "heartbeatFailed now err binding =
     MarkFalse serviceBindingSetter now binding APIServiceBindingConditionHeartbeating
       ''ClusterBindingUpdateFailed'' ConditionSeverityWarning
       ''Failed to update service provider ClusterBinding: %v'' [FStr (error_text err)]"

definition heartbeatSent :: "time \<Rightarrow> APIServiceBinding \<Rightarrow> APIServiceBinding" where
  "heartbeatSent now binding = MarkTrue serviceBindingSetter now binding APIServiceBindingConditionHeartbeating"

definition cluster_process ::
  "keyfuncs \<Rightarrow> ClusterBinding lister \<Rightarrow> (_, _) committer \<Rightarrow> cluster_reconciler \<Rightarrow> time \<Rightarrow>
     apierr + APIServiceBinding list \<Rightarrow> string \<Rightarrow> processed \<times> secret_call list \<times> APIServiceBinding list" where
  "cluster_process K L C R now indexed key =
     (case splitMetaNamespaceKey K key of
        Inl _ \<Rightarrow> (Processed [] [], [], [])
      | Inr (ns, name) \<Rightarrow>
          if name \<noteq> ''cluster'' then (Processed [] [], [], [])
          else if ns = ''''
          then (Processed [\<lparr>reason = OtherReason '''',
                            error_text = ''namespace is empty. this should not happen''\<rparr>] [], [], [])
          else
            (case L ns ''cluster'' of
               Inl e \<Rightarrow> (Processed (if \<not> IsNotFound e then [e] else []) [], [], [])
             | Inr old \<Rightarrow>
                 (let (errs, obj, w) = cluster_reconcile R now old in
                  case commit C (clusterBindingResource old) (clusterBindingResource obj) of
                    CommitPanics \<Rightarrow> (ProcessPanics, w, [])
                  | CommitReturns (Some e) ps \<Rightarrow>
                      (Processed (errs @ [e]) ps, w, updateServiceBindings indexed (heartbeatFailed now e))
                  | CommitReturns None ps \<Rightarrow>
                      (Processed errs ps, w, updateServiceBindings indexed (heartbeatSent now)))))"

section \<open>Which objects a change queues\<close>

text \<open>\<open>enqueueServiceBinding\<close>, \<open>enqueueClusterBinding\<close> and \<open>enqueueServiceExport\<close> of an object's own controller.\<close>

definition enqueueSelf :: "string \<Rightarrow> string list" where
  "enqueueSelf key = [key]"

definition bindingKey :: "keyfuncs \<Rightarrow> APIServiceBinding \<Rightarrow> string" where
  "bindingKey K binding = metaKey K (om_Namespace (sb_Meta binding)) (om_Name (sb_Meta binding))"

definition cluster_enqueueConsumerSecret :: "cluster_reconciler \<Rightarrow> string \<Rightarrow> string list" where
  "cluster_enqueueConsumerSecret R secretKey =
     (if secretKey = consumerSecretRefKey R then [cr_providerNamespace R @ ''/cluster''] else [])"

definition cluster_enqueueProviderSecret ::
  "keyfuncs \<Rightarrow> ClusterBinding lister \<Rightarrow> cluster_reconciler \<Rightarrow> string \<Rightarrow> string list" where
  "cluster_enqueueProviderSecret K L R secretKey =
     (case splitMetaNamespaceKey K secretKey of
        Inl _ \<Rightarrow> []
      | Inr (ns, name) \<Rightarrow>
          if ns \<noteq> cr_providerNamespace R then []
          else (case L ns ''cluster'' of
                  Inl _ \<Rightarrow> []
                | Inr binding \<Rightarrow>
                    if ref_Name (cb_KubeconfigSecretRef binding) \<noteq> name then [] else [ns @ ''/cluster'']))"

definition cluster_enqueueServiceExport :: "keyfuncs \<Rightarrow> string \<Rightarrow> string list" where
  "cluster_enqueueServiceExport K seKey =
     (case splitMetaNamespaceKey K seKey of Inl _ \<Rightarrow> [] | Inr (ns, _) \<Rightarrow> [ns @ ''/cluster''])"

definition sb_enqueueConsumerSecret :: "keyfuncs \<Rightarrow> APIServiceBinding indexer \<Rightarrow> string \<Rightarrow> string list" where
  "sb_enqueueConsumerSecret K ix secretKey =
     map (bindingKey K) (ix IndexServiceBindingByKubeconfigSecret secretKey)"

definition konn_enqueueSecret :: "keyfuncs \<Rightarrow> APIServiceBinding indexer \<Rightarrow> string \<Rightarrow> string list" where
  "konn_enqueueSecret K ix key =
     (case splitMetaNamespaceKey K key of
        Inl _ \<Rightarrow> []
      | Inr (ns, name) \<Rightarrow>
          map (bindingKey K) (ix IndexServiceBindingByKubeconfigSecret (ns @ ''/'' @ name)))"

definition csb_enqueueServiceExport :: "keyfuncs \<Rightarrow> APIServiceBinding indexer \<Rightarrow> string \<Rightarrow> string list" where
  "csb_enqueueServiceExport K ix consumerSecretKey =
     map (bindingKey K) (ix IndexServiceBindingByKubeconfigSecret consumerSecretKey)"

definition csb_enqueueCRD ::
  "keyfuncs \<Rightarrow> APIServiceExport indexer \<Rightarrow> APIServiceBinding indexer \<Rightarrow> string \<Rightarrow> string \<Rightarrow> string list" where
  "csb_enqueueCRD K exports bindings consumerSecretKey name =
     concat (map (\<lambda>export.
       map (bindingKey K)
         (filter (\<lambda>b. om_Name (sb_Meta b) = om_Name (ex_Meta export))
            (bindings IndexServiceBindingByKubeconfigSecret consumerSecretKey)))
       (exports IndexServiceExportByCustomResourceDefinition name))"

definition export_enqueueServiceBinding :: "string \<Rightarrow> APIServiceBinding \<Rightarrow> string list" where
  "export_enqueueServiceBinding ns binding =
     [ns @ ''/'' @ om_Name (sb_Meta binding)]"

definition export_enqueueCRD :: "string \<Rightarrow> string \<Rightarrow> string list" where
  "export_enqueueCRD ns crdKey = [ns @ ''/'' @ crdKey]"

section \<open>What process writes\<close>

lemma sb_process_statusOnly:
  assumes "reflexiveEqual C"
  shows "statusOnly (sb_process K L C R now key)"
  using sb_status.afterReconcile_status[OF assms, of _ _ "(R, now)"]
  by (auto simp: sb_process_def split: found.splits prod.splits) (metis prod.sel snd_conv)

text \<open>
  The commit of the top-level controller has nothing to write, and its runs are those of \<open>konn_process\<close> with a commit that
  reports no error.
\<close>

lemma konn_process_writes_nothing:
  assumes "reflexiveEqual C"
  shows "\<exists>errs. fst (konn_processKey K L C R s key) = Processed errs []"
  by (auto simp: konn_processKey_def afterReconcile_def commit_unchanged[OF assms] split: found.split prod.split)

lemma konn_processKey_refines:
  assumes "reflexiveEqual C" and "splitMetaNamespaceKey K key = Inr (ns, name)"
  shows "konn_processKey K L C R s key =
     (let (errs, s1) = konn_process R (\<lambda>b. None) (L ns name) s in (Processed errs [], s1))"
  using assms(2)
  by (auto simp: konn_processKey_def konn_process_def readObject_def afterReconcile_def commit_unchanged[OF assms(1)]
      errList_def split: sum.split prod.split)

lemma csb_process_statusOnly:
  assumes "reflexiveEqual C"
  shows "statusOnly (fst (csb_process K L C R now l key))"
proof (cases "readObject K L key")
  case (Found old)
  obtain errs obj l1 where r: "csb_reconcile R now l old = (errs, obj, l1)" by (cases rule: prod_cases3)
  show ?thesis
    using csb_status.afterReconcile_status[OF assms, of old errs "(R, now, l)"]
    by (simp add: csb_process_def Found r)
qed (simp_all add: csb_process_def)

lemma export_process_statusOnly:
  assumes "reflexiveEqual C"
  shows "statusOnly (fst (export_process K L C R now s key))"
proof -
  have "statusOnly (fst (case export_reconcile R now name (Some old) s of
      (errs, Some obj, s1) \<Rightarrow> (afterReconcile C serviceExportResource old errs obj, s1)
    | (errs, None, s1) \<Rightarrow> (Processed errs [], s1)))" for name old
    using export_status.afterReconcile_status[OF assms, of old _ "(R, now, s)"]
    by (simp add: export_reconcile_def reconciledExport_def Let_def case_prod_beta)
  then show ?thesis
    by (auto simp: export_process_def Let_def split: sum.splits prod.splits)
qed

lemma cluster_process_statusOnly:
  assumes "reflexiveEqual C"
  shows "statusOnly (fst (cluster_process K L C R now indexed key))"
proof -
  have "commit C (clusterBindingResource old) (clusterBindingResource (fst (snd (cluster_reconcile R now old))))
      = CommitReturns e ps \<Longrightarrow> statusOnly (Processed errs ps)" for old e ps errs
    using cluster_status.afterReconcile_status[OF assms, of old errs "(R, now)"]
    by (cases e) (simp_all add: afterReconcile_def)
  moreover have "commit C (clusterBindingResource old)
      (clusterBindingResource (fst (snd (cluster_reconcile R now old)))) \<noteq> CommitPanics" for old
    using cluster_status.commit_patches_status(1)[OF assms, of old "(R, now)"] by simp
  ultimately show ?thesis
    by (auto simp: cluster_process_def Let_def split: sum.splits prod.splits commit_result.splits option.splits)
      (metis fst_conv snd_conv statusOnly.simps(2))+
qed

end
