(* ===== verification/Sync_Wiring.thy ===== *)
theory Sync_Wiring
  imports Konnector_Process Spec_Sync Adopt_Sync Claimed_Resources Cluster_Scoped
begin

text \<open>
  The controllers around the four syncers: \<open>spec_controller.go\<close>, \<open>status_controller.go\<close>,
  \<open>adopt_controller.go\<close> (under \<open>bind/pkg/konnector/controllers/cluster/serviceexport\<close>) and
  \<open>claimedresources_controller.go\<close>.

  \<^item> \<open>NewController\<close> fills the struct of functions that \<open>reconcile\<close> calls with closures over the API clients
    and the informers; for a cluster-scoped object they translate between its two names on the way. \<open>spec_wiring\<close>,
    \<open>status_wiring\<close>, \<open>adopt_wiring\<close> and \<open>claimed_wiring\<close> are these structs, values of \<open>sync_reconciler\<close>.
    \<open>sync_clients\<close> holds what the closures close over: the clients of the two clusters, the listers
    and informers, and the namespace of the tenant at the provider.
  \<^item> A closure that writes is a pair of what it sends and what it answers: \<open>api_request\<close> is a request to one of the
    two clusters. \<open>spec_api\<close>, \<open>status_api\<close> and \<open>adopt_api\<close> give the requests of a recorded call, so that
    \<open>apiRequests\<close> of a run is what reaches the clusters.
  \<^item> The \<open>enqueue\<close> functions map the key of a changed object to the keys that are queued, as in
    \<open>Konnector_Process\<close>; \<open>process\<close> takes a key from the queue. The functions on keys are client-go: \<open>keysSplit\<close> and
    \<open>clusterKeys\<close> are what it documents of them.

  The lemmas show that the spec syncer writes cluster-scoped objects only under the prefix and with the
  annotation of its tenant, that an event of a provider object queues the object it was made from, and three places where a
  closure or a key does not address the object that it means.
\<close>

section \<open>Clients, listers and informers\<close>

datatype side = ConsumerSide | ProviderSide

datatype api_request =
    ApiCreate side unstructured
  | ApiUpdate side unstructured
  | ApiApply side unstructured
  | ApiUpdateStatus side unstructured
  | ApiDelete side string string
  | ApiCreateServiceNamespace APIServiceNamespace

record sync_clients =
  sc_keys :: keyfuncs
  sc_providerNamespace :: string
  sc_providerNamespaceUID :: string
  sc_serviceNamespaces :: "APIServiceNamespace lister"
  sc_serviceNamespaceIndex :: "APIServiceNamespace indexer"
  sc_createServiceNamespace :: "calls \<Rightarrow> APIServiceNamespace \<Rightarrow> apierr + APIServiceNamespace"
  sc_consumerGet :: "calls \<Rightarrow> string \<Rightarrow> apierr + unstructured"
  sc_consumerGetNamespaced :: "calls \<Rightarrow> string \<Rightarrow> string \<Rightarrow> apierr + unstructured"
  sc_consumerLive :: "calls \<Rightarrow> string \<Rightarrow> string \<Rightarrow> apierr + unstructured"
  sc_consumerInNamespace :: "string \<Rightarrow> unstructured list"
  sc_providerGet :: "calls \<Rightarrow> string \<Rightarrow> string \<Rightarrow> apierr + unstructured"
  sc_providerList :: "string \<Rightarrow> apierr + unstructured list"
  sc_create :: "calls \<Rightarrow> side \<Rightarrow> unstructured \<Rightarrow> apierr + unstructured"
  sc_update :: "calls \<Rightarrow> side \<Rightarrow> unstructured \<Rightarrow> apierr + unstructured"
  sc_apply :: "calls \<Rightarrow> side \<Rightarrow> unstructured \<Rightarrow> apierr + unstructured"
  sc_updateStatus :: "calls \<Rightarrow> side \<Rightarrow> unstructured \<Rightarrow> apierr + unstructured"
  sc_delete :: "calls \<Rightarrow> side \<Rightarrow> string \<Rightarrow> string \<Rightarrow> apierr option"
  sc_requeue :: "calls \<Rightarrow> unstructured \<Rightarrow> int \<Rightarrow> apierr option"

definition translated :: "string + unstructured \<Rightarrow> apierr + unstructured" where
  "translated r = (case r of Inl e \<Rightarrow> Inl \<lparr>reason = OtherReason '''', error_text = e\<rparr> | Inr obj \<Rightarrow> Inr obj)"

definition toUpstream :: "sync_clients \<Rightarrow> unstructured \<Rightarrow> apierr + unstructured" where
  "toUpstream W obj =
     translated (TranslateFromDownstream obj (sc_providerNamespace W) (sc_providerNamespaceUID W))"

definition toDownstream :: "unstructured \<Rightarrow> apierr + unstructured" where
  "toDownstream obj = translated (TranslateFromUpstream obj)"

text \<open>
  A write, as the closures make it: an object with a namespace is sent as it is; any other is translated, sent, and
  the answer translated back.
\<close>

definition writeTranslated ::
  "(unstructured \<Rightarrow> apierr + unstructured) \<Rightarrow> (unstructured \<Rightarrow> apierr + unstructured) \<Rightarrow>
   (unstructured \<Rightarrow> api_request) \<Rightarrow> (unstructured \<Rightarrow> apierr + unstructured) \<Rightarrow> unstructured \<Rightarrow>
   api_request list \<times> (apierr + unstructured)" where
  "writeTranslated forth back request send obj =
     (if u_namespace obj \<noteq> '''' then ([request obj], send obj)
      else case forth obj of
             Inl e \<Rightarrow> ([], Inl e)
           | Inr obj' \<Rightarrow>
               ([request obj'], (case send obj' of Inl e \<Rightarrow> Inl e | Inr answer \<Rightarrow> back answer)))"

definition writeUpstream where
  "writeUpstream W = writeTranslated (toUpstream W) toDownstream"

definition writeDownstream where
  "writeDownstream W = writeTranslated toDownstream (toUpstream W)"

text \<open>A function that the struct of the controller does not have: no reconciler calls it.\<close>

definition notWired :: "apierr + 'a" where
  "notWired = Inl \<lparr>reason = OtherReason '''', error_text = ''nil function''\<rparr>"

definition notWiredDelete :: "apierr option" where
  "notWiredDelete = Some \<lparr>reason = OtherReason '''', error_text = ''nil function''\<rparr>"

section \<open>The spec syncer\<close>

definition spec_getProviderObject where
  "spec_getProviderObject W l ns name =
     (if ns \<noteq> '''' then sc_providerGet W l ns name
      else case sc_providerGet W l ns (Prepend name (sc_providerNamespace W)) of
             Inl e \<Rightarrow> Inl e
           | Inr got \<Rightarrow> toDownstream got)"

definition spec_createProviderObject where
  "spec_createProviderObject W l = writeUpstream W (ApiCreate ProviderSide) (sc_create W l ProviderSide)"

definition spec_updateProviderObject where
  "spec_updateProviderObject W l = writeUpstream W (ApiApply ProviderSide) (sc_apply W l ProviderSide)"

definition spec_deletedName :: "sync_clients \<Rightarrow> string \<Rightarrow> string \<Rightarrow> string" where
  "spec_deletedName W ns name = (if ns = '''' then Prepend name (sc_providerNamespace W) else name)"

definition spec_wiring :: "sync_clients \<Rightarrow> sync_reconciler" where
  "spec_wiring W =
     \<lparr>providerNamespace = sc_providerNamespace W,
      getServiceNamespace = (\<lambda>l. sc_serviceNamespaces W (sc_providerNamespace W)),
      createServiceNamespace = sc_createServiceNamespace W,
      getProviderObject = spec_getProviderObject W,
      createProviderObject = (\<lambda>l obj. snd (spec_createProviderObject W l obj)),
      updateProviderObject = (\<lambda>l obj. snd (spec_updateProviderObject W l obj)),
      deleteProviderObject = (\<lambda>l ns name. sc_delete W l ProviderSide ns (spec_deletedName W ns name)),
      getConsumerObject = (\<lambda>l ns name. notWired),
      createConsumerObject = (\<lambda>l obj. notWired),
      updateConsumerObject = (\<lambda>l obj. sc_update W l ConsumerSide obj),
      updateConsumerObjectStatus = (\<lambda>l obj. notWired),
      deleteConsumerObject = (\<lambda>l ns name. notWiredDelete),
      requeue = sc_requeue W\<rparr>"

fun spec_api :: "sync_clients \<Rightarrow> call \<Rightarrow> api_request list" where
  "spec_api W (CreateProviderObject obj) = fst (spec_createProviderObject W [] obj)"
| "spec_api W (UpdateProviderObject obj) = fst (spec_updateProviderObject W [] obj)"
| "spec_api W (DeleteProviderObject ns name) = [ApiDelete ProviderSide ns (spec_deletedName W ns name)]"
| "spec_api W (UpdateConsumerObject obj) = [ApiUpdate ConsumerSide obj]"
| "spec_api W (CreateServiceNamespace sn) = [ApiCreateServiceNamespace sn]"
| "spec_api W c = []"

definition apiRequests :: "(call \<Rightarrow> api_request list) \<Rightarrow> calls \<Rightarrow> api_request list" where
  "apiRequests api l = concat (map api l)"

definition spec_enqueueConsumer :: "string \<Rightarrow> string list" where
  "spec_enqueueConsumer key = [key]"

text \<open>The first APIServiceNamespace of the index that belongs to the tenant.\<close>

definition tenantServiceNamespace :: "sync_clients \<Rightarrow> string \<Rightarrow> APIServiceNamespace option" where
  "tenantServiceNamespace W ns =
     List.find (\<lambda>sn. sn_Namespace sn = sc_providerNamespace W)
       (sc_serviceNamespaceIndex W IndexServiceNamespaceByNamespace ns)"

definition spec_enqueueProvider :: "sync_clients \<Rightarrow> string \<Rightarrow> string list" where
  "spec_enqueueProvider W upstreamKey =
     (case splitMetaNamespaceKey (sc_keys W) upstreamKey of
        Inl _ \<Rightarrow> []
      | Inr (ns, name) \<Rightarrow>
          (if ns \<noteq> ''''
           then (case tenantServiceNamespace W ns of
                   None \<Rightarrow> []
                 | Some sn \<Rightarrow> [Sprintf ''%s/%s'' [FStr (sn_Name sn), FStr name]])
           else if Behead upstreamKey (sc_providerNamespace W) = upstreamKey then []
           else [Behead upstreamKey (sc_providerNamespace W)]))"

definition objectKey :: "sync_clients \<Rightarrow> unstructured \<Rightarrow> string" where
  "objectKey W obj = metaKey (sc_keys W) (u_namespace obj) (u_name obj)"

definition spec_enqueueServiceNamespace :: "sync_clients \<Rightarrow> string \<Rightarrow> string list" where
  "spec_enqueueServiceNamespace W snKey =
     (case splitMetaNamespaceKey (sc_keys W) snKey of
        Inl _ \<Rightarrow> []
      | Inr (ns, name) \<Rightarrow>
          (if ns \<noteq> sc_providerNamespace W then []
           else map (objectKey W) (sc_consumerInNamespace W name)))"

definition consumerLister :: "sync_clients \<Rightarrow> calls \<Rightarrow> unstructured lister" where
  "consumerLister W l ns name =
     (if ns = '''' then sc_consumerGet W l name else sc_consumerGetNamespaced W l ns name)"

definition spec_process :: "sync_clients \<Rightarrow> calls \<Rightarrow> string \<Rightarrow> outcome" where
  "spec_process W l key =
     (case readObject (sc_keys W) (consumerLister W l) key of
        NothingToDo \<Rightarrow> (None, l)
      | ReadFailed e \<Rightarrow> (Some e, l)
      | Found obj \<Rightarrow> spec_reconcile (spec_wiring W) l obj)"

section \<open>The status syncer\<close>

text \<open>\<open>getServiceNamespace\<close> of the other three: by the namespace at the provider, of whatever tenant.\<close>

definition serviceNamespaceOf :: "sync_clients \<Rightarrow> string \<Rightarrow> apierr + APIServiceNamespace" where
  "serviceNamespaceOf W upstreamNamespace =
     (case sc_serviceNamespaceIndex W IndexServiceNamespaceByNamespace upstreamNamespace of
        [] \<Rightarrow> Inl \<lparr>reason = NotFound, error_text = upstreamNamespace\<rparr>
      | sn # _ \<Rightarrow> Inr sn)"

definition translating_getConsumerObject where
  "translating_getConsumerObject W l ns name =
     (if ns \<noteq> '''' then sc_consumerGetNamespaced W l ns name
      else case sc_consumerGet W l (Behead name (sc_providerNamespace W)) of
             Inl e \<Rightarrow> Inl e
           | Inr got \<Rightarrow> toUpstream W got)"

definition status_updateConsumerObjectStatus where
  "status_updateConsumerObjectStatus W l =
     writeDownstream W (ApiUpdateStatus ConsumerSide) (sc_updateStatus W l ConsumerSide)"

definition status_wiring :: "sync_clients \<Rightarrow> sync_reconciler" where
  "status_wiring W =
     \<lparr>providerNamespace = sc_providerNamespace W,
      getServiceNamespace = (\<lambda>l. serviceNamespaceOf W),
      createServiceNamespace = (\<lambda>l sn. notWired),
      getProviderObject = (\<lambda>l ns name. notWired),
      createProviderObject = (\<lambda>l obj. notWired),
      updateProviderObject = (\<lambda>l obj. notWired),
      deleteProviderObject = (\<lambda>l. sc_delete W l ProviderSide),
      getConsumerObject = translating_getConsumerObject W,
      createConsumerObject = (\<lambda>l obj. notWired),
      updateConsumerObject = (\<lambda>l obj. notWired),
      updateConsumerObjectStatus = (\<lambda>l obj. snd (status_updateConsumerObjectStatus W l obj)),
      deleteConsumerObject = (\<lambda>l ns name. notWiredDelete),
      requeue = (\<lambda>l obj after. notWiredDelete)\<rparr>"

fun status_api :: "sync_clients \<Rightarrow> call \<Rightarrow> api_request list" where
  "status_api W (UpdateConsumerObjectStatus obj) = fst (status_updateConsumerObjectStatus W [] obj)"
| "status_api W (UpdateConsumerObject obj) = [ApiUpdate ConsumerSide obj]"
| "status_api W (DeleteProviderObject ns name) = [ApiDelete ProviderSide ns name]"
| "status_api W c = []"

definition status_enqueueProvider :: "sync_clients \<Rightarrow> string \<Rightarrow> string list" where
  "status_enqueueProvider W key =
     (case splitMetaNamespaceKey (sc_keys W) key of
        Inl _ \<Rightarrow> []
      | Inr (ns, _) \<Rightarrow>
          (if ns \<noteq> '''' then (case tenantServiceNamespace W ns of None \<Rightarrow> [] | Some _ \<Rightarrow> [key])
           else if Behead key (sc_providerNamespace W) = key then []
           else [key]))"

text \<open>\<open>enqueueConsumer\<close> of the three, up to the key that stands for an object without namespace.\<close>

definition enqueueConsumerAs :: "sync_clients \<Rightarrow> (string \<Rightarrow> string) \<Rightarrow> string \<Rightarrow> string list" where
  "enqueueConsumerAs W clusterKey downstreamKey =
     (case splitMetaNamespaceKey (sc_keys W) downstreamKey of
        Inl _ \<Rightarrow> []
      | Inr (ns, name) \<Rightarrow>
          (if ns \<noteq> ''''
           then (case sc_serviceNamespaces W (sc_providerNamespace W) ns of
                   Inl _ \<Rightarrow> []
                 | Inr sn \<Rightarrow>
                     (if sn_Namespace sn = sc_providerNamespace W \<and> sn_Status_Namespace sn \<noteq> ''''
                      then [Sprintf ''%s/%s'' [FStr (sn_Status_Namespace sn), FStr name]] else []))
           else [clusterKey downstreamKey]))"

definition status_enqueueConsumer :: "sync_clients \<Rightarrow> string \<Rightarrow> string list" where
  "status_enqueueConsumer W = enqueueConsumerAs W (\<lambda>key. Prepend key (sc_providerNamespace W))"

text \<open>\<open>enqueueServiceNamespace\<close> of the status syncer and of the adopter.\<close>

definition status_enqueueServiceNamespace :: "sync_clients \<Rightarrow> string \<Rightarrow> string list" where
  "status_enqueueServiceNamespace W snKey =
     (case splitMetaNamespaceKey (sc_keys W) snKey of
        Inl _ \<Rightarrow> []
      | Inr (ns, name) \<Rightarrow>
          (if ns \<noteq> sc_providerNamespace W then []
           else case sc_serviceNamespaces W ns name of
                  Inl _ \<Rightarrow> []
                | Inr sn \<Rightarrow>
                    (if sn_Status_Namespace sn = '''' then []
                     else case sc_providerList W (sn_Status_Namespace sn) of
                            Inl _ \<Rightarrow> []
                          | Inr objs \<Rightarrow> map (objectKey W) objs)))"

text \<open>
  \<open>removeDownstreamFinalizer\<close> of the status syncer and of the adopter: the update goes straight to the consumer client, and
  a consumer object that is gone is no error.
\<close>

definition releaseDownstream :: "sync_clients \<Rightarrow> calls \<Rightarrow> unstructured \<Rightarrow> outcome" where
  "releaseDownstream W l obj =
     (if DownstreamFinalizer \<in> set (u_finalizers obj)
      then (let obj' = obj\<lparr>u_finalizers := filter (\<lambda>f. f \<noteq> DownstreamFinalizer) (u_finalizers obj)\<rparr>
            in (notFoundIsNil (errOf (sc_update W l ConsumerSide obj')), l @ [UpdateConsumerObject obj']))
      else (None, l))"

text \<open>\<open>process\<close> of the status syncer and of the adopter, for the \<open>reconcile\<close> of the controller.\<close>

definition provider_process ::
  "sync_clients \<Rightarrow> (calls \<Rightarrow> unstructured \<Rightarrow> outcome) \<Rightarrow> calls \<Rightarrow> string \<Rightarrow> outcome" where
  "provider_process W reconcile l key =
     (case splitMetaNamespaceKey (sc_keys W) key of
        Inl _ \<Rightarrow> (None, l)
      | Inr (ns, name) \<Rightarrow>
          (case sc_providerGet W l ns name of
             Inr obj \<Rightarrow> reconcile l obj
           | Inl e \<Rightarrow>
               (if \<not> IsNotFound e then (Some e, l)
                else case sc_consumerGetNamespaced W l ns name of
                       Inl e' \<Rightarrow> (if \<not> IsNotFound e' then (Some e', l) else (None, l))
                     | Inr downstream \<Rightarrow> releaseDownstream W l downstream)))"

definition status_process :: "sync_clients \<Rightarrow> calls \<Rightarrow> string \<Rightarrow> outcome" where
  "status_process W = provider_process W (status_reconcile (status_wiring W))"

section \<open>The adopter\<close>

definition adopt_createConsumerObject where
  "adopt_createConsumerObject W l = writeDownstream W (ApiCreate ConsumerSide) (sc_create W l ConsumerSide)"

definition adopt_updateConsumerObject where
  "adopt_updateConsumerObject W l = writeDownstream W (ApiUpdate ConsumerSide) (sc_update W l ConsumerSide)"

text \<open>The update of the provider object is sent with the client of the consumer cluster.\<close>

definition adopt_updateProviderObject where
  "adopt_updateProviderObject W l = writeUpstream W (ApiUpdate ConsumerSide) (sc_update W l ConsumerSide)"

definition adopt_wiring :: "sync_clients \<Rightarrow> sync_reconciler" where
  "adopt_wiring W =
     \<lparr>providerNamespace = sc_providerNamespace W,
      getServiceNamespace = (\<lambda>l. serviceNamespaceOf W),
      createServiceNamespace = (\<lambda>l sn. notWired),
      getProviderObject = (\<lambda>l ns name. notWired),
      createProviderObject = (\<lambda>l obj. notWired),
      updateProviderObject = (\<lambda>l obj. snd (adopt_updateProviderObject W l obj)),
      deleteProviderObject = (\<lambda>l ns name. notWiredDelete),
      getConsumerObject = translating_getConsumerObject W,
      createConsumerObject = (\<lambda>l obj. snd (adopt_createConsumerObject W l obj)),
      updateConsumerObject = (\<lambda>l obj. snd (adopt_updateConsumerObject W l obj)),
      updateConsumerObjectStatus = (\<lambda>l obj. notWired),
      deleteConsumerObject = (\<lambda>l ns name. notWiredDelete),
      requeue = (\<lambda>l obj after. notWiredDelete)\<rparr>"

fun adopt_api :: "sync_clients \<Rightarrow> call \<Rightarrow> api_request list" where
  "adopt_api W (CreateConsumerObject obj) = fst (adopt_createConsumerObject W [] obj)"
| "adopt_api W (UpdateConsumerObject obj) = fst (adopt_updateConsumerObject W [] obj)"
| "adopt_api W (UpdateProviderObject obj) = fst (adopt_updateProviderObject W [] obj)"
| "adopt_api W c = []"

text \<open>No comparison with the tenant's prefix here.\<close>

definition adopt_enqueueProvider :: "sync_clients \<Rightarrow> string \<Rightarrow> string list" where
  "adopt_enqueueProvider W key =
     (case splitMetaNamespaceKey (sc_keys W) key of
        Inl _ \<Rightarrow> []
      | Inr (ns, _) \<Rightarrow>
          (if ns \<noteq> '''' then (case tenantServiceNamespace W ns of None \<Rightarrow> [] | Some _ \<Rightarrow> [key])
           else [key]))"

definition adopt_enqueueConsumer :: "sync_clients \<Rightarrow> string \<Rightarrow> string list" where
  "adopt_enqueueConsumer W = enqueueConsumerAs W (\<lambda>key. key)"

definition adopt_enqueueServiceNamespace :: "sync_clients \<Rightarrow> string \<Rightarrow> string list" where
  "adopt_enqueueServiceNamespace = status_enqueueServiceNamespace"

definition adopt_process :: "sync_clients \<Rightarrow> calls \<Rightarrow> string \<Rightarrow> outcome" where
  "adopt_process W = provider_process W (adopt_reconcile (adopt_wiring W))"

section \<open>Claimed resources\<close>

definition claimed_wiring :: "sync_clients \<Rightarrow> sync_reconciler" where
  "claimed_wiring W =
     \<lparr>providerNamespace = sc_providerNamespace W,
      getServiceNamespace = (\<lambda>l. serviceNamespaceOf W),
      createServiceNamespace = (\<lambda>l sn. notWired),
      getProviderObject = sc_providerGet W,
      createProviderObject = (\<lambda>l. sc_create W l ProviderSide),
      updateProviderObject = (\<lambda>l. sc_update W l ProviderSide),
      deleteProviderObject = (\<lambda>l. sc_delete W l ProviderSide),
      getConsumerObject = sc_consumerLive W,
      createConsumerObject = (\<lambda>l. sc_create W l ConsumerSide),
      updateConsumerObject = (\<lambda>l. sc_update W l ConsumerSide),
      updateConsumerObjectStatus = (\<lambda>l obj. notWired),
      deleteConsumerObject = (\<lambda>l. sc_delete W l ConsumerSide),
      requeue = (\<lambda>l obj after. notWiredDelete)\<rparr>"

definition isClaimed :: "ResourceSelector option \<Rightarrow> unstructured \<Rightarrow> bool" where
  "isClaimed selector obj =
     (let found = ownerAnnotation obj;
          annotationMatches =
            (case selector of
               None \<Rightarrow> True
             | Some s \<Rightarrow> if rs_Owner s = '''' then True else found = '''' \<or> found = rs_Owner s);
          nameMatch =
            (case selector of
               None \<Rightarrow> True
             | Some s \<Rightarrow> if rs_Names s = [] then True
                         else list_ex (\<lambda>name. name = u_name obj \<or> name = ''*'') (rs_Names s))
      in nameMatch \<and> annotationMatches)"

text \<open>
  What an informer hands to a handler: the object, or for a deletion that it missed a tombstone with its key. The type
  assertion of \<open>enqueueConsumer\<close> panics on a tombstone: \<open>None\<close>.
\<close>

datatype event = Live unstructured | DeletedFinalStateUnknown string unstructured

definition eventKey :: "sync_clients \<Rightarrow> event \<Rightarrow> string" where
  "eventKey W ev = (case ev of Live obj \<Rightarrow> objectKey W obj | DeletedFinalStateUnknown key _ \<Rightarrow> key)"

definition claimed_enqueueConsumer ::
  "sync_clients \<Rightarrow> ResourceSelector option \<Rightarrow> event \<Rightarrow> string list option" where
  "claimed_enqueueConsumer W selector ev =
     (case ev of
        DeletedFinalStateUnknown _ _ \<Rightarrow> None
      | Live obj \<Rightarrow>
          (if \<not> isClaimed selector obj then Some []
           else Some (enqueueConsumerAs W (\<lambda>key. key) (eventKey W ev))))"

text \<open>The key that is queued is that of the provider object; the other one is only logged.\<close>

definition claimed_enqueueProvider :: "sync_clients \<Rightarrow> string \<Rightarrow> string list" where
  "claimed_enqueueProvider W upstreamKey =
     (case splitMetaNamespaceKey (sc_keys W) upstreamKey of
        Inl _ \<Rightarrow> []
      | Inr (ns, _) \<Rightarrow>
          (if ns \<noteq> '''' then (case tenantServiceNamespace W ns of None \<Rightarrow> [] | Some _ \<Rightarrow> [upstreamKey])
           else [upstreamKey]))"

text \<open>The guard tests the namespace of the object, not the one in its status.\<close>

definition claimed_enqueueServiceNamespace :: "sync_clients \<Rightarrow> string \<Rightarrow> string list" where
  "claimed_enqueueServiceNamespace W snKey =
     (case splitMetaNamespaceKey (sc_keys W) snKey of
        Inl _ \<Rightarrow> []
      | Inr (ns, name) \<Rightarrow>
          (if ns \<noteq> sc_providerNamespace W then []
           else case sc_serviceNamespaces W ns name of
                  Inl _ \<Rightarrow> []
                | Inr sn \<Rightarrow>
                    (if sn_Namespace sn = '''' then []
                     else case sc_providerList W (sn_Status_Namespace sn) of
                            Inl _ \<Rightarrow> []
                          | Inr objs \<Rightarrow> map (objectKey W) objs)))"

definition claimed_process :: "sync_clients \<Rightarrow> calls \<Rightarrow> string \<Rightarrow> outcome" where
  "claimed_process W l key =
     (case splitMetaNamespaceKey (sc_keys W) key of
        Inl _ \<Rightarrow> (None, l)
      | Inr (ns, name) \<Rightarrow> claimed_reconcile (claimed_wiring W) l ns name)"

section \<open>Objects of a tenant\<close>

lemma toUpstream_Inr:
  assumes "toUpstream W obj = Inr up"
  shows "u_name up = Prepend (u_name obj) (sc_providerNamespace W)"
    and "fmlookup (annotationsOf up) ClusterNsAnnotationKey = Some (sc_providerNamespace W)"
    and "u_namespace up = u_namespace obj"
  using assms
  by (auto simp: toUpstream_def translated_def TranslateFromDownstream_def InjectClusterNs_cases
      SwitchToUpstreamName_def annotationsOf_def split: sum.splits option.splits if_splits)

lemma toDownstream_Inr:
  assumes "toDownstream obj = Inr down"
  obtains ns where "fmlookup (annotationsOf obj) ClusterNsAnnotationKey = Some ns"
    "u_name down = Behead (u_name obj) ns" "u_namespace down = u_namespace obj" "u_spec down = u_spec obj"
  using assms that
  by (auto simp: toDownstream_def translated_def TranslateFromUpstream_def ExtractClusterNs_def
      SwitchToDownstreamName_def ClearClusterNs_def Let_def split: sum.splits option.splits)

lemma toDownstream_total:
  assumes "fmlookup (annotationsOf obj) ClusterNsAnnotationKey = Some ns"
  shows "\<exists>down. toDownstream obj = Inr down \<and> u_name down = Behead (u_name obj) ns \<and> u_spec down = u_spec obj"
  using assms
  by (simp add: toDownstream_def translated_def TranslateFromUpstream_def ExtractClusterNs_def
      SwitchToDownstreamName_def ClearClusterNs_def Let_def split: option.split)

definition tenantObject :: "sync_clients \<Rightarrow> unstructured \<Rightarrow> bool" where
  "tenantObject W obj \<longleftrightarrow> HasPrefix (u_name obj) (sc_providerNamespace W @ ''-'') \<and>
     fmlookup (annotationsOf obj) ClusterNsAnnotationKey = Some (sc_providerNamespace W)"

lemma HasPrefix_Prepend [simp]: "HasPrefix (Prepend name ns) (ns @ ''-'')"
  using HasPrefix_append [of "ns @ ''-''" name] by (simp add: Prepend_def)

lemma toUpstream_tenantObject: "toUpstream W obj = Inr up \<Longrightarrow> tenantObject W up"
  by (simp add: tenantObject_def toUpstream_Inr)

text \<open>A request that stays with the tenant: what it writes at the provider has the tenant's prefix.\<close>

fun ofTenant :: "sync_clients \<Rightarrow> api_request \<Rightarrow> bool" where
  "ofTenant W (ApiCreate ProviderSide obj) = tenantObject W obj"
| "ofTenant W (ApiUpdate ProviderSide obj) = tenantObject W obj"
| "ofTenant W (ApiApply ProviderSide obj) = tenantObject W obj"
| "ofTenant W (ApiUpdateStatus ProviderSide obj) = tenantObject W obj"
| "ofTenant W (ApiDelete ProviderSide ns name) = (ns = '''' \<and> HasPrefix name (sc_providerNamespace W @ ''-''))"
| "ofTenant W (ApiCreateServiceNamespace sn) = False"
| "ofTenant W rq = True"

text \<open>A request that stays in one namespace of the provider.\<close>

fun inNamespaceOf :: "string \<Rightarrow> api_request \<Rightarrow> bool" where
  "inNamespaceOf ns (ApiCreate ProviderSide obj) = (u_namespace obj = ns)"
| "inNamespaceOf ns (ApiUpdate ProviderSide obj) = (u_namespace obj = ns)"
| "inNamespaceOf ns (ApiApply ProviderSide obj) = (u_namespace obj = ns)"
| "inNamespaceOf ns (ApiUpdateStatus ProviderSide obj) = (u_namespace obj = ns)"
| "inNamespaceOf ns (ApiDelete ProviderSide ns' name) = (ns' = ns)"
| "inNamespaceOf ns (ApiCreateServiceNamespace sn) = False"
| "inNamespaceOf ns rq = True"

text \<open>The namespace that a call of the spec syncer addresses at the provider.\<close>

fun callIn :: "string \<Rightarrow> call \<Rightarrow> bool" where
  "callIn ns (CreateProviderObject obj) = (u_namespace obj = ns)"
| "callIn ns (UpdateProviderObject obj) = (u_namespace obj = ns)"
| "callIn ns (DeleteProviderObject ns' name) = (ns' = ns)"
| "callIn ns (GetServiceNamespace n) = True"
| "callIn ns (GetProviderObject ns' name) = True"
| "callIn ns (UpdateConsumerObject obj) = True"
| "callIn ns c = False"

lemma callIn_ofTenant:
  assumes "callIn '''' c"
  shows "list_all (ofTenant W) (spec_api W c)"
  using assms
  by (cases c) (auto simp: spec_createProviderObject_def spec_updateProviderObject_def writeUpstream_def
      writeTranslated_def spec_deletedName_def toUpstream_tenantObject split: sum.splits)

lemma callIn_inNamespaceOf:
  assumes "callIn ns c" "ns \<noteq> ''''"
  shows "list_all (inNamespaceOf ns) (spec_api W c)"
  using assms
  by (cases c) (auto simp: spec_createProviderObject_def spec_updateProviderObject_def writeUpstream_def
      writeTranslated_def)

lemma apiRequests_all:
  assumes "\<And>c. c \<in> set l \<Longrightarrow> list_all P (api c)"
  shows "list_all P (apiRequests api l)"
  using assms by (auto simp: apiRequests_def list_all_iff)

section \<open>The spec syncer keeps to one namespace\<close>

text \<open>What the lookups of the provider are relied on for: they answer an object of the namespace asked for.\<close>

definition answersNamespace :: "sync_clients \<Rightarrow> bool" where
  "answersNamespace W \<longleftrightarrow> (\<forall>l ns name obj. sc_providerGet W l ns name = Inr obj \<longrightarrow> u_namespace obj = ns)"

definition answersIn :: "sync_reconciler \<Rightarrow> string \<Rightarrow> bool" where
  "answersIn R ns \<longleftrightarrow> (\<forall>l name obj. getProviderObject R l ns name = Inr obj \<longrightarrow> u_namespace obj = ns)"

lemma spec_upstream_callIn:
  assumes "spec_upstream R l ns obj = (r, l')" "answersIn R ns"
  shows "\<exists>m. l' = l @ m \<and> list_all (callIn ns) m" and "r = Inr (obj', up) \<Longrightarrow> u_namespace up = ns"
  using assms
  by (auto simp: spec_upstream_def answersIn_def finalizer_defs upstreamCopy_clean Let_def
      split: sum.splits if_splits)

lemma spec_sync_callIn:
  assumes "u_namespace up = ns"
  shows "\<exists>m. snd (spec_sync R l ns obj up) = l @ m \<and> list_all (callIn ns) m"
  using assms
  by (auto simp: spec_sync_def finalizer_defs withSpecOf_def Let_def split: option.splits sum.splits)

lemma spec_rest_callIn:
  assumes "spec_namespace R l obj = (Inr ns, l1)" "answersIn R ns"
  shows "\<exists>m. snd (spec_reconcile R l obj) = l1 @ m \<and> list_all (callIn ns) m"
proof -
  obtain r l2 where 2: "spec_upstream R l1 ns obj = (r, l2)" by fastforce
  obtain m where m: "l2 = l1 @ m" "list_all (callIn ns) m"
    using spec_upstream_callIn(1) [OF 2 assms(2)] by blast
  show ?thesis
  proof (cases r)
    case (Inl ret)
    with assms(1) 2 m show ?thesis by (simp add: spec_reconcile_def)
  next
    case (Inr p)
    obtain obj' up where p: "p = (obj', up)" by fastforce
    have "u_namespace up = ns"
      using spec_upstream_callIn(2) [OF 2 assms(2)] Inr p by simp
    from spec_sync_callIn [OF this, of R l2 obj'] obtain m'
      where "snd (spec_sync R l2 ns obj' up) = l2 @ m'" "list_all (callIn ns) m'" by blast
    with assms(1) 2 m Inr p show ?thesis
      by (intro exI [of _ "m @ m'"]) (simp add: spec_reconcile_def)
  qed
qed

lemma spec_wiring_answersIn:
  assumes "answersNamespace W"
  shows "answersIn (spec_wiring W) ns"
  using assms
  by (auto simp: answersIn_def answersNamespace_def spec_wiring_def spec_getProviderObject_def split: sum.splits if_splits
      elim!: toDownstream_Inr)

lemma spec_cluster_callIn:
  assumes "answersNamespace W"
    and "u_namespace obj = ''''"
  shows "\<exists>m. snd (spec_reconcile (spec_wiring W) l obj) = l @ m \<and> list_all (callIn '''') m"
  using spec_rest_callIn [of "spec_wiring W" l obj "''''" l] spec_wiring_answersIn [OF assms(1), where ns = "''''"] assms(2)
  by (simp add: spec_namespace_def)

lemma spec_namespaced_callIn:
  assumes "answersNamespace W"
    and "u_namespace obj \<noteq> ''''" "sc_serviceNamespaces W (sc_providerNamespace W) (u_namespace obj) = Inr sn"
    and "sn_Status_Namespace sn \<noteq> ''''"
  shows "\<exists>m. snd (spec_reconcile (spec_wiring W) l obj) = l @ m \<and> list_all (callIn (sn_Status_Namespace sn)) m"
proof -
  have "spec_namespace (spec_wiring W) l obj =
      (Inr (sn_Status_Namespace sn), l @ [GetServiceNamespace (u_namespace obj)])"
    using assms(2-) by (simp add: spec_namespace_def spec_wiring_def)
  from spec_rest_callIn [OF this spec_wiring_answersIn [OF assms(1)]] obtain m
    where "snd (spec_reconcile (spec_wiring W) l obj) = (l @ [GetServiceNamespace (u_namespace obj)]) @ m"
      "list_all (callIn (sn_Status_Namespace sn)) m" by blast
  then show ?thesis
    by (intro exI [of _ "GetServiceNamespace (u_namespace obj) # m"]) simp
qed

section \<open>Keys of the two sides\<close>

text \<open>\<open>MetaNamespaceKeyFunc\<close> and \<open>SplitMetaNamespaceKey\<close> on an object without namespace.\<close>

definition clusterKeys :: "keyfuncs \<Rightarrow> bool" where
  "clusterKeys K \<longleftrightarrow>
     (\<forall>name. plainName name \<longrightarrow>
        metaKey K '''' name = name \<and> splitMetaNamespaceKey K name = Inr ('''', name))"

lemma Sprintf_key [simp]: "Sprintf ''%s/%s'' [FStr ns, FStr name] = ns @ ''/'' @ name"
  by simp

lemma find_unique:
  assumes "x \<in> set xs" "P x" "\<And>y. y \<in> set xs \<Longrightarrow> P y \<Longrightarrow> y = x"
  shows "List.find P xs = Some x"
proof (cases "List.find P xs")
  case None
  then show ?thesis
    using assms(1,2) by (simp add: find_None_iff)
next
  case (Some y)
  then have "y \<in> set xs" "P y"
    by (auto simp: find_Some_iff)
  with assms(3) Some show ?thesis by simp
qed

text \<open>The tenant's APIServiceNamespace of a namespace at the provider, and no other.\<close>

definition onlyServiceNamespace :: "sync_clients \<Rightarrow> APIServiceNamespace set \<Rightarrow> APIServiceNamespace \<Rightarrow> bool" where
  "onlyServiceNamespace W cached sn \<longleftrightarrow>
     indexes cached (sc_serviceNamespaceIndex W) \<and> sn \<in> cached \<and>
     sn_Namespace sn = sc_providerNamespace W \<and> plainName (sn_Status_Namespace sn) \<and> plainName (sn_Name sn) \<and>
     (\<forall>x\<in>cached. sn_Namespace x = sc_providerNamespace W \<longrightarrow> sn_Status_Namespace x = sn_Status_Namespace sn \<longrightarrow> x = sn) \<and>
     sc_serviceNamespaces W (sc_providerNamespace W) (sn_Name sn) = Inr sn"

lemma tenantServiceNamespace_only:
  assumes "onlyServiceNamespace W cached sn"
  shows "tenantServiceNamespace W (sn_Status_Namespace sn) = Some sn"
  unfolding tenantServiceNamespace_def
proof (rule find_unique)
  have ix: "set (sc_serviceNamespaceIndex W IndexServiceNamespaceByNamespace (sn_Status_Namespace sn)) =
      {x \<in> cached. sn_Status_Namespace sn \<in> set (IndexServiceNamespaceByNamespace x)}"
    using assms by (simp add: onlyServiceNamespace_def indexes_def)
  have ne: "sn_Status_Namespace sn \<noteq> ''''"
    using assms by (simp add: onlyServiceNamespace_def plainName_def)
  show "sn \<in> set (sc_serviceNamespaceIndex W IndexServiceNamespaceByNamespace (sn_Status_Namespace sn))"
    using assms ne unfolding ix by (simp add: onlyServiceNamespace_def IndexServiceNamespaceByNamespace_def)
  show "sn_Namespace sn = sc_providerNamespace W"
    using assms by (simp add: onlyServiceNamespace_def)
  fix y
  assume "y \<in> set (sc_serviceNamespaceIndex W IndexServiceNamespaceByNamespace (sn_Status_Namespace sn))"
    and y: "sn_Namespace y = sc_providerNamespace W"
  then have "y \<in> cached" and "sn_Status_Namespace sn \<in> set (IndexServiceNamespaceByNamespace y)"
    unfolding ix by blast+
  moreover from this(2) have "sn_Status_Namespace y = sn_Status_Namespace sn"
    by (simp add: IndexServiceNamespaceByNamespace_def split: if_splits)
  ultimately show "y = sn"
    using assms y unfolding onlyServiceNamespace_def by blast
qed

lemma enqueue_namespaced:
  assumes "keysSplit (sc_keys W)" "onlyServiceNamespace W cached sn" "plainName name"
  shows "spec_enqueueProvider W (metaKey (sc_keys W) (sn_Status_Namespace sn) name) =
           [metaKey (sc_keys W) (sn_Name sn) name]"
    and "status_enqueueConsumer W (metaKey (sc_keys W) (sn_Name sn) name) =
           [metaKey (sc_keys W) (sn_Status_Namespace sn) name]"
proof -
  have p: "plainName (sn_Status_Namespace sn)" "plainName (sn_Name sn)" "sn_Namespace sn = sc_providerNamespace W"
      "sc_serviceNamespaces W (sc_providerNamespace W) (sn_Name sn) = Inr sn"
    using assms(2) by (simp_all add: onlyServiceNamespace_def)
  have ne: "sn_Status_Namespace sn \<noteq> ''''" "sn_Name sn \<noteq> ''''"
    using p(1,2) by (simp_all add: plainName_def)
  have k: "metaKey (sc_keys W) ns name = ns @ ''/'' @ name"
      "splitMetaNamespaceKey (sc_keys W) (metaKey (sc_keys W) ns name) = Inr (ns, name)" if "plainName ns" for ns
    using assms(1,3) that unfolding keysSplit_def by blast+
  show "spec_enqueueProvider W (metaKey (sc_keys W) (sn_Status_Namespace sn) name) =
           [metaKey (sc_keys W) (sn_Name sn) name]"
    unfolding spec_enqueueProvider_def k(2) [OF p(1)] k(1) [OF p(2)] tenantServiceNamespace_only [OF assms(2)]
      sum.case prod.case option.case Sprintf_key
    by (simp only: ne not_False_eq_True if_True)
  show "status_enqueueConsumer W (metaKey (sc_keys W) (sn_Name sn) name) =
           [metaKey (sc_keys W) (sn_Status_Namespace sn) name]"
    unfolding status_enqueueConsumer_def enqueueConsumerAs_def k(2) [OF p(2)] k(1) [OF p(1)] p(4)
      sum.case prod.case option.case Sprintf_key
    by (simp only: ne p(3) not_False_eq_True if_True simp_thms)
qed

lemma plainName_Prepend: "plainName name \<Longrightarrow> plainName ns \<Longrightarrow> plainName (Prepend name ns)"
  by (auto simp: plainName_def Prepend_def)

lemma enqueue_cluster:
  assumes "clusterKeys (sc_keys W)" "plainName name" "plainName (sc_providerNamespace W)"
  shows "spec_enqueueProvider W (Prepend name (sc_providerNamespace W)) = [name]"
    and "status_enqueueConsumer W name = [Prepend name (sc_providerNamespace W)]"
proof -
  have k: "splitMetaNamespaceKey (sc_keys W) n = Inr ('''', n)" if "plainName n" for n
    using assms(1) that by (simp add: clusterKeys_def)
  have "Prepend name (sc_providerNamespace W) \<noteq> name"
    by (simp add: Prepend_def)
  then show "spec_enqueueProvider W (Prepend name (sc_providerNamespace W)) = [name]"
    using k [OF plainName_Prepend [OF assms(2,3)]] by (simp add: spec_enqueueProvider_def)
  show "status_enqueueConsumer W name = [Prepend name (sc_providerNamespace W)]"
    using k [OF assms(2)] by (simp add: status_enqueueConsumer_def enqueueConsumerAs_def)
qed

section \<open>From an event to the object behind it\<close>

lemma spec_upstream_looks_up:
  "\<exists>m. snd (spec_upstream R l ns obj) = l @ GetProviderObject ns (u_name obj) # m"
  by (auto simp: spec_upstream_def finalizer_defs Let_def split: sum.splits)

lemma spec_looks_up:
  assumes "spec_namespace R l obj = (Inr ns, l1)"
  shows "GetProviderObject ns (u_name obj) \<in> set (snd (spec_reconcile R l obj))"
proof -
  obtain r l2 where 2: "spec_upstream R l1 ns obj = (r, l2)" by fastforce
  with spec_upstream_looks_up [of R l1 ns obj] have g: "GetProviderObject ns (u_name obj) \<in> set l2" by auto
  show ?thesis
  proof (cases r)
    case (Inr p)
    obtain obj' up where p: "p = (obj', up)" by fastforce
    have "\<exists>m. snd (spec_sync R l2 ns obj' up) = l2 @ m"
      using sync_nocreate by blast
    with assms 2 g Inr p show ?thesis by (auto simp: spec_reconcile_def)
  qed (use assms 2 g in \<open>simp add: spec_reconcile_def\<close>)
qed

lemma spec_process_found:
  assumes "splitMetaNamespaceKey (sc_keys W) key = Inr (ns, name)" "consumerLister W l ns name = Inr obj"
  shows "spec_process W l key = spec_reconcile (spec_wiring W) l obj"
  using assms by (simp add: spec_process_def readObject_def)

section \<open>The wrong object\<close>

text \<open>
  The adopter, on an object of the tenant whose copy at the consumer is marked already: the update that marks the provider
  object goes to the consumer cluster, in the namespace of the provider.
\<close>

lemma adopt_marks:
  assumes "u_namespace obj = ns" "ns \<noteq> ''''" "serviceNamespaceOf W ns = Inr sn" "sn_Status_Namespace sn \<noteq> ''''"
    and "sc_consumerGetNamespaced W [GetServiceNamespace ns] (sn_Name sn) (u_name obj) = Inr c" "sn_Name sn \<noteq> ''''"
    and "fmlookup (annotationsOf c) boundKey = Some ''true''"
    and "annotationsOf (InjectBoundAnnotation obj) \<noteq> annotationsOf c"
  shows "apiRequests (adopt_api W) (snd (adopt_reconcile (adopt_wiring W) [] obj)) =
    [ApiUpdate ConsumerSide (InjectBoundAnnotation obj)]"
proof -
  have ns: "consumerNamespace (adopt_wiring W) [] ns = (Inr (sn_Name sn), [GetServiceNamespace ns])"
    using assms by (simp add: consumerNamespace_def adopt_wiring_def)
  have get: "getConsumerObject (adopt_wiring W) [GetServiceNamespace ns] (sn_Name sn) (u_name obj) = Inr c"
    using assms by (simp add: adopt_wiring_def translating_getConsumerObject_def)
  have "snd (adopt_mark (adopt_wiring W) l obj c) = l @ [UpdateProviderObject (InjectBoundAnnotation obj)]" for l
    using adopt_mark_requests [of "adopt_wiring W" l obj c] assms(7,8) by simp
  then have "snd (adopt_reconcile (adopt_wiring W) [] obj) =
      [GetServiceNamespace ns, GetConsumerObject (sn_Name sn) (u_name obj), UpdateProviderObject (InjectBoundAnnotation obj)]"
    using ns get assms(1) by (simp add: adopt_reconcile_def)
  then show ?thesis
    using assms(1,2) by (simp add: apiRequests_def adopt_updateProviderObject_def writeUpstream_def writeTranslated_def)
qed

text \<open>A cluster-scoped object of another tenant that is not bound yet: the adopter creates it at its own consumer.\<close>

lemma adoptCandidate_annotation:
  "fmlookup (annotationsOf (adoptCandidate ns obj)) ClusterNsAnnotationKey = fmlookup (annotationsOf obj) ClusterNsAnnotationKey"
  by (simp add: adoptCandidate_def InjectBoundAnnotation_def ClusterNsAnnotationKey_def boundKey_def annotationsOf_def)

lemma adopt_foreign:
  assumes "splitMetaNamespaceKey (sc_keys W) key = Inr ('''', name)" "sc_providerGet W [] '''' name = Inr obj"
    and "u_name obj = name" "u_namespace obj = ''''"
    and "fmlookup (annotationsOf obj) ClusterNsAnnotationKey = Some other" "fmlookup (annotationsOf obj) boundKey = None"
    and "sc_consumerGet W [] (Behead name (sc_providerNamespace W)) = Inl e" "IsNotFound e"
  shows "\<exists>new. apiRequests (adopt_api W) (snd (adopt_process W [] key)) = [ApiCreate ConsumerSide new] \<and>
    u_name new = Behead name other \<and> u_spec new = u_spec obj"
proof -
  let ?c = "adoptCandidate '''' obj"
  have "getConsumerObject (adopt_wiring W) [] '''' name = Inl e"
    using assms(7) by (simp add: adopt_wiring_def translating_getConsumerObject_def)
  moreover have "\<not> hasBoundAnnotation obj"
    using assms(6) by (simp add: hasBoundAnnotation_iff)
  ultimately have run: "snd (adopt_process W [] key) = [GetConsumerObject '''' name, CreateConsumerObject ?c]"
    using assms(1-4,8)
    by (simp add: adopt_process_def provider_process_def adopt_reconcile_def consumerNamespace_def Let_def)
  have "fmlookup (annotationsOf ?c) ClusterNsAnnotationKey = Some other"
    using assms(5) by (simp add: adoptCandidate_annotation)
  from toDownstream_total [OF this] obtain new where
    "toDownstream ?c = Inr new" "u_name new = Behead (u_name ?c) other" "u_spec new = u_spec ?c" by blast
  then show ?thesis
    using run assms(3)
    by (simp add: apiRequests_def adopt_createConsumerObject_def writeDownstream_def writeTranslated_def
        adoptCandidate_frame)
qed

text \<open>
  The status syncer, when the provider object is gone: it looks for the consumer object under the namespace of the
  provider, and does nothing when there is none.
\<close>

lemma status_vanished:
  assumes "splitMetaNamespaceKey (sc_keys W) key = Inr (ns, name)" "sc_providerGet W l ns name = Inl e" "IsNotFound e"
    and "sc_consumerGetNamespaced W l ns name = Inl e'" "IsNotFound e'"
  shows "status_process W l key = (None, l)"
  using assms by (simp add: status_process_def provider_process_def)

text \<open>The namespaces of a claim are not looked at.\<close>

lemma isClaimed_any_namespace:
  "isClaimed (Some (s\<lparr>rs_Namespaces := ns\<rparr>)) (obj\<lparr>u_namespace := n\<rparr>) = isClaimed (Some s) obj"
  by (simp add: isClaimed_def ownerAnnotation_def annotationsOf_def)

end
