(* ===== verification/Multi_Informer.thy ===== *)
theory Multi_Informer
  imports Konnector_Process
begin

text \<open>
  The two informers that the konnector adds to those of client-go.

  \<^item> \<open>bind/pkg/konnector/controllers/dynamic/eventhandler.go\<close>: handlers that can be removed again from a shared
    informer. \<open>dyn_informer\<close> has the counter and the map of the struct, \<open>AddDynamicEventHandler\<close> registers a handler, and
    \<open>handlerDone\<close> is the goroutine that waits for the end of its context.
  \<^item> \<open>bind/pkg/konnector/controllers/cluster/serviceexport/multinsinformer/informer.go\<close>: one informer per
    APIServiceNamespace of a tenant, started and stopped by the events of the APIServiceNamespaces.
    \<open>multi_informer\<close> has the maps and the handlers of the struct. A cancel function is the number of the context that it
    cancels; \<open>mi_contexts\<close> counts the contexts made so far, and \<open>mi_cancelled\<close> are the cancelled ones. The locks make every
    method one step. A method that dereferences a nil pointer returns \<open>None\<close>.

  \<open>mi_step\<close> is the state machine of the events, of the registrations and of the end of the context of \<open>Start\<close>, which is the
  flag beside the informer: after it the handler of the events is still registered for a while, so that events may follow. Its
  reachable states keep every handler on every informer and leak no informer up to the end of that context. The lemmas also
  show what an event after it leaks, when an event panics, and what becomes of a service namespace whose status changes.
\<close>

section \<open>Handlers that can be removed\<close>

record 'h dyn_informer =
  di_counter :: nat
  di_handlers :: "(string, 'h) fmap"

definition NewDynamicInformer :: "'h dyn_informer" where
  "NewDynamicInformer = \<lparr>di_counter = 0, di_handlers = fmempty\<rparr>"

definition dynamicName :: "string \<Rightarrow> nat \<Rightarrow> string" where
  "dynamicName handlerName counter = Sprintf ''%s-%d'' [FStr handlerName, FInt (int counter)]"

text \<open>The result is the informer, the name that the handler got, and the objects it is told as added.\<close>

definition AddDynamicEventHandler ::
  "'o list \<Rightarrow> 'h dyn_informer \<Rightarrow> string \<Rightarrow> 'h \<Rightarrow> 'h dyn_informer \<times> string \<times> ('h \<times> 'o) list" where
  "AddDynamicEventHandler store D handlerName h =
     (let name = dynamicName handlerName (di_counter D)
      in (D\<lparr>di_counter := di_counter D + 1, di_handlers := fmupd name h (di_handlers D)\<rparr>, name,
          map (\<lambda>obj. (h, obj)) store))"

definition handlerDone :: "'h dyn_informer \<Rightarrow> string \<Rightarrow> 'h dyn_informer" where
  "handlerDone D name = D\<lparr>di_handlers := fmdrop name (di_handlers D)\<rparr>"

text \<open>The handlers that an event of the informer reaches.\<close>

definition notified :: "'h dyn_informer \<Rightarrow> 'h fset" where
  "notified D = fmran (di_handlers D)"

section \<open>One informer per namespace\<close>

record ns_informer =
  ni_Namespace :: string
  ni_Handlers :: "nat list"
  ni_Context :: nat

record multi_informer =
  mi_providerNamespace :: string
  mi_namespaceInformers :: "(string, ns_informer) fmap"
  mi_namespaceCancel :: "(string, nat) fmap"
  mi_handlers :: "nat list"
  mi_contexts :: nat
  mi_cancelled :: "nat list"

definition NewDynamicMultiNamespaceInformer :: "string \<Rightarrow> multi_informer" where
  "NewDynamicMultiNamespaceInformer ns =
     \<lparr>mi_providerNamespace = ns, mi_namespaceInformers = fmempty, mi_namespaceCancel = fmempty,
      mi_handlers = [], mi_contexts = 0, mi_cancelled = []\<rparr>"

definition startInformer :: "string \<Rightarrow> string \<Rightarrow> multi_informer \<Rightarrow> multi_informer" where
  "startInformer name ns M =
     M\<lparr>mi_namespaceCancel := fmupd name (mi_contexts M) (mi_namespaceCancel M),
       mi_namespaceInformers :=
         fmupd name \<lparr>ni_Namespace = ns, ni_Handlers = mi_handlers M, ni_Context = mi_contexts M\<rparr>
           (mi_namespaceInformers M),
       mi_contexts := mi_contexts M + 1\<rparr>"

definition stopInformer :: "string \<Rightarrow> nat \<Rightarrow> multi_informer \<Rightarrow> multi_informer" where
  "stopInformer name ctx M =
     M\<lparr>mi_namespaceCancel := fmdrop name (mi_namespaceCancel M),
       mi_namespaceInformers := fmdrop name (mi_namespaceInformers M),
       mi_cancelled := mi_cancelled M @ [ctx]\<rparr>"

text \<open>
  The log line before the informer is stopped reads the status of the APIServiceNamespace, also when the lister had none
  to give: \<open>None\<close>.
\<close>

definition mi_enqueueServiceNamespace ::
  "keyfuncs \<Rightarrow> APIServiceNamespace lister \<Rightarrow> multi_informer \<Rightarrow> string \<Rightarrow> multi_informer option" where
  "mi_enqueueServiceNamespace K L M key =
     (case splitMetaNamespaceKey K key of
        Inl _ \<Rightarrow> Some M
      | Inr (ns, name) \<Rightarrow>
          (if ns \<noteq> mi_providerNamespace M then Some M
           else case L ns name of
                  Inl e \<Rightarrow>
                    (if \<not> IsNotFound e then Some M
                     else case fmlookup (mi_namespaceCancel M) name of None \<Rightarrow> Some M | Some _ \<Rightarrow> None)
                | Inr sns \<Rightarrow>
                    (if sn_Status_Namespace sns = ''''
                     then (case fmlookup (mi_namespaceCancel M) name of
                             None \<Rightarrow> Some M
                           | Some ctx \<Rightarrow> Some (stopInformer name ctx M))
                     else if fmlookup (mi_namespaceCancel M) name \<noteq> None then Some M
                     else Some (startInformer name (sn_Status_Namespace sns) M))))"

definition AddEventHandler :: "nat \<Rightarrow> multi_informer \<Rightarrow> multi_informer" where
  "AddEventHandler h M =
     M\<lparr>mi_namespaceInformers := fmmap (\<lambda>i. i\<lparr>ni_Handlers := ni_Handlers i @ [h]\<rparr>) (mi_namespaceInformers M),
       mi_handlers := mi_handlers M @ [h]\<rparr>"

text \<open>The goroutine of \<open>Start\<close> at the end of its context; the maps stay.\<close>

definition mi_done :: "multi_informer \<Rightarrow> multi_informer" where
  "mi_done M = M\<lparr>mi_cancelled := mi_cancelled M @ sorted_list_of_fset (fmran (mi_namespaceCancel M))\<rparr>"

text \<open>\<open>Get\<close> and \<open>List\<close>, for the stores of the informers.\<close>

definition notFoundError :: "string \<Rightarrow> apierr" where
  "notFoundError name = \<lparr>reason = NotFound, error_text = name\<rparr>"

definition multipleError :: "string \<Rightarrow> apierr" where
  "multipleError ns = \<lparr>reason = OtherReason '''',
     error_text = Sprintf ''unexpected multiple APIServiceNamespaces for namespace %s'' [FStr ns]\<rparr>"

definition mi_Get ::
  "APIServiceNamespace indexer \<Rightarrow> (ns_informer \<Rightarrow> unstructured lister) \<Rightarrow> multi_informer \<Rightarrow> unstructured lister" where
  "mi_Get ix store M ns name =
     (case ix IndexServiceNamespaceByNamespace ns of
        [] \<Rightarrow> Inl (notFoundError name)
      | [sns] \<Rightarrow>
          (case fmlookup (mi_namespaceInformers M) (sn_Name sns) of
             None \<Rightarrow> Inl (notFoundError name)
           | Some i \<Rightarrow> store i ns name)
      | _ \<Rightarrow> Inl (multipleError ns))"

definition mi_List ::
  "APIServiceNamespace indexer \<Rightarrow> (ns_informer \<Rightarrow> string \<Rightarrow> apierr + unstructured list) \<Rightarrow> multi_informer \<Rightarrow>
     string \<Rightarrow> apierr + unstructured list" where
  "mi_List ix store M ns =
     (case ix IndexServiceNamespaceByNamespace ns of
        [] \<Rightarrow> Inr []
      | [sns] \<Rightarrow>
          (case fmlookup (mi_namespaceInformers M) (sn_Name sns) of
             None \<Rightarrow> Inr []
           | Some i \<Rightarrow> store i ns)
      | _ \<Rightarrow> Inl (multipleError ns))"

text \<open>The condition that \<open>WaitForCacheSync\<close> polls, for the APIServiceNamespaces that it listed.\<close>

definition mi_synced ::
  "APIServiceNamespace lister \<Rightarrow> (ns_informer \<Rightarrow> bool) \<Rightarrow> multi_informer \<Rightarrow> APIServiceNamespace list \<Rightarrow> bool" where
  "mi_synced L hasSynced M snss =
     list_all (\<lambda>sns.
       case fmlookup (mi_namespaceInformers M) (sn_Name sns) of
         None \<Rightarrow> isl (L (mi_providerNamespace M) (sn_Name sns))
       | Some i \<Rightarrow> hasSynced i) snss"

text \<open>\<open>GetterInformerWrapper.Get\<close>: the informer of all namespaces.\<close>

definition wrapper_Get :: "(string \<Rightarrow> apierr + unstructured) \<Rightarrow> unstructured lister \<Rightarrow> unstructured lister" where
  "wrapper_Get cluster namespaced ns name = (if ns \<noteq> '''' then namespaced ns name else cluster name)"

section \<open>The state machine\<close>

inductive mi_step :: "bool \<times> multi_informer \<Rightarrow> bool \<times> multi_informer \<Rightarrow> bool" where
  event: "mi_enqueueServiceNamespace K L M key = Some M' \<Longrightarrow> mi_step (ended, M) (ended, M')"
| handler: "mi_step (ended, M) (ended, AddEventHandler h M)"
| ctxDone: "mi_step (False, M) (True, mi_done M)"

inductive mi_reachable :: "string \<Rightarrow> bool \<times> multi_informer \<Rightarrow> bool" for ns where
  new: "mi_reachable ns (False, NewDynamicMultiNamespaceInformer ns)"
| step: "mi_reachable ns s \<Longrightarrow> mi_step s s' \<Longrightarrow> mi_reachable ns s'"

inductive_cases mi_stepE: "mi_step (ended, M) s'"

text \<open>The contexts that are made and not cancelled, and those that a cancel function is kept for.\<close>

definition mi_running :: "multi_informer \<Rightarrow> nat set" where
  "mi_running M = {c. c < mi_contexts M \<and> c \<notin> set (mi_cancelled M)}"

definition mi_kept :: "multi_informer \<Rightarrow> nat set" where
  "mi_kept M = {c. \<exists>name. fmlookup (mi_namespaceCancel M) name = Some c}"

text \<open>
  Every informer has all handlers, the two maps belong together, and a cancel function is kept for every context that
  runs; until the end of the context of \<open>Start\<close> those are the only ones kept.
\<close>

definition mi_inv :: "bool \<times> multi_informer \<Rightarrow> bool" where
  "mi_inv s \<longleftrightarrow> (case s of (ended, M) \<Rightarrow>
     (\<forall>name. map_option ni_Context (fmlookup (mi_namespaceInformers M) name) = fmlookup (mi_namespaceCancel M) name) \<and>
     (\<forall>name i. fmlookup (mi_namespaceInformers M) name = Some i \<longrightarrow> ni_Handlers i = mi_handlers M \<and> ni_Namespace i \<noteq> '''') \<and>
     mi_running M \<subseteq> mi_kept M \<and> (\<forall>c\<in>mi_kept M. c < mi_contexts M) \<and> (\<not> ended \<longrightarrow> mi_kept M \<subseteq> mi_running M) \<and>
     (\<forall>n n' c. fmlookup (mi_namespaceCancel M) n = Some c \<longrightarrow> fmlookup (mi_namespaceCancel M) n' = Some c \<longrightarrow> n = n') \<and>
     (\<forall>c\<in>set (mi_cancelled M). c < mi_contexts M))"

lemma mi_inv_new: "mi_inv (False, NewDynamicMultiNamespaceInformer ns)"
  by (simp add: mi_inv_def mi_running_def mi_kept_def NewDynamicMultiNamespaceInformer_def)

text \<open>The parts of the invariant, for the steps that change the maps.\<close>

lemma mi_invD:
  assumes "mi_inv (ended, M)"
  shows "map_option ni_Context (fmlookup (mi_namespaceInformers M) name) = fmlookup (mi_namespaceCancel M) name"
    and "fmlookup (mi_namespaceInformers M) name = Some i \<Longrightarrow> ni_Handlers i = mi_handlers M \<and> ni_Namespace i \<noteq> ''''"
    and "mi_running M \<subseteq> mi_kept M" and "c \<in> mi_kept M \<Longrightarrow> c < mi_contexts M"
    and "\<not> ended \<Longrightarrow> mi_kept M \<subseteq> mi_running M"
    and "fmlookup (mi_namespaceCancel M) n = Some c \<Longrightarrow> fmlookup (mi_namespaceCancel M) n' = Some c \<Longrightarrow> n = n'"
    and "c \<in> set (mi_cancelled M) \<Longrightarrow> c < mi_contexts M"
  using assms unfolding mi_inv_def prod.case by blast+

lemma start_sets:
  assumes "fmlookup (mi_namespaceCancel M) name = None" and "\<forall>c\<in>set (mi_cancelled M). c < mi_contexts M"
  shows "mi_running (startInformer name ns M) = insert (mi_contexts M) (mi_running M)"
    and "mi_kept (startInformer name ns M) = insert (mi_contexts M) (mi_kept M)"
proof -
  show "mi_running (startInformer name ns M) = insert (mi_contexts M) (mi_running M)"
    using assms(2) by (auto simp: mi_running_def startInformer_def less_Suc_eq)
  show "mi_kept (startInformer name ns M) = insert (mi_contexts M) (mi_kept M)"
  proof (rule set_eqI)
    fix c
    show "c \<in> mi_kept (startInformer name ns M) \<longleftrightarrow> c \<in> insert (mi_contexts M) (mi_kept M)"
      using assms(1) by (simp add: mi_kept_def startInformer_def split: if_splits) (metis option.distinct(1))
  qed
qed

lemma stop_sets:
  assumes "fmlookup (mi_namespaceCancel M) name = Some ctx"
    and "\<And>n. fmlookup (mi_namespaceCancel M) n = Some ctx \<Longrightarrow> n = name"
  shows "mi_running (stopInformer name ctx M) = mi_running M - {ctx}"
    and "mi_kept (stopInformer name ctx M) = mi_kept M - {ctx}"
proof -
  show "mi_running (stopInformer name ctx M) = mi_running M - {ctx}"
    by (auto simp: mi_running_def stopInformer_def)
  have kept: "c \<in> mi_kept (stopInformer name ctx M) \<longleftrightarrow> (\<exists>n. n \<noteq> name \<and> fmlookup (mi_namespaceCancel M) n = Some c)" for c
    by (auto simp: mi_kept_def stopInformer_def)
  show "mi_kept (stopInformer name ctx M) = mi_kept M - {ctx}"
  proof (intro subset_antisym subsetI)
    fix c assume "c \<in> mi_kept (stopInformer name ctx M)"
    then obtain n where n: "n \<noteq> name" "fmlookup (mi_namespaceCancel M) n = Some c" unfolding kept by blast
    have "c \<noteq> ctx"
    proof
      assume "c = ctx"
      with n(2) have "n = name" by (intro assms(2)) simp
      with n(1) show False ..
    qed
    then show "c \<in> mi_kept M - {ctx}" using n(2) by (auto simp: mi_kept_def)
  next
    fix c assume "c \<in> mi_kept M - {ctx}"
    then obtain n where n: "c \<noteq> ctx" "fmlookup (mi_namespaceCancel M) n = Some c" by (auto simp: mi_kept_def)
    then have "n \<noteq> name" using assms(1) by (intro notI) simp
    with n(2) show "c \<in> mi_kept (stopInformer name ctx M)" unfolding kept by blast
  qed
qed

lemma mi_inv_start:
  assumes inv: "mi_inv (ended, M)" and new: "fmlookup (mi_namespaceCancel M) name = None" and ns: "ns \<noteq> ''''"
  shows "mi_inv (ended, startInformer name ns M)"
proof -
  have fresh: "fmlookup (mi_namespaceCancel M) n \<noteq> Some (mi_contexts M)" for n
    using mi_invD(4) [OF inv, of "mi_contexts M"] by (auto simp: mi_kept_def)
  have cancelled: "\<forall>c\<in>set (mi_cancelled M). c < mi_contexts M" using mi_invD(7) [OF inv] by blast
  have ctx: "mi_contexts (startInformer name ns M) = Suc (mi_contexts M)" by (simp add: startInformer_def)
  show ?thesis
    unfolding mi_inv_def prod.case start_sets [OF new cancelled] ctx
  proof (intro conjI)
    show "insert (mi_contexts M) (mi_running M) \<subseteq> insert (mi_contexts M) (mi_kept M)"
      using mi_invD(3) [OF inv] by blast
    show "\<forall>c\<in>insert (mi_contexts M) (mi_kept M). c < Suc (mi_contexts M)"
      using mi_invD(4) [OF inv] less_SucI by blast
    show "\<not> ended \<longrightarrow> insert (mi_contexts M) (mi_kept M) \<subseteq> insert (mi_contexts M) (mi_running M)"
      using mi_invD(5) [OF inv] by blast
  qed (use mi_invD(1,2,6,7) [OF inv] fresh ns in \<open>auto simp: startInformer_def less_SucI\<close>)
qed

lemma mi_inv_stop:
  assumes inv: "mi_inv (ended, M)" and old: "fmlookup (mi_namespaceCancel M) name = Some ctx"
  shows "mi_inv (ended, stopInformer name ctx M)"
proof -
  have lt: "ctx < mi_contexts M"
    using mi_invD(4) [OF inv, of ctx] old by (auto simp: mi_kept_def)
  have sets: "mi_running (stopInformer name ctx M) = mi_running M - {ctx}"
    "mi_kept (stopInformer name ctx M) = mi_kept M - {ctx}"
    using stop_sets [OF old] mi_invD(6) [OF inv] old by blast+
  show ?thesis
    unfolding mi_inv_def prod.case sets
  proof (intro conjI)
    show "mi_running M - {ctx} \<subseteq> mi_kept M - {ctx}" using mi_invD(3) [OF inv] by blast
    show "\<forall>c\<in>mi_kept M - {ctx}. c < mi_contexts (stopInformer name ctx M)"
      using mi_invD(4) [OF inv] by (simp add: stopInformer_def)
    show "\<not> ended \<longrightarrow> mi_kept M - {ctx} \<subseteq> mi_running M - {ctx}" using mi_invD(5) [OF inv] by blast
  qed (use mi_invD(1,2,6,7) [OF inv] lt in \<open>auto simp: stopInformer_def\<close>)
qed

lemma mi_inv_handler: "mi_inv (ended, M) \<Longrightarrow> mi_inv (ended, AddEventHandler h M)"
  unfolding mi_inv_def AddEventHandler_def by (auto simp: option.map_comp comp_def mi_running_def mi_kept_def)

lemma mi_inv_event:
  assumes "mi_inv (ended, M)" "mi_enqueueServiceNamespace K L M key = Some M'"
  shows "mi_inv (ended, M')"
  using assms(2) mi_inv_start [OF assms(1)] mi_inv_stop [OF assms(1)] assms(1)
  by (auto simp: mi_enqueueServiceNamespace_def split: sum.splits option.splits if_splits)

text \<open>The end of the context of \<open>Start\<close> cancels everything that is kept, and so everything that runs.\<close>

lemma done_cancels: "set (mi_cancelled (mi_done M)) = set (mi_cancelled M) \<union> mi_kept M"
  by (auto simp: mi_done_def mi_kept_def fmlookup_ran_iff)

lemma done_same [simp]:
  "mi_namespaceInformers (mi_done M) = mi_namespaceInformers M" "mi_namespaceCancel (mi_done M) = mi_namespaceCancel M"
  "mi_handlers (mi_done M) = mi_handlers M" "mi_contexts (mi_done M) = mi_contexts M" "mi_kept (mi_done M) = mi_kept M"
  by (simp_all add: mi_done_def mi_kept_def)

lemma done_stops:
  assumes "mi_inv (ended, M)"
  shows "mi_running (mi_done M) = {}"
  using mi_invD(3) [OF assms] by (auto simp: mi_running_def done_cancels)

lemma mi_inv_done:
  assumes "mi_inv (ended, M)"
  shows "mi_inv (True, mi_done M)"
  unfolding mi_inv_def prod.case done_stops [OF assms] done_cancels done_same
  using mi_invD [OF assms] by auto

lemma mi_reachable_inv: "mi_reachable ns s \<Longrightarrow> mi_inv s"
proof (induction rule: mi_reachable.induct)
  case (step s s')
  from step.hyps(2) step.IH show ?case
    by (cases rule: mi_step.cases) (auto intro: mi_inv_event mi_inv_handler mi_inv_done)
qed (rule mi_inv_new)

section \<open>An APIServiceNamespace that goes, or moves\<close>

lemma vanished_panics:
  assumes "splitMetaNamespaceKey K key = Inr (mi_providerNamespace M, name)"
    and "L (mi_providerNamespace M) name = Inl e" "IsNotFound e"
  shows "mi_enqueueServiceNamespace K L M key = None \<longleftrightarrow> fmlookup (mi_namespaceCancel M) name \<noteq> None"
  using assms by (auto simp: mi_enqueueServiceNamespace_def split: option.split)

text \<open>While it has a status, the informer of an APIServiceNamespace stays, whatever the status says.\<close>

lemma event_keeps_informer:
  assumes "mi_enqueueServiceNamespace K L M key = Some M'" "fmlookup (mi_namespaceCancel M) name = Some c"
    and "\<And>sn. L (mi_providerNamespace M) name = Inr sn \<Longrightarrow> sn_Status_Namespace sn \<noteq> ''''"
  shows "fmlookup (mi_namespaceInformers M') name = fmlookup (mi_namespaceInformers M) name"
    and "fmlookup (mi_namespaceCancel M') name = Some c"
  using assms
  by (auto simp: mi_enqueueServiceNamespace_def startInformer_def stopInformer_def
      split: sum.splits option.splits if_splits)

section \<open>Names of handlers\<close>

lemma dynamicName_eq: "dynamicName a i = a @ CHR ''-'' # natDigits i"
  by (simp add: dynamicName_def Itoa_def)

lemma digits_no_dash: "CHR ''-'' \<notin> set (natDigits i)"
  using natDigits_digits [of i] isDigit_sign by (auto simp: list_all_iff)

lemma last_segment: "x \<notin> set d \<Longrightarrow> takeWhile (\<lambda>c. c \<noteq> x) (rev (a @ x # d)) = rev d"
  by (simp, subst takeWhile_append2) auto

lemma dynamicName_counter: "dynamicName a i = dynamicName b j \<Longrightarrow> i = j"
  by (metis digitsVal_natDigits digits_no_dash dynamicName_eq last_segment rev_rev_ident)

text \<open>
  The registrations whose context is still open, by number: \<open>live\<close>. The map of the informer represents them.
\<close>

definition represents :: "'h dyn_informer \<Rightarrow> (nat, string \<times> 'h) fmap \<Rightarrow> bool" where
  "represents D live \<longleftrightarrow>
     (\<forall>k n h. fmlookup live k = Some (n, h) \<longrightarrow>
        k < di_counter D \<and> fmlookup (di_handlers D) (dynamicName n k) = Some h) \<and>
     (\<forall>m h. fmlookup (di_handlers D) m = Some h \<longrightarrow> (\<exists>k n. m = dynamicName n k \<and> fmlookup live k = Some (n, h)))"

lemma representsD:
  assumes "represents D live"
  shows "fmlookup live k = Some (n, h) \<Longrightarrow> k < di_counter D \<and> fmlookup (di_handlers D) (dynamicName n k) = Some h"
    and "fmlookup (di_handlers D) m = Some h \<Longrightarrow> \<exists>k n. m = dynamicName n k \<and> fmlookup live k = Some (n, h)"
  using assms unfolding represents_def by blast+

lemma represents_new: "represents NewDynamicInformer fmempty"
  by (simp add: represents_def NewDynamicInformer_def)

lemma represents_add:
  assumes "represents D live" "AddDynamicEventHandler store D name h = (D', m, adds)"
  shows "represents D' (fmupd (di_counter D) (name, h) live)"
proof -
  have D': "di_counter D' = Suc (di_counter D)" "di_handlers D' = fmupd (dynamicName name (di_counter D)) h (di_handlers D)"
    using assms(2) by (auto simp: AddDynamicEventHandler_def Let_def)
  have fresh: "fmlookup live k = Some (n, x) \<Longrightarrow> k \<noteq> di_counter D \<and> dynamicName n k \<noteq> dynamicName name (di_counter D)"
    for k n x
    using representsD(1) [OF assms(1), of k n x] dynamicName_counter by blast
  show ?thesis
    unfolding represents_def D'
  proof (intro conjI allI impI)
    fix k n x
    assume "fmlookup (fmupd (di_counter D) (name, h) live) k = Some (n, x)"
    then show "k < Suc (di_counter D)"
      and "fmlookup (fmupd (dynamicName name (di_counter D)) h (di_handlers D)) (dynamicName n k) = Some x"
      using representsD(1) [OF assms(1), of k n x] fresh [of k n x] by (auto split: if_splits)
  next
    fix q x
    assume "fmlookup (fmupd (dynamicName name (di_counter D)) h (di_handlers D)) q = Some x"
    then show "\<exists>k n. q = dynamicName n k \<and> fmlookup (fmupd (di_counter D) (name, h) live) k = Some (n, x)"
      using representsD(2) [OF assms(1), of q x] fresh by (auto split: if_splits) metis
  qed
qed

lemma represents_done:
  assumes "represents D live" "fmlookup live k = Some (n, h)"
  shows "represents (handlerDone D (dynamicName n k)) (fmdrop k live)"
proof -
  have other: "j \<noteq> k \<Longrightarrow> dynamicName m j \<noteq> dynamicName n k" for j m
    using dynamicName_counter by blast
  show ?thesis
    unfolding represents_def handlerDone_def
  proof (intro conjI allI impI)
    fix j m x
    assume "fmlookup (fmdrop k live) j = Some (m, x)"
    then show "j < di_counter (D\<lparr>di_handlers := fmdrop (dynamicName n k) (di_handlers D)\<rparr>)"
      and "fmlookup (di_handlers (D\<lparr>di_handlers := fmdrop (dynamicName n k) (di_handlers D)\<rparr>)) (dynamicName m j) = Some x"
      using representsD(1) [OF assms(1), of j m x] other [of j m] by (auto split: if_splits)
  next
    fix q x
    assume "fmlookup (di_handlers (D\<lparr>di_handlers := fmdrop (dynamicName n k) (di_handlers D)\<rparr>)) q = Some x"
    then have q: "q \<noteq> dynamicName n k" "fmlookup (di_handlers D) q = Some x"
      by (simp_all split: if_splits)
    from representsD(2) [OF assms(1) q(2)] obtain j m where j: "q = dynamicName m j" "fmlookup live j = Some (m, x)"
      by blast
    with q(1) assms(2) have "j \<noteq> k" by auto
    with j show "\<exists>k' n'. q = dynamicName n' k' \<and> fmlookup (fmdrop k live) k' = Some (n', x)" by auto
  qed
qed

lemma represents_notified:
  assumes "represents D live"
  shows "h |\<in>| notified D \<longleftrightarrow> (\<exists>k n. fmlookup live k = Some (n, h))"
  using representsD [OF assms] unfolding notified_def fmlookup_ran_iff by blast

end
