(* ===== verification/Syncer_Properties.thy ===== *)
theory Syncer_Properties
  imports Sync_Wiring Multi_Informer
begin

text \<open>
  Properties of the syncers together with the clients, keys and informers around them, and of the two informers
  that the konnector adds to those of client-go.
\<close>

section \<open>A tenant for the witnesses\<close>

definition wiredKeys :: keyfuncs where
  "wiredKeys = \<lparr>metaKey = (\<lambda>ns name. if ns = '''' then name else ns @ ''/'' @ name),
     splitMetaNamespaceKey = (\<lambda>key.
       if CHR ''/'' \<in> set key
       then Inr (takeWhile (\<lambda>c. c \<noteq> CHR ''/'') key, tl (dropWhile (\<lambda>c. c \<noteq> CHR ''/'') key))
       else Inr ('''', key))\<rparr>"

lemma takeWhile_no: "x \<notin> set a \<Longrightarrow> takeWhile (\<lambda>c. c \<noteq> x) (a @ x # b) = a"
  by (subst takeWhile_append2) auto

lemma dropWhile_no: "x \<notin> set a \<Longrightarrow> dropWhile (\<lambda>c. c \<noteq> x) (a @ x # b) = x # b"
  by (subst dropWhile_append2) auto

lemma wiredKeys_split: "keysSplit wiredKeys"
  by (auto simp: keysSplit_def wiredKeys_def plainName_def takeWhile_no dropWhile_no)

lemma wiredKeys_cluster: "clusterKeys wiredKeys"
  by (simp add: clusterKeys_def wiredKeys_def plainName_def)

definition missing :: apierr where
  "missing = \<lparr>reason = NotFound, error_text = ''not found''\<rparr>"

definition tenantNamespace :: APIServiceNamespace where
  "tenantNamespace = \<lparr>sn_Name = ''default'', sn_Namespace = ''tenant'', sn_Status_Namespace = ''tenant-default''\<rparr>"

text \<open>A provider and a consumer that hold the given objects, whatever was sent before.\<close>

definition findObject :: "unstructured list \<Rightarrow> string \<Rightarrow> string \<Rightarrow> apierr + unstructured" where
  "findObject objs ns name =
     (case List.find (\<lambda>x. u_namespace x = ns \<and> u_name x = name) objs of None \<Rightarrow> Inl missing | Some x \<Rightarrow> Inr x)"

definition tenantClients :: "unstructured list \<Rightarrow> unstructured list \<Rightarrow> sync_clients" where
  "tenantClients consumer provider =
     \<lparr>sc_keys = wiredKeys, sc_providerNamespace = ''tenant'', sc_providerNamespaceUID = ''uid'',
      sc_serviceNamespaces = (\<lambda>ns name.
        if ns = ''tenant'' \<and> name = ''default'' then Inr tenantNamespace else Inl missing),
      sc_serviceNamespaceIndex = (\<lambda>f key. filter (\<lambda>sn. key \<in> set (f sn)) [tenantNamespace]),
      sc_createServiceNamespace = (\<lambda>l sn. Inr sn),
      sc_consumerGet = (\<lambda>l name. findObject consumer '''' name),
      sc_consumerGetNamespaced = (\<lambda>l ns name. if ns = '''' then Inl missing else findObject consumer ns name),
      sc_consumerLive = (\<lambda>l. findObject consumer),
      sc_consumerInNamespace = (\<lambda>ns. filter (\<lambda>x. u_namespace x = ns) consumer),
      sc_providerGet = (\<lambda>l. findObject provider),
      sc_providerList = (\<lambda>ns. Inr (filter (\<lambda>x. u_namespace x = ns) provider)),
      sc_create = (\<lambda>l s obj. Inr obj), sc_update = (\<lambda>l s obj. Inr obj), sc_apply = (\<lambda>l s obj. Inr obj),
      sc_updateStatus = (\<lambda>l s obj. Inr obj), sc_delete = (\<lambda>l s ns name. None), sc_requeue = (\<lambda>l obj d. None)\<rparr>"

definition plainObject :: "string \<Rightarrow> string \<Rightarrow> annotationMap \<Rightarrow> unstructured" where
  "plainObject ns name as =
     \<lparr>u_name = name, u_namespace = ns, u_uid = ''id'', u_resourceVersion = ''1'', u_managedFields = None,
      u_deletionTimestamp = None, u_deletionGracePeriodSeconds = None, u_ownerReferences = [], u_finalizers = [],
      u_annotations = Some as, u_spec = Some (JStr ''spec''), u_status = None, u_rest = fmempty\<rparr>"

lemmas tenant_samples = tenantClients_def plainObject_def tenantNamespace_def missing_def IsNotFound_def

lemma findObject_Inr: "findObject objs ns name = Inr x \<Longrightarrow> u_namespace x = ns \<and> u_name x = name"
  by (auto simp: findObject_def find_Some_iff split: option.splits)

lemma tenantClients_answers: "answersNamespace (tenantClients c p)"
  using findObject_Inr by (auto simp: answersNamespace_def tenantClients_def)

lemma tenantClients_only: "onlyServiceNamespace (tenantClients c p) {tenantNamespace} tenantNamespace"
  by (auto simp: onlyServiceNamespace_def indexes_def tenantClients_def tenantNamespace_def plainName_def)

section \<open>Tenants are kept apart\<close>

text \<open>C22: whatever the clusters answer, a run of the spec syncer with its real clients writes at the provider only to the
  tenant's own objects: for a cluster-scoped object every request to the provider cluster carries a name with the
  tenant's prefix and, where an object is sent, the annotation of the tenant's namespace; for an object in a namespace
  whose APIServiceNamespace is assigned, every request stays in the assigned namespace.
\<close>

theorem spec_confined_to_tenant:
  assumes "answersNamespace W"
  shows "(u_namespace obj = '''' \<longrightarrow>
            list_all (ofTenant W) (apiRequests (spec_api W) (snd (spec_reconcile (spec_wiring W) [] obj)))) \<and>
         (\<forall>sn. u_namespace obj \<noteq> '''' \<longrightarrow>
            sc_serviceNamespaces W (sc_providerNamespace W) (u_namespace obj) = Inr sn \<longrightarrow>
            sn_Status_Namespace sn \<noteq> '''' \<longrightarrow>
            list_all (inNamespaceOf (sn_Status_Namespace sn))
              (apiRequests (spec_api W) (snd (spec_reconcile (spec_wiring W) [] obj))))"
proof (intro conjI allI impI)
  assume "u_namespace obj = ''''"
  from spec_cluster_callIn [OF assms this, of "[]"]
  show "list_all (ofTenant W) (apiRequests (spec_api W) (snd (spec_reconcile (spec_wiring W) [] obj)))"
    by (intro apiRequests_all callIn_ofTenant) (auto simp: list_all_iff)
next
  fix sn
  assume a: "u_namespace obj \<noteq> ''''" "sc_serviceNamespaces W (sc_providerNamespace W) (u_namespace obj) = Inr sn"
    "sn_Status_Namespace sn \<noteq> ''''"
  from spec_namespaced_callIn [OF assms this, of "[]"]
  show "list_all (inNamespaceOf (sn_Status_Namespace sn))
      (apiRequests (spec_api W) (snd (spec_reconcile (spec_wiring W) [] obj)))"
    using a(3) by (intro apiRequests_all callIn_inNamespaceOf) (auto simp: list_all_iff)
qed

theorem spec_confined_to_tenant_witness:
  "apiRequests (spec_api (tenantClients [] []))
     (snd (spec_reconcile (spec_wiring (tenantClients [] [])) [] (plainObject '''' ''a'' fmempty))) \<noteq> [] \<and>
   list_all (ofTenant (tenantClients [] []))
     (apiRequests (spec_api (tenantClients [] []))
       (snd (spec_reconcile (spec_wiring (tenantClients [] [])) [] (plainObject '''' ''a'' fmempty))))"
proof -
  have "u_namespace (plainObject '''' ''a'' fmempty) = ''''"
    by (simp add: plainObject_def)
  moreover have "UpdateConsumerObject ((plainObject '''' ''a'' fmempty)\<lparr>u_finalizers := [DownstreamFinalizer]\<rparr>) \<in>
      set (snd (spec_reconcile (spec_wiring (tenantClients [] [])) [] (plainObject '''' ''a'' fmempty)))"
    by (simp add: spec_reconcile_def spec_namespace_def spec_upstream_def spec_sync_def spec_wiring_def
        spec_getProviderObject_def finalizer_defs findObject_def isDeleting_def tenant_samples Let_def
        upstreamCopy_def specValue_def split: prod.split sum.split)
  ultimately show ?thesis
    using spec_confined_to_tenant [OF tenantClients_answers [of "[]" "[]"], of "plainObject '''' ''a'' fmempty"]
    by (fastforce simp: apiRequests_def)
qed

text \<open>C23: an event of a provider object in the namespace of a tenant queues exactly the consumer object that it was made from:
  the key that the spec syncer queues is that of the consumer object, processing that key looks up the very provider
  object that changed, and an event of the consumer object queues the provider object for the status syncer.
\<close>

theorem provider_event_reaches_original:
  assumes "keysSplit (sc_keys W)" "onlyServiceNamespace W cached sn" "plainName name"
    and "sc_consumerGetNamespaced W [] (sn_Name sn) name = Inr obj" "u_namespace obj = sn_Name sn" "u_name obj = name"
  shows "spec_enqueueProvider W (metaKey (sc_keys W) (sn_Status_Namespace sn) name) =
           [metaKey (sc_keys W) (sn_Name sn) name] \<and>
         GetProviderObject (sn_Status_Namespace sn) name \<in>
           set (snd (spec_process W [] (metaKey (sc_keys W) (sn_Name sn) name))) \<and>
         status_enqueueConsumer W (metaKey (sc_keys W) (sn_Name sn) name) =
           [metaKey (sc_keys W) (sn_Status_Namespace sn) name]"
proof -
  have n: "plainName (sn_Name sn)" "sn_Name sn \<noteq> ''''" "sn_Status_Namespace sn \<noteq> ''''"
      "sc_serviceNamespaces W (sc_providerNamespace W) (sn_Name sn) = Inr sn"
    using assms(2) by (auto simp: onlyServiceNamespace_def plainName_def)
  have "splitMetaNamespaceKey (sc_keys W) (metaKey (sc_keys W) (sn_Name sn) name) = Inr (sn_Name sn, name)"
    using assms(1,3) n(1) unfolding keysSplit_def by blast
  then have p: "spec_process W [] (metaKey (sc_keys W) (sn_Name sn) name) = spec_reconcile (spec_wiring W) [] obj"
    by (rule spec_process_found) (simp add: consumerLister_def n(2) assms(4))
  have "spec_namespace (spec_wiring W) [] obj = (Inr (sn_Status_Namespace sn), [GetServiceNamespace (sn_Name sn)])"
    using n assms(5) by (simp add: spec_namespace_def spec_wiring_def)
  from spec_looks_up [OF this] show ?thesis
    unfolding p using enqueue_namespaced [OF assms(1-3)] assms(6) by blast
qed

theorem provider_event_reaches_original_witness:
  "spec_enqueueProvider (tenantClients [plainObject ''default'' ''a'' fmempty] []) ''tenant-default/a'' = [''default/a''] \<and>
   GetProviderObject ''tenant-default'' ''a'' \<in>
     set (snd (spec_process (tenantClients [plainObject ''default'' ''a'' fmempty] []) [] ''default/a''))"
  using provider_event_reaches_original [OF _ tenantClients_only, of "[plainObject ''default'' ''a'' fmempty]" "[]" "''a''"
      "plainObject ''default'' ''a'' fmempty"] wiredKeys_split
  by (simp add: tenant_samples plainName_def findObject_def) (simp add: wiredKeys_def)

section \<open>Three wrong addresses\<close>

text \<open>The adopter marks the provider object in the wrong cluster. When the copy of a provider object at the consumer is bound
  already and the two differ in their annotations, the run sends one request: the provider object with the bound annotation,
  in the provider's namespace, as an update to the consumer cluster. The provider object itself is never marked.
\<close>

lemma adopt_marks_wrong_cluster:
  assumes "u_namespace obj = ns" "ns \<noteq> ''''" "serviceNamespaceOf W ns = Inr sn" "sn_Status_Namespace sn \<noteq> ''''"
    and "sc_consumerGetNamespaced W [GetServiceNamespace ns] (sn_Name sn) (u_name obj) = Inr c" "sn_Name sn \<noteq> ''''"
    and "fmlookup (annotationsOf c) boundKey = Some ''true''"
    and "annotationsOf (InjectBoundAnnotation obj) \<noteq> annotationsOf c"
  shows "apiRequests (adopt_api W) (snd (adopt_reconcile (adopt_wiring W) [] obj)) =
           [ApiUpdate ConsumerSide (InjectBoundAnnotation obj)] \<and>
         u_namespace (InjectBoundAnnotation obj) = ns"
  using adopt_marks [OF assms] assms(1) by simp

lemma adopt_marks_wrong_cluster_example:
  "apiRequests (adopt_api (tenantClients
       [plainObject ''default'' ''a'' (fmupd ''k'' ''v'' (fmupd boundKey ''true'' fmempty))] []))
     (snd (adopt_reconcile (adopt_wiring (tenantClients
       [plainObject ''default'' ''a'' (fmupd ''k'' ''v'' (fmupd boundKey ''true'' fmempty))] []))
       [] (plainObject ''tenant-default'' ''a'' fmempty))) =
   [ApiUpdate ConsumerSide (plainObject ''tenant-default'' ''a'' (fmupd boundKey ''true'' fmempty))]"
proof -
  let ?c = "plainObject ''default'' ''a'' (fmupd ''k'' ''v'' (fmupd boundKey ''true'' fmempty))"
  let ?obj = "plainObject ''tenant-default'' ''a'' fmempty"
  have inj: "InjectBoundAnnotation ?obj = plainObject ''tenant-default'' ''a'' (fmupd boundKey ''true'' fmempty)"
    by (simp add: InjectBoundAnnotation_def plainObject_def annotationsOf_def)
  have "fmlookup (annotationsOf (InjectBoundAnnotation ?obj)) ''k'' \<noteq> fmlookup (annotationsOf ?c) ''k''"
    unfolding inj by (simp add: plainObject_def annotationsOf_def boundKey_def)
  then have "annotationsOf (InjectBoundAnnotation ?obj) \<noteq> annotationsOf ?c" by metis
  from adopt_marks_wrong_cluster [OF _ _ _ _ _ _ _ this, of "''tenant-default''" "tenantClients [?c] []" tenantNamespace]
  show ?thesis
    unfolding inj
    by (simp add: tenant_samples serviceNamespaceOf_def findObject_def IndexServiceNamespaceByNamespace_def
        annotationsOf_def boundKey_def)
qed

text \<open>The adopter takes cluster-scoped objects of other tenants. A provider object that carries the namespace annotation of another
  tenant and is not bound yet is queued, although the spec and the status syncer skip it, and processing it creates
  it in this tenant's consumer cluster, under the name it has for the other tenant.
\<close>

lemma adopt_takes_objects_of_other_tenants:
  assumes "splitMetaNamespaceKey (sc_keys W) name = Inr ('''', name)" "sc_providerGet W [] '''' name = Inr obj"
    and "u_name obj = name" "u_namespace obj = ''''" "\<not> HasPrefix name (sc_providerNamespace W @ ''-'')"
    and "fmlookup (annotationsOf obj) ClusterNsAnnotationKey = Some other" "fmlookup (annotationsOf obj) boundKey = None"
    and "sc_consumerGet W [] name = Inl e" "IsNotFound e"
  shows "adopt_enqueueProvider W name = [name] \<and> status_enqueueProvider W name = [] \<and> spec_enqueueProvider W name = [] \<and>
    (\<exists>new. apiRequests (adopt_api W) (snd (adopt_process W [] name)) = [ApiCreate ConsumerSide new] \<and>
       u_name new = Behead name other \<and> u_spec new = u_spec obj)"
proof -
  have b: "Behead name (sc_providerNamespace W) = name"
    using assms(5) by (simp only: Behead_unchanged_iff not_False_eq_True)
  have "sc_consumerGet W [] (Behead name (sc_providerNamespace W)) = Inl e"
    using assms(8) b by simp
  from adopt_foreign [OF assms(1-4,6,7) this assms(9)] show ?thesis
    using assms(1) b
    by (simp add: adopt_enqueueProvider_def status_enqueueProvider_def spec_enqueueProvider_def)
qed

lemma adopt_takes_objects_of_other_tenants_example:
  "\<exists>new. apiRequests (adopt_api (tenantClients [] [plainObject '''' ''other-a'' (fmupd ClusterNsAnnotationKey ''other'' fmempty)]))
       (snd (adopt_process (tenantClients [] [plainObject '''' ''other-a'' (fmupd ClusterNsAnnotationKey ''other'' fmempty)]) []
         ''other-a'')) = [ApiCreate ConsumerSide new] \<and>
     u_name new = ''a'' \<and> u_spec new = Some (JStr ''spec'')"
  using adopt_takes_objects_of_other_tenants
    [of "tenantClients [] [plainObject '''' ''other-a'' (fmupd ClusterNsAnnotationKey ''other'' fmempty)]" "''other-a''"
      "plainObject '''' ''other-a'' (fmupd ClusterNsAnnotationKey ''other'' fmempty)" "''other''" missing]
  by (simp add: tenant_samples findObject_def wiredKeys_def annotationsOf_def ClusterNsAnnotationKey_def boundKey_def
      Behead_def TrimPrefix_def)

text \<open>When a provider object has vanished, the status syncer does not release the consumer object it was made from. The event of the
  consumer object queues the key of the provider object; processing it looks for a consumer object in the namespace of
  the provider, finds none, and ends without a request, although the consumer object is there and has the finalizer.
\<close>

lemma vanished_upstream_keeps_finalizer:
  assumes "keysSplit (sc_keys W)" "onlyServiceNamespace W cached sn" "plainName name"
    and "\<And>l. sc_consumerGetNamespaced W l (sn_Name sn) name = Inr d" "DownstreamFinalizer \<in> set (u_finalizers d)"
    and "\<And>l. sc_providerGet W l (sn_Status_Namespace sn) name = Inl e" "IsNotFound e"
    and "\<And>l. sc_consumerGetNamespaced W l (sn_Status_Namespace sn) name = Inl e'" "IsNotFound e'"
  shows "status_enqueueConsumer W (metaKey (sc_keys W) (sn_Name sn) name) =
           [metaKey (sc_keys W) (sn_Status_Namespace sn) name] \<and>
         status_process W l (metaKey (sc_keys W) (sn_Status_Namespace sn) name) = (None, l)"
proof -
  have "plainName (sn_Status_Namespace sn)"
    using assms(2) by (simp add: onlyServiceNamespace_def)
  then have "splitMetaNamespaceKey (sc_keys W) (metaKey (sc_keys W) (sn_Status_Namespace sn) name) =
      Inr (sn_Status_Namespace sn, name)"
    using assms(1,3) unfolding keysSplit_def by blast
  from status_vanished [OF this assms(6-9)] show ?thesis
    using enqueue_namespaced(2) [OF assms(1-3)] by blast
qed

lemma vanished_upstream_keeps_finalizer_example:
  "status_process (tenantClients [(plainObject ''default'' ''a'' fmempty)\<lparr>u_finalizers := [DownstreamFinalizer]\<rparr>] []) []
     (metaKey wiredKeys ''tenant-default'' ''a'') = (None, [])"
  using vanished_upstream_keeps_finalizer [OF _ tenantClients_only,
      of "[(plainObject ''default'' ''a'' fmempty)\<lparr>u_finalizers := [DownstreamFinalizer]\<rparr>]" "[]" "''a''"
        "(plainObject ''default'' ''a'' fmempty)\<lparr>u_finalizers := [DownstreamFinalizer]\<rparr>" missing missing "[]"]
    wiredKeys_split
  by (simp add: tenant_samples plainName_def findObject_def)

section \<open>Informers\<close>

text \<open>C24: in every reachable state of the informer that spans the namespaces of a tenant, every informer in its map has all
  the handlers that were added, in order, whether they came before or after it, and a context that runs is that of an informer in the
  map, for which the cancel function is kept. Until the context of \<open>Start\<close> ends (the first component of the state), exactly
  the contexts of the informers in the map run, so that no informer is left behind; and when it ends, every one of them is
  stopped.
\<close>

theorem informers_complete_and_owned:
  assumes "mi_reachable ns (ended, M)"
  shows "(\<forall>name i. fmlookup (mi_namespaceInformers M) name = Some i \<longrightarrow>
            ni_Handlers i = mi_handlers M \<and> fmlookup (mi_namespaceCancel M) name = Some (ni_Context i)) \<and>
         {c. c < mi_contexts M \<and> c \<notin> set (mi_cancelled M)} \<subseteq>
           {c. \<exists>name i. fmlookup (mi_namespaceInformers M) name = Some i \<and> ni_Context i = c} \<and>
         (\<not> ended \<longrightarrow> {c. c < mi_contexts M \<and> c \<notin> set (mi_cancelled M)} =
           {c. \<exists>name i. fmlookup (mi_namespaceInformers M) name = Some i \<and> ni_Context i = c}) \<and>
         {c. c < mi_contexts (mi_done M) \<and> c \<notin> set (mi_cancelled (mi_done M))} = {}"
proof -
  note inv = mi_reachable_inv [OF assms]
  have same: "fmlookup (mi_namespaceCancel M) name = map_option ni_Context (fmlookup (mi_namespaceInformers M) name)" for name
    using mi_invD(1) [OF inv] by simp
  have kept: "mi_kept M = {c. \<exists>name i. fmlookup (mi_namespaceInformers M) name = Some i \<and> ni_Context i = c}"
    unfolding mi_kept_def same by auto
  show ?thesis
    unfolding mi_running_def [symmetric] kept [symmetric]
    using mi_invD(2,3,5) [OF inv] same done_stops [OF inv] by auto
qed

definition oneNamespace :: "multi_informer" where
  "oneNamespace = startInformer ''default'' ''tenant-default'' (AddEventHandler 7 (NewDynamicMultiNamespaceInformer ''tenant''))"

lemma tenant_event:
  "fmlookup (mi_namespaceCancel M) ''default'' = None \<Longrightarrow> mi_providerNamespace M = ''tenant'' \<Longrightarrow>
     mi_step (ended, M) (ended, startInformer ''default'' ''tenant-default'' M)"
  by (rule mi_step.event [where K = wiredKeys and L = "\<lambda>ns name. Inr tenantNamespace" and key = "''tenant/default''"])
    (simp add: mi_enqueueServiceNamespace_def wiredKeys_def tenantNamespace_def)

lemma oneNamespace_reachable: "mi_reachable ''tenant'' (False, oneNamespace)"
  unfolding oneNamespace_def
  by (rule mi_reachable.step [OF mi_reachable.step [OF mi_reachable.new mi_step.handler [where h = 7]]])
    (simp add: tenant_event AddEventHandler_def NewDynamicMultiNamespaceInformer_def)

theorem informers_complete_and_owned_witness:
  "{c. c < mi_contexts oneNamespace \<and> c \<notin> set (mi_cancelled oneNamespace)} =
     {c. \<exists>name i. fmlookup (mi_namespaceInformers oneNamespace) name = Some i \<and> ni_Context i = c} \<and>
   {c. c < mi_contexts (mi_done oneNamespace) \<and> c \<notin> set (mi_cancelled (mi_done oneNamespace))} = {}"
  using informers_complete_and_owned [OF oneNamespace_reachable] by blast

text \<open>The handler of the events goes by another goroutine than the one that cancels the informers. An event that is handled
  after the informers were cancelled starts an informer with a context of its own, which nothing cancels any more.
\<close>

lemma late_event_leaks_informer:
  "\<exists>M. mi_reachable ''tenant'' (True, M) \<and> {c. c < mi_contexts M \<and> c \<notin> set (mi_cancelled M)} \<noteq> {}"
proof -
  let ?M = "mi_done (NewDynamicMultiNamespaceInformer ''tenant'')"
  have "mi_reachable ''tenant'' (True, ?M)"
    by (rule mi_reachable.step [OF mi_reachable.new mi_step.ctxDone])
  moreover have "mi_step (True, ?M) (True, startInformer ''default'' ''tenant-default'' ?M)"
    by (rule tenant_event) (simp_all add: mi_done_def NewDynamicMultiNamespaceInformer_def)
  ultimately have "mi_reachable ''tenant'' (True, startInformer ''default'' ''tenant-default'' ?M)"
    by (rule mi_reachable.step)
  moreover have "0 \<in> {c. c < mi_contexts (startInformer ''default'' ''tenant-default'' ?M) \<and>
      c \<notin> set (mi_cancelled (startInformer ''default'' ''tenant-default'' ?M))}"
    by (simp add: startInformer_def mi_done_def NewDynamicMultiNamespaceInformer_def)
  ultimately show ?thesis by blast
qed

text \<open>The event that an APIServiceNamespace was deleted panics if and only if an informer runs for it, which is the case that the event
  has to handle: the log line before the informer is stopped reads the object that is no longer there.
\<close>

lemma deleted_service_namespace_panics:
  assumes "mi_reachable ns (ended, M)" "splitMetaNamespaceKey K key = Inr (mi_providerNamespace M, name)"
    and "L (mi_providerNamespace M) name = Inl e" "IsNotFound e"
  shows "mi_enqueueServiceNamespace K L M key = None \<longleftrightarrow> fmlookup (mi_namespaceInformers M) name \<noteq> None"
  using vanished_panics [where L = L and M = M and K = K and key = key and name = name and e = e] assms(2-4) mi_invD(1) [OF mi_reachable_inv [OF assms(1)], of name] by auto

lemma deleted_service_namespace_panics_example:
  "mi_enqueueServiceNamespace wiredKeys (\<lambda>ns name. Inl missing) oneNamespace ''tenant/default'' = None"
  using deleted_service_namespace_panics [OF oneNamespace_reachable, of wiredKeys "''tenant/default''" "''default''"
      "\<lambda>ns name. Inl missing" missing]
  by (simp add: oneNamespace_def startInformer_def AddEventHandler_def NewDynamicMultiNamespaceInformer_def wiredKeys_def
      missing_def IsNotFound_def)

text \<open>The handlers of a dynamic informer refine the set of open registrations. Adding a handler opens one registration and touches no
  other, whatever names the registrations have; the end of a context closes its own and no other; and an event reaches
  exactly the handlers of the open ones.
\<close>

lemma dynamic_handlers_refine_registrations:
  assumes "represents D live"
  shows "(\<forall>store name h D' m adds. AddDynamicEventHandler store D name h = (D', m, adds) \<longrightarrow>
            represents D' (fmupd (di_counter D) (name, h) live) \<and> map snd adds = store) \<and>
         (\<forall>k n h. fmlookup live k = Some (n, h) \<longrightarrow>
            represents (handlerDone D (dynamicName n k)) (fmdrop k live)) \<and>
         (\<forall>h. h |\<in>| notified D \<longleftrightarrow> (\<exists>k n. fmlookup live k = Some (n, h)))"
proof (intro conjI allI impI)
  fix store name h D' m adds
  assume a: "AddDynamicEventHandler store D name h = (D', m, adds)"
  then show "represents D' (fmupd (di_counter D) (name, h) live)"
    by (rule represents_add [OF assms])
  from a show "map snd adds = store"
    by (auto simp: AddDynamicEventHandler_def Let_def comp_def)
qed (use represents_done [OF assms] represents_notified [OF assms] in blast)+

lemma dynamic_handlers_refine_registrations_example:
  "\<forall>h. h |\<in>| notified (NewDynamicInformer :: nat dyn_informer) \<longleftrightarrow> (\<exists>k n. fmlookup (fmempty :: (nat, string \<times> nat) fmap) k = Some (n, h))"
  using dynamic_handlers_refine_registrations [OF represents_new [where 'a = nat]] by blast

end
