(* ===== verification/Konnector_Properties.thy ===== *)
theory Konnector_Properties
  imports Bind_Samples Cluster_Binding Service_Binding Service_Export Konnector
begin

text \<open>
  The properties of the controllers of the konnector that act on the objects of the bind API: the
  ClusterBinding, APIServiceBinding and APIServiceExport controllers, and the top-level controller.
\<close>

section \<open>Samples\<close>

definition sampleSecret :: Secret where
  "sampleSecret = \<lparr>sec_Name = ''kubeconfig'', sec_Namespace = ''klutch'',
     sec_Labels = fmempty, sec_Data = fmupd ''kubeconfig'' ''cfg'' fmempty, sec_Type = ''Opaque''\<rparr>"

definition sampleClusterReconciler :: cluster_reconciler where
  "sampleClusterReconciler =
     \<lparr>consumerSecretRefKey = ''klutch/kubeconfig'', cr_providerNamespace = ''kube-bind-x'',
      heartbeatInterval = 10, cr_controlPlaneMode = False, getProviderSecret = Inr sampleSecret,
      getConsumerSecret = Inr (sampleSecret\<lparr>sec_Data := fmempty\<rparr>), updateConsumerSecret = (\<lambda>s. Inr s),
      createConsumerSecret = (\<lambda>s. Inr s), splitKey = (\<lambda>k. Inr (''klutch'', ''kubeconfig'')),
      gitVersion = ''v1.25.2+kube-bind-v0.0.15''\<rparr>"

definition sampleClientcmd :: clientcmd where
  "sampleClientcmd =
     \<lparr>Load = (\<lambda>k. if k = ''cfg'' then Inr \<lparr>CurrentContext = ''c'', Contexts = fmupd ''c'' ''kube-bind-x'' fmempty\<rparr>
                  else Inl ''bad''),
      RESTConfigFromKubeConfig = (\<lambda>k. Inr k)\<rparr>"

definition sampleKonn :: konn_reconciler where
  "sampleKonn =
     \<lparr>kr_controlPlaneMode = False, bindingRootNamespace = '''', bindingConfig = '''',
      newClusterController = (\<lambda>a b c d. None), getSecret = (\<lambda>ns n. Inr sampleSecret),
      kr_clientcmd = sampleClientcmd, kr_range = (\<lambda>m. sorted_list_of_set (fset (fmdom m)))\<rparr>"

lemma sampleKonn_range [simp]: "rangesOver sampleKonn"
  by (simp add: rangesOver_def sampleKonn_def)

lemmas konn_samples = sampleSecret_def sampleClusterReconciler_def sampleClientcmd_def sampleKonn_def

section \<open>ClusterBinding\<close>

text \<open>Outside control-plane mode, a run without error on a binding that has only the conditions of this
  controller ends Ready exactly when the provider secret exists with the referenced key and the version
  of the konnector can be parsed.\<close>

lemma cluster_binding_ready:
  assumes "cluster_reconcile R now b = ([], b', w)" and "\<not> cr_controlPlaneMode R"
    and "distinctTypes (GetConditions clusterBindingSetter b)"
    and "Type ` set (GetConditions clusterBindingSetter b) \<subseteq>
      {ClusterBindingConditionSecretValid, ClusterBindingConditionValidVersion, ReadyCondition}"
  shows "IsTrue clusterBindingSetter b' ReadyCondition \<longleftrightarrow>
    (\<exists>s v. getProviderSecret R = Inr s \<and>
       fmlookup (sec_Data s) (ref_Key (cb_KubeconfigSecretRef b)) \<noteq> None \<and>
       BinaryVersion (gitVersion R) = Inr v)"
proof -
  have "\<not> isl (BinaryVersion (gitVersion R)) \<longleftrightarrow> (\<exists>v. BinaryVersion (gitVersion R) = Inr v)"
    by (cases "BinaryVersion (gitVersion R)") auto
  moreover have "providerSecretUsable R b \<longleftrightarrow> (\<exists>s. getProviderSecret R = Inr s \<and>
      fmlookup (sec_Data s) (ref_Key (cb_KubeconfigSecretRef b)) \<noteq> None)"
    by (cases "getProviderSecret R") (auto simp: providerSecretUsable_def)
  ultimately show ?thesis
    using cluster_reconcile_ready[OF assms] by blast
qed

lemma sample_version: "BinaryVersion ''v1.25.2+kube-bind-v0.0.15'' = Inr ''v0.0.15''"
  by (simp add: BinaryVersion_def SplitN2_def TrimPrefix_def Let_def)

lemma cluster_binding_ready_example:
  "IsTrue clusterBindingSetter (fst (snd (cluster_reconcile sampleClusterReconciler 100 sampleCluster))) ReadyCondition"
proof -
  have "fst (ensureConsumerSecret sampleClusterReconciler 100 sampleCluster) = None"
      "\<not> cr_controlPlaneMode sampleClusterReconciler"
    by (simp_all add: ensureConsumerSecret_def konn_samples sampleCluster_def Let_def)
  then obtain b' w where run: "cluster_reconcile sampleClusterReconciler 100 sampleCluster = ([], b', w)"
    by (cases "ensureConsumerSecret sampleClusterReconciler 100 sampleCluster")
      (simp add: cluster_reconcile_def Let_def)
  have "\<not> cr_controlPlaneMode sampleClusterReconciler"
      "Type ` set (GetConditions clusterBindingSetter sampleCluster) \<subseteq>
       {ClusterBindingConditionSecretValid, ClusterBindingConditionValidVersion, ReadyCondition}"
    by (simp_all add: konn_samples sample_defs klutch_defs)
  from cluster_binding_ready[OF run this(1) sample_distinct(1) this(2)] show ?thesis
    unfolding run using sample_version by (simp add: konn_samples sampleCluster_def)
qed

text \<open>The consumer secret is written at most once in a run, only when the provider secret has the referenced
  key, and always with the data and the type of the provider secret.\<close>

lemma consumer_secret_mirrors_provider:
  "case ensureConsumerSecret R now b of
     (err, b', w) \<Rightarrow> w = [] \<or>
       (\<exists>c s. w = [c] \<and> getProviderSecret R = Inr s \<and>
          fmlookup (sec_Data s) (ref_Key (cb_KubeconfigSecretRef b)) \<noteq> None \<and>
          sec_Data (writtenSecret c) = sec_Data s \<and> sec_Type (writtenSecret c) = sec_Type s)"
proof -
  obtain err b' w where run: "ensureConsumerSecret R now b = (err, b', w)" by (metis prod_cases3)
  show ?thesis
    using consumerSecret_writes[OF run] unfolding run prod.case by (auto simp: providerSecretUsable_def)
qed

text \<open>After a run the last heartbeat is at most half an interval old, so the promise of one heartbeat per interval
  holds as long as runs are at most half an interval apart.\<close>

lemma heartbeat_bounded:
  assumes "0 \<le> heartbeatInterval R"
  shows "now - cb_LastHeartbeatTime (fst (snd (cluster_reconcile R now b))) \<le> heartbeatInterval R sdiv 2"
proof -
  obtain e b1 w where "(if \<not> cr_controlPlaneMode R then ensureConsumerSecret R now b else (None, b, [])) = (e, b1, w)"
    by (metis prod_cases3)
  then have "cb_LastHeartbeatTime (fst (snd (cluster_reconcile R now b))) =
      cb_LastHeartbeatTime (ensureHeartbeat R now b1)"
    by (simp add: cluster_reconcile_def SetSummary_def Let_def)
  with heartbeat_fresh[OF assms] show ?thesis by simp
qed

lemma heartbeat_bounded_example:
  "100 - cb_LastHeartbeatTime (fst (snd (cluster_reconcile sampleClusterReconciler 100 sampleCluster))) \<le> 5"
  using heartbeat_bounded[of sampleClusterReconciler 100 sampleCluster]
  by (simp add: sampleClusterReconciler_def signed_divide_int_def)

section \<open>APIServiceBinding\<close>

text \<open>After a run without error, the condition SecretValid is true exactly when the referenced secret has
  the key, its kubeconfig loads, has a current context (with a namespace, outside control-plane mode) and gives a
  REST configuration; otherwise it is false with severity Error.\<close>

lemma secret_valid_iff_usable:
  assumes "sb_reconcile R now b = ([], b')" and "distinctTypes (GetConditions serviceBindingSetter b)"
  shows "marked serviceBindingSetter b' APIServiceBindingConditionSecretValid
     (if bindingSecretUsable R b then ConditionTrue else ConditionFalse)
     (if bindingSecretUsable R b then '''' else ConditionSeverityError)"
  by (rule sb_reconcile_SecretValid[OF assms])

definition sampleSB :: sb_reconciler where
  "sampleSB = \<lparr>sbr_controlPlaneMode = False, sbr_getConsumerSecret = (\<lambda>ns n. Inr sampleSecret),
     sbr_clientcmd = sampleClientcmd\<rparr>"

lemma sampleSB_run: "\<exists>b'. sb_reconcile sampleSB 100 sampleBinding = ([], b')"
  by (simp add: sb_reconcile_def ensureValidKubeconfigSecret_def Let_def sampleSB_def konn_samples sampleBinding_def)

lemma secret_valid_iff_usable_example:
  "\<exists>b'. sb_reconcile sampleSB 100 sampleBinding = ([], b') \<and>
     marked serviceBindingSetter b' APIServiceBindingConditionSecretValid ConditionTrue ''''"
proof -
  obtain b' where run: "sb_reconcile sampleSB 100 sampleBinding = ([], b')" using sampleSB_run by blast
  have "bindingSecretUsable sampleSB sampleBinding"
    by (simp add: bindingSecretUsable_def kubeconfigUsable_def sampleSB_def konn_samples sampleBinding_def)
  with secret_valid_iff_usable[OF run sample_distinct(2)] run show ?thesis by simp
qed

text \<open>C9: a run makes at most one request on CRDs. It creates one only right after the lookup of its name found
  nothing, and with the binding as owner; it updates one only right after the lookup found it,
  owned by this binding by name and UID, and it keeps the metadata it found. A CRD of someone else is
  never changed.\<close>

theorem crd_only_if_owned:
  assumes "csb_reconcile R now l b = (errs, b', l')"
  shows "filter crdRequest (drop (length l) l') = [] \<or>
   (\<exists>pre post name crd e. l' = pre @ GetCRD name # CreateCRD crd # post \<and>
      filter crdRequest (drop (length l) l') = [CreateCRD crd] \<and>
      getCRD R pre name = Inl e \<and> IsNotFound e \<and> om_Name (crd_Meta crd) = name \<and>
      IsOwnedByBinding (bindingName b) (om_UID (sb_Meta b)) (om_OwnerReferences (crd_Meta crd))) \<or>
   (\<exists>pre post name crd existing. l' = pre @ GetCRD name # UpdateCRD crd # post \<and>
      filter crdRequest (drop (length l) l') = [UpdateCRD crd] \<and>
      getCRD R pre name = Inr existing \<and> crd_Meta crd = crd_Meta existing \<and>
      IsOwnedByBinding (bindingName b) (om_UID (sb_Meta b)) (om_OwnerReferences (crd_Meta existing)))"
  by (rule csb_requests[OF assms])

definition ownedCRD :: CRD where
  "ownedCRD = withOwner sampleBinding sampleCRD"

definition conflicting :: apierr where
  "conflicting = \<lparr>reason = Conflict, error_text = ''conflict''\<rparr>"

definition sampleCSB :: csb_reconciler where
  "sampleCSB =
     \<lparr>reconcileServiceBinding = (\<lambda>b. True), getServiceExport = (\<lambda>l n. Inr sampleExport),
      getClusterBinding = (\<lambda>l. Inr sampleCluster), getCRD = (\<lambda>l n. Inr ownedCRD),
      updateCRD = (\<lambda>l c. Inl conflicting), createCRD = (\<lambda>l c. Inr c), csb_unmarshal = (\<lambda>s. Inl ''no'')\<rparr>"

lemma ownedCRD_owned:
  "IsOwnedByBinding (bindingName sampleBinding) (om_UID (sb_Meta sampleBinding)) (om_OwnerReferences (crd_Meta ownedCRD))"
  by (simp add: ownedCRD_def withOwner_def IsOwnedByBinding_def bindingReference_def GroupName_def
      splitFirst_def SplitN2_def)

theorem crd_only_if_owned_witness:
  "\<exists>errs b' l'. csb_reconcile sampleCSB 5 [] sampleBinding = (errs, b', l') \<and>
     length (filter crdRequest l') \<le> 1"
proof -
  obtain errs b' l' where run: "csb_reconcile sampleCSB 5 [] sampleBinding = (errs, b', l')" by (metis prod_cases3)
  from crd_only_if_owned[OF run] have "length (filter crdRequest l') \<le> 1" by auto
  with run show ?thesis by blast
qed

text \<open>When the update of an owned CRD fails with an error other than Invalid, such as a conflict, the run
  returns no error and the condition Connected is true.\<close>

lemma crd_update_error_unreported:
  assumes "reconcileServiceBinding R b" and "distinctTypes (GetConditions serviceBindingSetter b)"
    and "\<And>k. getServiceExport R k (bindingName b) = Inr export"
    and "ServiceExportToCRD (csb_unmarshal R) export = Inr crd"
    and "\<And>k. getCRD R k (om_Name (crd_Meta crd)) = Inr existing"
    and "IsOwnedByBinding (bindingName b) (om_UID (sb_Meta b)) (om_OwnerReferences (crd_Meta existing))"
    and "\<And>k c. updateCRD R k c = Inl e" and "\<not> IsInvalid e"
    and "\<And>k. getClusterBinding R k = Inr cbind"
  shows "\<exists>b' l'. csb_reconcile R now l b = ([], b', l') \<and>
     IsTrue serviceBindingSetter b' APIServiceBindingConditionConnected"
  by (rule csb_update_error_unreported[OF assms])

lemma crd_update_error_unreported_example:
  "\<exists>b' l'. csb_reconcile sampleCSB 5 [] sampleBinding = ([], b', l') \<and>
     IsTrue serviceBindingSetter b' APIServiceBindingConditionConnected"
proof -
  obtain crd where crd: "ServiceExportToCRD (csb_unmarshal sampleCSB) sampleExport = Inr crd"
    by (simp add: ServiceExportToCRD_def versionToCRD_def sampleExport_def sampleVersion_def)
  show ?thesis
    by (rule crd_update_error_unreported[OF _ sample_distinct(2) _ crd _ ownedCRD_owned, where e = conflicting
          and cbind = sampleCluster])
      (simp_all add: sampleCSB_def conflicting_def IsInvalid_def)
qed

section \<open>APIServiceExport\<close>

text \<open>C3: no syncer leaks. In every state that any interleaving of the workers' critical sections reaches, the
  contexts that run are exactly those registered under an export and those a worker has launched and
  is about to register; no context is registered under two exports.\<close>

theorem no_syncer_leaks:
  assumes "sync_reachable s"
  shows "fset (fmdom (running s)) =
      {sc_context c | n c. fmlookup (syncContext s) n = Some c} \<union> pending s \<and>
    {sc_context c | n c. fmlookup (syncContext s) n = Some c} \<inter> pending s = {} \<and>
    (\<forall>n m c d. fmlookup (syncContext s) n = Some c \<longrightarrow> fmlookup (syncContext s) m = Some d \<longrightarrow>
       sc_context c = sc_context d \<longrightarrow> n = m)"
  using sync_reachable_inv[OF assms] unfolding sync_inv_def contextsOf_def by blast

definition sampleSyncer :: syncer where
  "sampleSyncer = \<lparr>sy_gvr = exportGVR sampleExport, sy_provider = SharedInformer (exportGVR sampleExport), sy_claims = []\<rparr>"

lemma sample_launched: "sync_reachable (snd (launchSync sampleSyncer initSync))"
  by (intro sync_reachable.step[OF sync_reachable.init] sync_step.launch)

theorem no_syncer_leaks_witness:
  "fset (fmdom (running (snd (launchSync sampleSyncer initSync)))) = {0}"
  using no_syncer_leaks[OF sample_launched] by (simp add: launchSync_def initSync_def)

text \<open>When CRD and binding exist, the generation is new and the controllers can be built, a run leaves the
  syncer of that generation running under the export's name, leaves the syncers of all other exports
  alone, and a second run changes nothing.\<close>

lemma export_syncer_started:
  assumes "sync_inv s" and "er_getCRD R EnsureControllers (exportName export) = Inr crd"
    and "er_getServiceBinding R EnsureControllers (exportName export) = Inr binding"
    and "buildSyncer R export crd binding = Inr y"
    and "fmlookup (syncContext s) (exportName export) = None \<or>
         (\<exists>c. fmlookup (syncContext s) (exportName export) = Some c \<and>
              sc_generation c \<noteq> om_Generation (ex_Meta export))"
  shows "\<exists>s'. ensureControllers R name (Some export) s = (None, s') \<and>
     syncerOf s' (exportName export) = Some (om_Generation (ex_Meta export), y) \<and>
     (\<forall>n. n \<noteq> exportName export \<longrightarrow> syncerOf s' n = syncerOf s n) \<and>
     ensureControllers R name (Some export) s' = (None, s')"
  by (rule ensureControllers_started[OF assms])

definition sampleER :: export_reconciler where
  "sampleER =
     \<lparr>er_getCRD = (\<lambda>p n. Inr sampleCRD), er_getServiceBinding = (\<lambda>p n. Inr sampleBinding),
      getProviderNamespace = Inr ''uid'', newMultiNamespaceInformer = (\<lambda>g. None), newSpecController = (\<lambda>g. None),
      newStatusController = (\<lambda>g. None), newAdoptController = (\<lambda>g. None), newClaimedController = (\<lambda>g. None)\<rparr>"

lemma sampleER_build: "buildSyncer sampleER sampleExport sampleCRD sampleBinding = Inr sampleSyncer"
  by (simp add: buildSyncer_def sampleER_def providerInformer_def sampleSyncer_def sampleBinding_def Let_def)
    (simp add: sampleExport_def ClusterScope_def)

lemma export_syncer_started_example:
  "\<exists>s'. ensureControllers sampleER ''pg'' (Some sampleExport) initSync = (None, s') \<and>
     syncerOf s' ''pg'' = Some (2, sampleSyncer)"
proof -
  have name: "exportName sampleExport = ''pg''" "om_Generation (ex_Meta sampleExport) = 2"
    by (simp_all add: exportName_def sampleExport_def namedMeta_def)
  have "fmlookup (syncContext initSync) (exportName sampleExport) = None"
    by (simp add: initSync_def)
  from export_syncer_started[OF sync_inv_init _ _ sampleER_build disjI1[OF this], of "''pg''"]
  show ?thesis by (auto simp: name sampleER_def)
qed

text \<open>The critical sections of one run of \<open>ensureControllers\<close> are steps of that relation, so the run itself
  keeps the reachable states.\<close>

lemma ensureControllers_is_steps:
  assumes "sync_reachable s"
  shows "sync_reachable (snd (ensureControllers R name e s))"
  using ensureControllers_steps[of s R name e] assms
  by (induction rule: rtranclp_induct) (auto intro: sync_reachable.step)

text \<open>The conditions of the CRD are copied to the export: after the copy every condition type of the CRD but
  Ready has the CRD's status, reason, message and time, with severity Error unless it is true, and
  every other type but Ready is as before.\<close>

lemma crd_conditions_copied:
  assumes "distinctTypes (ex_Conditions export)" and "distinct (map cc_Type (crd_Conditions crd))"
    and "er_getCRD R CopyCRDConditions (exportName export) = Inr crd"
  shows "\<exists>e'. ensureCRDConditionsCopied R now export = (None, e') \<and>
    (\<forall>t. t \<noteq> ReadyCondition \<longrightarrow> Get_condition serviceExportSetter e' t =
       (case find (\<lambda>k. cc_Type k = t) (crd_Conditions crd) of
          Some k \<Rightarrow> Some (copiedCondition k)
        | None \<Rightarrow> Get_condition serviceExportSetter export t)) \<and>
    ex_AcceptedNames e' = crd_AcceptedNames crd \<and> ex_StoredVersions e' = crd_StoredVersions crd"
proof -
  have "(case crdCondition ks t of Some c \<Rightarrow> Some c | None \<Rightarrow> old) =
      (case find (\<lambda>k. cc_Type k = t) ks of Some k \<Rightarrow> Some (copiedCondition k) | None \<Rightarrow> old)"
    if "t \<noteq> ReadyCondition" for ks t old
    using that by (simp add: crdCondition_def split: option.splits)
  with ensureCRDConditionsCopied_map[OF assms, of now] show ?thesis by auto
qed

lemma crd_conditions_copied_example:
  "\<exists>e'. ensureCRDConditionsCopied sampleER 9 sampleExport = (None, e') \<and>
     Get_condition serviceExportSetter e' ''Established'' \<noteq> None"
proof -
  have "distinctTypes (ex_Conditions sampleExport)" "distinct (map cc_Type (crd_Conditions sampleCRD))"
      "er_getCRD sampleER CopyCRDConditions (exportName sampleExport) = Inr sampleCRD"
    using sample_distinct(3) by (simp_all add: serviceExportSetter_def sampleCRD_def sampleER_def)
  from crd_conditions_copied[OF this, of 9] show ?thesis
    by (auto simp: sampleCRD_def ReadyCondition_def)
qed

section \<open>The top-level controller\<close>

text \<open>C4: whatever sequence of runs happens, a binding is registered with a context exactly when it is in that context's
  set of bindings, two contexts that serve bindings never have the same kubeconfig, and a context has been
  cancelled exactly when its set of bindings is empty.\<close>

theorem one_controller_per_kubeconfig:
  assumes "konn_reachable s"
  shows "(\<forall>n a. fmlookup (k_controllers s) n = Some a \<longleftrightarrow>
        (\<exists>c. fmlookup (k_heap s) a = Some c \<and> n \<in> ct_serviceBindings c)) \<and>
    (\<forall>a b c d. fmlookup (k_heap s) a = Some c \<longrightarrow> fmlookup (k_heap s) b = Some d \<longrightarrow>
        ct_serviceBindings c \<noteq> {} \<longrightarrow> ct_serviceBindings d \<noteq> {} \<longrightarrow>
        ct_kubeconfig c = ct_kubeconfig d \<longrightarrow> a = b) \<and>
    (\<forall>a c. fmlookup (k_heap s) a = Some c \<longrightarrow> (a \<in> k_cancelled s \<longleftrightarrow> ct_serviceBindings c = {}))"
  using konn_reachable_inv[OF assms]
  unfolding konn_inv_def members_ok_def one_per_kubeconfig_def cancelled_iff_empty_def by blast

definition sampleKonnState :: konn_state where
  "sampleKonnState = snd (konn_process sampleKonn (\<lambda>b. None) (Inr sampleBinding) initKonn)"

lemma sampleKonnState_reachable: "konn_reachable sampleKonnState"
  unfolding sampleKonnState_def by (intro konn_reachable.intros) simp

theorem one_controller_per_kubeconfig_witness:
  "\<forall>n a. fmlookup (k_controllers sampleKonnState) n = Some a \<longleftrightarrow>
     (\<exists>c. fmlookup (k_heap sampleKonnState) a = Some c \<and> n \<in> ct_serviceBindings c)"
  using one_controller_per_kubeconfig[OF sampleKonnState_reachable] by blast

text \<open>When the cluster controller of a new kubeconfig fails to start, the run returns the error and is retried;
  but the retry, with the same kubeconfig, returns no error and starts nothing, whether or not the
  controller could be started now: the binding stays with a context whose controller never ran.\<close>

lemma failed_controller_never_restarted:
  assumes "konn_inv s" and "rangesOver R" and "rangesOver R'"
    and "kubeconfigOf R b = Inr k" and "kubeconfigOf R' b = Inr k"
    and "konn_reconcile R b s = (Some e, s1)"
  shows "\<exists>s2 a. konn_reconcile R' b s1 = (None, s2) \<and>
     fmlookup (k_controllers s2) (bindingName b) = Some a \<and> fmlookup (k_started s2) a = None"
  by (rule failed_start_sticks[OF assms])

definition failingKonn :: konn_reconciler where
  "failingKonn = sampleKonn\<lparr>newClusterController := (\<lambda>a b c d. Some conflicting)\<rparr>"

lemma failingKonn_range [simp]: "rangesOver failingKonn"
  by (simp add: rangesOver_def failingKonn_def sampleKonn_def)

lemma sample_kubeconfig:
  "kubeconfigOf sampleKonn sampleBinding = Inr ''cfg''" "kubeconfigOf failingKonn sampleBinding = Inr ''cfg''"
  by (simp_all add: kubeconfigOf_def failingKonn_def konn_samples sampleBinding_def Let_def)

lemma sample_target:
  "providerTarget sampleKonn ''cfg'' = Some (''kube-bind-x'', ''cfg'')"
  "providerTarget failingKonn ''cfg'' = Some (''kube-bind-x'', ''cfg'')"
  by (simp_all add: providerTarget_def failingKonn_def konn_samples)

lemma failed_controller_never_restarted_example:
  "\<exists>s1 s2 a. konn_reconcile failingKonn sampleBinding initKonn = (Some conflicting, s1) \<and>
     konn_reconcile sampleKonn sampleBinding s1 = (None, s2) \<and> fmlookup (k_started s2) a = None \<and>
     fmlookup (k_controllers s2) (bindingName sampleBinding) = Some a"
proof -
  have stop: "stopOld n k initKonn = initKonn" for n k
    by (simp add: stopOld_def initKonn_def)
  have "findExisting failingKonn k initKonn = None" for k
    by (simp add: findExisting_def failingKonn_def sampleKonn_def initKonn_def)
  then obtain s1 where run: "konn_reconcile failingKonn sampleBinding initKonn = (Some conflicting, s1)"
    by (simp add: konn_reconcile_def sample_kubeconfig stop startNew_def sample_target)
      (simp add: failingKonn_def)
  from failed_controller_never_restarted[OF konn_inv_init failingKonn_range sampleKonn_range
      sample_kubeconfig(2,1) run] run
  show ?thesis by blast
qed

text \<open>When the binding that started a controller loses its kubeconfig while another binding still uses the same
  context, the controller keeps running, and the filter it was given looks up an entry that is no longer in
  the map: a nil dereference.\<close>

lemma filter_hits_nil_after_owner_left:
  assumes "konn_inv s" and "fmlookup (k_started s) a = Some (bindingName b)"
    and "fmlookup (k_controllers s) (bindingName b) = Some a" and "fmlookup (k_controllers s) n = Some a"
    and "n \<noteq> bindingName b" and "kubeconfigOf R b = Inr ''''"
  shows "\<exists>s'. konn_reconcile R b s = (None, s') \<and> a \<notin> k_cancelled s' \<and>
     fmlookup (k_controllers s') n = Some a \<and> fmlookup (k_started s') a = Some (bindingName b) \<and>
     reconcileFilter s' (bindingName b) n = None"
  by (rule filter_after_owner_left[OF assms])

text \<open>The state after the binding \<open>pg\<close> started a controller and the binding \<open>mq\<close> joined it.\<close>

definition sharedKonn :: konn_state where
  "sharedKonn =
     \<lparr>k_controllers = fmupd ''mq'' 0 (fmupd ''pg'' 0 fmempty),
      k_heap = fmupd 0 \<lparr>ct_kubeconfig = ''cfg'', ct_serviceBindings = {''pg'', ''mq''}\<rparr> fmempty,
      k_started = fmupd 0 ''pg'' fmempty, k_cancelled = {}, k_next = 1\<rparr>"

lemma sharedKonn_inv: "konn_inv sharedKonn"
  by (auto simp: konn_inv_def members_ok_def one_per_kubeconfig_def cancelled_iff_empty_def sharedKonn_def)

lemma filter_hits_nil_after_owner_left_example:
  "\<exists>s'. konn_reconcile (sampleKonn\<lparr>getSecret := (\<lambda>ns n. Inl \<lparr>reason = NotFound, error_text = ''gone''\<rparr>)\<rparr>)
          sampleBinding sharedKonn = (None, s') \<and> reconcileFilter s' ''pg'' ''mq'' = None"
proof -
  have n: "bindingName sampleBinding = ''pg''"
    by (simp add: bindingName_def sampleBinding_def namedMeta_def)
  have k: "kubeconfigOf (sampleKonn\<lparr>getSecret := (\<lambda>ns n. Inl \<lparr>reason = NotFound, error_text = ''gone''\<rparr>)\<rparr>)
      sampleBinding = Inr ''''"
    by (simp add: kubeconfigOf_def IsNotFound_def Let_def)
  have "fmlookup (k_started sharedKonn) 0 = Some (bindingName sampleBinding)"
      "fmlookup (k_controllers sharedKonn) (bindingName sampleBinding) = Some 0"
      "fmlookup (k_controllers sharedKonn) ''mq'' = Some 0" "''mq'' \<noteq> bindingName sampleBinding"
    by (simp_all add: n sharedKonn_def)
  from filter_hits_nil_after_owner_left[OF sharedKonn_inv this k] show ?thesis
    by (auto simp: n)
qed

section \<open>The two controllers agree\<close>

text \<open>C8: when the APIServiceBinding controller says that the secret of a binding is valid, the top-level controller,
  reading the same secret outside control-plane mode, registers the binding with a context of that
  kubeconfig. The kubeconfigs it silently skips are those the other controller reports. The hypothesis on
  client-go is that the empty kubeconfig is not usable.\<close>

theorem valid_secret_gets_controller:
  assumes "konn_inv s" and "rangesOver R" and "\<not> kr_controlPlaneMode R"
    and "kr_clientcmd R = sbr_clientcmd S" and "getSecret R = sbr_getConsumerSecret S"
    and "sbr_controlPlaneMode S = kr_controlPlaneMode R"
    and "\<not> kubeconfigUsable (kr_clientcmd R) False ''''"
    and "sb_reconcile S now b = ([], b')" and "distinctTypes (GetConditions serviceBindingSetter b)"
    and "IsTrue serviceBindingSetter b' APIServiceBindingConditionSecretValid"
  shows "\<exists>k a. kubeconfigOf R b = Inr k \<and> k \<noteq> '''' \<and>
     fmlookup (k_controllers (snd (konn_reconcile R b s))) (bindingName b) = Some a \<and>
     hasKubeconfig (snd (konn_reconcile R b s)) k a"
proof -
  have "bindingSecretUsable S b"
    using IsTrue_marked[OF sb_reconcile_SecretValid[OF assms(8,9)]] assms(10) by (simp split: if_splits)
  then obtain k where k: "kubeconfigOf R b = Inr k" "kubeconfigUsable (kr_clientcmd R) False k"
    using assms(3-6) by (auto simp: bindingSecretUsable_def kubeconfigOf_def Let_def split: sum.splits option.splits)
  have "k \<noteq> ''''" using k(2) assms(7) by metis
  have "providerTarget R k \<noteq> None"
    using k(2) providerTarget_None_iff[OF assms(3), of k] by simp
  from konn_registered[OF assms(1,2) k(1) \<open>k \<noteq> ''''\<close> this] k(1) \<open>k \<noteq> ''''\<close> show ?thesis by metis
qed

theorem valid_secret_gets_controller_witness:
  "\<exists>k a. kubeconfigOf sampleKonn sampleBinding = Inr k \<and> k \<noteq> '''' \<and>
     fmlookup (k_controllers (snd (konn_reconcile sampleKonn sampleBinding initKonn))) (bindingName sampleBinding) = Some a \<and>
     hasKubeconfig (snd (konn_reconcile sampleKonn sampleBinding initKonn)) k a"
proof -
  obtain b' where run: "sb_reconcile sampleSB 100 sampleBinding = ([], b')" using sampleSB_run by blast
  have "bindingSecretUsable sampleSB sampleBinding"
    by (simp add: bindingSecretUsable_def kubeconfigUsable_def sampleSB_def konn_samples sampleBinding_def)
  then have valid: "IsTrue serviceBindingSetter b' APIServiceBindingConditionSecretValid"
    using IsTrue_marked[OF sb_reconcile_SecretValid[OF run sample_distinct(2)]] by simp
  show ?thesis
    by (rule valid_secret_gets_controller[OF konn_inv_init sampleKonn_range _ _ _ _ _ run sample_distinct(2) valid])
      (simp_all add: sampleSB_def konn_samples kubeconfigUsable_def)
qed

end
