(* ===== verification/Provider_Error.thy ===== *)
theory Provider_Error
  imports Kube_Object
begin

text \<open>
  The errors of provider-anynines: \<open>provider-anynines/pkg/utilerr\<close>, the error types of the
  service broker client (\<open>clients/a9s-open-service-broker/errors.go\<close>) and of the backup manager client
  (\<open>clients/a9s-backup-manager/errors.go\<close>), and the predicates of \<open>provider-anynines/pkg/client/osb\<close>.

  A Go \<open>error\<close> of the provider is a \<open>go_err\<close>: one constructor per error type of the sources.
  \<open>Errorf p e\<close> is \<open>fmt.Errorf("p: %w", e)\<close>, \<open>ErrorString\<close> any error without further structure.
  \<open>chain\<close> follows \<open>Unwrap\<close>, and \<open>errorsAs\<close> is \<open>errors.As\<close>: the first error of the chain that has the
  wanted type. The embedded error of a \<open>userError\<close> may be nil.
  The types \<open>PlainErr\<close> and \<open>errors.New\<close> differ only in name, both are \<open>ErrorString\<close>.
  A Go call that can panic returns a \<open>go_result\<close>.

  \<open>convertAndLog_displayable\<close> shows that the decorator around every external client lets only two
  kinds of errors through: what an error of the chain offers for display, and
  \<open>ErrInternal\<close>.
\<close>

section \<open>Error types\<close>

record HTTPStatusCodeError =
  he_StatusCode :: int
  he_ErrorMessage :: "string option"
  he_Description :: "string option"
  he_ResponseError :: "string option"

datatype go_err =
    OsbHTTP HTTPStatusCodeError
  | BackupHTTP HTTPStatusCodeError
  | OperationStateError string
  | GetInstanceNotAllowed string
  | GetServiceInstanceNotAllowed string
  | GetBindingNotAllowed string
  | AsyncBindingOperationsNotAllowed string
  | AvailabilityInvalidStatusError int
  | InstanceNotFoundError go_err
  | BackupNotFoundError go_err
  | BackupLockedError string
  | BackupFileDeletionFailed string
  | BackupNonRestorableState go_err
  | BackupNotFound go_err
  | RestoreInProgress go_err
  | UserError go_err "go_err option"
  | PlainUserErr string
  | ErrServiceNameNotFound string
  | ErrPlanNameNotFound string
  | Errorf string go_err
  | ErrorString string

datatype 'a go_result = Panic | Return 'a "go_err option"

text \<open>The errors that \<open>errors.As\<close> visits, outermost first.\<close>

fun chain :: "go_err \<Rightarrow> go_err list" where
  "chain (UserError m (Some cause)) = UserError m (Some cause) # chain cause"
| "chain (Errorf p e) = Errorf p e # chain e"
| "chain (InstanceNotFoundError e) = InstanceNotFoundError e # chain e"
| "chain (BackupNotFoundError e) = BackupNotFoundError e # chain e"
| "chain (BackupNonRestorableState e) = BackupNonRestorableState e # chain e"
| "chain (BackupNotFound e) = BackupNotFound e # chain e"
| "chain (RestoreInProgress e) = RestoreInProgress e # chain e"
| "chain e = [e]"

fun firstSome :: "('a \<Rightarrow> 'b option) \<Rightarrow> 'a list \<Rightarrow> 'b option" where
  "firstSome p [] = None"
| "firstSome p (x # xs) = (case p x of None \<Rightarrow> firstSome p xs | Some y \<Rightarrow> Some y)"

definition errorsAs :: "(go_err \<Rightarrow> 'a option) \<Rightarrow> go_err \<Rightarrow> 'a option" where
  "errorsAs p e = firstSome p (chain e)"

fun asOsbHTTP :: "go_err \<Rightarrow> HTTPStatusCodeError option" where
  "asOsbHTTP (OsbHTTP h) = Some h"
| "asOsbHTTP e = None"

fun asBackupHTTP :: "go_err \<Rightarrow> HTTPStatusCodeError option" where
  "asBackupHTTP (BackupHTTP h) = Some h"
| "asBackupHTTP e = None"

section \<open>Errors of the service broker client\<close>

definition AsyncErrorMessage :: string where
  [klutch_defs]: "AsyncErrorMessage = ''AsyncRequired''"

definition AsyncErrorDescription :: string where
  [klutch_defs]: "AsyncErrorDescription =
     ''This service plan requires client support for asynchronous service operations.''"

definition AppGUIDRequiredErrorMessage :: string where
  [klutch_defs]: "AppGUIDRequiredErrorMessage = ''RequiresApp''"

definition AppGUIDRequiredErrorDescription :: string where
  [klutch_defs]: "AppGUIDRequiredErrorDescription =
     ''This service supports generation of credentials through binding an application only.''"

definition ConcurrencyErrorMessage :: string where
  [klutch_defs]: "ConcurrencyErrorMessage = ''ConcurrencyError''"

definition ConcurrencyErrorDescription :: string where
  [klutch_defs]: "ConcurrencyErrorDescription =
     ''The Service Broker does not support concurrent requests that mutate the same resource.''"

definition IsGoneError :: "go_err \<Rightarrow> bool" where
  "IsGoneError e = (case asOsbHTTP e of None \<Rightarrow> False | Some h \<Rightarrow> he_StatusCode h = 410)"

definition IsConflictError :: "go_err \<Rightarrow> bool" where
  "IsConflictError e = (case asOsbHTTP e of None \<Rightarrow> False | Some h \<Rightarrow> he_StatusCode h = 409)"

text \<open>
  The three checks for an error that the Open Service Broker API prescribes have the same body; the
  error must be the HTTP error itself, a wrapped one does not count.
\<close>

definition prescribedError :: "string \<Rightarrow> string \<Rightarrow> go_err \<Rightarrow> bool" where
  "prescribedError msg desc e =
     (case asOsbHTTP e of
        None \<Rightarrow> False
      | Some h \<Rightarrow>
          (if he_StatusCode h \<noteq> 422 then False
           else if he_ErrorMessage h = None \<or> he_Description h = None then False
           else if he_ErrorMessage h \<noteq> Some msg then False
           else he_Description h = Some desc))"

definition IsAsyncRequiredError :: "go_err \<Rightarrow> bool" where
  "IsAsyncRequiredError = prescribedError AsyncErrorMessage AsyncErrorDescription"

definition IsAppGUIDRequiredError :: "go_err \<Rightarrow> bool" where
  "IsAppGUIDRequiredError = prescribedError AppGUIDRequiredErrorMessage AppGUIDRequiredErrorDescription"

definition IsConcurrencyError :: "go_err \<Rightarrow> bool" where
  "IsConcurrencyError = prescribedError ConcurrencyErrorMessage ConcurrencyErrorDescription"

section \<open>Not found and deleted\<close>

definition InstanceNotFound :: string where
  "InstanceNotFound = ''InstanceNotFound''"

definition osb_IsNotFound :: "go_err \<Rightarrow> bool" where
  "osb_IsNotFound e =
     (case errorsAs asOsbHTTP e of
        None \<Rightarrow> False
      | Some h \<Rightarrow>
          (case he_ErrorMessage h of
             None \<Rightarrow> False
           | Some m \<Rightarrow> he_StatusCode h = 404 \<and> m = InstanceNotFound))"

definition osb_IsDeleted :: "go_err \<Rightarrow> bool" where
  "osb_IsDeleted e =
     (case errorsAs asOsbHTTP e of
        None \<Rightarrow> False
      | Some h \<Rightarrow>
          (case he_ErrorMessage h of
             None \<Rightarrow> False
           | Some m \<Rightarrow> he_StatusCode h = 410 \<and> m = InstanceNotFound))"

section \<open>Errors for the user\<close>

definition WithCause :: "string \<Rightarrow> go_err option \<Rightarrow> go_err" where
  "WithCause message cause = UserError (PlainUserErr message) cause"

text \<open>An HTTP error of the user's making: a 4xx status with a description.\<close>

fun userInput :: "HTTPStatusCodeError option \<Rightarrow> string option" where
  "userInput None = None"
| "userInput (Some h) =
     (if 400 \<le> he_StatusCode h \<and> he_StatusCode h < 500 then he_Description h else None)"

definition HandleHttpError :: "go_err \<Rightarrow> go_err" where
  "HandleHttpError e =
     (case userInput (errorsAs asOsbHTTP e) of
        Some d \<Rightarrow> UserError (PlainUserErr d) (Some e)
      | None \<Rightarrow>
          (case userInput (errorsAs asBackupHTTP e) of
             Some d \<Rightarrow> UserError (PlainUserErr d) (Some e)
           | None \<Rightarrow> e))"

text \<open>The method \<open>UserDisplay\<close>, of the types that have it.\<close>

fun UserDisplay :: "go_err \<Rightarrow> go_err option" where
  "UserDisplay (UserError m c) = Some m"
| "UserDisplay (PlainUserErr s) = Some (PlainUserErr s)"
| "UserDisplay (ErrServiceNameNotFound n) = Some (ErrServiceNameNotFound n)"
| "UserDisplay (ErrPlanNameNotFound n) = Some (ErrPlanNameNotFound n)"
| "UserDisplay e = None"

definition ErrInternal :: go_err where
  "ErrInternal = ErrorString ''Internal error in provider''"

definition convertAndLog :: "go_err option \<Rightarrow> go_err option" where
  "convertAndLog err =
     (case err of
        None \<Rightarrow> None
      | Some e \<Rightarrow>
          (case errorsAs UserDisplay e of
             Some m \<Rightarrow> Some m
           | None \<Rightarrow> Some ErrInternal))"

text \<open>The four operations of the decorator are the same function of the decorated operation.\<close>

fun decorate :: "'a go_result \<Rightarrow> 'a go_result" where
  "decorate Panic = Panic"
| "decorate (Return r err) = Return r (convertAndLog err)"

section \<open>Lemmas\<close>

lemma firstSome_Some: "firstSome p xs = Some y \<Longrightarrow> \<exists>x\<in>set xs. p x = Some y"
  by (induction xs) (auto split: option.splits)

lemma firstSome_None: "firstSome p xs = None \<longleftrightarrow> (\<forall>x\<in>set xs. p x = None)"
  by (induction xs) (auto split: option.splits)

lemma chain_self: "\<exists>es. chain e = e # es"
  by (cases e rule: chain.cases) auto

lemma prescribed_exclusive:
  "m \<noteq> m' \<Longrightarrow> prescribedError m d e \<Longrightarrow> \<not> prescribedError m' d' e"
  by (auto simp: prescribedError_def split: option.splits if_splits)

lemma messages_distinct:
  "AsyncErrorMessage \<noteq> ConcurrencyErrorMessage"
  "AsyncErrorMessage \<noteq> AppGUIDRequiredErrorMessage"
  "AppGUIDRequiredErrorMessage \<noteq> ConcurrencyErrorMessage"
  by (simp_all add: klutch_defs)

lemma broker_errors_exclusive:
  "IsAsyncRequiredError e \<Longrightarrow> \<not> IsConcurrencyError e"
  "IsAsyncRequiredError e \<Longrightarrow> \<not> IsAppGUIDRequiredError e"
  "IsAppGUIDRequiredError e \<Longrightarrow> \<not> IsConcurrencyError e"
  unfolding IsAsyncRequiredError_def IsConcurrencyError_def IsAppGUIDRequiredError_def
  by (metis messages_distinct prescribed_exclusive)+

lemma notFound_not_deleted: "osb_IsNotFound e \<Longrightarrow> \<not> osb_IsDeleted e"
  by (auto simp: osb_IsNotFound_def osb_IsDeleted_def split: option.splits)

lemma convertAndLog_None [simp]: "convertAndLog err = None \<longleftrightarrow> err = None"
  by (auto simp: convertAndLog_def split: option.splits)

text \<open>
  What reaches the user was offered for display by an error of the chain, or says nothing.
\<close>

lemma convertAndLog_displayable:
  assumes "convertAndLog (Some e) = Some e'" "e' \<noteq> ErrInternal"
  shows "\<exists>x\<in>set (chain e). UserDisplay x = Some e'"
  using assms firstSome_Some by (force simp: convertAndLog_def errorsAs_def split: option.splits)

text \<open>An HTTP error keeps its class under \<open>HandleHttpError\<close>, so a later check still recognises it.\<close>

lemma HandleHttpError_keeps_chain: "set (chain e) \<subseteq> set (chain (HandleHttpError e))"
  by (auto simp: HandleHttpError_def split: option.splits)

lemma convertAndLog_user [simp]:
  "convertAndLog (Some (UserError m c)) = Some m"
  by (cases c) (simp_all add: convertAndLog_def errorsAs_def)

lemma HandleHttpError_displayed:
  assumes "userInput (errorsAs asOsbHTTP e) = Some d"
  shows "convertAndLog (Some (Errorf p (HandleHttpError e))) = Some (PlainUserErr d)"
  using assms by (simp add: HandleHttpError_def convertAndLog_def errorsAs_def)

end
