(* ===== verification/Broker_Client.thy ===== *)
theory Broker_Client
  imports Provider_Error Go_Fmt
begin

text \<open>
  The Open Service Broker client, \<open>clients/a9s-open-service-broker\<close>: the requests and responses of
  \<open>types.go\<close>, the API versions, and the operations that the service instance and
  service binding controllers call, each down to the HTTP request.

  \<^item> \<open>client\<close> has the fields of the struct. The HTTP transport (\<open>doRequestFunc\<close>), the check of
    \<open>http.NewRequest\<close>, the expiry of client-go's TTL store and the decoders of
    \<open>encoding/json\<close>, one per type that the client decodes into, are parameters, fields of the record.
  \<^item> \<open>http_world\<close> is the state: the requests sent so far, which the transport's answer may depend on, and
    the catalog in the cache.
  \<^item> A Go result \<open>(*T, error)\<close> is \<open>'a goptr\<close>, the pair of the two possibly nil values. The locale
    \<open>pointer_call\<close> is the contract that the callers rely on, exactly one of them is nil; it is
    interpreted for every operation of the client, as well as \<open>read_only_call\<close> for those that only send GET
    requests.
\<close>

section \<open>Data of the API\<close>

record MaintenanceInfo =
  mi_Version :: string
  mi_Description :: string

record Plan =
  pl_ID :: string
  pl_Name :: string
  pl_Description :: string
  pl_Free :: "bool option"
  pl_Bindable :: "bool option"
  pl_Metadata :: "(string, json) fmap option"
  pl_Schemas :: "json option"
  pl_PlanUpdateable :: "bool option"
  pl_MaximumPollingDuration :: "int option"
  pl_MaintenanceInfo :: "MaintenanceInfo option"

record Service =
  sv_ID :: string
  sv_Name :: string
  sv_Description :: string
  sv_Tags :: "string list"
  sv_Requires :: "string list"
  sv_Bindable :: bool
  sv_InstancesRetrievable :: bool
  sv_BindingsRetrievable :: bool
  sv_PlanUpdatable :: "bool option"
  sv_Plans :: "Plan list"
  sv_DashboardClient :: "(string \<times> string \<times> string) option"
  sv_Metadata :: "(string, json) fmap option"

record CatalogResponse =
  ct_Services :: "Service list"

record OriginatingIdentity =
  oi_Platform :: string
  oi_Value :: string

type_synonym jsonMap = "(string, json) fmap option"

record ProvisionRequest =
  pr_InstanceID :: string
  pr_AcceptsIncomplete :: bool
  pr_ServiceID :: string
  pr_PlanID :: string
  pr_OrganizationGUID :: string
  pr_SpaceGUID :: string
  pr_Parameters :: jsonMap
  pr_Context :: jsonMap
  pr_OriginatingIdentity :: "OriginatingIdentity option"

record ProvisionResponse =
  ps_Async :: bool
  ps_DashboardURL :: "string option"
  ps_OperationKey :: "string option"

record PreviousValues =
  pv_PlanID :: string
  pv_ServiceID :: string
  pv_OrgID :: string
  pv_SpaceID :: string

record UpdateInstanceRequest =
  ur_InstanceID :: string
  ur_AcceptsIncomplete :: bool
  ur_ServiceID :: string
  ur_PlanID :: "string option"
  ur_Parameters :: jsonMap
  ur_PreviousValues :: "PreviousValues option"
  ur_Context :: jsonMap
  ur_OriginatingIdentity :: "OriginatingIdentity option"

record UpdateInstanceResponse =
  us_Async :: bool
  us_DashboardURL :: "string option"
  us_OperationKey :: "string option"

record DeprovisionRequest =
  dr_InstanceID :: string
  dr_AcceptsIncomplete :: bool
  dr_ServiceID :: string
  dr_PlanID :: string
  dr_OriginatingIdentity :: "OriginatingIdentity option"

record DeprovisionResponse =
  ds_Async :: bool
  ds_OperationKey :: "string option"

record OsbContext =
  cx_OrganizationGUID :: string
  cx_SpaceGUID :: string
  cx_Parameters :: jsonMap

record Credential =
  cr_ID :: int
  cr_InstanceID :: int
  cr_GUIDAtTenant :: string

record GetInstanceResponse =
  gi_ID :: int
  gi_PlanGUID :: string
  gi_ServiceGUID :: string
  gi_Context :: OsbContext
  gi_DashboardURL :: string
  gi_DeploymentName :: string
  gi_State :: string
  gi_GUIDAtTenant :: string
  gi_TenantID :: string
  gi_ProvisionedAt :: string
  gi_DeletedAt :: string
  gi_CreatedAt :: string
  gi_UpdatedAt :: string
  gi_Credentials :: "Credential list"
  gi_VMDetails :: json

record GetServiceInstanceResponse =
  gs_ID :: string
  gs_PlanGUID :: string
  gs_ServiceGUID :: string
  gs_DashboardURL :: string
  gs_Parameters :: jsonMap
  gs_Context :: OsbContext

record BindResource =
  br_AppGUID :: "string option"
  br_Route :: "string option"

record BindRequest =
  bq_BindingID :: string
  bq_InstanceID :: string
  bq_AcceptsIncomplete :: bool
  bq_ServiceID :: string
  bq_PlanID :: string
  bq_AppGUID :: "string option"
  bq_BindResource :: "BindResource option"
  bq_Parameters :: jsonMap
  bq_Context :: jsonMap
  bq_OriginatingIdentity :: "OriginatingIdentity option"

record BindResponse =
  bs_Async :: bool
  bs_Credentials :: jsonMap
  bs_SyslogDrainURL :: "string option"
  bs_RouteServiceURL :: "string option"
  bs_VolumeMounts :: "json list"
  bs_OperationKey :: "string option"
  bs_Endpoints :: "json option"

record UnbindRequest =
  un_InstanceID :: string
  un_BindingID :: string
  un_AcceptsIncomplete :: bool
  un_ServiceID :: string
  un_PlanID :: string
  un_OriginatingIdentity :: "OriginatingIdentity option"

record UnbindResponse =
  ui_Async :: bool
  ui_OperationKey :: "string option"

record GetBindingResponse =
  gb_Credentials :: jsonMap
  gb_SyslogDrainURL :: "string option"
  gb_RouteServiceURL :: "string option"
  gb_VolumeMounts :: "json list"
  gb_Parameters :: jsonMap
  gb_Endpoints :: "json option"

record GetOperationRequest =
  go_InstanceID :: string
  go_OperationKey :: string

record GetOperationResponse =
  go_State :: string

definition IsDone :: "GetOperationResponse \<Rightarrow> bool" where
  "IsDone r \<longleftrightarrow> go_State r = ''succeeded''"

definition IsFailure :: "GetOperationResponse \<Rightarrow> bool \<times> go_err option" where
  "IsFailure r =
     (if go_State r = ''failed'' then (True, Some (OperationStateError (go_State r)))
      else (False, None))"

section \<open>Versions\<close>

record APIVersion =
  av_label :: string
  av_order :: nat

definition AtLeast :: "APIVersion \<Rightarrow> APIVersion \<Rightarrow> bool" where
  "AtLeast v test \<longleftrightarrow> av_order test \<le> av_order v"

definition IsLessThan :: "APIVersion \<Rightarrow> APIVersion \<Rightarrow> bool" where
  "IsLessThan v other \<longleftrightarrow> \<not> AtLeast v other"

definition Version2_11 :: APIVersion where
  "Version2_11 = \<lparr>av_label = ''2.11'', av_order = 0\<rparr>"

definition Version2_12 :: APIVersion where
  "Version2_12 = \<lparr>av_label = ''2.12'', av_order = 1\<rparr>"

definition Version2_13 :: APIVersion where
  "Version2_13 = \<lparr>av_label = ''2.13'', av_order = 2\<rparr>"

definition Version2_14 :: APIVersion where
  "Version2_14 = \<lparr>av_label = ''2.14'', av_order = 3\<rparr>"

definition LatestAPIVersion :: APIVersion where
  "LatestAPIVersion = Version2_14"

definition APIVersions :: "APIVersion list" where
  "APIVersions = [Version2_11, Version2_12, Version2_13, Version2_14]"

section \<open>The client\<close>

record AuthConfig =
  ac_BasicAuthConfig :: "(string \<times> string) option"
  ac_BearerConfig :: "string option"

datatype authorization = BasicAuth string string | BearerToken string

record provisionRequestBody =
  pb_ServiceID :: string
  pb_PlanID :: string
  pb_OrganizationGUID :: string
  pb_SpaceGUID :: string
  pb_Parameters :: jsonMap
  pb_Context :: jsonMap

record updateInstanceRequestBody =
  ub_ServiceID :: string
  ub_PlanID :: "string option"
  ub_Parameters :: jsonMap
  ub_Context :: jsonMap
  ub_PreviousValues :: "PreviousValues option"

record bindRequestBody =
  bb_ServiceID :: string
  bb_PlanID :: string
  bb_Parameters :: jsonMap
  bb_BindResource :: jsonMap
  bb_Context :: jsonMap

datatype requestBody =
    ProvisionBody provisionRequestBody
  | UpdateBody updateInstanceRequestBody
  | BindBody bindRequestBody

datatype http_method = GET | HEAD | PUT | PATCH | POST | DELETE

record http_request =
  rq_Method :: http_method
  rq_URL :: string
  rq_Params :: "(string, string) fmap option"
  rq_Body :: "requestBody option"
  rq_APIVersion :: string
  rq_ContentType :: "string option"
  rq_Authorization :: "authorization option"
  rq_OriginatingIdentity :: "string option"

record http_response =
  rs_StatusCode :: int
  rs_Body :: "string + string"

record http_world =
  hw_requests :: "http_request list"
  hw_catalog :: "CatalogResponse option"

record client =
  cl_URL :: string
  cl_APIVersion :: APIVersion
  cl_AuthConfig :: "AuthConfig option"
  cl_EnableAlphaFeatures :: bool
  cl_hasCache :: bool
  cl_cacheExpired :: "http_world \<Rightarrow> bool"
  cl_newRequest :: "string \<Rightarrow> go_err option"
  cl_do :: "http_request list \<Rightarrow> http_request \<Rightarrow> go_err + http_response"
  cl_base64 :: "string \<Rightarrow> string"
  cl_isValidJSON :: "string \<Rightarrow> string option"
  cl_decodeMap :: "string \<Rightarrow> string + (string, json) fmap"
  cl_decodeCatalog :: "string \<Rightarrow> string + CatalogResponse"
  cl_decodeProvision :: "string \<Rightarrow> string + ProvisionResponse"
  cl_decodeOperation :: "string \<Rightarrow> string + (string option \<times> string option)"
  cl_decodeInstance :: "string \<Rightarrow> string + GetInstanceResponse"
  cl_decodeServiceInstance :: "string \<Rightarrow> string + GetServiceInstanceResponse"
  cl_decodeOperationState :: "string \<Rightarrow> string + GetOperationResponse"
  cl_decodeBind :: "string \<Rightarrow> string + BindResponse"
  cl_decodeBindSuccess :: "string \<Rightarrow> string + BindResponse"
  cl_decodeUnbind :: "string \<Rightarrow> string + UnbindResponse"
  cl_decodeBinding :: "string \<Rightarrow> string + GetBindingResponse"

type_synonym 'a goptr = "'a option \<times> go_err option"

definition buildOriginatingIdentityHeaderValue :: "client \<Rightarrow> OriginatingIdentity \<Rightarrow> go_err + string" where
  "buildOriginatingIdentityHeaderValue c i =
     (if oi_Platform i = '''' then Inl (ErrorString ''originating identity platform must not be empty'')
      else if oi_Value i = '''' then Inl (ErrorString ''originating identity value must not be empty'')
      else case cl_isValidJSON c (oi_Value i) of
             Some e \<Rightarrow> Inl (ErrorString
               (Sprintf ''originating identity value must be valid JSON: %v'' [FStr e]))
           | None \<Rightarrow> Inr (Sprintf ''%v %v'' [FStr (oi_Platform i), FStr (cl_base64 c (oi_Value i))]))"

fun authorizationOf :: "AuthConfig option \<Rightarrow> authorization option" where
  "authorizationOf None = None"
| "authorizationOf (Some a) =
     (case ac_BasicAuthConfig a of
        Some (u, p) \<Rightarrow> Some (BasicAuth u p)
      | None \<Rightarrow> map_option BearerToken (ac_BearerConfig a))"

definition identityHeader :: "client \<Rightarrow> OriginatingIdentity option \<Rightarrow> go_err + string option" where
  "identityHeader c ident =
     (case ident of
        None \<Rightarrow> Inr None
      | Some i \<Rightarrow>
          (if AtLeast (cl_APIVersion c) Version2_13
           then map_sum id Some (buildOriginatingIdentityHeaderValue c i)
           else Inr None))"

definition prepareAndDo ::
  "client \<Rightarrow> http_world \<Rightarrow> http_method \<Rightarrow> string \<Rightarrow> (string, string) fmap option \<Rightarrow> requestBody option
   \<Rightarrow> OriginatingIdentity option \<Rightarrow> (go_err + http_response) \<times> http_world" where
  "prepareAndDo c w method url params body ident =
     (case cl_newRequest c url of
        Some e \<Rightarrow> (Inl e, w)
      | None \<Rightarrow>
          (case identityHeader c ident of
             Inl e \<Rightarrow> (Inl e, w)
           | Inr hdr \<Rightarrow>
               (let rq = \<lparr>rq_Method = method, rq_URL = url, rq_Params = params, rq_Body = body,
                          rq_APIVersion = av_label (cl_APIVersion c),
                          rq_ContentType = (if body = None then None else Some ''application/json''),
                          rq_Authorization = authorizationOf (cl_AuthConfig c),
                          rq_OriginatingIdentity = hdr\<rparr>
                in (cl_do c (hw_requests w) rq, w\<lparr>hw_requests := hw_requests w @ [rq]\<rparr>))))"

definition unmarshalResponse :: "(string \<Rightarrow> string + 'a) \<Rightarrow> http_response \<Rightarrow> string + 'a" where
  "unmarshalResponse decode r = (case rs_Body r of Inl e \<Rightarrow> Inl e | Inr body \<Rightarrow> decode body)"

definition stringEntry :: "(string, json) fmap \<Rightarrow> string \<Rightarrow> string option" where
  "stringEntry m k = (case fmlookup m k of Some (JStr s) \<Rightarrow> Some s | _ \<Rightarrow> None)"

definition handleFailureResponse :: "client \<Rightarrow> http_response \<Rightarrow> go_err" where
  "handleFailureResponse c r =
     (case unmarshalResponse (cl_decodeMap c) r of
        Inl e \<Rightarrow> OsbHTTP \<lparr>he_StatusCode = rs_StatusCode r, he_ErrorMessage = None,
                          he_Description = None, he_ResponseError = Some e\<rparr>
      | Inr m \<Rightarrow> OsbHTTP \<lparr>he_StatusCode = rs_StatusCode r, he_ErrorMessage = stringEntry m ''error'',
                          he_Description = stringEntry m ''description'', he_ResponseError = None\<rparr>)"

definition malformed :: "http_response \<Rightarrow> string \<Rightarrow> go_err" where
  "malformed r e = OsbHTTP \<lparr>he_StatusCode = rs_StatusCode r, he_ErrorMessage = None,
                            he_Description = None, he_ResponseError = Some e\<rparr>"

definition validateClientVersionIsAtLeast :: "client \<Rightarrow> APIVersion \<Rightarrow> string option" where
  "validateClientVersionIsAtLeast c version =
     (if \<not> AtLeast (cl_APIVersion c) version
      then Some (Sprintf ''operation not allowed: %s''
             [FStr (Sprintf ''must have API version >= %s. Current: %s''
               [FStr (av_label version), FStr (av_label (cl_APIVersion c))])])
      else None)"

definition serviceInstanceURL :: "client \<Rightarrow> string \<Rightarrow> string" where
  "serviceInstanceURL c i = Sprintf ''%s/v2/service_instances/%s'' [FStr (cl_URL c), FStr i]"

definition acceptsParam :: "bool \<Rightarrow> (string, string) fmap \<Rightarrow> (string, string) fmap" where
  "acceptsParam b m = (if b then fmupd ''accepts_incomplete'' ''true'' m else m)"

section \<open>Operations\<close>

definition required :: "string \<Rightarrow> go_err" where
  "required name = ErrorString (Sprintf ''%v is required'' [FStr name])"

text \<open>\<open>request.Context[key] != nil\<close>: present with a value other than null.\<close>

definition contextSet :: "jsonMap \<Rightarrow> string \<Rightarrow> bool" where
  "contextSet ctx k =
     (case ctx of None \<Rightarrow> False | Some m \<Rightarrow> fmlookup m k \<noteq> None \<and> fmlookup m k \<noteq> Some JNull)"

definition validateProvisionRequest :: "ProvisionRequest \<Rightarrow> go_err option" where
  "validateProvisionRequest r =
     (if pr_InstanceID r = '''' then Some (required ''instanceID'')
      else if pr_ServiceID r = '''' then Some (required ''serviceID'')
      else if pr_PlanID r = '''' then Some (required ''planID'')
      else if pr_OrganizationGUID r = '''' then Some (required ''organizationGUID'')
      else if pr_SpaceGUID r = '''' then Some (required ''spaceGUID'')
      else if contextSet (pr_Context r) ''organizationGUID'' then Some (required ''organizationGUID'')
      else if contextSet (pr_Context r) ''spaceGUID'' then Some (required ''spaceGUID'')
      else None)"

definition provisionAnswer :: "client \<Rightarrow> ProvisionRequest \<Rightarrow> http_response \<Rightarrow> ProvisionResponse goptr" where
  "provisionAnswer c r resp =
     (if rs_StatusCode resp = 201 \<or> rs_StatusCode resp = 200
      then case unmarshalResponse (cl_decodeProvision c) resp of
             Inl e \<Rightarrow> (None, Some (malformed resp e))
           | Inr u \<Rightarrow> (Some u, None)
      else if rs_StatusCode resp = 202
      then (if \<not> pr_AcceptsIncomplete r then (None, Some (handleFailureResponse c resp))
            else case unmarshalResponse (cl_decodeOperation c) resp of
                   Inl e \<Rightarrow> (None, Some (malformed resp e))
                 | Inr (dashboard, op') \<Rightarrow>
                     (Some \<lparr>ps_Async = True, ps_DashboardURL = dashboard, ps_OperationKey = op'\<rparr>, None))
      else (None, Some (handleFailureResponse c resp)))"

definition ProvisionInstance ::
  "client \<Rightarrow> http_world \<Rightarrow> ProvisionRequest \<Rightarrow> ProvisionResponse goptr \<times> http_world" where
  "ProvisionInstance c w r =
     (case validateProvisionRequest r of
        Some e \<Rightarrow> ((None, Some e), w)
      | None \<Rightarrow>
          (let body = \<lparr>pb_ServiceID = pr_ServiceID r, pb_PlanID = pr_PlanID r,
                       pb_OrganizationGUID = pr_OrganizationGUID r, pb_SpaceGUID = pr_SpaceGUID r,
                       pb_Parameters = pr_Parameters r,
                       pb_Context = (if AtLeast (cl_APIVersion c) Version2_12 then pr_Context r else None)\<rparr>
           in case prepareAndDo c w PUT (serviceInstanceURL c (pr_InstanceID r))
                     (Some (acceptsParam (pr_AcceptsIncomplete r) fmempty)) (Some (ProvisionBody body))
                     (pr_OriginatingIdentity r) of
                (Inl e, w') \<Rightarrow> ((None, Some e), w')
              | (Inr resp, w') \<Rightarrow> (provisionAnswer c r resp, w')))"

definition validateUpdateInstanceRequest :: "UpdateInstanceRequest \<Rightarrow> go_err option" where
  "validateUpdateInstanceRequest r =
     (if ur_InstanceID r = '''' then Some (required ''instanceID'')
      else if ur_ServiceID r = '''' then Some (required ''serviceID'')
      else None)"

definition updateAnswer ::
  "client \<Rightarrow> UpdateInstanceRequest \<Rightarrow> http_response \<Rightarrow> UpdateInstanceResponse goptr" where
  "updateAnswer c r resp =
     (if rs_StatusCode resp = 200
      then case unmarshalResponse (cl_decodeOperation c) resp of
             Inl e \<Rightarrow> (None, Some (malformed resp e))
           | Inr (dashboard, op') \<Rightarrow>
               (Some \<lparr>us_Async = False,
                      us_DashboardURL = (if AtLeast (cl_APIVersion c) Version2_14 then dashboard else None),
                      us_OperationKey = None\<rparr>, None)
      else if rs_StatusCode resp = 202
      then (if \<not> ur_AcceptsIncomplete r then (None, Some (handleFailureResponse c resp))
            else case unmarshalResponse (cl_decodeOperation c) resp of
                   Inl e \<Rightarrow> (None, Some (malformed resp e))
                 | Inr (dashboard, op') \<Rightarrow>
                     (Some \<lparr>us_Async = True,
                            us_DashboardURL = (if AtLeast (cl_APIVersion c) Version2_14 then dashboard else None),
                            us_OperationKey = op'\<rparr>, None))
      else (None, Some (handleFailureResponse c resp)))"

definition UpdateInstance ::
  "client \<Rightarrow> http_world \<Rightarrow> UpdateInstanceRequest \<Rightarrow> UpdateInstanceResponse goptr \<times> http_world" where
  "UpdateInstance c w r =
     (case validateUpdateInstanceRequest r of
        Some e \<Rightarrow> ((None, Some e), w)
      | None \<Rightarrow>
          (let body = \<lparr>ub_ServiceID = ur_ServiceID r, ub_PlanID = ur_PlanID r,
                       ub_Parameters = ur_Parameters r,
                       ub_Context = (if AtLeast (cl_APIVersion c) Version2_12 then ur_Context r else None),
                       ub_PreviousValues = ur_PreviousValues r\<rparr>
           in case prepareAndDo c w PATCH (serviceInstanceURL c (ur_InstanceID r))
                     (Some (acceptsParam (ur_AcceptsIncomplete r) fmempty)) (Some (UpdateBody body))
                     (ur_OriginatingIdentity r) of
                (Inl e, w') \<Rightarrow> ((None, Some e), w')
              | (Inr resp, w') \<Rightarrow> (updateAnswer c r resp, w')))"

definition validateDeprovisionRequest :: "DeprovisionRequest \<Rightarrow> go_err option" where
  "validateDeprovisionRequest r =
     (if dr_InstanceID r = '''' then Some (required ''instanceID'')
      else if dr_ServiceID r = '''' then Some (required ''serviceID'')
      else if dr_PlanID r = '''' then Some (required ''planID'')
      else None)"

definition deprovisionAnswer ::
  "client \<Rightarrow> DeprovisionRequest \<Rightarrow> http_response \<Rightarrow> DeprovisionResponse goptr" where
  "deprovisionAnswer c r resp =
     (if rs_StatusCode resp = 200 \<or> rs_StatusCode resp = 410
      then (Some \<lparr>ds_Async = False, ds_OperationKey = None\<rparr>, None)
      else if rs_StatusCode resp = 202
      then (if \<not> dr_AcceptsIncomplete r then (None, Some (handleFailureResponse c resp))
            else case unmarshalResponse (cl_decodeOperation c) resp of
                   Inl e \<Rightarrow> (None, Some (ErrorString e))
                 | Inr (dashboard, op') \<Rightarrow> (Some \<lparr>ds_Async = True, ds_OperationKey = op'\<rparr>, None))
      else (None, Some (handleFailureResponse c resp)))"

definition DeprovisionInstance ::
  "client \<Rightarrow> http_world \<Rightarrow> DeprovisionRequest \<Rightarrow> DeprovisionResponse goptr \<times> http_world" where
  "DeprovisionInstance c w r =
     (case validateDeprovisionRequest r of
        Some e \<Rightarrow> ((None, Some e), w)
      | None \<Rightarrow>
          (case prepareAndDo c w DELETE (serviceInstanceURL c (dr_InstanceID r))
                  (Some (acceptsParam (dr_AcceptsIncomplete r)
                     (fmupd ''plan_id'' (dr_PlanID r) (fmupd ''service_id'' (dr_ServiceID r) fmempty))))
                  None (dr_OriginatingIdentity r) of
             (Inl e, w') \<Rightarrow> ((None, Some e), w')
           | (Inr resp, w') \<Rightarrow> (deprovisionAnswer c r resp, w')))"

text \<open>The four GET operations share the shape: one request, 200 is decoded, anything else fails.\<close>

definition getAndDecode ::
  "client \<Rightarrow> http_world \<Rightarrow> string \<Rightarrow> (string, string) fmap option \<Rightarrow> (string \<Rightarrow> string + 'a)
   \<Rightarrow> 'a goptr \<times> http_world" where
  "getAndDecode c w url params decode =
     (case prepareAndDo c w GET url params None None of
        (Inl e, w') \<Rightarrow> ((None, Some e), w')
      | (Inr resp, w') \<Rightarrow>
          (if rs_StatusCode resp = 200
           then case unmarshalResponse decode resp of
                  Inl e \<Rightarrow> ((None, Some (malformed resp e)), w')
                | Inr u \<Rightarrow> ((Some u, None), w')
           else ((None, Some (handleFailureResponse c resp)), w')))"

definition GetInstance :: "client \<Rightarrow> http_world \<Rightarrow> string \<Rightarrow> GetInstanceResponse goptr \<times> http_world" where
  "GetInstance c w i =
     (case validateClientVersionIsAtLeast c Version2_14 of
        Some e \<Rightarrow> ((None, Some (GetInstanceNotAllowed e)), w)
      | None \<Rightarrow> getAndDecode c w (Sprintf ''%s/instances/%s'' [FStr (cl_URL c), FStr i]) None
                  (cl_decodeInstance c))"

definition GetServiceInstance ::
  "client \<Rightarrow> http_world \<Rightarrow> string \<Rightarrow> GetServiceInstanceResponse goptr \<times> http_world" where
  "GetServiceInstance c w i =
     (case validateClientVersionIsAtLeast c Version2_14 of
        Some e \<Rightarrow> ((None, Some (GetServiceInstanceNotAllowed e)), w)
      | None \<Rightarrow> getAndDecode c w (serviceInstanceURL c i) None (cl_decodeServiceInstance c))"

definition GetOperation ::
  "client \<Rightarrow> http_world \<Rightarrow> GetOperationRequest \<Rightarrow> GetOperationResponse goptr \<times> http_world" where
  "GetOperation c w r =
     getAndDecode c w
       (Sprintf ''%s/v2/service_instances/%s/last_operation'' [FStr (cl_URL c), FStr (go_InstanceID r)])
       (Some (fmupd ''operation'' (go_OperationKey r) fmempty)) (cl_decodeOperationState c)"

definition prunePlan :: "client \<Rightarrow> Plan \<Rightarrow> Plan" where
  "prunePlan c p =
     (let p1 = (if IsLessThan (cl_APIVersion c) Version2_13 then p\<lparr>pl_Schemas := None\<rparr> else p)
      in if \<not> cl_EnableAlphaFeatures c
         then p1\<lparr>pl_MaintenanceInfo := None, pl_MaximumPollingDuration := None, pl_PlanUpdateable := None\<rparr>
         else p1)"

definition pruneCatalogResponse :: "client \<Rightarrow> CatalogResponse \<Rightarrow> CatalogResponse" where
  "pruneCatalogResponse c ct =
     ct\<lparr>ct_Services := map (\<lambda>s. s\<lparr>sv_Plans := map (prunePlan c) (sv_Plans s)\<rparr>) (ct_Services ct)\<rparr>"

definition getCatalogFromCache :: "client \<Rightarrow> http_world \<Rightarrow> CatalogResponse option" where
  "getCatalogFromCache c w = (if \<not> cl_hasCache c \<or> cl_cacheExpired c w then None else hw_catalog w)"

definition setCatalogInCache :: "client \<Rightarrow> http_world \<Rightarrow> CatalogResponse \<Rightarrow> http_world" where
  "setCatalogInCache c w ct = (if cl_hasCache c then w\<lparr>hw_catalog := Some ct\<rparr> else w)"

definition getCatalogFromBroker :: "client \<Rightarrow> http_world \<Rightarrow> CatalogResponse goptr \<times> http_world" where
  "getCatalogFromBroker c w =
     (case getAndDecode c w (Sprintf ''%s/v2/catalog'' [FStr (cl_URL c)]) None (cl_decodeCatalog c) of
        ((Some ct, None), w') \<Rightarrow>
          (let ct' = (if IsLessThan (cl_APIVersion c) Version2_13 \<or> \<not> cl_EnableAlphaFeatures c
                      then pruneCatalogResponse c ct else ct)
           in ((Some ct', None), setCatalogInCache c w' ct'))
      | (r, w') \<Rightarrow> ((None, snd r), w'))"

definition GetCatalog :: "client \<Rightarrow> http_world \<Rightarrow> CatalogResponse goptr \<times> http_world" where
  "GetCatalog c w =
     (case getCatalogFromCache c w of
        None \<Rightarrow> getCatalogFromBroker c w
      | Some ct \<Rightarrow> ((Some ct, None), w))"

section \<open>Binding operations\<close>

definition bindingURL :: "client \<Rightarrow> string \<Rightarrow> string \<Rightarrow> string" where
  "bindingURL c instanceID bindingID =
     Sprintf ''%s/v2/service_instances/%s/service_bindings/%s'' [FStr (cl_URL c), FStr instanceID, FStr bindingID]"

definition asyncAllowed :: "client \<Rightarrow> bool \<Rightarrow> go_err option" where
  "asyncAllowed c acceptsIncomplete =
     (if acceptsIncomplete
      then map_option AsyncBindingOperationsNotAllowed (validateClientVersionIsAtLeast c Version2_14)
      else None)"

text \<open>\<open>validateBindRequest\<close> and \<open>validateUnbindRequest\<close> have the same body.\<close>

definition requiredIDs :: "string \<Rightarrow> string \<Rightarrow> string \<Rightarrow> string \<Rightarrow> go_err option" where
  "requiredIDs bindingID instanceID serviceID planID =
     (if bindingID = '''' then Some (required ''bindingID'')
      else if instanceID = '''' then Some (required ''instanceID'')
      else if serviceID = '''' then Some (required ''serviceID'')
      else if planID = '''' then Some (required ''planID'')
      else None)"

definition validateBindRequest :: "BindRequest \<Rightarrow> go_err option" where
  "validateBindRequest r = requiredIDs (bq_BindingID r) (bq_InstanceID r) (bq_ServiceID r) (bq_PlanID r)"

definition validateUnbindRequest :: "UnbindRequest \<Rightarrow> go_err option" where
  "validateUnbindRequest r = requiredIDs (un_BindingID r) (un_InstanceID r) (un_ServiceID r) (un_PlanID r)"

definition bindResourceBody :: "BindResource option \<Rightarrow> jsonMap" where
  "bindResourceBody br =
     map_option (\<lambda>b.
       (let m = (case br_AppGUID b of None \<Rightarrow> fmempty | Some g \<Rightarrow> fmupd ''app_guid'' (JStr g) fmempty)
        in case br_Route b of None \<Rightarrow> m | Some rt \<Rightarrow> fmupd ''route'' (JStr rt) m)) br"

definition bindAnswer :: "client \<Rightarrow> BindRequest \<Rightarrow> http_response \<Rightarrow> BindResponse goptr" where
  "bindAnswer c r resp =
     (if rs_StatusCode resp = 200 \<or> rs_StatusCode resp = 201
      then case unmarshalResponse (cl_decodeBind c) resp of
             Inl e \<Rightarrow> (None, Some (malformed resp e))
           | Inr u \<Rightarrow> (Some (if \<not> cl_EnableAlphaFeatures c then u\<lparr>bs_Endpoints := None\<rparr> else u), None)
      else if rs_StatusCode resp = 202
      then (if \<not> bq_AcceptsIncomplete r then (None, Some (handleFailureResponse c resp))
            else case unmarshalResponse (cl_decodeBindSuccess c) resp of
                   Inl e \<Rightarrow> (None, Some (malformed resp e))
                 | Inr u \<Rightarrow> (Some (u\<lparr>bs_Async := True, bs_Endpoints := None\<rparr>), None))
      else (None, Some (handleFailureResponse c resp)))"

definition Bind :: "client \<Rightarrow> http_world \<Rightarrow> BindRequest \<Rightarrow> BindResponse goptr \<times> http_world" where
  "Bind c w r =
     (case asyncAllowed c (bq_AcceptsIncomplete r) of
        Some e \<Rightarrow> ((None, Some e), w)
      | None \<Rightarrow>
          (case validateBindRequest r of
             Some e \<Rightarrow> ((None, Some e), w)
           | None \<Rightarrow>
               (let body = \<lparr>bb_ServiceID = bq_ServiceID r, bb_PlanID = bq_PlanID r,
                            bb_Parameters = bq_Parameters r,
                            bb_BindResource = bindResourceBody (bq_BindResource r),
                            bb_Context = (if AtLeast (cl_APIVersion c) Version2_13 then bq_Context r else None)\<rparr>
                in case prepareAndDo c w PUT (bindingURL c (bq_InstanceID r) (bq_BindingID r))
                          (Some (acceptsParam (bq_AcceptsIncomplete r) fmempty)) (Some (BindBody body))
                          (bq_OriginatingIdentity r) of
                     (Inl e, w') \<Rightarrow> ((None, Some e), w')
                   | (Inr resp, w') \<Rightarrow> (bindAnswer c r resp, w'))))"

definition unbindAnswer :: "client \<Rightarrow> UnbindRequest \<Rightarrow> http_response \<Rightarrow> UnbindResponse goptr" where
  "unbindAnswer c r resp =
     (if rs_StatusCode resp = 200 \<or> rs_StatusCode resp = 410
      then case unmarshalResponse (cl_decodeUnbind c) resp of
             Inl e \<Rightarrow> (None, Some (malformed resp e))
           | Inr u \<Rightarrow> (Some u, None)
      else if rs_StatusCode resp = 202
      then (if \<not> un_AcceptsIncomplete r then (None, Some (handleFailureResponse c resp))
            else case unmarshalResponse (cl_decodeOperation c) resp of
                   Inl e \<Rightarrow> (None, Some (malformed resp e))
                 | Inr (dashboard, op') \<Rightarrow> (Some \<lparr>ui_Async = True, ui_OperationKey = op'\<rparr>, None))
      else (None, Some (handleFailureResponse c resp)))"

definition Unbind :: "client \<Rightarrow> http_world \<Rightarrow> UnbindRequest \<Rightarrow> UnbindResponse goptr \<times> http_world" where
  "Unbind c w r =
     (case asyncAllowed c (un_AcceptsIncomplete r) of
        Some e \<Rightarrow> ((None, Some e), w)
      | None \<Rightarrow>
          (case validateUnbindRequest r of
             Some e \<Rightarrow> ((None, Some e), w)
           | None \<Rightarrow>
               (case prepareAndDo c w DELETE (bindingURL c (un_InstanceID r) (un_BindingID r))
                       (Some (acceptsParam (un_AcceptsIncomplete r)
                          (fmupd ''plan_id'' (un_PlanID r) (fmupd ''service_id'' (un_ServiceID r) fmempty))))
                       None (un_OriginatingIdentity r) of
                  (Inl e, w') \<Rightarrow> ((None, Some e), w')
                | (Inr resp, w') \<Rightarrow> (unbindAnswer c r resp, w'))))"

definition GetBinding :: "client \<Rightarrow> http_world \<Rightarrow> string \<times> string \<Rightarrow> GetBindingResponse goptr \<times> http_world" where
  "GetBinding c w r =
     (case validateClientVersionIsAtLeast c Version2_14 of
        Some e \<Rightarrow> ((None, Some (GetBindingNotAllowed e)), w)
      | None \<Rightarrow>
          (case getAndDecode c w (bindingURL c (fst r) (snd r)) None (cl_decodeBinding c) of
             ((resp, err), w') \<Rightarrow>
               ((if \<not> cl_EnableAlphaFeatures c then map_option (\<lambda>u. u\<lparr>gb_Endpoints := None\<rparr>) resp else resp, err),
                w')))"

section \<open>The contract of the operations\<close>

definition onePointer :: "'a goptr \<Rightarrow> bool" where
  "onePointer p \<longleftrightarrow> (fst p = None) \<noteq> (snd p = None)"

lemma onePointer_simps [simp]:
  "onePointer (None, Some e)" "onePointer (Some x, None)" "\<not> onePointer (None, None)"
  "\<not> onePointer (Some x, Some e)"
  by (simp_all add: onePointer_def)

locale pointer_call =
  fixes call :: "'w \<Rightarrow> 'r \<Rightarrow> 'a goptr \<times> 'w"
  assumes one_pointer: "onePointer (fst (call w r))"
begin

lemma response_or_error:
  "(\<exists>x w'. call w r = ((Some x, None), w')) \<or> (\<exists>e w'. call w r = ((None, Some e), w'))"
  using one_pointer [of w r] unfolding onePointer_def
  by (cases "call w r"; cases "fst (call w r)"; cases "fst (fst (call w r))") auto

lemma error_no_response: "call w r = ((x, Some e), w') \<Longrightarrow> x = None"
  using response_or_error [of w r] by auto

lemma no_error_response: "call w r = ((x, None), w') \<Longrightarrow> \<exists>y. x = Some y"
  using response_or_error [of w r] by auto

end

text \<open>An operation that only reads: what it sends, if anything, are GET requests.\<close>

definition sentOnly :: "(http_request \<Rightarrow> bool) \<Rightarrow> http_world \<Rightarrow> http_world \<Rightarrow> bool" where
  "sentOnly P w w' \<longleftrightarrow>
     (\<exists>rs. hw_requests w' = hw_requests w @ rs \<and> list_all P rs)"

abbreviation onlyGets :: "http_world \<Rightarrow> http_world \<Rightarrow> bool" where
  "onlyGets \<equiv> sentOnly (\<lambda>rq. rq_Method rq = GET)"

lemma sentOnly_refl [simp, intro]: "sentOnly P w w"
  by (auto simp: sentOnly_def)

lemma sentOnly_trans: "sentOnly P w w' \<Longrightarrow> sentOnly P w' w'' \<Longrightarrow> sentOnly P w w''"
  by (auto simp: sentOnly_def)

locale read_only_call = pointer_call call
  for call :: "http_world \<Rightarrow> 'r \<Rightarrow> 'a goptr \<times> http_world" +
  assumes only_gets: "onlyGets w (snd (call w r))"
begin

lemma reads: "call w r = (p, w') \<Longrightarrow> onlyGets w w'"
  using only_gets [of w r] by simp

lemma reads_after: "onlyGets w0 w \<Longrightarrow> call w r = (p, w') \<Longrightarrow> onlyGets w0 w'"
  using reads sentOnly_trans by blast

end

lemma prepareAndDo_sent:
  "sentOnly (\<lambda>rq. rq_Method rq = m) w (snd (prepareAndDo c w m url ps b i))"
  by (auto simp: prepareAndDo_def sentOnly_def Let_def split: option.splits sum.splits)

lemma getAndDecode_reads [simp]: "onlyGets w (snd (getAndDecode c w url ps d))"
  using prepareAndDo_sent [of GET w c url ps None None]
  by (auto simp: getAndDecode_def split: prod.splits sum.splits)

lemma getAndDecode_pointer [simp]: "onePointer (fst (getAndDecode c w url ps d))"
  by (auto simp: getAndDecode_def split: prod.splits sum.splits)

interpretation getInstance: read_only_call "GetInstance c"
  by unfold_locales (simp_all add: GetInstance_def split: option.split)

interpretation getServiceInstance: read_only_call "GetServiceInstance c"
  by unfold_locales (simp_all add: GetServiceInstance_def split: option.split)

interpretation getOperation: read_only_call "GetOperation c"
  by unfold_locales (simp_all add: GetOperation_def)

interpretation provisionInstance: pointer_call "ProvisionInstance c"
  by unfold_locales
    (auto simp: ProvisionInstance_def provisionAnswer_def onePointer_def Let_def
          split: option.splits prod.splits sum.splits)

interpretation updateInstance: pointer_call "UpdateInstance c"
  by unfold_locales
    (auto simp: UpdateInstance_def updateAnswer_def onePointer_def Let_def
          split: option.splits prod.splits sum.splits)

interpretation deprovisionInstance: pointer_call "DeprovisionInstance c"
  by unfold_locales
    (auto simp: DeprovisionInstance_def deprovisionAnswer_def onePointer_def
          split: option.splits prod.splits sum.splits)

lemma setCatalogInCache_requests [simp]: "sentOnly P w (setCatalogInCache c w' ct) = sentOnly P w w'"
  by (simp add: setCatalogInCache_def sentOnly_def)

lemma getAndDecode_cases:
  obtains x w' where "getAndDecode c w url ps d = ((Some x, None), w')" "onlyGets w w'"
  | e w' where "getAndDecode c w url ps d = ((None, Some e), w')" "onlyGets w w'"
proof -
  obtain x e w' where r: "getAndDecode c w url ps d = ((x, e), w')"
    by (metis prod.exhaust)
  have "onePointer (x, e)" and g: "onlyGets w w'"
    using getAndDecode_pointer [of c w url ps d] getAndDecode_reads [of w c url ps d] by (simp_all add: r)
  then show thesis
    using that r g by (cases x; cases e) auto
qed

interpretation getCatalog: read_only_call "\<lambda>w (_ :: unit). GetCatalog c w"
proof
  fix w :: http_world
  show "onePointer (fst (GetCatalog c w))"
    by (cases rule: getAndDecode_cases [of c w "Sprintf ''%s/v2/catalog'' [FStr (cl_URL c)]" None "cl_decodeCatalog c"])
      (simp_all add: GetCatalog_def getCatalogFromBroker_def Let_def split: option.split)
  show "onlyGets w (snd (GetCatalog c w))"
    by (cases rule: getAndDecode_cases [of c w "Sprintf ''%s/v2/catalog'' [FStr (cl_URL c)]" None "cl_decodeCatalog c"])
      (simp_all add: GetCatalog_def getCatalogFromBroker_def Let_def split: option.split)
qed

interpretation bind: pointer_call "Bind c"
  by unfold_locales
    (auto simp: Bind_def bindAnswer_def Let_def split: option.splits prod.splits sum.splits)

interpretation unbind: pointer_call "Unbind c"
  by unfold_locales
    (auto simp: Unbind_def unbindAnswer_def split: option.splits prod.splits sum.splits)

interpretation getBinding: read_only_call "GetBinding c"
proof
  fix w r
  show "onePointer (fst (GetBinding c w r))"
    by (cases rule: getAndDecode_cases [of c w "bindingURL c (fst r) (snd r)" None "cl_decodeBinding c"])
      (simp_all add: GetBinding_def split: option.split)
  show "onlyGets w (snd (GetBinding c w r))"
    by (cases rule: getAndDecode_cases [of c w "bindingURL c (fst r) (snd r)" None "cl_decodeBinding c"])
      (simp_all add: GetBinding_def split: option.split)
qed

end
