(* ===== verification/Flatten_Map.thy ===== *)
theory Flatten_Map
  imports Kube_Object Go_Fmt
begin

text \<open>
  \<open>provider-anynines/pkg/utils/flattenmap.go\<close>: the credentials that a broker returns, a nested JSON
  object, become the flat map of a connection secret.

  \<^item> Go iterates over a map in any order. The functions take the order as a parameter, a function from
    the set of keys to a list of them; \<open>covers\<close> says that it lists exactly the keys.
  \<^item> \<open>Sprint\<close> is \<open>fmt.Sprint\<close> on decoded JSON; numbers are integers of less than 22 digits, which Go
    prints without an exponent.
  \<^item> A key is a string of UTF-8 bytes. The regular expression of \<open>generateValidKey\<close> replaces a whole
    character, so the continuation bytes of a replaced one disappear.

  \<open>flatten_sound\<close> and \<open>flatten_complete\<close> describe the result by the paths of the object to its leaves.
  \<open>replace_is_filter\<close> shows that \<open>ReplaceRootKeyWithNestedKey\<close>, which deletes from the map it
  iterates over, computes the same in every order.
\<close>

section \<open>Printing values\<close>

fun joinWith :: "string \<Rightarrow> string list \<Rightarrow> string" where
  "joinWith sep [] = ''''"
| "joinWith sep [s] = s"
| "joinWith sep (s # ss) = s @ sep @ joinWith sep ss"

definition keyList :: "(string, 'v) fmap \<Rightarrow> string list" where
  "keyList m = sorted_list_of_fset (fmdom m)"

primrec Sprint :: "json \<Rightarrow> string" where
  "Sprint JNull = ''<nil>''"
| "Sprint (JBool b) = (if b then ''true'' else ''false'')"
| "Sprint (JNum i) = Itoa i"
| "Sprint (JStr s) = s"
| "Sprint (JArr xs) = ''['' @ joinWith '' '' (map Sprint xs) @ '']''"
| "Sprint (JObj m) =
     (let texts = fmmap Sprint m
      in ''map['' @ joinWith '' '' (map (\<lambda>k. k @ '':'' @ (case fmlookup texts k of None \<Rightarrow> '''' | Some t \<Rightarrow> t))
           (keyList texts)) @ '']'')"

section \<open>Flattening\<close>

definition validKeyChar :: "char \<Rightarrow> bool" where
  "validKeyChar c \<longleftrightarrow>
     c = CHR ''-'' \<or> c = CHR ''.'' \<or> c = CHR ''_'' \<or>
     (let n = (of_char c :: nat) in (97 \<le> n \<and> n \<le> 122) \<or> (65 \<le> n \<and> n \<le> 90) \<or> (48 \<le> n \<and> n \<le> 57))"

definition continuationByte :: "char \<Rightarrow> bool" where
  "continuationByte c \<longleftrightarrow> (let n = (of_char c :: nat) in 128 \<le> n \<and> n < 192)"

definition validChar :: "char \<Rightarrow> string" where
  "validChar c = (if validKeyChar c then [c] else if continuationByte c then [] else ''_'')"

definition generateValidKey :: "string \<Rightarrow> string" where
  "generateValidKey s = concat (map validChar s)"

definition newKey :: "string \<Rightarrow> string \<Rightarrow> string" where
  "newKey prefx key = generateValidKey (if prefx \<noteq> '''' then prefx @ ''.'' @ key else key)"

type_synonym flat = "(string, string) fmap"
type_synonym order = "string fset \<Rightarrow> string list"

definition flattenKey :: "(string, string \<Rightarrow> flat) fmap \<Rightarrow> string \<Rightarrow> string \<Rightarrow> flat \<Rightarrow> flat" where
  "flattenKey entries prefx key flatMap =
     (case fmlookup entries key of
        None \<Rightarrow> flatMap
      | Some f \<Rightarrow> flatMap ++\<^sub>f f (newKey prefx key))"

definition flattenEntries :: "order \<Rightarrow> (string, string \<Rightarrow> flat) fmap \<Rightarrow> string \<Rightarrow> flat" where
  "flattenEntries ord entries prefx = fold (flattenKey entries prefx) (ord (fmdom entries)) fmempty"

text \<open>A value at its new key: a nested map is flattened, anything else is printed.\<close>

primrec flattenValue :: "order \<Rightarrow> json \<Rightarrow> string \<Rightarrow> flat" where
  "flattenValue ord JNull = (\<lambda>key. fmupd key (Sprint JNull) fmempty)"
| "flattenValue ord (JBool b) = (\<lambda>key. fmupd key (Sprint (JBool b)) fmempty)"
| "flattenValue ord (JNum i) = (\<lambda>key. fmupd key (Sprint (JNum i)) fmempty)"
| "flattenValue ord (JStr s) = (\<lambda>key. fmupd key (Sprint (JStr s)) fmempty)"
| "flattenValue ord (JArr xs) = (\<lambda>key. fmupd key (Sprint (JArr xs)) fmempty)"
| "flattenValue ord (JObj m) = flattenEntries ord (fmmap (flattenValue ord) m)"

definition FlattenMap :: "order \<Rightarrow> (string, json) fmap \<Rightarrow> string \<Rightarrow> flat" where
  "FlattenMap ord inputMap prefx = flattenValue ord (JObj inputMap) prefx"

section \<open>Replacing root keys\<close>

text \<open>The last element of \<open>strings.Split(key, ".")\<close>.\<close>

definition lastPart :: "string \<Rightarrow> string" where
  "lastPart key = rev (takeWhile (\<lambda>c. c \<noteq> CHR ''.'') (rev key))"

definition nested :: "string \<Rightarrow> bool" where
  "nested key \<longleftrightarrow> CHR ''.'' \<in> set key"

definition replaceKey :: "string \<Rightarrow> flat \<Rightarrow> flat" where
  "replaceKey key m =
     (if nested key \<and> fmlookup m key \<noteq> None \<and> fmlookup m (lastPart key) = fmlookup m key
      then fmdrop (lastPart key) m else m)"

definition ReplaceRootKeyWithNestedKey :: "order \<Rightarrow> flat \<Rightarrow> flat" where
  "ReplaceRootKeyWithNestedKey ord m = fold replaceKey (ord (fmdom m)) m"

section \<open>Flattening by paths\<close>

definition covers :: "order \<Rightarrow> bool" where
  "covers ord \<longleftrightarrow> (\<forall>s. set (ord s) = fset s)"

definition sortedOrder :: order where
  "sortedOrder s = sorted_list_of_fset s"

lemma covers_sortedOrder [simp]: "covers sortedOrder"
  by (simp add: covers_def sortedOrder_def)

fun isObject :: "json \<Rightarrow> bool" where
  "isObject (JObj m) = True"
| "isObject v = False"

text \<open>\<open>leaf v p t\<close>: the keys \<open>p\<close> lead from \<open>v\<close> to a value that is no object and is printed as \<open>t\<close>.\<close>

inductive leaf :: "json \<Rightarrow> string list \<Rightarrow> string \<Rightarrow> bool" where
  here: "\<not> isObject v \<Longrightarrow> leaf v [] (Sprint v)"
| below: "fmlookup m k = Some v \<Longrightarrow> leaf v p t \<Longrightarrow> leaf (JObj m) (k # p) t"

inductive_simps leaf_object: "leaf (JObj m) p t"
inductive_simps leaf_null: "leaf JNull p t"
inductive_simps leaf_bool: "leaf (JBool b) p t"
inductive_simps leaf_num: "leaf (JNum i) p t"
inductive_simps leaf_str: "leaf (JStr s) p t"
inductive_simps leaf_arr: "leaf (JArr xs) p t"

lemmas leaf_simps = leaf_object leaf_null leaf_bool leaf_num leaf_str leaf_arr

definition pathKey :: "string \<Rightarrow> string list \<Rightarrow> string" where
  "pathKey prefx p = foldl newKey prefx p"

lemma pathKey_simps [simp]: "pathKey q [] = q" "pathKey q (k # p) = pathKey (newKey q k) p"
  by (simp_all add: pathKey_def)

lemma lookup_add:
  "fmlookup (m ++\<^sub>f n) k = (case fmlookup n k of None \<Rightarrow> fmlookup m k | Some v \<Rightarrow> Some v)"
  by (cases "fmlookup n k") (simp_all add: fmdomI fmdom_notI)

lemma flattenKey_lookup:
  "fmlookup (flattenKey es q key acc) k =
     (case fmlookup es key of
        None \<Rightarrow> fmlookup acc k
      | Some f \<Rightarrow> (case fmlookup (f (newKey q key)) k of None \<Rightarrow> fmlookup acc k | Some t \<Rightarrow> Some t))"
  by (simp add: flattenKey_def lookup_add del: fmlookup_add split: option.split)

lemma fold_flattenKey_sound:
  assumes "fmlookup (fold (flattenKey es q) ks acc) k = Some t"
  shows "fmlookup acc k = Some t
     \<or> (\<exists>key\<in>set ks. \<exists>f. fmlookup es key = Some f \<and> fmlookup (f (newKey q key)) k = Some t)"
  using assms
proof (induction ks arbitrary: acc)
  case (Cons key ks)
  from Cons.IH [of "flattenKey es q key acc"] Cons.prems show ?case
    by (auto simp: flattenKey_lookup split: option.splits)
qed simp

lemma fold_flattenKey_complete:
  assumes "fmlookup acc k \<noteq> None
     \<or> (\<exists>key\<in>set ks. \<exists>f. fmlookup es key = Some f \<and> fmlookup (f (newKey q key)) k \<noteq> None)"
  shows "fmlookup (fold (flattenKey es q) ks acc) k \<noteq> None"
  using assms
proof (induction ks arbitrary: acc)
  case (Cons key ks)
  from Cons.IH [of "flattenKey es q key acc"] Cons.prems show ?case
    by (auto simp: flattenKey_lookup split: option.splits)
qed simp

lemma flatten_sound:
  assumes "covers ord" "fmlookup (flattenValue ord v q) k = Some t"
  shows "\<exists>p. leaf v p t \<and> pathKey q p = k"
  using assms(2)
proof (induction v arbitrary: q)
  case (JObj m)
  then obtain key v where "fmlookup m key = Some v"
    and "fmlookup (flattenValue ord v (newKey q key)) k = Some t"
    by (auto simp: flattenEntries_def dest!: fold_flattenKey_sound)
  then obtain p where "leaf v p t" "pathKey (newKey q key) p = k"
    using JObj.IH [of v] by (auto simp: fmran'I)
  then show ?case
    using \<open>fmlookup m key = Some v\<close> by (intro exI [of _ "key # p"]) (auto intro: leaf.below)
qed (auto simp: leaf_simps split: if_splits)

lemma flatten_complete:
  assumes "covers ord" "leaf v p t"
  shows "fmlookup (flattenValue ord v q) (pathKey q p) \<noteq> None"
  using assms(2)
proof (induction arbitrary: q)
  case (here v)
  then show ?case by (cases v) auto
next
  case (below m k v p t)
  have "k \<in> set (ord (fmdom (fmmap (flattenValue ord) m)))"
    using assms(1) below.hyps(1) by (simp add: covers_def fmdomI)
  then have "fmlookup (fold (flattenKey (fmmap (flattenValue ord) m) q)
      (ord (fmdom (fmmap (flattenValue ord) m))) fmempty) (pathKey (newKey q k) p) \<noteq> None"
    using below.IH [of "newKey q k"] below.hyps(1) by (intro fold_flattenKey_complete) auto
  then show ?case
    by (simp add: flattenEntries_def)
qed

section \<open>Root keys in any order\<close>

lemma lastPart_flat: "\<not> nested (lastPart key)"
  by (auto simp: nested_def lastPart_def dest: set_takeWhileD)

lemma replaceKey_lookup:
  "fmlookup (replaceKey key m) k =
     (if nested key \<and> k = lastPart key \<and> fmlookup m key \<noteq> None \<and> fmlookup m k = fmlookup m key
      then None else fmlookup m k)"
  by (auto simp: replaceKey_def)

definition dropsRoot :: "flat \<Rightarrow> string \<Rightarrow> string \<Rightarrow> bool" where
  "dropsRoot m k key \<longleftrightarrow>
     nested key \<and> k = lastPart key \<and> fmlookup m key \<noteq> None \<and> fmlookup m k = fmlookup m key"

lemma replaceKey_dropsRoot: "fmlookup (replaceKey key m) k = (if dropsRoot m k key then None else fmlookup m k)"
  by (simp add: replaceKey_lookup dropsRoot_def)

lemma replaceKey_nested: "nested k \<Longrightarrow> fmlookup (replaceKey key m) k = fmlookup m k"
  using lastPart_flat by (auto simp: replaceKey_lookup)

lemma dropsRoot_replaceKey:
  assumes "\<not> dropsRoot m k key"
  shows "dropsRoot (replaceKey key m) k key' = dropsRoot m k key'"
proof -
  have "fmlookup (replaceKey key m) k = fmlookup m k"
    using assms by (simp add: replaceKey_dropsRoot)
  then show ?thesis
    using replaceKey_nested [of key' key m] by (cases "nested key'") (simp_all add: dropsRoot_def)
qed

lemma fold_replaceKey:
  "fmlookup (fold replaceKey ks m) k = (if \<exists>key\<in>set ks. dropsRoot m k key then None else fmlookup m k)"
proof (induction ks arbitrary: m)
  case (Cons key ks)
  show ?case
  proof (cases "dropsRoot m k key")
    case True
    then show ?thesis by (simp add: Cons.IH replaceKey_dropsRoot)
  next
    case False
    then show ?thesis by (simp add: Cons.IH replaceKey_dropsRoot dropsRoot_replaceKey)
  qed
qed simp

text \<open>The keys without a dot that stay: no nested key with the same value ends in them.\<close>

definition redundantRoot :: "flat \<Rightarrow> string \<Rightarrow> bool" where
  "redundantRoot m k \<longleftrightarrow>
     fBex (fmdom m) (\<lambda>key. nested key \<and> k = lastPart key \<and> fmlookup m k = fmlookup m key)"

lemma replace_is_filter:
  assumes "covers ord"
  shows "ReplaceRootKeyWithNestedKey ord m = fmfilter (\<lambda>k. \<not> redundantRoot m k) m"
proof (rule fmap_ext)
  fix k
  show "fmlookup (ReplaceRootKeyWithNestedKey ord m) k = fmlookup (fmfilter (\<lambda>k. \<not> redundantRoot m k) m) k"
    using assms
    by (auto simp: ReplaceRootKeyWithNestedKey_def fold_replaceKey covers_def redundantRoot_def dropsRoot_def
        fmlookup_dom_iff)
qed

lemma replace_keeps_values:
  assumes "covers ord" "fmlookup m k = Some t"
  shows "\<exists>k'. fmlookup (ReplaceRootKeyWithNestedKey ord m) k' = Some t \<and> lastPart k' = lastPart k"
proof (cases "redundantRoot m k")
  case False
  then show ?thesis using assms by (auto simp: replace_is_filter)
next
  case True
  then obtain key where key: "nested key" "k = lastPart key" "fmlookup m key = Some t"
    using assms(2) by (auto simp: redundantRoot_def)
  moreover have "\<not> redundantRoot m key"
    using key(1) lastPart_flat by (auto simp: redundantRoot_def)
  moreover have "lastPart (lastPart key) = lastPart key"
    by (simp add: lastPart_def takeWhile_idem)
  ultimately show ?thesis
    using assms(1) by (intro exI [of _ key]) (simp add: replace_is_filter)
qed

end
