(* ===== verification/Service_Instance.thy ===== *)
theory Service_Instance
  imports Broker_Client Flatten_Map
begin

text \<open>
  The service instance controller of provider-anynines: the managed resource
  (\<open>apis/serviceinstance/v1\<close>), the conversions between resource and broker
  (\<open>pkg/client/serviceinstance\<close>) and the external client that crossplane's managed reconciler drives
  (\<open>internal/controller/serviceinstance\<close>): \<open>Observe\<close>, then \<open>Create\<close>, \<open>Update\<close> or \<open>Delete\<close>.

  \<^item> \<open>external\<close> has the broker client of \<open>Broker_Client\<close> and, as parameters, what the
    code takes from elsewhere: \<open>SetConditions\<close> of crossplane-runtime, \<open>cmp.Equal\<close> of go-cmp (on two
    \<open>ServiceInstanceParameters\<close>, and on two JSON values with the options that ignore the
    order of arrays and equate empty ones), \<open>json.Marshal\<close> and \<open>json.Decoder\<close> on a single value,
    and the random \<open>GenUID\<close>.
  \<^item> The handlers mutate the managed resource they are given and may panic on a nil pointer: each
    returns a \<open>go_result\<close>, the resource and the state of the HTTP world.
  \<^item> A Go map that may be nil is an option; \<open>keyList\<close> iterates over a map in the order of the keys, one
    of the orders that Go's range may choose (only the key named in an error depends on it).
  \<^item> A call of the broker client that returns neither a response nor an error does not occur
    (\<open>pointer_call\<close>); the branches for it only make the definitions total.
\<close>

section \<open>The managed resource\<close>

definition StateCreated :: string where [klutch_defs]: "StateCreated = ''created''"
definition StateProvisioned :: string where [klutch_defs]: "StateProvisioned = ''provisioned''"
definition StateAvailable :: string where [klutch_defs]: "StateAvailable = ''available''"
definition StateDeleted :: string where [klutch_defs]: "StateDeleted = ''deleted''"
definition StateDeleting :: string where [klutch_defs]: "StateDeleting = ''deleting''"
definition StateDeploying :: string where [klutch_defs]: "StateDeploying = ''deploying''"
definition StateFailed :: string where [klutch_defs]: "StateFailed = ''failed''"

type_synonym rawParams = "(string, string) fmap option"

record ServiceInstanceObservation =
  ob_State :: string
  ob_ProvisionedAt :: string
  ob_DeletedAt :: string
  ob_CreatedAt :: string
  ob_UpdatedAt :: string
  ob_PlanID :: string
  ob_ServiceID :: string
  ob_InstanceID :: string
  ob_Parameters :: rawParams

record ServiceInstanceParameters =
  fp_AcceptsIncomplete :: "bool option"
  fp_ServiceName :: "string option"
  fp_PlanName :: "string option"
  fp_OrganizationGUID :: "string option"
  fp_SpaceGUID :: "string option"
  fp_Parameters :: rawParams
  fp_Context :: "(string, string) fmap option"
  fp_OriginatingIdentity :: "(string option \<times> string option) option"

text \<open>The conditions of crossplane-runtime that the controllers of the provider set.\<close>

datatype xp_condition =
    Creating | Available | Deleting | Unavailable | ReconcileError go_err | WithMessage xp_condition string

record ServiceInstance =
  si_Name :: string
  si_ForProvider :: ServiceInstanceParameters
  si_Conditions :: "xp_condition list"
  si_AtProvider :: ServiceInstanceObservation
  si_PendingOperation :: "string option"

datatype managed = ManagedServiceInstance ServiceInstance | OtherManaged

record external =
  ex_osb :: client
  ex_SetConditions :: "xp_condition list \<Rightarrow> xp_condition \<Rightarrow> xp_condition list"
  ex_cmpEqual :: "ServiceInstanceParameters \<Rightarrow> ServiceInstanceParameters \<Rightarrow> bool"
  ex_cmpEqualValue :: "json \<Rightarrow> json \<Rightarrow> bool"
  ex_marshal :: "json \<Rightarrow> string + string"
  ex_decode :: "string \<Rightarrow> string + json"
  ex_GenUID :: "http_world \<Rightarrow> string"

definition errInstanceIDStatusUnset :: string where
  "errInstanceIDStatusUnset = ''InstanceID has not been set''"

definition GetInstanceID :: "ServiceInstance \<Rightarrow> string \<times> go_err option" where
  "GetInstanceID p =
     (if ob_InstanceID (si_AtProvider p) = ''''
      then (''InstanceID not set'', Some (ErrorString errInstanceIDStatusUnset))
      else (ob_InstanceID (si_AtProvider p), None))"

definition notInitialized :: "string \<Rightarrow> go_err" where
  "notInitialized field = ErrorString (Sprintf
     ''service instance not initialized yet - required status field %s is unset'' [FStr field])"

definition GetPlanID :: "ServiceInstance \<Rightarrow> string \<times> go_err option" where
  "GetPlanID p =
     (if ob_PlanID (si_AtProvider p) = '''' then ('''', Some (notInitialized ''Status.AtProvider.PlanID''))
      else (ob_PlanID (si_AtProvider p), None))"

definition GetServiceID :: "ServiceInstance \<Rightarrow> string \<times> go_err option" where
  "GetServiceID p =
     (if ob_ServiceID (si_AtProvider p) = '''' then ('''', Some (notInitialized ''Status.AtProvider.ServiceID''))
      else (ob_ServiceID (si_AtProvider p), None))"

fun ToServiceInstance :: "ServiceInstance list \<Rightarrow> string \<Rightarrow> go_err + ServiceInstance" where
  "ToServiceInstance [] name =
     Inl (Errorf (Sprintf ''%s, failed to list ServiceInstance managed resources for %s''
            [FStr ''cannot get one service instance'', FStr name])
          (PlainUserErr ''data service instance was not found''))"
| "ToServiceInstance [p] name = Inr p"
| "ToServiceInstance (p # q # ps) name =
     Inl (ErrorString (Sprintf ''%s, expected 1 ServiceInstance managed resource for %s, but got %d''
            [FStr ''cannot get one service instance'', FStr name, FInt (int (length (p # q # ps)))]))"

section \<open>Conversions\<close>

definition LateInitializeString :: "string option \<Rightarrow> string \<Rightarrow> string option" where
  "LateInitializeString s v = (if s \<noteq> None \<or> v = '''' then s else Some v)"

definition LateInitializeBool :: "bool option \<Rightarrow> bool \<Rightarrow> bool option" where
  "LateInitializeBool b v = (if b \<noteq> None \<or> \<not> v then b else Some v)"

definition emptyMap :: "('k, 'v) fmap option \<Rightarrow> bool" where
  "emptyMap m \<longleftrightarrow> m = None \<or> m = Some fmempty"

definition LateInitializeJsonMap :: "rawParams \<Rightarrow> rawParams \<Rightarrow> rawParams" where
  "LateInitializeJsonMap s v = (if \<not> emptyMap s \<or> emptyMap v then s else v)"

definition LateInitialize ::
  "ServiceInstanceParameters \<Rightarrow> OsbContext \<Rightarrow> rawParams \<Rightarrow> ServiceInstanceParameters" where
  "LateInitialize spec meta params =
     spec\<lparr>fp_AcceptsIncomplete := Some True,
          fp_OrganizationGUID := LateInitializeString (fp_OrganizationGUID spec) (cx_OrganizationGUID meta),
          fp_SpaceGUID := LateInitializeString (fp_SpaceGUID spec) (cx_SpaceGUID meta),
          fp_Parameters := LateInitializeJsonMap (fp_Parameters spec) params\<rparr>"

definition GenerateObservation :: "GetInstanceResponse \<Rightarrow> rawParams \<Rightarrow> ServiceInstanceObservation" where
  "GenerateObservation i params =
     \<lparr>ob_State = gi_State i, ob_ProvisionedAt = gi_ProvisionedAt i, ob_DeletedAt = gi_DeletedAt i,
      ob_CreatedAt = gi_CreatedAt i, ob_UpdatedAt = gi_UpdatedAt i, ob_PlanID = gi_PlanGUID i,
      ob_ServiceID = gi_ServiceGUID i, ob_InstanceID = gi_GUIDAtTenant i, ob_Parameters = params\<rparr>"

definition observedParameters ::
  "ServiceInstanceParameters \<Rightarrow> GetInstanceResponse \<Rightarrow> rawParams \<Rightarrow> ServiceInstanceParameters" where
  "observedParameters spec i params =
     (let observed = LateInitialize
            \<lparr>fp_AcceptsIncomplete = None, fp_ServiceName = fp_ServiceName spec,
             fp_PlanName = fp_PlanName spec, fp_OrganizationGUID = None, fp_SpaceGUID = None,
             fp_Parameters = None, fp_Context = None, fp_OriginatingIdentity = None\<rparr>
            (gi_Context i) params
      in if fp_Parameters spec \<noteq> None \<and> fp_Parameters observed = None
         then observed\<lparr>fp_Parameters := Some fmempty\<rparr> else observed)"

definition SpecMatchesObservedState ::
  "external \<Rightarrow> ServiceInstanceParameters \<Rightarrow> GetInstanceResponse \<Rightarrow> rawParams \<Rightarrow> bool" where
  "SpecMatchesObservedState E spec i params =
     ex_cmpEqual E (observedParameters spec i params) spec"

definition convertKey ::
  "string \<Rightarrow> ('a \<Rightarrow> string + 'b) \<Rightarrow> (string, 'a) fmap \<Rightarrow> string \<Rightarrow> go_err + (string, 'b) fmap
   \<Rightarrow> go_err + (string, 'b) fmap" where
  "convertKey fmt conv m k acc =
     (case acc of
        Inl e \<Rightarrow> Inl e
      | Inr r \<Rightarrow>
          (case fmlookup m k of
             None \<Rightarrow> Inr r
           | Some v \<Rightarrow>
               (case conv v of
                  Inl e \<Rightarrow> Inl (Errorf (Sprintf fmt [FStr k]) (ErrorString e))
                | Inr v' \<Rightarrow> Inr (fmupd k v' r))))"

definition convertParams ::
  "string \<Rightarrow> ('a \<Rightarrow> string + 'b) \<Rightarrow> (string, 'a) fmap option \<Rightarrow> go_err + (string, 'b) fmap option" where
  "convertParams fmt conv params =
     (case params of
        None \<Rightarrow> Inr None
      | Some m \<Rightarrow> map_sum id Some (fold (convertKey fmt conv m) (keyList m) (Inr fmempty)))"

definition ServiceBrokerParamsToKubernetes :: "external \<Rightarrow> jsonMap \<Rightarrow> go_err + rawParams" where
  "ServiceBrokerParamsToKubernetes E = convertParams ''failed to marshal key %q'' (ex_marshal E)"

definition KubernetesParamsToServiceBroker :: "external \<Rightarrow> rawParams \<Rightarrow> go_err + jsonMap" where
  "KubernetesParamsToServiceBroker E = convertParams ''failed to unmarshal key %q'' (ex_decode E)"

definition mapOf :: "('k, 'v) fmap option \<Rightarrow> ('k, 'v) fmap" where
  "mapOf m = (case m of None \<Rightarrow> fmempty | Some x \<Rightarrow> x)"

text \<open>
  The two loops of \<open>ParameterUpdateForBroker\<close>: keys that are no longer expected are set to null, and an
  expected value is sent unless the observed one equals it.
\<close>

definition removedParams :: "(string, json) fmap \<Rightarrow> (string, json) fmap \<Rightarrow> (string, json) fmap" where
  "removedParams observed expected =
     fmmap (\<lambda>_. JNull) (fmfilter (\<lambda>k. fmlookup expected k = None) observed)"

definition changedParams ::
  "external \<Rightarrow> (string, json) fmap \<Rightarrow> (string, json) fmap \<Rightarrow> (string, json) fmap" where
  "changedParams E observed expected =
     fmfilter (\<lambda>k. case (fmlookup observed k, fmlookup expected k) of
                     (Some got, Some want) \<Rightarrow> \<not> ex_cmpEqualValue E got want
                   | _ \<Rightarrow> True) expected"

definition ParameterUpdateForBroker :: "external \<Rightarrow> jsonMap \<Rightarrow> jsonMap \<Rightarrow> jsonMap" where
  "ParameterUpdateForBroker E observed expected =
     (let update = removedParams (mapOf observed) (mapOf expected)
                   ++\<^sub>f changedParams E (mapOf observed) (mapOf expected)
      in if update = fmempty then None else Some update)"

section \<open>The catalog\<close>

fun findService :: "string \<Rightarrow> Service list \<Rightarrow> go_err + Service" where
  "findService servicePrefix [] = Inl (ErrServiceNameNotFound servicePrefix)"
| "findService servicePrefix (s # ss) =
     (if HasPrefix (sv_Name s) servicePrefix then Inr s else findService servicePrefix ss)"

definition getServiceFromCatalog ::
  "external \<Rightarrow> http_world \<Rightarrow> string \<Rightarrow> (go_err + Service) \<times> http_world" where
  "getServiceFromCatalog E w servicePrefix =
     (case GetCatalog (ex_osb E) w of
        ((_, Some e), w') \<Rightarrow> (Inl (Errorf ''cannot get service broker catalog'' e), w')
      | ((ct, None), w') \<Rightarrow>
          (findService servicePrefix (case ct of None \<Rightarrow> [] | Some c \<Rightarrow> ct_Services c), w'))"

fun findPlan :: "string \<Rightarrow> Plan list \<Rightarrow> go_err + Plan" where
  "findPlan specifiedName [] = Inl (ErrPlanNameNotFound specifiedName)"
| "findPlan specifiedName (p # ps) =
     (if pl_Name p = specifiedName then Inr p else findPlan specifiedName ps)"

definition getPlanFromService :: "string \<Rightarrow> Service \<Rightarrow> go_err + Plan" where
  "getPlanFromService specifiedName s = findPlan specifiedName (sv_Plans s)"

definition getServiceAndPlanIDs ::
  "external \<Rightarrow> http_world \<Rightarrow> string \<Rightarrow> string \<Rightarrow> (go_err + (string \<times> string)) \<times> http_world" where
  "getServiceAndPlanIDs E w servicePrefix planName =
     (case getServiceFromCatalog E w servicePrefix of
        (Inl e, w') \<Rightarrow> (Inl e, w')
      | (Inr s, w') \<Rightarrow>
          (case getPlanFromService planName s of
             Inl e \<Rightarrow> (Inl e, w')
           | Inr p \<Rightarrow> (Inr (sv_ID s, pl_ID p), w')))"

section \<open>Observe\<close>

definition assertServiceAndPlanNamesAreSet :: "ServiceInstance \<Rightarrow> go_err option" where
  "assertServiceAndPlanNamesAreSet dsi =
     (if fp_ServiceName (si_ForProvider dsi) = None
      then Some (ErrorString ''the field Spec.ForProvider.ServiceName is unset and must be set'')
      else if fp_PlanName (si_ForProvider dsi) = None
      then Some (ErrorString ''the field Spec.ForProvider.PlanName is unset and must be set'')
      else None)"

definition errInstanceIDNotUnique :: string where
  "errInstanceIDNotUnique = ''Could not ensure uniqueness of generated UID for Service Instance''"

text \<open>The loop; \<open>err\<close> is the error of the iteration before.\<close>

fun uidLoop :: "external \<Rightarrow> http_world \<Rightarrow> go_err option \<Rightarrow> nat \<Rightarrow> (go_err + string) \<times> http_world" where
  "uidLoop E w err 0 = (Inl (WithCause errInstanceIDNotUnique err), w)"
| "uidLoop E w err (Suc n) =
     (let uid = ex_GenUID E w in
      case GetInstance (ex_osb E) w uid of
        ((_, Some e), w') \<Rightarrow>
          (if osb_IsNotFound e then (Inr uid, w')
           else (Inl (Errorf ''error checking UID uniqueness'' e), w'))
      | ((_, None), w') \<Rightarrow> uidLoop E w' None n)"

definition genAndCheckUID :: "external \<Rightarrow> http_world \<Rightarrow> nat \<Rightarrow> (go_err + string) \<times> http_world" where
  "genAndCheckUID E w maxAttempts = uidLoop E w None maxAttempts"

definition maxRetryAttempts :: nat where
  "maxRetryAttempts = 10"

text \<open>It always fails: with the error of \<open>genAndCheckUID\<close>, or to have the new ID stored.\<close>

definition setUidWithError ::
  "external \<Rightarrow> http_world \<Rightarrow> ServiceInstance \<Rightarrow> go_err \<times> ServiceInstance \<times> http_world" where
  "setUidWithError E w dsi =
     (case genAndCheckUID E w maxRetryAttempts of
        (Inl e, w') \<Rightarrow> (e, dsi, w')
      | (Inr uid, w') \<Rightarrow>
          (ErrorString ''InstanceID status field is unset'',
           dsi\<lparr>si_AtProvider := (si_AtProvider dsi)\<lparr>ob_InstanceID := uid\<rparr>\<rparr>, w'))"

definition getAndVerifyServiceInstance ::
  "external \<Rightarrow> http_world \<Rightarrow> ServiceInstance \<Rightarrow> go_err option \<times> ServiceInstance \<times> http_world" where
  "getAndVerifyServiceInstance E w dsi =
     (if ob_InstanceID (si_AtProvider dsi) = ''''
      then (case setUidWithError E w dsi of (e, dsi', w') \<Rightarrow> (Some e, dsi', w'))
      else (assertServiceAndPlanNamesAreSet dsi, dsi, w))"

text \<open>
  The result is the error, the instance with its parameters (\<open>None\<close> when it does not exist), and
  the resource with the new observation.
\<close>

definition getInstanceAndUpdateObservation ::
  "external \<Rightarrow> http_world \<Rightarrow> ServiceInstance
   \<Rightarrow> (go_err + (GetInstanceResponse \<times> rawParams) option) \<times> ServiceInstance \<times> http_world" where
  "getInstanceAndUpdateObservation E w dsi =
     (case GetInstance (ex_osb E) w (ob_InstanceID (si_AtProvider dsi)) of
        ((_, Some e), w1) \<Rightarrow>
          (if osb_IsNotFound e then (Inr None, dsi, w1)
           else (Inl (Errorf ''cannot get ServiceInstance'' e), dsi, w1))
      | ((None, None), w1) \<Rightarrow> (Inr None, dsi, w1)
      | ((Some i, None), w1) \<Rightarrow>
          (case GetServiceInstance (ex_osb E) w1 (ob_InstanceID (si_AtProvider dsi)) of
             ((_, Some e), w2) \<Rightarrow>
               (if osb_IsNotFound e then (Inr None, dsi, w2)
                else (Inl (Errorf ''cannot get ServiceInstance'' e), dsi, w2))
           | ((s, None), w2) \<Rightarrow>
               (case ServiceBrokerParamsToKubernetes E (case s of None \<Rightarrow> None | Some x \<Rightarrow> gs_Parameters x) of
                  Inl e \<Rightarrow> (Inl (Errorf ''cannot generate observation'' e), dsi, w2)
                | Inr params \<Rightarrow>
                    (let dsi' = dsi\<lparr>si_AtProvider := GenerateObservation i params\<rparr>
                     in (if ob_State (si_AtProvider dsi') = StateDeleted then (Inr None, dsi', w2)
                         else (Inr (Some (i, params)), dsi', w2))))))"

definition processPendingOperation ::
  "external \<Rightarrow> http_world \<Rightarrow> ServiceInstance \<Rightarrow> go_err option \<times> ServiceInstance \<times> http_world" where
  "processPendingOperation E w dsi =
     (case si_PendingOperation dsi of
        None \<Rightarrow> (None, dsi, w)
      | Some key \<Rightarrow>
          (case GetOperation (ex_osb E) w
                  \<lparr>go_InstanceID = ob_InstanceID (si_AtProvider dsi), go_OperationKey = key\<rparr> of
             ((_, Some e), w') \<Rightarrow> (Some (Errorf ''failed to get operation status'' e), dsi, w')
           | ((None, None), w') \<Rightarrow> (None, dsi, w')
           | ((Some r, None), w') \<Rightarrow>
               (if IsDone r then (None, dsi\<lparr>si_PendingOperation := None\<rparr>, w')
                else case IsFailure r of
                       (True, Some e) \<Rightarrow>
                         (Some (Errorf ''operation failed'' e), dsi\<lparr>si_PendingOperation := None\<rparr>, w')
                     | _ \<Rightarrow> (None, dsi, w'))))"

definition crossplaneCondition :: "ServiceInstance \<Rightarrow> xp_condition" where
  "crossplaneCondition dsi =
     (let st = ob_State (si_AtProvider dsi) in
      if si_PendingOperation dsi \<noteq> None then Unavailable
      else if st = StateCreated then Creating
      else if st = StateProvisioned then Available
      else if st = StateAvailable then Available
      else if st = StateDeleting then Deleting
      else if st = StateDeploying then Creating
      else if st = StateFailed then Unavailable
      else ReconcileError (ErrorString ''unable to determine state of instance''))"

definition setCrossplaneConditions :: "external \<Rightarrow> ServiceInstance \<Rightarrow> ServiceInstance" where
  "setCrossplaneConditions E dsi =
     dsi\<lparr>si_Conditions := ex_SetConditions E (si_Conditions dsi) (crossplaneCondition dsi)\<rparr>"

definition isResourceUpToDate ::
  "external \<Rightarrow> ServiceInstance \<Rightarrow> GetInstanceResponse \<Rightarrow> string \<Rightarrow> rawParams \<Rightarrow> bool" where
  "isResourceUpToDate E dsi i desiredPlanID parameters =
     (if si_PendingOperation dsi = None
      then (if \<not> SpecMatchesObservedState E (si_ForProvider dsi) i parameters then False
            else desiredPlanID = ob_PlanID (si_AtProvider dsi))
      else True)"

record ExternalObservation =
  eo_ResourceExists :: bool
  eo_ResourceUpToDate :: bool

definition noObservation :: ExternalObservation where
  "noObservation = \<lparr>eo_ResourceExists = False, eo_ResourceUpToDate = False\<rparr>"

definition errNotServiceInstance :: go_err where
  "errNotServiceInstance = PlainUserErr ''managed resource is not a ServiceInstance custom resource''"

text \<open>The part of \<open>Observe\<close> after the resource is verified.\<close>

definition observeInstance ::
  "external \<Rightarrow> http_world \<Rightarrow> ServiceInstance \<Rightarrow> ExternalObservation go_result \<times> ServiceInstance \<times> http_world"
  where
  "observeInstance E w dsi =
     (case (fp_ServiceName (si_ForProvider dsi), fp_PlanName (si_ForProvider dsi)) of
        (Some sname, Some pname) \<Rightarrow>
          (case getServiceAndPlanIDs E w sname pname of
             (Inl e, w1) \<Rightarrow> (Return noObservation (Some e), dsi, w1)
           | (Inr (_, desiredPlanID), w1) \<Rightarrow>
               (case getInstanceAndUpdateObservation E w1 dsi of
                  (Inl e, dsi1, w2) \<Rightarrow> (Return noObservation (Some e), dsi1, w2)
                | (Inr None, dsi1, w2) \<Rightarrow> (Return noObservation None, dsi1, w2)
                | (Inr (Some (i, params)), dsi1, w2) \<Rightarrow>
                    (case processPendingOperation E w2 dsi1 of
                       (Some e, dsi2, w3) \<Rightarrow> (Return noObservation (Some e), dsi2, w3)
                     | (None, dsi2, w3) \<Rightarrow>
                         (let dsi3 = setCrossplaneConditions E dsi2
                          in (Return \<lparr>eo_ResourceExists = True,
                                      eo_ResourceUpToDate = isResourceUpToDate E dsi3 i desiredPlanID params\<rparr>
                                None, dsi3, w3)))))
      | _ \<Rightarrow> (Panic, dsi, w))"

definition SI_Observe ::
  "external \<Rightarrow> http_world \<Rightarrow> managed \<Rightarrow> ExternalObservation go_result \<times> managed \<times> http_world" where
  "SI_Observe E w mg =
     (case mg of
        OtherManaged \<Rightarrow> (Return noObservation (Some errNotServiceInstance), mg, w)
      | ManagedServiceInstance dsi \<Rightarrow>
          (case getAndVerifyServiceInstance E w dsi of
             (Some e, dsi', w') \<Rightarrow> (Return noObservation (Some e), ManagedServiceInstance dsi', w')
           | (None, dsi', w') \<Rightarrow>
               (case observeInstance E w' dsi' of
                  (r, dsi'', w'') \<Rightarrow> (r, ManagedServiceInstance dsi'', w''))))"

section \<open>Create, Update and Delete\<close>

definition logAsyncAction :: "string \<Rightarrow> ServiceInstance \<Rightarrow> ServiceInstance" where
  "logAsyncAction opKey dsi = dsi\<lparr>si_PendingOperation := Some opKey\<rparr>"

text \<open>
  The end of the three handlers: \<open>if response.Async { c.logAsyncAction(*response.OperationKey, dsi) }\<close>,
  for the response's \<open>Async\<close> and \<open>OperationKey\<close>, or a nil response. Dereferencing nil panics.
\<close>

fun afterResponse :: "(bool \<times> string option) option \<Rightarrow> ServiceInstance \<Rightarrow> unit go_result \<times> ServiceInstance" where
  "afterResponse None dsi = (Panic, dsi)"
| "afterResponse (Some (async, key)) dsi =
     (if \<not> async then (Return () None, dsi)
      else case key of None \<Rightarrow> (Panic, dsi) | Some k \<Rightarrow> (Return () None, logAsyncAction k dsi))"

definition platformContext :: "string \<Rightarrow> string \<Rightarrow> jsonMap" where
  "platformContext org space =
     Some (fmupd ''space_guid'' (JStr space) (fmupd ''organization_guid'' (JStr org) fmempty))"

type_synonym handler = "http_world \<Rightarrow> managed \<Rightarrow> unit go_result \<times> managed \<times> http_world"

definition failWith :: "go_err \<Rightarrow> unit go_result" where
  "failWith e = Return () (Some e)"

definition finish ::
  "unit go_result \<times> ServiceInstance \<Rightarrow> http_world \<Rightarrow> unit go_result \<times> managed \<times> http_world" where
  "finish r w = (fst r, ManagedServiceInstance (snd r), w)"

definition provisionRequest ::
  "ServiceInstance \<Rightarrow> string \<Rightarrow> string \<Rightarrow> jsonMap \<Rightarrow> ProvisionRequest option" where
  "provisionRequest dsi serviceID planID params =
     (let spec = si_ForProvider dsi in
      case (fp_AcceptsIncomplete spec, fp_OrganizationGUID spec, fp_SpaceGUID spec) of
        (Some acc, Some org, Some space) \<Rightarrow>
          Some \<lparr>pr_InstanceID = ob_InstanceID (si_AtProvider dsi), pr_AcceptsIncomplete = acc,
                pr_ServiceID = serviceID, pr_PlanID = planID, pr_OrganizationGUID = org,
                pr_SpaceGUID = space, pr_Parameters = params,
                pr_Context = platformContext org space, pr_OriginatingIdentity = None\<rparr>
      | _ \<Rightarrow> None)"

definition createInstance ::
  "external \<Rightarrow> http_world \<Rightarrow> ServiceInstance \<Rightarrow> string \<Rightarrow> string
   \<Rightarrow> unit go_result \<times> managed \<times> http_world" where
  "createInstance E w dsi serviceID planID =
     (case KubernetesParamsToServiceBroker E (fp_Parameters (si_ForProvider dsi)) of
        Inl e \<Rightarrow> (failWith e, ManagedServiceInstance dsi, w)
      | Inr params \<Rightarrow>
          (case provisionRequest dsi serviceID planID params of
             None \<Rightarrow> (Panic, ManagedServiceInstance dsi, w)
           | Some rq \<Rightarrow>
               (case ProvisionInstance (ex_osb E) w rq of
                  ((_, Some e), w') \<Rightarrow>
                    (failWith (Errorf ''cannot create ServiceInstance'' (HandleHttpError e)),
                     ManagedServiceInstance dsi, w')
                | ((resp, None), w') \<Rightarrow>
                    finish (afterResponse (map_option (\<lambda>r. (ps_Async r, ps_OperationKey r)) resp) dsi) w')))"

definition SI_Create :: "external \<Rightarrow> handler" where
  "SI_Create E w mg =
     (case mg of
        OtherManaged \<Rightarrow> (failWith errNotServiceInstance, mg, w)
      | ManagedServiceInstance dsi \<Rightarrow>
          (case (fp_ServiceName (si_ForProvider dsi), fp_PlanName (si_ForProvider dsi)) of
             (Some sname, Some pname) \<Rightarrow>
               (case getServiceAndPlanIDs E w sname pname of
                  (Inl e, w') \<Rightarrow> (failWith e, mg, w')
                | (Inr (serviceID, planID), w') \<Rightarrow> createInstance E w' dsi serviceID planID)
           | _ \<Rightarrow> (Panic, mg, w)))"

definition updateParameters :: "external \<Rightarrow> ServiceInstance \<Rightarrow> go_err + jsonMap" where
  "updateParameters E dsi =
     (case KubernetesParamsToServiceBroker E (ob_Parameters (si_AtProvider dsi)) of
        Inl e \<Rightarrow> Inl e
      | Inr observed \<Rightarrow>
          (case KubernetesParamsToServiceBroker E (fp_Parameters (si_ForProvider dsi)) of
             Inl e \<Rightarrow> Inl e
           | Inr expected \<Rightarrow> Inr (ParameterUpdateForBroker E observed expected)))"

definition updateRequest ::
  "ServiceInstance \<Rightarrow> string \<Rightarrow> string \<Rightarrow> jsonMap \<Rightarrow> UpdateInstanceRequest option" where
  "updateRequest dsi serviceID planID params =
     (let spec = si_ForProvider dsi in
      case (fp_AcceptsIncomplete spec, fp_OrganizationGUID spec, fp_SpaceGUID spec) of
        (Some acc, Some org, Some space) \<Rightarrow>
          Some \<lparr>ur_InstanceID = ob_InstanceID (si_AtProvider dsi), ur_AcceptsIncomplete = acc,
                ur_ServiceID = serviceID, ur_PlanID = Some planID, ur_Parameters = params,
                ur_PreviousValues = None, ur_Context = platformContext org space,
                ur_OriginatingIdentity = None\<rparr>
      | _ \<Rightarrow> None)"

definition errUpdateServiceInstance :: "go_err \<Rightarrow> go_err" where
  "errUpdateServiceInstance = Errorf ''cannot update ServiceInstance''"

definition updateInstanceWith ::
  "external \<Rightarrow> http_world \<Rightarrow> ServiceInstance \<Rightarrow> string \<Rightarrow> string
   \<Rightarrow> unit go_result \<times> managed \<times> http_world" where
  "updateInstanceWith E w dsi serviceID planID =
     (case updateParameters E dsi of
        Inl e \<Rightarrow> (failWith (errUpdateServiceInstance e), ManagedServiceInstance dsi, w)
      | Inr params \<Rightarrow>
          (case updateRequest dsi serviceID planID params of
             None \<Rightarrow> (Panic, ManagedServiceInstance dsi, w)
           | Some rq \<Rightarrow>
               (case UpdateInstance (ex_osb E) w rq of
                  ((_, Some e), w') \<Rightarrow>
                    (failWith (errUpdateServiceInstance (HandleHttpError e)), ManagedServiceInstance dsi, w')
                | ((resp, None), w') \<Rightarrow>
                    finish (afterResponse (map_option (\<lambda>r. (us_Async r, us_OperationKey r)) resp) dsi) w')))"

definition SI_Update :: "external \<Rightarrow> handler" where
  "SI_Update E w mg =
     (case mg of
        OtherManaged \<Rightarrow> (failWith errNotServiceInstance, mg, w)
      | ManagedServiceInstance dsi \<Rightarrow>
          (case (fp_ServiceName (si_ForProvider dsi), fp_PlanName (si_ForProvider dsi)) of
             (Some sname, Some pname) \<Rightarrow>
               (case getServiceAndPlanIDs E w sname pname of
                  (Inl e, w') \<Rightarrow> (failWith (errUpdateServiceInstance e), mg, w')
                | (Inr (serviceID, planID), w') \<Rightarrow> updateInstanceWith E w' dsi serviceID planID)
           | _ \<Rightarrow> (Panic, mg, w)))"

definition deprovisionRequest :: "ServiceInstance \<Rightarrow> DeprovisionRequest option" where
  "deprovisionRequest dsi =
     map_option (\<lambda>acc. \<lparr>dr_InstanceID = ob_InstanceID (si_AtProvider dsi), dr_AcceptsIncomplete = acc,
                        dr_ServiceID = ob_ServiceID (si_AtProvider dsi),
                        dr_PlanID = ob_PlanID (si_AtProvider dsi), dr_OriginatingIdentity = None\<rparr>)
       (fp_AcceptsIncomplete (si_ForProvider dsi))"

text \<open>An error that says the instance is not there is not returned; the response is used all the same.\<close>

definition SI_Delete :: "external \<Rightarrow> handler" where
  "SI_Delete E w mg =
     (case mg of
        OtherManaged \<Rightarrow> (failWith errNotServiceInstance, mg, w)
      | ManagedServiceInstance dsi0 \<Rightarrow>
          (let dsi = dsi0\<lparr>si_Conditions := ex_SetConditions E (si_Conditions dsi0) Deleting\<rparr> in
           case deprovisionRequest dsi of
             None \<Rightarrow> (Panic, ManagedServiceInstance dsi, w)
           | Some rq \<Rightarrow>
               (case DeprovisionInstance (ex_osb E) w rq of
                  ((resp, err), w') \<Rightarrow>
                    (let go = finish (afterResponse
                           (map_option (\<lambda>r. (ds_Async r, ds_OperationKey r)) resp) dsi) w'
                     in case err of
                          Some e \<Rightarrow>
                            (if \<not> osb_IsNotFound e
                             then (failWith (Errorf ''cannot delete ServiceInstance'' (HandleHttpError e)),
                                   ManagedServiceInstance dsi, w')
                             else go)
                        | None \<Rightarrow> go))))"

text \<open>The external client as the managed reconciler gets it, inside \<open>utilerr.Decorator\<close>.\<close>

definition decorated :: "'a go_result \<times> managed \<times> http_world \<Rightarrow> 'a go_result \<times> managed \<times> http_world" where
  "decorated r = (decorate (fst r), snd r)"

section \<open>Lemmas on the conversions\<close>

lemma set_keyList: "set (keyList m) = fmdom' m"
  by (simp add: keyList_def fmdom'_alt_def)

lemma fold_convertKey_Inl [simp]: "fold (convertKey fmt conv m) ks (Inl e) = Inl e"
  by (induction ks) (simp_all add: convertKey_def)

lemma fold_convertKey_Inr:
  assumes "\<And>k v. k \<in> set ks \<Longrightarrow> fmlookup m k = Some v \<Longrightarrow> \<exists>v'. conv v = Inr v'"
  shows "\<exists>r'. fold (convertKey fmt conv m) ks (Inr r) = Inr r' \<and>
    (\<forall>k. fmlookup r' k =
       (if k \<in> set ks \<and> fmlookup m k \<noteq> None
        then Some (projr (conv (the (fmlookup m k)))) else fmlookup r k))"
  using assms
proof (induction ks arbitrary: r)
  case Nil
  then show ?case by simp
next
  case (Cons k ks)
  define r1 where "r1 = (case fmlookup m k of None \<Rightarrow> r | Some v \<Rightarrow> fmupd k (projr (conv v)) r)"
  have step: "convertKey fmt conv m k (Inr r) = Inr r1"
    using Cons.prems [of k] by (auto simp: convertKey_def r1_def split: option.splits)
  have "\<exists>r'. fold (convertKey fmt conv m) ks (Inr r1) = Inr r' \<and>
    (\<forall>k. fmlookup r' k =
       (if k \<in> set ks \<and> fmlookup m k \<noteq> None
        then Some (projr (conv (the (fmlookup m k)))) else fmlookup r1 k))"
    by (rule Cons.IH) (use Cons.prems in auto)
  then obtain r' where r': "fold (convertKey fmt conv m) ks (Inr r1) = Inr r'"
    and l: "\<And>k. fmlookup r' k =
       (if k \<in> set ks \<and> fmlookup m k \<noteq> None
        then Some (projr (conv (the (fmlookup m k)))) else fmlookup r1 k)"
    by blast
  show ?case
  proof (intro exI conjI allI)
    show "fold (convertKey fmt conv m) (k # ks) (Inr r) = Inr r'"
      by (simp add: step r')
  qed (auto simp: l r1_def split: option.split)
qed

text \<open>When every value can be converted, the result has the keys of the map and the converted values.\<close>

lemma convertParams_total:
  assumes "\<And>k v. fmlookup m k = Some v \<Longrightarrow> conv v = Inr (f v)"
  shows "convertParams fmt conv (Some m) = Inr (Some (fmmap f m))"
proof -
  obtain r where "fold (convertKey fmt conv m) (keyList m) (Inr fmempty) = Inr r"
    and r: "\<And>k. fmlookup r k = (if k \<in> set (keyList m) \<and> fmlookup m k \<noteq> None
        then Some (projr (conv (the (fmlookup m k)))) else None)"
    using fold_convertKey_Inr [of "keyList m" m conv fmt fmempty] assms by auto
  moreover have "r = fmmap f m"
    by (rule fmap_ext) (auto simp: r set_keyList assms fmdom'I)
  ultimately show ?thesis
    by (simp add: convertParams_def)
qed

lemma params_inverse:
  assumes "\<And>v. v \<in> fmran' m \<Longrightarrow> \<exists>s. ex_marshal E v = Inr s \<and> ex_decode E s = Inr v"
  shows "\<exists>r. ServiceBrokerParamsToKubernetes E (Some m) = Inr (Some r) \<and>
             KubernetesParamsToServiceBroker E (Some r) = Inr (Some m)"
proof -
  define f where "f v = projr (ex_marshal E v)" for v
  have f: "ex_marshal E v = Inr (f v) \<and> ex_decode E (f v) = Inr v" if "fmlookup m k = Some v" for k v
    using assms [OF fmran'I [OF that]] by (auto simp: f_def)
  have "ServiceBrokerParamsToKubernetes E (Some m) = Inr (Some (fmmap f m))"
    unfolding ServiceBrokerParamsToKubernetes_def by (rule convertParams_total) (use f in blast)
  moreover have "KubernetesParamsToServiceBroker E (Some (fmmap f m))
      = Inr (Some (fmmap (\<lambda>s. projr (ex_decode E s)) (fmmap f m)))"
    unfolding KubernetesParamsToServiceBroker_def by (rule convertParams_total) (use f in force)
  moreover have "fmmap (\<lambda>s. projr (ex_decode E s)) (fmmap f m) = m"
  proof (rule fmap_ext)
    fix k
    show "fmlookup (fmmap (\<lambda>s. projr (ex_decode E s)) (fmmap f m)) k = fmlookup m k"
      using f [of k] by (cases "fmlookup m k") simp_all
  qed
  ultimately show ?thesis
    by auto
qed

lemma lookup_removed:
  "fmlookup (removedParams o' x) k = (if fmlookup x k = None \<and> fmlookup o' k \<noteq> None then Some JNull else None)"
  by (auto simp: removedParams_def)

lemma lookup_changed:
  "fmlookup (changedParams E o' x) k =
     (case fmlookup x k of
        None \<Rightarrow> None
      | Some want \<Rightarrow>
          (case fmlookup o' k of
             None \<Rightarrow> Some want
           | Some got \<Rightarrow> if ex_cmpEqualValue E got want then None else Some want))"
  by (auto simp: changedParams_def split: option.splits)

lemma lookup_update:
  "fmlookup (mapOf (ParameterUpdateForBroker E o' x)) k =
     (case fmlookup (mapOf x) k of
        None \<Rightarrow> if fmlookup (mapOf o') k = None then None else Some JNull
      | Some want \<Rightarrow>
          (case fmlookup (mapOf o') k of
             None \<Rightarrow> Some want
           | Some got \<Rightarrow> if ex_cmpEqualValue E got want then None else Some want))"
proof -
  have "mapOf (ParameterUpdateForBroker E o' x)
      = removedParams (mapOf o') (mapOf x) ++\<^sub>f changedParams E (mapOf o') (mapOf x)"
    by (simp add: ParameterUpdateForBroker_def Let_def mapOf_def)
  then show ?thesis
    by (simp add: lookup_add lookup_removed lookup_changed del: fmlookup_add split: option.split)
qed

lemma update_None:
  "ParameterUpdateForBroker E o' x = None \<longleftrightarrow> mapOf (ParameterUpdateForBroker E o' x) = fmempty"
  by (simp add: ParameterUpdateForBroker_def Let_def mapOf_def)

text \<open>
  What the broker does with an update: the keys in it replace those of the instance, and null removes
  a parameter. A parameter that is null counts as unset.
\<close>

definition brokerApply :: "jsonMap \<Rightarrow> (string, json) fmap \<Rightarrow> (string, json) fmap" where
  "brokerApply update params =
     (let m = params ++\<^sub>f mapOf update in fmfilter (\<lambda>k. fmlookup m k \<noteq> Some JNull) m)"

lemma lookup_brokerApply:
  "fmlookup (brokerApply u m) k =
     (case fmlookup (mapOf u) k of
        Some v \<Rightarrow> if v = JNull then None else Some v
      | None \<Rightarrow> if fmlookup m k = Some JNull then None else fmlookup m k)"
  by (auto simp: brokerApply_def Let_def lookup_add simp del: fmlookup_add split: option.splits)

lemma update_applied:
  assumes nul: "\<And>v. ex_cmpEqualValue E JNull v \<Longrightarrow> v = JNull"
  shows "case fmlookup (mapOf expected) k of
           None \<Rightarrow> fmlookup (brokerApply (ParameterUpdateForBroker E observed expected) (mapOf observed)) k = None
         | Some want \<Rightarrow> want \<noteq> JNull \<longrightarrow>
             (\<exists>v. fmlookup (brokerApply (ParameterUpdateForBroker E observed expected) (mapOf observed)) k = Some v
                \<and> (v = want \<or> ex_cmpEqualValue E v want))"
  using nul by (auto simp: lookup_brokerApply lookup_update split: option.splits)

section \<open>Lemmas on the handlers\<close>

lemma prepareAndDo_one:
  "length (hw_requests (snd (prepareAndDo c w m url ps b i))) \<le> Suc (length (hw_requests w))"
  by (simp add: prepareAndDo_def Let_def split: option.split sum.split)

lemma getAndDecode_one:
  "length (hw_requests (snd (getAndDecode c w url ps d))) \<le> Suc (length (hw_requests w))"
  using prepareAndDo_one [of c w GET url ps None None]
  by (auto simp: getAndDecode_def split: prod.splits sum.splits)

lemma GetInstance_one: "GetInstance c w i = (r, w') \<Longrightarrow> length (hw_requests w') \<le> Suc (length (hw_requests w))"
  using getAndDecode_one [of c w "Sprintf ''%s/instances/%s'' [FStr (cl_URL c), FStr i]" None "cl_decodeInstance c"]
  by (auto simp: GetInstance_def split: option.splits)

lemma uidLoop_ok:
  assumes "uidLoop E w err n = (Inr uid, w')"
  shows "\<exists>w1 e. GetInstance (ex_osb E) w1 uid = ((None, Some e), w') \<and> osb_IsNotFound e \<and> onlyGets w w1
     \<and> length (hw_requests w') \<le> length (hw_requests w) + n"
  using assms
proof (induction n arbitrary: w err)
  case 0
  then show ?case by simp
next
  case (Suc n)
  obtain x er w1 where g: "GetInstance (ex_osb E) w (ex_GenUID E w) = ((x, er), w1)"
    by (metis prod.exhaust)
  note one = GetInstance_one [OF g]
  show ?case
  proof (cases er)
    case None
    then obtain w2 e where "GetInstance (ex_osb E) w2 uid = ((None, Some e), w')" "osb_IsNotFound e"
      "onlyGets w1 w2" "length (hw_requests w') \<le> length (hw_requests w1) + n"
      using Suc.IH [of w1 None] Suc.prems g by (auto simp: Let_def)
    then show ?thesis
      using getInstance.reads [OF g] sentOnly_trans one by fastforce
  next
    case (Some e)
    then have "x = None" "osb_IsNotFound e" "uid = ex_GenUID E w" "w' = w1"
      using Suc.prems g getInstance.error_no_response [of "ex_osb E" w] by (auto simp: Let_def split: if_splits)
    then show ?thesis
      using g Some one sentOnly_refl [of _ w] by fastforce
  qed
qed

text \<open>When all attempts are used up, every one of them found an instance: the cause is nil.\<close>

lemma uidLoop_cause_nil: "uidLoop E w None n = (Inl (UserError m c), w') \<Longrightarrow> c = None"
proof (induction n arbitrary: w)
  case (Suc n)
  obtain x er w1 where g: "GetInstance (ex_osb E) w (ex_GenUID E w) = ((x, er), w1)"
    by (metis prod.exhaust)
  show ?case
    using Suc.prems Suc.IH [of w1] g by (cases er) (auto simp: Let_def split: if_splits)
qed (simp add: WithCause_def)

lemma uidLoop_reads: "uidLoop E w err n = (r, w') \<Longrightarrow> onlyGets w w'"
proof (induction n arbitrary: w err)
  case (Suc n)
  obtain x er w1 where g: "GetInstance (ex_osb E) w (ex_GenUID E w) = ((x, er), w1)"
    by (metis prod.exhaust)
  show ?case
    using Suc.prems Suc.IH [of w1 None] getInstance.reads [OF g] g
    by (cases er) (auto simp: Let_def split: if_splits intro: sentOnly_trans)
qed simp

lemma getServiceAndPlanIDs_reads: "getServiceAndPlanIDs E w s p = (r, w') \<Longrightarrow> onlyGets w w'"
  using getCatalog.only_gets [where c = "ex_osb E" and w = w]
  by (auto simp: getServiceAndPlanIDs_def getServiceFromCatalog_def split: prod.splits option.splits sum.splits)

lemma getInstanceAndUpdateObservation_reads:
  assumes "getInstanceAndUpdateObservation E w dsi = (r, dsi', w')"
  shows "onlyGets w w'"
proof -
  obtain x er w1 where g: "GetInstance (ex_osb E) w (ob_InstanceID (si_AtProvider dsi)) = ((x, er), w1)"
    by (metis prod.exhaust)
  obtain y es w2 where h: "GetServiceInstance (ex_osb E) w1 (ob_InstanceID (si_AtProvider dsi)) = ((y, es), w2)"
    by (metis prod.exhaust)
  note reads = getInstance.reads [OF g] getServiceInstance.reads [OF h]
  have "w' = w1 \<or> w' = w2"
    using assms g h
    by (auto simp: getInstanceAndUpdateObservation_def Let_def split: option.splits if_splits sum.splits)
  then show ?thesis
    using reads sentOnly_trans by metis
qed

lemma processPendingOperation_reads:
  assumes "processPendingOperation E w dsi = (r, dsi', w')"
  shows "onlyGets w w'"
proof (cases "si_PendingOperation dsi")
  case None
  then show ?thesis using assms by (simp add: processPendingOperation_def)
next
  case (Some key)
  obtain x er w1 where g: "GetOperation (ex_osb E) w
      \<lparr>go_InstanceID = ob_InstanceID (si_AtProvider dsi), go_OperationKey = key\<rparr> = ((x, er), w1)"
    by (metis prod.exhaust)
  then have "w' = w1"
    using assms Some
    by (auto simp: processPendingOperation_def IsFailure_def split: option.splits if_splits)
  then show ?thesis using getOperation.reads [OF g] by simp
qed

lemma observeInstance_reads:
  assumes "observeInstance E w dsi = (r, dsi', w')"
  shows "onlyGets w w'"
  using assms
  by (auto simp: observeInstance_def Let_def split: option.splits prod.splits sum.splits
      dest!: getServiceAndPlanIDs_reads getInstanceAndUpdateObservation_reads processPendingOperation_reads
      intro: sentOnly_trans)

lemma getAndVerifyServiceInstance_reads:
  "getAndVerifyServiceInstance E w dsi = (r, dsi', w') \<Longrightarrow> onlyGets w w'"
  by (auto simp: getAndVerifyServiceInstance_def setUidWithError_def genAndCheckUID_def
      split: if_splits prod.splits sum.splits dest: uidLoop_reads)

lemma SI_Observe_reads:
  assumes "SI_Observe E w mg = (r, mg', w')"
  shows "onlyGets w w'"
  using assms
  by (auto simp: SI_Observe_def split: managed.splits option.splits prod.splits
      dest!: getAndVerifyServiceInstance_reads observeInstance_reads intro: sentOnly_trans)

text \<open>
  The last call was a lookup of the instance, one of the two that \<open>Observe\<close> makes, and the broker answered
  that there is no such instance.
\<close>

definition lookupNotFound :: "external \<Rightarrow> string \<Rightarrow> http_world \<Rightarrow> bool" where
  "lookupNotFound E i w' \<longleftrightarrow>
     (\<exists>w e. osb_IsNotFound e \<and>
        (GetInstance (ex_osb E) w i = ((None, Some e), w') \<or>
         GetServiceInstance (ex_osb E) w i = ((None, Some e), w')))"

lemma getInstanceAndUpdateObservation_gone:
  assumes "getInstanceAndUpdateObservation E w dsi = (Inr None, dsi', w')"
  shows "lookupNotFound E (ob_InstanceID (si_AtProvider dsi)) w' \<or> ob_State (si_AtProvider dsi') = StateDeleted"
proof -
  obtain x er w1 where g: "GetInstance (ex_osb E) w (ob_InstanceID (si_AtProvider dsi)) = ((x, er), w1)"
    by (metis prod.exhaust)
  obtain y es w2 where h: "GetServiceInstance (ex_osb E) w1 (ob_InstanceID (si_AtProvider dsi)) = ((y, es), w2)"
    by (metis prod.exhaust)
  show ?thesis
  proof (cases er)
    case (Some e)
    then have "x = None" "osb_IsNotFound e" "w' = w1"
      using g assms getInstance.error_no_response [OF g [unfolded Some]]
      by (auto simp: getInstanceAndUpdateObservation_def split: if_splits)
    then show ?thesis using g Some unfolding lookupNotFound_def by blast
  next
    case None
    then obtain i where i: "x = Some i"
      using getInstance.no_error_response g by blast
    show ?thesis
    proof (cases es)
      case Some': (Some e)
      then have "y = None" "osb_IsNotFound e" "w' = w2"
        using g h i None assms getServiceInstance.error_no_response [OF h [unfolded Some']]
        by (auto simp: getInstanceAndUpdateObservation_def split: if_splits)
      then show ?thesis using h Some' unfolding lookupNotFound_def by blast
    next
      case None': None
      then show ?thesis
        using g h i None assms
        by (auto simp: getInstanceAndUpdateObservation_def Let_def split: sum.splits if_splits)
    qed
  qed
qed

lemma observeInstance_gone:
  assumes "observeInstance E w dsi = (Return r None, dsi', w')" "\<not> eo_ResourceExists r"
  shows "lookupNotFound E (ob_InstanceID (si_AtProvider dsi)) w' \<or> ob_State (si_AtProvider dsi') = StateDeleted"
  using assms getInstanceAndUpdateObservation_gone
  by (auto simp: observeInstance_def noObservation_def Let_def split: option.splits prod.splits sum.splits)

lemma SI_Observe_gone:
  assumes "SI_Observe E w (ManagedServiceInstance dsi) = (Return r None, ManagedServiceInstance dsi', w')"
    "\<not> eo_ResourceExists r"
  shows "ob_InstanceID (si_AtProvider dsi) \<noteq> [] \<and>
    (lookupNotFound E (ob_InstanceID (si_AtProvider dsi)) w' \<or> ob_State (si_AtProvider dsi') = StateDeleted)"
  using assms observeInstance_gone
  by (auto simp: SI_Observe_def getAndVerifyServiceInstance_def split: option.splits prod.splits if_splits)

lemma observeInstance_exists:
  assumes "observeInstance E w dsi = (Return r None, dsi', w')" "eo_ResourceExists r"
  shows "\<exists>i params. si_AtProvider dsi' = GenerateObservation i params \<and> gi_State i \<noteq> StateDeleted \<and>
     si_ForProvider dsi' = si_ForProvider dsi \<and>
     (eo_ResourceUpToDate r \<and> si_PendingOperation dsi' = None \<longrightarrow>
        SpecMatchesObservedState E (si_ForProvider dsi) i params)"
  using assms
  by (auto simp: observeInstance_def noObservation_def setCrossplaneConditions_def Let_def
      isResourceUpToDate_def getInstanceAndUpdateObservation_def processPendingOperation_def GenerateObservation_def
      IsFailure_def
      split: option.splits prod.splits sum.splits if_splits)

section \<open>Errors that reach the user\<close>

text \<open>An error that offers nothing for display, neither itself nor as an error of the Backup Manager client.\<close>

definition plain :: "go_err \<Rightarrow> bool" where
  "plain e \<longleftrightarrow> errorsAs UserDisplay e = None \<and> errorsAs asBackupHTTP e = None"

text \<open>Errors of the transport carry nothing to display, and are not HTTP errors of the broker.\<close>

definition transportError :: "go_err \<Rightarrow> bool" where
  "transportError e \<longleftrightarrow> plain e \<and> errorsAs asOsbHTTP e = None"

definition plainTransport :: "client \<Rightarrow> bool" where
  "plainTransport c \<longleftrightarrow>
     (\<forall>url e. cl_newRequest c url = Some e \<longrightarrow> transportError e) \<and>
     (\<forall>l rq e. cl_do c l rq = Inl e \<longrightarrow> transportError e)"

text \<open>The broker answered the last request of a run with a status 4xx and the description \<open>d\<close>.\<close>

definition refused :: "client \<Rightarrow> http_world \<Rightarrow> http_world \<Rightarrow> string \<Rightarrow> bool" where
  "refused c w w' d \<longleftrightarrow> (\<exists>pre rq resp m.
     hw_requests w' = hw_requests w @ pre @ [rq] \<and> cl_do c (hw_requests w @ pre) rq = Inr resp \<and>
     400 \<le> rs_StatusCode resp \<and> rs_StatusCode resp < 500 \<and>
     unmarshalResponse (cl_decodeMap c) resp = Inr m \<and> fmlookup m ''description'' = Some (JStr d))"

text \<open>An error of the broker client that says what the broker answered.\<close>

definition reports :: "client \<Rightarrow> http_world \<Rightarrow> http_world \<Rightarrow> go_err \<Rightarrow> bool" where
  "reports c w w' e \<longleftrightarrow> plain e \<and> (\<forall>d. userInput (errorsAs asOsbHTTP e) = Some d \<longrightarrow> refused c w w' d)"

lemma plain_simps [simp]:
  "plain (OsbHTTP h)" "plain (ErrorString s)" "plain (GetInstanceNotAllowed s)"
  "plain (GetServiceInstanceNotAllowed s)" "plain (OperationStateError s)"
  "plain (GetBindingNotAllowed s)" "plain (AsyncBindingOperationsNotAllowed s)"
  "plain (Errorf p e) = plain e"
  by (simp_all add: plain_def errorsAs_def)

lemma plain_failure [simp]: "plain (handleFailureResponse c r)" "plain (malformed r s)" "plain (required n)"
  by (simp_all add: handleFailureResponse_def malformed_def required_def split: sum.split)

lemma reports_simps [simp]:
  "transportError e \<Longrightarrow> reports c w w' e" "reports c w w' (required n)" "reports c w w' (ErrorString s)"
  "reports c w w' (malformed r s)"
  by (simp_all add: reports_def transportError_def required_def malformed_def errorsAs_def)

lemma prepareAndDo_error:
  assumes "plainTransport c" "prepareAndDo c w m url ps b None = (Inl e, w')"
  shows "transportError e"
  using assms
  by (auto simp: prepareAndDo_def plainTransport_def identityHeader_def Let_def split: option.splits)

lemma prepareAndDo_answer:
  assumes "prepareAndDo c w m url ps b i = (Inr resp, w')"
  shows "\<exists>rq. hw_requests w' = hw_requests w @ [rq] \<and> cl_do c (hw_requests w) rq = Inr resp"
  using assms by (auto simp: prepareAndDo_def Let_def split: option.splits sum.splits)

lemma prepareAndDo_grows:
  assumes "prepareAndDo c w m url ps b i = (r, w')"
  shows "\<exists>pre. hw_requests w' = hw_requests w @ pre"
  using assms by (auto simp: prepareAndDo_def Let_def split: option.splits sum.splits)

lemma reports_failure:
  assumes "prepareAndDo c w m url ps b i = (Inr resp, w')"
  shows "reports c w w' (handleFailureResponse c resp)"
  unfolding reports_def
proof (intro conjI allI impI)
  fix d assume d: "userInput (errorsAs asOsbHTTP (handleFailureResponse c resp)) = Some d"
  obtain rq where "hw_requests w' = hw_requests w @ [] @ [rq]" "cl_do c (hw_requests w @ []) rq = Inr resp"
    using prepareAndDo_answer [OF assms] by auto
  moreover have "400 \<le> rs_StatusCode resp \<and> rs_StatusCode resp < 500 \<and>
      (\<exists>f. unmarshalResponse (cl_decodeMap c) resp = Inr f \<and> fmlookup f ''description'' = Some (JStr d))"
    using d by (auto simp: handleFailureResponse_def errorsAs_def stringEntry_def
        split: sum.splits if_splits option.splits json.splits)
  ultimately show "refused c w w' d" unfolding refused_def by blast
qed simp

lemma refused_later:
  assumes "hw_requests w1 = hw_requests w @ pre" "refused c w1 w' d"
  shows "refused c w w' d"
proof -
  obtain mid rq resp m where "hw_requests w' = hw_requests w1 @ mid @ [rq]"
    "cl_do c (hw_requests w1 @ mid) rq = Inr resp" "400 \<le> rs_StatusCode resp" "rs_StatusCode resp < 500"
    "unmarshalResponse (cl_decodeMap c) resp = Inr m" "fmlookup m ''description'' = Some (JStr d)"
    using assms(2) unfolding refused_def by blast
  then show ?thesis
    using assms(1) unfolding refused_def
    by (intro exI [of _ "pre @ mid"] exI [of _ rq] exI [of _ resp] exI [of _ m]) simp
qed

lemma getAndDecode_plain:
  assumes "plainTransport c" "getAndDecode c w url ps d = ((x, Some e), w')"
  shows "plain e"
  using assms prepareAndDo_error [OF assms(1)]
  by (auto simp: getAndDecode_def transportError_def split: prod.splits sum.splits if_splits)

lemma GetCatalog_plain:
  assumes "plainTransport c" "GetCatalog c w = ((x, Some e), w')"
  shows "plain e"
  using assms(2) getAndDecode_plain [OF assms(1), of w "Sprintf ''%s/v2/catalog'' [FStr (cl_URL c)]" None "cl_decodeCatalog c"]
  by (cases rule: getAndDecode_cases [of c w "Sprintf ''%s/v2/catalog'' [FStr (cl_URL c)]" None "cl_decodeCatalog c"])
    (auto simp: GetCatalog_def getCatalogFromBroker_def Let_def split: option.splits)

lemma getAndDecode_grows:
  assumes "getAndDecode c w url ps d = (r, w')"
  shows "\<exists>pre. hw_requests w' = hw_requests w @ pre"
  using assms prepareAndDo_grows
  by (fastforce simp: getAndDecode_def split: prod.splits sum.splits if_splits)

lemma GetCatalog_grows:
  assumes "GetCatalog c w = (r, w')"
  shows "\<exists>pre. hw_requests w' = hw_requests w @ pre"
proof -
  obtain q w1 where q: "getAndDecode c w (Sprintf ''%s/v2/catalog'' [FStr (cl_URL c)]) None (cl_decodeCatalog c) = (q, w1)"
    by fastforce
  from getAndDecode_grows [OF this] show ?thesis
    using assms q
    by (auto simp: GetCatalog_def getCatalogFromBroker_def setCatalogInCache_def Let_def split: option.splits prod.splits if_splits)
qed

lemma validateProvision_reports: "validateProvisionRequest r = Some e \<Longrightarrow> reports c w w' e"
  by (auto simp: validateProvisionRequest_def split: if_splits)

lemma validateUpdate_reports: "validateUpdateInstanceRequest r = Some e \<Longrightarrow> reports c w w' e"
  by (auto simp: validateUpdateInstanceRequest_def split: if_splits)

lemma validateDeprovision_reports: "validateDeprovisionRequest r = Some e \<Longrightarrow> reports c w w' e"
  by (auto simp: validateDeprovisionRequest_def split: if_splits)

lemma ProvisionInstance_reports:
  assumes "plainTransport c" "pr_OriginatingIdentity r = None" "ProvisionInstance c w r = ((x, Some e), w')"
  shows "reports c w w' e"
  using assms prepareAndDo_error [OF assms(1)]
  by (auto simp: ProvisionInstance_def provisionAnswer_def Let_def validateProvision_reports
      intro: reports_failure split: option.splits prod.splits sum.splits if_splits)

lemma UpdateInstance_reports:
  assumes "plainTransport c" "ur_OriginatingIdentity r = None" "UpdateInstance c w r = ((x, Some e), w')"
  shows "reports c w w' e"
  using assms prepareAndDo_error [OF assms(1)]
  by (auto simp: UpdateInstance_def updateAnswer_def Let_def validateUpdate_reports
      intro: reports_failure split: option.splits prod.splits sum.splits if_splits)

lemma DeprovisionInstance_reports:
  assumes "plainTransport c" "dr_OriginatingIdentity r = None" "DeprovisionInstance c w r = ((x, Some e), w')"
  shows "reports c w w' e"
  using assms prepareAndDo_error [OF assms(1)]
  by (auto simp: DeprovisionInstance_def deprovisionAnswer_def validateDeprovision_reports
      intro: reports_failure split: option.splits prod.splits sum.splits if_splits)

text \<open>
  What the user may be shown of an error: nothing; that the resource is of another kind; a name of the user's own spec; or
  the description that the broker gave in its 4xx answer to the last request of the run.
\<close>

fun namedInSpec :: "managed \<Rightarrow> go_err \<Rightarrow> bool" where
  "namedInSpec (ManagedServiceInstance dsi) (ErrServiceNameNotFound n) = (fp_ServiceName (si_ForProvider dsi) = Some n)"
| "namedInSpec (ManagedServiceInstance dsi) (ErrPlanNameNotFound n) = (fp_PlanName (si_ForProvider dsi) = Some n)"
| "namedInSpec mg e = False"

definition shown :: "external \<Rightarrow> http_world \<Rightarrow> managed \<Rightarrow> http_world \<Rightarrow> go_err \<Rightarrow> bool" where
  "shown E w mg w' e \<longleftrightarrow> e = ErrInternal \<or> (mg = OtherManaged \<and> e = errNotServiceInstance)
     \<or> namedInSpec mg e \<or> (\<exists>d. e = PlainUserErr d \<and> refused (ex_osb E) w w' d)"

lemma convert_plain: "plain e \<Longrightarrow> convertAndLog (Some e) = Some ErrInternal"
  by (simp add: convertAndLog_def plain_def)

lemma shown_internal [simp]: "shown E w mg w' ErrInternal"
  by (simp add: shown_def)

lemma convert_handled:
  assumes "reports (ex_osb E) w w' e"
  shows "\<exists>e'. convertAndLog (Some (Errorf p (HandleHttpError e))) = Some e' \<and> shown E w mg w' e'"
proof (cases "userInput (errorsAs asOsbHTTP e)")
  case None
  then have "HandleHttpError e = e"
    using assms by (simp add: HandleHttpError_def reports_def plain_def)
  then show ?thesis
    using convert_plain assms by (simp add: reports_def)
next
  case (Some d)
  then have "refused (ex_osb E) w w' d" using assms by (simp add: reports_def)
  then show ?thesis
    using HandleHttpError_displayed [OF Some] unfolding shown_def by blast
qed

lemma shown_later:
  assumes "hw_requests w1 = hw_requests w @ pre" "shown E w1 mg w' e"
  shows "shown E w mg w' e"
  using assms refused_later unfolding shown_def by blast

lemma getServiceAndPlanIDs_error:
  assumes "plainTransport (ex_osb E)" "getServiceAndPlanIDs E w s p = (Inl e, w')"
  shows "plain e \<or> e = ErrServiceNameNotFound s \<or> e = ErrPlanNameNotFound p"
proof -
  have svc: "findService s ss = Inl e \<Longrightarrow> e = ErrServiceNameNotFound s" for ss e
    by (induction ss) (auto split: if_splits)
  have pln: "findPlan p ps = Inl e \<Longrightarrow> e = ErrPlanNameNotFound p" for ps e
    by (induction ps) (auto split: if_splits)
  show ?thesis
    using assms svc pln GetCatalog_plain
    by (fastforce simp: getServiceAndPlanIDs_def getServiceFromCatalog_def getPlanFromService_def
        split: prod.splits option.splits sum.splits)
qed

lemma getServiceAndPlanIDs_shown:
  assumes "plainTransport (ex_osb E)" "getServiceAndPlanIDs E w s p = (Inl e, w')"
    "fp_ServiceName (si_ForProvider dsi) = Some s" "fp_PlanName (si_ForProvider dsi) = Some p"
  shows "\<exists>e'. convertAndLog (Some e) = Some e' \<and> shown E w (ManagedServiceInstance dsi) w' e'"
    and "\<exists>e'. convertAndLog (Some (errUpdateServiceInstance e)) = Some e' \<and> shown E w (ManagedServiceInstance dsi) w' e'"
  using getServiceAndPlanIDs_error [OF assms(1,2)] assms(3,4)
  by (auto simp: convert_plain errUpdateServiceInstance_def)
    (simp_all add: convertAndLog_def errorsAs_def shown_def)

lemma getServiceAndPlanIDs_grows:
  assumes "getServiceAndPlanIDs E w s p = (r, w')"
  shows "\<exists>pre. hw_requests w' = hw_requests w @ pre"
  using assms GetCatalog_grows
  by (fastforce simp: getServiceAndPlanIDs_def getServiceFromCatalog_def split: prod.splits option.splits sum.splits)

lemma convertKey_plain: "convertKey fmt conv m k (Inr r) = Inl e \<Longrightarrow> plain e"
  by (auto simp: convertKey_def split: option.splits sum.splits)

lemma fold_convertKey_plain: "fold (convertKey fmt conv m) ks (Inr r) = Inl e \<Longrightarrow> plain e"
proof (induction ks arbitrary: r)
  case (Cons k ks)
  show ?case
  proof (cases "convertKey fmt conv m k (Inr r)")
    case (Inl e')
    then show ?thesis using Cons.prems convertKey_plain by auto
  next
    case (Inr r')
    then show ?thesis using Cons.prems Cons.IH by simp
  qed
qed simp

lemma convertParams_plain:
  assumes "convertParams fmt conv params = Inl e"
  shows "plain e"
proof -
  obtain m where "params = Some m"
    using assms by (cases params) (auto simp: convertParams_def)
  then show ?thesis
    using assms fold_convertKey_plain [of fmt conv m "keyList m" fmempty]
    by (cases "fold (convertKey fmt conv m) (keyList m) (Inr fmempty)") (auto simp: convertParams_def)
qed

lemma updateParameters_plain: "updateParameters E dsi = Inl e \<Longrightarrow> plain e"
  by (auto simp: updateParameters_def KubernetesParamsToServiceBroker_def split: sum.splits
      dest: convertParams_plain)

lemma finish_no_error: "finish (afterResponse r dsi) w = (Return x (Some e), mg, w') \<Longrightarrow> False"
  by (cases "(r, dsi)" rule: afterResponse.cases) (auto simp: finish_def split: if_splits option.splits)

lemma createInstance_shown:
  assumes "plainTransport (ex_osb E)" "createInstance E w dsi s p = (Return x (Some e), mg, w')"
  shows "\<exists>e'. convertAndLog (Some e) = Some e' \<and> shown E w mg0 w' e'"
proof (cases "KubernetesParamsToServiceBroker E (fp_Parameters (si_ForProvider dsi))")
  case (Inl e1)
  then have "plain e"
    using assms(2) convertParams_plain
    by (auto simp: createInstance_def failWith_def KubernetesParamsToServiceBroker_def)
  then show ?thesis using convert_plain by simp
next
  case (Inr params)
  then obtain rq where rq: "provisionRequest dsi s p params = Some rq"
    using assms(2) by (auto simp: createInstance_def split: option.splits)
  then have ident: "pr_OriginatingIdentity rq = None"
    by (auto simp: provisionRequest_def Let_def split: option.splits)
  obtain y er w1 where c: "ProvisionInstance (ex_osb E) w rq = ((y, er), w1)"
    by (metis prod.exhaust)
  with Inr rq assms(2) obtain e1 where "er = Some e1"
    "e = Errorf ''cannot create ServiceInstance'' (HandleHttpError e1)" "w1 = w'"
    by (cases er) (auto simp: createInstance_def failWith_def dest: finish_no_error)
  then show ?thesis
    using convert_handled ProvisionInstance_reports [OF assms(1) ident] c by blast
qed

lemma updateInstanceWith_shown:
  assumes "plainTransport (ex_osb E)" "updateInstanceWith E w dsi s p = (Return x (Some e), mg, w')"
  shows "\<exists>e'. convertAndLog (Some e) = Some e' \<and> shown E w mg0 w' e'"
proof (cases "updateParameters E dsi")
  case (Inl e1)
  then have "plain e"
    using assms(2) updateParameters_plain
    by (auto simp: updateInstanceWith_def failWith_def errUpdateServiceInstance_def)
  then show ?thesis using convert_plain by simp
next
  case (Inr params)
  then obtain rq where rq: "updateRequest dsi s p params = Some rq"
    using assms(2) by (auto simp: updateInstanceWith_def split: option.splits)
  then have ident: "ur_OriginatingIdentity rq = None"
    by (auto simp: updateRequest_def Let_def split: option.splits)
  obtain y er w1 where c: "UpdateInstance (ex_osb E) w rq = ((y, er), w1)"
    by (metis prod.exhaust)
  with Inr rq assms(2) obtain e1 where "er = Some e1"
    "e = errUpdateServiceInstance (HandleHttpError e1)" "w1 = w'"
    by (cases er) (auto simp: updateInstanceWith_def failWith_def dest: finish_no_error)
  then show ?thesis
    using convert_handled UpdateInstance_reports [OF assms(1) ident] c
    unfolding errUpdateServiceInstance_def by blast
qed

lemma shown_notServiceInstance:
  "\<exists>e'. convertAndLog (Some errNotServiceInstance) = Some e' \<and> shown E w OtherManaged w e'"
  by (simp add: convertAndLog_def errorsAs_def errNotServiceInstance_def shown_def)

lemma SI_Create_shown:
  assumes "plainTransport (ex_osb E)" "SI_Create E w mg = (Return x (Some e), mg', w')"
  shows "\<exists>e'. convertAndLog (Some e) = Some e' \<and> shown E w mg w' e'"
proof (cases mg)
  case OtherManaged
  then show ?thesis
    using assms(2) shown_notServiceInstance by (auto simp: SI_Create_def failWith_def)
next
  case (ManagedServiceInstance dsi)
  then obtain s p where n: "fp_ServiceName (si_ForProvider dsi) = Some s" "fp_PlanName (si_ForProvider dsi) = Some p"
    using assms(2) by (auto simp: SI_Create_def split: option.splits)
  obtain r w1 where ids: "getServiceAndPlanIDs E w s p = (r, w1)" by fastforce
  obtain pre where pre: "hw_requests w1 = hw_requests w @ pre" using getServiceAndPlanIDs_grows [OF ids] by blast
  show ?thesis
  proof (cases r)
    case (Inl e1)
    then show ?thesis
      using assms(2) ManagedServiceInstance n ids getServiceAndPlanIDs_shown(1) [OF assms(1) _ n]
      by (auto simp: SI_Create_def failWith_def)
  next
    case (Inr v)
    then have "createInstance E w1 dsi (fst v) (snd v) = (Return x (Some e), mg', w')"
      using assms(2) ManagedServiceInstance n ids by (auto simp: SI_Create_def split: prod.splits)
    from createInstance_shown [OF assms(1) this] shown_later [OF pre] show ?thesis by blast
  qed
qed

lemma SI_Update_shown:
  assumes "plainTransport (ex_osb E)" "SI_Update E w mg = (Return x (Some e), mg', w')"
  shows "\<exists>e'. convertAndLog (Some e) = Some e' \<and> shown E w mg w' e'"
proof (cases mg)
  case OtherManaged
  then show ?thesis
    using assms(2) shown_notServiceInstance by (auto simp: SI_Update_def failWith_def)
next
  case (ManagedServiceInstance dsi)
  then obtain s p where n: "fp_ServiceName (si_ForProvider dsi) = Some s" "fp_PlanName (si_ForProvider dsi) = Some p"
    using assms(2) by (auto simp: SI_Update_def split: option.splits)
  obtain r w1 where ids: "getServiceAndPlanIDs E w s p = (r, w1)" by fastforce
  obtain pre where pre: "hw_requests w1 = hw_requests w @ pre" using getServiceAndPlanIDs_grows [OF ids] by blast
  show ?thesis
  proof (cases r)
    case (Inl e1)
    then show ?thesis
      using assms(2) ManagedServiceInstance n ids getServiceAndPlanIDs_shown(2) [OF assms(1) _ n]
      by (auto simp: SI_Update_def failWith_def)
  next
    case (Inr v)
    then have "updateInstanceWith E w1 dsi (fst v) (snd v) = (Return x (Some e), mg', w')"
      using assms(2) ManagedServiceInstance n ids by (auto simp: SI_Update_def split: prod.splits)
    from updateInstanceWith_shown [OF assms(1) this] shown_later [OF pre] show ?thesis by blast
  qed
qed

lemma SI_Delete_shown:
  assumes "plainTransport (ex_osb E)" "SI_Delete E w mg = (Return x (Some e), mg', w')"
  shows "\<exists>e'. convertAndLog (Some e) = Some e' \<and> shown E w mg w' e'"
proof (cases mg)
  case OtherManaged
  then show ?thesis
    using assms(2) shown_notServiceInstance by (auto simp: SI_Delete_def failWith_def)
next
  case (ManagedServiceInstance dsi0)
  define dsi where "dsi = dsi0\<lparr>si_Conditions := ex_SetConditions E (si_Conditions dsi0) Deleting\<rparr>"
  obtain rq where rq: "deprovisionRequest dsi = Some rq"
    using assms(2) ManagedServiceInstance
    by (auto simp: SI_Delete_def Let_def dsi_def split: option.splits)
  then have ident: "dr_OriginatingIdentity rq = None"
    by (auto simp: deprovisionRequest_def)
  obtain y er w1 where c: "DeprovisionInstance (ex_osb E) w rq = ((y, er), w1)"
    by (metis prod.exhaust)
  with rq assms(2) ManagedServiceInstance obtain e1 where "er = Some e1"
    "e = Errorf ''cannot delete ServiceInstance'' (HandleHttpError e1)" "w1 = w'"
    by (cases er) (auto simp: SI_Delete_def Let_def dsi_def [symmetric] failWith_def dest: finish_no_error split: if_splits)
  then show ?thesis
    using convert_handled DeprovisionInstance_reports [OF assms(1) ident] c by blast
qed

end
