(* ===== verification/Binding_Controller.thy ===== *)
theory Binding_Controller
  imports Service_Instance
begin

text \<open>
  The service binding controller of provider-anynines: the managed resource
  (\<open>apis/servicebinding/v1\<close>) and the external client (\<open>internal/controller/servicebinding\<close>). A binding
  gets its IDs from the ServiceInstance it names, is created at the broker once, publishes the
  credentials of the broker as a connection secret, and then reads host and port back from the secret of
  the claim into its status.

  \<^item> \<open>sb_external\<close> has the broker client and, as parameters, the two reads from the Kubernetes API, the check of
    the label selector, \<open>url.Parse\<close>, crossplane's \<open>SetConditions\<close> and the order of map iteration.
  \<^item> The helpers of \<open>initializeConnectionDetails\<close> append to the status of the binding they are given and may
    fail afterwards: they return the error and the changed binding.
  \<^item> As in \<open>Service_Instance\<close>, the branch of \<open>SB_Create\<close> for neither a response nor an error does not occur.

  \<open>secret_sound\<close> and \<open>secret_complete\<close> describe the connection secret by the leaves of the credentials;
  \<open>details_grow\<close> shows what repeated observation does to a binding whose instance is not ready.
\<close>

section \<open>The managed resource\<close>

record ConnectionDetails =
  cd_HostURL :: string
  cd_Port :: string
  cd_Label :: string

record ServiceBindingObservation =
  vo_State :: string
  vo_ServiceBindingID :: int
  vo_InstanceID :: string
  vo_PlanID :: string
  vo_ServiceID :: string
  vo_ConnectionDetails :: "ConnectionDetails list"

record ServiceBinding =
  vb_Name :: string
  vb_UID :: string
  vb_Labels :: "(string, string) fmap"
  vb_Annotations :: "(string, string) fmap option"
  vb_DeletionTimestamp :: "time option"
  vb_InstanceName :: string
  vb_AcceptsIncomplete :: bool
  vb_Conditions :: "xp_condition list"
  vb_AtProvider :: ServiceBindingObservation

datatype managed_binding = ManagedServiceBinding ServiceBinding | OtherResource

record URL =
  url_Scheme :: string
  url_Hostname :: string
  url_Port :: string

type_synonym secretData = "(string, string) fmap"

record sb_external =
  se_service :: client
  se_selectorError :: "string \<Rightarrow> string \<Rightarrow> go_err option"
  se_listInstances :: "http_world \<Rightarrow> string \<Rightarrow> string \<Rightarrow> go_err + ServiceInstance list"
  se_getSecret :: "http_world \<Rightarrow> string \<Rightarrow> string \<Rightarrow> go_err + secretData"
  se_parseURL :: "string \<Rightarrow> go_err + URL"
  se_SetConditions :: "xp_condition list \<Rightarrow> xp_condition \<Rightarrow> xp_condition list"
  se_order :: order

definition label :: "ServiceBinding \<Rightarrow> string \<Rightarrow> string" where
  "label sb k = (case fmlookup (vb_Labels sb) k of None \<Rightarrow> '''' | Some v \<Rightarrow> v)"

definition annotation :: "ServiceBinding \<Rightarrow> string \<Rightarrow> string" where
  "annotation sb k =
     (case vb_Annotations sb of
        None \<Rightarrow> ''''
      | Some m \<Rightarrow> (case fmlookup m k of None \<Rightarrow> '''' | Some v \<Rightarrow> v))"

definition LabelKeyClaimName :: string where
  [klutch_defs]: "LabelKeyClaimName = ''crossplane.io/claim-name''"

definition LabelKeyClaimNamespace :: string where
  [klutch_defs]: "LabelKeyClaimNamespace = ''crossplane.io/claim-namespace''"

definition AnnotationKeyServiceBindingCreated :: string where
  [klutch_defs]: "AnnotationKeyServiceBindingCreated = ''anynines.crossplane.io/servicebinding-created''"

definition HasMissingFields :: "ServiceBindingObservation \<Rightarrow> bool" where
  "HasMissingFields sbo \<longleftrightarrow> vo_InstanceID sbo = '''' \<or> vo_ServiceID sbo = '''' \<or> vo_PlanID sbo = ''''"

definition AddConnectionDetailsWithLabel ::
  "string \<Rightarrow> string \<Rightarrow> string \<Rightarrow> ServiceBinding \<Rightarrow> ServiceBinding" where
  "AddConnectionDetailsWithLabel hostURL port lbl sb =
     sb\<lparr>vb_AtProvider := (vb_AtProvider sb)\<lparr>vo_ConnectionDetails :=
          vo_ConnectionDetails (vb_AtProvider sb) @
          [\<lparr>cd_HostURL = hostURL, cd_Port = port, cd_Label = lbl\<rparr>]\<rparr>\<rparr>"

definition ConnectionDetailsIsNotEmpty :: "ServiceBinding \<Rightarrow> bool" where
  "ConnectionDetailsIsNotEmpty sb \<longleftrightarrow> vo_ConnectionDetails (vb_AtProvider sb) \<noteq> []"

definition SetDeletionStatusIfNotDeleted :: "sb_external \<Rightarrow> string \<Rightarrow> ServiceBinding \<Rightarrow> ServiceBinding" where
  "SetDeletionStatusIfNotDeleted E status sb =
     (if vb_DeletionTimestamp sb \<noteq> None
      then sb\<lparr>vb_Conditions := se_SetConditions E (vb_Conditions sb) Deleting,
              vb_AtProvider := (vb_AtProvider sb)\<lparr>vo_State := status\<rparr>\<rparr>
      else sb)"

section \<open>Hosts and ports\<close>

type_synonym extracted = "go_err option \<times> ServiceBinding"

definition parseHostAndPort :: "string \<Rightarrow> go_err + (string \<times> string)" where
  "parseHostAndPort s =
     (if CHR '':'' \<in> set s
      then (let port = rev (takeWhile (\<lambda>c. c \<noteq> CHR '':'') (rev s))
            in Inr (take (length s - length port - 1) s, port))
      else Inl (ErrorString (Sprintf ''invalid host:port format: %q'' [FStr s])))"

definition notInSecret :: "string \<Rightarrow> go_err" where
  "notInSecret key = ErrorString (Sprintf ''%q field not found in secret'' [FStr key])"

definition invalidHost :: "string \<Rightarrow> go_err" where
  "invalidHost host = ErrorString (Sprintf ''invalid host format: %q'' [FStr host])"

text \<open>\<open>len(host) <= 2 || (host[0] != '[' && host[len(host)-1] != ']')\<close>\<close>

definition notBracketed :: "string \<Rightarrow> bool" where
  "notBracketed host \<longleftrightarrow> length host \<le> 2 \<or> (hd host \<noteq> CHR ''['' \<and> last host \<noteq> CHR '']'')"

definition withoutBrackets :: "string \<Rightarrow> string" where
  "withoutBrackets host = butlast (tl host)"

definition extractBracketHost :: "secretData \<Rightarrow> string \<Rightarrow> string \<Rightarrow> ServiceBinding \<Rightarrow> extracted" where
  "extractBracketHost secret key lbl sb =
     (case fmlookup secret key of
        None \<Rightarrow> (Some (notInSecret key), sb)
      | Some host \<Rightarrow>
          (if notBracketed host then (Some (invalidHost host), sb)
           else case parseHostAndPort (withoutBrackets host) of
                  Inl e \<Rightarrow> (Some e, sb)
                | Inr (hostURL, port) \<Rightarrow> (None, AddConnectionDetailsWithLabel hostURL port lbl sb)))"

definition parseAndAddURI :: "sb_external \<Rightarrow> string \<Rightarrow> string \<Rightarrow> ServiceBinding \<Rightarrow> extracted" where
  "parseAndAddURI E uriStr lbl sb =
     (case se_parseURL E uriStr of
        Inl e \<Rightarrow> (Some e, sb)
      | Inr u \<Rightarrow>
          (None, AddConnectionDetailsWithLabel (url_Scheme u @ ''://'' @ url_Hostname u) (url_Port u) lbl sb))"

definition extractPlainHost :: "sb_external \<Rightarrow> secretData \<Rightarrow> string \<Rightarrow> string \<Rightarrow> ServiceBinding \<Rightarrow> extracted" where
  "extractPlainHost E secret key lbl sb =
     (case fmlookup secret key of
        None \<Rightarrow> (Some (notInSecret key), sb)
      | Some host \<Rightarrow>
          (if host = '''' then (Some (invalidHost host), sb) else parseAndAddURI E host lbl sb))"

definition extractPrometheusURL ::
  "sb_external \<Rightarrow> secretData \<Rightarrow> string \<Rightarrow> string \<Rightarrow> ServiceBinding \<Rightarrow> extracted" where
  "extractPrometheusURL E secret key lbl sb =
     (case fmlookup secret key of
        None \<Rightarrow> (Some (notInSecret key), sb)
      | Some host \<Rightarrow>
          (if notBracketed host then (Some (invalidHost host), sb)
           else parseAndAddURI E (withoutBrackets host) lbl sb))"

definition extractGraphiteExporter :: "secretData \<Rightarrow> ServiceBinding \<Rightarrow> extracted" where
  "extractGraphiteExporter secret sb =
     (case fmlookup secret ''graphite_exporters'' of
        None \<Rightarrow> (Some (ErrorString ''graphite_exporters field not found in secret''), sb)
      | Some host \<Rightarrow>
          (if notBracketed host then (Some (invalidHost host), sb)
           else case fmlookup secret ''graphite_exporter_port'' of
                  None \<Rightarrow> (Some (ErrorString ''graphite_exporter_port field not found in secret''), sb)
                | Some port \<Rightarrow>
                    (None, AddConnectionDetailsWithLabel (withoutBrackets host) port ''Graphite Exporter'' sb)))"

text \<open>Run the next step unless the one before failed.\<close>

fun andThen :: "extracted \<Rightarrow> (ServiceBinding \<Rightarrow> extracted) \<Rightarrow> extracted" where
  "andThen (Some e, sb) f = (Some e, sb)"
| "andThen (None, sb) f = f sb"

definition optionalURI :: "sb_external \<Rightarrow> secretData \<Rightarrow> string \<Rightarrow> string \<Rightarrow> ServiceBinding \<Rightarrow> extracted" where
  "optionalURI E secret key lbl sb =
     (case fmlookup secret key of
        Some uri \<Rightarrow> (if uri \<noteq> '''' then parseAndAddURI E uri lbl sb else (None, sb))
      | None \<Rightarrow> (None, sb))"

definition extractMessagingEndpoints :: "sb_external \<Rightarrow> secretData \<Rightarrow> ServiceBinding \<Rightarrow> extracted" where
  "extractMessagingEndpoints E secret sb =
     andThen (andThen (optionalURI E secret ''http_api_uri'' ''HTTP API'' sb)
       (optionalURI E secret ''protocols.amqp_ssl.uri'' ''AMQP SSL''))
       (optionalURI E secret ''protocols.management.uri'' ''Management'')"

definition hostAndPort :: "secretData \<Rightarrow> string \<Rightarrow> string \<Rightarrow> ServiceBinding \<Rightarrow> extracted" where
  "hostAndPort secret portKey lbl sb =
     (case fmlookup secret ''host'' of
        None \<Rightarrow> (Some (ErrorString ''host field not found in secret''), sb)
      | Some host \<Rightarrow>
          (case fmlookup secret portKey of
             None \<Rightarrow> (Some (ErrorString (portKey @ '' field not found in secret'')), sb)
           | Some port \<Rightarrow> (None, AddConnectionDetailsWithLabel host port lbl sb)))"

definition errNoSuchDataservice :: go_err where
  "errNoSuchDataservice = PlainUserErr ''referenced data service not found.''"

definition extractFor :: "sb_external \<Rightarrow> string \<Rightarrow> secretData \<Rightarrow> ServiceBinding \<Rightarrow> extracted" where
  "extractFor E instanceName secret sb =
     (if Contains instanceName ''search'' then extractBracketHost secret ''host'' ''Search'' sb
      else if Contains instanceName ''logme2'' then extractPlainHost E secret ''host'' ''Logme2'' sb
      else if Contains instanceName ''mongodb'' then extractBracketHost secret ''hosts'' ''MongoDB'' sb
      else if Contains instanceName ''prometheus''
      then andThen (andThen (andThen
             (extractPrometheusURL E secret ''prometheus_urls'' ''Prometheus'' sb)
             (extractPrometheusURL E secret ''alertmanager_urls'' ''Alertmanager''))
             (extractPrometheusURL E secret ''grafana_urls'' ''Grafana''))
             (extractGraphiteExporter secret)
      else if Contains instanceName ''messaging'' then extractMessagingEndpoints E secret sb
      else if Contains instanceName ''keyvalue'' then hostAndPort secret ''valkey.port'' ''KeyValue'' sb
      else if Contains instanceName ''postgresql'' \<or> Contains instanceName ''mariadb''
      then hostAndPort secret ''port'' ''SQL'' sb
      else (Some errNoSuchDataservice, sb))"

definition GetServiceBindingSecret :: "sb_external \<Rightarrow> http_world \<Rightarrow> ServiceBinding \<Rightarrow> go_err + secretData" where
  "GetServiceBindingSecret E w sb =
     map_sum (Errorf ''failed to get ServiceBinding secret'') id
       (se_getSecret E w (label sb LabelKeyClaimNamespace) (label sb LabelKeyClaimName @ ''-creds''))"

definition initializeConnectionDetails :: "sb_external \<Rightarrow> http_world \<Rightarrow> ServiceBinding \<Rightarrow> extracted" where
  "initializeConnectionDetails E w sb =
     (case GetServiceBindingSecret E w sb of
        Inl e \<Rightarrow> (Some e, sb)
      | Inr secret \<Rightarrow> extractFor E (label sb ''klutch.io/instance-type'') secret sb)"

section \<open>The instance of a binding\<close>

definition GetServiceInstanceManagedResource ::
  "sb_external \<Rightarrow> http_world \<Rightarrow> ServiceBinding \<Rightarrow> go_err + ServiceInstance" where
  "GetServiceInstanceManagedResource E w sb =
     (let claim = vb_InstanceName sb; ns = label sb LabelKeyClaimNamespace in
      case se_selectorError E claim ns of
        Some e \<Rightarrow> Inl (Errorf ''failed to create label selector for ServiceInstance managed resources'' e)
      | None \<Rightarrow>
          (case se_listInstances E w claim ns of
             Inl e \<Rightarrow> Inl (Errorf ''failed to list ServiceInstance managed resource'' e)
           | Inr instances \<Rightarrow> ToServiceInstance instances (vb_Name sb)))"

definition errInstanceNotReady :: go_err where
  "errInstanceNotReady = PlainUserErr ''service instance is not ready''"

definition initializeInstanceFields :: "sb_external \<Rightarrow> http_world \<Rightarrow> ServiceBinding \<Rightarrow> extracted" where
  "initializeInstanceFields E w sb =
     (case GetServiceInstanceManagedResource E w sb of
        Inl e \<Rightarrow> (Some e, sb)
      | Inr i \<Rightarrow>
          (let sb' = sb\<lparr>vb_AtProvider := (vb_AtProvider sb)\<lparr>
                 vo_InstanceID := ob_InstanceID (si_AtProvider i),
                 vo_ServiceID := ob_ServiceID (si_AtProvider i),
                 vo_PlanID := ob_PlanID (si_AtProvider i)\<rparr>\<rparr>
           in (if HasMissingFields (vb_AtProvider sb') then Some errInstanceNotReady else None, sb')))"

definition errServiceBindingIsUnset :: go_err where
  "errServiceBindingIsUnset = PlainUserErr ''servicebinding status field is unset, setting required values''"

definition initializeServiceBindingStatus :: "sb_external \<Rightarrow> http_world \<Rightarrow> ServiceBinding \<Rightarrow> extracted" where
  "initializeServiceBindingStatus E w sb =
     (if \<not> HasMissingFields (vb_AtProvider sb) \<and> ConnectionDetailsIsNotEmpty sb then (None, sb)
      else if annotation sb AnnotationKeyServiceBindingCreated \<noteq> ''true''
              \<and> \<not> HasMissingFields (vb_AtProvider sb)
      then (None, sb)
      else andThen
        (andThen
          (if annotation sb AnnotationKeyServiceBindingCreated = ''true''
           then initializeConnectionDetails E w sb else (None, sb))
          (initializeInstanceFields E w))
        (\<lambda>sb'. (Some errServiceBindingIsUnset, sb')))"

section \<open>The external client\<close>

definition errNotServiceBinding :: go_err where
  "errNotServiceBinding = ErrorString (''something went wrong with crossplane as managed resource ''
     @ ''reconciled is not a ServiceBinding custom resource, THIS SHOULD NOT HAPPEN'')"

definition existingBinding :: "sb_external \<Rightarrow> bool \<Rightarrow> ServiceBinding \<Rightarrow> ServiceBinding" where
  "existingBinding E deleting sb =
     (if deleting then sb
      else sb\<lparr>vb_Conditions := se_SetConditions E (vb_Conditions sb) Available,
              vb_AtProvider := (vb_AtProvider sb)\<lparr>vo_State := ''Created''\<rparr>\<rparr>)"

definition observeBinding ::
  "sb_external \<Rightarrow> http_world \<Rightarrow> ServiceBinding
   \<Rightarrow> (ExternalObservation \<times> go_err option) \<times> ServiceBinding \<times> http_world" where
  "observeBinding E w sb0 =
     (let sb = SetDeletionStatusIfNotDeleted E ''Deleting'' sb0;
          isDeleting = (vb_DeletionTimestamp sb \<noteq> None)
      in case GetBinding (se_service E) w (vo_InstanceID (vb_AtProvider sb), vb_UID sb) of
           ((_, Some e), w') \<Rightarrow>
             (if isDeleting then ((noObservation, None), sb, w')
              else ((noObservation, Some (Errorf ''failed to get service binding'' e)), sb, w'))
         | ((resp, None), w') \<Rightarrow>
             (let exists = (case resp of None \<Rightarrow> False | Some b \<Rightarrow> gb_Credentials b \<noteq> None)
              in ((\<lparr>eo_ResourceExists = exists, eo_ResourceUpToDate = True\<rparr>, None),
                  (if exists then existingBinding E isDeleting sb else sb), w')))"

definition SB_Observe ::
  "sb_external \<Rightarrow> http_world \<Rightarrow> managed_binding
   \<Rightarrow> (ExternalObservation \<times> go_err option) \<times> managed_binding \<times> http_world" where
  "SB_Observe E w mg =
     (case mg of
        OtherResource \<Rightarrow> ((noObservation, Some errNotServiceBinding), mg, w)
      | ManagedServiceBinding sb \<Rightarrow>
          (case initializeServiceBindingStatus E w sb of
             (Some e, sb') \<Rightarrow> ((noObservation, Some e), ManagedServiceBinding sb', w)
           | (None, sb') \<Rightarrow>
               (if annotation sb' AnnotationKeyServiceBindingCreated = ''''
                then ((noObservation, None), ManagedServiceBinding sb', w)
                else case observeBinding E w sb' of
                       (r, sb'', w') \<Rightarrow> (r, ManagedServiceBinding sb'', w'))))"

definition generateConnectionDetails :: "sb_external \<Rightarrow> BindResponse \<Rightarrow> go_err + flat" where
  "generateConnectionDetails E res =
     (if emptyMap (bs_Credentials res)
      then Inl (ErrorString ''The service broker returned no credentials for service binding'')
      else Inr (ReplaceRootKeyWithNestedKey (se_order E)
                  (FlattenMap (se_order E) (mapOf (bs_Credentials res)) '''')))"

definition bindRequest :: "ServiceBinding \<Rightarrow> BindRequest" where
  "bindRequest sb =
     \<lparr>bq_BindingID = vb_UID sb, bq_InstanceID = vo_InstanceID (vb_AtProvider sb),
      bq_AcceptsIncomplete = vb_AcceptsIncomplete sb, bq_ServiceID = vo_ServiceID (vb_AtProvider sb),
      bq_PlanID = vo_PlanID (vb_AtProvider sb), bq_AppGUID = None, bq_BindResource = None,
      bq_Parameters = None, bq_Context = None, bq_OriginatingIdentity = None\<rparr>"

definition markCreated :: "ServiceBinding \<Rightarrow> ServiceBinding" where
  "markCreated sb =
     sb\<lparr>vb_Annotations := Some (fmupd AnnotationKeyServiceBindingCreated ''true'' (mapOf (vb_Annotations sb)))\<rparr>"

text \<open>The result is the connection details, if any, and the error.\<close>

definition SB_Create ::
  "sb_external \<Rightarrow> http_world \<Rightarrow> managed_binding
   \<Rightarrow> (flat option \<times> go_err option) \<times> managed_binding \<times> http_world" where
  "SB_Create E w mg =
     (case mg of
        OtherResource \<Rightarrow> ((None, Some errNotServiceBinding), mg, w)
      | ManagedServiceBinding sb \<Rightarrow>
          (case Bind (se_service E) w (bindRequest sb) of
             ((_, Some e), w') \<Rightarrow> ((None, Some e), mg, w')
           | ((None, None), w') \<Rightarrow> ((None, None), mg, w')
           | ((Some resp, None), w') \<Rightarrow>
               ((case generateConnectionDetails E resp of Inl e \<Rightarrow> (None, Some e) | Inr cd \<Rightarrow> (Some cd, None)),
                ManagedServiceBinding (markCreated sb), w')))"

definition SB_Update :: "http_world \<Rightarrow> managed_binding \<Rightarrow> go_err option \<times> managed_binding \<times> http_world" where
  "SB_Update w mg = (None, mg, w)"

definition unbindRequest :: "ServiceBinding \<Rightarrow> UnbindRequest" where
  "unbindRequest sb =
     \<lparr>un_InstanceID = vo_InstanceID (vb_AtProvider sb), un_BindingID = vb_UID sb,
      un_AcceptsIncomplete = vb_AcceptsIncomplete sb, un_ServiceID = vo_ServiceID (vb_AtProvider sb),
      un_PlanID = vo_PlanID (vb_AtProvider sb), un_OriginatingIdentity = None\<rparr>"

definition SB_Delete ::
  "sb_external \<Rightarrow> http_world \<Rightarrow> managed_binding \<Rightarrow> go_err option \<times> managed_binding \<times> http_world" where
  "SB_Delete E w mg =
     (case mg of
        OtherResource \<Rightarrow> (Some errNotServiceBinding, mg, w)
      | ManagedServiceBinding sb0 \<Rightarrow>
          (let sb = sb0\<lparr>vb_Conditions := se_SetConditions E (vb_Conditions sb0) Deleting\<rparr>
           in case Unbind (se_service E) w (unbindRequest sb) of
                ((_, Some e), w') \<Rightarrow>
                  (Some (WithCause ''failed to delete ServiceBinding'' (Some e)), ManagedServiceBinding sb, w')
              | ((_, None), w') \<Rightarrow> (None, ManagedServiceBinding sb, w')))"

section \<open>The connection secret\<close>

lemma secret_of_create:
  assumes "SB_Create E w (ManagedServiceBinding sb) = ((Some cd, None), mg, w')"
  obtains resp where "Bind (se_service E) w (bindRequest sb) = ((Some resp, None), w')"
    and "mg = ManagedServiceBinding (markCreated sb)"
    and "cd = ReplaceRootKeyWithNestedKey (se_order E) (FlattenMap (se_order E) (mapOf (bs_Credentials resp)) [])"
  using assms
  by (auto simp: SB_Create_def generateConnectionDetails_def split: prod.splits option.splits sum.splits if_splits)

lemma secret_sound:
  assumes "covers ord" "fmlookup (ReplaceRootKeyWithNestedKey ord (FlattenMap ord m [])) k = Some t"
  shows "\<exists>p. leaf (JObj m) p t \<and> pathKey [] p = k"
  using assms flatten_sound [of ord "JObj m" "[]" k t]
  by (auto simp: replace_is_filter FlattenMap_def split: if_splits)

lemma secret_complete:
  assumes "covers ord" "leaf (JObj m) p t"
    and "\<And>p' t'. leaf (JObj m) p' t' \<Longrightarrow> pathKey [] p' = pathKey [] p \<Longrightarrow> t' = t"
  shows "\<exists>k. fmlookup (ReplaceRootKeyWithNestedKey ord (FlattenMap ord m [])) k = Some t
    \<and> lastPart k = lastPart (pathKey [] p)"
proof -
  obtain t' where t': "fmlookup (FlattenMap ord m []) (pathKey [] p) = Some t'"
    using flatten_complete [OF assms(1,2), of "[]"] by (auto simp: FlattenMap_def)
  then have "t' = t"
    using flatten_sound [OF assms(1)] assms(3) unfolding FlattenMap_def by blast
  then show ?thesis
    using replace_keeps_values [OF assms(1) t'] by simp
qed

section \<open>Repeated observation\<close>

definition addedDetails :: "ServiceBinding \<Rightarrow> ConnectionDetails list" where
  "addedDetails sb = vo_ConnectionDetails (vb_AtProvider sb)"

text \<open>What an observation leaves of the binding when the lookups of the world answer the same every time.\<close>

definition afterObserve :: "sb_external \<Rightarrow> http_world \<Rightarrow> ServiceBinding \<Rightarrow> ServiceBinding" where
  "afterObserve E w sb = snd (initializeServiceBindingStatus E w sb)"

text \<open>A binding that was created, of a SQL service whose secret is complete and whose instance lost its plan.\<close>

definition unready :: "sb_external \<Rightarrow> http_world \<Rightarrow> ServiceBinding \<Rightarrow> bool" where
  "unready E w sb \<longleftrightarrow>
     HasMissingFields (vb_AtProvider sb) \<and> annotation sb AnnotationKeyServiceBindingCreated = ''true'' \<and>
     label sb ''klutch.io/instance-type'' = ''a9s-postgresql'' \<and>
     (\<exists>secret host port. GetServiceBindingSecret E w sb = Inr secret \<and> fmlookup secret ''host'' = Some host
        \<and> fmlookup secret ''port'' = Some port) \<and>
     (\<exists>i. GetServiceInstanceManagedResource E w sb = Inr i \<and> ob_PlanID (si_AtProvider i) = [])"

lemma reads_only_meta:
  assumes "vb_Labels sb' = vb_Labels sb" "vb_Annotations sb' = vb_Annotations sb"
    "vb_InstanceName sb' = vb_InstanceName sb" "vb_Name sb' = vb_Name sb"
  shows "label sb' k = label sb k" "annotation sb' k = annotation sb k"
    "GetServiceBindingSecret E w sb' = GetServiceBindingSecret E w sb"
    "GetServiceInstanceManagedResource E w sb' = GetServiceInstanceManagedResource E w sb"
  unfolding GetServiceBindingSecret_def GetServiceInstanceManagedResource_def label_def annotation_def assms
  by (rule refl)+

lemma sql_extraction: "extractFor E ''a9s-postgresql'' secret sb = hostAndPort secret ''port'' ''SQL'' sb"
  by (simp add: extractFor_def)

lemma details_grow_once:
  assumes "unready E w sb"
  shows "unready E w (afterObserve E w sb)"
    and "length (addedDetails (afterObserve E w sb)) = Suc (length (addedDetails sb))"
    and "fst (initializeServiceBindingStatus E w sb) = Some errInstanceNotReady"
proof -
  obtain secret host port i where sec: "GetServiceBindingSecret E w sb = Inr secret"
    and host: "fmlookup secret ''host'' = Some host" and port: "fmlookup secret ''port'' = Some port"
    and i: "GetServiceInstanceManagedResource E w sb = Inr i" and plan: "ob_PlanID (si_AtProvider i) = []"
    using assms by (auto simp: unready_def)
  define sb1 where "sb1 = AddConnectionDetailsWithLabel host port ''SQL'' sb"
  have meta: "vb_Labels sb1 = vb_Labels sb" "vb_Annotations sb1 = vb_Annotations sb"
    "vb_InstanceName sb1 = vb_InstanceName sb" "vb_Name sb1 = vb_Name sb"
    by (simp_all add: sb1_def AddConnectionDetailsWithLabel_def)
  have "initializeConnectionDetails E w sb = (None, sb1)"
    using assms sec host port
    by (simp add: initializeConnectionDetails_def unready_def sql_extraction hostAndPort_def sb1_def)
  moreover have "GetServiceInstanceManagedResource E w sb1 = Inr i"
    using i reads_only_meta(4) [OF meta] by simp
  ultimately have st: "initializeServiceBindingStatus E w sb =
      (Some errInstanceNotReady, sb1\<lparr>vb_AtProvider := (vb_AtProvider sb1)\<lparr>
         vo_InstanceID := ob_InstanceID (si_AtProvider i), vo_ServiceID := ob_ServiceID (si_AtProvider i),
         vo_PlanID := ob_PlanID (si_AtProvider i)\<rparr>\<rparr>)"
    using assms plan
    by (simp add: initializeServiceBindingStatus_def unready_def initializeInstanceFields_def HasMissingFields_def)
  then show "fst (initializeServiceBindingStatus E w sb) = Some errInstanceNotReady"
    by simp
  show "length (addedDetails (afterObserve E w sb)) = Suc (length (addedDetails sb))"
    by (simp add: afterObserve_def addedDetails_def st sb1_def AddConnectionDetailsWithLabel_def)
  have meta': "vb_Labels (afterObserve E w sb) = vb_Labels sb" "vb_Annotations (afterObserve E w sb) = vb_Annotations sb"
    "vb_InstanceName (afterObserve E w sb) = vb_InstanceName sb" "vb_Name (afterObserve E w sb) = vb_Name sb"
    by (simp_all add: afterObserve_def st meta)
  have "HasMissingFields (vb_AtProvider (afterObserve E w sb))"
    by (simp add: afterObserve_def st plan HasMissingFields_def)
  then show "unready E w (afterObserve E w sb)"
    using assms unfolding unready_def reads_only_meta [OF meta'] by blast
qed

lemma details_grow:
  assumes "unready E w sb"
  shows "length (addedDetails ((afterObserve E w ^^ n) sb)) = n + length (addedDetails sb)
    \<and> unready E w ((afterObserve E w ^^ n) sb)"
  using assms by (induction n) (simp_all add: details_grow_once)

end
