(* ===== verification/Provider_Properties.thy ===== *)
theory Provider_Properties
  imports Binding_Controller
begin

text \<open>
  The properties of provider-anynines, each with a witness where it has hypotheses: what \<open>Observe\<close>,
  \<open>Create\<close>, \<open>Update\<close> and \<open>Delete\<close> of service instances and service bindings do with the answers of the service broker, down to the
  HTTP requests, and which errors a user gets to see. The witnesses run against a broker that
  is a function from requests to responses.
\<close>

section \<open>Samples\<close>

definition samplePlan :: Plan where
  "samplePlan = \<lparr>pl_ID = ''p1'', pl_Name = ''small'', pl_Description = '''', pl_Free = None,
     pl_Bindable = None, pl_Metadata = None, pl_Schemas = None, pl_PlanUpdateable = None,
     pl_MaximumPollingDuration = None, pl_MaintenanceInfo = None\<rparr>"

definition sampleService :: Service where
  "sampleService = \<lparr>sv_ID = ''s1'', sv_Name = ''pg-ms-1'', sv_Description = '''', sv_Tags = [],
     sv_Requires = [], sv_Bindable = True, sv_InstancesRetrievable = True, sv_BindingsRetrievable = True,
     sv_PlanUpdatable = None, sv_Plans = [samplePlan], sv_DashboardClient = None, sv_Metadata = None\<rparr>"

definition sampleContext :: OsbContext where
  "sampleContext = \<lparr>cx_OrganizationGUID = ''org'', cx_SpaceGUID = ''space'', cx_Parameters = None\<rparr>"

definition sampleResponse :: GetInstanceResponse where
  "sampleResponse = \<lparr>gi_ID = 1, gi_PlanGUID = ''p1'', gi_ServiceGUID = ''s1'', gi_Context = sampleContext,
     gi_DashboardURL = '''', gi_DeploymentName = '''', gi_State = ''provisioned'', gi_GUIDAtTenant = ''i1'',
     gi_TenantID = '''', gi_ProvisionedAt = '''', gi_DeletedAt = '''', gi_CreatedAt = '''',
     gi_UpdatedAt = '''', gi_Credentials = [], gi_VMDetails = JNull\<rparr>"

definition sampleServiceResponse :: GetServiceInstanceResponse where
  "sampleServiceResponse = \<lparr>gs_ID = ''i1'', gs_PlanGUID = ''p1'', gs_ServiceGUID = ''s1'',
     gs_DashboardURL = '''', gs_Parameters = None, gs_Context = sampleContext\<rparr>"

definition sampleCredentials :: jsonMap where
  "sampleCredentials = Some (fmupd ''host'' (JStr ''h'') (fmupd ''port'' (JNum 5432) fmempty))"

definition sampleBindResponse :: BindResponse where
  "sampleBindResponse = \<lparr>bs_Async = False, bs_Credentials = sampleCredentials, bs_SyslogDrainURL = None,
     bs_RouteServiceURL = None, bs_VolumeMounts = [], bs_OperationKey = None, bs_Endpoints = None\<rparr>"

definition sampleOsbBinding :: GetBindingResponse where
  "sampleOsbBinding = \<lparr>gb_Credentials = sampleCredentials, gb_SyslogDrainURL = None, gb_RouteServiceURL = None,
     gb_VolumeMounts = [], gb_Parameters = None, gb_Endpoints = None\<rparr>"

definition sampleClient :: "(http_request \<Rightarrow> http_response) \<Rightarrow> client" where
  "sampleClient answer = \<lparr>cl_URL = ''b'', cl_APIVersion = Version2_14, cl_AuthConfig = None,
     cl_EnableAlphaFeatures = False, cl_hasCache = False, cl_cacheExpired = (\<lambda>w. True),
     cl_newRequest = (\<lambda>url. None), cl_do = (\<lambda>l rq. Inr (answer rq)), cl_base64 = (\<lambda>s. s),
     cl_isValidJSON = (\<lambda>s. None),
     cl_decodeMap = (\<lambda>s. Inr (fmupd ''error'' (JStr s) fmempty)),
     cl_decodeCatalog = (\<lambda>s. Inr \<lparr>ct_Services = [sampleService]\<rparr>),
     cl_decodeProvision = (\<lambda>s. Inr \<lparr>ps_Async = False, ps_DashboardURL = None, ps_OperationKey = None\<rparr>),
     cl_decodeOperation = (\<lambda>s. Inr (None, None)),
     cl_decodeInstance = (\<lambda>s. Inr sampleResponse),
     cl_decodeServiceInstance = (\<lambda>s. Inr sampleServiceResponse),
     cl_decodeOperationState = (\<lambda>s. Inr \<lparr>go_State = ''succeeded''\<rparr>),
     cl_decodeBind = (\<lambda>s. Inr sampleBindResponse), cl_decodeBindSuccess = (\<lambda>s. Inr sampleBindResponse),
     cl_decodeUnbind = (\<lambda>s. Inr \<lparr>ui_Async = False, ui_OperationKey = None\<rparr>),
     cl_decodeBinding = (\<lambda>s. Inr sampleOsbBinding)\<rparr>"

definition sampleExternal :: "(http_request \<Rightarrow> http_response) \<Rightarrow> external" where
  "sampleExternal answer = \<lparr>ex_osb = sampleClient answer, ex_SetConditions = (\<lambda>cs c. c # cs),
     ex_cmpEqual = (=), ex_cmpEqualValue = (=), ex_marshal = (\<lambda>v. case v of JStr s \<Rightarrow> Inr s | _ \<Rightarrow> Inl ''''),
     ex_decode = (\<lambda>s. Inr (JStr s)), ex_GenUID = (\<lambda>w. ''u1'')\<rparr>"

definition sampleSpec :: ServiceInstanceParameters where
  "sampleSpec = \<lparr>fp_AcceptsIncomplete = Some True, fp_ServiceName = Some ''pg'', fp_PlanName = Some ''small'',
     fp_OrganizationGUID = Some ''org'', fp_SpaceGUID = Some ''space'', fp_Parameters = None,
     fp_Context = None, fp_OriginatingIdentity = None\<rparr>"

definition sampleInstance :: ServiceInstance where
  "sampleInstance = \<lparr>si_Name = ''db'', si_ForProvider = sampleSpec, si_Conditions = [],
     si_AtProvider = GenerateObservation sampleResponse None, si_PendingOperation = None\<rparr>"

definition freshWorld :: http_world where
  "freshWorld = \<lparr>hw_requests = [], hw_catalog = None\<rparr>"

text \<open>A broker that serves its catalog and knows no instance, and one that answers 202 to every request.\<close>

definition emptyBroker :: "http_request \<Rightarrow> http_response" where
  "emptyBroker rq = (if rq_Method rq = GET \<and> rq_URL rq = ''b/v2/catalog'' then \<lparr>rs_StatusCode = 200, rs_Body = Inr ''''\<rparr>
                     else \<lparr>rs_StatusCode = 404, rs_Body = Inr InstanceNotFound\<rparr>)"

definition asyncBroker :: "http_request \<Rightarrow> http_response" where
  "asyncBroker rq = (if rq_Method rq = GET \<and> rq_URL rq = ''b/v2/catalog'' then \<lparr>rs_StatusCode = 200, rs_Body = Inr ''''\<rparr>
                     else \<lparr>rs_StatusCode = 202, rs_Body = Inr ''''\<rparr>)"

text \<open>A broker that refuses every request with a description.\<close>

definition strictExternal :: external where
  "strictExternal = (sampleExternal (\<lambda>rq. \<lparr>rs_StatusCode = 422, rs_Body = Inr ''locked''\<rparr>))
     \<lparr>ex_osb := (sampleClient (\<lambda>rq. \<lparr>rs_StatusCode = 422, rs_Body = Inr ''locked''\<rparr>))
        \<lparr>cl_decodeMap := (\<lambda>s. Inr (fmupd ''description'' (JStr s) fmempty))\<rparr>\<rparr>"

definition sampleProvision :: ProvisionRequest where
  "sampleProvision = \<lparr>pr_InstanceID = ''i1'', pr_AcceptsIncomplete = True, pr_ServiceID = ''s1'',
     pr_PlanID = ''p1'', pr_OrganizationGUID = ''org'', pr_SpaceGUID = ''space'', pr_Parameters = None,
     pr_Context = platformContext ''org'' ''space'', pr_OriginatingIdentity = None\<rparr>"

lemmas provider_samples = samplePlan_def sampleService_def sampleContext_def sampleResponse_def
  sampleServiceResponse_def sampleClient_def sampleExternal_def sampleSpec_def sampleInstance_def
  freshWorld_def emptyBroker_def asyncBroker_def

lemmas client_ops = GetInstance_def GetServiceInstance_def GetCatalog_def getCatalogFromBroker_def
  getCatalogFromCache_def setCatalogInCache_def getAndDecode_def prepareAndDo_def identityHeader_def
  unmarshalResponse_def handleFailureResponse_def stringEntry_def validateClientVersionIsAtLeast_def
  AtLeast_def IsLessThan_def Version2_12_def Version2_13_def Version2_14_def serviceInstanceURL_def
  osb_IsNotFound_def errorsAs_def InstanceNotFound_def

lemma sample_plan_ids:
  "getServiceAndPlanIDs (sampleExternal asyncBroker) freshWorld ''pg'' ''small'' =
     (Inr (''s1'', ''p1''), snd (getServiceAndPlanIDs (sampleExternal asyncBroker) freshWorld ''pg'' ''small''))"
  by (simp add: getServiceAndPlanIDs_def getServiceFromCatalog_def getPlanFromService_def provider_samples
      client_ops Let_def pruneCatalogResponse_def prunePlan_def)

section \<open>Parameters\<close>

text \<open>C11: the update that \<open>ParameterUpdateForBroker\<close> computes turns the observed parameters
  into the expected ones: once the broker has applied it, where null removes a parameter, a
  parameter that is not expected is unset and every expected one has the expected value, or one that the comparison
  counts as equal to it. No update is sent exactly when there is nothing to change. The
  comparison of go-cmp does not equate null with another value.\<close>

theorem update_turns_observed_into_expected:
  assumes "\<And>v. ex_cmpEqualValue E JNull v \<Longrightarrow> v = JNull"
  shows "(case fmlookup (mapOf expected) k of
           None \<Rightarrow> fmlookup (brokerApply (ParameterUpdateForBroker E observed expected) (mapOf observed)) k = None
         | Some want \<Rightarrow> want \<noteq> JNull \<longrightarrow>
             (\<exists>v. fmlookup (brokerApply (ParameterUpdateForBroker E observed expected) (mapOf observed)) k = Some v
                \<and> (v = want \<or> ex_cmpEqualValue E v want)))
     \<and> (ParameterUpdateForBroker E observed expected = None \<longleftrightarrow>
          (\<forall>k. case fmlookup (mapOf expected) k of
                 None \<Rightarrow> fmlookup (mapOf observed) k = None
               | Some want \<Rightarrow> (\<exists>got. fmlookup (mapOf observed) k = Some got \<and> ex_cmpEqualValue E got want)))"
proof
  have "ParameterUpdateForBroker E observed expected = None \<longleftrightarrow>
      (\<forall>k. fmlookup (mapOf (ParameterUpdateForBroker E observed expected)) k = None)"
    unfolding update_None by (metis fmap_ext fmempty_lookup)
  moreover have "fmlookup (mapOf (ParameterUpdateForBroker E observed expected)) k = None \<longleftrightarrow>
      (case fmlookup (mapOf expected) k of
         None \<Rightarrow> fmlookup (mapOf observed) k = None
       | Some want \<Rightarrow> (\<exists>got. fmlookup (mapOf observed) k = Some got \<and> ex_cmpEqualValue E got want))" for k
    by (simp add: lookup_update split: option.split)
  ultimately show "ParameterUpdateForBroker E observed expected = None \<longleftrightarrow>
      (\<forall>k. case fmlookup (mapOf expected) k of
             None \<Rightarrow> fmlookup (mapOf observed) k = None
           | Some want \<Rightarrow> (\<exists>got. fmlookup (mapOf observed) k = Some got \<and> ex_cmpEqualValue E got want))"
    by simp
qed (rule update_applied [OF assms])

theorem update_turns_observed_into_expected_witness:
  "fmlookup (brokerApply (ParameterUpdateForBroker (sampleExternal emptyBroker)
       (Some (fmupd ''a'' (JNum 1) (fmupd ''b'' (JNum 2) fmempty))) (Some (fmupd ''a'' (JNum 3) fmempty)))
     (fmupd ''a'' (JNum 1) (fmupd ''b'' (JNum 2) fmempty))) ''a'' = Some (JNum 3)"
  using update_turns_observed_into_expected [where E = "sampleExternal emptyBroker"
      and expected = "Some (fmupd ''a'' (JNum 3) fmempty)" and k = "''a''"
      and observed = "Some (fmupd ''a'' (JNum 1) (fmupd ''b'' (JNum 2) fmempty))"]
  by (simp add: sampleExternal_def mapOf_def)

text \<open>\<open>KubernetesParamsToServiceBroker\<close> is the inverse of
  \<open>ServiceBrokerParamsToKubernetes\<close>: parameters of the broker whose values \<open>encoding/json\<close> can write
  and read back are converted without error, and converting the result back gives the same parameters,
  a nil map included.\<close>

lemma broker_params_roundtrip:
  assumes "\<And>v. v \<in> fmran' (mapOf params) \<Longrightarrow> \<exists>s. ex_marshal E v = Inr s \<and> ex_decode E s = Inr v"
  shows "\<exists>r. ServiceBrokerParamsToKubernetes E params = Inr r \<and> KubernetesParamsToServiceBroker E r = Inr params"
proof (cases params)
  case None
  then show ?thesis
    by (simp add: ServiceBrokerParamsToKubernetes_def KubernetesParamsToServiceBroker_def convertParams_def)
next
  case (Some m)
  then show ?thesis
    using params_inverse [of m E] assms by (auto simp: mapOf_def)
qed

lemma broker_params_roundtrip_example:
  "\<exists>r. ServiceBrokerParamsToKubernetes (sampleExternal emptyBroker) (Some (fmupd ''a'' (JStr ''x'') fmempty)) = Inr r \<and>
     KubernetesParamsToServiceBroker (sampleExternal emptyBroker) r = Inr (Some (fmupd ''a'' (JStr ''x'') fmempty))"
  by (rule broker_params_roundtrip)
    (auto simp: sampleExternal_def mapOf_def fmlookup_ran'_iff split: if_splits)

section \<open>Observe\<close>

text \<open>Observing a service instance changes nothing at the broker: whatever the resource and
  the answers, \<open>Observe\<close> sends GET requests only, in the search for a new instance ID too.\<close>

lemma observe_only_reads: "onlyGets w (snd (snd (SI_Observe E w mg)))"
  using SI_Observe_reads [of E w mg "fst (SI_Observe E w mg)" "fst (snd (SI_Observe E w mg))"] by simp

text \<open>An ID given to a new instance is one that the broker does not know: the ID that
  \<open>genAndCheckUID\<close> returns was looked up last, and the broker answered that there is no such
  instance. Until then it sent GET requests only, at most one per attempt.\<close>

lemma new_instance_id_unknown_to_broker:
  assumes "genAndCheckUID E w maxAttempts = (Inr uid, w')"
  shows "(\<exists>w1 e. GetInstance (ex_osb E) w1 uid = ((None, Some e), w') \<and> osb_IsNotFound e \<and> onlyGets w w1)
     \<and> length (hw_requests w') \<le> length (hw_requests w) + maxAttempts"
  using uidLoop_ok [of E w None maxAttempts uid w'] assms by (auto simp: genAndCheckUID_def)

lemma new_instance_id_unknown_to_broker_example:
  "fst (genAndCheckUID (sampleExternal emptyBroker) freshWorld maxRetryAttempts) = Inr ''u1'' \<and>
   length (hw_requests (snd (genAndCheckUID (sampleExternal emptyBroker) freshWorld maxRetryAttempts))) \<le> 10"
proof -
  have "fst (genAndCheckUID (sampleExternal emptyBroker) freshWorld maxRetryAttempts) = Inr ''u1''"
    by (simp add: genAndCheckUID_def maxRetryAttempts_def eval_nat_numeral provider_samples client_ops Let_def)
  then show ?thesis
    using new_instance_id_unknown_to_broker [of "sampleExternal emptyBroker" freshWorld maxRetryAttempts "''u1''"
        "snd (genAndCheckUID (sampleExternal emptyBroker) freshWorld maxRetryAttempts)"]
    by (simp add: prod_eq_iff maxRetryAttempts_def freshWorld_def)
qed

text \<open>C10: \<open>Observe\<close> reports that an instance does not exist, which makes the managed reconciler create
  it or forget it, only when it is gone: the resource has an instance ID, and the last request was a
  lookup of that ID which the broker answered with not found, or the broker reports the instance as deleted.\<close>

theorem observe_gone_means_gone:
  assumes "SI_Observe E w (ManagedServiceInstance dsi) = (Return r None, ManagedServiceInstance dsi', w')"
    and "\<not> eo_ResourceExists r"
  shows "ob_InstanceID (si_AtProvider dsi) \<noteq> [] \<and>
    (lookupNotFound E (ob_InstanceID (si_AtProvider dsi)) w' \<or> ob_State (si_AtProvider dsi') = StateDeleted)"
  using SI_Observe_gone assms by blast

theorem observe_gone_means_gone_witness:
  "lookupNotFound (sampleExternal emptyBroker) ''i1''
     (snd (snd (SI_Observe (sampleExternal emptyBroker) freshWorld (ManagedServiceInstance sampleInstance))))"
proof -
  have "SI_Observe (sampleExternal emptyBroker) freshWorld (ManagedServiceInstance sampleInstance)
    = (Return noObservation None, ManagedServiceInstance sampleInstance,
       snd (snd (SI_Observe (sampleExternal emptyBroker) freshWorld (ManagedServiceInstance sampleInstance))))"
    by (simp add: SI_Observe_def getAndVerifyServiceInstance_def assertServiceAndPlanNamesAreSet_def
        observeInstance_def getServiceAndPlanIDs_def getServiceFromCatalog_def getPlanFromService_def
        getInstanceAndUpdateObservation_def GenerateObservation_def provider_samples client_ops Let_def
        pruneCatalogResponse_def prunePlan_def)
  from observe_gone_means_gone [OF this] show ?thesis
    by (simp add: noObservation_def sampleInstance_def GenerateObservation_def sampleResponse_def StateDeleted_def)
qed

text \<open>A service instance whose spec sets \<open>context\<close> or \<open>originatingIdentity\<close>, or does not set
  \<open>acceptsIncomplete\<close> to true, never matches what is observed, whatever the broker answers: these
  fields are no part of the observation that it is compared with. While no operation is pending, such a
  resource is never up to date, and every reconciliation sends the broker another update.\<close>

lemma unobserved_fields_never_up_to_date:
  assumes "ex_cmpEqual E = (=)" and "si_PendingOperation dsi = None"
    and "fp_Context (si_ForProvider dsi) \<noteq> None \<or> fp_OriginatingIdentity (si_ForProvider dsi) \<noteq> None
         \<or> fp_AcceptsIncomplete (si_ForProvider dsi) \<noteq> Some True"
  shows "\<not> isResourceUpToDate E dsi i planID params"
proof -
  have "fp_Context (observedParameters spec i params) = None"
    "fp_OriginatingIdentity (observedParameters spec i params) = None"
    "fp_AcceptsIncomplete (observedParameters spec i params) = Some True" for spec
    by (simp_all add: observedParameters_def LateInitialize_def Let_def)
  then have "observedParameters (si_ForProvider dsi) i params \<noteq> si_ForProvider dsi"
    using assms(3) by metis
  then show ?thesis
    using assms(1,2) by (simp add: isResourceUpToDate_def SpecMatchesObservedState_def)
qed

lemma unobserved_fields_never_up_to_date_example:
  "\<not> isResourceUpToDate (sampleExternal emptyBroker)
     (sampleInstance\<lparr>si_ForProvider := sampleSpec\<lparr>fp_Context := Some fmempty\<rparr>\<rparr>) sampleResponse ''p1'' None"
  by (rule unobserved_fields_never_up_to_date) (simp_all add: sampleExternal_def sampleInstance_def)

section \<open>Create, Update and Delete\<close>

text \<open>C12: of an error in \<open>Create\<close>, \<open>Update\<close> or \<open>Delete\<close> the decorator shows the user nothing; that the resource is
  of another kind; the service or plan name of the user's own spec that the catalog does not have; or the description which
  the broker put in its answer with a status 4xx to the last request of this very run: no internal error text gets out. The
  hypothesis \<open>plainTransport\<close> is that the errors of the HTTP transport offer nothing for display and are not HTTP errors of the
  broker or the Backup Manager.\<close>

theorem errors_shown_to_user:
  assumes "plainTransport (ex_osb E)"
    and "op' = SI_Create E \<or> op' = SI_Update E \<or> op' = SI_Delete E"
    and "decorated (op' w mg) = (Return x (Some e), mg', w')"
  shows "e = ErrInternal \<or> (mg = OtherManaged \<and> e = errNotServiceInstance) \<or> namedInSpec mg e \<or>
    (\<exists>d. e = PlainUserErr d \<and>
       (\<exists>pre rq resp m. hw_requests w' = hw_requests w @ pre @ [rq] \<and>
          cl_do (ex_osb E) (hw_requests w @ pre) rq = Inr resp \<and>
          400 \<le> rs_StatusCode resp \<and> rs_StatusCode resp < 500 \<and>
          unmarshalResponse (cl_decodeMap (ex_osb E)) resp = Inr m \<and> fmlookup m ''description'' = Some (JStr d)))"
proof -
  obtain e0 where "op' w mg = (Return x (Some e0), mg', w')" and e: "convertAndLog (Some e0) = Some e"
    using assms(3) by (cases "op' w mg"; cases "fst (op' w mg)")
      (auto simp: decorated_def, metis convertAndLog_None not_None_eq option.distinct(1))
  then have "\<exists>e'. convertAndLog (Some e0) = Some e' \<and> shown E w mg w' e'"
    using assms(1,2) SI_Create_shown SI_Update_shown SI_Delete_shown by metis
  then show ?thesis using e unfolding shown_def refused_def by simp
qed

theorem errors_shown_to_user_witness:
  "fst (decorated (SI_Delete strictExternal freshWorld (ManagedServiceInstance sampleInstance)))
     = Return () (Some (PlainUserErr ''locked'')) \<and>
   (\<exists>pre rq resp. hw_requests (snd (snd (decorated (SI_Delete strictExternal freshWorld (ManagedServiceInstance sampleInstance))))) =
      pre @ [rq] \<and> cl_do (ex_osb strictExternal) pre rq = Inr resp \<and>
      400 \<le> rs_StatusCode resp \<and> rs_StatusCode resp < 500)"
proof -
  let ?r = "decorated (SI_Delete strictExternal freshWorld (ManagedServiceInstance sampleInstance))"
  have f: "fst ?r = Return () (Some (PlainUserErr ''locked''))"
    by (simp add: strictExternal_def decorated_def SI_Delete_def failWith_def deprovisionRequest_def DeprovisionInstance_def
        validateDeprovisionRequest_def deprovisionAnswer_def client_ops provider_samples GenerateObservation_def
        HandleHttpError_def convertAndLog_def Let_def)
  then have r: "?r = (Return () (Some (PlainUserErr ''locked'')), fst (snd ?r), snd (snd ?r))"
    by (metis prod.collapse)
  have "plainTransport (ex_osb strictExternal)"
    by (simp add: plainTransport_def strictExternal_def sampleClient_def)
  from errors_shown_to_user [OF this disjI2 [OF disjI2 [OF refl]] r] f show ?thesis
    by (auto simp: ErrInternal_def freshWorld_def)
qed

text \<open>Deleting a service instance that the broker no longer knows panics: the answer 404 with
  \<open>InstanceNotFound\<close> is let through as if it were a success, but the client returned no response with it, and
  \<open>Delete\<close> reads that response.\<close>

lemma delete_panics_on_unknown_instance:
  assumes "fp_AcceptsIncomplete (si_ForProvider dsi) = Some acc"
    and "ob_InstanceID (si_AtProvider dsi) \<noteq> []" "ob_ServiceID (si_AtProvider dsi) \<noteq> []"
      "ob_PlanID (si_AtProvider dsi) \<noteq> []"
    and "\<And>url. cl_newRequest (ex_osb E) url = None"
    and "\<And>rq. rq_Method rq = DELETE \<Longrightarrow> cl_do (ex_osb E) (hw_requests w) rq = Inr resp"
    and "rs_StatusCode resp = 404" "unmarshalResponse (cl_decodeMap (ex_osb E)) resp = Inr m"
      "fmlookup m ''error'' = Some (JStr InstanceNotFound)"
  shows "fst (SI_Delete E w (ManagedServiceInstance dsi)) = Panic"
  using assms
  by (simp add: SI_Delete_def deprovisionRequest_def DeprovisionInstance_def validateDeprovisionRequest_def
      prepareAndDo_def identityHeader_def deprovisionAnswer_def handleFailureResponse_def stringEntry_def
      osb_IsNotFound_def errorsAs_def finish_def Let_def)

lemma delete_panics_on_unknown_instance_example:
  "fst (SI_Delete (sampleExternal emptyBroker) freshWorld (ManagedServiceInstance sampleInstance)) = Panic"
  by (rule delete_panics_on_unknown_instance
        [where resp = "\<lparr>rs_StatusCode = 404, rs_Body = Inr InstanceNotFound\<rparr>" and acc = True
          and m = "fmupd ''error'' (JStr InstanceNotFound) fmempty"])
    (simp_all add: provider_samples GenerateObservation_def unmarshalResponse_def)

text \<open>Creating a service instance panics when the broker accepts the request as an
  asynchronous operation and names no operation, which the Open Service Broker API leaves to the
  broker: the nil operation key of the response is dereferenced.\<close>

lemma create_panics_without_operation_key:
  assumes "getServiceAndPlanIDs E w sname pname = (Inr (sid, pid), w1)"
    and "fp_ServiceName (si_ForProvider dsi) = Some sname" "fp_PlanName (si_ForProvider dsi) = Some pname"
    and "KubernetesParamsToServiceBroker E (fp_Parameters (si_ForProvider dsi)) = Inr params"
    and "provisionRequest dsi sid pid params = Some rq" "validateProvisionRequest rq = None"
      "pr_AcceptsIncomplete rq"
    and "\<And>url. cl_newRequest (ex_osb E) url = None"
    and "\<And>q. rq_Method q = PUT \<Longrightarrow> cl_do (ex_osb E) (hw_requests w1) q = Inr resp"
    and "rs_StatusCode resp = 202" "unmarshalResponse (cl_decodeOperation (ex_osb E)) resp = Inr (url, None)"
  shows "fst (SI_Create E w (ManagedServiceInstance dsi)) = Panic"
proof -
  have "pr_OriginatingIdentity rq = None"
    using assms(5) by (auto simp: provisionRequest_def Let_def split: option.splits)
  then have "fst (ProvisionInstance (ex_osb E) w1 rq)
      = (Some \<lparr>ps_Async = True, ps_DashboardURL = url, ps_OperationKey = None\<rparr>, None)"
    using assms by (simp add: ProvisionInstance_def prepareAndDo_def identityHeader_def provisionAnswer_def Let_def)
  then have "fst (createInstance E w1 dsi sid pid) = Panic"
    using assms(4,5) by (cases "ProvisionInstance (ex_osb E) w1 rq") (simp add: createInstance_def finish_def)
  then show ?thesis
    using assms(1,2,3) by (simp add: SI_Create_def)
qed

lemma create_panics_without_operation_key_example:
  "fst (SI_Create (sampleExternal asyncBroker) freshWorld (ManagedServiceInstance sampleInstance)) = Panic"
  by (rule create_panics_without_operation_key [OF sample_plan_ids, where rq = sampleProvision
        and resp = "\<lparr>rs_StatusCode = 202, rs_Body = Inr ''''\<rparr>" and params = None and url = None])
    (simp_all add: sampleExternal_def sampleClient_def sampleInstance_def sampleSpec_def sampleProvision_def
      sampleResponse_def asyncBroker_def GenerateObservation_def unmarshalResponse_def provisionRequest_def
      KubernetesParamsToServiceBroker_def convertParams_def validateProvisionRequest_def contextSet_def
      platformContext_def)

section \<open>Service bindings\<close>

definition sampleBindingExternal :: "(http_request \<Rightarrow> http_response) \<Rightarrow> sb_external" where
  "sampleBindingExternal answer = \<lparr>se_service = sampleClient answer, se_selectorError = (\<lambda>n ns. None),
     se_listInstances = (\<lambda>w n ns. Inr [sampleInstance\<lparr>si_AtProvider :=
        (GenerateObservation sampleResponse None)\<lparr>ob_PlanID := []\<rparr>\<rparr>]),
     se_getSecret = (\<lambda>w ns n. Inr (fmupd ''host'' ''h'' (fmupd ''port'' ''5432'' fmempty))),
     se_parseURL = (\<lambda>s. Inl (ErrorString s)), se_SetConditions = (\<lambda>cs c. c # cs), se_order = sortedOrder\<rparr>"

definition sampleServiceBinding :: ServiceBinding where
  "sampleServiceBinding = \<lparr>vb_Name = ''b'', vb_UID = ''uid'',
     vb_Labels = fmupd ''klutch.io/instance-type'' ''a9s-postgresql'' fmempty,
     vb_Annotations = Some (fmupd AnnotationKeyServiceBindingCreated ''true'' fmempty),
     vb_DeletionTimestamp = Some 1, vb_InstanceName = ''db'', vb_AcceptsIncomplete = False, vb_Conditions = [],
     vb_AtProvider = \<lparr>vo_State = ''Created'', vo_ServiceBindingID = 0, vo_InstanceID = ''i1'', vo_PlanID = ''p1'',
       vo_ServiceID = ''s1'',
       vo_ConnectionDetails = [\<lparr>cd_HostURL = ''h'', cd_Port = ''5432'', cd_Label = ''SQL''\<rparr>]\<rparr>\<rparr>"

text \<open>A broker that answers every request with 200, and one that fails with 500.\<close>

definition servingBroker :: "http_request \<Rightarrow> http_response" where
  "servingBroker rq = \<lparr>rs_StatusCode = 200, rs_Body = Inr ''''\<rparr>"

definition failingBroker :: "http_request \<Rightarrow> http_response" where
  "failingBroker rq = \<lparr>rs_StatusCode = 500, rs_Body = Inr ''internal''\<rparr>"

lemmas binding_samples = sampleBindingExternal_def sampleServiceBinding_def servingBroker_def failingBroker_def
  sampleCredentials_def sampleBindResponse_def sampleOsbBinding_def

text \<open>The connection secret of a new service binding holds the credentials of the broker, whatever
  the order of iteration: every entry is a leaf of the credentials, printed, at the key made of its
  path; and every leaf whose key no other leaf with a different value has is found in the secret, under a key
  with the same last part. Only a key at the root that repeats a nested one is left out.\<close>

lemma connection_secret_holds_credentials:
  assumes "SB_Create E w (ManagedServiceBinding sb) = ((Some cd, None), mg, w')" and "covers (se_order E)"
  shows "\<exists>resp. Bind (se_service E) w (bindRequest sb) = ((Some resp, None), w') \<and>
     (\<forall>k t. fmlookup cd k = Some t \<longrightarrow>
        (\<exists>p. leaf (JObj (mapOf (bs_Credentials resp))) p t \<and> pathKey [] p = k)) \<and>
     (\<forall>p t. leaf (JObj (mapOf (bs_Credentials resp))) p t \<longrightarrow>
        (\<forall>p' t'. leaf (JObj (mapOf (bs_Credentials resp))) p' t' \<and> pathKey [] p' = pathKey [] p \<longrightarrow> t' = t) \<longrightarrow>
        (\<exists>k. fmlookup cd k = Some t \<and> lastPart k = lastPart (pathKey [] p)))"
proof -
  from assms(1) obtain resp where "Bind (se_service E) w (bindRequest sb) = ((Some resp, None), w')"
    and cd: "cd = ReplaceRootKeyWithNestedKey (se_order E)
      (FlattenMap (se_order E) (mapOf (bs_Credentials resp)) [])"
    by (rule secret_of_create)
  then show ?thesis
    unfolding cd using secret_sound [OF assms(2)] secret_complete [OF assms(2)] by blast
qed


lemma sample_create:
  "\<exists>cd mg w'. SB_Create (sampleBindingExternal servingBroker) freshWorld (ManagedServiceBinding sampleServiceBinding)
     = ((Some cd, None), mg, w')
   \<and> Bind (sampleClient servingBroker) freshWorld (bindRequest sampleServiceBinding) = ((Some sampleBindResponse, None), w')"
  by (simp add: SB_Create_def Bind_def bindRequest_def asyncAllowed_def validateBindRequest_def requiredIDs_def
      binding_samples provider_samples client_ops Let_def bindAnswer_def generateConnectionDetails_def emptyMap_def)

lemma connection_secret_holds_credentials_example:
  "\<exists>cd mg w' k. SB_Create (sampleBindingExternal servingBroker) freshWorld (ManagedServiceBinding sampleServiceBinding)
     = ((Some cd, None), mg, w') \<and> fmlookup cd k = Some ''h'' \<and> lastPart k = ''host''"
proof -
  obtain cd mg w' where c: "SB_Create (sampleBindingExternal servingBroker) freshWorld
      (ManagedServiceBinding sampleServiceBinding) = ((Some cd, None), mg, w')"
    and b: "Bind (sampleClient servingBroker) freshWorld (bindRequest sampleServiceBinding)
      = ((Some sampleBindResponse, None), w')"
    using sample_create by blast
  have "covers (se_order (sampleBindingExternal servingBroker))"
    by (simp add: sampleBindingExternal_def)
  from connection_secret_holds_credentials [OF c this]
  obtain resp where r: "Bind (se_service (sampleBindingExternal servingBroker)) freshWorld
        (bindRequest sampleServiceBinding) = ((Some resp, None), w')"
    and all': "\<forall>p t. leaf (JObj (mapOf (bs_Credentials resp))) p t \<longrightarrow>
        (\<forall>p' t'. leaf (JObj (mapOf (bs_Credentials resp))) p' t' \<and> pathKey [] p' = pathKey [] p \<longrightarrow> t' = t) \<longrightarrow>
        (\<exists>k. fmlookup cd k = Some t \<and> lastPart k = lastPart (pathKey [] p))"
    by (elim exE conjE)
  have "se_service (sampleBindingExternal servingBroker) = sampleClient servingBroker"
    by (simp add: sampleBindingExternal_def)
  with r b have resp: "resp = sampleBindResponse"
    by simp
  note all = all' [unfolded resp, rule_format]
  have creds: "mapOf (bs_Credentials sampleBindResponse) = fmupd ''host'' (JStr ''h'') (fmupd ''port'' (JNum 5432) fmempty)"
    by (simp add: sampleBindResponse_def sampleCredentials_def mapOf_def)
  have keys: "pathKey [] [''host''] = ''host''" "pathKey [] [''port''] = ''port''" "lastPart ''host'' = ''host''"
    by (simp_all add: newKey_def generateValidKey_def validChar_def validKeyChar_def lastPart_def)
  have leaves: "leaf (JObj (mapOf (bs_Credentials sampleBindResponse))) p t \<longleftrightarrow>
      (p = [''host''] \<and> t = ''h'') \<or> (p = [''port''] \<and> t = Sprint (JNum 5432))" for p t
    by (auto simp: creds leaf_simps split: if_splits)
  have "\<exists>k. fmlookup cd k = Some ''h'' \<and> lastPart k = lastPart (pathKey [] [''host''])"
  proof (rule all)
    show "leaf (JObj (mapOf (bs_Credentials sampleBindResponse))) [''host''] ''h''"
      by (simp add: leaves)
  next
    fix p' t'
    assume "leaf (JObj (mapOf (bs_Credentials sampleBindResponse))) p' t' \<and> pathKey [] p' = pathKey [] [''host'']"
    then show "t' = ''h''"
      unfolding leaves by (elim disjE conjE) (simp_all add: keys del: pathKey_simps)
  qed
  then show ?thesis
    using c by (auto simp: keys simp del: pathKey_simps)
qed

text \<open>Deleting the root keys that repeat a nested key with the same value, in place while
  iterating, has the same result for every order of iteration as filtering them out at once; and every value stays
  in the map, under a key with the same last part.\<close>

lemma root_keys_replaced_in_any_order:
  assumes "covers ord"
  shows "ReplaceRootKeyWithNestedKey ord m = fmfilter (\<lambda>k. \<not> redundantRoot m k) m
     \<and> (\<forall>k t. fmlookup m k = Some t \<longrightarrow>
          (\<exists>k'. fmlookup (ReplaceRootKeyWithNestedKey ord m) k' = Some t \<and> lastPart k' = lastPart k))"
  using replace_is_filter [OF assms] replace_keeps_values [OF assms] by blast

lemma root_keys_replaced_in_any_order_example:
  "fmlookup (ReplaceRootKeyWithNestedKey sortedOrder
     (fmupd ''uri'' ''u'' (fmupd ''amqp.uri'' ''u'' fmempty))) ''uri'' = None"
proof -
  have "redundantRoot (fmupd ''uri'' ''u'' (fmupd ''amqp.uri'' ''u'' fmempty)) ''uri''"
    by (simp add: redundantRoot_def nested_def lastPart_def)
  then show ?thesis
    using root_keys_replaced_in_any_order [OF covers_sortedOrder, of "fmupd ''uri'' ''u'' (fmupd ''amqp.uri'' ''u'' fmempty)"]
    by simp
qed

text \<open>A service binding under deletion is reported as gone when its lookup fails, whatever the
  error: an answer 500 or a broken connection is taken for not found, and the managed reconciler
  forgets the binding although it may still exist at the broker.\<close>

lemma deleted_binding_forgotten_on_any_error:
  assumes "\<not> HasMissingFields (vb_AtProvider sb)" "ConnectionDetailsIsNotEmpty sb"
    and "annotation sb AnnotationKeyServiceBindingCreated \<noteq> ''''" "vb_DeletionTimestamp sb = Some d"
    and "GetBinding (se_service E) w (vo_InstanceID (vb_AtProvider sb), vb_UID sb) = ((x, Some e), w')"
  shows "fst (SB_Observe E w (ManagedServiceBinding sb)) = (noObservation, None)"
  using assms
  by (simp add: SB_Observe_def initializeServiceBindingStatus_def observeBinding_def
      SetDeletionStatusIfNotDeleted_def Let_def)

lemma deleted_binding_forgotten_on_any_error_example:
  "fst (SB_Observe (sampleBindingExternal failingBroker) freshWorld (ManagedServiceBinding sampleServiceBinding))
     = (noObservation, None)"
proof -
  have "\<exists>x e w'. GetBinding (se_service (sampleBindingExternal failingBroker)) freshWorld
      (vo_InstanceID (vb_AtProvider sampleServiceBinding), vb_UID sampleServiceBinding) = ((x, Some e), w')"
    by (simp add: GetBinding_def binding_samples provider_samples client_ops)
  then show ?thesis
    by (elim exE) (rule deleted_binding_forgotten_on_any_error [where d = 1]; assumption?;
      simp add: sampleServiceBinding_def HasMissingFields_def ConnectionDetailsIsNotEmpty_def annotation_def)
qed

text \<open>A binding that is marked as created and whose instance has lost its plan ID gets the same
  connection details again at every observation: after \<open>n\<close> of them its status has \<open>n\<close> more entries.\<close>

lemma connection_details_pile_up:
  assumes "unready E w sb"
  shows "fst (initializeServiceBindingStatus E w sb) = Some errInstanceNotReady
     \<and> length (addedDetails ((afterObserve E w ^^ n) sb)) = n + length (addedDetails sb)"
  using details_grow_once(3) [OF assms] details_grow [OF assms] by blast

lemma connection_details_pile_up_example:
  "length (addedDetails ((afterObserve (sampleBindingExternal servingBroker) freshWorld ^^ 3)
     (sampleServiceBinding\<lparr>vb_AtProvider := (vb_AtProvider sampleServiceBinding)\<lparr>vo_PlanID := []\<rparr>\<rparr>))) = 4"
proof -
  have "unready (sampleBindingExternal servingBroker) freshWorld
      (sampleServiceBinding\<lparr>vb_AtProvider := (vb_AtProvider sampleServiceBinding)\<lparr>vo_PlanID := []\<rparr>\<rparr>)"
    by (simp add: unready_def binding_samples HasMissingFields_def annotation_def label_def
        GetServiceBindingSecret_def GetServiceInstanceManagedResource_def klutch_defs)
  from connection_details_pile_up [OF this, of 3] show ?thesis
    by (simp add: addedDetails_def sampleServiceBinding_def)
qed

end
