(* ===== verification/Backup_Manager.thy ===== *)
theory Backup_Manager
  imports Broker_Client
begin

text \<open>
  The client of the a9s Backup Manager, \<open>clients/a9s-backup-manager\<close>: the requests and responses of
  \<open>types.go\<close>, \<open>NewClient\<close>, the shared functions of \<open>client.go\<close> and the nine operations of the interface,
  each down to the HTTP request, with its check of the arguments and its switch over the status code.

  \<^item> \<open>bm_client\<close> has the fields of the struct that an operation reads. The HTTP transport, the check of
    \<open>http.NewRequest\<close> and the decoders of \<open>encoding/json\<close>, one per type that the client decodes into,
    are parameters, fields of the record; \<open>doRequestFunc\<close> is the transport, as \<open>NewClient\<close> sets it.
  \<^item> The state is the list of the requests sent so far, which the transport's answer may depend on.
  \<^item> The error types of \<open>errors.go\<close> are constructors of \<open>go_err\<close> in \<open>Provider_Error\<close>. Those that wrap their
    reason have an \<open>Unwrap\<close> method and are links of \<open>chain\<close>; \<open>BackupLockedError\<close> and
    \<open>BackupFileDeletionFailed\<close> keep only the text of it.
  \<^item> Every operation meets the contract \<open>pointer_call\<close> of \<open>Broker_Client\<close>, exactly one of response and error is
    nil. The locale \<open>one_request_call\<close> adds what the controllers rely on: an operation sends at
    most one request, with its method, and an operation that succeeds has sent it.
\<close>

section \<open>Requests and responses\<close>

record CreateBackupRequest =
  cbq_InstanceID :: string

record CreateBackupResponse =
  cbs_BackupID :: "int option"
  cbs_Message :: "string option"

record GetBackupsRequest =
  gbsq_InstanceID :: string

record GetBackupRequest =
  gbq_InstanceID :: string
  gbq_BackupID :: string

record GetBackupResponse =
  gbs_BackupID :: "int option"
  gbs_Size :: int
  gbs_Status :: string
  gbs_TriggeredAt :: string
  gbs_FinishedAt :: string
  gbs_Downloadable :: bool

record GetBackupsResponse =
  gbss_Backups :: "GetBackupResponse list"

record GetInstanceConfigRequest =
  gcq_InstanceID :: string

record GetInstanceConfigResponse =
  gcs_MinBackupCount :: "int option"
  gcs_RetentionTime :: "int option"
  gcs_MinEncryptionKeyLength :: "int option"
  gcs_ExcludeFromAutoBackup :: "bool option"
  gcs_BackupType :: "string option"

record UpdateBackupConfigRequest =
  ucq_InstanceID :: string
  ucq_EncryptionKey :: "string option"
  ucq_ExcludeFromAutoBackup :: "bool option"
  ucq_CredentialsUpdatedByUser :: "bool option"

record UpdateBackupConfigResponse =
  ucs_Message :: "string option"

record updateBackupConfigRequestBody =
  ucb_EncryptionKey :: "string option"
  ucb_ExcludeFromAutoBackup :: "bool option"
  ucb_CredentialsUpdatedByUser :: "bool option"

record CreateRestoreRequest =
  crq_InstanceID :: string
  crq_BackupID :: string

record CreateRestoreResponse =
  crs_RestoreID :: "int option"

record GetRestoreRequest =
  grq_InstanceID :: string
  grq_RestoreID :: string

record GetRestoreResponse =
  grs_RestoreID :: "int option"
  grs_BackupID :: "int option"
  grs_Status :: string
  grs_TriggeredAt :: string
  grs_FinishedAt :: string

record GetRestoresRequest =
  grsq_InstanceID :: string

record GetRestoresResponse =
  grss_Restores :: "GetRestoreResponse list"

record DeleteBackupRequest =
  dbq_InstanceID :: string
  dbq_BackupID :: "int option"

record DeleteBackupResponse =
  dbs_Message :: "string option"

section \<open>The client\<close>

record bm_AuthConfig =
  ba_BasicAuthConfig :: "(string \<times> string) option"

record bm_configuration =
  bc_Name :: string
  bc_URL :: string
  bc_AuthConfig :: "bm_AuthConfig option"
  bc_TimeoutSeconds :: int
  bc_Verbose :: bool
  bc_InsecureSkipVerify :: bool
  bc_CABundle :: string
  bc_OverrideServerName :: string

definition DefaultClientConfiguration :: bm_configuration where
  "DefaultClientConfiguration =
     \<lparr>bc_Name = '''', bc_URL = '''', bc_AuthConfig = None, bc_TimeoutSeconds = 60, bc_Verbose = False,
      bc_InsecureSkipVerify = False, bc_CABundle = '''', bc_OverrideServerName = ''''\<rparr>"

record bm_request =
  mq_Method :: http_method
  mq_URL :: string
  mq_Params :: "(string, string) fmap option"
  mq_Body :: "updateBackupConfigRequestBody option"
  mq_ContentType :: "string option"
  mq_BasicAuth :: "(string \<times> string) option"

type_synonym bm_world = "bm_request list"

text \<open>What \<open>NewClient\<close> puts into the TLS configuration of the transport.\<close>

record bm_tls =
  tl_InsecureSkipVerify :: bool
  tl_ServerName :: string
  tl_RootCAs :: "string option"

text \<open>What the client takes from elsewhere: the transport that a timeout and a TLS configuration give, the
  parser of \<open>x509\<close>, the check of a URL, and the decoders.\<close>

record bm_library =
  bl_transport :: "int \<Rightarrow> bm_tls \<Rightarrow> bm_world \<Rightarrow> bm_request \<Rightarrow> go_err + http_response"
  bl_parsesPEM :: "string \<Rightarrow> bool"
  bl_newRequest :: "string \<Rightarrow> go_err option"
  bl_decodeMap :: "string \<Rightarrow> string + (string, json) fmap"
  bl_decodeCreateBackup :: "string \<Rightarrow> string + CreateBackupResponse"
  bl_decodeGetBackup :: "string \<Rightarrow> string + GetBackupResponse"
  bl_decodeGetBackups :: "string \<Rightarrow> string + GetBackupResponse list"
  bl_decodeInstanceConfig :: "string \<Rightarrow> string + GetInstanceConfigResponse"
  bl_decodeUpdateConfig :: "string \<Rightarrow> string + UpdateBackupConfigResponse"
  bl_decodeCreateRestore :: "string \<Rightarrow> string + CreateRestoreResponse"
  bl_decodeGetRestore :: "string \<Rightarrow> string + GetRestoreResponse"
  bl_decodeGetRestores :: "string \<Rightarrow> string + GetRestoreResponse list"
  bl_decodeDeleteBackup :: "string \<Rightarrow> string + DeleteBackupResponse"

record bm_client =
  bm_Name :: string
  bm_URL :: string
  bm_AuthConfig :: "bm_AuthConfig option"
  bm_Verbose :: bool
  bm_do :: "bm_world \<Rightarrow> bm_request \<Rightarrow> go_err + http_response"
  bm_library :: bm_library

definition TrimRight :: "string \<Rightarrow> char \<Rightarrow> string" where
  "TrimRight s c = rev (dropWhile (\<lambda>x. x = c) (rev s))"

definition bm_NewClient :: "bm_library \<Rightarrow> bm_configuration \<Rightarrow> go_err + bm_client" where
  "bm_NewClient L config =
     (if bc_CABundle config \<noteq> '''' \<and> \<not> bl_parsesPEM L (bc_CABundle config)
      then Inl (ErrorString ''failed to parse CA certificate'')
      else
        (let tls = \<lparr>tl_InsecureSkipVerify = bc_InsecureSkipVerify config,
                    tl_ServerName = bc_OverrideServerName config,
                    tl_RootCAs = (if bc_CABundle config \<noteq> '''' then Some (bc_CABundle config) else None)\<rparr>;
             c = \<lparr>bm_Name = bc_Name config, bm_URL = TrimRight (bc_URL config) (CHR ''/''),
                  bm_AuthConfig = None, bm_Verbose = bc_Verbose config,
                  bm_do = bl_transport L (bc_TimeoutSeconds config) tls, bm_library = L\<rparr>
         in case bc_AuthConfig config of
              None \<Rightarrow> Inr c
            | Some a \<Rightarrow>
                (if ba_BasicAuthConfig a = None
                 then Inl (ErrorString ''non-nil AuthConfig cannot be empty'')
                 else Inr (c\<lparr>bm_AuthConfig := Some a\<rparr>))))"

definition basicAuth :: "bm_client \<Rightarrow> (string \<times> string) option" where
  "basicAuth c = (case bm_AuthConfig c of None \<Rightarrow> None | Some a \<Rightarrow> ba_BasicAuthConfig a)"

definition bm_prepareAndDo ::
  "bm_client \<Rightarrow> bm_world \<Rightarrow> http_method \<Rightarrow> string \<Rightarrow> (string, string) fmap option
   \<Rightarrow> updateBackupConfigRequestBody option \<Rightarrow> (go_err + http_response) \<times> bm_world" where
  "bm_prepareAndDo c w method url params body =
     (case bl_newRequest (bm_library c) url of
        Some e \<Rightarrow> (Inl e, w)
      | None \<Rightarrow>
          (let rq = \<lparr>mq_Method = method, mq_URL = url, mq_Params = params, mq_Body = body,
                     mq_ContentType = (if body = None then None else Some ''application/json''),
                     mq_BasicAuth = basicAuth c\<rparr>
           in (bm_do c w rq, w @ [rq])))"

definition bm_handleFailureResponse :: "bm_client \<Rightarrow> http_response \<Rightarrow> go_err" where
  "bm_handleFailureResponse c r =
     (case unmarshalResponse (bl_decodeMap (bm_library c)) r of
        Inl e \<Rightarrow> BackupHTTP \<lparr>he_StatusCode = rs_StatusCode r, he_ErrorMessage = None,
                             he_Description = None, he_ResponseError = Some e\<rparr>
      | Inr m \<Rightarrow> BackupHTTP \<lparr>he_StatusCode = rs_StatusCode r, he_ErrorMessage = stringEntry m ''error'',
                             he_Description = stringEntry m ''description'', he_ResponseError = None\<rparr>)"

definition bm_malformed :: "http_response \<Rightarrow> string \<Rightarrow> go_err" where
  "bm_malformed r e = BackupHTTP \<lparr>he_StatusCode = rs_StatusCode r, he_ErrorMessage = None,
                                  he_Description = None, he_ResponseError = Some e\<rparr>"

text \<open>The method \<open>Error\<close> of the HTTP error, for the two error types that keep its text only.\<close>

definition orNil :: "string option \<Rightarrow> string" where
  "orNil s = (case s of None \<Rightarrow> ''<nil>'' | Some t \<Rightarrow> t)"

definition httpErrorText :: "HTTPStatusCodeError \<Rightarrow> string" where
  "httpErrorText e =
     Sprintf ''Status: %v; ErrorMessage: %v; Description: %v; ResponseError: %v''
       [FInt (he_StatusCode e), FStr (orNil (he_ErrorMessage e)), FStr (orNil (he_Description e)),
        FStr (orNil (he_ResponseError e))]"

definition failureText :: "bm_client \<Rightarrow> http_response \<Rightarrow> string" where
  "failureText c r =
     (case asBackupHTTP (bm_handleFailureResponse c r) of None \<Rightarrow> '''' | Some h \<Rightarrow> httpErrorText h)"

text \<open>The success branch that all operations share: decode the body, or say that it is malformed.\<close>

definition bm_decoded :: "(string \<Rightarrow> string + 'a) \<Rightarrow> http_response \<Rightarrow> 'a goptr" where
  "bm_decoded decode resp =
     (case unmarshalResponse decode resp of
        Inl e \<Rightarrow> (None, Some (bm_malformed resp e))
      | Inr u \<Rightarrow> (Some u, None))"

text \<open>What all operations do after the check of the arguments: one request, and a switch over the answer.\<close>

definition bm_operation ::
  "bm_client \<Rightarrow> bm_world \<Rightarrow> go_err option \<Rightarrow> http_method \<Rightarrow> string \<Rightarrow> updateBackupConfigRequestBody option
   \<Rightarrow> (http_response \<Rightarrow> 'a goptr) \<Rightarrow> 'a goptr \<times> bm_world" where
  "bm_operation c w invalid method url body answer =
     (case invalid of
        Some e \<Rightarrow> ((None, Some e), w)
      | None \<Rightarrow>
          (case bm_prepareAndDo c w method url None body of
             (Inl e, w') \<Rightarrow> ((None, Some e), w')
           | (Inr resp, w') \<Rightarrow> (answer resp, w')))"

section \<open>Backups\<close>

definition requireInstanceID :: "string \<Rightarrow> go_err option" where
  "requireInstanceID instanceID = (if instanceID = '''' then Some (required ''instanceID'') else None)"

text \<open>The checks of \<open>validateGetBackupRequest\<close>, \<open>validateCreateRestoreRequest\<close> and \<open>validateGetRestoreRequest\<close>:
  they differ in the name of the ID.\<close>

definition requireNumericalID :: "string \<Rightarrow> string \<Rightarrow> string \<Rightarrow> go_err option" where
  "requireNumericalID instanceID name i =
     (if instanceID = '''' then Some (required ''instanceID'')
      else if i = '''' then Some (required name)
      else if Atoi i = None then Some (ErrorString (name @ '' must be a numerical value''))
      else None)"

definition instanceBackupURL :: "bm_client \<Rightarrow> string \<Rightarrow> string" where
  "instanceBackupURL c i = Sprintf ''%s/instances/%s/backups'' [FStr (bm_URL c), FStr i]"

definition CreateBackup ::
  "bm_client \<Rightarrow> bm_world \<Rightarrow> CreateBackupRequest \<Rightarrow> CreateBackupResponse goptr \<times> bm_world" where
  "CreateBackup c w r =
     bm_operation c w (requireInstanceID (cbq_InstanceID r)) POST (instanceBackupURL c (cbq_InstanceID r)) None
       (\<lambda>resp.
          if rs_StatusCode resp = 201 \<or> rs_StatusCode resp = 200
          then bm_decoded (bl_decodeCreateBackup (bm_library c)) resp
          else if rs_StatusCode resp = 404
          then (None, Some (InstanceNotFoundError (bm_handleFailureResponse c resp)))
          else (None, Some (bm_handleFailureResponse c resp)))"

definition backupURL :: "bm_client \<Rightarrow> string \<Rightarrow> string \<Rightarrow> string" where
  "backupURL c i b = Sprintf ''%s/instances/%s/backups/%s'' [FStr (bm_URL c), FStr i, FStr b]"

definition okOrFailure :: "bm_client \<Rightarrow> (string \<Rightarrow> string + 'a) \<Rightarrow> http_response \<Rightarrow> 'a goptr" where
  "okOrFailure c decode resp =
     (if rs_StatusCode resp = 200 then bm_decoded decode resp
      else (None, Some (bm_handleFailureResponse c resp)))"

definition GetBackup ::
  "bm_client \<Rightarrow> bm_world \<Rightarrow> GetBackupRequest \<Rightarrow> GetBackupResponse goptr \<times> bm_world" where
  "GetBackup c w r =
     bm_operation c w (requireNumericalID (gbq_InstanceID r) ''backupID'' (gbq_BackupID r)) GET
       (backupURL c (gbq_InstanceID r) (gbq_BackupID r)) None
       (okOrFailure c (bl_decodeGetBackup (bm_library c)))"

text \<open>\<open>&GetBackupsResponse{Backups: *userResponse}\<close>\<close>

definition GetBackups ::
  "bm_client \<Rightarrow> bm_world \<Rightarrow> GetBackupsRequest \<Rightarrow> GetBackupsResponse goptr \<times> bm_world" where
  "GetBackups c w r =
     bm_operation c w (requireInstanceID (gbsq_InstanceID r)) GET (instanceBackupURL c (gbsq_InstanceID r)) None
       (\<lambda>resp. map_prod (map_option (\<lambda>bs. \<lparr>gbss_Backups = bs\<rparr>)) id
                 (okOrFailure c (bl_decodeGetBackups (bm_library c)) resp))"

definition validateDeleteBackupRequest :: "DeleteBackupRequest \<Rightarrow> go_err option" where
  "validateDeleteBackupRequest r =
     (if dbq_InstanceID r = '''' then Some (required ''instanceID'')
      else if dbq_BackupID r = None then Some (required ''backupID'')
      else None)"

definition deleteBackupURL :: "bm_client \<Rightarrow> string \<Rightarrow> int \<Rightarrow> string" where
  "deleteBackupURL c i b = Sprintf ''%s/instances/%s/backups/%d'' [FStr (bm_URL c), FStr i, FInt b]"

text \<open>The pointer is dereferenced after the check that it is not nil.\<close>

definition DeleteBackup ::
  "bm_client \<Rightarrow> bm_world \<Rightarrow> DeleteBackupRequest \<Rightarrow> DeleteBackupResponse goptr \<times> bm_world" where
  "DeleteBackup c w r =
     bm_operation c w (validateDeleteBackupRequest r) DELETE
       (deleteBackupURL c (dbq_InstanceID r) (the (dbq_BackupID r))) None
       (\<lambda>resp.
          if rs_StatusCode resp = 200 then bm_decoded (bl_decodeDeleteBackup (bm_library c)) resp
          else if rs_StatusCode resp = 423 then (None, Some (BackupLockedError (failureText c resp)))
          else if rs_StatusCode resp = 400 then (None, Some (BackupFileDeletionFailed (failureText c resp)))
          else if rs_StatusCode resp = 404
          then (None, Some (BackupNotFoundError (bm_handleFailureResponse c resp)))
          else (None, Some (bm_handleFailureResponse c resp)))"

section \<open>Configuration\<close>

definition GetInstanceConfig ::
  "bm_client \<Rightarrow> bm_world \<Rightarrow> GetInstanceConfigRequest \<Rightarrow> GetInstanceConfigResponse goptr \<times> bm_world" where
  "GetInstanceConfig c w r =
     bm_operation c w (requireInstanceID (gcq_InstanceID r)) GET
       (Sprintf ''%s/instances/%s/config'' [FStr (bm_URL c), FStr (gcq_InstanceID r)]) None
       (\<lambda>resp.
          if rs_StatusCode resp = 200 then bm_decoded (bl_decodeInstanceConfig (bm_library c)) resp
          else if rs_StatusCode resp = 404
          then (None, Some (InstanceNotFoundError (bm_handleFailureResponse c resp)))
          else (None, Some (bm_handleFailureResponse c resp)))"

definition validateUpdateBackupConfigRequest :: "UpdateBackupConfigRequest \<Rightarrow> go_err option" where
  "validateUpdateBackupConfigRequest r =
     (if ucq_InstanceID r = '''' then Some (required ''instanceID'')
      else if ucq_CredentialsUpdatedByUser r = None \<and> ucq_EncryptionKey r = None \<and>
              ucq_ExcludeFromAutoBackup r = None
      then Some (ErrorString ''at least one property must be set'')
      else None)"

definition UpdateBackupConfig ::
  "bm_client \<Rightarrow> bm_world \<Rightarrow> UpdateBackupConfigRequest \<Rightarrow> UpdateBackupConfigResponse goptr \<times> bm_world" where
  "UpdateBackupConfig c w r =
     bm_operation c w (validateUpdateBackupConfigRequest r) PUT
       (Sprintf ''%s/instances/%s'' [FStr (bm_URL c), FStr (ucq_InstanceID r)])
       (Some \<lparr>ucb_EncryptionKey = ucq_EncryptionKey r, ucb_ExcludeFromAutoBackup = ucq_ExcludeFromAutoBackup r,
              ucb_CredentialsUpdatedByUser = ucq_CredentialsUpdatedByUser r\<rparr>)
       (\<lambda>resp.
          if rs_StatusCode resp = 201 \<or> rs_StatusCode resp = 200
          then bm_decoded (bl_decodeUpdateConfig (bm_library c)) resp
          else if rs_StatusCode resp = 404
          then (None, Some (InstanceNotFoundError (bm_handleFailureResponse c resp)))
          else (None, Some (bm_handleFailureResponse c resp)))"

section \<open>Restores\<close>

definition createRestoreURL :: "bm_client \<Rightarrow> string \<Rightarrow> string \<Rightarrow> string" where
  "createRestoreURL c i b = Sprintf ''%s/instances/%s/backups/%s/restore'' [FStr (bm_URL c), FStr i, FStr b]"

definition CreateRestore ::
  "bm_client \<Rightarrow> bm_world \<Rightarrow> CreateRestoreRequest \<Rightarrow> CreateRestoreResponse goptr \<times> bm_world" where
  "CreateRestore c w r =
     bm_operation c w (requireNumericalID (crq_InstanceID r) ''backupID'' (crq_BackupID r)) POST
       (createRestoreURL c (crq_InstanceID r) (crq_BackupID r)) None
       (\<lambda>resp.
          if rs_StatusCode resp = 202 then bm_decoded (bl_decodeCreateRestore (bm_library c)) resp
          else if rs_StatusCode resp = 409
          then (None, Some (RestoreInProgress (bm_handleFailureResponse c resp)))
          else if rs_StatusCode resp = 422
          then (None, Some (BackupNonRestorableState (bm_handleFailureResponse c resp)))
          else if rs_StatusCode resp = 404
          then (None, Some (BackupNotFound (bm_handleFailureResponse c resp)))
          else (None, Some (bm_handleFailureResponse c resp)))"

definition restoreURL :: "bm_client \<Rightarrow> string \<Rightarrow> string \<Rightarrow> string" where
  "restoreURL c i r = Sprintf ''%s/instances/%s/restores/%s'' [FStr (bm_URL c), FStr i, FStr r]"

definition GetRestore ::
  "bm_client \<Rightarrow> bm_world \<Rightarrow> GetRestoreRequest \<Rightarrow> GetRestoreResponse goptr \<times> bm_world" where
  "GetRestore c w r =
     bm_operation c w (requireNumericalID (grq_InstanceID r) ''restoreID'' (grq_RestoreID r)) GET
       (restoreURL c (grq_InstanceID r) (grq_RestoreID r)) None
       (okOrFailure c (bl_decodeGetRestore (bm_library c)))"

definition GetRestores ::
  "bm_client \<Rightarrow> bm_world \<Rightarrow> GetRestoresRequest \<Rightarrow> GetRestoresResponse goptr \<times> bm_world" where
  "GetRestores c w r =
     bm_operation c w (requireInstanceID (grsq_InstanceID r)) GET
       (Sprintf ''%s/instances/%s/restores'' [FStr (bm_URL c), FStr (grsq_InstanceID r)]) None
       (\<lambda>resp. map_prod (map_option (\<lambda>rs. \<lparr>grss_Restores = rs\<rparr>)) id
                 (okOrFailure c (bl_decodeGetRestores (bm_library c)) resp))"

section \<open>Availability\<close>

definition bm_CheckAvailability :: "bm_client \<Rightarrow> bm_world \<Rightarrow> string \<Rightarrow> go_err option \<times> bm_world" where
  "bm_CheckAvailability c w endpoint =
     (let path = (if endpoint = '''' then ''/instances'' else endpoint);
          url = Sprintf ''%s%s'' [FStr (bm_URL c), FStr path]
      in case bl_newRequest (bm_library c) url of
           Some e \<Rightarrow> (Some (Errorf ''creating request'' e), w)
         | None \<Rightarrow>
             (let rq = \<lparr>mq_Method = GET, mq_URL = url, mq_Params = None, mq_Body = None,
                        mq_ContentType = None, mq_BasicAuth = basicAuth c\<rparr>
              in case bm_do c w rq of
                   Inl e \<Rightarrow> (Some (Errorf ''health check request failed'' e), w @ [rq])
                 | Inr resp \<Rightarrow>
                     (if rs_StatusCode resp < 200 \<or> 300 \<le> rs_StatusCode resp
                      then (Some (ErrorString (Sprintf ''health check failed with status code %d''
                              [FInt (rs_StatusCode resp)])), w @ [rq])
                      else (None, w @ [rq]))))"

section \<open>The contract of the operations\<close>

lemma bm_decoded_pointer [simp]: "onePointer (bm_decoded d resp)"
  by (simp add: bm_decoded_def split: sum.split)

lemma okOrFailure_pointer [simp]: "onePointer (okOrFailure c d resp)"
  by (simp add: okOrFailure_def)

lemma onePointer_map [simp]: "onePointer (map_prod (map_option f) id p) = onePointer p"
  by (cases p) (simp add: onePointer_def)

lemma bm_prepareAndDo_cases:
  obtains (refused) e where "bm_prepareAndDo c w m url ps b = (Inl e, w)"
  | (sent) rq where "bm_prepareAndDo c w m url ps b = (bm_do c w rq, w @ [rq])" "mq_Method rq = m" "mq_URL rq = url"
  by (cases "bl_newRequest (bm_library c) url") (auto simp: bm_prepareAndDo_def Let_def)

lemma bm_operation_pointer:
  "(\<And>resp. onePointer (answer resp)) \<Longrightarrow> onePointer (fst (bm_operation c w bad m url b answer))"
  by (auto simp: bm_operation_def split: option.split prod.split sum.split)

text \<open>What an operation sends: nothing when it fails before, else one request.\<close>

definition sendsOne :: "http_method \<Rightarrow> string \<Rightarrow> bm_world \<Rightarrow> 'a goptr \<times> bm_world \<Rightarrow> bool" where
  "sendsOne m url w res \<longleftrightarrow>
     (snd res = w \<and> fst (fst res) = None) \<or>
     (\<exists>rq. snd res = w @ [rq] \<and> mq_Method rq = m \<and> mq_URL rq = url)"

lemma bm_operation_sends: "sendsOne m url w (bm_operation c w bad m url b answer)"
proof (cases bad)
  case None
  show ?thesis
  proof (cases rule: bm_prepareAndDo_cases [of c w m url None b])
    case (sent rq)
    then show ?thesis
      using None by (cases "bm_do c w rq") (simp_all add: bm_operation_def sendsOne_def)
  qed (simp add: None bm_operation_def sendsOne_def)
qed (simp add: bm_operation_def sendsOne_def)

locale one_request_call = pointer_call call
  for call :: "bm_world \<Rightarrow> 'r \<Rightarrow> 'a goptr \<times> bm_world" +
  fixes meth :: http_method and url :: "'r \<Rightarrow> string"
  assumes sends_one: "sendsOne meth (url r) w (call w r)"
begin

lemma success_sent:
  assumes "call w r = ((Some x, err), w')"
  shows "\<exists>rq. w' = w @ [rq] \<and> mq_Method rq = meth \<and> mq_URL rq = url r"
  using sends_one [of r w] assms by (simp add: sendsOne_def)

lemma grows: "call w r = (p, w') \<Longrightarrow> w' = w \<or> (\<exists>rq. w' = w @ [rq] \<and> mq_Method rq = meth \<and> mq_URL rq = url r)"
  using sends_one [of r w] by (auto simp: sendsOne_def)

end

interpretation createBackup:
  one_request_call "CreateBackup c" POST "\<lambda>r. instanceBackupURL c (cbq_InstanceID r)"
  by unfold_locales (simp_all add: CreateBackup_def bm_operation_pointer bm_operation_sends)

interpretation getBackup:
  one_request_call "GetBackup c" GET "\<lambda>r. backupURL c (gbq_InstanceID r) (gbq_BackupID r)"
  by unfold_locales (simp_all add: GetBackup_def bm_operation_pointer bm_operation_sends)

interpretation getBackups:
  one_request_call "GetBackups c" GET "\<lambda>r. instanceBackupURL c (gbsq_InstanceID r)"
  by unfold_locales (simp_all add: GetBackups_def bm_operation_pointer bm_operation_sends)

interpretation deleteBackup:
  one_request_call "DeleteBackup c" DELETE "\<lambda>r. deleteBackupURL c (dbq_InstanceID r) (the (dbq_BackupID r))"
  by unfold_locales (simp_all add: DeleteBackup_def bm_operation_pointer bm_operation_sends)

interpretation getInstanceConfig:
  one_request_call "GetInstanceConfig c" GET
    "\<lambda>r. Sprintf ''%s/instances/%s/config'' [FStr (bm_URL c), FStr (gcq_InstanceID r)]"
  by unfold_locales (simp_all only: GetInstanceConfig_def bm_operation_sends,
      rule bm_operation_pointer, simp)

interpretation updateBackupConfig:
  one_request_call "UpdateBackupConfig c" PUT
    "\<lambda>r. Sprintf ''%s/instances/%s'' [FStr (bm_URL c), FStr (ucq_InstanceID r)]"
  by unfold_locales (simp_all only: UpdateBackupConfig_def bm_operation_sends,
      rule bm_operation_pointer, simp)

interpretation createRestore:
  one_request_call "CreateRestore c" POST "\<lambda>r. createRestoreURL c (crq_InstanceID r) (crq_BackupID r)"
  by unfold_locales (simp_all add: CreateRestore_def bm_operation_pointer bm_operation_sends)

interpretation getRestore:
  one_request_call "GetRestore c" GET "\<lambda>r. restoreURL c (grq_InstanceID r) (grq_RestoreID r)"
  by unfold_locales (simp_all add: GetRestore_def bm_operation_pointer bm_operation_sends)

interpretation getRestores:
  one_request_call "GetRestores c" GET
    "\<lambda>r. Sprintf ''%s/instances/%s/restores'' [FStr (bm_URL c), FStr (grsq_InstanceID r)]"
  by unfold_locales (simp_all only: GetRestores_def bm_operation_sends,
      rule bm_operation_pointer, simp)

section \<open>Errors\<close>

text \<open>Every error that stands for an answer keeps the status in its chain, except the two that keep text.\<close>

definition carriesStatus :: "int \<Rightarrow> go_err \<Rightarrow> bool" where
  "carriesStatus s e \<longleftrightarrow> (\<exists>h. errorsAs asBackupHTTP e = Some h \<and> he_StatusCode h = s)"

lemma bm_failure_status [simp]:
  "carriesStatus (rs_StatusCode r) (bm_handleFailureResponse c r)"
  "carriesStatus (rs_StatusCode r) (bm_malformed r t)"
  by (simp_all add: bm_handleFailureResponse_def bm_malformed_def carriesStatus_def errorsAs_def split: sum.split)

lemma carriesStatus_wrap [simp]:
  "carriesStatus s (InstanceNotFoundError e) = carriesStatus s e"
  "carriesStatus s (BackupNotFoundError e) = carriesStatus s e"
  "carriesStatus s (BackupNotFound e) = carriesStatus s e"
  "carriesStatus s (BackupNonRestorableState e) = carriesStatus s e"
  "carriesStatus s (RestoreInProgress e) = carriesStatus s e"
  "\<not> carriesStatus s (BackupLockedError t)"
  "\<not> carriesStatus s (BackupFileDeletionFailed t)"
  by (simp_all add: carriesStatus_def errorsAs_def)

end
