(* ===== verification/Backup_Controller.thy ===== *)
theory Backup_Controller
  imports Binding_Controller Backup_Manager "HOL-Library.Word"
begin

text \<open>
  The backup controller of provider-anynines: the managed resource (\<open>apis/backup/v1\<close>), the conversion of an
  answer into an observation (\<open>pkg/client/backupmanager\<close>) and the external client
  (\<open>internal/controller/backup\<close>). A backup gets the ID of its instance from the ServiceInstance it names, is
  requested from the Backup Manager once, and keeps the ID that the manager chose in an annotation,
  the only part of the resource that is stored after \<open>Create\<close>.

  \<^item> \<open>bk_external\<close> has the client of \<open>Backup_Manager\<close> and, as parameters, the check of the label selector,
    the list of ServiceInstances that the Kubernetes API answers and crossplane's \<open>SetConditions\<close>.
  \<^item> The handlers mutate the resource they are given and may panic on a nil pointer: each returns a
    \<open>go_result\<close>, the resource and the requests sent so far.
  \<^item> \<open>bk_rounds\<close> is the order in which crossplane's reconciler calls the handlers of a resource
    that nobody deletes: \<open>Observe\<close>, and \<open>Create\<close> when it reports that there is no external resource.

  The lemmas show what each handler sends and when it fails, that the ID survives in the annotation, when a
  backup is reported gone, and what becomes of a backup that the manager has deleted on its own.
\<close>

section \<open>The managed resource\<close>

definition StatusQueued :: string where [klutch_defs]: "StatusQueued = ''queued''"
definition StatusRunning :: string where [klutch_defs]: "StatusRunning = ''running''"
definition StatusDone :: string where [klutch_defs]: "StatusDone = ''done''"
definition StatusFailed :: string where [klutch_defs]: "StatusFailed = ''failed''"
definition StatusDeleted :: string where [klutch_defs]: "StatusDeleted = ''deleted''"

record BackupParameters =
  bp_InstanceName :: string
  bp_EncryptionKey :: string
  bp_ExcludeFromAutoBackup :: "bool option"
  bp_CredentialsUpdatedByUser :: "bool option"

record BackupObservation =
  bo_InstanceID :: string
  bo_BackupID :: "int option"
  bo_SizeInBytes :: "64 word"
  bo_Status :: string
  bo_TriggeredAt :: string
  bo_FinishedAt :: string
  bo_Downloadable :: bool

record Backup =
  bk_Name :: string
  bk_Labels :: "(string, string) fmap"
  bk_Annotations :: "(string, string) fmap option"
  bk_ForProvider :: BackupParameters
  bk_Conditions :: "xp_condition list"
  bk_AtProvider :: BackupObservation

datatype managed_backup = ManagedBackup Backup | NotABackup

fun ToBackup :: "Backup list \<Rightarrow> string \<Rightarrow> string \<Rightarrow> go_err + Backup" where
  "ToBackup [] name errMsg =
     Inl (Errorf (Sprintf ''%s, failed to list backup managed resources for backup %s'' [FStr errMsg, FStr name])
          (PlainUserErr ''backup was not found''))"
| "ToBackup [b] name errMsg = Inr b"
| "ToBackup (a # b # bs) name errMsg =
     Inl (ErrorString (Sprintf ''%s, expected 1 backup managed resource for backup %s, but got %d''
            [FStr errMsg, FStr name, FInt (int (length (a # b # bs)))]))"

definition AnnotationKeyBackupID :: string where
  [klutch_defs]: "AnnotationKeyBackupID = ''anynines.crossplane.io/backup-id''"

record bk_external =
  be_Client :: bm_client
  be_selectorError :: "string \<Rightarrow> string \<Rightarrow> go_err option"
  be_listInstances :: "bm_world \<Rightarrow> string \<Rightarrow> string \<Rightarrow> go_err + ServiceInstance list"
  be_SetConditions :: "xp_condition list \<Rightarrow> xp_condition \<Rightarrow> xp_condition list"

text \<open>\<open>m[key]\<close> of a Go map of strings, which may be nil.\<close>

definition entry :: "(string, string) fmap option \<Rightarrow> string \<Rightarrow> string" where
  "entry m k = (case m of None \<Rightarrow> '''' | Some x \<Rightarrow> (case fmlookup x k of None \<Rightarrow> '''' | Some v \<Rightarrow> v))"

text \<open>\<open>meta.AddAnnotations\<close> of crossplane-runtime, with one entry.\<close>

definition withAnnotation :: "string \<Rightarrow> string \<Rightarrow> (string, string) fmap option \<Rightarrow> (string, string) fmap option" where
  "withAnnotation k v m = Some (fmupd k v (mapOf m))"

text \<open>The error of \<open>strconv.Atoi\<close>: a number out of range, or no number.\<close>

definition numError :: "string \<Rightarrow> go_err" where
  "numError s =
     (let body = (if s \<noteq> [] \<and> (hd s = CHR ''-'' \<or> hd s = CHR ''+'') then tl s else s)
      in ErrorString (Sprintf ''strconv.Atoi: parsing %q: %s''
           [FStr s, FStr (if parseUnsigned body = None then ''invalid syntax'' else ''value out of range'')]))"

section \<open>Status\<close>

definition bk_GetServiceInstanceManagedResource ::
  "bk_external \<Rightarrow> bm_world \<Rightarrow> Backup \<Rightarrow> go_err + ServiceInstance" where
  "bk_GetServiceInstanceManagedResource E w bkp =
     (let claim = bp_InstanceName (bk_ForProvider bkp);
          ns = entry (Some (bk_Labels bkp)) LabelKeyClaimNamespace
      in case be_selectorError E claim ns of
           Some e \<Rightarrow> Inl (Errorf
             ''cannot create new backup, failed to create label selector for ServiceInstance managed resources'' e)
         | None \<Rightarrow>
             (case be_listInstances E w claim ns of
                Inl e \<Rightarrow> Inl (Errorf
                  ''cannot create new backup, failed to list ServiceInstance managed resource'' e)
              | Inr instances \<Rightarrow> ToServiceInstance instances (bk_Name bkp)))"

definition getServiceInstanceID :: "bk_external \<Rightarrow> bm_world \<Rightarrow> Backup \<Rightarrow> go_err + string" where
  "getServiceInstanceID E w bkp =
     (case bk_GetServiceInstanceManagedResource E w bkp of
        Inl e \<Rightarrow> Inl e
      | Inr i \<Rightarrow>
          (if ob_InstanceID (si_AtProvider i) = '''' then Inl (ErrorString ''instance is not ready'')
           else Inr (ob_InstanceID (si_AtProvider i))))"

definition errBackupStatusIsUnset :: go_err where
  "errBackupStatusIsUnset = ErrorString ''backup status field is unset, setting required values''"

definition initializeBackupStatus :: "bk_external \<Rightarrow> bm_world \<Rightarrow> Backup \<Rightarrow> go_err option \<times> Backup" where
  "initializeBackupStatus E w bkp =
     (if bo_InstanceID (bk_AtProvider bkp) = ''''
      then (case getServiceInstanceID E w bkp of
              Inl e \<Rightarrow> (Some e, bkp)
            | Inr i \<Rightarrow>
                (Some errBackupStatusIsUnset, bkp\<lparr>bk_AtProvider := (bk_AtProvider bkp)\<lparr>bo_InstanceID := i\<rparr>\<rparr>))
      else (None, bkp))"

definition bm_GenerateObservation :: "GetBackupResponse \<Rightarrow> Backup \<Rightarrow> BackupObservation" where
  "bm_GenerateObservation r bkp =
     \<lparr>bo_InstanceID = bo_InstanceID (bk_AtProvider bkp), bo_BackupID = gbs_BackupID r,
      bo_SizeInBytes = word_of_int (gbs_Size r), bo_Status = gbs_Status r,
      bo_TriggeredAt = gbs_TriggeredAt r, bo_FinishedAt = gbs_FinishedAt r,
      bo_Downloadable = gbs_Downloadable r\<rparr>"

definition errUnknownState :: "string \<Rightarrow> go_err" where
  "errUnknownState st = ErrorString (Sprintf
     (''cannot determine state of backup: a9s Backup Manager returned unknown status \"%s\". ''
      @ ''Known statuses are \"queued\", \"running\", \"done\", \"failed\" and \"deleted\"'') [FStr st])"

definition bk_setCondition :: "bk_external \<Rightarrow> xp_condition \<Rightarrow> Backup \<Rightarrow> Backup" where
  "bk_setCondition E cond bkp = bkp\<lparr>bk_Conditions := be_SetConditions E (bk_Conditions bkp) cond\<rparr>"

definition bk_setConditions :: "bk_external \<Rightarrow> Backup \<Rightarrow> go_err option \<times> Backup" where
  "bk_setConditions E bkp =
     (let st = bo_Status (bk_AtProvider bkp) in
      if st = StatusQueued then (None, bk_setCondition E Creating bkp)
      else if st = StatusRunning then (None, bk_setCondition E Creating bkp)
      else if st = StatusDone then (None, bk_setCondition E Available bkp)
      else if st = StatusFailed
      then (None, bk_setCondition E (WithMessage Unavailable ''Backup has failed'') bkp)
      else if st = StatusDeleted
      then (None, bk_setCondition E (WithMessage Unavailable ''Backup has been deleted'') bkp)
      else (Some (errUnknownState st), bkp))"

section \<open>The external client\<close>

definition errNotBackup :: go_err where
  "errNotBackup = ErrorString (''something went wrong with crossplane as managed resource ''
     @ ''reconciled is not a Backup custom resource, THIS SHOULD NOT HAPPEN'')"

definition bk_getExternalName :: "Backup \<Rightarrow> string" where
  "bk_getExternalName bkp = entry (bk_Annotations bkp) AnnotationKeyBackupID"

text \<open>The ID from the status, or else from the annotation, which goes into the status.\<close>

definition resolveBackupID :: "Backup \<Rightarrow> go_err + (int \<times> Backup)" where
  "resolveBackupID bkp =
     (case bo_BackupID (bk_AtProvider bkp) of
        Some i \<Rightarrow> Inr (i, bkp)
      | None \<Rightarrow>
          (let s = entry (bk_Annotations bkp) AnnotationKeyBackupID in
           case Atoi s of
             None \<Rightarrow> Inl (numError s)
           | Some i \<Rightarrow> Inr (i, bkp\<lparr>bk_AtProvider := (bk_AtProvider bkp)\<lparr>bo_BackupID := Some i\<rparr>\<rparr>)))"

type_synonym bk_handled = "ExternalObservation go_result \<times> managed_backup \<times> bm_world"

text \<open>\<open>Observe\<close> once the manager has answered.\<close>

definition bk_observed :: "bk_external \<Rightarrow> GetBackupResponse \<Rightarrow> Backup \<Rightarrow> bm_world \<Rightarrow> bk_handled" where
  "bk_observed E resp bkp w =
     (case bk_setConditions E (bkp\<lparr>bk_AtProvider := bm_GenerateObservation resp bkp\<rparr>) of
        (Some e, b) \<Rightarrow> (Return noObservation (Some e), ManagedBackup b, w)
      | (None, b) \<Rightarrow>
          (if bo_Status (bk_AtProvider b) = StatusDeleted
           then (Return noObservation None, ManagedBackup b, w)
           else (Return \<lparr>eo_ResourceExists = True, eo_ResourceUpToDate = True\<rparr> None, ManagedBackup b, w)))"

definition getBackupRequest :: "int \<Rightarrow> Backup \<Rightarrow> GetBackupRequest" where
  "getBackupRequest i bkp =
     \<lparr>gbq_InstanceID = bo_InstanceID (bk_AtProvider bkp), gbq_BackupID = Itoa i\<rparr>"

definition BK_Observe :: "bk_external \<Rightarrow> bm_world \<Rightarrow> managed_backup \<Rightarrow> bk_handled" where
  "BK_Observe E w mg =
     (case mg of
        NotABackup \<Rightarrow> (Return noObservation (Some errNotBackup), mg, w)
      | ManagedBackup bkp \<Rightarrow>
          (case initializeBackupStatus E w bkp of
             (Some e, b1) \<Rightarrow> (Return noObservation (Some e), ManagedBackup b1, w)
           | (None, b1) \<Rightarrow>
               (if bk_getExternalName b1 = '''' then (Return noObservation None, ManagedBackup b1, w)
                else case resolveBackupID b1 of
                       Inl e \<Rightarrow> (Return noObservation (Some (Errorf ''cannot get Backup'' e)), ManagedBackup b1, w)
                     | Inr (i, b2) \<Rightarrow>
                         (case GetBackup (be_Client E) w (getBackupRequest i b2) of
                            ((_, Some e), w') \<Rightarrow>
                              (Return noObservation (Some (Errorf ''cannot get Backup'' (HandleHttpError e))),
                               ManagedBackup b2, w')
                          | ((None, None), w') \<Rightarrow> (Panic, ManagedBackup b2, w')
                          | ((Some resp, None), w') \<Rightarrow> bk_observed E resp b2 w'))))"

definition withBackupID :: "int \<Rightarrow> Backup \<Rightarrow> Backup" where
  "withBackupID i bkp =
     bkp\<lparr>bk_Annotations := withAnnotation AnnotationKeyBackupID (Itoa i) (bk_Annotations bkp)\<rparr>"

definition createBackupRequest :: "Backup \<Rightarrow> CreateBackupRequest" where
  "createBackupRequest bkp = \<lparr>cbq_InstanceID = bo_InstanceID (bk_AtProvider bkp)\<rparr>"

text \<open>\<open>*response.BackupID\<close> panics when the answer had no ID.\<close>

definition BK_Create ::
  "bk_external \<Rightarrow> bm_world \<Rightarrow> managed_backup \<Rightarrow> unit go_result \<times> managed_backup \<times> bm_world" where
  "BK_Create E w mg =
     (case mg of
        NotABackup \<Rightarrow> (failWith errNotBackup, mg, w)
      | ManagedBackup bkp \<Rightarrow>
          (case CreateBackup (be_Client E) w (createBackupRequest bkp) of
             ((_, Some e), w') \<Rightarrow> (failWith (Errorf ''cannot create new backup'' (HandleHttpError e)), mg, w')
           | ((None, None), w') \<Rightarrow> (Panic, mg, w')
           | ((Some resp, None), w') \<Rightarrow>
               (case cbs_BackupID resp of
                  None \<Rightarrow> (Panic, mg, w')
                | Some i \<Rightarrow> (Return () None, ManagedBackup (withBackupID i bkp), w'))))"

definition BK_Update ::
  "bm_world \<Rightarrow> managed_backup \<Rightarrow> unit go_result \<times> managed_backup \<times> bm_world" where
  "BK_Update w mg =
     (case mg of NotABackup \<Rightarrow> (failWith errNotBackup, mg, w) | ManagedBackup bkp \<Rightarrow> (Return () None, mg, w))"

definition deleteBackupRequest :: "int \<Rightarrow> Backup \<Rightarrow> DeleteBackupRequest" where
  "deleteBackupRequest i bkp =
     \<lparr>dbq_InstanceID = bo_InstanceID (bk_AtProvider bkp), dbq_BackupID = Some i\<rparr>"

definition BK_Delete ::
  "bk_external \<Rightarrow> bm_world \<Rightarrow> managed_backup \<Rightarrow> unit go_result \<times> managed_backup \<times> bm_world" where
  "BK_Delete E w mg =
     (case mg of
        NotABackup \<Rightarrow> (failWith errNotBackup, mg, w)
      | ManagedBackup bkp \<Rightarrow>
          (if bo_BackupID (bk_AtProvider bkp) = None \<and> bk_getExternalName bkp = ''''
           then (Return () None, mg, w)
           else case resolveBackupID bkp of
                  Inl e \<Rightarrow> (failWith (Errorf ''cannot delete backup'' e), mg, w)
                | Inr (i, b) \<Rightarrow>
                    (case DeleteBackup (be_Client E) w (deleteBackupRequest i b) of
                       ((_, Some e), w') \<Rightarrow>
                         (failWith (Errorf ''cannot delete backup'' (HandleHttpError e)), ManagedBackup b, w')
                     | ((_, None), w') \<Rightarrow> (Return () None, ManagedBackup b, w'))))"

section \<open>What the handlers do\<close>

lemma entry_withAnnotation [simp]:
  "entry (withAnnotation k v m) k' = (if k' = k then v else entry m k')"
  by (cases m) (simp_all add: entry_def withAnnotation_def mapOf_def)

lemma getExternalName_withBackupID [simp]: "bk_getExternalName (withBackupID i b) = Itoa i"
  by (simp add: bk_getExternalName_def withBackupID_def)

lemma withBackupID_frame [simp]:
  "bk_AtProvider (withBackupID i b) = bk_AtProvider b" "bk_Name (withBackupID i b) = bk_Name b"
  "bk_ForProvider (withBackupID i b) = bk_ForProvider b" "bk_Conditions (withBackupID i b) = bk_Conditions b"
  by (simp_all add: withBackupID_def)

lemma bk_setConditions_AtProvider:
  "bk_AtProvider (snd (bk_setConditions E b)) = bk_AtProvider b"
  "bk_Annotations (snd (bk_setConditions E b)) = bk_Annotations b"
  by (simp_all add: bk_setConditions_def bk_setCondition_def Let_def)

lemma bk_setConditions_cases:
  obtains (known) b' where "bk_setConditions E b = (None, b')" "bk_AtProvider b' = bk_AtProvider b"
      "bk_Annotations b' = bk_Annotations b"
  | (unknown) e where "bk_setConditions E b = (Some e, b)"
      "bo_Status (bk_AtProvider b) \<notin> {StatusQueued, StatusRunning, StatusDone, StatusFailed, StatusDeleted}"
  using bk_setConditions_AtProvider [of E b]
  by (cases "fst (bk_setConditions E b)")
    (auto simp: bk_setConditions_def bk_setCondition_def Let_def split: if_splits)

text \<open>A backup that has the ID of its instance and an ID of its own: what \<open>Observe\<close> asks.\<close>

definition bk_ready :: "Backup \<Rightarrow> int \<Rightarrow> bool" where
  "bk_ready b i \<longleftrightarrow> bo_InstanceID (bk_AtProvider b) \<noteq> '''' \<and> bk_getExternalName b \<noteq> '''' \<and>
     (case bo_BackupID (bk_AtProvider b) of None \<Rightarrow> Atoi (bk_getExternalName b) = Some i | Some j \<Rightarrow> j = i)"

definition identified :: "int \<Rightarrow> Backup \<Rightarrow> Backup" where
  "identified i b = b\<lparr>bk_AtProvider := (bk_AtProvider b)\<lparr>bo_BackupID := Some i\<rparr>\<rparr>"

lemma identified_simps [simp]:
  "bo_InstanceID (bk_AtProvider (identified i b)) = bo_InstanceID (bk_AtProvider b)"
  "bo_BackupID (bk_AtProvider (identified i b)) = Some i"
  "bk_Annotations (identified i b) = bk_Annotations b"
  "bk_getExternalName (identified i b) = bk_getExternalName b"
  "getBackupRequest j (identified i b) = getBackupRequest j b"
  "deleteBackupRequest j (identified i b) = deleteBackupRequest j b"
  by (simp_all add: identified_def bk_getExternalName_def getBackupRequest_def deleteBackupRequest_def)

lemma identified_same: "bo_BackupID (bk_AtProvider b) = Some i \<Longrightarrow> identified i b = b"
  by (simp add: identified_def)

lemma resolve_ready: "bk_ready b i \<Longrightarrow> resolveBackupID b = Inr (i, identified i b)"
  by (auto simp: bk_ready_def resolveBackupID_def bk_getExternalName_def identified_def Let_def
      split: option.splits)

lemma bk_ready_set: "bk_ready b i \<Longrightarrow> bo_InstanceID (bk_AtProvider b) \<noteq> '''' \<and> bk_getExternalName b \<noteq> ''''"
  by (simp add: bk_ready_def)

lemma observe_ready:
  assumes "bk_ready b i"
  shows "BK_Observe E w (ManagedBackup b) =
    (case GetBackup (be_Client E) w (getBackupRequest i b) of
       ((_, Some e), w') \<Rightarrow>
         (Return noObservation (Some (Errorf ''cannot get Backup'' (HandleHttpError e))),
          ManagedBackup (identified i b), w')
     | ((None, None), w') \<Rightarrow> (Panic, ManagedBackup (identified i b), w')
     | ((Some resp, None), w') \<Rightarrow> bk_observed E resp (identified i b) w')"
  using bk_ready_set [OF assms] by (simp add: BK_Observe_def initializeBackupStatus_def resolve_ready [OF assms])

lemma delete_ready:
  assumes "bk_ready b i"
  shows "BK_Delete E w (ManagedBackup b) =
    (case DeleteBackup (be_Client E) w (deleteBackupRequest i b) of
       ((_, Some e), w') \<Rightarrow>
         (failWith (Errorf ''cannot delete backup'' (HandleHttpError e)), ManagedBackup (identified i b), w')
     | ((_, None), w') \<Rightarrow> (Return () None, ManagedBackup (identified i b), w'))"
  using bk_ready_set [OF assms] by (simp add: BK_Delete_def resolve_ready [OF assms])

text \<open>\<open>Observe\<close> gets at most one request out, and never panics.\<close>

lemma bk_observed_result: "bk_observed E resp b v = (r, mg, w') \<Longrightarrow> w' = v \<and> r \<noteq> Panic"
  by (auto simp: bk_observed_def split: prod.splits option.splits if_splits)

lemma observe_requests:
  assumes "BK_Observe E w (ManagedBackup b) = (r, mg, w')"
  shows "r \<noteq> Panic \<and> (w' = w \<or> (\<exists>rq. w' = w @ [rq] \<and> mq_Method rq = GET))"
proof -
  have get: "\<And>q p v. GetBackup (be_Client E) w q = (p, v) \<Longrightarrow> v = w \<or> (\<exists>rq. v = w @ [rq] \<and> mq_Method rq = GET)"
    using getBackup.grows by blast
  have ptr: "\<And>q v. GetBackup (be_Client E) w q \<noteq> ((None, None), v)"
    using getBackup.no_error_response by blast
  from assms show ?thesis
    unfolding BK_Observe_def
    by (auto simp: ptr split: prod.splits option.splits sum.splits if_splits dest!: get bk_observed_result)
qed

section \<open>The ID of a backup\<close>

text \<open>The ID in the annotation addresses the backup that the manager created, for reading and for deletion.\<close>

lemma deleteBackupURL_eq: "deleteBackupURL c i b = backupURL c i (Itoa b)"
  by (simp add: deleteBackupURL_def backupURL_def)

lemma create_annotates:
  assumes "BK_Create E w (ManagedBackup b) = (Return () None, mg, w')"
  obtains resp i where "CreateBackup (be_Client E) w (createBackupRequest b) = ((Some resp, None), w')"
    "cbs_BackupID resp = Some i" "mg = ManagedBackup (withBackupID i b)"
  using assms that by (auto simp: BK_Create_def failWith_def split: prod.splits option.splits)

lemma bm_operation_success:
  assumes "bm_operation c w bad m url body answer = ((Some x, err), w')"
  obtains resp where "bad = None" "answer resp = (Some x, err)"
  using assms that by (auto simp: bm_operation_def split: option.splits prod.splits sum.splits)

lemma bm_decoded_Some: "bm_decoded d resp = (Some x, None) \<longleftrightarrow> (\<exists>t. rs_Body resp = Inr t \<and> d t = Inr x)"
  by (auto simp: bm_decoded_def unmarshalResponse_def split: sum.split)

lemma CreateBackup_success:
  assumes "CreateBackup c w r = ((Some x, None), w')"
  obtains t where "cbq_InstanceID r \<noteq> ''''" "bl_decodeCreateBackup (bm_library c) t = Inr x"
proof -
  from assms obtain resp where "requireInstanceID (cbq_InstanceID r) = None"
    "bm_decoded (bl_decodeCreateBackup (bm_library c)) resp = (Some x, None)"
    unfolding CreateBackup_def by (elim bm_operation_success) (auto split: if_splits)
  then show thesis
    using that by (auto simp: requireInstanceID_def bm_decoded_Some split: if_splits)
qed

lemma ready_withBackupID:
  assumes "bo_BackupID (bk_AtProvider b) = None" "bo_InstanceID (bk_AtProvider b) \<noteq> ''''" "int64_range i"
  shows "bk_ready (withBackupID i b) i"
  using assms by (simp add: bk_ready_def)

lemma numericalID_Itoa [simp]:
  "int64_range i \<Longrightarrow> inst \<noteq> '''' \<Longrightarrow> requireNumericalID inst name (Itoa i) = None"
  by (simp add: requireNumericalID_def)

definition plainRequest :: "bm_client \<Rightarrow> http_method \<Rightarrow> string \<Rightarrow> bm_request" where
  "plainRequest c m url = \<lparr>mq_Method = m, mq_URL = url, mq_Params = None, mq_Body = None,
     mq_ContentType = None, mq_BasicAuth = basicAuth c\<rparr>"

lemma bm_operation_sent:
  assumes "bl_newRequest (bm_library c) url = None"
  shows "bm_operation c w None m url None answer =
    (case bm_do c w (plainRequest c m url) of
       Inl e \<Rightarrow> ((None, Some e), w @ [plainRequest c m url])
     | Inr resp \<Rightarrow> (answer resp, w @ [plainRequest c m url]))"
  using assms by (simp add: bm_operation_def bm_prepareAndDo_def plainRequest_def split: sum.split)

lemma GetBackup_sent:
  assumes "bl_newRequest (bm_library c) (backupURL c inst (Itoa i)) = None" "inst \<noteq> ''''" "int64_range i"
  shows "GetBackup c w \<lparr>gbq_InstanceID = inst, gbq_BackupID = Itoa i\<rparr> =
    (case bm_do c w (plainRequest c GET (backupURL c inst (Itoa i))) of
       Inl e \<Rightarrow> ((None, Some e), w @ [plainRequest c GET (backupURL c inst (Itoa i))])
     | Inr resp \<Rightarrow> (okOrFailure c (bl_decodeGetBackup (bm_library c)) resp,
                    w @ [plainRequest c GET (backupURL c inst (Itoa i))]))"
  using assms by (simp add: GetBackup_def bm_operation_sent)

definition urlOf :: "bk_external \<Rightarrow> Backup \<Rightarrow> int \<Rightarrow> string" where
  "urlOf E b i = backupURL (be_Client E) (bo_InstanceID (bk_AtProvider b)) (Itoa i)"

lemma bk_observed_world [simp]: "snd (snd (bk_observed E resp b v)) = v"
  using bk_observed_result by (metis prod.collapse)

lemma observe_asks:
  assumes "bk_ready b i" "int64_range i" "bl_newRequest (bm_library (be_Client E)) (urlOf E b i) = None"
  shows "snd (snd (BK_Observe E w (ManagedBackup b))) = w @ [plainRequest (be_Client E) GET (urlOf E b i)]"
  using bk_ready_set [OF assms(1)] assms(2) GetBackup_sent [OF assms(3) [unfolded urlOf_def] _ assms(2), of w]
  by (auto simp: observe_ready [OF assms(1)] getBackupRequest_def urlOf_def split: prod.splits option.splits sum.splits)

lemma delete_asks:
  assumes "bk_ready b i" "bl_newRequest (bm_library (be_Client E)) (urlOf E b i) = None"
  shows "snd (snd (BK_Delete E w (ManagedBackup b))) = w @ [plainRequest (be_Client E) DELETE (urlOf E b i)]"
  using bk_ready_set [OF assms(1)] assms(2)
  by (simp add: delete_ready [OF assms(1)] deleteBackupRequest_def DeleteBackup_def validateDeleteBackupRequest_def
      deleteBackupURL_eq urlOf_def bm_operation_sent split: prod.split option.split sum.split)

section \<open>When a backup is gone\<close>

text \<open>The manager says that a backup is deleted: status 200, and a body that decodes to that status.\<close>

definition answersDeleted :: "bk_external \<Rightarrow> Backup \<Rightarrow> int \<Rightarrow> bm_world \<Rightarrow> bool" where
  "answersDeleted E b i w \<longleftrightarrow>
     (case bm_do (be_Client E) w (plainRequest (be_Client E) GET (urlOf E b i)) of
        Inl _ \<Rightarrow> False
      | Inr resp \<Rightarrow> rs_StatusCode resp = 200 \<and>
          (case rs_Body resp of
             Inl _ \<Rightarrow> False
           | Inr t \<Rightarrow>
               (case bl_decodeGetBackup (bm_library (be_Client E)) t of
                  Inl _ \<Rightarrow> False
                | Inr r \<Rightarrow> gbs_Status r = StatusDeleted)))"

lemma status_distinct [simp]:
  "StatusDeleted \<noteq> StatusQueued" "StatusDeleted \<noteq> StatusRunning" "StatusDeleted \<noteq> StatusDone"
  "StatusDeleted \<noteq> StatusFailed" "StatusQueued \<noteq> StatusDeleted" "StatusRunning \<noteq> StatusDeleted"
  "StatusDone \<noteq> StatusDeleted" "StatusFailed \<noteq> StatusDeleted" "StatusQueued \<noteq> StatusRunning"
  "StatusRunning \<noteq> StatusQueued" "StatusDone \<noteq> StatusQueued" "StatusDone \<noteq> StatusRunning"
  "StatusFailed \<noteq> StatusQueued" "StatusFailed \<noteq> StatusRunning" "StatusFailed \<noteq> StatusDone"
  by (simp_all add: klutch_defs)

lemma observed_gone:
  "fst (bk_observed E r b w) = Return noObservation None \<longleftrightarrow> gbs_Status r = StatusDeleted"
  by (simp add: bk_observed_def bk_setConditions_def bk_setCondition_def bm_GenerateObservation_def noObservation_def
      Let_def)

lemma observe_gone_iff:
  assumes "bk_ready b i" "int64_range i" "bl_newRequest (bm_library (be_Client E)) (urlOf E b i) = None"
  shows "fst (BK_Observe E w (ManagedBackup b)) = Return noObservation None \<longleftrightarrow> answersDeleted E b i w"
proof -
  define rq where "rq = plainRequest (be_Client E) GET (urlOf E b i)"
  note sent = GetBackup_sent [OF assms(3) [unfolded urlOf_def] _ assms(2), folded urlOf_def, of w, folded rq_def]
  show ?thesis
  proof (cases "bm_do (be_Client E) w rq")
    case (Inl e)
    then show ?thesis
      using bk_ready_set [OF assms(1)] sent
      by (simp add: observe_ready [OF assms(1)] getBackupRequest_def answersDeleted_def rq_def [symmetric])
  next
    case (Inr resp)
    then show ?thesis
      using bk_ready_set [OF assms(1)] sent
      by (auto simp: observe_ready [OF assms(1)] getBackupRequest_def answersDeleted_def rq_def [symmetric]
          okOrFailure_def bm_decoded_def unmarshalResponse_def observed_gone split: sum.split)
  qed
qed

section \<open>A backup deleted by the manager\<close>

text \<open>
  The handlers as crossplane calls them on a resource that nobody deletes, \<open>n\<close> times; both keep their changes.
\<close>

fun bk_rounds :: "bk_external \<Rightarrow> nat \<Rightarrow> bm_world \<Rightarrow> managed_backup \<Rightarrow> managed_backup \<times> bm_world" where
  "bk_rounds E 0 w mg = (mg, w)"
| "bk_rounds E (Suc n) w mg =
     (case BK_Observe E w mg of
        (r, mg1, w1) \<Rightarrow>
          (if r = Return noObservation None
           then (case BK_Create E w1 mg1 of (_, mg2, w2) \<Rightarrow> bk_rounds E n w2 mg2)
           else bk_rounds E n w1 mg1))"

definition creations :: "bm_world \<Rightarrow> nat" where
  "creations w = length (filter (\<lambda>rq. mq_Method rq = POST) w)"

lemma creations_simps [simp]:
  "creations [] = 0"
  "creations (w @ w') = creations w + creations w'"
  "creations [plainRequest c m url] = (if m = POST then 1 else 0)"
  by (simp_all add: creations_def plainRequest_def)

text \<open>The manager answers that backup \<open>i\<close> is deleted, whenever it is asked, and accepts new backups.\<close>

definition deletedAtManager :: "bk_external \<Rightarrow> string \<Rightarrow> int \<Rightarrow> bool" where
  "deletedAtManager E inst i \<longleftrightarrow>
     (let c = be_Client E; get = backupURL c inst (Itoa i); create = instanceBackupURL c inst in
      bl_newRequest (bm_library c) get = None \<and> bl_newRequest (bm_library c) create = None \<and>
      (\<exists>t r. gbs_BackupID r = Some i \<and> gbs_Status r = StatusDeleted \<and>
         bl_decodeGetBackup (bm_library c) t = Inr r \<and>
         (\<forall>w. bm_do c w (plainRequest c GET get) = Inr \<lparr>rs_StatusCode = 200, rs_Body = Inr t\<rparr>)) \<and>
      (\<forall>w. \<exists>t j msg. bm_do c w (plainRequest c POST create) = Inr \<lparr>rs_StatusCode = 201, rs_Body = Inr t\<rparr> \<and>
         bl_decodeCreateBackup (bm_library c) t = Inr \<lparr>cbs_BackupID = Some j, cbs_Message = msg\<rparr>))"

definition stuckOn :: "string \<Rightarrow> int \<Rightarrow> managed_backup \<Rightarrow> bool" where
  "stuckOn inst i mg \<longleftrightarrow>
     (case mg of
        NotABackup \<Rightarrow> False
      | ManagedBackup b \<Rightarrow> inst \<noteq> '''' \<and> bo_InstanceID (bk_AtProvider b) = inst \<and>
          bo_BackupID (bk_AtProvider b) = Some i \<and> bk_getExternalName b \<noteq> '''')"

lemma stuck_observe:
  assumes "deletedAtManager E inst i" "int64_range i" "stuckOn inst i mg"
  shows "\<exists>mg'. BK_Observe E w mg =
      (Return noObservation None, mg', w @ [plainRequest (be_Client E) GET (backupURL (be_Client E) inst (Itoa i))]) \<and>
    stuckOn inst i mg'"
proof -
  obtain b where b: "mg = ManagedBackup b" "inst \<noteq> ''''" "bo_InstanceID (bk_AtProvider b) = inst"
      "bo_BackupID (bk_AtProvider b) = Some i" "bk_getExternalName b \<noteq> ''''"
    using assms(3) by (cases mg) (auto simp: stuckOn_def)
  have ready: "bk_ready b i"
    using b by (simp add: bk_ready_def)
  from assms(1) obtain t r where r: "gbs_BackupID r = Some i" "gbs_Status r = StatusDeleted"
      "bl_decodeGetBackup (bm_library (be_Client E)) t = Inr r"
      "\<And>w. bm_do (be_Client E) w (plainRequest (be_Client E) GET (backupURL (be_Client E) inst (Itoa i)))
         = Inr \<lparr>rs_StatusCode = 200, rs_Body = Inr t\<rparr>"
      "bl_newRequest (bm_library (be_Client E)) (backupURL (be_Client E) inst (Itoa i)) = None"
    unfolding deletedAtManager_def Let_def by blast
  let ?w = "w @ [plainRequest (be_Client E) GET (backupURL (be_Client E) inst (Itoa i))]"
  have "BK_Observe E w mg = bk_observed E r b ?w"
    using b r by (simp add: observe_ready [OF ready] getBackupRequest_def GetBackup_sent [OF r(5) _ assms(2)]
        identified_same okOrFailure_def bm_decoded_def unmarshalResponse_def)
  then show ?thesis
    using b r by (simp add: bk_observed_def bk_setConditions_def bk_setCondition_def bm_GenerateObservation_def
        stuckOn_def bk_getExternalName_def Let_def)
qed

lemma stuck_create:
  assumes "deletedAtManager E inst i" "stuckOn inst i mg"
  shows "\<exists>r mg'. BK_Create E w mg =
      (r, mg', w @ [plainRequest (be_Client E) POST (instanceBackupURL (be_Client E) inst)]) \<and> stuckOn inst i mg'"
proof -
  obtain b where b: "mg = ManagedBackup b" "inst \<noteq> ''''" "bo_InstanceID (bk_AtProvider b) = inst"
      "bo_BackupID (bk_AtProvider b) = Some i"
    using assms(2) by (cases mg) (auto simp: stuckOn_def)
  from assms(1) obtain t j msg where
      "bm_do (be_Client E) w (plainRequest (be_Client E) POST (instanceBackupURL (be_Client E) inst))
         = Inr \<lparr>rs_StatusCode = 201, rs_Body = Inr t\<rparr>"
      "bl_decodeCreateBackup (bm_library (be_Client E)) t = Inr \<lparr>cbs_BackupID = Some j, cbs_Message = msg\<rparr>"
      "bl_newRequest (bm_library (be_Client E)) (instanceBackupURL (be_Client E) inst) = None"
    unfolding deletedAtManager_def Let_def by blast
  then have "BK_Create E w mg = (Return () None, ManagedBackup (withBackupID j b),
      w @ [plainRequest (be_Client E) POST (instanceBackupURL (be_Client E) inst)])"
    using b by (simp add: BK_Create_def createBackupRequest_def CreateBackup_def requireInstanceID_def
        bm_operation_sent bm_decoded_def unmarshalResponse_def)
  then show ?thesis
    using b by (simp add: stuckOn_def)
qed

lemma stuck_rounds:
  assumes "deletedAtManager E inst i" "int64_range i" "stuckOn inst i mg"
  shows "creations (snd (bk_rounds E n w mg)) = creations w + n"
  using assms(3)
proof (induction n arbitrary: w mg)
  case (Suc n)
  define w1 where "w1 = w @ [plainRequest (be_Client E) GET (backupURL (be_Client E) inst (Itoa i))]"
  obtain mg1 where 1: "BK_Observe E w mg = (Return noObservation None, mg1, w1)" "stuckOn inst i mg1"
    using stuck_observe [OF assms(1,2) Suc.prems, of w] unfolding w1_def by blast
  obtain r mg2 where 2: "BK_Create E w1 mg1 =
      (r, mg2, w1 @ [plainRequest (be_Client E) POST (instanceBackupURL (be_Client E) inst)])" "stuckOn inst i mg2"
    using stuck_create [OF assms(1) 1(2), of w1] by blast
  have "creations w1 = creations w"
    by (simp add: w1_def)
  then show ?case
    using Suc.IH [OF 2(2)] by (simp add: 1(1) 2(1))
qed simp

section \<open>What the user is shown\<close>

text \<open>
  The description of a refused deletion reaches the user, unless the client kept only the text of the answer.
\<close>

lemma convert_backup_error:
  assumes "errorsAs asOsbHTTP e = None" "userInput (errorsAs asBackupHTTP e) = Some d"
  shows "convertAndLog (Some (Errorf p (HandleHttpError e))) = Some (PlainUserErr d)"
  using assms by (simp add: HandleHttpError_def convertAndLog_def errorsAs_def)

definition deletionError :: "bm_client \<Rightarrow> http_response \<Rightarrow> go_err" where
  "deletionError c resp =
     (if rs_StatusCode resp = 423 then BackupLockedError (failureText c resp)
      else if rs_StatusCode resp = 400 then BackupFileDeletionFailed (failureText c resp)
      else if rs_StatusCode resp = 404 then BackupNotFoundError (bm_handleFailureResponse c resp)
      else bm_handleFailureResponse c resp)"

lemma delete_refused:
  assumes "bk_ready b i" "bl_newRequest (bm_library (be_Client E)) (urlOf E b i) = None"
    and "bm_do (be_Client E) w (plainRequest (be_Client E) DELETE (urlOf E b i)) = Inr resp" "rs_StatusCode resp \<noteq> 200"
  shows "fst (BK_Delete E w (ManagedBackup b)) =
    failWith (Errorf ''cannot delete backup'' (HandleHttpError (deletionError (be_Client E) resp)))"
  using bk_ready_set [OF assms(1)] assms(2-)
  by (simp add: delete_ready [OF assms(1)] deleteBackupRequest_def DeleteBackup_def validateDeleteBackupRequest_def
      deleteBackupURL_eq urlOf_def bm_operation_sent deletionError_def)

lemma deletionError_shown:
  assumes "bl_decodeMap (bm_library c) t = Inr m" "stringEntry m ''description'' = Some d"
    and "400 \<le> rs_StatusCode resp" "rs_StatusCode resp < 500" "rs_Body resp = Inr t"
  shows "convertAndLog (Some (Errorf p (HandleHttpError (deletionError c resp)))) =
    Some (if rs_StatusCode resp = 423 \<or> rs_StatusCode resp = 400 then ErrInternal else PlainUserErr d)"
proof (cases "rs_StatusCode resp = 423 \<or> rs_StatusCode resp = 400")
  case True
  then show ?thesis
    by (auto simp: deletionError_def HandleHttpError_def convertAndLog_def errorsAs_def)
next
  case False
  have "bm_handleFailureResponse c resp = BackupHTTP \<lparr>he_StatusCode = rs_StatusCode resp,
      he_ErrorMessage = stringEntry m ''error'', he_Description = Some d, he_ResponseError = None\<rparr>"
    using assms(1,2,5) by (simp add: bm_handleFailureResponse_def unmarshalResponse_def)
  then have "errorsAs asOsbHTTP (deletionError c resp) = None"
      "userInput (errorsAs asBackupHTTP (deletionError c resp)) = Some d"
    using False assms(3,4) by (simp_all add: deletionError_def errorsAs_def)
  then show ?thesis
    using False by (simp add: convert_backup_error)
qed

text \<open>The size that the manager sends is an \<open>int\<close>; the status keeps it modulo \<open>2 ^ 64\<close>.\<close>

lemma observed_size: "uint (bo_SizeInBytes (bm_GenerateObservation r b)) = gbs_Size r mod 2 ^ 64"
  by (simp add: bm_GenerateObservation_def uint_word_of_int)

end
