(* ===== verification/Restore_Controller.thy ===== *)
theory Restore_Controller
  imports Backup_Controller
begin

text \<open>
  The restore controller of provider-anynines: the managed resource (\<open>apis/restore/v1\<close>), the conversion of
  an answer into an observation (\<open>pkg/client/backupmanager\<close>) and the external client
  (\<open>internal/controller/restore\<close>). A restore takes the IDs of its instance and of its backup from the status of
  the Backup that it names and is started once at the Backup Manager. The manager cannot delete a restore, so
  \<open>Observe\<close> decides when a resource under deletion may go: \<open>checkForDeletion\<close>.

  \<^item> \<open>rs_external\<close> has the client and, as parameters, the check of the label selector, the list of Backups that
    the Kubernetes API answers and crossplane's \<open>SetConditions\<close>.
  \<^item> The statuses of \<open>apis/restore/v1\<close> have the names and the values of those of \<open>apis/backup/v1\<close>; the
    constants of \<open>Backup_Controller\<close> stand for both.

  The lemmas show that an observation without error leaves both IDs set, which \<open>Create\<close> dereferences, which backup
  a new restore uses, that the ID of a restore survives in the annotation, and when a resource under deletion
  is released.
\<close>

section \<open>The managed resource\<close>

record RestoreObservation =
  ro_InstanceID :: string
  ro_BackupID :: "int option"
  ro_RestoreID :: "int option"
  ro_State :: string
  ro_TriggeredAt :: string
  ro_FinishedAt :: string

record Restore =
  rt_Name :: string
  rt_Labels :: "(string, string) fmap"
  rt_Annotations :: "(string, string) fmap option"
  rt_DeletionTimestamp :: "time option"
  rt_BackupName :: string
  rt_Conditions :: "xp_condition list"
  rt_AtProvider :: RestoreObservation

datatype managed_restore = ManagedRestore Restore | NotARestore

record rs_external =
  re_service :: bm_client
  re_selectorError :: "string \<Rightarrow> string \<Rightarrow> go_err option"
  re_listBackups :: "bm_world \<Rightarrow> string \<Rightarrow> string \<Rightarrow> go_err + Backup list"
  re_SetConditions :: "xp_condition list \<Rightarrow> xp_condition \<Rightarrow> xp_condition list"

definition AnnotationKeyRestoreID :: string where
  [klutch_defs]: "AnnotationKeyRestoreID = ''anynines.crossplane.io/restore-id''"

section \<open>Status\<close>

definition getBackupManagedResource :: "rs_external \<Rightarrow> bm_world \<Rightarrow> Restore \<Rightarrow> go_err + Backup" where
  "getBackupManagedResource E w rst =
     (let ns = entry (Some (rt_Labels rst)) LabelKeyClaimNamespace in
      case re_selectorError E (rt_BackupName rst) ns of
        Some e \<Rightarrow> Inl (Errorf
          ''cannot create new restore, failed to create label selector for backup managed resources'' e)
      | None \<Rightarrow>
          (case re_listBackups E w (rt_BackupName rst) ns of
             Inl e \<Rightarrow> Inl (Errorf ''cannot create new restore, failed to list backup managed resource'' e)
           | Inr backups \<Rightarrow> ToBackup backups (rt_Name rst) ''cannot create new restore''))"

definition getBackupDetails :: "rs_external \<Rightarrow> bm_world \<Rightarrow> Restore \<Rightarrow> go_err + (string \<times> int option)" where
  "getBackupDetails E w rst =
     (case getBackupManagedResource E w rst of
        Inl e \<Rightarrow> Inl e
      | Inr backup \<Rightarrow>
          (if bo_InstanceID (bk_AtProvider backup) = '''' \<or> bo_BackupID (bk_AtProvider backup) = None
           then Inl (ErrorString ''backup is not ready'')
           else Inr (bo_InstanceID (bk_AtProvider backup), bo_BackupID (bk_AtProvider backup))))"

definition errRestoreStatusIsUnset :: go_err where
  "errRestoreStatusIsUnset = ErrorString ''restore status field is unset, setting required values''"

definition withBackupDetails :: "string \<Rightarrow> int option \<Rightarrow> Restore \<Rightarrow> Restore" where
  "withBackupDetails inst bid rst =
     rst\<lparr>rt_AtProvider := (rt_AtProvider rst)\<lparr>ro_InstanceID := inst, ro_BackupID := bid\<rparr>\<rparr>"

definition initializeRestoreStatus :: "rs_external \<Rightarrow> bm_world \<Rightarrow> Restore \<Rightarrow> go_err option \<times> Restore" where
  "initializeRestoreStatus E w rst =
     (if ro_InstanceID (rt_AtProvider rst) = '''' \<or> ro_BackupID (rt_AtProvider rst) = None
      then (case getBackupDetails E w rst of
              Inl e \<Rightarrow> (Some e, rst)
            | Inr (inst, bid) \<Rightarrow> (Some errRestoreStatusIsUnset, withBackupDetails inst bid rst))
      else (None, rst))"

definition GenerateBackupRestoreObservation :: "GetRestoreResponse \<Rightarrow> Restore \<Rightarrow> RestoreObservation" where
  "GenerateBackupRestoreObservation r rst =
     \<lparr>ro_InstanceID = ro_InstanceID (rt_AtProvider rst), ro_BackupID = ro_BackupID (rt_AtProvider rst),
      ro_RestoreID = grs_RestoreID r, ro_State = grs_Status r, ro_TriggeredAt = grs_TriggeredAt r,
      ro_FinishedAt = grs_FinishedAt r\<rparr>"

text \<open>The raw string of the source spans two lines, with the quotes, the plus and the tabs in between.\<close>

definition rs_errUnknownState :: "string \<Rightarrow> go_err" where
  "rs_errUnknownState st = ErrorString (Sprintf
     (''cannot determine state of restore: a9s Backup Manager returned unknown status \"%s\"''
      @ [CHR 0x27] @ '' +'' @ [CHR 0x0A, CHR 0x09, CHR 0x09, CHR 0x27]
      @ ''. Known statuses are \"queued\", \"running\", \"done\", \"failed\" and \"deleted\"'') [FStr st])"

definition restoreCondition :: "string \<Rightarrow> xp_condition" where
  "restoreCondition st =
     (if st = StatusQueued then Creating
      else if st = StatusRunning then Creating
      else if st = StatusDone then WithMessage Available ''Restore completed successfully''
      else if st = StatusFailed then WithMessage Unavailable ''Restore has failed''
      else if st = StatusDeleted then WithMessage Unavailable ''Restore has been deleted''
      else ReconcileError (rs_errUnknownState st))"

definition rs_setConditions :: "rs_external \<Rightarrow> Restore \<Rightarrow> Restore" where
  "rs_setConditions E rst =
     rst\<lparr>rt_Conditions := re_SetConditions E (rt_Conditions rst) (restoreCondition (ro_State (rt_AtProvider rst)))\<rparr>"

definition errRestoreQueued :: go_err where
  "errRestoreQueued = PlainUserErr ''cannot delete restore that is still queued''"

definition errRestoreRunning :: go_err where
  "errRestoreRunning = PlainUserErr ''cannot delete restore that is still running''"

text \<open>The switch over the state in \<open>checkForDeletion\<close> and in \<open>Delete\<close>.\<close>

definition stillBusy :: "string \<Rightarrow> go_err option" where
  "stillBusy st =
     (if st = StatusQueued then Some errRestoreQueued
      else if st = StatusRunning then Some errRestoreRunning
      else None)"

definition checkForDeletion :: "Restore \<Rightarrow> bool \<times> go_err option" where
  "checkForDeletion rst =
     (if rt_DeletionTimestamp rst = None then (False, None)
      else (True, stillBusy (ro_State (rt_AtProvider rst))))"

section \<open>The external client\<close>

definition errNotRestore :: go_err where
  "errNotRestore = ErrorString (''something went wrong with crossplane as managed resource ''
     @ ''reconciled is not a Restore custom resource, THIS SHOULD NOT HAPPEN'')"

type_synonym rs_handled = "ExternalObservation go_result \<times> managed_restore \<times> bm_world"

definition rs_observed :: "rs_external \<Rightarrow> GetRestoreResponse \<Rightarrow> Restore \<Rightarrow> bm_world \<Rightarrow> rs_handled" where
  "rs_observed E resp rst0 w =
     (let rst = rs_setConditions E (rst0\<lparr>rt_AtProvider := GenerateBackupRestoreObservation resp rst0\<rparr>) in
      case checkForDeletion rst of
        (True, err) \<Rightarrow> (Return noObservation err, ManagedRestore rst, w)
      | (False, _) \<Rightarrow>
          (Return \<lparr>eo_ResourceExists = True, eo_ResourceUpToDate = True\<rparr> None, ManagedRestore rst, w))"

definition resolveRestoreID :: "Restore \<Rightarrow> go_err + (int \<times> Restore)" where
  "resolveRestoreID rst =
     (case ro_RestoreID (rt_AtProvider rst) of
        Some i \<Rightarrow> Inr (i, rst)
      | None \<Rightarrow>
          (let s = entry (rt_Annotations rst) AnnotationKeyRestoreID in
           case Atoi s of
             None \<Rightarrow> Inl (numError s)
           | Some i \<Rightarrow> Inr (i, rst\<lparr>rt_AtProvider := (rt_AtProvider rst)\<lparr>ro_RestoreID := Some i\<rparr>\<rparr>)))"

definition getRestoreRequest :: "int \<Rightarrow> Restore \<Rightarrow> GetRestoreRequest" where
  "getRestoreRequest i rst =
     \<lparr>grq_InstanceID = ro_InstanceID (rt_AtProvider rst), grq_RestoreID = Itoa i\<rparr>"

definition RS_Observe :: "rs_external \<Rightarrow> bm_world \<Rightarrow> managed_restore \<Rightarrow> rs_handled" where
  "RS_Observe E w mg =
     (case mg of
        NotARestore \<Rightarrow> (Return noObservation (Some errNotRestore), mg, w)
      | ManagedRestore rst \<Rightarrow>
          (case initializeRestoreStatus E w rst of
             (Some e, r1) \<Rightarrow> (Return noObservation (Some e), ManagedRestore r1, w)
           | (None, r1) \<Rightarrow>
               (if entry (rt_Annotations r1) AnnotationKeyRestoreID = '''' \<and> ro_RestoreID (rt_AtProvider r1) = None
                then (Return noObservation None, ManagedRestore r1, w)
                else case resolveRestoreID r1 of
                       Inl e \<Rightarrow> (Return noObservation (Some (Errorf ''cannot get Restore'' e)), ManagedRestore r1, w)
                     | Inr (i, r2) \<Rightarrow>
                         (case GetRestore (re_service E) w (getRestoreRequest i r2) of
                            ((_, Some e), w') \<Rightarrow>
                              (Return noObservation (Some (Errorf ''cannot get Restore'' (HandleHttpError e))),
                               ManagedRestore r2, w')
                          | ((None, None), w') \<Rightarrow> (Panic, ManagedRestore r2, w')
                          | ((Some resp, None), w') \<Rightarrow> rs_observed E resp r2 w'))))"

definition withRestoreID :: "int \<Rightarrow> Restore \<Rightarrow> Restore" where
  "withRestoreID i rst =
     rst\<lparr>rt_Annotations := withAnnotation AnnotationKeyRestoreID (Itoa i) (rt_Annotations rst)\<rparr>"

definition createRestoreRequest :: "int \<Rightarrow> Restore \<Rightarrow> CreateRestoreRequest" where
  "createRestoreRequest j rst =
     \<lparr>crq_InstanceID = ro_InstanceID (rt_AtProvider rst), crq_BackupID = Itoa j\<rparr>"

text \<open>\<open>*rst.Status.AtProvider.BackupID\<close> and \<open>*response.RestoreID\<close> panic on nil.\<close>

definition RS_Create ::
  "rs_external \<Rightarrow> bm_world \<Rightarrow> managed_restore \<Rightarrow> unit go_result \<times> managed_restore \<times> bm_world" where
  "RS_Create E w mg =
     (case mg of
        NotARestore \<Rightarrow> (failWith errNotRestore, mg, w)
      | ManagedRestore rst \<Rightarrow>
          (case ro_BackupID (rt_AtProvider rst) of
             None \<Rightarrow> (Panic, mg, w)
           | Some j \<Rightarrow>
               (case CreateRestore (re_service E) w (createRestoreRequest j rst) of
                  ((_, Some e), w') \<Rightarrow> (failWith (Errorf ''cannot create new restore'' (HandleHttpError e)), mg, w')
                | ((None, None), w') \<Rightarrow> (Panic, mg, w')
                | ((Some resp, None), w') \<Rightarrow>
                    (case crs_RestoreID resp of
                       None \<Rightarrow> (Panic, mg, w')
                     | Some i \<Rightarrow> (Return () None, ManagedRestore (withRestoreID i rst), w')))))"

definition RS_Update ::
  "bm_world \<Rightarrow> managed_restore \<Rightarrow> unit go_result \<times> managed_restore \<times> bm_world" where
  "RS_Update w mg =
     (case mg of NotARestore \<Rightarrow> (failWith errNotRestore, mg, w) | ManagedRestore rst \<Rightarrow> (Return () None, mg, w))"

definition RS_Delete ::
  "bm_world \<Rightarrow> managed_restore \<Rightarrow> unit go_result \<times> managed_restore \<times> bm_world" where
  "RS_Delete w mg =
     (case mg of
        NotARestore \<Rightarrow> (failWith errNotRestore, mg, w)
      | ManagedRestore rst \<Rightarrow> (Return () (stillBusy (ro_State (rt_AtProvider rst))), mg, w))"

section \<open>What an observation leaves behind\<close>

text \<open>Both IDs of the backup are known.\<close>

definition rs_initialized :: "Restore \<Rightarrow> bool" where
  "rs_initialized r \<longleftrightarrow> ro_InstanceID (rt_AtProvider r) \<noteq> '''' \<and> ro_BackupID (rt_AtProvider r) \<noteq> None"

lemma initialized_init [simp]: "rs_initialized r \<Longrightarrow> initializeRestoreStatus E w r = (None, r)"
  by (auto simp: rs_initialized_def initializeRestoreStatus_def)

lemma init_None_initialized: "initializeRestoreStatus E w r = (None, r') \<Longrightarrow> r' = r \<and> rs_initialized r"
  by (auto simp: rs_initialized_def initializeRestoreStatus_def split: if_splits sum.splits)

lemma rs_setConditions_frame [simp]:
  "rt_AtProvider (rs_setConditions E r) = rt_AtProvider r"
  "rt_Annotations (rs_setConditions E r) = rt_Annotations r"
  "rt_DeletionTimestamp (rs_setConditions E r) = rt_DeletionTimestamp r"
  by (simp_all add: rs_setConditions_def)

text \<open>The resource that \<open>Observe\<close> leaves when the manager has answered.\<close>

definition rs_after :: "rs_external \<Rightarrow> GetRestoreResponse \<Rightarrow> Restore \<Rightarrow> Restore" where
  "rs_after E resp r = rs_setConditions E (r\<lparr>rt_AtProvider := GenerateBackupRestoreObservation resp r\<rparr>)"

lemma rs_after_simps [simp]:
  "rt_DeletionTimestamp (rs_after E resp r) = rt_DeletionTimestamp r"
  "ro_State (rt_AtProvider (rs_after E resp r)) = grs_Status resp"
  "ro_RestoreID (rt_AtProvider (rs_after E resp r)) = grs_RestoreID resp"
  "rs_initialized (rs_after E resp r) = rs_initialized r"
  by (simp_all add: rs_after_def GenerateBackupRestoreObservation_def rs_initialized_def)

lemma rs_observed_eq:
  "rs_observed E resp r w =
     (if rt_DeletionTimestamp r = None
      then (Return \<lparr>eo_ResourceExists = True, eo_ResourceUpToDate = True\<rparr> None, ManagedRestore (rs_after E resp r), w)
      else (Return noObservation (stillBusy (grs_Status resp)), ManagedRestore (rs_after E resp r), w))"
  by (simp add: rs_observed_def rs_after_def [symmetric] checkForDeletion_def Let_def)

lemma resolveRestoreID_frame:
  "resolveRestoreID r = Inr (i, r') \<Longrightarrow>
     r' = r\<lparr>rt_AtProvider := (rt_AtProvider r)\<lparr>ro_RestoreID := Some i\<rparr>\<rparr>"
  by (auto simp: resolveRestoreID_def Let_def split: option.splits)

lemma resolve_initialized: "resolveRestoreID r = Inr (i, r') \<Longrightarrow> rs_initialized r' = rs_initialized r"
  by (drule resolveRestoreID_frame) (simp add: rs_initialized_def)

lemma observe_initialized:
  assumes "RS_Observe E w (ManagedRestore r) = (Return x None, mg, w')"
  shows "\<exists>r'. mg = ManagedRestore r' \<and> rs_initialized r'"
proof -
  obtain e r1 where i: "initializeRestoreStatus E w r = (e, r1)"
    by fastforce
  with assms have "e = None"
    by (cases e) (auto simp: RS_Observe_def)
  with i have r1: "r1 = r" "rs_initialized r"
    using init_None_initialized by blast+
  with assms show ?thesis
    by (auto simp: RS_Observe_def rs_observed_eq dest: resolve_initialized
        split: prod.splits option.splits sum.splits if_splits)
qed

section \<open>The backup that a restore uses\<close>

lemma create_sends:
  assumes "rs_initialized r" "ro_BackupID (rt_AtProvider r) = Some j" "int64_range j"
    and "bl_newRequest (bm_library (re_service E))
           (createRestoreURL (re_service E) (ro_InstanceID (rt_AtProvider r)) (Itoa j)) = None"
  shows "snd (snd (RS_Create E w (ManagedRestore r))) =
    w @ [plainRequest (re_service E) POST
           (createRestoreURL (re_service E) (ro_InstanceID (rt_AtProvider r)) (Itoa j))]"
  using assms
  by (simp add: RS_Create_def createRestoreRequest_def CreateRestore_def bm_operation_sent rs_initialized_def
      split: prod.split option.split sum.split)

lemma first_observe:
  assumes "\<not> rs_initialized r" "getBackupManagedResource E w r = Inr bk"
    and "bo_InstanceID (bk_AtProvider bk) = inst" "inst \<noteq> ''''" "bo_BackupID (bk_AtProvider bk) = Some j"
  shows "RS_Observe E w (ManagedRestore r) =
    (Return noObservation (Some errRestoreStatusIsUnset), ManagedRestore (withBackupDetails inst (Some j) r), w)"
  using assms
  by (auto simp: RS_Observe_def initializeRestoreStatus_def getBackupDetails_def rs_initialized_def)

lemma withBackupDetails_simps [simp]:
  "ro_InstanceID (rt_AtProvider (withBackupDetails inst bid r)) = inst"
  "ro_BackupID (rt_AtProvider (withBackupDetails inst bid r)) = bid"
  "ro_RestoreID (rt_AtProvider (withBackupDetails inst bid r)) = ro_RestoreID (rt_AtProvider r)"
  "rt_Annotations (withBackupDetails inst bid r) = rt_Annotations r"
  "rs_initialized (withBackupDetails inst bid r) \<longleftrightarrow> inst \<noteq> '''' \<and> bid \<noteq> None"
  by (simp_all add: withBackupDetails_def rs_initialized_def)

lemma observe_unstarted:
  assumes "rs_initialized r" "ro_RestoreID (rt_AtProvider r) = None"
    and "entry (rt_Annotations r) AnnotationKeyRestoreID = ''''"
  shows "RS_Observe E w (ManagedRestore r) = (Return noObservation None, ManagedRestore r, w)"
  using assms by (simp add: RS_Observe_def)

section \<open>The ID of a restore, and its end\<close>

definition rs_ready :: "Restore \<Rightarrow> int \<Rightarrow> bool" where
  "rs_ready r i \<longleftrightarrow> rs_initialized r \<and>
     (case ro_RestoreID (rt_AtProvider r) of
        None \<Rightarrow> Atoi (entry (rt_Annotations r) AnnotationKeyRestoreID) = Some i
      | Some k \<Rightarrow> k = i)"

definition rs_url :: "rs_external \<Rightarrow> Restore \<Rightarrow> int \<Rightarrow> string" where
  "rs_url E r i = restoreURL (re_service E) (ro_InstanceID (rt_AtProvider r)) (Itoa i)"

definition rs_identified :: "int \<Rightarrow> Restore \<Rightarrow> Restore" where
  "rs_identified i r = r\<lparr>rt_AtProvider := (rt_AtProvider r)\<lparr>ro_RestoreID := Some i\<rparr>\<rparr>"

lemma rs_identified_simps [simp]:
  "rt_DeletionTimestamp (rs_identified i r) = rt_DeletionTimestamp r"
  "getRestoreRequest k (rs_identified i r) = getRestoreRequest k r"
  by (simp_all add: rs_identified_def getRestoreRequest_def)

lemma Atoi_Nil [simp]: "Atoi '''' = None"
  by (simp add: Atoi_def parseUnsigned_def)

lemma rs_resolve_ready:
  assumes "rs_ready r i"
  shows "resolveRestoreID r = Inr (i, rs_identified i r)"
    and "\<not> (entry (rt_Annotations r) AnnotationKeyRestoreID = '''' \<and> ro_RestoreID (rt_AtProvider r) = None)"
  using assms
  by (auto simp: rs_ready_def resolveRestoreID_def rs_identified_def Let_def split: option.splits)

text \<open>What \<open>Observe\<close> does with a restore that has been started, by the answer of the manager.\<close>

lemma rs_observe_ready:
  assumes "rs_ready r i" "int64_range i" "bl_newRequest (bm_library (re_service E)) (rs_url E r i) = None"
  shows "RS_Observe E w (ManagedRestore r) =
    (case bm_do (re_service E) w (plainRequest (re_service E) GET (rs_url E r i)) of
       Inl e \<Rightarrow> (Return noObservation (Some (Errorf ''cannot get Restore'' (HandleHttpError e))),
                 ManagedRestore (rs_identified i r), w @ [plainRequest (re_service E) GET (rs_url E r i)])
     | Inr resp \<Rightarrow>
         (case okOrFailure (re_service E) (bl_decodeGetRestore (bm_library (re_service E))) resp of
            (_, Some e) \<Rightarrow>
              (Return noObservation (Some (Errorf ''cannot get Restore'' (HandleHttpError e))),
               ManagedRestore (rs_identified i r), w @ [plainRequest (re_service E) GET (rs_url E r i)])
          | (None, None) \<Rightarrow>
              (Panic, ManagedRestore (rs_identified i r), w @ [plainRequest (re_service E) GET (rs_url E r i)])
          | (Some x, None) \<Rightarrow>
              rs_observed E x (rs_identified i r) (w @ [plainRequest (re_service E) GET (rs_url E r i)])))"
proof -
  have init: "rs_initialized r" and inst: "ro_InstanceID (rt_AtProvider r) \<noteq> ''''"
    using assms(1) by (simp_all add: rs_ready_def rs_initialized_def)
  have "GetRestore (re_service E) w (getRestoreRequest i r) =
    (case bm_do (re_service E) w (plainRequest (re_service E) GET (rs_url E r i)) of
       Inl e \<Rightarrow> ((None, Some e), w @ [plainRequest (re_service E) GET (rs_url E r i)])
     | Inr resp \<Rightarrow> (okOrFailure (re_service E) (bl_decodeGetRestore (bm_library (re_service E))) resp,
                    w @ [plainRequest (re_service E) GET (rs_url E r i)]))"
    using assms(2,3) inst by (simp add: GetRestore_def getRestoreRequest_def rs_url_def bm_operation_sent split: sum.split)
  then show ?thesis
    using rs_resolve_ready [OF assms(1)] init
    by (auto simp: RS_Observe_def split: sum.split prod.split option.split)
qed

text \<open>The state that the manager reports, when it answers with status 200 and a body that can be read.\<close>

definition reportedState :: "rs_external \<Rightarrow> Restore \<Rightarrow> int \<Rightarrow> bm_world \<Rightarrow> string option" where
  "reportedState E r i w =
     (case bm_do (re_service E) w (plainRequest (re_service E) GET (rs_url E r i)) of
        Inl _ \<Rightarrow> None
      | Inr resp \<Rightarrow>
          (if rs_StatusCode resp \<noteq> 200 then None
           else case rs_Body resp of
                  Inl _ \<Rightarrow> None
                | Inr t \<Rightarrow>
                    (case bl_decodeGetRestore (bm_library (re_service E)) t of
                       Inl _ \<Rightarrow> None
                     | Inr x \<Rightarrow> Some (grs_Status x))))"

lemma stillBusy_None: "stillBusy st = None \<longleftrightarrow> st \<noteq> StatusQueued \<and> st \<noteq> StatusRunning"
  by (simp add: stillBusy_def)

lemma rs_released_iff:
  assumes "rs_ready r i" "int64_range i" "bl_newRequest (bm_library (re_service E)) (rs_url E r i) = None"
  shows "fst (RS_Observe E w (ManagedRestore r)) = Return noObservation None \<longleftrightarrow>
    rt_DeletionTimestamp r \<noteq> None \<and>
    (\<exists>st. reportedState E r i w = Some st \<and> st \<noteq> StatusQueued \<and> st \<noteq> StatusRunning)"
  by (auto simp: rs_observe_ready [OF assms] reportedState_def rs_observed_eq okOrFailure_def bm_decoded_def
      unmarshalResponse_def stillBusy_None noObservation_def split: sum.split option.split)

end
