(* ===== verification/Backup_Properties.thy ===== *)
theory Backup_Properties
  imports Restore_Controller
begin

text \<open>
  The properties of the Backup Manager client and of the controllers of backups and restores, each with a witness on
  a small manager: which backup the requests are about, when a resource is gone, what the user is told and what a
  restore uses.
\<close>

section \<open>A manager for the witnesses\<close>

text \<open>It starts backup 7 and restore 9; the body of an answer to a \<open>GET\<close> is the status; \<open>code\<close> answers a deletion.\<close>

definition sampleLibrary :: bm_library where
  "sampleLibrary = \<lparr>bl_transport = (\<lambda>_ _ _ _. Inl ErrInternal), bl_parsesPEM = (\<lambda>_. False), bl_newRequest = (\<lambda>_. None),
     bl_decodeMap = (\<lambda>t. Inr (fmupd ''description'' (JStr t) fmempty)),
     bl_decodeCreateBackup = (\<lambda>_. Inr \<lparr>cbs_BackupID = Some 7, cbs_Message = None\<rparr>),
     bl_decodeGetBackup = (\<lambda>t. Inr \<lparr>gbs_BackupID = Some 7, gbs_Size = 0, gbs_Status = t, gbs_TriggeredAt = '''',
        gbs_FinishedAt = '''', gbs_Downloadable = False\<rparr>),
     bl_decodeGetBackups = (\<lambda>_. Inr []), bl_decodeInstanceConfig = (\<lambda>t. Inl t), bl_decodeUpdateConfig = (\<lambda>t. Inl t),
     bl_decodeCreateRestore = (\<lambda>_. Inr \<lparr>crs_RestoreID = Some 9\<rparr>),
     bl_decodeGetRestore = (\<lambda>t. Inr \<lparr>grs_RestoreID = Some 9, grs_BackupID = Some 7, grs_Status = t,
        grs_TriggeredAt = '''', grs_FinishedAt = ''''\<rparr>),
     bl_decodeGetRestores = (\<lambda>_. Inr []), bl_decodeDeleteBackup = (\<lambda>_. Inr \<lparr>dbs_Message = None\<rparr>)\<rparr>"

definition sampleManager :: "string \<Rightarrow> int \<Rightarrow> bm_client" where
  "sampleManager st code = \<lparr>bm_Name = ''manager'', bm_URL = ''http://manager'', bm_AuthConfig = None, bm_Verbose = False,
     bm_do = (\<lambda>w rq. Inr (case mq_Method rq of
        POST \<Rightarrow> \<lparr>rs_StatusCode = 201, rs_Body = Inr ''''\<rparr>
      | DELETE \<Rightarrow> \<lparr>rs_StatusCode = code, rs_Body = Inr ''busy''\<rparr>
      | _ \<Rightarrow> \<lparr>rs_StatusCode = 200, rs_Body = Inr st\<rparr>)),
     bm_library = sampleLibrary\<rparr>"

definition sampleBackup :: Backup where
  "sampleBackup = \<lparr>bk_Name = ''nightly'', bk_Labels = fmempty, bk_Annotations = None,
     bk_ForProvider = \<lparr>bp_InstanceName = ''db'', bp_EncryptionKey = '''', bp_ExcludeFromAutoBackup = None,
        bp_CredentialsUpdatedByUser = None\<rparr>, bk_Conditions = [],
     bk_AtProvider = \<lparr>bo_InstanceID = ''i1'', bo_BackupID = None, bo_SizeInBytes = 0, bo_Status = '''',
        bo_TriggeredAt = '''', bo_FinishedAt = '''', bo_Downloadable = False\<rparr>\<rparr>"

definition sampleBackups :: "string \<Rightarrow> int \<Rightarrow> bk_external" where
  "sampleBackups st code = \<lparr>be_Client = sampleManager st code, be_selectorError = (\<lambda>_ _. None),
     be_listInstances = (\<lambda>_ _ _. Inr []), be_SetConditions = (\<lambda>cs c. c # cs)\<rparr>"

definition sampleRestore :: Restore where
  "sampleRestore = \<lparr>rt_Name = ''undo'', rt_Labels = fmempty, rt_Annotations = None, rt_DeletionTimestamp = None,
     rt_BackupName = ''nightly'', rt_Conditions = [],
     rt_AtProvider = \<lparr>ro_InstanceID = '''', ro_BackupID = None, ro_RestoreID = None, ro_State = '''',
        ro_TriggeredAt = '''', ro_FinishedAt = ''''\<rparr>\<rparr>"

definition sampleRestores :: "string \<Rightarrow> rs_external" where
  "sampleRestores st = \<lparr>re_service = sampleManager st 200, re_selectorError = (\<lambda>_ _. None),
     re_listBackups = (\<lambda>_ _ _. Inr [identified 7 sampleBackup]), re_SetConditions = (\<lambda>cs c. c # cs)\<rparr>"

lemmas manager_samples = sampleLibrary_def sampleManager_def sampleBackup_def sampleBackups_def sampleRestore_def
  sampleRestores_def

lemma seven_ready: "bk_ready (withBackupID 7 sampleBackup) 7" "bo_InstanceID (bk_AtProvider sampleBackup) = ''i1''"
  by (rule ready_withBackupID; simp add: sampleBackup_def int64_range_def) (simp add: sampleBackup_def)

section \<open>Backups\<close>

text \<open>C25: the identity of a backup survives the round trip through the resource, when it is created for the first time: its status has
  no backup ID yet (\<open>bo_BackupID\<close>). When \<open>Create\<close> succeeds, the manager has
  answered with an ID, and from then on \<open>Observe\<close> sends exactly one request, a \<open>GET\<close> of the URL of that backup of
  the instance, and \<open>Delete\<close> exactly one, a \<open>DELETE\<close> of the same URL, although the ID went through
  the text of an annotation. A backup that is created again keeps the ID of its status, and is then asked for under the old ID. The
  other hypotheses are that the IDs which the manager answers are 64-bit integers and that the HTTP requests can be built.
\<close>

theorem backup_id_roundtrip:
  assumes "BK_Create E w (ManagedBackup b) = (Return () None, mg, w')"
    and "bo_BackupID (bk_AtProvider b) = None"
    and "\<And>t x i. bl_decodeCreateBackup (bm_library (be_Client E)) t = Inr x \<Longrightarrow> cbs_BackupID x = Some i \<Longrightarrow> int64_range i"
    and "\<And>url. bl_newRequest (bm_library (be_Client E)) url = None"
  shows "\<exists>t x i. bl_decodeCreateBackup (bm_library (be_Client E)) t = Inr x \<and> cbs_BackupID x = Some i \<and>
    (\<forall>v. snd (snd (BK_Observe E v mg)) = v @ [plainRequest (be_Client E) GET (urlOf E b i)]) \<and>
    (\<forall>v. snd (snd (BK_Delete E v mg)) = v @ [plainRequest (be_Client E) DELETE (urlOf E b i)])"
proof -
  obtain x i where c: "CreateBackup (be_Client E) w (createBackupRequest b) = ((Some x, None), w')"
      "cbs_BackupID x = Some i" "mg = ManagedBackup (withBackupID i b)"
    using assms(1) by (rule create_annotates)
  obtain t where t: "bo_InstanceID (bk_AtProvider b) \<noteq> ''''" "bl_decodeCreateBackup (bm_library (be_Client E)) t = Inr x"
    using c(1) by (rule CreateBackup_success) (simp add: createBackupRequest_def)
  have i: "int64_range i"
    using assms(3) t(2) c(2) by blast
  have ready: "bk_ready (withBackupID i b) i"
    using assms(2) t(1) i by (rule ready_withBackupID)
  have "urlOf E (withBackupID i b) i = urlOf E b i"
    by (simp add: urlOf_def)
  then show ?thesis
    using t(2) c(2,3) observe_asks [OF ready i assms(4)] delete_asks [OF ready assms(4)] by auto
qed

theorem backup_id_roundtrip_witness:
  "\<exists>i. snd (snd (BK_Observe (sampleBackups ''done'' 200) [] (ManagedBackup (withBackupID 7 sampleBackup)))) =
    [plainRequest (be_Client (sampleBackups ''done'' 200)) GET (urlOf (sampleBackups ''done'' 200) sampleBackup i)]"
proof -
  have "BK_Create (sampleBackups ''done'' 200) [] (ManagedBackup sampleBackup) =
      (Return () None, ManagedBackup (withBackupID 7 sampleBackup),
       [plainRequest (be_Client (sampleBackups ''done'' 200)) POST
          (instanceBackupURL (be_Client (sampleBackups ''done'' 200)) ''i1'')])"
    by (simp add: BK_Create_def CreateBackup_def createBackupRequest_def requireInstanceID_def bm_operation_sent
        bm_decoded_def unmarshalResponse_def manager_samples plainRequest_def)
  from backup_id_roundtrip [OF this] show ?thesis
    by (fastforce simp: manager_samples int64_range_def)
qed

text \<open>C26: an observation reports a backup as gone if and only if the manager answers the \<open>GET\<close> with status 200 and a body whose
  status is \<open>deleted\<close>. An answer that the backup is not found, or any other failure, is never taken for
  its absence.
\<close>

theorem backup_gone_iff_deleted:
  assumes "bk_ready b i" "int64_range i" "bl_newRequest (bm_library (be_Client E)) (urlOf E b i) = None"
  shows "fst (BK_Observe E w (ManagedBackup b)) = Return noObservation None \<longleftrightarrow> answersDeleted E b i w"
  using assms by (rule observe_gone_iff)

theorem backup_gone_iff_deleted_witness:
  "fst (BK_Observe (sampleBackups ''deleted'' 200) [] (ManagedBackup (withBackupID 7 sampleBackup))) = Return noObservation None \<and>
   fst (BK_Observe (sampleBackups ''done'' 200) [] (ManagedBackup (withBackupID 7 sampleBackup))) \<noteq> Return noObservation None"
  using backup_gone_iff_deleted [OF seven_ready(1), of "sampleBackups ''deleted'' 200" "[]"]
    backup_gone_iff_deleted [OF seven_ready(1), of "sampleBackups ''done'' 200" "[]"]
  by (simp add: int64_range_def answersDeleted_def manager_samples plainRequest_def StatusDeleted_def)

text \<open>A backup that the manager has deleted is requested anew in every reconciliation, for ever. The status keeps the ID of the
  deleted backup, which has precedence over the ID of the new one in the annotation, so after \<open>n\<close> rounds the manager has
  been asked for \<open>n\<close> more backups.
\<close>

lemma deleted_backup_recreated_every_round:
  assumes "deletedAtManager E inst i" "int64_range i" "stuckOn inst i mg"
  shows "creations (snd (bk_rounds E n w mg)) = creations w + n"
  using assms by (rule stuck_rounds)

lemma deleted_backup_recreated_every_round_example:
  "creations (snd (bk_rounds (sampleBackups ''deleted'' 200) 5 []
     (ManagedBackup (withBackupID 7 (identified 7 sampleBackup))))) = 5"
proof -
  have "deletedAtManager (sampleBackups ''deleted'' 200) ''i1'' 7"
    by (auto simp: deletedAtManager_def manager_samples plainRequest_def StatusDeleted_def)
  moreover have "stuckOn ''i1'' 7 (ManagedBackup (withBackupID 7 (identified 7 sampleBackup)))"
    by (simp add: stuckOn_def seven_ready(2))
  ultimately have "creations (snd (bk_rounds (sampleBackups ''deleted'' 200) 5 []
      (ManagedBackup (withBackupID 7 (identified 7 sampleBackup))))) = creations [] + 5"
    by (intro deleted_backup_recreated_every_round) (simp_all add: int64_range_def)
  then show ?thesis
    by simp
qed

text \<open>What the user sees of a refused deletion. The description in the manager's answer is shown for every status from
  400 to 499 but two: for a locked backup (423) and for a failed deletion of the file (400) the user is told
  only that there was an internal error, because these errors keep the text of the answer and not the error.
\<close>

lemma refused_deletion_reason:
  assumes "bk_ready b i" "bl_newRequest (bm_library (be_Client E)) (urlOf E b i) = None"
    and "bm_do (be_Client E) w (plainRequest (be_Client E) DELETE (urlOf E b i)) = Inr resp"
    and "400 \<le> rs_StatusCode resp" "rs_StatusCode resp < 500" "rs_Body resp = Inr t"
    and "bl_decodeMap (bm_library (be_Client E)) t = Inr m" "stringEntry m ''description'' = Some d"
  shows "\<exists>e. fst (BK_Delete E w (ManagedBackup b)) = failWith e \<and>
    convertAndLog (Some e) =
      Some (if rs_StatusCode resp = 423 \<or> rs_StatusCode resp = 400 then ErrInternal else PlainUserErr d)"
  using delete_refused [OF assms(1-3)] deletionError_shown [OF assms(7,8,4-6)] assms(4) by auto

lemma refused_deletion_reason_example:
  "(\<exists>e. fst (BK_Delete (sampleBackups ''done'' 423) [] (ManagedBackup (withBackupID 7 sampleBackup))) = failWith e \<and>
      convertAndLog (Some e) = Some ErrInternal) \<and>
   (\<exists>e. fst (BK_Delete (sampleBackups ''done'' 409) [] (ManagedBackup (withBackupID 7 sampleBackup))) = failWith e \<and>
      convertAndLog (Some e) = Some (PlainUserErr ''busy''))"
  using refused_deletion_reason [OF seven_ready(1), of "sampleBackups ''done'' 423" "[]"
      "\<lparr>rs_StatusCode = 423, rs_Body = Inr ''busy''\<rparr>" "''busy''" "fmupd ''description'' (JStr ''busy'') fmempty" "''busy''"]
    refused_deletion_reason [OF seven_ready(1), of "sampleBackups ''done'' 409" "[]"
      "\<lparr>rs_StatusCode = 409, rs_Body = Inr ''busy''\<rparr>" "''busy''" "fmupd ''description'' (JStr ''busy'') fmempty" "''busy''"]
  by (simp add: manager_samples plainRequest_def stringEntry_def)

section \<open>Restores\<close>

text \<open>A restore is started from the backup that it names. The first observation takes the IDs of the instance and of the
  backup from that Backup's status and stops, the second finds that nothing was started, and \<open>Create\<close> then sends
  exactly one request, a \<open>POST\<close> for that instance and that backup; the pointer that it dereferences is set.
\<close>

lemma restore_uses_named_backup:
  assumes "\<not> rs_initialized r" "getBackupManagedResource E w r = Inr bk"
    and "bo_InstanceID (bk_AtProvider bk) \<noteq> ''''" "bo_BackupID (bk_AtProvider bk) = Some j" "int64_range j"
    and "ro_RestoreID (rt_AtProvider r) = None" "entry (rt_Annotations r) AnnotationKeyRestoreID = ''''"
    and "\<And>url. bl_newRequest (bm_library (re_service E)) url = None"
  shows "\<exists>r1. RS_Observe E w (ManagedRestore r) =
      (Return noObservation (Some errRestoreStatusIsUnset), ManagedRestore r1, w) \<and>
    RS_Observe E w (ManagedRestore r1) = (Return noObservation None, ManagedRestore r1, w) \<and>
    snd (snd (RS_Create E w (ManagedRestore r1))) =
      w @ [plainRequest (re_service E) POST
             (createRestoreURL (re_service E) (bo_InstanceID (bk_AtProvider bk)) (Itoa j))]"
proof (intro exI conjI)
  let ?r1 = "withBackupDetails (bo_InstanceID (bk_AtProvider bk)) (Some j) r"
  show "RS_Observe E w (ManagedRestore r) =
      (Return noObservation (Some errRestoreStatusIsUnset), ManagedRestore ?r1, w)"
    using assms(1-4) by (intro first_observe) auto
  have "rs_initialized ?r1"
    using assms(3) by simp
  then show "RS_Observe E w (ManagedRestore ?r1) = (Return noObservation None, ManagedRestore ?r1, w)"
    using assms(6,7) by (intro observe_unstarted) simp_all
  show "snd (snd (RS_Create E w (ManagedRestore ?r1))) =
      w @ [plainRequest (re_service E) POST
             (createRestoreURL (re_service E) (bo_InstanceID (bk_AtProvider bk)) (Itoa j))]"
    using create_sends [of ?r1 j E w] \<open>rs_initialized ?r1\<close> assms(5,8) by simp
qed

lemma restore_uses_named_backup_example:
  "\<exists>r1. snd (snd (RS_Create (sampleRestores ''queued'') [] (ManagedRestore r1))) =
     [plainRequest (sampleManager ''queued'' 200) POST (createRestoreURL (sampleManager ''queued'' 200) ''i1'' (Itoa 7))]"
proof -
  have "getBackupManagedResource (sampleRestores ''queued'') [] sampleRestore = Inr (identified 7 sampleBackup)"
    by (simp add: getBackupManagedResource_def sampleRestores_def)
  from restore_uses_named_backup [OF _ this] show ?thesis
    by (fastforce simp: rs_initialized_def manager_samples identified_def int64_range_def entry_def)
qed

text \<open>A restore that was started and whose resource is under deletion is released if and only if the manager answers with
  a state other than \<open>queued\<close> and \<open>running\<close>; while the manager cannot be asked, and while the resource is not under
  deletion, the resource stays.
\<close>

lemma restore_released_iff:
  assumes "rs_ready r i" "int64_range i" "bl_newRequest (bm_library (re_service E)) (rs_url E r i) = None"
  shows "fst (RS_Observe E w (ManagedRestore r)) = Return noObservation None \<longleftrightarrow>
    rt_DeletionTimestamp r \<noteq> None \<and>
    (\<exists>st. reportedState E r i w = Some st \<and> st \<noteq> StatusQueued \<and> st \<noteq> StatusRunning)"
  using assms by (rule rs_released_iff)

definition startedRestore :: Restore where
  "startedRestore = (withBackupDetails ''i1'' (Some 7) sampleRestore)\<lparr>rt_DeletionTimestamp := Some 1,
     rt_Annotations := Some (fmupd AnnotationKeyRestoreID (Itoa 9) fmempty)\<rparr>"

lemma restore_released_iff_example:
  "fst (RS_Observe (sampleRestores ''failed'') [] (ManagedRestore startedRestore)) = Return noObservation None \<and>
   fst (RS_Observe (sampleRestores ''running'') [] (ManagedRestore startedRestore)) \<noteq> Return noObservation None"
proof -
  have ready: "rs_ready startedRestore 9"
    by (simp add: int64_range_def rs_ready_def rs_initialized_def startedRestore_def withBackupDetails_def sampleRestore_def entry_def)
  show ?thesis
    using restore_released_iff [OF ready, of "sampleRestores ''failed''" "[]"]
      restore_released_iff [OF ready, of "sampleRestores ''running''" "[]"]
    by (simp add: int64_range_def reportedState_def startedRestore_def manager_samples plainRequest_def
        StatusQueued_def StatusRunning_def)
qed

end
