(* ===== verification/Backend_Access.thy ===== *)
theory Backend_Access
  imports Konnector_Process
begin

text \<open>
  The access control of the example backend, \<open>bind/contrib/example-backend\<close>: the controllers of
  ClusterBindings (\<open>controllers/clusterbinding\<close>) and of APIServiceNamespaces (\<open>controllers/servicenamespace\<close>) in the
  provider cluster, with \<open>kubernetes/bindings\<close>. They give the service account of a
  consumer its roles, create the namespaces of its objects and watch its heartbeat.

  The functions of the Go structs are the fields of \<open>access_reconciler\<close>. Each gets the calls made
  so far, so that an answer may depend on earlier writes; the model appends every call to that log. A lister
  returns nil with a not-found error, so the Go test \<open>role == nil\<close> is that answer. An
  error is wrapped with \<open>%w\<close> (\<open>wrapErr\<close>). Durations are 64-bit: \<open>Duration * 2\<close> wraps around
  (\<open>wrap64\<close>) and \<open>time.Since\<close> saturates (\<open>Since\<close>). How a duration and a time are printed is a parameter.

  The lemmas show which rules the cluster role of a consumer gets, that the roles and bindings of one run
  name this consumer only, what the condition Healthy says, and the commit of both controllers.
\<close>

section \<open>Roles and their bindings\<close>

record PolicyRule =
  pr_APIGroups :: "string list"
  pr_Resources :: "string list"
  pr_Verbs :: "string list"
  pr_ResourceNames :: "string list"

record Role =
  ro_Meta :: ObjectMeta
  ro_Rules :: "PolicyRule list"

record Subject =
  su_Kind :: string
  su_Namespace :: string
  su_Name :: string

record RoleRef =
  rr_APIGroup :: string
  rr_Kind :: string
  rr_Name :: string

record RoleBinding =
  rb_Meta :: ObjectMeta
  rb_Subjects :: "Subject list"
  rb_RoleRef :: RoleRef

definition serviceAccountName :: string where
  [klutch_defs]: "serviceAccountName = ''klutch-binder''"

definition ExportRuleVerbs :: "string list" where
  "ExportRuleVerbs = [''get'', ''list'', ''watch'', ''update'', ''patch'', ''delete'', ''create'']"

text \<open>The rules so far, and the map \<open>seen\<close> when there is one; the Go function mutates the map.\<close>

type_synonym rules = "PolicyRule list \<times> string set option"

definition appendPolicyRule :: "rules \<Rightarrow> string \<Rightarrow> string \<Rightarrow> string list \<Rightarrow> rules" where
  "appendPolicyRule acc grp res verbs =
     (let (rules, seen) = acc;
          rule = \<lparr>pr_APIGroups = [grp], pr_Resources = [res], pr_Verbs = verbs, pr_ResourceNames = []\<rparr>;
          key = grp @ ''/'' @ res
      in if res = '''' then acc
         else case seen of
                None \<Rightarrow> (rules @ [rule], None)
              | Some s \<Rightarrow> if key \<in> s then acc else (rules @ [rule], Some (insert key s)))"

definition AppendExportPolicyRules ::
  "rules \<Rightarrow> string \<Rightarrow> string \<Rightarrow> PermissionClaim list \<Rightarrow> string list \<Rightarrow> rules" where
  "AppendExportPolicyRules acc grp res claims verbs =
     fold (\<lambda>claim a. appendPolicyRule a (gr_Group claim) (gr_Resource claim) verbs) claims
       (appendPolicyRule acc grp res verbs)"

section \<open>The calls of the two controllers\<close>

datatype access_call =
    GetNamespace string
  | CreateNamespace ObjectMeta
  | DeleteNamespace string
  | ListServiceExports string
  | GetClusterRole string
  | CreateClusterRole Role
  | UpdateClusterRole Role
  | GetClusterRoleBinding string
  | CreateClusterRoleBinding RoleBinding
  | UpdateClusterRoleBinding RoleBinding
  | DeleteClusterRoleBinding string
  | GetRoleBinding string string
  | CreateRoleBinding string RoleBinding
  | UpdateRoleBinding string RoleBinding

type_synonym access_calls = "access_call list"

record access_reconciler =
  ar_scope :: string
  ar_getNamespace :: "access_calls \<Rightarrow> string \<Rightarrow> apierr + ObjectMeta"
  ar_createNamespace :: "access_calls \<Rightarrow> ObjectMeta \<Rightarrow> apierr option"
  ar_deleteNamespace :: "access_calls \<Rightarrow> string \<Rightarrow> apierr option"
  ar_listServiceExports :: "access_calls \<Rightarrow> string \<Rightarrow> apierr + APIServiceExport list"
  ar_getClusterRole :: "access_calls \<Rightarrow> string \<Rightarrow> apierr + Role"
  ar_createClusterRole :: "access_calls \<Rightarrow> Role \<Rightarrow> apierr option"
  ar_updateClusterRole :: "access_calls \<Rightarrow> Role \<Rightarrow> apierr option"
  ar_getClusterRoleBinding :: "access_calls \<Rightarrow> string \<Rightarrow> apierr + RoleBinding"
  ar_createClusterRoleBinding :: "access_calls \<Rightarrow> RoleBinding \<Rightarrow> apierr option"
  ar_updateClusterRoleBinding :: "access_calls \<Rightarrow> RoleBinding \<Rightarrow> apierr option"
  ar_deleteClusterRoleBinding :: "access_calls \<Rightarrow> string \<Rightarrow> apierr option"
  ar_getRoleBinding :: "access_calls \<Rightarrow> string \<Rightarrow> string \<Rightarrow> apierr + RoleBinding"
  ar_createRoleBinding :: "access_calls \<Rightarrow> string \<Rightarrow> RoleBinding \<Rightarrow> apierr option"
  ar_updateRoleBinding :: "access_calls \<Rightarrow> string \<Rightarrow> RoleBinding \<Rightarrow> apierr option"
  ar_durationString :: "int \<Rightarrow> string"
  ar_timeString :: "time \<Rightarrow> string"

type_synonym access_step = "apierr option \<times> access_calls"

text \<open>A write at the end of a step: its error is wrapped, its call is logged.\<close>

definition written :: "apierr option \<Rightarrow> string \<Rightarrow> fmtarg list \<Rightarrow> access_calls \<Rightarrow> access_step" where
  "written answer fmt args l = (map_option (wrapErr fmt args) answer, l)"

section \<open>The health of a consumer\<close>

definition wrap64 :: "int \<Rightarrow> int" where
  "wrap64 x = (x + 2 ^ 63) mod 2 ^ 64 - 2 ^ 63"

definition Since :: "time \<Rightarrow> time \<Rightarrow> int" where
  "Since now t = max (- (2 ^ 63)) (min (2 ^ 63 - 1) (now - t))"

definition notHealthy ::
  "time \<Rightarrow> ClusterBinding \<Rightarrow> string \<Rightarrow> ConditionSeverity \<Rightarrow> string \<Rightarrow> fmtarg list \<Rightarrow> ClusterBinding" where
  "notHealthy now b rsn sev fmt args =
     MarkFalse clusterBindingSetter now b ClusterBindingConditionHealthy rsn sev fmt args"

definition ensureClusterBindingConditions ::
  "access_reconciler \<Rightarrow> time \<Rightarrow> ClusterBinding \<Rightarrow> ClusterBinding" where
  "ensureClusterBindingConditions R now b =
     (if IsZero (cb_LastHeartbeatTime b)
      then notHealthy now b ''FirstHeartbeatPending'' ConditionSeverityInfo ''Waiting for first heartbeat'' []
      else if cb_HeartbeatInterval b = 0
      then notHealthy now b ''HeartbeatIntervalMissing'' ConditionSeverityInfo
             ''Waiting for consumer cluster reporting its heartbeat interval'' []
      else
        (let ago = Since now (cb_LastHeartbeatTime b) in
         if ago > wrap64 (cb_HeartbeatInterval b * 2)
         then notHealthy now b ''HeartbeatTimeout'' ConditionSeverityError
                ''Heartbeat timeout: expected heartbeat within %s, but last one has been at %s''
                [FStr (ar_durationString R (cb_HeartbeatInterval b)),
                 FStr (ar_timeString R (cb_LastHeartbeatTime b))]
         else if ago < second * 10
         then notHealthy now b ''HeartbeatTimeDrift'' ConditionSeverityWarning
                ''Clocks of consumer cluster and service account cluster seem to be off by more than 10s'' []
         else MarkTrue clusterBindingSetter now b ClusterBindingConditionHealthy))"

section \<open>The roles of a consumer\<close>

definition bindingNamespace :: "ClusterBinding \<Rightarrow> string" where
  "bindingNamespace b = om_Namespace (cb_Meta b)"

definition clusterRoleName :: "string \<Rightarrow> string" where
  "clusterRoleName ns = ''klutch-binder-'' @ ns"

definition namespaceOwner :: "string \<Rightarrow> ObjectMeta \<Rightarrow> OwnerReference" where
  "namespaceOwner ns nsObj =
     \<lparr>or_APIVersion = ''v1'', or_Kind = ''Namespace'', or_Name = ns, or_UID = om_UID nsObj,
      or_Controller = Some True\<rparr>"

definition exportRules :: "APIServiceExport list \<Rightarrow> PolicyRule list" where
  "exportRules exports =
     fst (fold (\<lambda>export acc. AppendExportPolicyRules acc (es_Group (ex_Spec export))
                  (n_Plural (es_Names (ex_Spec export))) (ex_PermissionClaims export) ExportRuleVerbs)
            exports ([], None))"

definition ensureRBACClusterRole :: "access_reconciler \<Rightarrow> access_calls \<Rightarrow> ClusterBinding \<Rightarrow> access_step" where
  "ensureRBACClusterRole R l b =
     (let ns = bindingNamespace b; name = clusterRoleName ns;
          l1 = l @ [GetClusterRole name]; l2 = l1 @ [GetNamespace ns]; l3 = l2 @ [ListServiceExports ns];
          found = ar_getClusterRole R l name;
          unread = (case found of Inl e \<Rightarrow> \<not> IsNotFound e | Inr _ \<Rightarrow> False)
      in if unread
         then (map_option (wrapErr ''failed to get ClusterRole %s'' [FStr name]) (errOf found), l1)
         else
           case ar_getNamespace R l1 ns of
             Inl e \<Rightarrow> (Some (wrapErr ''failed to get Namespace %s'' [FStr ns] e), l2)
           | Inr nsObj \<Rightarrow>
               (case ar_listServiceExports R l2 ns of
                  Inl e \<Rightarrow> (Some (wrapErr ''failed to list APIServiceExports'' [] e), l3)
                | Inr exports \<Rightarrow>
                    (let expected = \<lparr>ro_Meta = (namedMeta name)\<lparr>om_OwnerReferences := [namespaceOwner ns nsObj]\<rparr>,
                                     ro_Rules = exportRules exports\<rparr>
                     in case found of
                          Inl _ \<Rightarrow> written (ar_createClusterRole R l3 expected) ''failed to create ClusterRole %s''
                                     [FStr name] (l3 @ [CreateClusterRole expected])
                        | Inr role \<Rightarrow>
                            if ro_Rules role = ro_Rules expected then (None, l3)
                            else (let role' = role\<lparr>ro_Rules := ro_Rules expected\<rparr>
                                  in written (ar_updateClusterRole R l3 role') ''failed to create ClusterRole %s''
                                       [FStr (om_Name (ro_Meta role))] (l3 @ [UpdateClusterRole role'])))))"

definition binderSubject :: "string \<Rightarrow> Subject" where
  "binderSubject ns = \<lparr>su_Kind = ''ServiceAccount'', su_Namespace = ns, su_Name = serviceAccountName\<rparr>"

definition clusterRoleRef :: "string \<Rightarrow> RoleRef" where
  "clusterRoleRef name =
     \<lparr>rr_APIGroup = ''rbac.authorization.k8s.io'', rr_Kind = ''ClusterRole'', rr_Name = name\<rparr>"

text \<open>
  In any scope other than Cluster the binding is deleted, and then the step goes on with the binding
  it had read before.
\<close>

definition ensureRBACClusterRoleBinding :: "access_reconciler \<Rightarrow> access_calls \<Rightarrow> ClusterBinding \<Rightarrow> access_step" where
  "ensureRBACClusterRoleBinding R l b =
     (let ns = bindingNamespace b; name = clusterRoleName ns;
          l1 = l @ [GetClusterRoleBinding name];
          found = ar_getClusterRoleBinding R l name;
          deletes = ar_scope R \<noteq> ClusterScope;
          deletion = (if deletes then ar_deleteClusterRoleBinding R l1 name else None);
          l2 = (if deletes then l1 @ [DeleteClusterRoleBinding name] else l1);
          l3 = l2 @ [GetNamespace ns];
          unread = (case found of Inl e \<Rightarrow> \<not> IsNotFound e | Inr _ \<Rightarrow> False);
          undeleted = (case deletion of None \<Rightarrow> False | Some e \<Rightarrow> \<not> IsNotFound e)
      in if unread
         then (map_option (wrapErr ''failed to get ClusterRoleBinding %s'' [FStr name]) (errOf found), l1)
         else if undeleted
         then (map_option (wrapErr ''failed to delete ClusterRoleBinding %s'' [FStr name]) deletion, l2)
         else
           case ar_getNamespace R l2 ns of
             Inl e \<Rightarrow> (Some (wrapErr ''failed to get Namespace %s'' [FStr ns] e), l3)
           | Inr nsObj \<Rightarrow>
               (let expected = \<lparr>rb_Meta = (namedMeta name)\<lparr>om_OwnerReferences := [namespaceOwner ns nsObj]\<rparr>,
                                rb_Subjects = [binderSubject ns], rb_RoleRef = clusterRoleRef name\<rparr>
                in case found of
                     Inl _ \<Rightarrow> written (ar_createClusterRoleBinding R l3 expected)
                                ''failed to create ClusterRoleBinding %s'' [FStr name]
                                (l3 @ [CreateClusterRoleBinding expected])
                   | Inr binding \<Rightarrow>
                       if rb_Subjects binding = rb_Subjects expected then (None, l3)
                       else (let binding' = binding\<lparr>rb_Subjects := rb_Subjects expected\<rparr>
                             in written (ar_updateClusterRoleBinding R l3 binding')
                                  ''failed to create ClusterRoleBinding %s'' [FStr '''']
                                  (l3 @ [UpdateClusterRoleBinding binding']))))"

definition ensureRBACRoleBinding :: "access_reconciler \<Rightarrow> access_calls \<Rightarrow> ClusterBinding \<Rightarrow> access_step" where
  "ensureRBACRoleBinding R l b =
     (let ns = bindingNamespace b; l1 = l @ [GetRoleBinding ns ''klutch-binder''];
          expected = \<lparr>rb_Meta = namedMeta serviceAccountName, rb_Subjects = [binderSubject ns],
                      rb_RoleRef = clusterRoleRef ''klutch-binder''\<rparr>
      in case ar_getRoleBinding R l ns ''klutch-binder'' of
           Inl e \<Rightarrow>
             if \<not> IsNotFound e
             then (Some (wrapErr ''failed to get RoleBinding \"klutch-binder\"'' [] e), l1)
             else written (ar_createRoleBinding R l1 ns expected) ''failed to create RoleBinding %s''
                    [FStr serviceAccountName] (l1 @ [CreateRoleBinding ns expected])
         | Inr binding \<Rightarrow>
             if rb_Subjects binding = rb_Subjects expected then (None, l1)
             else (let binding' = binding\<lparr>rb_Subjects := rb_Subjects expected\<rparr>
                   in written (ar_updateRoleBinding R l1 ns binding') ''failed to create RoleBinding %s''
                        [FStr ''''] (l1 @ [UpdateRoleBinding ns binding'])))"

definition access_reconcile ::
  "access_reconciler \<Rightarrow> time \<Rightarrow> access_calls \<Rightarrow> ClusterBinding \<Rightarrow>
     apierr list \<times> ClusterBinding \<times> access_calls" where
  "access_reconcile R now l b =
     (let b1 = ensureClusterBindingConditions R now b;
          (err2, l2) = ensureRBACRoleBinding R l b1;
          (err3, l3) = ensureRBACClusterRole R l2 b1;
          (err4, l4) = ensureRBACClusterRoleBinding R l3 b1
      in (errList err2 @ errList err3 @ errList err4, SetSummary clusterBindingSetter now b1 [], l4))"

definition access_process ::
  "keyfuncs \<Rightarrow> ClusterBinding lister \<Rightarrow> (_, _) committer \<Rightarrow> access_reconciler \<Rightarrow> time \<Rightarrow> access_calls \<Rightarrow> string \<Rightarrow>
     processed \<times> access_calls" where
  "access_process K L C R now l key =
     (case readObject K L key of
        NothingToDo \<Rightarrow> (Processed [] [], l)
      | ReadFailed e \<Rightarrow> (Processed [e] [], l)
      | Found old \<Rightarrow>
          (let (errs, obj, l1) = access_reconcile R now l old
           in (afterReconcile C clusterBindingResource old errs obj, l1)))"

section \<open>The namespace of a consumer namespace\<close>

definition NamespacedScope :: string where
  [klutch_defs]: "NamespacedScope = ''Namespaced''"

definition APIServiceNamespaceAnnotationKey :: string where
  [klutch_defs]: "APIServiceNamespaceAnnotationKey = ''klutch.anynines.com/api-service-namespace''"

definition serviceNamespaceName :: "string \<Rightarrow> string \<Rightarrow> string" where
  "serviceNamespaceName ns name = ns @ ''-'' @ name"

definition sns_ensureRBACRoleBinding ::
  "access_reconciler \<Rightarrow> access_calls \<Rightarrow> string \<Rightarrow> APIServiceNamespace \<Rightarrow> access_step" where
  "sns_ensureRBACRoleBinding R l ns sns =
     (let objName = ''klutch-binder''; l1 = l @ [GetRoleBinding ns objName];
          args = [FStr ns, FStr objName];
          expected = \<lparr>rb_Meta = (namedMeta objName)\<lparr>om_Namespace := ns\<rparr>,
                      rb_Subjects = [binderSubject (sn_Namespace sns)],
                      rb_RoleRef = clusterRoleRef (clusterRoleName (sn_Namespace sns))\<rparr>
      in case ar_getRoleBinding R l ns objName of
           Inl e \<Rightarrow>
             if \<not> IsNotFound e then (Some (wrapErr ''failed to get role binding %s/%s'' args e), l1)
             else written (ar_createRoleBinding R l1 ns expected) ''failed to create role binding %s/%s'' args
                    (l1 @ [CreateRoleBinding ns expected])
         | Inr binding \<Rightarrow>
             if rb_Subjects binding = rb_Subjects expected \<and> rb_RoleRef binding = rb_RoleRef expected
             then (None, l1)
             else (let binding' = binding\<lparr>rb_Subjects := rb_Subjects expected, rb_RoleRef := rb_RoleRef expected\<rparr>
                   in written (ar_updateRoleBinding R l1 (om_Namespace (rb_Meta binding)) binding')
                        ''failed to create role binding %s/%s'' args
                        (l1 @ [UpdateRoleBinding (om_Namespace (rb_Meta binding)) binding'])))"

text \<open>The name is the one in the status when there is one; an error of reading that namespace is ignored.\<close>

definition targetNamespace :: "APIServiceNamespace \<Rightarrow> string" where
  "targetNamespace sns =
     (if sn_Status_Namespace sns \<noteq> '''' then sn_Status_Namespace sns
      else serviceNamespaceName (sn_Namespace sns) (sn_Name sns))"

definition ensureNamespace :: "access_reconciler \<Rightarrow> access_calls \<Rightarrow> APIServiceNamespace \<Rightarrow> access_step" where
  "ensureNamespace R l sns =
     (let nsName = targetNamespace sns;
          reads = sn_Status_Namespace sns \<noteq> '''';
          exists' = (reads \<and> \<not> isl (ar_getNamespace R l nsName));
          l1 = (if reads then l @ [GetNamespace nsName] else l);
          ns = (namedMeta nsName)\<lparr>om_Annotations :=
                  fmap_of_list [(APIServiceNamespaceAnnotationKey, sn_Namespace sns @ ''/'' @ sn_Name sns)]\<rparr>;
          l2 = l1 @ [CreateNamespace ns]
      in if exists' then (None, l1)
         else case ar_createNamespace R l1 ns of
                None \<Rightarrow> (None, l2)
              | Some e \<Rightarrow>
                  if IsAlreadyExists e then (None, l2)
                  else (Some (wrapErr ''failed to create namespace %q'' [FStr nsName] e), l2))"

definition sns_reconcile ::
  "access_reconciler \<Rightarrow> access_calls \<Rightarrow> APIServiceNamespace \<Rightarrow>
     apierr option \<times> APIServiceNamespace \<times> access_calls" where
  "sns_reconcile R l sns =
     (let (err1, l1) = ensureNamespace R l sns;
          (err2, l2) = (if ar_scope R = NamespacedScope then sns_ensureRBACRoleBinding R l1 (targetNamespace sns) sns
                        else (None, l1))
      in case err1 of
           Some e \<Rightarrow> (Some e, sns, l1)
         | None \<Rightarrow>
             (case err2 of
                Some e \<Rightarrow> (Some (wrapErr ''failed to ensure RBAC'' [] e), sns, l2)
              | None \<Rightarrow> (None, sns\<lparr>sn_Status_Namespace := targetNamespace sns\<rparr>, l2)))"

text \<open>The spec of an APIServiceNamespace is empty; of its metadata the model has name and namespace.\<close>

definition serviceNamespaceResource :: "APIServiceNamespace \<Rightarrow> (unit, string) Resource" where
  "serviceNamespaceResource sns =
     \<lparr>r_Meta = (namedMeta (sn_Name sns))\<lparr>om_Namespace := sn_Namespace sns\<rparr>,
      r_Spec = Some (), r_Status = Some (sn_Status_Namespace sns)\<rparr>"

text \<open>The namespace of an APIServiceNamespace that is gone is deleted under its computed name.\<close>

definition sns_process ::
  "keyfuncs \<Rightarrow> APIServiceNamespace lister \<Rightarrow> (_, _) committer \<Rightarrow> access_reconciler \<Rightarrow> access_calls \<Rightarrow> string \<Rightarrow>
     processed \<times> access_calls" where
  "sns_process K L C R l key =
     (case splitMetaNamespaceKey K key of
        Inl _ \<Rightarrow> (Processed [] [], l)
      | Inr (snsNamespace, snsName) \<Rightarrow>
          (let nsName = serviceNamespaceName snsNamespace snsName in
           case L snsNamespace snsName of
             Inl e \<Rightarrow>
               if \<not> IsNotFound e then (Processed [e] [], l)
               else (case ar_deleteNamespace R l nsName of
                       None \<Rightarrow> (Processed [] [], l @ [DeleteNamespace nsName])
                     | Some e' \<Rightarrow> (Processed (if IsNotFound e' then [] else [e']) [], l @ [DeleteNamespace nsName]))
           | Inr old \<Rightarrow>
               (let (err, obj, l1) = sns_reconcile R l old
                in (afterReconcile C serviceNamespaceResource old (errList err) obj, l1))))"

section \<open>Which objects a change queues\<close>

definition access_enqueueServiceExport :: "keyfuncs \<Rightarrow> string \<Rightarrow> string list" where
  "access_enqueueServiceExport K seKey =
     (case splitMetaNamespaceKey K seKey of Inl _ \<Rightarrow> [] | Inr (ns, _) \<Rightarrow> [ns @ ''/cluster''])"

definition serviceNamespaceKey :: "keyfuncs \<Rightarrow> APIServiceNamespace \<Rightarrow> string" where
  "serviceNamespaceKey K sns = metaKey K (sn_Namespace sns) (sn_Name sns)"

text \<open>\<open>cache.NamespaceIndex\<close> indexes an object by its namespace.\<close>

definition sns_enqueueClusterBinding :: "keyfuncs \<Rightarrow> APIServiceNamespace indexer \<Rightarrow> string \<Rightarrow> string list" where
  "sns_enqueueClusterBinding K ix cbKey =
     (case splitMetaNamespaceKey K cbKey of
        Inl _ \<Rightarrow> []
      | Inr (ns, _) \<Rightarrow> map (serviceNamespaceKey K) (ix (\<lambda>sns. [sn_Namespace sns]) ns))"

definition sns_enqueueServiceExport :: "keyfuncs \<Rightarrow> APIServiceNamespace indexer \<Rightarrow> string \<Rightarrow> string list" where
  "sns_enqueueServiceExport K ix seKey =
     (case splitMetaNamespaceKey K seKey of
        Inl _ \<Rightarrow> []
      | Inr (ns, _) \<Rightarrow> map (serviceNamespaceKey K) (ix (\<lambda>sns. [sn_Namespace sns]) ns))"

definition sns_enqueueNamespace :: "keyfuncs \<Rightarrow> APIServiceNamespace indexer \<Rightarrow> string \<Rightarrow> string list" where
  "sns_enqueueNamespace K ix nsKey =
     map (serviceNamespaceKey K) (ix IndexServiceNamespaceByNamespace nsKey)"

section \<open>What the cluster role of a consumer grants\<close>

definition exportRule :: "string \<times> string \<Rightarrow> PolicyRule" where
  "exportRule gr =
     \<lparr>pr_APIGroups = [fst gr], pr_Resources = [snd gr], pr_Verbs = ExportRuleVerbs, pr_ResourceNames = []\<rparr>"

text \<open>The resources of an export: its own, then the claimed ones, in the order of the export.\<close>

definition exportedResources :: "APIServiceExport \<Rightarrow> (string \<times> string) list" where
  "exportedResources e =
     filter (\<lambda>gr. snd gr \<noteq> '''')
       ((es_Group (ex_Spec e), n_Plural (es_Names (ex_Spec e))) #
        map (\<lambda>c. (gr_Group c, gr_Resource c)) (ex_PermissionClaims e))"

lemma appendPolicyRule_unseen:
  "appendPolicyRule (rs, None) g r ExportRuleVerbs = (rs @ (if r = '''' then [] else [exportRule (g, r)]), None)"
  by (simp add: appendPolicyRule_def exportRule_def)

lemma AppendExportPolicyRules_unseen:
  "AppendExportPolicyRules (rs, None) g r claims ExportRuleVerbs =
     (rs @ map exportRule (filter (\<lambda>gr. snd gr \<noteq> '''')
        ((g, r) # map (\<lambda>c. (gr_Group c, gr_Resource c)) claims)), None)"
proof -
  have "fold (\<lambda>c a. appendPolicyRule a (gr_Group c) (gr_Resource c) ExportRuleVerbs) claims (qs, None) =
      (qs @ map exportRule (filter (\<lambda>gr. snd gr \<noteq> '''') (map (\<lambda>c. (gr_Group c, gr_Resource c)) claims)), None)" for qs
    by (induction claims arbitrary: qs) (simp_all add: appendPolicyRule_unseen)
  then show ?thesis
    by (simp add: AppendExportPolicyRules_def appendPolicyRule_unseen)
qed

lemma exportRules_eq: "exportRules exports = map exportRule (concat (map exportedResources exports))"
proof -
  have "fold (\<lambda>e acc. AppendExportPolicyRules acc (es_Group (ex_Spec e)) (n_Plural (es_Names (ex_Spec e)))
           (ex_PermissionClaims e) ExportRuleVerbs) exports (qs, None) =
      (qs @ map exportRule (concat (map exportedResources exports)), None)" for qs
    by (induction exports arbitrary: qs)
      (simp_all add: AppendExportPolicyRules_unseen exportedResources_def del: filter.simps)
  then show ?thesis
    by (simp add: exportRules_def)
qed

text \<open>With the map \<open>seen\<close> the rules of one call are distinct and cover the same resources.\<close>

definition ruleKey :: "PolicyRule \<Rightarrow> string" where
  "ruleKey r = hd (pr_APIGroups r) @ ''/'' @ hd (pr_Resources r)"

lemma ruleKey_new [simp]:
  "ruleKey \<lparr>pr_APIGroups = [g], pr_Resources = [r], pr_Verbs = v, pr_ResourceNames = n\<rparr> = g @ ''/'' @ r"
  by (simp add: ruleKey_def)

lemma appendPolicyRule_seen:
  assumes "snd acc = Some (ruleKey ` set (fst acc))" and "distinct (map ruleKey (fst acc))"
  shows "snd (appendPolicyRule acc g r v) = Some (ruleKey ` set (fst (appendPolicyRule acc g r v)))"
    and "distinct (map ruleKey (fst (appendPolicyRule acc g r v)))"
    and "r \<noteq> '''' \<Longrightarrow> g @ ''/'' @ r \<in> ruleKey ` set (fst (appendPolicyRule acc g r v))"
  using assms by (auto simp: appendPolicyRule_def Let_def split: prod.splits option.splits)

section \<open>Whom a run gives access to\<close>

text \<open>The role bindings that a call writes.\<close>

fun writtenBinding :: "access_call \<Rightarrow> RoleBinding option" where
  "writtenBinding (CreateClusterRoleBinding rb) = Some rb"
| "writtenBinding (UpdateClusterRoleBinding rb) = Some rb"
| "writtenBinding (CreateRoleBinding _ rb) = Some rb"
| "writtenBinding (UpdateRoleBinding _ rb) = Some rb"
| "writtenBinding _ = None"

definition grantsOnly :: "string \<Rightarrow> access_calls \<Rightarrow> bool" where
  "grantsOnly ns cs \<longleftrightarrow>
     (\<forall>c \<in> set cs. case writtenBinding c of None \<Rightarrow> True | Some rb \<Rightarrow> rb_Subjects rb = [binderSubject ns])"

lemma grantsOnly_simps [simp]:
  "grantsOnly ns []"
  "grantsOnly ns (xs @ ys) \<longleftrightarrow> grantsOnly ns xs \<and> grantsOnly ns ys"
  "grantsOnly ns (c # cs) \<longleftrightarrow>
     (case writtenBinding c of None \<Rightarrow> True | Some rb \<Rightarrow> rb_Subjects rb = [binderSubject ns]) \<and> grantsOnly ns cs"
  by (auto simp: grantsOnly_def)

lemmas access_steps = ensureRBACClusterRole_def ensureRBACClusterRoleBinding_def ensureRBACRoleBinding_def
  sns_ensureRBACRoleBinding_def

lemma steps_grantOnly:
  "\<exists>cs. snd (ensureRBACClusterRole R l b) = l @ cs \<and> grantsOnly (bindingNamespace b) cs"
  "\<exists>cs. snd (ensureRBACClusterRoleBinding R l b) = l @ cs \<and> grantsOnly (bindingNamespace b) cs"
  "\<exists>cs. snd (ensureRBACRoleBinding R l b) = l @ cs \<and> grantsOnly (bindingNamespace b) cs"
  "\<exists>cs. snd (sns_ensureRBACRoleBinding R l ns sns) = l @ cs \<and> grantsOnly (sn_Namespace sns) cs"
  by (simp_all add: access_steps Let_def written_def split: sum.splits if_splits option.splits)

lemma bindingNamespace_conditions [simp]:
  "bindingNamespace (ensureClusterBindingConditions R now b) = bindingNamespace b"
  by (simp add: ensureClusterBindingConditions_def notHealthy_def bindingNamespace_def mark_defs Let_def
      Set_condition_def clusterBindingSetter_def split: option.splits)

lemma access_grantsOnly:
  assumes "access_reconcile R now l b = (errs, b', l')"
  shows "\<exists>cs. l' = l @ cs \<and> grantsOnly (bindingNamespace b) cs"
proof -
  let ?b = "ensureClusterBindingConditions R now b"
  obtain e2 l2 where s2: "ensureRBACRoleBinding R l ?b = (e2, l2)" by force
  obtain e3 l3 where s3: "ensureRBACClusterRole R l2 ?b = (e3, l3)" by force
  obtain e4 l4 where s4: "ensureRBACClusterRoleBinding R l3 ?b = (e4, l4)" by force
  have "l' = l4"
    using assms by (simp add: access_reconcile_def Let_def s2 s3 s4)
  moreover obtain c2 where "l2 = l @ c2" "grantsOnly (bindingNamespace b) c2"
    using steps_grantOnly(3)[of R l ?b] by (auto simp: s2)
  moreover obtain c3 where "l3 = l2 @ c3" "grantsOnly (bindingNamespace b) c3"
    using steps_grantOnly(1)[of R l2 ?b] by (auto simp: s3)
  moreover obtain c4 where "l4 = l3 @ c4" "grantsOnly (bindingNamespace b) c4"
    using steps_grantOnly(2)[of R l3 ?b] by (auto simp: s4)
  ultimately show ?thesis by simp
qed

section \<open>Healthy\<close>

definition heartbeatInTime :: "time \<Rightarrow> ClusterBinding \<Rightarrow> bool" where
  "heartbeatInTime now b \<longleftrightarrow>
     \<not> IsZero (cb_LastHeartbeatTime b) \<and> cb_HeartbeatInterval b \<noteq> 0 \<and>
     10 * second \<le> Since now (cb_LastHeartbeatTime b) \<and>
     Since now (cb_LastHeartbeatTime b) \<le> wrap64 (cb_HeartbeatInterval b * 2)"

lemma conditions_cases:
  "heartbeatInTime now b \<and>
     ensureClusterBindingConditions R now b = MarkTrue clusterBindingSetter now b ClusterBindingConditionHealthy \<or>
   \<not> heartbeatInTime now b \<and>
     (\<exists>r s f as. ensureClusterBindingConditions R now b =
        MarkFalse clusterBindingSetter now b ClusterBindingConditionHealthy r s f as)"
  by (simp add: ensureClusterBindingConditions_def heartbeatInTime_def notHealthy_def Let_def) force

lemma access_condition:
  "fst (snd (access_reconcile R now l b)) =
     SetSummary clusterBindingSetter now (ensureClusterBindingConditions R now b) []"
  by (simp add: access_reconcile_def Let_def split: prod.splits)

lemma access_Healthy:
  assumes "distinctTypes (cbGet b)"
  shows "IsTrue clusterBindingSetter (fst (snd (access_reconcile R now l b))) ClusterBindingConditionHealthy
           \<longleftrightarrow> heartbeatInTime now b"
proof -
  let ?b = "ensureClusterBindingConditions R now b"
  have d: "distinctTypes (cbGet ?b)"
    using conditions_cases[of now b R] cb.distinctTypes_Mark[OF assms] by auto
  have ne: "ClusterBindingConditionHealthy \<noteq> ReadyCondition"
    by (simp add: klutch_defs)
  have m: "\<exists>sev. marked clusterBindingSetter ?b ClusterBindingConditionHealthy
      (if heartbeatInTime now b then ConditionTrue else ConditionFalse) sev"
    using conditions_cases[of now b R]
    by (elim disjE conjE exE; simp only: if_True if_False)
      (rule exI, erule ssubst, rule cb.marked_MarkTrue[OF assms] cb.marked_MarkFalse[OF assms])+
  then have "\<exists>sev. marked clusterBindingSetter (SetSummary clusterBindingSetter now ?b [])
      ClusterBindingConditionHealthy (if heartbeatInTime now b then ConditionTrue else ConditionFalse) sev"
    using cb.get_SetSummary_marked[OF d ne] by simp
  then show ?thesis
    unfolding access_condition by (auto simp: IsTrue_marked split: if_splits)
qed

section \<open>The commit of the two controllers\<close>

lemma access_oneSide: "oneSide clusterBindingResource b (fst (snd (access_reconcile R now l b)))"
  unfolding access_condition
  by (simp add: ensureClusterBindingConditions_def notHealthy_def side_simps)

interpretation access_status:
  status_reconciler clusterBindingResource "\<lambda>(R, now, l) b. fst (snd (access_reconcile R now l b))"
  using access_oneSide by unfold_locales (auto simp: oneSide_def)

interpretation sns_status:
  status_reconciler serviceNamespaceResource "\<lambda>(R, l) sns. fst (snd (sns_reconcile R l sns))"
  by unfold_locales
    (auto simp: serviceNamespaceResource_def sns_reconcile_def Let_def split: prod.splits option.splits)

lemma access_process_statusOnly:
  assumes "reflexiveEqual C"
  shows "statusOnly (fst (access_process K L C R now l key))"
proof (cases "readObject K L key")
  case (Found old)
  then show ?thesis
    using access_status.afterReconcile_status[OF assms, of old _ "(R, now, l)"]
    by (simp add: access_process_def case_prod_beta)
qed (simp_all add: access_process_def)

lemma sns_process_statusOnly:
  assumes "reflexiveEqual C"
  shows "statusOnly (fst (sns_process K L C R l key))"
  using sns_status.afterReconcile_status[OF assms, of _ _ "(R, l)"]
  by (auto simp: sns_process_def Let_def case_prod_beta split: sum.splits option.splits)

end
