(* ===== verification/Backend_Exports.thy ===== *)
theory Backend_Exports
  imports Konnector_Process Backend_Access
begin

text \<open>
  What the example backend exports, \<open>bind/contrib/example-backend\<close>: the index of export
  templates (\<open>exporttemplate/index.go\<close>), the controller that keeps an APIServiceExport in line with
  its CRD (\<open>controllers/serviceexport\<close>), and the one that turns an APIServiceExportRequest into
  exports (\<open>controllers/serviceexportrequest\<close>).

  As in \<open>Backend_Access\<close>, the functions of the Go structs are the fields of \<open>export_backend\<close>, each
  gets the log of the calls made so far, and every call is appended to it. \<open>json.Marshal\<close> of a schema and of an
  export spec and \<open>sha256.Sum224\<close> are parameters, as in \<open>Bind_API\<close>. The creation time of a request, which \<open>ObjectMeta\<close>
  does not have, is a field of the request.

  The lemmas show that an export follows its CRD in one run, that the second run then
  marks it in sync and changes nothing, that a run never changes both sides of the export, and that a
  request leaves the phase Pending in bounded time, with every export it asked for created or
  found.
\<close>

section \<open>Templates\<close>

record APIServiceExportTemplate =
  et_Name :: string
  et_Selector :: GroupResource
  et_Version :: "string option"
  et_PermissionClaims :: "PermissionClaim list"

definition TemplateFor ::
  "apierr + APIServiceExportTemplate list \<Rightarrow> string \<Rightarrow> string \<Rightarrow> apierr + APIServiceExportTemplate" where
  "TemplateFor exports grp res =
     (case exports of
        Inl e \<Rightarrow> Inl e
      | Inr items \<Rightarrow>
          (case find (\<lambda>e. gr_Resource (et_Selector e) = res \<and> gr_Group (et_Selector e) = grp) items of
             Some e \<Rightarrow> Inr e
           | None \<Rightarrow> Inl \<lparr>reason = OtherReason '''', error_text = Sprintf ''not found: %s/%s'' [FStr grp, FStr res]\<rparr>))"

definition selects :: "APIServiceExportTemplate \<Rightarrow> CRD \<Rightarrow> bool" where
  "selects ex c \<longleftrightarrow> gr_Group (et_Selector ex) = crd_Group c \<and> gr_Resource (et_Selector ex) = n_Plural (crd_Names c)"

text \<open>The list starts as an empty slice, so the test for nil at its end never fails.\<close>

definition GetExported :: "apierr + CRD list \<Rightarrow> apierr + APIServiceExportTemplate list \<Rightarrow> apierr + CRD list" where
  "GetExported crds templates =
     (case crds of
        Inl e \<Rightarrow> Inl e
      | Inr cs \<Rightarrow>
          (case templates of
             Inl e \<Rightarrow> Inl e
           | Inr ts \<Rightarrow> Inr (concat (map (\<lambda>ex. filter (selects ex) cs) ts))))"

section \<open>Calls\<close>

datatype export_call =
    ReadCRD string
  | ReadServiceExport string string
  | ListTemplates
  | CreateServiceExport APIServiceExport
  | DeleteServiceExport string string
  | DeleteServiceExportRequest string string
  | RequeueExport string string

type_synonym export_calls = "export_call list"

record export_backend =
  eb_informerScope :: string
  eb_clusterScopedIsolation :: string
  eb_getCRD :: "export_calls \<Rightarrow> string \<Rightarrow> apierr + CRD"
  eb_getServiceExport :: "export_calls \<Rightarrow> string \<Rightarrow> string \<Rightarrow> apierr + APIServiceExport"
  eb_templates :: "export_calls \<Rightarrow> apierr + APIServiceExportTemplate list"
  eb_createServiceExport :: "export_calls \<Rightarrow> APIServiceExport \<Rightarrow> apierr option"
  eb_deleteServiceExport :: "export_calls \<Rightarrow> string \<Rightarrow> string \<Rightarrow> apierr option"
  eb_deleteServiceExportRequest :: "export_calls \<Rightarrow> string \<Rightarrow> string \<Rightarrow> apierr option"
  eb_marshal :: "json \<Rightarrow> string + string"
  eb_marshalSpec :: "APIServiceExportCRDSpec \<Rightarrow> string + string"
  eb_sum224 :: "string \<Rightarrow> nat list"

definition specHash :: "export_backend \<Rightarrow> APIServiceExportCRDSpec \<Rightarrow> string" where
  "specHash R spec = APIServiceExportCRDSpecHash (eb_marshalSpec R) (eb_sum224 R) spec"

section \<open>An export follows its CRD\<close>

definition APIServiceExportConditionProviderInSync :: ConditionType where
  [klutch_defs]: "APIServiceExportConditionProviderInSync = ''ProviderInSync''"

definition storedHash :: "APIServiceExport \<Rightarrow> string" where
  "storedHash export =
     (case fmlookup (om_Annotations (ex_Meta export)) SourceSpecHashAnnotationKey of None \<Rightarrow> '''' | Some h \<Rightarrow> h)"

definition withSpec :: "APIServiceExportCRDSpec \<Rightarrow> string \<Rightarrow> APIServiceExport \<Rightarrow> APIServiceExport" where
  "withSpec spec hash export =
     export\<lparr>ex_Spec := spec,
            ex_Meta := (ex_Meta export)\<lparr>om_Annotations :=
               fmupd SourceSpecHashAnnotationKey hash (om_Annotations (ex_Meta export))\<rparr>\<rparr>"

definition ensureSchema ::
  "export_backend \<Rightarrow> time \<Rightarrow> export_calls \<Rightarrow> APIServiceExport \<Rightarrow>
     (apierr option \<times> bool) \<times> APIServiceExport \<times> export_calls" where
  "ensureSchema R now l export =
     (let name = om_Name (ex_Meta export); ns = om_Namespace (ex_Meta export); l1 = l @ [ReadCRD name] in
      case eb_getCRD R l name of
        Inl e \<Rightarrow>
          if \<not> IsNotFound e then ((Some e, False), export, l1)
          else ((eb_deleteServiceExport R l1 ns name, False), export, l1 @ [DeleteServiceExport ns name])
      | Inr crd \<Rightarrow>
          (case CRDToServiceExport (eb_marshal R) crd of
             Inl err \<Rightarrow>
               ((None, False),
                MarkFalse serviceExportSetter now export APIServiceExportConditionProviderInSync
                  ''CustomResourceDefinitionUpdateFailed'' ConditionSeverityError
                  ''CustomResourceDefinition %s cannot be converted into a APIServiceExport: %s''
                  [FStr name, FStr err], l1)
           | Inr expected \<Rightarrow>
               if storedHash export \<noteq> specHash R expected
               then ((None, True), withSpec expected (specHash R expected) export, l1)
               else ((None, False), MarkTrue serviceExportSetter now export APIServiceExportConditionProviderInSync, l1)))"

definition bex_reconcile ::
  "export_backend \<Rightarrow> time \<Rightarrow> export_calls \<Rightarrow> APIServiceExport \<Rightarrow> apierr list \<times> APIServiceExport \<times> export_calls" where
  "bex_reconcile R now l export =
     (let ((err, specChanged), e1, l1) = ensureSchema R now l export in
      case err of
        Some e \<Rightarrow> ([e], e1, l1)
      | None \<Rightarrow>
          if specChanged then ([], e1, l1 @ [RequeueExport (om_Namespace (ex_Meta e1)) (om_Name (ex_Meta e1))])
          else ([], e1, l1))"

definition bex_process ::
  "keyfuncs \<Rightarrow> APIServiceExport lister \<Rightarrow> (_, _) committer \<Rightarrow> export_backend \<Rightarrow> time \<Rightarrow> export_calls \<Rightarrow> string \<Rightarrow>
     processed \<times> export_calls" where
  "bex_process K L C R now l key =
     (case readObject K L key of
        NothingToDo \<Rightarrow> (Processed [] [], l)
      | ReadFailed e \<Rightarrow> (Processed [e] [], l)
      | Found old \<Rightarrow>
          (let (errs, obj, l1) = bex_reconcile R now l old
           in (afterReconcile C serviceExportResource old errs obj, l1)))"

definition bex_enqueueCRD :: "keyfuncs \<Rightarrow> APIServiceExport indexer \<Rightarrow> string \<Rightarrow> string list" where
  "bex_enqueueCRD K ix crdKey =
     map (\<lambda>e. metaKey K (om_Namespace (ex_Meta e)) (om_Name (ex_Meta e)))
       (ix IndexServiceExportByCustomResourceDefinition crdKey)"

section \<open>Requests\<close>

record APIServiceExportRequestResource = GroupResource +
  rr_Versions :: "string list"
  rr_PermissionClaims :: "PermissionClaim list"

record APIServiceExportRequest =
  rq_Kind :: string
  rq_Meta :: ObjectMeta
  rq_CreationTimestamp :: time
  rq_Parameters :: "string option"
  rq_Resources :: "APIServiceExportRequestResource list"
  rq_Phase :: string
  rq_TerminalMessage :: string
  rq_Conditions :: conditions

definition APIServiceExportRequestConditionExportsReady :: ConditionType where
  [klutch_defs]: "APIServiceExportRequestConditionExportsReady = ''ExportsReady''"
definition APIServiceExportRequestPhasePending :: string where
  [klutch_defs]: "APIServiceExportRequestPhasePending = ''Pending''"
definition APIServiceExportRequestPhaseFailed :: string where
  [klutch_defs]: "APIServiceExportRequestPhaseFailed = ''Failed''"
definition APIServiceExportRequestPhaseSucceeded :: string where
  [klutch_defs]: "APIServiceExportRequestPhaseSucceeded = ''Succeeded''"

definition requestSetter :: "APIServiceExportRequest setter" where
  "requestSetter =
     \<lparr>GetConditions = rq_Conditions, GetName = (\<lambda>o'. om_Name (rq_Meta o')), GetKind = rq_Kind,
      SetConditions = (\<lambda>o' cs. o'\<lparr>rq_Conditions := cs\<rparr>)\<rparr>"

interpretation rq: condition_setter requestSetter
  by unfold_locales (simp_all add: requestSetter_def)

definition resourceName :: "APIServiceExportRequestResource \<Rightarrow> string" where
  "resourceName res = gr_Resource res @ ''.'' @ gr_Group res"

definition exportsNotReady ::
  "time \<Rightarrow> APIServiceExportRequest \<Rightarrow> string \<Rightarrow> string \<Rightarrow> fmtarg list \<Rightarrow> APIServiceExportRequest" where
  "exportsNotReady now req rsn fmt args =
     MarkFalse requestSetter now req APIServiceExportRequestConditionExportsReady rsn ConditionSeverityError fmt args"

text \<open>The object that is created; its kind is left to the client.\<close>

definition newExport ::
  "export_backend \<Rightarrow> string \<Rightarrow> CRD \<Rightarrow> APIServiceExportCRDSpec \<Rightarrow> APIServiceExportTemplate \<Rightarrow> APIServiceExport" where
  "newExport R ns crd spec template =
     \<lparr>ex_Kind = '''',
      ex_Meta = (namedMeta (om_Name (crd_Meta crd)))
        \<lparr>om_Namespace := ns, om_Annotations := fmap_of_list [(SourceSpecHashAnnotationKey, specHash R spec)]\<rparr>,
      ex_Spec = spec, ex_PermissionClaims = et_PermissionClaims template, ex_InformerScope = eb_informerScope R,
      ex_ClusterScopedIsolation = (if es_Scope spec = ''Cluster'' then eb_clusterScopedIsolation R else ''''),
      ex_AcceptedNames = noNames, ex_StoredVersions = [], ex_Conditions = []\<rparr>"

text \<open>
  How the loop over the resources ends: an early return with an error, a \<open>break\<close> after a failure, or the end.
  \<open>exportResource\<close> is its body: \<open>None\<close> goes on with the next resource.
\<close>

datatype loop_end = LoopError apierr | LoopFailure | LoopDone

definition exportResource ::
  "export_backend \<Rightarrow> time \<Rightarrow> export_calls \<Rightarrow> APIServiceExportRequest \<Rightarrow> APIServiceExportRequestResource \<Rightarrow>
     loop_end option \<times> APIServiceExportRequest \<times> export_calls" where
  "exportResource R now l req res =
     (let name = resourceName res; ns = om_Namespace (rq_Meta req);
          l1 = l @ [ReadCRD name]; l2 = l1 @ [ReadServiceExport ns name]; l3 = l2 @ [ListTemplates]
      in case eb_getCRD R l name of
           Inl e \<Rightarrow>
             if \<not> IsNotFound e then (Some (LoopError e), req, l1)
             else (Some LoopFailure, exportsNotReady now req ''CRDNotFound''
                     ''CustomResourceDefinition %s in the service provider cluster not found'' [FStr name], l1)
         | Inr crd \<Rightarrow>
             (case eb_getServiceExport R l1 ns name of
                Inr _ \<Rightarrow> (None, req, l2)
              | Inl e \<Rightarrow>
                  if \<not> IsNotFound e then (Some (LoopError e), req, l2)
                  else
                    case TemplateFor (eb_templates R l2) (gr_Group res) (gr_Resource res) of
                      Inl e' \<Rightarrow> (Some (LoopError e'), req, l3)
                    | Inr template \<Rightarrow>
                        (case CRDToServiceExport (eb_marshal R) crd of
                           Inl err \<Rightarrow>
                             (Some LoopFailure, exportsNotReady now req ''CRDInvalid''
                                ''CustomResourceDefinition %s cannot be converted to a APIServiceExport: %v''
                                [FStr name, FStr err], l3)
                         | Inr spec \<Rightarrow>
                             (let export = newExport R ns crd spec template;
                                  l4 = l3 @ [CreateServiceExport export]
                              in (map_option LoopError (eb_createServiceExport R l3 export), req, l4)))))"

fun exportLoop ::
  "export_backend \<Rightarrow> time \<Rightarrow> export_calls \<Rightarrow> APIServiceExportRequest \<Rightarrow> APIServiceExportRequestResource list \<Rightarrow>
     loop_end \<times> APIServiceExportRequest \<times> export_calls" where
  "exportLoop R now l req [] = (LoopDone, req, l)"
| "exportLoop R now l req (res # rest) =
     (case exportResource R now l req res of
        (Some fin, req', l') \<Rightarrow> (fin, req', l')
      | (None, req', l') \<Rightarrow> exportLoop R now l' req' rest)"

definition ensureExports ::
  "export_backend \<Rightarrow> time \<Rightarrow> export_calls \<Rightarrow> APIServiceExportRequest \<Rightarrow>
     apierr option \<times> APIServiceExportRequest \<times> export_calls" where
  "ensureExports R now l req =
     (if rq_Phase req = APIServiceExportRequestPhasePending
      then
        (case exportLoop R now l req (rq_Resources req) of
           (LoopError e, r1, l1) \<Rightarrow> (Some e, r1, l1)
         | (LoopDone, r1, l1) \<Rightarrow>
             (None, (MarkTrue requestSetter now r1 APIServiceExportRequestConditionExportsReady)
                \<lparr>rq_Phase := APIServiceExportRequestPhaseSucceeded\<rparr>, l1)
         | (LoopFailure, r1, l1) \<Rightarrow>
             if Since now (rq_CreationTimestamp r1) > 60 * second
             then (None, r1\<lparr>rq_Phase := APIServiceExportRequestPhaseFailed,
                            rq_TerminalMessage := GetMessage requestSetter r1 APIServiceExportRequestConditionExportsReady\<rparr>,
                   l1)
             else (None, r1, l1))
      else if Since now (rq_CreationTimestamp req) > 10 * 60 * second
      then (let ns = om_Namespace (rq_Meta req); name = om_Name (rq_Meta req)
            in (eb_deleteServiceExportRequest R l ns name, req, l @ [DeleteServiceExportRequest ns name]))
      else (None, req, l))"

definition req_reconcile ::
  "export_backend \<Rightarrow> time \<Rightarrow> export_calls \<Rightarrow> APIServiceExportRequest \<Rightarrow>
     apierr list \<times> APIServiceExportRequest \<times> export_calls" where
  "req_reconcile R now l req =
     (let (err, r1, l1) = ensureExports R now l req
      in (errList err, SetSummary requestSetter now r1 [], l1))"

definition requestResource ::
  "APIServiceExportRequest \<Rightarrow>
     (string option \<times> APIServiceExportRequestResource list, string \<times> string \<times> conditions) Resource" where
  "requestResource r =
     \<lparr>r_Meta = rq_Meta r, r_Spec = Some (rq_Parameters r, rq_Resources r),
      r_Status = Some (rq_Phase r, rq_TerminalMessage r, rq_Conditions r)\<rparr>"

definition req_process ::
  "keyfuncs \<Rightarrow> APIServiceExportRequest lister \<Rightarrow> (_, _) committer \<Rightarrow> export_backend \<Rightarrow> time \<Rightarrow> export_calls \<Rightarrow>
     string \<Rightarrow> processed \<times> export_calls" where
  "req_process K L C R now l key =
     (case readObject K L key of
        NothingToDo \<Rightarrow> (Processed [] [], l)
      | ReadFailed e \<Rightarrow> (Processed [e] [], l)
      | Found old \<Rightarrow>
          (let (errs, obj, l1) = req_reconcile R now l old
           in (afterReconcile C requestResource old errs obj, l1)))"

definition IndexServiceExportRequestByGroupResource :: "APIServiceExportRequest \<Rightarrow> string list" where
  "IndexServiceExportRequestByGroupResource req = map resourceName (rq_Resources req)"

definition IndexServiceExportRequestByServiceExport :: "APIServiceExportRequest \<Rightarrow> string list" where
  "IndexServiceExportRequestByServiceExport req =
     map (\<lambda>gr. om_Namespace (rq_Meta req) @ ''/'' @ resourceName gr) (rq_Resources req)"

definition requestKey :: "keyfuncs \<Rightarrow> APIServiceExportRequest \<Rightarrow> string" where
  "requestKey K r = metaKey K (om_Namespace (rq_Meta r)) (om_Name (rq_Meta r))"

definition req_enqueueServiceExport :: "keyfuncs \<Rightarrow> APIServiceExportRequest indexer \<Rightarrow> string \<Rightarrow> string list" where
  "req_enqueueServiceExport K ix seKey = map (requestKey K) (ix IndexServiceExportRequestByServiceExport seKey)"

definition req_enqueueCRD :: "keyfuncs \<Rightarrow> APIServiceExportRequest indexer \<Rightarrow> string \<Rightarrow> string list" where
  "req_enqueueCRD K ix crdKey = map (requestKey K) (ix IndexServiceExportRequestByGroupResource crdKey)"

section \<open>The commit of the two controllers\<close>

lemma ensureSchema_oneSide:
  assumes "ensureSchema R now l e = ((err, changed), e', l')"
  shows "if changed then r_Status (serviceExportResource e') = r_Status (serviceExportResource e) \<and> err = None
         else oneSide serviceExportResource e e'"
  using assms
  by (auto simp: ensureSchema_def withSpec_def serviceExportResource_def oneSide_def mark_defs Let_def
      Set_condition_def serviceExportSetter_def split: sum.splits if_splits option.splits)

lemma bex_never_panics:
  assumes "reflexiveEqual C"
  shows "onePatch (fst (bex_process K L C R now l key))"
proof (cases "readObject K L key")
  case (Found old)
  obtain err changed e1 l1 where s: "ensureSchema R now l old = ((err, changed), e1, l1)"
    by (metis prod.exhaust)
  have "fst (snd (bex_reconcile R now l old)) = e1"
    by (simp add: bex_reconcile_def s split: option.splits)
  moreover have "commit C (serviceExportResource old) (serviceExportResource e1) \<noteq> CommitPanics"
    using ensureSchema_oneSide[OF s] by (intro one_side_never_panics[OF assms]) (auto simp: oneSide_def split: if_splits)
  ultimately show ?thesis
    using commit_one_patch[of C "serviceExportResource old" "serviceExportResource e1"]
    by (auto simp: bex_process_def Found afterReconcile_def split: prod.splits commit_result.splits option.splits)
qed (simp_all add: bex_process_def)

lemma requestResource_frame [simp]:
  "r_Meta (requestResource (Set_condition requestSetter now r c)) = r_Meta (requestResource r)"
  "r_Spec (requestResource (Set_condition requestSetter now r c)) = r_Spec (requestResource r)"
  "r_Meta (requestResource (r\<lparr>rq_Phase := p\<rparr>)) = r_Meta (requestResource r)"
  "r_Spec (requestResource (r\<lparr>rq_Phase := p\<rparr>)) = r_Spec (requestResource r)"
  "r_Meta (requestResource (r\<lparr>rq_TerminalMessage := m\<rparr>)) = r_Meta (requestResource r)"
  "r_Spec (requestResource (r\<lparr>rq_TerminalMessage := m\<rparr>)) = r_Spec (requestResource r)"
  by (simp_all add: requestResource_def Set_condition_def requestSetter_def split: option.splits)

lemma exportResource_request:
  assumes "exportResource R now l req res = (fin, r1, l1)"
  shows "fin \<noteq> Some LoopFailure \<and> r1 = req \<or>
         fin = Some LoopFailure \<and> (\<exists>rsn fmt args. r1 = exportsNotReady now req rsn fmt args)"
  using assms
  by (auto simp: exportResource_def Let_def split: sum.splits if_splits)

lemma exportLoop_request:
  assumes "exportLoop R now l req rs = (fin, r1, l1)"
  shows "fin \<noteq> LoopFailure \<and> r1 = req \<or>
         fin = LoopFailure \<and> (\<exists>rsn fmt args. r1 = exportsNotReady now req rsn fmt args)"
  using assms
proof (induction rs arbitrary: l)
  case (Cons res rest)
  obtain f2 r2 l2 where s: "exportResource R now l req res = (f2, r2, l2)" by (cases rule: prod_cases3)
  show ?case
    using Cons exportResource_request[OF s] by (cases f2) (auto simp: s)
qed simp

lemma request_oneSide: "oneSide requestResource r (fst (snd (req_reconcile R now l r)))"
proof -
  obtain fin r1 l1 where lo: "exportLoop R now l r (rq_Resources r) = (fin, r1, l1)" by (cases rule: prod_cases3)
  have "oneSide requestResource r r1"
    using exportLoop_request[OF lo] by (auto simp: oneSide_def exportsNotReady_def MarkFalse_def)
  then show ?thesis
    by (auto simp: req_reconcile_def ensureExports_def lo oneSide_def SetSummary_def MarkTrue_def Let_def
        split: loop_end.splits)
qed

interpretation req_status:
  status_reconciler requestResource "\<lambda>(R, now, l) r. fst (snd (req_reconcile R now l r))"
  using request_oneSide by unfold_locales (auto simp: oneSide_def)

lemma req_process_statusOnly:
  assumes "reflexiveEqual C"
  shows "statusOnly (fst (req_process K L C R now l key))"
proof (cases "readObject K L key")
  case (Found old)
  then show ?thesis
    using req_status.afterReconcile_status[OF assms, of old _ "(R, now, l)"]
    by (simp add: req_process_def case_prod_beta)
qed (simp_all add: req_process_def)

section \<open>The phases of a request\<close>

definition settled :: "APIServiceExportRequest \<Rightarrow> bool" where
  "settled r \<longleftrightarrow> rq_Phase r \<noteq> APIServiceExportRequestPhasePending"

lemma phase_Set [simp]:
  "rq_Phase (Set_condition requestSetter now r c) = rq_Phase r"
  "rq_CreationTimestamp (Set_condition requestSetter now r c) = rq_CreationTimestamp r"
  "rq_Meta (Set_condition requestSetter now r c) = rq_Meta r"
  "rq_Resources (Set_condition requestSetter now r c) = rq_Resources r"
  by (simp_all add: Set_condition_def requestSetter_def split: option.splits)

lemma exportLoop_frame:
  assumes "exportLoop R now l req rs = (fin, r1, l1)"
  shows "rq_Phase r1 = rq_Phase req" and "rq_CreationTimestamp r1 = rq_CreationTimestamp req"
    and "rq_Meta r1 = rq_Meta req" and "rq_Resources r1 = rq_Resources req"
  using exportLoop_request[OF assms] by (auto simp: exportsNotReady_def MarkFalse_def)

text \<open>What one run does to the phase, and what a run without error after a minute achieves.\<close>

lemma request_phase:
  assumes "req_reconcile R now l r = (errs, r', l')"
  shows "settled r \<Longrightarrow> rq_Phase r' = rq_Phase r"
    and "rq_Phase r' = rq_Phase r \<or>
         rq_Phase r' \<in> {APIServiceExportRequestPhaseSucceeded, APIServiceExportRequestPhaseFailed}"
    and "errs = [] \<Longrightarrow> Since now (rq_CreationTimestamp r) > 60 * second \<Longrightarrow> settled r'"
    and "rq_CreationTimestamp r' = rq_CreationTimestamp r"
proof -
  obtain fin r1 l1 where lo: "exportLoop R now l r (rq_Resources r) = (fin, r1, l1)" by (cases rule: prod_cases3)
  note fr = exportLoop_frame[OF lo]
  have *: "settled r \<longrightarrow> rq_Phase r' = rq_Phase r"
      "rq_Phase r' = rq_Phase r \<or>
         rq_Phase r' \<in> {APIServiceExportRequestPhaseSucceeded, APIServiceExportRequestPhaseFailed}"
      "errs = [] \<longrightarrow> Since now (rq_CreationTimestamp r) > 60 * second \<longrightarrow> settled r'"
      "rq_CreationTimestamp r' = rq_CreationTimestamp r"
    using assms fr
    by (auto simp: req_reconcile_def ensureExports_def lo settled_def SetSummary_def MarkTrue_def Let_def errList_def
        klutch_defs split: loop_end.splits if_splits option.splits)
  from * show "settled r \<Longrightarrow> rq_Phase r' = rq_Phase r"
    and "rq_Phase r' = rq_Phase r \<or>
         rq_Phase r' \<in> {APIServiceExportRequestPhaseSucceeded, APIServiceExportRequestPhaseFailed}"
    and "errs = [] \<Longrightarrow> Since now (rq_CreationTimestamp r) > 60 * second \<Longrightarrow> settled r'"
    and "rq_CreationTimestamp r' = rq_CreationTimestamp r" by blast+
qed

section \<open>What a request creates\<close>

text \<open>
  \<open>fromTemplate R ns res e\<close>: the export is made from a CRD of the name of the resource as the lister had
  it, and from a template of the provider for this resource.
\<close>

definition fromTemplate ::
  "export_backend \<Rightarrow> string \<Rightarrow> APIServiceExportRequestResource \<Rightarrow> APIServiceExport \<Rightarrow> bool" where
  "fromTemplate R ns res e \<longleftrightarrow>
     (\<exists>k k' crd spec template ts.
        eb_getCRD R k (resourceName res) = Inr crd \<and> CRDToServiceExport (eb_marshal R) crd = Inr spec \<and>
        eb_templates R k' = Inr ts \<and> template \<in> set ts \<and>
        gr_Group (et_Selector template) = gr_Group res \<and> gr_Resource (et_Selector template) = gr_Resource res \<and>
        e = newExport R ns crd spec template)"

text \<open>\<open>available R ns l res\<close>: in the calls of \<open>l\<close> the export was found, or its creation was accepted.\<close>

definition available :: "export_backend \<Rightarrow> string \<Rightarrow> export_calls \<Rightarrow> APIServiceExportRequestResource \<Rightarrow> bool" where
  "available R ns l res \<longleftrightarrow>
     (\<exists>k rest e. l = k @ ReadServiceExport ns (resourceName res) # rest \<and>
        eb_getServiceExport R k ns (resourceName res) = Inr e) \<or>
     (\<exists>k rest e. l = k @ CreateServiceExport e # rest \<and> fromTemplate R ns res e \<and>
        eb_createServiceExport R k e = None)"

lemma available_append: "available R ns l res \<Longrightarrow> available R ns (l @ l') res"
  unfolding available_def by (metis append.assoc append_Cons)

lemma TemplateFor_found:
  assumes "TemplateFor ts g r = Inr t"
  shows "\<exists>items. ts = Inr items \<and> t \<in> set items \<and> gr_Group (et_Selector t) = g \<and> gr_Resource (et_Selector t) = r"
  using assms by (auto simp: TemplateFor_def find_Some_iff split: sum.splits option.splits)

text \<open>The three ways through the body: it stops without creating, finds the export, or tries to create it.\<close>

lemma exportResource_cases:
  assumes "exportResource R now l req res = (fin, r1, l1)"
  defines "n \<equiv> resourceName res" and "ns \<equiv> om_Namespace (rq_Meta req)"
  shows "(\<exists>cs. l1 = l @ cs \<and> (\<forall>e. CreateServiceExport e \<notin> set cs) \<and> fin \<noteq> None \<and> fin \<noteq> Some LoopDone) \<or>
    (\<exists>e. fin = None \<and> eb_getServiceExport R (l @ [ReadCRD n]) ns n = Inr e \<and>
       l1 = l @ [ReadCRD n, ReadServiceExport ns n]) \<or>
    (\<exists>crd spec t. eb_getCRD R l n = Inr crd \<and> CRDToServiceExport (eb_marshal R) crd = Inr spec \<and>
       TemplateFor (eb_templates R (l @ [ReadCRD n, ReadServiceExport ns n])) (gr_Group res) (gr_Resource res) = Inr t \<and>
       l1 = l @ [ReadCRD n, ReadServiceExport ns n, ListTemplates, CreateServiceExport (newExport R ns crd spec t)] \<and>
       fin = map_option LoopError (eb_createServiceExport R (l @ [ReadCRD n, ReadServiceExport ns n, ListTemplates])
               (newExport R ns crd spec t)))"
  using assms(1) unfolding exportResource_def Let_def n_def[symmetric] ns_def[symmetric]
  by (auto split: sum.splits if_splits)

lemma created_fromTemplate:
  assumes "eb_getCRD R l (resourceName res) = Inr crd" and "CRDToServiceExport (eb_marshal R) crd = Inr spec"
    and "TemplateFor (eb_templates R k) (gr_Group res) (gr_Resource res) = Inr t"
  shows "fromTemplate R ns res (newExport R ns crd spec t)"
  using assms TemplateFor_found[OF assms(3)] unfolding fromTemplate_def by blast

lemma exportResource_calls:
  assumes "exportResource R now l req res = (fin, r1, l1)"
  shows "\<exists>cs. l1 = l @ cs \<and>
           (\<forall>e. CreateServiceExport e \<in> set cs \<longrightarrow> fromTemplate R (om_Namespace (rq_Meta req)) res e)"
    and "fin \<noteq> Some LoopDone"
  using exportResource_cases[OF assms] by (auto simp: created_fromTemplate eq_commute[of "Some LoopDone"])

lemma exportResource_available:
  assumes "exportResource R now l req res = (None, r1, l1)"
  shows "available R (om_Namespace (rq_Meta req)) l1 res"
  using exportResource_cases[OF assms]
proof (elim disjE exE conjE)
  fix e
  assume "eb_getServiceExport R (l @ [ReadCRD (resourceName res)]) (om_Namespace (rq_Meta req)) (resourceName res) = Inr e"
    and "l1 = l @ [ReadCRD (resourceName res), ReadServiceExport (om_Namespace (rq_Meta req)) (resourceName res)]"
  then show ?thesis
    unfolding available_def by (intro disjI1 exI[of _ "l @ [ReadCRD (resourceName res)]"] exI[of _ "[]"]) auto
next
  fix crd spec t
  let ?k = "l @ [ReadCRD (resourceName res), ReadServiceExport (om_Namespace (rq_Meta req)) (resourceName res), ListTemplates]"
  let ?e = "newExport R (om_Namespace (rq_Meta req)) crd spec t"
  assume "eb_getCRD R l (resourceName res) = Inr crd" and "CRDToServiceExport (eb_marshal R) crd = Inr spec"
    and "TemplateFor (eb_templates R (l @ [ReadCRD (resourceName res),
           ReadServiceExport (om_Namespace (rq_Meta req)) (resourceName res)])) (gr_Group res) (gr_Resource res) = Inr t"
    and "l1 = l @ [ReadCRD (resourceName res), ReadServiceExport (om_Namespace (rq_Meta req)) (resourceName res),
           ListTemplates, CreateServiceExport ?e]"
    and "None = map_option LoopError (eb_createServiceExport R ?k ?e)"
  then show ?thesis
    unfolding available_def
    by (intro disjI2 exI[of _ ?k] exI[of _ "[]"] exI[of _ ?e]) (simp add: created_fromTemplate)
qed simp

lemma exportLoop_calls:
  assumes "exportLoop R now l req rs = (fin, r1, l1)"
  shows "\<exists>cs. l1 = l @ cs \<and> (\<forall>e. CreateServiceExport e \<in> set cs \<longrightarrow>
           (\<exists>res \<in> set rs. fromTemplate R (om_Namespace (rq_Meta req)) res e)) \<and>
           (fin = LoopDone \<longrightarrow> (\<forall>res \<in> set rs. available R (om_Namespace (rq_Meta req)) l1 res))"
  using assms
proof (induction rs arbitrary: l)
  case (Cons res rest)
  obtain f2 r2 l2 where s: "exportResource R now l req res = (f2, r2, l2)" by (cases rule: prod_cases3)
  obtain c1 where c1: "l2 = l @ c1"
      "\<forall>e. CreateServiceExport e \<in> set c1 \<longrightarrow> fromTemplate R (om_Namespace (rq_Meta req)) res e"
    using exportResource_calls(1)[OF s] by blast
  note nd = exportResource_calls(2)[OF s]
  show ?case
  proof (cases f2)
    case None
    have "r2 = req"
      using exportResource_request[OF s] None by simp
    then obtain c2 where c2: "l1 = l2 @ c2"
        "\<forall>e. CreateServiceExport e \<in> set c2 \<longrightarrow>
           (\<exists>res \<in> set rest. fromTemplate R (om_Namespace (rq_Meta req)) res e)"
        "fin = LoopDone \<longrightarrow> (\<forall>res \<in> set rest. available R (om_Namespace (rq_Meta req)) l1 res)"
      using Cons.IH[of l2] Cons.prems by (auto simp: s None)
    have "available R (om_Namespace (rq_Meta req)) l1 res"
      using exportResource_available s None available_append c2(1) by metis
    then show ?thesis
      using c1 c2 by (intro exI[of _ "c1 @ c2"]) auto
  next
    case (Some x)
    then show ?thesis
      using Cons.prems c1 nd by (intro exI[of _ c1]) (auto simp: s)
  qed
qed simp

section \<open>An export after two runs\<close>

lemma ensureSchema_settles:
  assumes "eb_getCRD R l (om_Name (ex_Meta e)) = Inr crd" and "CRDToServiceExport (eb_marshal R) crd = Inr spec"
  shows "storedHash e \<noteq> specHash R spec \<Longrightarrow>
           ensureSchema R now l e = ((None, True), withSpec spec (specHash R spec) e, l @ [ReadCRD (om_Name (ex_Meta e))])"
    and "storedHash e = specHash R spec \<Longrightarrow>
           ensureSchema R now l e =
             ((None, False), MarkTrue serviceExportSetter now e APIServiceExportConditionProviderInSync,
              l @ [ReadCRD (om_Name (ex_Meta e))])"
  using assms by (simp_all add: ensureSchema_def Let_def)

lemma withSpec_simps [simp]:
  "storedHash (withSpec spec h e) = h"
  "ex_Spec (withSpec spec h e) = spec"
  "om_Name (ex_Meta (withSpec spec h e)) = om_Name (ex_Meta e)"
  "ex_Conditions (withSpec spec h e) = ex_Conditions e"
  by (simp_all add: withSpec_def storedHash_def)

end
