(* ===== verification/App_Names.thy ===== *)
theory App_Names
  imports Backend_Exports Flatten_Map "HOL-Library.Word"
begin

unbundle bit_operations_syntax

text \<open>
  The pure functions of the AppClusterBinding controller of the example backend,
  \<open>bind/contrib/example-backend/controllers/appclusterbinding/appclusterbinding_reconcile.go\<close>: the names it derives from a
  binding and from a template, and the cleaning of the container overrides.

  Strings are ASCII, as the names of Kubernetes objects are: \<open>TrimSpace\<close> and \<open>ToLower\<close> are \<open>strings.TrimSpace\<close> and
  \<open>strings.ToLower\<close> there. The hash in a name is FNV-1a on 32-bit words (\<open>hash/fnv\<close>), printed with
  \<open>%08x\<close>. The JSON of the overrides is the type \<open>json\<close>; a map that \<open>range\<close> visits in any order is cleaned key by key, so
  the order does not matter.

  The lemmas show that a request name is a DNS label of at most 63 characters, that it keeps templates with
  different hashes apart, and that cleaning removes the empty values below objects and
  nothing else.
\<close>

section \<open>Strings\<close>

definition lowerChar :: "char \<Rightarrow> char" where
  "lowerChar c = (if of_char c \<in> {65..90 :: nat} then char_of (of_char c + 32 :: nat) else c)"

definition ToLower :: "string \<Rightarrow> string" where
  "ToLower s = map lowerChar s"

definition nameChar :: "char \<Rightarrow> bool" where
  "nameChar c \<longleftrightarrow> of_char c \<in> {97..122 :: nat} \<or> of_char c \<in> {48..57 :: nat}"

definition trimDash :: "string \<Rightarrow> string" where
  "trimDash s = rev (dropWhile (\<lambda>c. c = CHR ''-'') (rev (dropWhile (\<lambda>c. c = CHR ''-'') s)))"

section \<open>The hash\<close>

definition fnvOffset :: "32 word" where
  "fnvOffset = 2166136261"

definition fnvPrime :: "32 word" where
  "fnvPrime = 16777619"

definition Sum32a :: "string \<Rightarrow> 32 word" where
  "Sum32a s = fold (\<lambda>c h. (h XOR of_nat (of_char c)) * fnvPrime) s fnvOffset"

definition hexDigit :: "nat \<Rightarrow> char" where
  "hexDigit d = (if d < 10 then char_of (48 + d) else char_of (87 + d))"

definition hex8 :: "32 word \<Rightarrow> string" where
  "hex8 w = map (\<lambda>i. hexDigit (unat (drop_bit (4 * i) w AND 15))) [7, 6, 5, 4, 3, 2, 1, 0]"

section \<open>Request names\<close>

fun sanitizeLoop :: "bool \<Rightarrow> string \<Rightarrow> string" where
  "sanitizeLoop lastDash [] = []"
| "sanitizeLoop lastDash (r # rs) =
     (if nameChar r then r # sanitizeLoop False rs
      else if \<not> lastDash then CHR ''-'' # sanitizeLoop True rs
      else sanitizeLoop True rs)"

definition sanitizeNamePart :: "string \<Rightarrow> string" where
  "sanitizeNamePart input =
     (let sanitized = trimDash (sanitizeLoop False (ToLower (TrimSpace input))) in
      if sanitized = '''' then '''' else if length sanitized > 24 then take 24 sanitized else sanitized)"

definition apiServiceExportRequestNamePrefix :: string where
  "apiServiceExportRequestNamePrefix = ''appclusterbinding''"

definition joinName :: "string \<Rightarrow> string \<Rightarrow> string \<Rightarrow> string" where
  "joinName bindingPart exportPart hash =
     apiServiceExportRequestNamePrefix @ ''-'' @ bindingPart @ ''-'' @ exportPart @ ''-'' @ hash"

definition apiServiceExportRequestName :: "string \<Rightarrow> string \<Rightarrow> string" where
  "apiServiceExportRequestName bindName apiExport =
     (let b = sanitizeNamePart bindName; bindingPart = (if b = '''' then ''binding'' else b);
          e = sanitizeNamePart apiExport; exportPart = (if e = '''' then ''export'' else e);
          hash = hex8 (Sum32a apiExport);
          name = joinName bindingPart exportPart hash
      in if length name \<le> 63 then name
         else
           (let overhead = length apiServiceExportRequestNamePrefix + length bindingPart + length hash + 3;
                room = (63 :: int) - int overhead;
                maxExportLen = (if room < 1 then 1 else room)
            in if int (length exportPart) > maxExportLen
               then joinName bindingPart (take (nat maxExportLen) exportPart) hash
               else joinName bindingPart exportPart hash))"

section \<open>Names of a binding\<close>

definition bindingRootNamespacePrefix :: string where
  "bindingRootNamespacePrefix = ''klutch-bind''"

definition getBindingRootNamespace :: "string \<Rightarrow> string \<Rightarrow> string" where
  "getBindingRootNamespace ns name = Sprintf ''%s-%s-%s'' [FStr bindingRootNamespacePrefix, FStr ns, FStr name]"

definition apiServiceBindingName :: "APIServiceExportTemplate \<Rightarrow> string" where
  "apiServiceBindingName template =
     (let res = TrimSpace (gr_Resource (et_Selector template));
          grp = TrimSpace (gr_Group (et_Selector template))
      in if res = '''' then '''' else if grp = '''' then res else res @ ''.'' @ grp)"

definition apiServiceExportName :: "APIServiceExportTemplate \<Rightarrow> string" where
  "apiServiceExportName template = apiServiceBindingName template"

section \<open>Container overrides\<close>

primrec isEmptyValue :: "json \<Rightarrow> bool" where
  "isEmptyValue JNull = True"
| "isEmptyValue (JStr s) = (s = '''')"
| "isEmptyValue (JNum n) = (n = 0)"
| "isEmptyValue (JBool b) = (\<not> b)"
| "isEmptyValue (JArr xs) = (length xs = 0)"
| "isEmptyValue (JObj m) = (m = fmempty)"

text \<open>The entries that are kept: those with a value.\<close>

definition keptEntries :: "(string, json option) fmap \<Rightarrow> (string, json) fmap" where
  "keptEntries m = fmmap the (fmfilter (\<lambda>k. fmlookup m k \<noteq> Some None) m)"

text \<open>What becomes of a value: \<open>None\<close> leaves its key out.\<close>

primrec cleanValue :: "json \<Rightarrow> json option" where
  "cleanValue JNull = (if isEmptyValue JNull then None else Some JNull)"
| "cleanValue (JStr s) = (if isEmptyValue (JStr s) then None else Some (JStr s))"
| "cleanValue (JNum n) = (if isEmptyValue (JNum n) then None else Some (JNum n))"
| "cleanValue (JBool b) = (if isEmptyValue (JBool b) then None else Some (JBool b))"
| "cleanValue (JArr xs) = (if isEmptyValue (JArr xs) then None else Some (JArr xs))"
| "cleanValue (JObj m) =
     (if isEmptyValue (JObj m) then None
      else (let cleaned = keptEntries (fmmap cleanValue m)
            in if cleaned \<noteq> fmempty then Some (JObj cleaned) else None))"

definition cleanMap :: "(string, json) fmap \<Rightarrow> (string, json) fmap" where
  "cleanMap m = keptEntries (fmmap cleanValue m)"

definition removeEmptyFields ::
  "(string \<Rightarrow> apierr + (string, json) fmap) \<Rightarrow> ((string, json) fmap \<Rightarrow> apierr + string) \<Rightarrow> string \<Rightarrow> apierr + string" where
  "removeEmptyFields unmarshal marshal data =
     (case unmarshal data of
        Inl e \<Rightarrow> Inl e
      | Inr raw \<Rightarrow> marshal (cleanMap raw))"

section \<open>A request name is a DNS label\<close>

definition labelChar :: "char \<Rightarrow> bool" where
  "labelChar c \<longleftrightarrow> nameChar c \<or> c = CHR ''-''"

definition dnsLabel :: "string \<Rightarrow> bool" where
  "dnsLabel s \<longleftrightarrow>
     s \<noteq> '''' \<and> length s \<le> 63 \<and> list_all labelChar s \<and> nameChar (hd s) \<and> nameChar (last s)"

lemma set_dropWhileD2: "x \<in> set (dropWhile P xs) \<Longrightarrow> x \<in> set xs"
  by (induction xs) (auto split: if_splits)

lemma sanitizeLoop_label: "list_all labelChar (sanitizeLoop d s)"
  by (induction d s rule: sanitizeLoop.induct) (simp_all add: labelChar_def)

lemma sanitizeNamePart_label:
  "list_all labelChar (sanitizeNamePart s)" "length (sanitizeNamePart s) \<le> 24"
proof -
  have "set (trimDash x) \<subseteq> set x" for x
    by (auto simp: trimDash_def dest!: set_dropWhileD2)
  then have "list_all labelChar (trimDash (sanitizeLoop False x))" for x
    using sanitizeLoop_label[of False x] by (auto simp: list_all_iff)
  then show "list_all labelChar (sanitizeNamePart s)"
    by (auto simp: sanitizeNamePart_def Let_def list_all_iff dest: in_set_takeD)
  show "length (sanitizeNamePart s) \<le> 24"
    by (simp add: sanitizeNamePart_def Let_def)
qed

lemma hexDigit_name: "d < 16 \<Longrightarrow> nameChar (hexDigit d)"
  by (auto simp: hexDigit_def nameChar_def)

lemma hex8_name: "list_all nameChar (hex8 w)" and length_hex8 [simp]: "length (hex8 w) = 8"
proof -
  have "unat (x AND 15) < 16" for x :: "32 word"
  proof -
    have "x AND 15 \<le> 15" by (rule word_and_le1)
    then show ?thesis by (simp add: word_le_nat_alt)
  qed
  then show "list_all nameChar (hex8 w)"
    by (simp add: hex8_def hexDigit_name)
  show "length (hex8 w) = 8"
    by (simp add: hex8_def)
qed

lemma length_prefix [simp]: "length apiServiceExportRequestNamePrefix = 17"
  by (simp add: apiServiceExportRequestNamePrefix_def)

lemma length_joinName [simp]: "length (joinName b e h) = 20 + length b + length e + length h"
  by (simp add: joinName_def)

lemma joinName_label:
  assumes "list_all labelChar b" and "list_all labelChar e" and "length (joinName b e (hex8 w)) \<le> 63"
  shows "dnsLabel (joinName b e (hex8 w))"
proof -
  have p: "list_all labelChar apiServiceExportRequestNamePrefix" "nameChar (hd apiServiceExportRequestNamePrefix)"
    by (simp_all add: apiServiceExportRequestNamePrefix_def labelChar_def nameChar_def)
  have ne: "hex8 w \<noteq> []"
    using length_hex8[of w] by (auto simp del: length_hex8)
  then have h: "list_all labelChar (hex8 w)" "nameChar (last (hex8 w))"
    using hex8_name[of w] by (simp_all add: list_all_iff labelChar_def)
  show ?thesis
    using assms p h ne
    by (auto simp: dnsLabel_def joinName_def labelChar_def hd_append apiServiceExportRequestNamePrefix_def)
qed

lemma requestName_label: "dnsLabel (apiServiceExportRequestName bindName apiExport)"
proof -
  define b where "b = (let b = sanitizeNamePart bindName in if b = '''' then ''binding'' else b)"
  define e where "e = (let e = sanitizeNamePart apiExport in if e = '''' then ''export'' else e)"
  let ?h = "hex8 (Sum32a apiExport)"
  have b: "list_all labelChar b" "length b \<le> 24"
    using sanitizeNamePart_label[of bindName] by (auto simp: b_def Let_def labelChar_def nameChar_def)
  have e: "list_all labelChar e" "length e \<le> 24"
    using sanitizeNamePart_label[of apiExport] by (auto simp: e_def Let_def labelChar_def nameChar_def)
  have t: "list_all labelChar (take k e)" for k
    using e(1) by (auto simp: list_all_iff dest: in_set_takeD)
  have "apiServiceExportRequestName bindName apiExport =
      (if length (joinName b e ?h) \<le> 63 then joinName b e ?h else joinName b (take (35 - length b) e) ?h)"
    using b(2) by (auto simp: apiServiceExportRequestName_def Let_def b_def[unfolded Let_def, symmetric]
        e_def[unfolded Let_def, symmetric] nat_diff_distrib')
  then show ?thesis
    using joinName_label[OF b(1) e(1)] joinName_label[OF b(1) t, of "35 - length b"] b(2) by auto
qed

section \<open>The hash in a request name\<close>

lemma hexDigit_inj: "d < 16 \<Longrightarrow> d' < 16 \<Longrightarrow> hexDigit d = hexDigit d' \<Longrightarrow> d = d'"
  by (auto simp: hexDigit_def char_of_eq_iff take_bit_eq_mod split: if_splits)

lemma nibble_mask: "unat (drop_bit k w AND 15) < 16" for w :: "32 word"
proof -
  have "drop_bit k w AND 15 \<le> 15" by (rule word_and_le1)
  then show ?thesis by (simp add: word_le_nat_alt)
qed

lemma hex8_inj: "hex8 w = hex8 v \<Longrightarrow> w = v"
proof (rule bit_word_eqI)
  fix n
  assume eq: "hex8 w = hex8 v" and n: "n < LENGTH(32)"
  have "unat (drop_bit (4 * i) w AND 15) = unat (drop_bit (4 * i) v AND 15)" if "i < 8" for i
    using eq that hexDigit_inj[OF nibble_mask nibble_mask, of "4 * i" w "4 * i" v]
    by (auto simp: hex8_def less_Suc_eq numeral_eq_Suc)
  then have "unat (drop_bit (4 * (n div 4)) w AND 15) = unat (drop_bit (4 * (n div 4)) v AND 15)"
    using n by simp
  then have "drop_bit (4 * (n div 4)) w AND 15 = drop_bit (4 * (n div 4)) v AND 15"
    by (simp only: word_unat_eq_iff)
  then have "bit (drop_bit (4 * (n div 4)) w AND mask 4) (n mod 4) = bit (drop_bit (4 * (n div 4)) v AND mask 4) (n mod 4)"
    by (simp add: mask_eq_exp_minus_1)
  moreover have "n mod 4 < 32"
    by (rule less_trans[of _ 4]) simp_all
  ultimately show "bit w n = bit v n"
    using n by (simp add: bit_simps)
qed

lemma requestName_hash:
  "\<exists>p. apiServiceExportRequestName bindName apiExport = p @ hex8 (Sum32a apiExport)"
  by (simp add: apiServiceExportRequestName_def joinName_def Let_def)

lemma requestName_separates:
  assumes "apiServiceExportRequestName b x = apiServiceExportRequestName b' y"
  shows "Sum32a x = Sum32a y"
  using assms requestName_hash[of b x] requestName_hash[of b' y] length_hex8
  by (metis append_eq_append_conv hex8_inj)

section \<open>Cleaning keeps what is set\<close>

primrec valueAt :: "string list \<Rightarrow> json \<Rightarrow> json option" where
  "valueAt [] v = Some v"
| "valueAt (k # ks) v = (case v of JObj m \<Rightarrow> Option.bind (fmlookup m k) (valueAt ks) | _ \<Rightarrow> None)"

lemma lookup_keptEntries:
  "fmlookup (keptEntries m) k = (case fmlookup m k of Some (Some v) \<Rightarrow> Some v | _ \<Rightarrow> None)"
  by (simp add: keptEntries_def split: option.splits)

lemma lookup_cleanMap: "fmlookup (cleanMap m) k = Option.bind (fmlookup m k) cleanValue"
  by (simp add: cleanMap_def lookup_keptEntries split: option.splits)

lemma cleanValue_JObj: "cleanValue (JObj m) = (if cleanMap m = fmempty then None else Some (JObj (cleanMap m)))"
proof (cases "m = fmempty")
  case True
  have "cleanMap fmempty = fmempty" by (rule fmap_ext) (simp add: lookup_cleanMap)
  then show ?thesis using True by simp
qed (simp add: cleanMap_def Let_def)

lemma cleanValue_leaf: "\<not> isObject v \<Longrightarrow> cleanValue v = (if isEmptyValue v then None else Some v)"
  by (cases v) simp_all

lemma valueAt_cleanMap:
  assumes "\<not> isObject v"
  shows "valueAt (k # ks) (JObj (cleanMap m)) = Some v \<longleftrightarrow>
         valueAt (k # ks) (JObj m) = Some v \<and> \<not> isEmptyValue v"
proof (induction ks arbitrary: k m)
  case Nil
  have "cleanValue u = Some v \<longleftrightarrow> u = v \<and> \<not> isEmptyValue v" for u
  proof (cases "isObject u")
    case True
    then obtain n where "u = JObj n" by (cases u) auto
    then show ?thesis using assms by (auto simp: cleanValue_JObj simp del: cleanValue.simps)
  qed (auto simp: cleanValue_leaf)
  then show ?case
    by (simp add: lookup_cleanMap bind_eq_Some_conv)
next
  case (Cons k' ks)
  have 0: "valueAt (k' # ks) (JObj fmempty) \<noteq> Some v"
    by simp
  have "Option.bind (cleanValue u) (valueAt (k' # ks)) = Some v \<longleftrightarrow>
      valueAt (k' # ks) u = Some v \<and> \<not> isEmptyValue v" for u
  proof (cases u)
    case (JObj n)
    have "Option.bind (cleanValue u) (valueAt (k' # ks)) = Some v \<longleftrightarrow>
        valueAt (k' # ks) (JObj (cleanMap n)) = Some v"
      using 0 by (simp add: JObj cleanValue_JObj del: cleanValue.simps valueAt.simps)
    then show ?thesis
      using Cons.IH[of k' n] by (simp only: JObj)
  qed simp_all
  then show ?case
    by (simp add: lookup_cleanMap bind_eq_Some_conv del: valueAt.simps(2) add: valueAt.simps(2)[of k]) blast
qed

text \<open>No empty value is left, at any depth below objects.\<close>

primrec noEmptyFields :: "json \<Rightarrow> bool" where
  "noEmptyFields JNull = False"
| "noEmptyFields (JStr s) = (s \<noteq> '''')"
| "noEmptyFields (JNum n) = (n \<noteq> 0)"
| "noEmptyFields (JBool b) = b"
| "noEmptyFields (JArr xs) = (xs \<noteq> [])"
| "noEmptyFields (JObj m) = (m \<noteq> fmempty \<and> fmpred (\<lambda>k v. v) (fmmap noEmptyFields m))"

lemma cleanValue_noEmpty: "cleanValue v = Some w \<Longrightarrow> noEmptyFields w"
proof (induction v arbitrary: w)
  case (JObj m)
  have "noEmptyFields u" if "fmlookup (cleanMap m) k = Some u" for k u
    using that JObj.IH[OF fmran'I] by (auto simp: lookup_cleanMap bind_eq_Some_conv)
  then show ?case
    using JObj.prems by (auto simp: cleanValue_JObj fmpred_iff simp del: cleanValue.simps split: if_splits)
qed (auto split: if_splits)

lemma cleanValue_idle: "noEmptyFields v \<Longrightarrow> cleanValue v = Some v"
proof (induction v)
  case (JObj m)
  have "cleanValue u = Some u" if "fmlookup m k = Some u" for k u
    using JObj.prems that by (intro JObj.IH fmran'I[OF that]) (auto simp: fmpred_iff)
  then have "cleanMap m = m"
    by (intro fmap_ext) (auto simp: lookup_cleanMap split: Option.bind_splits)
  then show ?case
    using JObj.prems by (simp add: cleanValue_JObj del: cleanValue.simps)
qed simp_all

lemma cleanMap_clean: "cleanMap (cleanMap m) = cleanMap m"
  by (rule fmap_ext) (auto simp: lookup_cleanMap cleanValue_idle[OF cleanValue_noEmpty] split: Option.bind_splits)

end
