(* ===== verification/App_Calls.thy ===== *)
theory App_Calls
  imports App_Names "HOL-Library.State_Monad"
begin

text \<open>
  The objects and the calls of the AppClusterBinding controller of the example backend: the type AppClusterBinding
  (\<open>bind/pkg/apis/bind/v1alpha1/appclusterbinding_types.go\<close>), the deployment of the konnector
  (\<open>bind/pkg/konnector/deployment.go\<close>), and the functions that the struct \<open>reconciler\<close> of
  \<open>appclusterbinding_reconcile.go\<close> holds.

  The controller makes many calls in one run, so its operations are in the state monad of the library over
  the log of the calls made so far: \<open>ask\<close> answers a call from the log and appends it. A read is a field
  of \<open>app_reconciler\<close> that gets the log; all the functions that create, update or delete are the one field
  \<open>ap_write\<close>, which gets the call. An error list stands for \<open>NewAggregate\<close>: empty is nil. The order in which \<open>range\<close> visits
  a Go map is the field \<open>ap_order\<close>.

  The contract that the proofs use is \<open>emits P m\<close>: an operation only appends to the log, and every
  call it appends satisfies \<open>P\<close>. Its rules follow the structure of an operation.
\<close>

section \<open>AppClusterBinding\<close>

definition AppClusterBindingConditionSecretValid :: ConditionType where
  [klutch_defs]: "AppClusterBindingConditionSecretValid = ''SecretValid''"
definition AppClusterBindingConditionKonnectorDeployed :: ConditionType where
  [klutch_defs]: "AppClusterBindingConditionKonnectorDeployed = ''KonnectorDeployed''"

text \<open>The overrides are a struct of optional fields; the model has the JSON object that it is marshalled to.\<close>

record KonnectorSpec =
  ks_Deploy :: bool
  ks_Overrides :: "(string, json) fmap option"

record AppClusterBinding =
  ab_Kind :: string
  ab_Meta :: ObjectMeta
  ab_KubeconfigSecretRef :: ClusterSecretKeyRef
  ab_APIExports :: "GroupResource list"
  ab_Konnector :: "KonnectorSpec option"
  ab_Conditions :: conditions

definition appBindingSetter :: "AppClusterBinding setter" where
  "appBindingSetter =
     \<lparr>GetConditions = ab_Conditions, GetName = (\<lambda>o'. om_Name (ab_Meta o')), GetKind = ab_Kind,
      SetConditions = (\<lambda>o' cs. o'\<lparr>ab_Conditions := cs\<rparr>)\<rparr>"

interpretation ab: condition_setter appBindingSetter
  by unfold_locales (simp_all add: appBindingSetter_def)

definition appName :: "AppClusterBinding \<Rightarrow> string" where
  "appName b = om_Name (ab_Meta b)"

definition appNamespace :: "AppClusterBinding \<Rightarrow> string" where
  "appNamespace b = om_Namespace (ab_Meta b)"

definition rootNamespace :: "AppClusterBinding \<Rightarrow> string" where
  "rootNamespace b = getBindingRootNamespace (appNamespace b) (appName b)"

section \<open>Deployments\<close>

record Container =
  co_Name :: string
  co_Image :: string
  co_Args :: "string list"
  co_Env :: "(string \<times> string) list"
  co_ReadinessPath :: string
  co_ReadinessPort :: int

text \<open>\<open>ds_Other\<close> are the fields that the code never sets; the API server may fill them in.\<close>

record DeploymentSpec =
  ds_Replicas :: int
  ds_MatchLabels :: "(string, string) fmap"
  ds_PodLabels :: "(string, string) fmap"
  ds_RestartPolicy :: string
  ds_ServiceAccountName :: string
  ds_Containers :: "Container list"
  ds_Other :: json

record Deployment =
  dp_Meta :: ObjectMeta
  dp_Spec :: DeploymentSpec

definition konnectorLabels :: "(string, string) fmap" where
  "konnectorLabels = fmap_of_list [(''app'', ''konnector'')]"

text \<open>One map of labels is used in three places; environment variables are read from the given field of the pod.\<close>

definition BaseDeployment :: "string \<Rightarrow> Deployment" where
  "BaseDeployment img =
     \<lparr>dp_Meta = (namedMeta ''konnector'')\<lparr>om_Namespace := ''klutch-bind'', om_Labels := konnectorLabels\<rparr>,
      dp_Spec =
        \<lparr>ds_Replicas = 2, ds_MatchLabels = konnectorLabels, ds_PodLabels = konnectorLabels,
         ds_RestartPolicy = ''Always'', ds_ServiceAccountName = ''konnector'',
         ds_Containers =
           [\<lparr>co_Name = ''konnector'', co_Image = img, co_Args = [],
             co_Env = [(''POD_NAME'', ''metadata.name''), (''POD_NAMESPACE'', ''metadata.namespace'')],
             co_ReadinessPath = ''/healthz'', co_ReadinessPort = 8080\<rparr>],
         ds_Other = JNull\<rparr>\<rparr>"

definition konnectorImage :: string where
  "konnectorImage = ''public.ecr.aws/w5n9a2g2/klutch/konnector:v1.4.0''"

section \<open>Calls\<close>

datatype app_call =
    GetSecret string string
  | CreateSecret string Secret
  | UpdateSecret string Secret
  | ListBindings "(string, string) fmap"
  | CreateBinding APIServiceBinding
  | UpdateBinding APIServiceBinding
  | DeleteBinding string string
  | GetTemplate string string
  | ListRequests string "(string, string) fmap"
  | CreateRequest string APIServiceExportRequest
  | DeleteRequest string string
  | ListExports string
  | DeleteExport string string
  | GetAppRole string string
  | CreateAppRole string Role
  | UpdateAppRole string Role
  | GetAppRoleBinding string string
  | CreateAppRoleBinding string RoleBinding
  | UpdateAppRoleBinding string RoleBinding
  | ReadClusterRole string
  | DeleteClusterRole string
  | ReadClusterRoleBinding string
  | RemoveClusterRoleBinding string
  | ReadNamespace string
  | NewNamespace ObjectMeta
  | RemoveNamespace string
  | ReadServiceAccount string string
  | NewServiceAccount string string
  | ReadClusterBinding string string
  | NewClusterBinding string ClusterBinding
  | UpdateClusterBinding string ClusterBinding
  | GetDeployment string string
  | CreateDeployment string Deployment
  | UpdateDeployment string Deployment
  | DeleteDeployment string string
  | UpdateObject AppClusterBinding
  | UpdateObjectStatus AppClusterBinding

type_synonym app_calls = "app_call list"

record jsonlib =
  js_marshalContainer :: "Container \<Rightarrow> apierr + string"
  js_marshalOverrides :: "(string, json) fmap \<Rightarrow> apierr + string"
  js_unmarshalMap :: "string \<Rightarrow> apierr + (string, json) fmap"
  js_marshalMap :: "(string, json) fmap \<Rightarrow> apierr + string"
  js_StrategicMergePatch :: "string \<Rightarrow> string \<Rightarrow> apierr + string"
  js_unmarshalContainer :: "string \<Rightarrow> apierr + Container"

record app_reconciler =
  ap_getSecret :: "app_calls \<Rightarrow> string \<Rightarrow> string \<Rightarrow> apierr + Secret"
  ap_listServiceBindings :: "app_calls \<Rightarrow> (string, string) fmap \<Rightarrow> apierr + APIServiceBinding list"
  ap_templates :: "app_calls \<Rightarrow> apierr + APIServiceExportTemplate list"
  ap_listRequests :: "app_calls \<Rightarrow> string \<Rightarrow> (string, string) fmap \<Rightarrow> apierr + APIServiceExportRequest list"
  ap_listExports :: "app_calls \<Rightarrow> string \<Rightarrow> apierr + APIServiceExport list"
  ap_getRole :: "app_calls \<Rightarrow> string \<Rightarrow> string \<Rightarrow> apierr + Role"
  ap_getRoleBinding :: "app_calls \<Rightarrow> string \<Rightarrow> string \<Rightarrow> apierr + RoleBinding"
  ap_getClusterRole :: "app_calls \<Rightarrow> string \<Rightarrow> apierr + Role"
  ap_getClusterRoleBinding :: "app_calls \<Rightarrow> string \<Rightarrow> apierr + RoleBinding"
  ap_getNamespace :: "app_calls \<Rightarrow> string \<Rightarrow> apierr + ObjectMeta"
  ap_getServiceAccount :: "app_calls \<Rightarrow> string \<Rightarrow> string \<Rightarrow> apierr + ObjectMeta"
  ap_getClusterBinding :: "app_calls \<Rightarrow> string \<Rightarrow> string \<Rightarrow> apierr + ClusterBinding"
  ap_getDeployment :: "app_calls \<Rightarrow> string \<Rightarrow> string \<Rightarrow> apierr + Deployment"
  ap_write :: "app_calls \<Rightarrow> app_call \<Rightarrow> apierr option"
  ap_clientcmd :: clientcmd
  ap_json :: jsonlib
  ap_order :: order
  ap_convert :: "AppClusterBinding \<Rightarrow> apierr option"

type_synonym 'a app = "(app_calls, 'a) state"

definition ask :: "(app_calls \<Rightarrow> 'a) \<Rightarrow> app_call \<Rightarrow> 'a app" where
  "ask f c = State (\<lambda>l. (f l, l @ [c]))"

lemma run_ask [simp]: "run_state (ask f c) l = (f l, l @ [c])"
  by (simp add: ask_def)

definition writeCall :: "app_reconciler \<Rightarrow> app_call \<Rightarrow> apierr option app" where
  "writeCall R c = ask (\<lambda>l. ap_write R l c) c"

text \<open>A write whose error is wrapped, and a deletion that takes not found for done.\<close>

definition writing :: "app_reconciler \<Rightarrow> app_call \<Rightarrow> string \<Rightarrow> fmtarg list \<Rightarrow> apierr list app" where
  "writing R c fmt args = do {
     err \<leftarrow> writeCall R c;
     State_Monad.return (case err of None \<Rightarrow> [] | Some e \<Rightarrow> [wrapErr fmt args e])
   }"

definition deleting :: "app_reconciler \<Rightarrow> app_call \<Rightarrow> string \<Rightarrow> fmtarg list \<Rightarrow> apierr list app" where
  "deleting R c fmt args = do {
     err \<leftarrow> writeCall R c;
     State_Monad.return (case err of None \<Rightarrow> [] | Some e \<Rightarrow> if IsNotFound e then [] else [wrapErr fmt args e])
   }"

text \<open>The loop \<open>for _, x := range xs\<close> that collects errors.\<close>

primrec forEach :: "('x \<Rightarrow> apierr list app) \<Rightarrow> 'x list \<Rightarrow> apierr list app" where
  "forEach f [] = State_Monad.return []"
| "forEach f (x # xs) = do { es \<leftarrow> f x; es' \<leftarrow> forEach f xs; State_Monad.return (es @ es') }"

section \<open>What an operation emits\<close>

definition emits :: "(app_call \<Rightarrow> bool) \<Rightarrow> 'a app \<Rightarrow> bool" where
  "emits P m \<longleftrightarrow> (\<forall>l. \<exists>cs. snd (run_state m l) = l @ cs \<and> list_all P cs)"

named_theorems emits_intros

lemma emits_return [emits_intros]: "emits P (State_Monad.return x)"
  by (simp add: emits_def)

lemma emits_ask [emits_intros]: "P c \<Longrightarrow> emits P (ask f c)"
  by (simp add: emits_def)

lemma emits_bind [emits_intros]:
  assumes "emits P m" and "\<And>x. emits P (f x)"
  shows "emits P (State_Monad.bind m f)"
  unfolding emits_def
proof
  fix l
  obtain x l1 where m: "run_state m l = (x, l1)" by force
  obtain c1 where "l1 = l @ c1" "list_all P c1"
    using assms(1) m unfolding emits_def by (metis snd_conv)
  moreover obtain c2 where "snd (run_state (f x) l1) = l1 @ c2" "list_all P c2"
    using assms(2)[of x] unfolding emits_def by blast
  ultimately show "\<exists>cs. snd (run_state (State_Monad.bind m f) l) = l @ cs \<and> list_all P cs"
    by (intro exI[of _ "c1 @ c2"]) (simp add: m)
qed

lemma emits_if [emits_intros]: "(b \<Longrightarrow> emits P m) \<Longrightarrow> (\<not> b \<Longrightarrow> emits P m') \<Longrightarrow> emits P (if b then m else m')"
  by simp

lemma emits_sum [emits_intros]:
  "(\<And>e. emits P (f e)) \<Longrightarrow> (\<And>x. emits P (g x)) \<Longrightarrow> emits P (case s of Inl e \<Rightarrow> f e | Inr x \<Rightarrow> g x)"
  by (cases s) simp_all

lemma emits_option [emits_intros]:
  "emits P m \<Longrightarrow> (\<And>x. emits P (g x)) \<Longrightarrow> emits P (case s of None \<Rightarrow> m | Some x \<Rightarrow> g x)"
  by (cases s) simp_all

lemma emits_prod [emits_intros]: "(\<And>a b. emits P (f a b)) \<Longrightarrow> emits P (case p of (a, b) \<Rightarrow> f a b)"
  by (cases p) simp

lemma emits_forEach [emits_intros]: "(\<And>x. x \<in> set xs \<Longrightarrow> emits P (f x)) \<Longrightarrow> emits P (forEach f xs)"
  by (induction xs) (auto intro!: emits_intros)

lemma emits_writes [emits_intros]:
  "P c \<Longrightarrow> emits P (writeCall R c)"
  "P c \<Longrightarrow> emits P (writing R c fmt args)"
  "P c \<Longrightarrow> emits P (deleting R c fmt args)"
  by (auto simp: writeCall_def writing_def deleting_def intro!: emits_intros)

lemma emitsD: "emits P m \<Longrightarrow> run_state m l = (x, l') \<Longrightarrow> \<exists>cs. l' = l @ cs \<and> list_all P cs"
  unfolding emits_def by (metis snd_conv)

lemma emits_mono: "emits P m \<Longrightarrow> (\<And>c. P c \<Longrightarrow> Q c) \<Longrightarrow> emits Q m"
  unfolding emits_def by (metis (no_types, lifting) list.pred_mono_strong)

end
