(* ===== verification/App_Cluster_Binding.thy ===== *)
theory App_Cluster_Binding
  imports App_Calls
begin

text \<open>
  The AppClusterBinding controller of the example backend,
  \<open>bind/contrib/example-backend/controllers/appclusterbinding\<close>: \<open>appclusterbinding_reconcile.go\<close> and the functions \<open>process\<close>,
  \<open>enqueue...\<close> and the finalizer functions of \<open>appclusterbinding_controller.go\<close>, with
  \<open>kubernetes/bindings/bootstrap.go\<close>. For an app cluster it keeps, in a namespace of its own
  in the control plane, a copy of the kubeconfig, a ClusterBinding, roles, one APIServiceBinding and one
  APIServiceExportRequest per exported API, and a deployment of the konnector.

  The operations are in the state monad of \<open>App_Calls\<close>; each has the name of its Go method, with \<open>app_\<close> in front where another
  controller has a method of that name. A Go map is a finite map, and a loop over it goes through \<open>ap_order\<close>. An operation
  that mutates the binding returns it.

  The lemmas show that an error-free deletion has seen every resource gone, that the finalizer goes
  only then, that a run writes in the root namespace of its binding only, what
  becomes of the APIServiceBindings and of the exports, and what goes wrong when a template cannot be read.
\<close>

section \<open>Labels\<close>

definition appClusterBindingNameLabel :: string where
  [klutch_defs]: "appClusterBindingNameLabel = ''klutch.anynines.com/appclusterbinding-name''"
definition appClusterBindingNamespaceLabel :: string where
  [klutch_defs]: "appClusterBindingNamespaceLabel = ''klutch.anynines.com/appclusterbinding-namespace''"

definition ensureBindingLabels :: "(string, string) fmap \<Rightarrow> AppClusterBinding \<Rightarrow> (string, string) fmap" where
  "ensureBindingLabels target b =
     fmupd appClusterBindingNamespaceLabel (appNamespace b) (fmupd appClusterBindingNameLabel (appName b) target)"

definition bindingSelector :: "AppClusterBinding \<Rightarrow> (string, string) fmap" where
  "bindingSelector b = ensureBindingLabels fmempty b"

definition plainErr :: "string \<Rightarrow> fmtarg list \<Rightarrow> apierr" where
  "plainErr fmt args = \<lparr>reason = OtherReason '''', error_text = Sprintf fmt args\<rparr>"

section \<open>Deletion\<close>

definition listBindings :: "app_reconciler \<Rightarrow> AppClusterBinding \<Rightarrow> (apierr + APIServiceBinding list) app" where
  "listBindings R b = ask (\<lambda>l. ap_listServiceBindings R l (bindingSelector b)) (ListBindings (bindingSelector b))"

definition deleteBindings :: "app_reconciler \<Rightarrow> AppClusterBinding \<Rightarrow> apierr list app" where
  "deleteBindings R b = do {
     listed \<leftarrow> listBindings R b;
     (case listed of
        Inl e \<Rightarrow> State_Monad.return [wrapErr ''failed to list apiservicebindings for cleanup'' [] e]
      | Inr items \<Rightarrow> do {
          errs \<leftarrow> forEach (\<lambda>s. deleting R (DeleteBinding (om_Namespace (sb_Meta s)) (om_Name (sb_Meta s)))
                     ''failed to delete apiservicebinding %q'' [FStr (om_Name (sb_Meta s))]) items;
          remaining \<leftarrow> listBindings R b;
          State_Monad.return (errs @
            (case remaining of
               Inl e \<Rightarrow> [wrapErr ''failed to verify apiservicebinding cleanup'' [] e]
             | Inr left \<Rightarrow>
                 if left = [] then []
                 else [plainErr ''waiting for %d apiservicebinding resources to be deleted'' [FInt (int (length left))]]))
        })
   }"

text \<open>Delete one object and read it again: still there, or an error other than not found, is an error.\<close>

definition deleteAndVerify ::
  "app_reconciler \<Rightarrow> app_call \<Rightarrow> (app_calls \<Rightarrow> apierr + 'x) \<Rightarrow> app_call \<Rightarrow> string \<Rightarrow> string \<Rightarrow> string \<Rightarrow>
     apierr list app" where
  "deleteAndVerify R del readIt rd what cleanup name = do {
     errs \<leftarrow> deleting R del (''failed to delete '' @ what @ '' %q'') [FStr name];
     found \<leftarrow> ask readIt rd;
     State_Monad.return (errs @
       (case found of
          Inl e \<Rightarrow> if IsNotFound e then []
                   else [wrapErr (''failed to verify '' @ cleanup @ '' cleanup %q'') [FStr name] e]
        | Inr _ \<Rightarrow> [plainErr (cleanup @ '' %q still exists'') [FStr name]]))
   }"

definition konnectorRoleName :: "AppClusterBinding \<Rightarrow> string" where
  "konnectorRoleName b = Sprintf ''klutch-konnector-%s-%s'' [FStr (appNamespace b), FStr (appName b)]"

definition ensureDeleted :: "app_reconciler \<Rightarrow> AppClusterBinding \<Rightarrow> apierr list app" where
  "ensureDeleted R b = do {
     e1 \<leftarrow> deleteBindings R b;
     e2 \<leftarrow> deleteAndVerify R (RemoveClusterRoleBinding (konnectorRoleName b))
             (\<lambda>l. ap_getClusterRoleBinding R l (konnectorRoleName b))
             (ReadClusterRoleBinding (konnectorRoleName b))
             ''clusterrolebinding'' ''clusterrolebinding'' (konnectorRoleName b);
     e3 \<leftarrow> deleteAndVerify R (DeleteClusterRole (konnectorRoleName b))
             (\<lambda>l. ap_getClusterRole R l (konnectorRoleName b)) (ReadClusterRole (konnectorRoleName b))
             ''clusterrole'' ''clusterrole'' (konnectorRoleName b);
     e4 \<leftarrow> deleteAndVerify R (RemoveNamespace (rootNamespace b))
             (\<lambda>l. ap_getNamespace R l (rootNamespace b)) (ReadNamespace (rootNamespace b))
             ''binding root namespace'' ''namespace'' (rootNamespace b);
     State_Monad.return (e1 @ e2 @ e3 @ e4)
   }"

section \<open>The kubeconfig secret\<close>

definition secretRef :: "AppClusterBinding \<Rightarrow> ClusterSecretKeyRef" where
  "secretRef b = ab_KubeconfigSecretRef b"

definition readSecret :: "app_reconciler \<Rightarrow> string \<Rightarrow> string \<Rightarrow> (apierr + Secret) app" where
  "readSecret R ns name = ask (\<lambda>l. ap_getSecret R l ns name) (GetSecret ns name)"

definition app_secretInvalid ::
  "time \<Rightarrow> AppClusterBinding \<Rightarrow> string \<Rightarrow> string \<Rightarrow> fmtarg list \<Rightarrow> AppClusterBinding" where
  "app_secretInvalid now b rsn fmt args =
     MarkFalse appBindingSetter now b AppClusterBindingConditionSecretValid rsn ConditionSeverityError fmt
       ([FStr (ref_Namespace (secretRef b)), FStr (ref_Name (secretRef b))] @ args)"

text \<open>What the kubeconfig is, as the checks after the secret has been read find it.\<close>

definition checkKubeconfig :: "app_reconciler \<Rightarrow> time \<Rightarrow> AppClusterBinding \<Rightarrow> Secret \<Rightarrow> bool \<times> AppClusterBinding" where
  "checkKubeconfig R now b secret =
     (let invalid = (\<lambda>fmt args. (False, app_secretInvalid now b ''KubeconfigSecretInvalid'' fmt args)) in
      case fmlookup (sec_Data secret) (ref_Key (secretRef b)) of
        None \<Rightarrow> invalid ''Kubeconfig secret %s/%s is missing %q string key.'' [FStr (ref_Key (secretRef b))]
      | Some kubeconfig \<Rightarrow>
          (case Load (ap_clientcmd R) kubeconfig of
             Inl err \<Rightarrow> invalid ''Kubeconfig secret %s/%s has an invalid kubeconfig: %v'' [FStr err]
           | Inr cfg \<Rightarrow>
               if fmlookup (Contexts cfg) (CurrentContext cfg) = None
               then invalid ''Kubeconfig secret %s/%s has an invalid kubeconfig: current context %q not found''
                      [FStr (CurrentContext cfg)]
               else
                 (case RESTConfigFromKubeConfig (ap_clientcmd R) kubeconfig of
                    Inl err \<Rightarrow> invalid ''Kubeconfig secret %s/%s has an invalid kubeconfig: %v'' [FStr err]
                  | Inr _ \<Rightarrow> (True, MarkTrue appBindingSetter now b AppClusterBindingConditionSecretValid))))"

definition app_ensureValidKubeconfigSecret ::
  "app_reconciler \<Rightarrow> time \<Rightarrow> AppClusterBinding \<Rightarrow> (apierr list \<times> bool \<times> AppClusterBinding) app" where
  "app_ensureValidKubeconfigSecret R now b = do {
     found \<leftarrow> readSecret R (ref_Namespace (secretRef b)) (ref_Name (secretRef b));
     State_Monad.return
       (case found of
          Inl e \<Rightarrow>
            if \<not> IsNotFound e then ([e], False, b)
            else ([], False, app_secretInvalid now b ''KubeconfigSecretNotFound'' ''Kubeconfig secret %s/%s not found.'' [])
        | Inr secret \<Rightarrow> ([], checkKubeconfig R now b secret))
   }"

section \<open>The root namespace\<close>

text \<open>\<open>EnsureBindingRootResources\<close> of \<open>bootstrap.go\<close>: the namespace, then the service account in it.\<close>

definition EnsureBindingRootResources :: "app_reconciler \<Rightarrow> string \<Rightarrow> apierr list app" where
  "EnsureBindingRootResources R ns = do {
     nsFound \<leftarrow> ask (\<lambda>l. ap_getNamespace R l ns) (ReadNamespace ns);
     e1 \<leftarrow> (case nsFound of
              Inr _ \<Rightarrow> State_Monad.return []
            | Inl e \<Rightarrow>
                if \<not> IsNotFound e then State_Monad.return [wrapErr ''failed to get namespace %q'' [FStr ns] e]
                else writing R (NewNamespace (namedMeta ns)) ''failed to create namespace %q'' [FStr ns]);
     (if e1 \<noteq> [] then State_Monad.return e1
      else do {
        saFound \<leftarrow> ask (\<lambda>l. ap_getServiceAccount R l ns serviceAccountName) (ReadServiceAccount ns serviceAccountName);
        (case saFound of
           Inr _ \<Rightarrow> State_Monad.return []
         | Inl e \<Rightarrow>
             if \<not> IsNotFound e then State_Monad.return [wrapErr ''failed to get service account'' [] e]
             else writing R (NewServiceAccount ns serviceAccountName)
                    ''failed to create service account %q in namespace %q'' [FStr serviceAccountName, FStr ns])
      })
   }"

definition missingKey :: "AppClusterBinding \<Rightarrow> apierr" where
  "missingKey b =
     plainErr ''kubeconfig secret %s/%s is missing %q string key''
       [FStr (ref_Namespace (secretRef b)), FStr (ref_Name (secretRef b)), FStr (ref_Key (secretRef b))]"

definition mirroredSecret :: "AppClusterBinding \<Rightarrow> Secret \<Rightarrow> string \<Rightarrow> Secret" where
  "mirroredSecret b source kubeconfigData =
     \<lparr>sec_Name = ref_Name (secretRef b), sec_Namespace = rootNamespace b,
      sec_Labels = ensureBindingLabels fmempty b,
      sec_Data = fmap_of_list [(ref_Key (secretRef b), kubeconfigData)], sec_Type = sec_Type source\<rparr>"

definition ensureBindingRootKubeconfigSecret ::
  "app_reconciler \<Rightarrow> AppClusterBinding \<Rightarrow> Secret \<Rightarrow> apierr list app" where
  "ensureBindingRootKubeconfigSecret R b source =
     (let ns = rootNamespace b; name = ref_Name (secretRef b); args = [FStr ns, FStr name] in
      case fmlookup (sec_Data source) (ref_Key (secretRef b)) of
        None \<Rightarrow> State_Monad.return [missingKey b]
      | Some kubeconfigData \<Rightarrow>
          (let expected = mirroredSecret b source kubeconfigData in do {
             found \<leftarrow> readSecret R ns name;
             (case found of
                Inl e \<Rightarrow>
                  if \<not> IsNotFound e
                  then State_Monad.return [wrapErr ''failed to get mirrored kubeconfig secret %s/%s'' args e]
                  else writing R (CreateSecret ns expected) ''failed to create mirrored kubeconfig secret %s/%s'' args
              | Inr existing \<Rightarrow>
                  (let updated = existing\<lparr>sec_Labels := ensureBindingLabels (sec_Labels existing) b,
                                          sec_Type := sec_Type expected, sec_Data := sec_Data expected\<rparr>
                   in if sec_Labels existing \<noteq> sec_Labels updated \<or> sec_Data existing \<noteq> sec_Data updated \<or>
                         sec_Type existing \<noteq> sec_Type updated
                      then writing R (UpdateSecret ns updated) ''failed to update mirrored kubeconfig secret %s/%s'' args
                      else State_Monad.return []))
           }))"

definition app_clusterBinding :: "AppClusterBinding \<Rightarrow> ClusterBinding" where
  "app_clusterBinding b =
     \<lparr>cb_Kind = '''',
      cb_Meta = (namedMeta ''cluster'')\<lparr>om_Namespace := rootNamespace b, om_Labels := ensureBindingLabels fmempty b\<rparr>,
      cb_KubeconfigSecretRef = \<lparr>ref_Name = ref_Name (secretRef b), ref_Key = ref_Key (secretRef b)\<rparr>,
      cb_ProviderPrettyName = appName b, cb_LastHeartbeatTime = 0, cb_HeartbeatInterval = 0,
      cb_KonnectorVersion = '''', cb_Conditions = []\<rparr>"

text \<open>A nil ClusterBinding and one without a name count as not found.\<close>

definition ensureClusterBinding :: "app_reconciler \<Rightarrow> AppClusterBinding \<Rightarrow> apierr list app" where
  "ensureClusterBinding R b =
     (let ns = rootNamespace b; expected = app_clusterBinding b; args = [FStr ''cluster'', FStr ns];
          create = writing R (NewClusterBinding ns expected) ''failed to create clusterbinding %q in namespace %q'' args
      in do {
        found \<leftarrow> ask (\<lambda>l. ap_getClusterBinding R l ns ''cluster'') (ReadClusterBinding ns ''cluster'');
        (case found of
           Inl e \<Rightarrow> if \<not> IsNotFound e then State_Monad.return [wrapErr ''failed to get clusterbinding'' [] e] else create
         | Inr cb \<Rightarrow>
             if om_Name (cb_Meta cb) = '''' then create
             else if cb_KubeconfigSecretRef cb \<noteq> cb_KubeconfigSecretRef expected \<or>
                     cb_ProviderPrettyName cb \<noteq> cb_ProviderPrettyName expected \<or>
                     om_Labels (cb_Meta cb) \<noteq> om_Labels (cb_Meta expected)
             then writing R (UpdateClusterBinding ns
                     (cb\<lparr>cb_Meta := (cb_Meta cb)\<lparr>om_Name := ''cluster'', om_Labels := om_Labels (cb_Meta expected)\<rparr>,
                         cb_KubeconfigSecretRef := cb_KubeconfigSecretRef expected,
                         cb_ProviderPrettyName := cb_ProviderPrettyName expected\<rparr>))
                    ''failed to update clusterbinding %q in namespace %q'' args
             else State_Monad.return [])
      })"

definition ensureBindingRootResources :: "app_reconciler \<Rightarrow> AppClusterBinding \<Rightarrow> apierr list app" where
  "ensureBindingRootResources R b =
     (let args = [FStr (ref_Namespace (secretRef b)), FStr (ref_Name (secretRef b))] in do {
        e1 \<leftarrow> EnsureBindingRootResources R (rootNamespace b);
        (if e1 \<noteq> [] then State_Monad.return (map (wrapErr ''failed to ensure binding root resources'' []) e1)
         else do {
           found \<leftarrow> readSecret R (ref_Namespace (secretRef b)) (ref_Name (secretRef b));
           (case found of
              Inl e \<Rightarrow> State_Monad.return [wrapErr ''failed to get kubeconfig secret %s/%s'' args e]
            | Inr source \<Rightarrow>
                if fmlookup (sec_Data source) (ref_Key (secretRef b)) = None then State_Monad.return [missingKey b]
                else do {
                  e2 \<leftarrow> ensureBindingRootKubeconfigSecret R b source;
                  (if e2 \<noteq> [] then State_Monad.return e2 else ensureClusterBinding R b)
                })
         })
      })"

section \<open>The role of the konnector\<close>

definition controlPlaneConnectorRoleName :: string where
  [klutch_defs]: "controlPlaneConnectorRoleName = ''control-plane-connector''"

definition policyRule :: "string \<Rightarrow> string \<Rightarrow> string list \<Rightarrow> PolicyRule" where
  "policyRule grp res verbs =
     \<lparr>pr_APIGroups = [grp], pr_Resources = [res], pr_Verbs = verbs, pr_ResourceNames = []\<rparr>"

definition connectorRole :: "AppClusterBinding \<Rightarrow> Role" where
  "connectorRole b =
     (let all = [''get'', ''list'', ''watch'', ''create'', ''update'', ''patch'', ''delete''] in
      \<lparr>ro_Meta = (namedMeta controlPlaneConnectorRoleName)\<lparr>om_Namespace := rootNamespace b\<rparr>,
       ro_Rules =
         [policyRule ''klutch.anynines.com'' ''apiservicebindings'' all,
          policyRule ''klutch.anynines.com'' ''apiservicebindings/status'' [''patch'', ''update''],
          policyRule ''coordination.k8s.io'' ''leases'' all]\<rparr>)"

definition connectorRoleBinding :: "AppClusterBinding \<Rightarrow> RoleBinding" where
  "connectorRoleBinding b =
     \<lparr>rb_Meta = (namedMeta controlPlaneConnectorRoleName)\<lparr>om_Namespace := rootNamespace b\<rparr>,
      rb_Subjects = [binderSubject (rootNamespace b)],
      rb_RoleRef = \<lparr>rr_APIGroup = ''rbac.authorization.k8s.io'', rr_Kind = ''Role'', rr_Name = controlPlaneConnectorRoleName\<rparr>\<rparr>"

definition ensureControlPlaneConnectorRBAC :: "app_reconciler \<Rightarrow> AppClusterBinding \<Rightarrow> apierr list app" where
  "ensureControlPlaneConnectorRBAC R b =
     (let ns = rootNamespace b; name = controlPlaneConnectorRoleName;
          role = connectorRole b; rb = connectorRoleBinding b
      in do {
        roleFound \<leftarrow> ask (\<lambda>l. ap_getRole R l ns name) (GetAppRole ns name);
        e1 \<leftarrow> (case roleFound of
                 Inl e \<Rightarrow>
                   if \<not> IsNotFound e then State_Monad.return [wrapErr ''failed to get role'' [] e]
                   else writing R (CreateAppRole ns role) ''failed to create role'' []
               | Inr existing \<Rightarrow>
                   if ro_Rules existing = ro_Rules role then State_Monad.return []
                   else writing R (UpdateAppRole ns (existing\<lparr>ro_Rules := ro_Rules role\<rparr>)) ''failed to update role'' []);
        (if e1 \<noteq> [] then State_Monad.return e1
         else do {
           rbFound \<leftarrow> ask (\<lambda>l. ap_getRoleBinding R l ns name) (GetAppRoleBinding ns name);
           (case rbFound of
              Inl e \<Rightarrow>
                if \<not> IsNotFound e then State_Monad.return [wrapErr ''failed to get rolebinding'' [] e]
                else writing R (CreateAppRoleBinding ns rb) ''failed to create rolebinding'' []
            | Inr existing \<Rightarrow>
                if rb_Subjects existing = rb_Subjects rb \<and> rb_RoleRef existing = rb_RoleRef rb
                then State_Monad.return []
                else writing R (UpdateAppRoleBinding ns
                        (existing\<lparr>rb_Subjects := rb_Subjects rb, rb_RoleRef := rb_RoleRef rb\<rparr>))
                       ''failed to update rolebinding'' [])
         })
      })"

section \<open>Templates\<close>

definition resolveTemplate ::
  "app_reconciler \<Rightarrow> GroupResource \<Rightarrow> (apierr + APIServiceExportTemplate option) app" where
  "resolveTemplate R apiExport =
     (let grp = TrimSpace (gr_Group apiExport); res = TrimSpace (gr_Resource apiExport) in
      if res = '''' then State_Monad.return (Inr None)
      else do {
        template \<leftarrow> ask (\<lambda>l. TemplateFor (ap_templates R l) grp res) (GetTemplate grp res);
        State_Monad.return (case template of Inl e \<Rightarrow> Inl e | Inr t \<Rightarrow> Inr (Some t))
      })"

definition templateErr :: "GroupResource \<Rightarrow> apierr \<Rightarrow> apierr" where
  "templateErr apiExport e =
     wrapErr ''failed to get apiserviceexporttemplate for %s/%s''
       [FStr (TrimSpace (gr_Group apiExport)), FStr (TrimSpace (gr_Resource apiExport))] e"

section \<open>One APIServiceBinding per exported API\<close>

definition newServiceBinding :: "AppClusterBinding \<Rightarrow> APIServiceExportTemplate \<Rightarrow> APIServiceBinding option" where
  "newServiceBinding b template =
     (let name = apiServiceBindingName template in
      if name = '''' then None
      else Some
        \<lparr>sb_Kind = '''',
         sb_Meta = (namedMeta name)\<lparr>om_Namespace := rootNamespace b, om_Labels := ensureBindingLabels fmempty b\<rparr>,
         sb_KubeconfigSecretRef = (secretRef b)\<lparr>ref_Namespace := rootNamespace b\<rparr>,
         sb_PermissionClaims = [], sb_ProviderPrettyName = '''', sb_Conditions = []\<rparr>)"

type_synonym desired = "(string, APIServiceBinding) fmap"

definition addDesired :: "AppClusterBinding \<Rightarrow> APIServiceExportTemplate option \<Rightarrow> desired \<Rightarrow> desired" where
  "addDesired b template d =
     (case Option.bind template (newServiceBinding b) of
        None \<Rightarrow> d
      | Some obj \<Rightarrow> fmupd (bindingName obj) obj d)"

text \<open>The loop over the exports; an error ends the method.\<close>

primrec desiredBindings ::
  "app_reconciler \<Rightarrow> AppClusterBinding \<Rightarrow> desired \<Rightarrow> GroupResource list \<Rightarrow> (apierr + desired) app" where
  "desiredBindings R b d [] = State_Monad.return (Inr d)"
| "desiredBindings R b d (apiExport # rest) = do {
     resolved \<leftarrow> resolveTemplate R apiExport;
     (case resolved of
        Inl e \<Rightarrow> State_Monad.return (Inl (templateErr apiExport e))
      | Inr template \<Rightarrow> desiredBindings R b (addDesired b template d) rest)
   }"

definition updatedBinding :: "APIServiceBinding \<Rightarrow> APIServiceBinding \<Rightarrow> APIServiceBinding" where
  "updatedBinding existing wanted =
     existing\<lparr>sb_Meta := (sb_Meta existing)\<lparr>om_Labels := om_Labels (sb_Meta wanted)\<rparr>,
              sb_KubeconfigSecretRef := sb_KubeconfigSecretRef wanted\<rparr>"

text \<open>The loop over the existing bindings. What is left in the map at its end has to be created.\<close>

primrec syncExisting ::
  "app_reconciler \<Rightarrow> desired \<Rightarrow> APIServiceBinding list \<Rightarrow> (apierr list \<times> desired) app" where
  "syncExisting R d [] = State_Monad.return ([], d)"
| "syncExisting R d (existing # rest) =
     (let name = bindingName existing; ns = om_Namespace (sb_Meta existing) in
      case fmlookup d name of
        None \<Rightarrow> do {
          err \<leftarrow> writeCall R (DeleteBinding ns name);
          (errs, d') \<leftarrow> syncExisting R d rest;
          State_Monad.return ((case err of None \<Rightarrow> [] | Some e \<Rightarrow> if IsNotFound e then [] else [e]) @ errs, d')
        }
      | Some wanted \<Rightarrow>
          (let updated = updatedBinding existing wanted in
           if sb_KubeconfigSecretRef existing \<noteq> sb_KubeconfigSecretRef updated \<or>
              om_Labels (sb_Meta existing) \<noteq> om_Labels (sb_Meta updated)
           then do {
             err \<leftarrow> writeCall R (UpdateBinding updated);
             (errs, d') \<leftarrow> syncExisting R (fmdrop name d) rest;
             State_Monad.return (errList err @ errs, d')
           }
           else syncExisting R (fmdrop name d) rest))"

definition createDesired :: "app_reconciler \<Rightarrow> desired \<Rightarrow> string \<Rightarrow> apierr list app" where
  "createDesired R d name =
     (case fmlookup d name of
        None \<Rightarrow> State_Monad.return []
      | Some obj \<Rightarrow> do {
          err \<leftarrow> writeCall R (CreateBinding obj);
          State_Monad.return (case err of None \<Rightarrow> [] | Some e \<Rightarrow> if IsAlreadyExists e then [] else [e])
        })"

definition ensureServiceBindings :: "app_reconciler \<Rightarrow> AppClusterBinding \<Rightarrow> apierr list app" where
  "ensureServiceBindings R b = do {
     wanted \<leftarrow> desiredBindings R b fmempty (ab_APIExports b);
     (case wanted of
        Inl e \<Rightarrow> State_Monad.return [e]
      | Inr d \<Rightarrow> do {
          listed \<leftarrow> listBindings R b;
          (case listed of
             Inl e \<Rightarrow> State_Monad.return [e]
           | Inr items \<Rightarrow> do {
               (errs, missing) \<leftarrow> syncExisting R d items;
               errs' \<leftarrow> forEach (createDesired R missing) (ap_order R (fmdom missing));
               State_Monad.return (errs @ errs')
             })
        })
   }"

section \<open>One export request per exported API\<close>

type_synonym desired_exports = "(string, APIServiceExportTemplate) fmap"

definition addExport :: "APIServiceExportTemplate option \<Rightarrow> desired_exports \<Rightarrow> desired_exports" where
  "addExport template d =
     (case template of
        None \<Rightarrow> d
      | Some t \<Rightarrow> if apiServiceExportName t = '''' then d else fmupd (apiServiceExportName t) t d)"

text \<open>Here an error is collected and the loop goes on without that export.\<close>

primrec desiredExports ::
  "app_reconciler \<Rightarrow> desired_exports \<Rightarrow> GroupResource list \<Rightarrow> (apierr list \<times> desired_exports) app" where
  "desiredExports R d [] = State_Monad.return ([], d)"
| "desiredExports R d (apiExport # rest) = do {
     resolved \<leftarrow> resolveTemplate R apiExport;
     (case resolved of
        Inl e \<Rightarrow> do {
          (errs, d') \<leftarrow> desiredExports R d rest;
          State_Monad.return (templateErr apiExport e # errs, d')
        }
      | Inr template \<Rightarrow> desiredExports R (addExport template d) rest)
   }"

text \<open>An export that is not desired is removed; the others are satisfied.\<close>

definition removeExport :: "app_reconciler \<Rightarrow> string \<Rightarrow> desired_exports \<Rightarrow> APIServiceExport \<Rightarrow> apierr list app" where
  "removeExport R ns d export =
     (let name = om_Name (ex_Meta export) in
      if fmlookup d name \<noteq> None then State_Monad.return []
      else deleting R (DeleteExport ns name) ''failed to delete apiserviceexport %s'' [FStr name])"

definition satisfiedExports :: "desired_exports \<Rightarrow> APIServiceExport list \<Rightarrow> string set" where
  "satisfiedExports d items = {n \<in> set (map (\<lambda>e. om_Name (ex_Meta e)) items). fmlookup d n \<noteq> None}"

text \<open>The name of the export a request asks for: the first resource only.\<close>

definition requestedExport :: "APIServiceExportRequest \<Rightarrow> string option" where
  "requestedExport req =
     (case rq_Resources req of
        [] \<Rightarrow> None
      | res # _ \<Rightarrow> Some (if gr_Group res \<noteq> '''' then gr_Resource res @ ''.'' @ gr_Group res else gr_Resource res))"

definition requestExportNames :: "APIServiceExportRequest list \<Rightarrow> (string, string) fmap" where
  "requestExportNames items =
     fold (\<lambda>req m. case requestedExport req of None \<Rightarrow> m | Some n \<Rightarrow> fmupd n (om_Name (rq_Meta req)) m) items fmempty"

definition removeRequest ::
  "app_reconciler \<Rightarrow> string \<Rightarrow> desired_exports \<Rightarrow> (string, string) fmap \<Rightarrow> string \<Rightarrow> apierr list app" where
  "removeRequest R ns d requested exName =
     (case fmlookup requested exName of
        None \<Rightarrow> State_Monad.return []
      | Some reqName \<Rightarrow>
          if fmlookup d exName \<noteq> None then State_Monad.return []
          else deleting R (DeleteRequest ns reqName) ''failed to delete apiserviceexportrequest %s'' [FStr reqName])"

definition newAPIServiceExportRequest ::
  "AppClusterBinding \<Rightarrow> APIServiceExportTemplate \<Rightarrow> APIServiceExportRequest option" where
  "newAPIServiceExportRequest b template =
     (let res = TrimSpace (gr_Resource (et_Selector template)); grp = TrimSpace (gr_Group (et_Selector template)) in
      if res = '''' then None
      else Some
        \<lparr>rq_Kind = '''',
         rq_Meta = (namedMeta (apiServiceExportRequestName (appName b) (et_Name template)))
           \<lparr>om_Namespace := rootNamespace b, om_Labels := ensureBindingLabels fmempty b\<rparr>,
         rq_CreationTimestamp = 0, rq_Parameters = None,
         rq_Resources = [\<lparr>gr_Group = grp, gr_Resource = res, rr_Versions = [],
                          rr_PermissionClaims = et_PermissionClaims template\<rparr>],
         rq_Phase = '''', rq_TerminalMessage = '''', rq_Conditions = []\<rparr>)"

definition requestExport ::
  "app_reconciler \<Rightarrow> AppClusterBinding \<Rightarrow> desired_exports \<Rightarrow> string set \<Rightarrow> (string, string) fmap \<Rightarrow> string \<Rightarrow>
     apierr list app" where
  "requestExport R b d satisfied requested exName =
     (if exName \<in> satisfied \<or> fmlookup requested exName \<noteq> None then State_Monad.return []
      else
        case Option.bind (fmlookup d exName) (newAPIServiceExportRequest b) of
          None \<Rightarrow> State_Monad.return []
        | Some req \<Rightarrow> do {
            err \<leftarrow> writeCall R (CreateRequest (rootNamespace b) req);
            State_Monad.return
              (case err of
                 None \<Rightarrow> []
               | Some e \<Rightarrow>
                   if IsAlreadyExists e then []
                   else [wrapErr ''failed to create apiserviceexportrequest for %s'' [FStr exName] e])
          })"

definition ensureServiceExportRequests :: "app_reconciler \<Rightarrow> AppClusterBinding \<Rightarrow> apierr list app" where
  "ensureServiceExportRequests R b =
     (let ns = rootNamespace b in do {
        (e1, d) \<leftarrow> desiredExports R fmempty (ab_APIExports b);
        exports \<leftarrow> ask (\<lambda>l. ap_listExports R l ns) (ListExports ns);
        (case exports of
           Inl e \<Rightarrow> State_Monad.return (e1 @ [wrapErr ''failed to list apiserviceexports'' [] e])
         | Inr items \<Rightarrow> do {
             e2 \<leftarrow> forEach (removeExport R ns d) items;
             requests \<leftarrow> ask (\<lambda>l. ap_listRequests R l ns (bindingSelector b)) (ListRequests ns (bindingSelector b));
             (case requests of
                Inl e \<Rightarrow> State_Monad.return (e1 @ e2 @ [wrapErr ''failed to list apiserviceexportrequests'' [] e])
              | Inr reqs \<Rightarrow>
                  (let requested = requestExportNames reqs in do {
                     e3 \<leftarrow> forEach (removeRequest R ns d requested) (ap_order R (fmdom requested));
                     e4 \<leftarrow> forEach (requestExport R b d (satisfiedExports d items) requested) (ap_order R (fmdom d));
                     State_Monad.return (e1 @ e2 @ e3 @ e4)
                   }))
           })
      })"

section \<open>The deployment of the konnector\<close>

definition applyContainerOverrides :: "jsonlib \<Rightarrow> Container \<Rightarrow> (string, json) fmap \<Rightarrow> apierr + Container" where
  "applyContainerOverrides J base overrides =
     (case js_marshalContainer J base of
        Inl e \<Rightarrow> Inl (wrapErr ''failed to marshal base container'' [] e)
      | Inr baseJSON \<Rightarrow>
          (case js_marshalOverrides J overrides of
             Inl e \<Rightarrow> Inl (wrapErr ''failed to marshal container overrides'' [] e)
           | Inr overrideJSON \<Rightarrow>
               (case removeEmptyFields (js_unmarshalMap J) (js_marshalMap J) overrideJSON of
                  Inl e \<Rightarrow> Inl (wrapErr ''failed to clean override patch'' [] e)
                | Inr cleaned \<Rightarrow>
                    (case js_StrategicMergePatch J baseJSON cleaned of
                       Inl e \<Rightarrow> Inl (wrapErr ''failed to apply strategic merge patch'' [] e)
                     | Inr merged \<Rightarrow>
                         (case js_unmarshalContainer J merged of
                            Inl e \<Rightarrow> Inl (wrapErr ''failed to unmarshal merged container'' [] e)
                          | Inr result \<Rightarrow> Inr result)))))"

definition konnectorArgs :: "AppClusterBinding \<Rightarrow> string list" where
  "konnectorArgs b =
     [''--control-plane-mode'',
      ''--app-cluster-kubeconfig-secret-name='' @ ref_Name (secretRef b),
      ''--app-cluster-kubeconfig-secret-namespace='' @ rootNamespace b,
      ''--app-cluster-kubeconfig-secret-key='' @ ref_Key (secretRef b),
      ''--binding-root-namespace='' @ rootNamespace b,
      ''--lease-namespace=$(POD_NAMESPACE)'']"

definition deploymentName :: "AppClusterBinding \<Rightarrow> string" where
  "deploymentName b = Sprintf ''konnector-%s'' [FStr (appName b)]"

text \<open>
  The map of labels is shared by the deployment, its selector and its pods, so adding to
  \<open>deployment.Labels\<close> changes all three.
\<close>

definition labelledDeployment :: "AppClusterBinding \<Rightarrow> Deployment \<Rightarrow> Deployment" where
  "labelledDeployment b d =
     (let labels = ensureBindingLabels konnectorLabels b in
      d\<lparr>dp_Meta := (dp_Meta d)\<lparr>om_Name := deploymentName b, om_Namespace := rootNamespace b, om_Labels := labels\<rparr>,
        dp_Spec := (dp_Spec d)\<lparr>ds_MatchLabels := labels, ds_PodLabels := labels,
                               ds_ServiceAccountName := serviceAccountName\<rparr>\<rparr>)"

definition baseContainer :: "AppClusterBinding \<Rightarrow> Container" where
  "baseContainer b = (hd (ds_Containers (dp_Spec (BaseDeployment konnectorImage))))\<lparr>co_Args := konnectorArgs b\<rparr>"

definition buildKonnectorDeployment :: "app_reconciler \<Rightarrow> AppClusterBinding \<Rightarrow> apierr + Deployment" where
  "buildKonnectorDeployment R b =
     (let d = labelledDeployment b (BaseDeployment konnectorImage);
          withContainer = (\<lambda>c. d\<lparr>dp_Spec := (dp_Spec d)\<lparr>ds_Containers := (ds_Containers (dp_Spec d))[0 := c]\<rparr>\<rparr>)
      in case Option.bind (ab_Konnector b) ks_Overrides of
           None \<Rightarrow> Inr (withContainer (baseContainer b))
         | Some overrides \<Rightarrow>
             (case applyContainerOverrides (ap_json R) (baseContainer b) overrides of
                Inl e \<Rightarrow> Inl (wrapErr ''failed to apply container overrides'' [] e)
              | Inr c \<Rightarrow> Inr (withContainer c)))"

definition notDeployed :: "time \<Rightarrow> AppClusterBinding \<Rightarrow> string \<Rightarrow> apierr \<Rightarrow> apierr list \<times> AppClusterBinding" where
  "notDeployed now b fmt e =
     ([e], MarkFalse appBindingSetter now b AppClusterBindingConditionKonnectorDeployed ''KonnectorDeploymentFailed''
             ConditionSeverityError fmt [FStr (error_text e)])"

definition nowDeployed :: "time \<Rightarrow> AppClusterBinding \<Rightarrow> apierr list \<times> AppClusterBinding" where
  "nowDeployed now b = ([], MarkTrue appBindingSetter now b AppClusterBindingConditionKonnectorDeployed)"

definition deployed :: "time \<Rightarrow> AppClusterBinding \<Rightarrow> string \<Rightarrow> apierr option \<Rightarrow> apierr list \<times> AppClusterBinding" where
  "deployed now b fmt err = (case err of None \<Rightarrow> nowDeployed now b | Some e \<Rightarrow> notDeployed now b fmt e)"

definition wantsDeployment :: "AppClusterBinding \<Rightarrow> bool" where
  "wantsDeployment b = (case ab_Konnector b of None \<Rightarrow> False | Some k \<Rightarrow> ks_Deploy k)"

definition ensureKonnectorDeployment ::
  "app_reconciler \<Rightarrow> time \<Rightarrow> AppClusterBinding \<Rightarrow> (apierr list \<times> AppClusterBinding) app" where
  "ensureKonnectorDeployment R now b =
     (let ns = rootNamespace b; name = deploymentName b in
      if \<not> wantsDeployment b
      then do {
        err \<leftarrow> writeCall R (DeleteDeployment ns name);
        State_Monad.return (deployed now b ''Failed to delete konnector deployment: %v''
          (case err of None \<Rightarrow> None | Some e \<Rightarrow> if IsNotFound e then None else Some e))
      }
      else
        case buildKonnectorDeployment R b of
          Inl e \<Rightarrow> State_Monad.return (notDeployed now b ''Failed to build konnector deployment: %v'' e)
        | Inr deployment \<Rightarrow> do {
            found \<leftarrow> ask (\<lambda>l. ap_getDeployment R l ns name) (GetDeployment ns name);
            (case found of
               Inl e \<Rightarrow>
                 if \<not> IsNotFound e
                 then State_Monad.return (notDeployed now b ''Failed to get konnector deployment: %v'' e)
                 else do {
                   err \<leftarrow> writeCall R (CreateDeployment ns deployment);
                   State_Monad.return (deployed now b ''Failed to create konnector deployment: %v'' err)
                 }
             | Inr existing \<Rightarrow>
                 if dp_Spec existing = dp_Spec deployment then State_Monad.return (nowDeployed now b)
                 else do {
                   err \<leftarrow> writeCall R (UpdateDeployment ns (existing\<lparr>dp_Spec := dp_Spec deployment\<rparr>));
                   State_Monad.return (deployed now b ''Failed to update konnector deployment: %v'' err)
                 })
          })"

section \<open>reconcile and process\<close>

definition app_reconcile ::
  "app_reconciler \<Rightarrow> time \<Rightarrow> AppClusterBinding \<Rightarrow> (apierr list \<times> AppClusterBinding) app" where
  "app_reconcile R now b = do {
     (e0, secretValid, b1) \<leftarrow> app_ensureValidKubeconfigSecret R now b;
     (errs, b2) \<leftarrow>
       (if secretValid
        then do {
          e1 \<leftarrow> ensureBindingRootResources R b1;
          e2 \<leftarrow> ensureControlPlaneConnectorRBAC R b1;
          e3 \<leftarrow> ensureServiceBindings R b1;
          e4 \<leftarrow> ensureServiceExportRequests R b1;
          (e5, b') \<leftarrow> ensureKonnectorDeployment R now b1;
          State_Monad.return (e1 @ e2 @ e3 @ e4 @ e5, b')
        }
        else State_Monad.return ([], b1));
     State_Monad.return (e0 @ errs, SetSummary appBindingSetter now b2 [])
   }"

definition appClusterBindingFinalizer :: string where
  [klutch_defs]: "appClusterBindingFinalizer = ''klutch.anynines.com/appclusterbinding-cleanup''"

definition hasFinalizer :: "string list \<Rightarrow> string \<Rightarrow> bool" where
  "hasFinalizer finalizers target \<longleftrightarrow> target \<in> set finalizers"

definition removeFinalizer :: "string list \<Rightarrow> string \<Rightarrow> string list" where
  "removeFinalizer finalizers target = filter (\<lambda>f. f \<noteq> target) finalizers"

definition withFinalizers :: "string list \<Rightarrow> AppClusterBinding \<Rightarrow> AppClusterBinding" where
  "withFinalizers fs b = b\<lparr>ab_Meta := (ab_Meta b)\<lparr>om_Finalizers := fs\<rparr>\<rparr>"

text \<open>Convert the object and send it: the error, if there is one.\<close>

definition updateObject :: "app_reconciler \<Rightarrow> AppClusterBinding \<Rightarrow> apierr option app" where
  "updateObject R updated =
     (case ap_convert R updated of
        Some e \<Rightarrow> State_Monad.return (Some e)
      | None \<Rightarrow> writeCall R (UpdateObject updated))"

definition ensureFinalizer :: "app_reconciler \<Rightarrow> AppClusterBinding \<Rightarrow> (apierr + bool) app" where
  "ensureFinalizer R b =
     (let fs = om_Finalizers (ab_Meta b) in
      if hasFinalizer fs appClusterBindingFinalizer then State_Monad.return (Inr False)
      else do {
        err \<leftarrow> updateObject R (withFinalizers (fs @ [appClusterBindingFinalizer]) b);
        State_Monad.return (case err of Some e \<Rightarrow> Inl e | None \<Rightarrow> Inr True)
      })"

definition app_removeFinalizer :: "app_reconciler \<Rightarrow> AppClusterBinding \<Rightarrow> (apierr + bool) app" where
  "app_removeFinalizer R b =
     (let fs = om_Finalizers (ab_Meta b) in
      if \<not> hasFinalizer fs appClusterBindingFinalizer then State_Monad.return (Inr False)
      else do {
        err \<leftarrow> updateObject R (withFinalizers (removeFinalizer fs appClusterBindingFinalizer) b);
        State_Monad.return (case err of Some e \<Rightarrow> Inl e | None \<Rightarrow> Inr True)
      })"

text \<open>The end of \<open>process\<close>: the status is written when it has changed.\<close>

definition writeStatus :: "app_reconciler \<Rightarrow> AppClusterBinding \<Rightarrow> AppClusterBinding \<Rightarrow> apierr list app" where
  "writeStatus R old new =
     (if ab_Conditions old = ab_Conditions new then State_Monad.return []
      else case ap_convert R new of
             Some e \<Rightarrow> State_Monad.return [e]
           | None \<Rightarrow> do { err \<leftarrow> writeCall R (UpdateObjectStatus new); State_Monad.return (errList err) })"

definition app_process ::
  "app_reconciler \<Rightarrow> time \<Rightarrow> apierr + AppClusterBinding option \<Rightarrow> apierr list app" where
  "app_process R now stored =
     (case stored of
        Inl e \<Rightarrow> State_Monad.return [e]
      | Inr None \<Rightarrow> State_Monad.return []
      | Inr (Some b) \<Rightarrow>
          if om_DeletionTimestamp (ab_Meta b) = None
          then do {
            added \<leftarrow> ensureFinalizer R b;
            (case added of
               Inl e \<Rightarrow> State_Monad.return [e]
             | Inr True \<Rightarrow> State_Monad.return []
             | Inr False \<Rightarrow> do {
                 (errs, b') \<leftarrow> app_reconcile R now b;
                 (if errs \<noteq> [] then State_Monad.return errs else writeStatus R b b')
               })
          }
          else if hasFinalizer (om_Finalizers (ab_Meta b)) appClusterBindingFinalizer
          then do {
            errs \<leftarrow> ensureDeleted R b;
            (if errs \<noteq> [] then State_Monad.return errs
             else do {
               removed \<leftarrow> app_removeFinalizer R b;
               (case removed of
                  Inl e \<Rightarrow> State_Monad.return [e]
                | Inr True \<Rightarrow> State_Monad.return []
                | Inr False \<Rightarrow> writeStatus R b b)
             })
          }
          else writeStatus R b b)"

section \<open>Which bindings a change queues\<close>

definition indexAppClusterBindingByKubeconfigSecret :: "AppClusterBinding \<Rightarrow> string list" where
  "indexAppClusterBindingByKubeconfigSecret b =
     (let ns = ref_Namespace (secretRef b); name = ref_Name (secretRef b) in
      if ns = '''' \<or> name = '''' then [] else [ns @ ''/'' @ name])"

definition app_enqueueSecret :: "keyfuncs \<Rightarrow> AppClusterBinding indexer \<Rightarrow> string \<Rightarrow> string list" where
  "app_enqueueSecret K ix secretKey =
     map (\<lambda>b. metaKey K (appNamespace b) (appName b)) (ix indexAppClusterBindingByKubeconfigSecret secretKey)"

definition enqueueRBACResourceOwner :: "ObjectMeta \<Rightarrow> string list" where
  "enqueueRBACResourceOwner meta =
     (case find (\<lambda>r. or_APIVersion r = ''klutch.anynines.com/v1alpha1'' \<and> or_Kind r = ''AppClusterBinding'')
             (om_OwnerReferences meta) of
        None \<Rightarrow> []
      | Some r \<Rightarrow> [om_Namespace meta @ ''/'' @ or_Name r])"

definition enqueueDeploymentOwner :: "ObjectMeta \<Rightarrow> string list" where
  "enqueueDeploymentOwner meta =
     (let label = (\<lambda>k. case fmlookup (om_Labels meta) k of None \<Rightarrow> '''' | Some v \<Rightarrow> v);
          name = label appClusterBindingNameLabel; ns = label appClusterBindingNamespaceLabel
      in if name = '''' \<or> ns = '''' then [] else [ns @ ''/'' @ name])"

definition enqueueAPIServiceBinding :: "APIServiceBinding \<Rightarrow> string list" where
  "enqueueAPIServiceBinding binding = enqueueDeploymentOwner (sb_Meta binding)"

section \<open>Deletion verifies that everything is gone\<close>

text \<open>\<open>sawGone\<close>: at some point of the log a read of the object answered not found; for the bindings, an empty list.\<close>

definition sawGone :: "(app_calls \<Rightarrow> apierr + 'x) \<Rightarrow> app_call \<Rightarrow> app_calls \<Rightarrow> bool" where
  "sawGone rd c l \<longleftrightarrow> (\<exists>k rest e. l = k @ c # rest \<and> rd k = Inl e \<and> IsNotFound e)"

definition sawNoBindings :: "app_reconciler \<Rightarrow> AppClusterBinding \<Rightarrow> app_calls \<Rightarrow> bool" where
  "sawNoBindings R b l \<longleftrightarrow>
     (\<exists>k rest. l = k @ ListBindings (bindingSelector b) # rest \<and> ap_listServiceBindings R k (bindingSelector b) = Inr [])"

definition cleanedUp :: "app_reconciler \<Rightarrow> AppClusterBinding \<Rightarrow> app_calls \<Rightarrow> bool" where
  "cleanedUp R b l \<longleftrightarrow>
     sawNoBindings R b l \<and>
     sawGone (\<lambda>k. ap_getClusterRoleBinding R k (konnectorRoleName b)) (ReadClusterRoleBinding (konnectorRoleName b)) l \<and>
     sawGone (\<lambda>k. ap_getClusterRole R k (konnectorRoleName b)) (ReadClusterRole (konnectorRoleName b)) l \<and>
     sawGone (\<lambda>k. ap_getNamespace R k (rootNamespace b)) (ReadNamespace (rootNamespace b)) l"

lemma saw_append:
  "sawGone rd c l \<Longrightarrow> sawGone rd c (l @ l')" "sawNoBindings R b l \<Longrightarrow> sawNoBindings R b (l @ l')"
  unfolding sawGone_def sawNoBindings_def by (metis append.assoc append_Cons)+

lemma deleteAndVerify_ok:
  assumes "run_state (deleteAndVerify R del rd c what cleanup name) l = ([], l')"
  shows "l' = l @ [del, c] \<and> sawGone rd c l'"
proof -
  have "l' = l @ [del, c]" "\<exists>e. rd (l @ [del]) = Inl e \<and> IsNotFound e"
    using assms
    by (auto simp: deleteAndVerify_def deleting_def writeCall_def split: sum.splits option.splits if_splits)
  then show ?thesis
    unfolding sawGone_def by (intro conjI exI[of _ "l @ [del]"] exI[of _ "[]"]) auto
qed

lemma deleteBindings_emits:
  "emits (\<lambda>c. c = ListBindings (bindingSelector b) \<or> (\<exists>ns n. c = DeleteBinding ns n)) (deleteBindings R b)"
  unfolding deleteBindings_def listBindings_def by (intro emits_intros) auto

lemma deleteBindings_ok:
  assumes "run_state (deleteBindings R b) l = ([], l')"
  shows "(\<exists>cs. l' = l @ cs) \<and> sawNoBindings R b l'"
proof -
  let ?sel = "bindingSelector b"
  obtain items where items: "ap_listServiceBindings R l ?sel = Inr items"
    using assms by (auto simp: deleteBindings_def listBindings_def split: sum.splits)
  let ?loop = "forEach (\<lambda>s. deleting R (DeleteBinding (om_Namespace (sb_Meta s)) (om_Name (sb_Meta s)))
                     ''failed to delete apiservicebinding %q'' [FStr (om_Name (sb_Meta s))]) items"
  obtain errs k where k: "run_state ?loop (l @ [ListBindings ?sel]) = (errs, k)" by force
  have "l' = k @ [ListBindings ?sel]" "ap_listServiceBindings R k ?sel = Inr []"
    using assms
    by (auto simp: deleteBindings_def listBindings_def items k split: sum.splits if_splits)
  then show ?thesis
    using emitsD[OF deleteBindings_emits assms] unfolding sawNoBindings_def by blast
qed

lemma ensureDeleted_ok:
  assumes "run_state (ensureDeleted R b) l = ([], l')"
  shows "cleanedUp R b l'"
proof -
  obtain e1 l1 where s1: "run_state (deleteBindings R b) l = (e1, l1)" by force
  define m2 where "m2 = deleteAndVerify R (RemoveClusterRoleBinding (konnectorRoleName b))
             (\<lambda>l. ap_getClusterRoleBinding R l (konnectorRoleName b)) (ReadClusterRoleBinding (konnectorRoleName b))
             ''clusterrolebinding'' ''clusterrolebinding'' (konnectorRoleName b)"
  define m3 where "m3 = deleteAndVerify R (DeleteClusterRole (konnectorRoleName b))
             (\<lambda>l. ap_getClusterRole R l (konnectorRoleName b)) (ReadClusterRole (konnectorRoleName b))
             ''clusterrole'' ''clusterrole'' (konnectorRoleName b)"
  define m4 where "m4 = deleteAndVerify R (RemoveNamespace (rootNamespace b))
             (\<lambda>l. ap_getNamespace R l (rootNamespace b)) (ReadNamespace (rootNamespace b))
             ''binding root namespace'' ''namespace'' (rootNamespace b)"
  obtain e2 l2 where s2: "run_state m2 l1 = (e2, l2)" by force
  obtain e3 l3 where s3: "run_state m3 l2 = (e3, l3)" by force
  obtain e4 l4 where s4: "run_state m4 l3 = (e4, l4)" by force
  have e: "e1 = []" "e2 = []" "e3 = []" "e4 = []" "l' = l4"
    using assms unfolding ensureDeleted_def m2_def[symmetric] m3_def[symmetric] m4_def[symmetric]
    by (simp_all add: s1 s2 s3 s4)
  note v2 = deleteAndVerify_ok[OF s2[unfolded m2_def e]]
  note v3 = deleteAndVerify_ok[OF s3[unfolded m3_def e]]
  note v4 = deleteAndVerify_ok[OF s4[unfolded m4_def e]]
  show ?thesis
    using deleteBindings_ok[OF s1[unfolded e]] v2 v3 v4 e(5)
    unfolding cleanedUp_def by (metis saw_append)
qed

lemma removeFinalizer_runs:
  assumes "hasFinalizer (om_Finalizers (ab_Meta b)) appClusterBindingFinalizer"
    and "run_state (app_removeFinalizer R b) l = (r, l')"
  shows "l' = l \<or> l' = l @ [UpdateObject (withFinalizers (removeFinalizer (om_Finalizers (ab_Meta b)) appClusterBindingFinalizer) b)]"
    and "r \<noteq> Inr False"
  using assms
  by (auto simp: app_removeFinalizer_def updateObject_def writeCall_def Let_def split: option.splits)

lemma ensureDeleted_emits:
  "emits (\<lambda>c. c = ListBindings (bindingSelector b) \<or> (\<exists>ns n. c = DeleteBinding ns n) \<or>
     c \<in> {RemoveClusterRoleBinding (konnectorRoleName b), ReadClusterRoleBinding (konnectorRoleName b),
          DeleteClusterRole (konnectorRoleName b), ReadClusterRole (konnectorRoleName b),
          RemoveNamespace (rootNamespace b), ReadNamespace (rootNamespace b)}) (ensureDeleted R b)"
  unfolding ensureDeleted_def deleteAndVerify_def
  by (intro emits_intros emits_mono[OF deleteBindings_emits]) auto

section \<open>A failed lookup of the templates\<close>

definition always :: "app_call \<Rightarrow> 'a app \<Rightarrow> bool" where
  "always c m \<longleftrightarrow> (\<forall>l. \<exists>k rest. snd (run_state m l) = l @ k @ c # rest)"

lemma always_bind:
  assumes "emits (\<lambda>_. True) m" and "\<And>x. emits (\<lambda>_. True) (f x)" and "always c m \<or> (\<forall>x. always c (f x))"
  shows "always c (State_Monad.bind m f)"
  unfolding always_def
proof
  fix l
  obtain x l1 where m: "run_state m l = (x, l1)" by force
  obtain c1 where c1: "l1 = l @ c1"
    using assms(1) m unfolding emits_def by (metis snd_conv)
  obtain c2 where c2: "snd (run_state (f x) l1) = l1 @ c2"
    using assms(2)[of x] unfolding emits_def by blast
  show "\<exists>k rest. snd (run_state (State_Monad.bind m f) l) = l @ k @ c # rest"
    using assms(3)
  proof
    assume "always c m"
    then obtain k rest where "l1 = l @ k @ c # rest"
      using m unfolding always_def by (metis snd_conv)
    then show ?thesis using c2 by (auto simp: m)
  next
    assume "\<forall>x. always c (f x)"
    then obtain k rest where "snd (run_state (f x) l1) = l1 @ k @ c # rest"
      unfolding always_def by blast
    then show ?thesis
      using c1 by (intro exI[of _ "c1 @ k"] exI[of _ rest]) (simp add: m)
  qed
qed

lemma always_forEach:
  assumes "x \<in> set xs" and "always c (f x)" and "\<And>y. y \<in> set xs \<Longrightarrow> emits (\<lambda>_. True) (f y)"
  shows "always c (forEach f xs)"
  using assms
proof (induction xs)
  case (Cons y ys)
  have ys: "emits (\<lambda>_. True) (forEach f ys)"
    using Cons.prems(3) by (intro emits_forEach) simp
  have "always c (f y) \<or> always c (forEach f ys)"
    using Cons by auto
  then have "always c (f y) \<or> (\<forall>es. always c (forEach f ys \<bind> (\<lambda>es'. State_Monad.return (es @ es'))))"
    using always_bind[OF ys emits_return] by blast
  then show ?case
    unfolding forEach.simps using Cons.prems(3)[of y]
    by (intro always_bind emits_bind emits_return ys) simp_all
qed simp

lemma always_writeCall: "always c (writeCall R c)"
  by (simp add: always_def writeCall_def) blast

lemma always_deleting: "always c (deleting R c fmt args)"
  unfolding deleting_def by (intro always_bind emits_intros disjI1 always_writeCall) simp

lemma desiredExports_fail:
  assumes "\<And>l. ap_templates R l = Inl e"
  shows "\<exists>errs l'. run_state (desiredExports R d gs) l = ((errs, d), l') \<and> (\<exists>cs. l' = l @ cs)"
proof (induction gs arbitrary: l)
  case (Cons g gs)
  show ?case
  proof (cases "TrimSpace (gr_Resource g) = ''''")
    case True
    then show ?thesis
      using Cons[of l] by (simp add: resolveTemplate_def Let_def addExport_def)
  next
    case False
    then show ?thesis
      using Cons[of "l @ [GetTemplate (TrimSpace (gr_Group g)) (TrimSpace (gr_Resource g))]"]
      by (auto simp: resolveTemplate_def Let_def TemplateFor_def assms)
  qed
qed simp

lemma removeExport_emits: "emits (\<lambda>_. True) (removeExport R ns d export)"
  unfolding removeExport_def Let_def by (intro emits_intros) auto

lemma exports_deleted_without_templates:
  assumes t: "\<And>l. ap_templates R l = Inl e"
    and x: "\<And>l. ap_listExports R l (rootNamespace b) = Inr items" and "export \<in> set items"
  shows "DeleteExport (rootNamespace b) (om_Name (ex_Meta export)) \<in> set (snd (run_state (ensureServiceExportRequests R b) l))"
proof -
  let ?ns = "rootNamespace b" and ?c = "DeleteExport (rootNamespace b) (om_Name (ex_Meta export))"
  obtain errs l1 where d: "run_state (desiredExports R fmempty (ab_APIExports b)) l = ((errs, fmempty), l1)"
    using desiredExports_fail[OF t] by blast
  have "always ?c (forEach (removeExport R ?ns fmempty) items)"
  proof (rule always_forEach[OF assms(3)])
    show "always ?c (removeExport R ?ns fmempty export)"
      unfolding removeExport_def Let_def fmempty_lookup by (simp only: if_False simp_thms) (rule always_deleting)
  qed (rule removeExport_emits)
  then obtain e2 l2 k rest where s2: "run_state (forEach (removeExport R ?ns fmempty) items) (l1 @ [ListExports ?ns]) = (e2, l2)"
      and "l2 = (l1 @ [ListExports ?ns]) @ k @ ?c # rest"
    unfolding always_def by (metis prod.collapse)
  then have c: "?c \<in> set l2" by simp
  define m where "m = (do {
      requests \<leftarrow> ask (\<lambda>l. ap_listRequests R l ?ns (bindingSelector b)) (ListRequests ?ns (bindingSelector b));
      (case requests of
         Inl e \<Rightarrow> State_Monad.return (errs @ e2 @ [wrapErr ''failed to list apiserviceexportrequests'' [] e])
       | Inr reqs \<Rightarrow>
           (let requested = requestExportNames reqs in do {
              e3 \<leftarrow> forEach (removeRequest R ?ns fmempty requested) (ap_order R (fmdom requested));
              e4 \<leftarrow> forEach (requestExport R b fmempty (satisfiedExports fmempty items) requested)
                      (ap_order R (fmdom (fmempty :: desired_exports)));
              State_Monad.return (errs @ e2 @ e3 @ e4)
            }))
    })"
  have "emits (\<lambda>_. True) m"
    unfolding m_def Let_def removeRequest_def requestExport_def by (intro emits_intros) auto
  moreover have "run_state (ensureServiceExportRequests R b) l = run_state m l2"
    unfolding ensureServiceExportRequests_def m_def Let_def by (simp add: d x s2)
  ultimately obtain cs where "snd (run_state (ensureServiceExportRequests R b) l) = l2 @ cs"
    unfolding emits_def by metis
  then show ?thesis using c by simp
qed

section \<open>What becomes of the APIServiceBindings\<close>

text \<open>
  The abstract specification: the APIServiceBindings as a store, keyed by namespace and name. \<open>applyCall\<close> is
  what an accepted call does to it, \<open>wantedStore\<close> the store that the exports of a binding ask for.
\<close>

type_synonym binding_store = "string \<times> string \<Rightarrow> APIServiceBinding option"

definition storeKey :: "APIServiceBinding \<Rightarrow> string \<times> string" where
  "storeKey s = (om_Namespace (sb_Meta s), bindingName s)"

definition storeOf :: "APIServiceBinding list \<Rightarrow> binding_store" where
  "storeOf items = map_of (map (\<lambda>s. (storeKey s, s)) items)"

fun applyCall :: "app_call \<Rightarrow> binding_store \<Rightarrow> binding_store" where
  "applyCall (CreateBinding obj) st = st(storeKey obj \<mapsto> obj)"
| "applyCall (UpdateBinding obj) st = st(storeKey obj \<mapsto> obj)"
| "applyCall (DeleteBinding ns name) st = st((ns, name) := None)"
| "applyCall _ st = st"

definition wantedStore :: "string \<Rightarrow> desired \<Rightarrow> binding_store \<Rightarrow> binding_store" where
  "wantedStore ns d st = (\<lambda>(ns', n).
     if ns' \<noteq> ns then st (ns', n)
     else case fmlookup d n of
            None \<Rightarrow> None
          | Some w \<Rightarrow> (case st (ns, n) of None \<Rightarrow> Some w | Some existing \<Rightarrow> Some (updatedBinding existing w)))"

lemma updatedBinding_key [simp]: "storeKey (updatedBinding s w) = storeKey s"
  by (simp add: updatedBinding_def storeKey_def bindingName_def)

lemma updatedBinding_same:
  assumes "sb_KubeconfigSecretRef s = sb_KubeconfigSecretRef (updatedBinding s w)"
    and "om_Labels (sb_Meta s) = om_Labels (sb_Meta (updatedBinding s w))"
  shows "updatedBinding s w = s"
  using assms by (simp add: updatedBinding_def)

definition existingStep :: "desired \<Rightarrow> APIServiceBinding \<Rightarrow> app_calls" where
  "existingStep d s =
     (case fmlookup d (bindingName s) of
        None \<Rightarrow> [DeleteBinding (om_Namespace (sb_Meta s)) (bindingName s)]
      | Some w \<Rightarrow> if updatedBinding s w = s then [] else [UpdateBinding (updatedBinding s w)])"

text \<open>The loop makes the calls of each existing binding; a name that was found leaves the map.\<close>

lemma syncExisting_calls:
  assumes "run_state (syncExisting R d items) l = ((errs, d'), l')"
    and "distinct (map bindingName items)"
  shows "l' = l @ concat (map (existingStep d) items)"
    and "fmlookup d' n = (if n \<in> set (map bindingName items) then None else fmlookup d n)"
proof -
  have "l' = l @ concat (map (existingStep d) items) \<and>
      (\<forall>n. fmlookup d' n = (if n \<in> set (map bindingName items) then None else fmlookup d n))"
    using assms
  proof (induction items arbitrary: d l errs)
    case (Cons s rest)
    have "bindingName x \<noteq> bindingName s" if "x \<in> set rest" for x
      using that Cons.prems(2) by (metis distinct.simps(2) image_eqI list.set_map list.simps(9))
    then have drop: "map (existingStep (fmdrop (bindingName s) d)) rest = map (existingStep d) rest"
      by (intro map_cong refl) (simp add: existingStep_def)
    have dist: "distinct (map bindingName rest)"
      using Cons.prems(2) by simp
    show ?case
    proof (cases "fmlookup d (bindingName s)")
      case None
      let ?c = "DeleteBinding (om_Namespace (sb_Meta s)) (bindingName s)"
      obtain errs2 where run: "run_state (syncExisting R d rest) (l @ [?c]) = ((errs2, d'), l')"
        using Cons.prems(1) None by (auto simp: writeCall_def Let_def split: prod.splits)
      have "existingStep d s = [?c]"
        using None by (simp add: existingStep_def)
      then show ?thesis
        using Cons.IH[OF run dist] None by auto
    next
      case (Some w)
      let ?u = "updatedBinding s w"
      let ?d = "fmdrop (bindingName s) d"
      show ?thesis
      proof (cases "sb_KubeconfigSecretRef s = sb_KubeconfigSecretRef ?u \<and> om_Labels (sb_Meta s) = om_Labels (sb_Meta ?u)")
        case True
        then have run: "run_state (syncExisting R ?d rest) l = ((errs, d'), l')"
          using Cons.prems(1) Some by (simp add: Let_def)
        have "existingStep d s = []"
          using updatedBinding_same True Some by (simp add: existingStep_def)
        then show ?thesis
          using Cons.IH[OF run dist] by (auto simp: drop)
      next
        case False
        then obtain errs2 where run: "run_state (syncExisting R ?d rest) (l @ [UpdateBinding ?u]) = ((errs2, d'), l')"
          using Cons.prems(1) Some by (auto simp: writeCall_def Let_def split: prod.splits if_splits)
        have "?u \<noteq> s"
          using False by auto
        then have "existingStep d s = [UpdateBinding ?u]"
          using Some by (simp add: existingStep_def)
        then show ?thesis
          using Cons.IH[OF run dist] by (auto simp: drop)
      qed
    qed
  qed simp
  then show "l' = l @ concat (map (existingStep d) items)"
    and "fmlookup d' n = (if n \<in> set (map bindingName items) then None else fmlookup d n)"
    by auto
qed

lemma applyCalls_existing:
  assumes "distinct (map bindingName items)" and "\<forall>s \<in> set items. om_Namespace (sb_Meta s) = ns"
    and "\<forall>s \<in> set items. st (storeKey s) = Some s"
  shows "fold applyCall (concat (map (existingStep d) items)) st (ns', n) =
     (if ns' = ns \<and> n \<in> set (map bindingName items) then wantedStore ns d st (ns', n) else st (ns', n))"
  using assms
proof (induction items arbitrary: st)
  case (Cons s rest)
  let ?st = "fold applyCall (existingStep d s) st"
  have key: "storeKey s = (ns, bindingName s)" and s: "st (ns, bindingName s) = Some s"
    using Cons.prems(2,3) by (auto simp: storeKey_def)
  have here: "?st (ns, bindingName s) = wantedStore ns d st (ns, bindingName s)"
    using key s Cons.prems(2) by (auto simp: existingStep_def wantedStore_def split: option.splits)
  have other: "?st k = st k" if "k \<noteq> storeKey s" for k
    using that by (auto simp: existingStep_def storeKey_def[symmetric] split: option.splits)
  have "storeKey x \<noteq> storeKey s" if "x \<in> set rest" for x
    using that Cons.prems(1) by (metis distinct.simps(2) image_eqI list.set_map list.simps(9) storeKey_def prod.inject)
  then have "\<forall>x \<in> set rest. ?st (storeKey x) = Some x"
    using Cons.prems(3) other by simp
  then have IH: "fold applyCall (concat (map (existingStep d) rest)) ?st (ns', n) =
     (if ns' = ns \<and> n \<in> set (map bindingName rest) then wantedStore ns d ?st (ns', n) else ?st (ns', n))"
    using Cons.IH Cons.prems(1,2) by simp
  have w: "wantedStore ns d ?st (ns', n) = wantedStore ns d st (ns', n)" if "(ns', n) \<noteq> storeKey s"
    using that other key by (auto simp: wantedStore_def split: option.splits)
  have cs: "fold applyCall (concat (map (existingStep d) (s # rest))) st = fold applyCall (concat (map (existingStep d) rest)) ?st"
    by simp
  show ?case
  proof (cases "(ns', n) = storeKey s")
    case True
    then have "ns' = ns" "n = bindingName s" "n \<notin> set (map bindingName rest)"
      using key Cons.prems(1) by auto
    then show ?thesis
      unfolding cs IH using here by simp
  next
    case False
    then have "n \<noteq> bindingName s \<or> ns' \<noteq> ns"
      using key by auto
    then show ?thesis
      unfolding cs IH other[OF False] using w[OF False] by auto
  qed
qed simp

lemma createDesired_run:
  assumes "set ns \<subseteq> fset (fmdom d)"
  shows "snd (run_state (forEach (createDesired R d) ns) l) = l @ map (\<lambda>n. CreateBinding (the (fmlookup d n))) ns"
  using assms
proof (induction ns arbitrary: l)
  case (Cons n ns)
  then obtain w where "fmlookup d n = Some w"
    by (auto dest: fmlookup_dom_iff[THEN iffD1])
  then have "snd (run_state (createDesired R d n) l) = l @ [CreateBinding w]" for l
    by (simp add: createDesired_def writeCall_def)
  then show ?case
    using Cons \<open>fmlookup d n = Some w\<close> by (simp add: case_prod_beta)
qed simp

lemma applyCalls_create:
  assumes "set ns \<subseteq> fset (fmdom d)" and "\<And>n w. fmlookup d n = Some w \<Longrightarrow> storeKey w = (root, n)"
  shows "fold applyCall (map (\<lambda>n. CreateBinding (the (fmlookup d n))) ns) st (ns', n) =
     (if ns' = root \<and> n \<in> set ns then fmlookup d n else st (ns', n))"
  using assms(1)
proof (induction ns arbitrary: st)
  case (Cons x ns)
  then obtain w where w: "fmlookup d x = Some w"
    by (auto dest: fmlookup_dom_iff[THEN iffD1])
  show ?case
    using Cons w assms(2)[OF w] by (auto simp: fun_upd_def)
qed simp

lemma newServiceBinding_key:
  assumes "newServiceBinding b t = Some w"
  shows "storeKey w = (rootNamespace b, bindingName w)" and "bindingName w = apiServiceBindingName t"
    and "om_Labels (sb_Meta w) = ensureBindingLabels fmempty b" and "ref_Namespace (sb_KubeconfigSecretRef w) = rootNamespace b"
  using assms by (auto simp: newServiceBinding_def namedMeta_def bindingName_def Let_def storeKey_def split: if_splits)

lemma desiredBindings_sound:
  assumes "run_state (desiredBindings R b d gs) l = (Inr d', l')"
    and "\<And>n w. fmlookup d n = Some w \<Longrightarrow> \<exists>t. newServiceBinding b t = Some w \<and> n = bindingName w"
    and "fmlookup d' n = Some w"
  shows "\<exists>t. newServiceBinding b t = Some w \<and> n = bindingName w"
  using assms
proof (induction gs arbitrary: d l)
  case (Cons g gs)
  obtain r l1 where r: "run_state (resolveTemplate R g) l = (r, l1)" by force
  then obtain template where t: "r = Inr template"
      and run: "run_state (desiredBindings R b (addDesired b template d) gs) l1 = (Inr d', l')"
    using Cons.prems(1) by (cases r) auto
  have "\<exists>t. newServiceBinding b t = Some w \<and> n = bindingName w"
    if "fmlookup (addDesired b template d) n = Some w" for n w
    using that Cons.prems(2) by (auto simp: addDesired_def bind_eq_Some_conv split: option.splits if_splits)
  then show ?case
    using Cons.IH[OF run] Cons.prems(3) by blast
qed auto

lemma serviceBindings_refine:
  assumes run: "run_state (desiredBindings R b fmempty (ab_APIExports b)) l = (Inr d, l1)"
    and listed: "ap_listServiceBindings R l1 (bindingSelector b) = Inr items"
    and items: "distinct (map bindingName items)"
      "\<forall>s \<in> set items. om_Namespace (sb_Meta s) = rootNamespace b"
    and order: "covers (ap_order R)"
  shows "\<exists>cs. snd (run_state (ensureServiceBindings R b) l) = l1 @ cs \<and>
           fold applyCall cs (storeOf items) = wantedStore (rootNamespace b) d (storeOf items)"
proof -
  let ?root = "rootNamespace b" and ?st = "storeOf items"
  obtain errs d' l2 where s: "run_state (syncExisting R d items) (l1 @ [ListBindings (bindingSelector b)]) = ((errs, d'), l2)"
    by (metis prod.collapse)
  note sync = syncExisting_calls[OF s items(1)]
  let ?c2 = "map (\<lambda>n. CreateBinding (the (fmlookup d' n))) (ap_order R (fmdom d'))"
  let ?c1 = "ListBindings (bindingSelector b) # concat (map (existingStep d) items)"
  have sub: "set (ap_order R (fmdom d')) = fset (fmdom d')"
    using order by (simp add: covers_def)
  have calls: "snd (run_state (ensureServiceBindings R b) l) = l1 @ ?c1 @ ?c2"
    using createDesired_run[of "ap_order R (fmdom d')" d' R] sub
    by (simp add: ensureServiceBindings_def listBindings_def run listed s sync(1) split: prod.splits)
       (metis append.assoc append_Cons append_Nil snd_conv)
  have dk: "storeKey w = (?root, n)" if "fmlookup d n = Some w" for n w
    using desiredBindings_sound[OF run _ that] newServiceBinding_key(1) by fastforce
  have "distinct (map fst (map (\<lambda>s. (storeKey s, s)) items))"
    using items by (auto simp: storeKey_def distinct_map inj_on_def)
  then have st: "\<forall>s \<in> set items. ?st (storeKey s) = Some s"
    unfolding storeOf_def by (auto simp: map_of_eq_Some_iff)
  have none: "?st (?root, n) = None" if "n \<notin> set (map bindingName items)" for n
    using that unfolding storeOf_def by (auto simp: map_of_eq_None_iff storeKey_def)
  have "fold applyCall (?c1 @ ?c2) ?st (ns', n) = wantedStore ?root d ?st (ns', n)" for ns' n
  proof -
    have dk': "storeKey w = (?root, m)" if "fmlookup d' m = Some w" for m w
      using that dk sync(2)[of m] by (auto split: if_splits)
    have "fold applyCall (?c1 @ ?c2) ?st (ns', n) =
        (if ns' = ?root \<and> n \<in> fset (fmdom d') then fmlookup d' n
         else if ns' = ?root \<and> n \<in> set (map bindingName items) then wantedStore ?root d ?st (ns', n)
         else ?st (ns', n))"
      using applyCalls_create[of "ap_order R (fmdom d')" d' ?root] dk' sub applyCalls_existing[OF items st, of d ns' n] by auto
    then show ?thesis
      using sync(2)[of n] none[of n]
      by (auto simp: wantedStore_def fmlookup_dom_iff fmdom_notI split: if_splits option.splits)
  qed
  then show ?thesis
    using calls by (intro exI[of _ "?c1 @ ?c2"]) (auto simp: fun_eq_iff)
qed

section \<open>What the status can say about the deployment\<close>

abbreviation abGet :: "AppClusterBinding \<Rightarrow> conditions" where
  "abGet \<equiv> GetConditions appBindingSetter"

lemma deployed_cases:
  "deployed now b fmt err =
     (if err = None then ([], MarkTrue appBindingSetter now b AppClusterBindingConditionKonnectorDeployed)
      else notDeployed now b fmt (the err))"
  by (cases err) (simp_all add: deployed_def nowDeployed_def)

lemma konnectorDeployment_ok:
  assumes "run_state (ensureKonnectorDeployment R now b) l = (([], b'), l')"
  shows "b' = MarkTrue appBindingSetter now b AppClusterBindingConditionKonnectorDeployed"
  using assms
  by (auto simp: ensureKonnectorDeployment_def deployed_cases nowDeployed_def notDeployed_def writeCall_def Let_def
      split: sum.splits if_splits option.splits)

lemma secret_step_cases:
  assumes "run_state (app_ensureValidKubeconfigSecret R now b) l = ((e0, valid, b1), l1)"
  shows "(valid \<longrightarrow> e0 = [] \<and> b1 = MarkTrue appBindingSetter now b AppClusterBindingConditionSecretValid) \<and>
         (\<not> valid \<longrightarrow> b1 = b \<or> (\<exists>rsn fmt args. b1 =
            MarkFalse appBindingSetter now b AppClusterBindingConditionSecretValid rsn ConditionSeverityError fmt args))"
  using assms
  by (auto simp: app_ensureValidKubeconfigSecret_def readSecret_def checkKubeconfig_def app_secretInvalid_def Let_def
      split: sum.splits if_splits option.splits)

text \<open>A run without error leaves the deployment condition true, or as it was when the secret is not valid.\<close>

lemma app_reconcile_ok:
  assumes "run_state (app_reconcile R now b) l = (([], b'), l')"
  shows "\<exists>b1 b2. b' = SetSummary appBindingSetter now b2 [] \<and>
     (b1 = b \<or> b1 = MarkTrue appBindingSetter now b AppClusterBindingConditionSecretValid \<or>
      (\<exists>rsn fmt args. b1 = MarkFalse appBindingSetter now b AppClusterBindingConditionSecretValid rsn
                             ConditionSeverityError fmt args)) \<and>
     (b2 = b1 \<or> b2 = MarkTrue appBindingSetter now b1 AppClusterBindingConditionKonnectorDeployed)"
proof -
  obtain e0 valid b1 l1 where s: "run_state (app_ensureValidKubeconfigSecret R now b) l = ((e0, valid, b1), l1)"
    by (metis prod.exhaust)
  note step = secret_step_cases[OF s]
  show ?thesis
  proof (cases valid)
    case True
    obtain l5 e5 b5 l6 where d: "run_state (ensureKonnectorDeployment R now b1) l5 = ((e5, b5), l6)"
        and "e5 = []" "b' = SetSummary appBindingSetter now b5 []"
      using assms True by (auto simp: app_reconcile_def s split: prod.splits)
    then have "b5 = MarkTrue appBindingSetter now b1 AppClusterBindingConditionKonnectorDeployed"
      using konnectorDeployment_ok by simp
    then show ?thesis
      using step True \<open>b' = _\<close> by blast
  next
    case False
    then have "b' = SetSummary appBindingSetter now b1 []"
      using assms by (auto simp: app_reconcile_def s split: prod.splits)
    then show ?thesis
      using step False by blast
  qed
qed

lemma app_reconcile_deployed:
  assumes "run_state (app_reconcile R now b) l = (([], b'), l')" and d: "distinctTypes (abGet b)"
    and "\<not> IsFalse appBindingSetter b AppClusterBindingConditionKonnectorDeployed"
  shows "\<not> IsFalse appBindingSetter b' AppClusterBindingConditionKonnectorDeployed"
proof -
  let ?t = AppClusterBindingConditionKonnectorDeployed
  have ne: "?t \<noteq> AppClusterBindingConditionSecretValid" "?t \<noteq> ReadyCondition"
    by (simp_all add: klutch_defs)
  obtain b1 b2 where b': "b' = SetSummary appBindingSetter now b2 []"
      and b1: "b1 = b \<or> b1 = MarkTrue appBindingSetter now b AppClusterBindingConditionSecretValid \<or>
        (\<exists>rsn fmt args. b1 = MarkFalse appBindingSetter now b AppClusterBindingConditionSecretValid rsn
                               ConditionSeverityError fmt args)"
      and b2: "b2 = b1 \<or> b2 = MarkTrue appBindingSetter now b1 ?t"
    using app_reconcile_ok[OF assms(1)] by blast
  have 1: "distinctTypes (abGet b1) \<and> Get_condition appBindingSetter b1 ?t = Get_condition appBindingSetter b ?t"
    using b1 d ne(1) ab.Mark_other[OF d ne(1)] ab.distinctTypes_Mark[OF d] by (elim disjE exE; simp)
  have 2: "distinctTypes (abGet b2) \<and> \<not> IsFalse appBindingSetter b2 ?t"
    using b2
  proof
    assume "b2 = MarkTrue appBindingSetter now b1 ?t"
    then show ?thesis
      using ab.marked_MarkTrue[of b1 now ?t] ab.distinctTypes_Mark(1)[of b1] 1
      by (auto simp: IsFalse_def marked_def split: option.splits)
  next
    assume "b2 = b1"
    then show ?thesis using 1 assms(3) by (simp add: IsFalse_def)
  qed
  then show ?thesis
    using ab.get_SetSummary_other[of b2 ?t] ne(2) unfolding b' IsFalse_def by simp
qed

section \<open>Names that collide\<close>

lemma rootNamespace_eq: "rootNamespace b = ''klutch-bind-'' @ appNamespace b @ ''-'' @ appName b"
  by (simp add: rootNamespace_def getBindingRootNamespace_def bindingRootNamespacePrefix_def)

lemma deleteAndVerify_always:
  "always c (deleteAndVerify R c rd rc what cleanup name)" "emits (\<lambda>_. True) (deleteAndVerify R c rd rc what cleanup name)"
  unfolding deleteAndVerify_def
  by (intro always_bind disjI1 always_deleting emits_intros TrueI)+

lemma ensureDeleted_removes:
  "RemoveNamespace (rootNamespace b) \<in> set (snd (run_state (ensureDeleted R b) l))"
proof -
  have d: "emits (\<lambda>_. True) (deleteBindings R b)"
    by (rule emits_mono[OF deleteBindings_emits]) simp
  have "always (RemoveNamespace (rootNamespace b)) (ensureDeleted R b)"
    unfolding ensureDeleted_def
    by (rule always_bind, rule d, intro emits_bind deleteAndVerify_always(2) emits_return, rule disjI2, rule allI)+
       (rule always_bind, rule deleteAndVerify_always(2), intro emits_bind deleteAndVerify_always(2) emits_return,
        (rule disjI1, rule deleteAndVerify_always(1) | rule disjI2, rule allI))+
  then obtain k rest where "snd (run_state (ensureDeleted R b) l) = l @ k @ RemoveNamespace (rootNamespace b) # rest"
    unfolding always_def by blast
  then show ?thesis
    by simp
qed

end
