(* ===== verification/App_Runs.thy ===== *)
theory App_Runs
  imports App_Cluster_Binding
begin

text \<open>
  Whole runs of the AppClusterBinding controller: where a run writes, and when it reports to the
  status of the binding.

  \<open>confined\<close> says of one call that it stays with its binding: a write goes to the root namespace, a new
  object in it has no owner reference, and the binding itself is not written. APIServiceBindings are the exception: the
  controller lists them over all namespaces by the labels of the AppClusterBinding, and updates or deletes what it
  listed, wherever that is. \<open>listed\<close> is what the list of the same run answered. Every step of
  \<open>app_reconcile\<close> emits such calls only, by the rules of \<open>emits\<close> and, for the one step that depends on an answer of the
  run, of \<open>leaves\<close>.
\<close>

section \<open>Calls that stay with the binding\<close>

fun confined :: "(string \<Rightarrow> string \<Rightarrow> bool) \<Rightarrow> AppClusterBinding \<Rightarrow> app_call \<Rightarrow> bool" where
  "confined own b (CreateSecret ns s) = (ns = rootNamespace b)"
| "confined own b (UpdateSecret ns s) = (ns = rootNamespace b)"
| "confined own b (CreateBinding s) = (om_Namespace (sb_Meta s) = rootNamespace b)"
| "confined own b (UpdateBinding s) = own (om_Namespace (sb_Meta s)) (bindingName s)"
| "confined own b (DeleteBinding ns n) = own ns n"
| "confined own b (CreateRequest ns r) = (ns = rootNamespace b)"
| "confined own b (DeleteRequest ns n) = (ns = rootNamespace b)"
| "confined own b (DeleteExport ns n) = (ns = rootNamespace b)"
| "confined own b (CreateAppRole ns r) = (ns = rootNamespace b \<and> om_OwnerReferences (ro_Meta r) = [])"
| "confined own b (UpdateAppRole ns r) = (ns = rootNamespace b)"
| "confined own b (CreateAppRoleBinding ns r) =
     (ns = rootNamespace b \<and> om_OwnerReferences (rb_Meta r) = [] \<and> rb_Subjects r = [binderSubject (rootNamespace b)])"
| "confined own b (UpdateAppRoleBinding ns r) = (ns = rootNamespace b \<and> rb_Subjects r = [binderSubject (rootNamespace b)])"
| "confined own b (NewNamespace m) = (om_Name m = rootNamespace b)"
| "confined own b (NewServiceAccount ns n) = (ns = rootNamespace b)"
| "confined own b (NewClusterBinding ns c) = (ns = rootNamespace b)"
| "confined own b (UpdateClusterBinding ns c) = (ns = rootNamespace b)"
| "confined own b (CreateDeployment ns d) = (ns = rootNamespace b)"
| "confined own b (UpdateDeployment ns d) = (ns = rootNamespace b)"
| "confined own b (DeleteDeployment ns n) = (ns = rootNamespace b)"
| "confined own b (DeleteClusterRole n) = False"
| "confined own b (RemoveClusterRoleBinding n) = False"
| "confined own b (RemoveNamespace n) = False"
| "confined own b (UpdateObject x) = False"
| "confined own b (UpdateObjectStatus x) = False"
| "confined own b _ = True"

text \<open>Conditions do not matter to it.\<close>

lemma names_conditions [simp]:
  "rootNamespace (Set_condition appBindingSetter now b c) = rootNamespace b"
  "bindingSelector (Set_condition appBindingSetter now b c) = bindingSelector b"
  by (simp_all add: Set_condition_def appBindingSetter_def rootNamespace_def appNamespace_def appName_def
      bindingSelector_def ensureBindingLabels_def split: option.splits)

lemma confined_root: "rootNamespace b' = rootNamespace b \<Longrightarrow> confined own b' c = confined own b c"
  by (cases c) simp_all

lemma confined_mono: "confined own b c \<Longrightarrow> (\<And>ns n. own ns n \<Longrightarrow> own' ns n) \<Longrightarrow> confined own' b c"
  by (cases c) simp_all

text \<open>
  The APIServiceBindings that the list by the labels of the AppClusterBinding answered, in the calls \<open>cs\<close> made from the log \<open>l\<close> on.
\<close>

definition listed :: "app_reconciler \<Rightarrow> AppClusterBinding \<Rightarrow> app_call list \<Rightarrow> app_call list \<Rightarrow> APIServiceBinding set" where
  "listed R b l cs = {s. \<exists>pre post items. cs = pre @ ListBindings (bindingSelector b) # post \<and>
     ap_listServiceBindings R (l @ pre) (bindingSelector b) = Inr items \<and> s \<in> set items}"

definition isOneOf :: "APIServiceBinding set \<Rightarrow> string \<Rightarrow> string \<Rightarrow> bool" where
  "isOneOf S ns n \<longleftrightarrow> (\<exists>s\<in>S. om_Namespace (sb_Meta s) = ns \<and> bindingName s = n)"

lemma listed_right: "listed R b l cs \<subseteq> listed R b l (cs @ ds)"
  unfolding listed_def by fastforce

lemma listed_left: "listed R b (l @ cs) ds \<subseteq> listed R b l (cs @ ds)"
proof
  fix s assume "s \<in> listed R b (l @ cs) ds"
  then obtain pre post items where "ds = pre @ ListBindings (bindingSelector b) # post"
    "ap_listServiceBindings R ((l @ cs) @ pre) (bindingSelector b) = Inr items" "s \<in> set items"
    unfolding listed_def by blast
  then show "s \<in> listed R b l (cs @ ds)"
    unfolding listed_def mem_Collect_eq by (intro exI [of _ "cs @ pre"] exI [of _ post] exI [of _ items]) simp
qed

lemma isOneOf_mono: "isOneOf S ns n \<Longrightarrow> S \<subseteq> T \<Longrightarrow> isOneOf T ns n"
  unfolding isOneOf_def by blast

text \<open>
  Label selection, as the API server documents it: an object in the answer carries every label of the selector.
\<close>

definition hasLabels :: "(string, string) fmap \<Rightarrow> APIServiceBinding \<Rightarrow> bool" where
  "hasLabels sel s = fmpred (\<lambda>k v. fmlookup (om_Labels (sb_Meta s)) k = Some v) sel"

lemma hasLabels_iff: "hasLabels sel s \<longleftrightarrow> (\<forall>k v. fmlookup sel k = Some v \<longrightarrow> fmlookup (om_Labels (sb_Meta s)) k = Some v)"
  by (simp add: hasLabels_def fmpred_iff)

lemma selector_labels:
  "fmlookup (bindingSelector b) appClusterBindingNamespaceLabel = Some (appNamespace b)"
  "fmlookup (bindingSelector b) appClusterBindingNameLabel = Some (appName b)"
  by (simp_all add: bindingSelector_def ensureBindingLabels_def klutch_defs)

definition listsSelected :: "app_reconciler \<Rightarrow> bool" where
  "listsSelected R \<longleftrightarrow>
     (\<forall>l sel items. ap_listServiceBindings R l sel = Inr items \<longrightarrow> (\<forall>s \<in> set items. hasLabels sel s))"

lemma listed_labels: "listsSelected R \<Longrightarrow> s \<in> listed R b l cs \<Longrightarrow> hasLabels (bindingSelector b) s"
  unfolding listsSelected_def listed_def by blast

text \<open>\<open>leaves P m\<close>: every call of an operation satisfies \<open>P\<close>, which may look at all calls of the operation.\<close>

definition leaves :: "(app_call list \<Rightarrow> app_call list \<Rightarrow> app_call \<Rightarrow> bool) \<Rightarrow> 'a app \<Rightarrow> bool" where
  "leaves P m \<longleftrightarrow> (\<forall>l. \<exists>cs. snd (run_state m l) = l @ cs \<and> list_all (P l cs) cs)"

definition stays :: "app_reconciler \<Rightarrow> AppClusterBinding \<Rightarrow> app_call list \<Rightarrow> app_call list \<Rightarrow> app_call \<Rightarrow> bool" where
  "stays R b l cs = confined (isOneOf (listed R b l cs)) b"

lemma stays_right: "stays R b l cs c \<Longrightarrow> stays R b l (cs @ ds) c"
  unfolding stays_def using confined_mono isOneOf_mono listed_right by metis

lemma stays_left: "stays R b (l @ cs) ds c \<Longrightarrow> stays R b l (cs @ ds) c"
  unfolding stays_def using confined_mono isOneOf_mono listed_left by metis

lemma emits_stays: "(\<And>own. emits (confined own b) m) \<Longrightarrow> leaves (stays R b) m"
  using emits_mono [of "confined (\<lambda>_ _. False) b" m] confined_mono
  unfolding leaves_def emits_def stays_def by (metis (no_types, lifting) list.pred_mono_strong)

section \<open>The steps\<close>

lemma rootResources_confined: "emits (confined own b) (ensureBindingRootResources R b)"
  unfolding ensureBindingRootResources_def EnsureBindingRootResources_def ensureBindingRootKubeconfigSecret_def
    ensureClusterBinding_def readSecret_def Let_def
  by (intro emits_intros) (simp_all add: namedMeta_def)

lemma connectorRBAC_confined: "emits (confined own b) (ensureControlPlaneConnectorRBAC R b)"
  unfolding ensureControlPlaneConnectorRBAC_def Let_def
  by (intro emits_intros) (simp_all add: connectorRole_def connectorRoleBinding_def namedMeta_def Let_def)

lemma resolveTemplate_confined: "emits (confined own b) (resolveTemplate R g)"
  unfolding resolveTemplate_def Let_def by (intro emits_intros) simp

lemma desiredBindings_confined: "emits (confined own b) (desiredBindings R b d gs)"
  by (induction gs arbitrary: d) (auto intro!: emits_intros resolveTemplate_confined)

lemma desiredExports_confined: "emits (confined own b) (desiredExports R d gs)"
  by (induction gs arbitrary: d) (auto intro!: emits_intros resolveTemplate_confined)

lemma syncExisting_confined:
  assumes "\<And>s. s \<in> set items \<Longrightarrow> own (om_Namespace (sb_Meta s)) (bindingName s)"
  shows "emits (confined own b) (syncExisting R d items)"
  using assms
  by (induction items arbitrary: d) (auto simp: Let_def updatedBinding_def bindingName_def intro!: emits_intros)

lemma exportRequests_confined: "emits (confined own b) (ensureServiceExportRequests R b)"
  unfolding ensureServiceExportRequests_def Let_def removeExport_def removeRequest_def requestExport_def
  by (intro emits_intros desiredExports_confined) simp_all

lemma konnectorDeployment_confined: "emits (confined own b) (ensureKonnectorDeployment R now b)"
  unfolding ensureKonnectorDeployment_def Let_def by (intro emits_intros) simp_all

text \<open>\<open>yields Q m\<close>: whatever an operation answers satisfies \<open>Q\<close>.\<close>

definition yields :: "('a \<Rightarrow> bool) \<Rightarrow> 'a app \<Rightarrow> bool" where
  "yields Q m \<longleftrightarrow> (\<forall>l. Q (fst (run_state m l)))"

lemma emits_bind_yields:
  assumes "emits P m" and "yields Q m" and "\<And>x. Q x \<Longrightarrow> emits P (f x)"
  shows "emits P (State_Monad.bind m f)"
  unfolding emits_def
proof
  fix l
  obtain x l1 where m: "run_state m l = (x, l1)" by force
  obtain c1 where c1: "l1 = l @ c1" "list_all P c1"
    using emitsD[OF assms(1) m] by blast
  have "Q x"
    using assms(2) m unfolding yields_def by (metis fst_conv)
  then obtain c2 where c2: "snd (run_state (f x) l1) = l1 @ c2" "list_all P c2"
    using assms(3)[of x] unfolding emits_def by blast
  show "\<exists>cs. snd (run_state (State_Monad.bind m f) l) = l @ cs \<and> list_all P cs"
    using c1 c2 by (intro exI[of _ "c1 @ c2"]) (simp add: m)
qed

definition inRoot :: "AppClusterBinding \<Rightarrow> desired \<Rightarrow> bool" where
  "inRoot b d \<longleftrightarrow> (\<forall>n w. fmlookup d n = Some w \<longrightarrow> om_Namespace (sb_Meta w) = rootNamespace b)"

lemma desiredBindings_yields:
  "yields (\<lambda>r. \<forall>d. r = Inr d \<longrightarrow> inRoot b d) (desiredBindings R b fmempty gs)"
proof -
  have "inRoot b d" if run: "run_state (desiredBindings R b fmempty gs) l = (Inr d, l1)" for l l1 d
    unfolding inRoot_def
  proof (intro allI impI)
    fix n w
    assume "fmlookup d n = Some w"
    then obtain t where "newServiceBinding b t = Some w"
      using desiredBindings_sound[OF run] by fastforce
    from newServiceBinding_key(1)[OF this] show "om_Namespace (sb_Meta w) = rootNamespace b"
      by (simp add: storeKey_def)
  qed
  then show ?thesis
    unfolding yields_def by (metis prod.collapse)
qed

lemma syncExisting_yields:
  "inRoot b d \<Longrightarrow> yields (\<lambda>(errs, d'). inRoot b d') (syncExisting R d items)"
  unfolding yields_def
proof (induction items arbitrary: d)
  case (Cons s rest)
  have "inRoot b (fmdrop n d)" for n
    using Cons.prems by (auto simp: inRoot_def)
  then show ?case
    using Cons.IH[of d] Cons.IH[of "fmdrop _ d"] Cons.prems
    by (auto simp: Let_def case_prod_beta split: option.splits)
qed simp

lemma createDesired_confined: "inRoot b d \<Longrightarrow> emits (confined own b) (createDesired R d n)"
  unfolding createDesired_def inRoot_def
  by (cases "fmlookup d n") (auto intro!: emits_intros)

text \<open>The one step whose calls depend on what the run has listed.\<close>

lemma syncBindings_confined:
  assumes "inRoot b d" and "\<And>s. s \<in> set items \<Longrightarrow> own (om_Namespace (sb_Meta s)) (bindingName s)"
  shows "emits (confined own b) (syncExisting R d items \<bind> (\<lambda>(errs, missing).
     forEach (createDesired R missing) (ap_order R (fmdom missing)) \<bind>
       (\<lambda>errs'. State_Monad.return (errs @ errs'))))"
  by (rule emits_bind_yields[OF syncExisting_confined[of items own b R d] syncExisting_yields[OF assms(1)]])
    (auto intro!: emits_bind emits_return emits_forEach createDesired_confined assms(2))

lemma serviceBindings_stays: "leaves (stays R b) (ensureServiceBindings R b)"
  unfolding leaves_def
proof
  fix l
  let ?sel = "bindingSelector b"
  obtain r k where d: "run_state (desiredBindings R b fmempty (ab_APIExports b)) l = (r, k)" by fastforce
  obtain c1 where c1: "k = l @ c1" "list_all (confined (\<lambda>_ _. False) b) c1"
    using emitsD [OF desiredBindings_confined d] by blast
  have c1s: "list_all (stays R b l (c1 @ cs)) c1" for cs
    using c1(2) unfolding stays_def list_all_iff using confined_mono by metis
  show "\<exists>cs. snd (run_state (ensureServiceBindings R b) l) = l @ cs \<and> list_all (stays R b l cs) cs"
  proof (cases r)
    case (Inl e)
    then show ?thesis
      using d c1(1) c1s [of "[]"] by (intro exI [of _ c1]) (simp add: ensureServiceBindings_def)
  next
    case (Inr want)
    have want: "inRoot b want"
      using desiredBindings_yields [of b R "ab_APIExports b"] d Inr unfolding yields_def by (metis fst_conv)
    show ?thesis
    proof (cases "ap_listServiceBindings R k ?sel")
      case (Inl e)
      then show ?thesis
        using d c1(1) c1s [of "[ListBindings ?sel]"] Inr
        by (intro exI [of _ "c1 @ [ListBindings ?sel]"]) (simp add: ensureServiceBindings_def listBindings_def stays_def)
    next
      case items: (Inr items)
      let ?S = "\<lambda>cs. listed R b l (c1 @ ListBindings ?sel # cs)"
      define m where "m = (syncExisting R want items \<bind> (\<lambda>(errs, missing).
        forEach (createDesired R missing) (ap_order R (fmdom missing)) \<bind> (\<lambda>errs'. State_Monad.return (errs @ errs'))))"
      have "emits (confined (isOneOf (set items)) b) m"
        unfolding m_def by (rule syncBindings_confined [OF want]) (auto simp: isOneOf_def)
      then obtain c2 where c2: "snd (run_state m (k @ [ListBindings ?sel])) = k @ [ListBindings ?sel] @ c2"
          "list_all (confined (isOneOf (set items)) b) c2"
        unfolding emits_def by (metis append.assoc)
      have "set items \<subseteq> ?S c2"
        using items c1(1) unfolding listed_def by blast
      then have "list_all (stays R b l (c1 @ ListBindings ?sel # c2)) c2"
        using c2(2) unfolding stays_def list_all_iff using confined_mono isOneOf_mono by metis
      then show ?thesis
        using d c1(1) c1s [of "ListBindings ?sel # c2"] Inr items c2(1)
        by (intro exI [of _ "c1 @ ListBindings ?sel # c2"])
          (simp add: ensureServiceBindings_def listBindings_def stays_def m_def)
    qed
  qed
qed

section \<open>A whole run\<close>

lemma secret_keeps_names:
  "yields (\<lambda>(e, v, b1). rootNamespace b1 = rootNamespace b \<and> bindingSelector b1 = bindingSelector b)
     (app_ensureValidKubeconfigSecret R now b)"
  by (auto simp: yields_def app_ensureValidKubeconfigSecret_def readSecret_def checkKubeconfig_def app_secretInvalid_def
      mark_defs Let_def split: sum.splits option.splits if_splits)

lemma leaves_bind_yields:
  assumes "leaves (stays R b) m" and "yields Q m" and "\<And>x. Q x \<Longrightarrow> leaves (stays R b) (f x)"
  shows "leaves (stays R b) (State_Monad.bind m f)"
  unfolding leaves_def
proof
  fix l
  obtain x l1 where m: "run_state m l = (x, l1)" by force
  obtain c1 where c1: "l1 = l @ c1" "list_all (stays R b l c1) c1"
    using assms(1) m unfolding leaves_def by (metis snd_conv)
  have "Q x"
    using assms(2) m unfolding yields_def by (metis fst_conv)
  then obtain c2 where c2: "snd (run_state (f x) l1) = l1 @ c2" "list_all (stays R b l1 c2) c2"
    using assms(3)[of x] unfolding leaves_def by blast
  have "list_all (stays R b l (c1 @ c2)) (c1 @ c2)"
    using c1 c2(2) stays_right stays_left by (auto simp: list_all_iff)
  then show "\<exists>cs. snd (run_state (State_Monad.bind m f) l) = l @ cs \<and> list_all (stays R b l cs) cs"
    using c1(1) c2(1) by (intro exI[of _ "c1 @ c2"]) (simp add: m)
qed

lemma leaves_bind:
  "leaves (stays R b) m \<Longrightarrow> (\<And>x. leaves (stays R b) (f x)) \<Longrightarrow> leaves (stays R b) (State_Monad.bind m f)"
  by (rule leaves_bind_yields[where Q = "\<lambda>_. True"]) (simp_all add: yields_def)

lemma leaves_return: "leaves P (State_Monad.return x)"
  by (simp add: leaves_def)

lemma stays_root:
  assumes "rootNamespace b1 = rootNamespace b" and "bindingSelector b1 = bindingSelector b"
  shows "stays R b1 = stays R b"
  using assms confined_root[OF assms(1)] by (intro ext) (simp add: stays_def listed_def)

lemma app_reconcile_stays: "leaves (stays R b) (app_reconcile R now b)"
proof -
  define rest where "rest b1 = (do {
          e1 \<leftarrow> ensureBindingRootResources R b1;
          e2 \<leftarrow> ensureControlPlaneConnectorRBAC R b1;
          e3 \<leftarrow> ensureServiceBindings R b1;
          e4 \<leftarrow> ensureServiceExportRequests R b1;
          (e5, b') \<leftarrow> ensureKonnectorDeployment R now b1;
          State_Monad.return (e1 @ e2 @ e3 @ e4 @ e5, b')
        })" for b1
  have own: "leaves (stays R b1) (rest b1)" for b1
    unfolding rest_def
    by (intro leaves_bind serviceBindings_stays emits_stays rootResources_confined connectorRBAC_confined
        exportRequests_confined konnectorDeployment_confined) (auto intro!: emits_return)
  have run: "leaves (stays R b) (rest b1)"
    if "rootNamespace b1 = rootNamespace b" "bindingSelector b1 = bindingSelector b" for b1
    using own[of b1] stays_root[OF that] by simp
  have sec: "leaves (stays R b) (app_ensureValidKubeconfigSecret R now b)"
    by (rule emits_stays) (auto simp: app_ensureValidKubeconfigSecret_def readSecret_def intro!: emits_intros)
  show ?thesis
    unfolding app_reconcile_def rest_def[symmetric]
    by (rule leaves_bind_yields[OF sec secret_keeps_names]) (auto intro!: leaves_bind leaves_return run)
qed

text \<open>The status is written after a reconcile without error only, with the binding it left.\<close>

lemma app_process_status:
  assumes "om_DeletionTimestamp (ab_Meta b) = None"
    and "run_state (app_process R now (Inr (Some b))) [] = (errs, l)" and "UpdateObjectStatus b' \<in> set l"
  shows "\<exists>k l1. run_state (app_reconcile R now b) k = (([], b'), l1)"
proof -
  obtain added k where f: "run_state (ensureFinalizer R b) [] = (added, k)" by force
  have k: "UpdateObjectStatus b' \<notin> set k"
    using f by (auto simp: ensureFinalizer_def updateObject_def writeCall_def Let_def split: if_splits option.splits)
  obtain e2 b2 l2 where r: "run_state (app_reconcile R now b) k = ((e2, b2), l2)" by (metis prod.exhaust)
  obtain cs where "l2 = k @ cs" "list_all (stays R b k cs) cs"
    using app_reconcile_stays[of R b now] r unfolding leaves_def by (metis snd_conv)
  then have l2: "UpdateObjectStatus b' \<notin> set l2"
    using k by (auto simp: list_all_iff stays_def)
  have run: "run_state (case added of Inl e \<Rightarrow> State_Monad.return [e] | Inr True \<Rightarrow> State_Monad.return []
      | Inr False \<Rightarrow> app_reconcile R now b \<bind>
          (\<lambda>(errs, b'). if errs \<noteq> [] then State_Monad.return errs else writeStatus R b b')) k = (errs, l)"
    using assms(2)[unfolded app_process_def] assms(1) f by simp
  then have "added = Inr False"
    using k assms(3) by (auto split: sum.splits bool.splits)
  then have "e2 = [] \<and> run_state (writeStatus R b b2) l2 = (errs, l)"
    using run r l2 assms(3) by (auto split: if_splits)
  then have "e2 = [] \<and> b2 = b'"
    using l2 assms(3) by (auto simp: writeStatus_def writeCall_def split: if_splits option.splits)
  then show ?thesis using r by blast
qed

end
