(* ===== verification/Backend_Properties.thy ===== *)
theory Backend_Properties
  imports Konnector_Properties Konnector_Process App_Runs
begin

text \<open>
  The properties of the controllers around the reconcilers of the konnector and of the controllers of the
  example backend: what a commit writes, how AppClusterBindings, requests, exports and roles
  are kept, and how the parts of the two clusters work together.
\<close>

section \<open>Samples\<close>

definition sampleCommitter :: "('sp, 'st) committer" where
  "sampleCommitter =
     \<lparr>cm_focusType = ''T'', cm_EqualMeta = (=), cm_EqualSpec = (=), cm_EqualStatus = (=),
      cm_Marshal = (\<lambda>r. Inr ''{}''), cm_CreateMergePatch = (\<lambda>a b. Inr ''{}''), cm_Patch = (\<lambda>p. None)\<rparr>"

lemma sampleCommitter_reflexive [simp]: "reflexiveEqual sampleCommitter"
  by (simp add: reflexiveEqual_def sampleCommitter_def)

definition notFound :: apierr where
  "notFound = \<lparr>reason = NotFound, error_text = ''not found''\<rparr>"

definition sampleKeys :: keyfuncs where
  "sampleKeys =
     \<lparr>metaKey = (\<lambda>ns name. ns @ ''/'' @ name),
      splitMetaNamespaceKey = (\<lambda>k. Inr (takeWhile (\<lambda>c. c \<noteq> CHR ''/'') k, tl (dropWhile (\<lambda>c. c \<noteq> CHR ''/'') k)))\<rparr>"

definition sampleJson :: jsonlib where
  "sampleJson =
     \<lparr>js_marshalContainer = (\<lambda>c. Inr ''{}''), js_marshalOverrides = (\<lambda>m. Inr ''{}''), js_unmarshalMap = (\<lambda>s. Inr fmempty),
      js_marshalMap = (\<lambda>m. Inr ''{}''), js_StrategicMergePatch = (\<lambda>a b. Inr a),
      js_unmarshalContainer = (\<lambda>s. Inl notFound)\<rparr>"

text \<open>A control plane in which nothing is found and every write is accepted.\<close>

definition emptyControlPlane :: app_reconciler where
  "emptyControlPlane =
     \<lparr>ap_getSecret = (\<lambda>l ns n. Inl notFound), ap_listServiceBindings = (\<lambda>l sel. Inr []), ap_templates = (\<lambda>l. Inr []),
      ap_listRequests = (\<lambda>l ns sel. Inr []), ap_listExports = (\<lambda>l ns. Inr []), ap_getRole = (\<lambda>l ns n. Inl notFound),
      ap_getRoleBinding = (\<lambda>l ns n. Inl notFound), ap_getClusterRole = (\<lambda>l n. Inl notFound),
      ap_getClusterRoleBinding = (\<lambda>l n. Inl notFound), ap_getNamespace = (\<lambda>l n. Inl notFound),
      ap_getServiceAccount = (\<lambda>l ns n. Inl notFound), ap_getClusterBinding = (\<lambda>l ns n. Inl notFound),
      ap_getDeployment = (\<lambda>l ns n. Inl notFound), ap_write = (\<lambda>l c. None), ap_clientcmd = sampleClientcmd,
      ap_json = sampleJson, ap_order = sortedOrder, ap_convert = (\<lambda>b. None)\<rparr>"

definition sampleApp :: "string \<Rightarrow> string \<Rightarrow> AppClusterBinding" where
  "sampleApp ns name =
     \<lparr>ab_Kind = ''AppClusterBinding'',
      ab_Meta = (namedMeta name)\<lparr>om_Namespace := ns, om_Finalizers := [appClusterBindingFinalizer]\<rparr>,
      ab_KubeconfigSecretRef = \<lparr>ref_Name = ''kubeconfig'', ref_Key = ''kubeconfig'', ref_Namespace = ''default''\<rparr>,
      ab_APIExports = [\<lparr>gr_Group = ''g'', gr_Resource = ''pgs''\<rparr>], ab_Konnector = None, ab_Conditions = []\<rparr>"

definition deletedApp :: AppClusterBinding where
  "deletedApp = (sampleApp ''default'' ''app'')
     \<lparr>ab_Meta := (ab_Meta (sampleApp ''default'' ''app''))\<lparr>om_DeletionTimestamp := Some 5\<rparr>\<rparr>"

lemma deletedApp_meta [simp]:
  "om_DeletionTimestamp (ab_Meta deletedApp) = Some 5" "om_Finalizers (ab_Meta deletedApp) = [appClusterBindingFinalizer]"
  by (simp_all add: deletedApp_def sampleApp_def)

lemma notFound_IsNotFound [simp]: "IsNotFound notFound"
  by (simp add: notFound_def IsNotFound_def)

section \<open>What a controller writes to its object\<close>

text \<open>C17: the committer panics when a reconcile has changed both sides of an object. With a reflexive equality none of
  the nine controllers of the konnector and of the backend that use it can get there, and each sends at most one patch. The
  top-level controller of the konnector sends none, the four others of the konnector and three of the backend patch the
  status only. The exception is the export controller of the backend, which copies a CRD into the spec of the export: its
  one patch may be of the spec, and then the status is left for a second run.\<close>

theorem no_commit_panics:
  assumes "reflexiveEqual Csb" and "reflexiveEqual Ccb" and "reflexiveEqual Cex" and "reflexiveEqual Csn"
    and "reflexiveEqual Crq"
  shows "(\<exists>errs. fst (konn_processKey K Lsb Csb Rk ks key) = Processed errs []) \<and>
    statusOnly (sb_process K Lsb Csb Rsb now key) \<and>
    statusOnly (fst (csb_process K Lsb Csb Rcsb now csl key)) \<and>
    statusOnly (fst (export_process K Lex Cex Rex now st key)) \<and>
    statusOnly (fst (cluster_process K Lcb Ccb Rcb now indexed key)) \<and>
    statusOnly (fst (access_process K Lcb Ccb Rac now acl key)) \<and>
    statusOnly (fst (sns_process K Lsn Csn Rac acl key)) \<and>
    statusOnly (fst (req_process K Lrq Crq Reb now ebl key)) \<and>
    onePatch (fst (bex_process K Lex Cex Reb now ebl key))"
  using assms
  by (simp add: konn_process_writes_nothing sb_process_statusOnly csb_process_statusOnly export_process_statusOnly
      cluster_process_statusOnly access_process_statusOnly sns_process_statusOnly req_process_statusOnly bex_never_panics)

theorem no_commit_panics_witness:
  "statusOnly (fst (cluster_process sampleKeys (\<lambda>ns n. Inr sampleCluster) sampleCommitter sampleClusterReconciler 100
     (Inr [sampleBinding]) ''kube-bind-x/cluster''))"
  by (rule no_commit_panics[OF sampleCommitter_reflexive sampleCommitter_reflexive sampleCommitter_reflexive
      sampleCommitter_reflexive sampleCommitter_reflexive,
      THEN conjunct2, THEN conjunct2, THEN conjunct2, THEN conjunct2, THEN conjunct1])

section \<open>Deletion of an AppClusterBinding\<close>

lemma only_at_end: "x \<notin> set ys \<Longrightarrow> k @ x # rest = ys @ [y] \<Longrightarrow> k = ys \<and> x = y"
  by (auto simp: append_eq_append_conv2 Cons_eq_append_conv append_eq_Cons_conv)

text \<open>C14: while an AppClusterBinding is being deleted, the only update of the object takes this controller's
  finalizer away, and before it the run has read every cluster role, role binding, APIServiceBinding
  and the root namespace of the binding as gone.\<close>

theorem finalizer_released_after_cleanup:
  assumes "om_DeletionTimestamp (ab_Meta b) \<noteq> None"
    and "run_state (app_process R now (Inr (Some b))) [] = (errs, k @ UpdateObject b' # rest)"
  shows "cleanedUp R b k \<and>
     b' = withFinalizers (removeFinalizer (om_Finalizers (ab_Meta b)) appClusterBindingFinalizer) b"
proof -
  let ?fs = "om_Finalizers (ab_Meta b)"
  let ?upd = "UpdateObject (withFinalizers (removeFinalizer ?fs appClusterBindingFinalizer) b)"
  obtain e1 l1 where d: "run_state (ensureDeleted R b) [] = (e1, l1)" by force
  have noupd: "UpdateObject x \<notin> set l1" for x
    using emitsD[OF ensureDeleted_emits d] by (auto simp: list_all_iff)
  have fin: "hasFinalizer ?fs appClusterBindingFinalizer"
  proof (rule ccontr)
    assume "\<not> ?thesis"
    then show False
      using assms(1) assms(2)[unfolded app_process_def] by (auto simp: writeStatus_def)
  qed
  obtain r l2 where r: "run_state (app_removeFinalizer R b) l1 = (r, l2)" by force
  note rm = removeFinalizer_runs[OF fin r]
  have log: "k @ UpdateObject b' # rest = (if e1 = [] then l2 else l1)"
    using assms(1) assms(2)[unfolded app_process_def] fin rm(2) by (auto simp: d r split: sum.splits bool.splits if_splits)
  then have e1: "e1 = []" and l2: "k @ UpdateObject b' # rest = l1 @ [?upd]"
    using noupd[of b'] rm(1) by (auto split: if_splits)
  have "k = l1 \<and> UpdateObject b' = ?upd"
    using noupd[of b'] l2 by (rule only_at_end)
  then show ?thesis
    using ensureDeleted_ok d e1 by auto
qed

lemma deletedApp_run:
  "\<exists>k b'. run_state (app_process emptyControlPlane 7 (Inr (Some deletedApp))) [] = ([], k @ UpdateObject b' # [])"
  by (simp add: app_process_def ensureDeleted_def deleteBindings_def deleteAndVerify_def listBindings_def deleting_def
      writeCall_def emptyControlPlane_def app_removeFinalizer_def updateObject_def hasFinalizer_def)

theorem finalizer_released_after_cleanup_witness:
  "\<exists>k b'. run_state (app_process emptyControlPlane 7 (Inr (Some deletedApp))) [] = ([], k @ [UpdateObject b']) \<and>
     cleanedUp emptyControlPlane deletedApp k \<and> om_Finalizers (ab_Meta b') = []"
proof -
  obtain k b' where run: "run_state (app_process emptyControlPlane 7 (Inr (Some deletedApp))) [] = ([], k @ [UpdateObject b'])"
    using deletedApp_run by blast
  have "om_DeletionTimestamp (ab_Meta deletedApp) \<noteq> None" by simp
  from finalizer_released_after_cleanup[OF this run] run show ?thesis
    by (intro exI[of _ k] exI[of _ b']) (simp add: withFinalizers_def removeFinalizer_def)
qed

section \<open>Runs of the AppClusterBinding controller\<close>

definition sampleTemplate :: APIServiceExportTemplate where
  "sampleTemplate =
     \<lparr>et_Name = ''pgs'', et_Selector = \<lparr>gr_Group = ''g'', gr_Resource = ''pgs''\<rparr>, et_Version = None,
      et_PermissionClaims = []\<rparr>"

definition staleBinding :: APIServiceBinding where
  "staleBinding =
     sampleBinding\<lparr>sb_Meta := (namedMeta ''mysqls.g'')
       \<lparr>om_Namespace := ''klutch-bind-default-app'', om_Labels := bindingSelector (sampleApp ''default'' ''app'')\<rparr>\<rparr>"

text \<open>A control plane with the kubeconfig and a template; one APIServiceBinding is out of date.\<close>

definition controlPlane :: app_reconciler where
  "controlPlane = emptyControlPlane
     \<lparr>ap_getSecret := (\<lambda>l ns n. if ns = ''default'' then Inr sampleSecret else Inl notFound),
      ap_templates := (\<lambda>l. Inr [sampleTemplate]), ap_listServiceBindings := (\<lambda>l sel. Inr (filter (hasLabels sel) [staleBinding]))\<rparr>"

abbreviation theApp :: AppClusterBinding where
  "theApp \<equiv> sampleApp ''default'' ''app''"

lemma theApp_root [simp]: "rootNamespace theApp = ''klutch-bind-default-app''"
  by (simp add: rootNamespace_eq sampleApp_def appNamespace_def appName_def namedMeta_def)

lemma staleBinding_listed [simp]: "hasLabels (bindingSelector theApp) staleBinding"
  by (simp add: hasLabels_iff staleBinding_def)

lemma staleBinding_namespace [simp]: "om_Namespace (sb_Meta staleBinding) = ''klutch-bind-default-app''"
  by (simp add: staleBinding_def)

lemma controlPlane_selects: "listsSelected controlPlane"
  by (auto simp: listsSelected_def controlPlane_def split: if_splits)

text \<open>C16: a reconcile of an AppClusterBinding stays with its binding. Every write of one run goes to the root namespace
  of the binding, role bindings name its own service account only, and neither the binding nor
  anything cluster-wide is written. APIServiceBindings are listed over all namespaces by the two labels of the
  AppClusterBinding: one that a run updates or deletes is one that the list of the same run answered, so that it carries
  both labels, in whatever namespace it is; new ones are created in the root namespace. The hypothesis
  \<open>listsSelected\<close> is the API server's label selection: a list answers objects with the labels of the selector only.\<close>

theorem app_run_confined:
  assumes "listsSelected R" and "run_state (app_reconcile R now b) l = ((errs, b'), l')"
  shows "\<exists>cs. l' = l @ cs \<and> (\<forall>c \<in> set cs. confined (isOneOf (listed R b l cs)) b c) \<and>
    (\<forall>s \<in> listed R b l cs.
       fmlookup (om_Labels (sb_Meta s)) appClusterBindingNamespaceLabel = Some (appNamespace b) \<and>
       fmlookup (om_Labels (sb_Meta s)) appClusterBindingNameLabel = Some (appName b))"
proof -
  obtain cs where "l' = l @ cs" "list_all (stays R b l cs) cs"
    using app_reconcile_stays[of R b now] assms(2) unfolding leaves_def by (metis snd_conv)
  then show ?thesis
    using listed_labels[OF assms(1)] selector_labels[of b] by (auto simp: list_all_iff stays_def hasLabels_iff)
qed

theorem app_run_confined_witness:
  "\<exists>errs b' cs. run_state (app_reconcile controlPlane 7 theApp) [] = ((errs, b'), cs) \<and>
     (\<forall>c \<in> set cs. confined (isOneOf (listed controlPlane theApp [] cs)) theApp c)"
proof -
  obtain errs b' cs where "run_state (app_reconcile controlPlane 7 theApp) [] = ((errs, b'), cs)"
    by (metis prod.exhaust)
  with app_run_confined[OF controlPlane_selects this] show ?thesis by auto
qed




text \<open>C27: when the templates cannot be read, \<open>ensureServiceExportRequests\<close> collects the error and goes on with no
  desired export, so that it deletes every APIServiceExport of the root namespace: a failed read of the
  templates takes the exported APIs of a consumer away.\<close>

theorem template_error_deletes_exports:
  assumes "\<forall>l. ap_templates R l = Inl e" and "\<forall>l. ap_listExports R l (rootNamespace b) = Inr items"
    and "export \<in> set items"
  shows "DeleteExport (rootNamespace b) (om_Name (ex_Meta export)) \<in>
           set (snd (run_state (ensureServiceExportRequests R b) l))"
  using exports_deleted_without_templates assms by blast

theorem template_error_deletes_exports_witness:
  "DeleteExport ''klutch-bind-default-app'' ''pg'' \<in>
     set (snd (run_state (ensureServiceExportRequests
       (controlPlane\<lparr>ap_templates := \<lambda>l. Inl notFound, ap_listExports := \<lambda>l ns. Inr [sampleExport]\<rparr>) theApp) []))"
  using template_error_deletes_exports[of "controlPlane\<lparr>ap_templates := \<lambda>l. Inl notFound,
      ap_listExports := \<lambda>l ns. Inr [sampleExport]\<rparr>" notFound theApp "[sampleExport]" sampleExport "[]"]
  by (simp add: sampleExport_def namedMeta_def)

text \<open>A failure to deploy the konnector marks the condition KonnectorDeployed false, but also fails the
  reconcile, and then the status is not written. So no status that a run writes says that the
  deployment failed, unless the binding said so before.\<close>

lemma deployment_failure_never_reported:
  assumes "om_DeletionTimestamp (ab_Meta b) = None"
    and "run_state (app_process R now (Inr (Some b))) [] = (errs, l)" and "UpdateObjectStatus b' \<in> set l"
    and "distinctTypes (GetConditions appBindingSetter b)"
    and "\<not> IsFalse appBindingSetter b AppClusterBindingConditionKonnectorDeployed"
  shows "\<not> IsFalse appBindingSetter b' AppClusterBindingConditionKonnectorDeployed"
proof -
  obtain k l1 where "run_state (app_reconcile R now b) k = (([], b'), l1)"
    using app_process_status[OF assms(1-3)] by blast
  from app_reconcile_deployed[OF this assms(4,5)] show ?thesis .
qed

lemma theApp_run:
  "\<exists>b'. run_state (app_process emptyControlPlane 7 (Inr (Some theApp))) [] =
     ([], [GetSecret ''default'' ''kubeconfig'', UpdateObjectStatus b'])"
proof -
  let ?b = "SetSummary appBindingSetter 7 (app_secretInvalid 7 theApp ''KubeconfigSecretNotFound''
              ''Kubeconfig secret %s/%s not found.'' []) []"
  have r: "run_state (app_reconcile emptyControlPlane 7 theApp) [] = (([], ?b), [GetSecret ''default'' ''kubeconfig''])"
    by (simp add: app_reconcile_def app_ensureValidKubeconfigSecret_def readSecret_def emptyControlPlane_def
        secretRef_def sampleApp_def)
  have "Type ` set (GetConditions appBindingSetter (app_secretInvalid 7 theApp ''KubeconfigSecretNotFound''
          ''Kubeconfig secret %s/%s not found.'' [])) \<noteq> {}"
    by (simp add: app_secretInvalid_def ab.types_Mark)
  then have "Type ` set (GetConditions appBindingSetter ?b) \<noteq> {}"
    unfolding SetSummary_def Set_condition_def[of _ _ _ None]
    by (cases "summary appBindingSetter (app_secretInvalid 7 theApp ''KubeconfigSecretNotFound''
          ''Kubeconfig secret %s/%s not found.'' []) []") (simp_all add: Set_condition_def[of _ _ _ None] ab.types_Set)
  then have "ab_Conditions ?b \<noteq> []"
    by (auto simp: appBindingSetter_def)
  then show ?thesis
    using r by (intro exI[of _ ?b])
      (simp add: app_process_def ensureFinalizer_def hasFinalizer_def writeStatus_def writeCall_def
        sampleApp_def[of "''default''"] emptyControlPlane_def namedMeta_def errList_def)
qed

lemma deployment_failure_never_reported_example:
  "\<exists>l b'. run_state (app_process emptyControlPlane 7 (Inr (Some theApp))) [] = ([], l @ [UpdateObjectStatus b']) \<and>
     \<not> IsFalse appBindingSetter b' AppClusterBindingConditionKonnectorDeployed"
proof -
  obtain b' where run: "run_state (app_process emptyControlPlane 7 (Inr (Some theApp))) [] =
      ([], [GetSecret ''default'' ''kubeconfig'', UpdateObjectStatus b'])"
    using theApp_run by blast
  have "\<not> IsFalse appBindingSetter b' AppClusterBindingConditionKonnectorDeployed"
    by (rule deployment_failure_never_reported[OF _ run])
      (simp_all add: sampleApp_def namedMeta_def emptyControlPlane_def appBindingSetter_def distinctTypes_def
        IsFalse_def Get_condition_def)
  then show ?thesis
    using run by (intro exI[of _ "[GetSecret ''default'' ''kubeconfig'']"] exI[of _ b']) simp
qed

text \<open>The controller watches roles and role bindings and queues the AppClusterBinding that owns a changed one. It
  finds it by an owner reference, which the roles that it creates itself do not have, so that a change or
  a deletion of one of them queues nothing.\<close>

lemma created_roles_never_queue:
  assumes "run_state (ensureControlPlaneConnectorRBAC R b) l = (errs, l @ cs)"
  shows "CreateAppRole ns role \<in> set cs \<longrightarrow> enqueueRBACResourceOwner (ro_Meta role) = []"
    and "CreateAppRoleBinding ns rb \<in> set cs \<longrightarrow> enqueueRBACResourceOwner (rb_Meta rb) = []"
proof -
  have "\<forall>c \<in> set cs. confined (\<lambda>_ _. False) b c"
    using emitsD[OF connectorRBAC_confined assms] by (simp add: list_all_iff)
  then show "CreateAppRole ns role \<in> set cs \<longrightarrow> enqueueRBACResourceOwner (ro_Meta role) = []"
    and "CreateAppRoleBinding ns rb \<in> set cs \<longrightarrow> enqueueRBACResourceOwner (rb_Meta rb) = []"
    by (auto simp: enqueueRBACResourceOwner_def dest!: bspec)
qed

lemma created_roles_never_queue_example:
  "\<exists>cs ns role. run_state (ensureControlPlaneConnectorRBAC controlPlane theApp) [] = ([], cs) \<and>
     CreateAppRole ns role \<in> set cs \<and> enqueueRBACResourceOwner (ro_Meta role) = []"
proof -
  let ?ns = "''klutch-bind-default-app''"
  let ?cs = "[GetAppRole ?ns controlPlaneConnectorRoleName, CreateAppRole ?ns (connectorRole theApp),
              GetAppRoleBinding ?ns controlPlaneConnectorRoleName, CreateAppRoleBinding ?ns (connectorRoleBinding theApp)]"
  have run: "run_state (ensureControlPlaneConnectorRBAC controlPlane theApp) [] = ([], [] @ ?cs)"
    by (simp add: ensureControlPlaneConnectorRBAC_def controlPlane_def emptyControlPlane_def writing_def writeCall_def Let_def)
  from created_roles_never_queue(1)[OF run, of ?ns "connectorRole theApp"] run show ?thesis
    by (intro exI[of _ ?cs] exI[of _ ?ns] exI[of _ "connectorRole theApp"]) simp
qed

section \<open>Names\<close>

text \<open>C21: the name of an export request is a DNS label of at most 63 characters, whatever the binding and the template
  are called, and templates whose names differ in their hash get different requests.\<close>

theorem request_name_is_dns_label:
  "dnsLabel (apiServiceExportRequestName bindName apiExport) \<and>
   (Sum32a apiExport \<noteq> Sum32a other \<longrightarrow>
      apiServiceExportRequestName bindName apiExport \<noteq> apiServiceExportRequestName bindName' other)"
  using requestName_label requestName_separates by blast

theorem request_name_is_dns_label_witness:
  "dnsLabel (apiServiceExportRequestName ''App_1'' ''pg'') \<and>
   apiServiceExportRequestName ''App_1'' ''pg'' \<noteq> apiServiceExportRequestName ''App_1'' ''mq''"
proof -
  have "Sum32a ''pg'' \<noteq> Sum32a ''mq''"
    by (simp add: Sum32a_def fnvOffset_def fnvPrime_def)
  then show ?thesis
    using request_name_is_dns_label by blast
qed

text \<open>Two AppClusterBindings can have the same root namespace, since the names are joined by a dash that
  they may hold themselves. Deleting one of them then removes the root namespace of the other.\<close>

lemma root_namespaces_collide:
  assumes "appNamespace b = ns @ ''-'' @ mid" and "appName b = name"
    and "appNamespace b' = ns" and "appName b' = mid @ ''-'' @ name"
  shows "rootNamespace b = rootNamespace b' \<and>
    RemoveNamespace (rootNamespace b') \<in> set (snd (run_state (ensureDeleted R b) l))"
proof -
  have eq: "rootNamespace b = rootNamespace b'"
    using assms by (simp add: rootNamespace_eq)
  then show ?thesis
    using ensureDeleted_removes[of b R l] unfolding eq by blast
qed

lemma root_namespaces_collide_example:
  "RemoveNamespace (rootNamespace (sampleApp ''a'' ''b-c'')) \<in>
     set (snd (run_state (ensureDeleted emptyControlPlane (sampleApp ''a-b'' ''c'')) []))"
  using root_namespaces_collide[of "sampleApp ''a-b'' ''c''" "''a''" "''b''" "''c''" "sampleApp ''a'' ''b-c''"]
  by (simp add: appNamespace_def appName_def sampleApp_def namedMeta_def)

text \<open>The container overrides lose exactly their empty values. A value that is not an object is
  at a path of the cleaned overrides if and only if it was there before and is not empty, no empty value is left below any
  object, and cleaning again changes nothing.\<close>

lemma overrides_cleaned:
  assumes "\<forall>m s. marshal m = Inr s \<longrightarrow> unmarshal s = Inr m" and "unmarshal data = Inr raw"
    and "removeEmptyFields unmarshal marshal data = Inr out"
  shows "unmarshal out = Inr (cleanMap raw) \<and> cleanMap (cleanMap raw) = cleanMap raw \<and>
    (\<forall>k w. fmlookup (cleanMap raw) k = Some w \<longrightarrow> noEmptyFields w) \<and>
    (\<forall>k ks v. \<not> isObject v \<longrightarrow>
       valueAt (k # ks) (JObj (cleanMap raw)) = Some v \<longleftrightarrow> valueAt (k # ks) (JObj raw) = Some v \<and> \<not> isEmptyValue v)"
proof (intro conjI)
  show "unmarshal out = Inr (cleanMap raw)"
    using assms by (auto simp: removeEmptyFields_def)
  show "cleanMap (cleanMap raw) = cleanMap raw"
    by (rule cleanMap_clean)
  show "\<forall>k w. fmlookup (cleanMap raw) k = Some w \<longrightarrow> noEmptyFields w"
    by (auto simp: lookup_cleanMap bind_eq_Some_conv cleanValue_noEmpty)
  show "\<forall>k ks v. \<not> isObject v \<longrightarrow>
      valueAt (k # ks) (JObj (cleanMap raw)) = Some v \<longleftrightarrow> valueAt (k # ks) (JObj raw) = Some v \<and> \<not> isEmptyValue v"
    using valueAt_cleanMap by blast
qed

definition sampleOverrides :: "(string, json) fmap" where
  "sampleOverrides = fmupd ''image'' (JStr ''i'') (fmupd ''stdin'' (JBool False) fmempty)"

lemma overrides_cleaned_example:
  "valueAt [''image''] (JObj (cleanMap sampleOverrides)) = Some (JStr ''i'') \<and>
   valueAt [''stdin''] (JObj (cleanMap sampleOverrides)) \<noteq> Some (JBool False)"
proof -
  let ?un = "\<lambda>s. if s = ''raw'' then Inr sampleOverrides else if s = ''clean'' then Inr (cleanMap sampleOverrides) else Inl notFound"
  let ?ma = "\<lambda>m. if m = cleanMap sampleOverrides then Inr ''clean'' else Inl notFound"
  have "\<forall>m s. ?ma m = Inr s \<longrightarrow> ?un s = Inr m" "?un ''raw'' = Inr sampleOverrides"
      "removeEmptyFields ?un ?ma ''raw'' = Inr ''clean''"
    by (auto simp: removeEmptyFields_def)
  note * = overrides_cleaned[OF this, THEN conjunct2, THEN conjunct2, THEN conjunct2, rule_format]
  show ?thesis
    using *[of "JStr ''i''" "''image''" "[]"] *[of "JBool False" "''stdin''" "[]"]
    by (simp add: sampleOverrides_def)
qed

section \<open>Access of a consumer\<close>

definition sampleAccess :: "string \<Rightarrow> access_reconciler" where
  "sampleAccess scope =
     \<lparr>ar_scope = scope, ar_getNamespace = (\<lambda>l n. Inr (namedMeta n)), ar_createNamespace = (\<lambda>l m. None),
      ar_deleteNamespace = (\<lambda>l n. None), ar_listServiceExports = (\<lambda>l n. Inr [sampleExport]),
      ar_getClusterRole = (\<lambda>l n. Inl notFound), ar_createClusterRole = (\<lambda>l r. None),
      ar_updateClusterRole = (\<lambda>l r. None), ar_getClusterRoleBinding = (\<lambda>l n. Inl notFound),
      ar_createClusterRoleBinding = (\<lambda>l r. None), ar_updateClusterRoleBinding = (\<lambda>l r. None),
      ar_deleteClusterRoleBinding = (\<lambda>l n. None), ar_getRoleBinding = (\<lambda>l ns n. Inl notFound),
      ar_createRoleBinding = (\<lambda>l ns r. None), ar_updateRoleBinding = (\<lambda>l ns r. None),
      ar_durationString = (\<lambda>d. ''d''), ar_timeString = (\<lambda>t. ''t'')\<rparr>"

text \<open>C18: in one run on a ClusterBinding, every role binding that is written names the service account of this consumer
  and nobody else, and a cluster role that is written allows the exported and the claimed resources of
  the exports that were listed in the namespace of the binding, and nothing else.\<close>

theorem access_grants_only_consumer:
  assumes "access_reconcile R now l b = (errs, b', l @ cs)"
  shows "grantsOnly (bindingNamespace b) cs \<and>
    (\<forall>role. CreateClusterRole role \<in> set cs \<or> UpdateClusterRole role \<in> set cs \<longrightarrow>
      (\<exists>k exports. ar_listServiceExports R k (bindingNamespace b) = Inr exports \<and>
         ro_Rules role = map exportRule (concat (map exportedResources exports))))"
proof (intro conjI)
  show "grantsOnly (bindingNamespace b) cs"
    using access_grantsOnly[OF assms] by auto
  let ?b = "ensureClusterBindingConditions R now b"
  let ?ok = "\<lambda>c. \<forall>role. c = CreateClusterRole role \<or> c = UpdateClusterRole role \<longrightarrow>
      (\<exists>k exports. ar_listServiceExports R k (bindingNamespace b) = Inr exports \<and> ro_Rules role = exportRules exports)"
  have 1: "\<exists>cs. snd (ensureRBACRoleBinding R k ?b) = k @ cs \<and> list_all ?ok cs" for k
    by (simp add: access_steps Let_def written_def split: sum.splits if_splits option.splits)
  have 2: "\<exists>cs. snd (ensureRBACClusterRoleBinding R k ?b) = k @ cs \<and> list_all ?ok cs" for k
    by (simp add: access_steps Let_def written_def split: sum.splits if_splits option.splits)
  have 3: "\<exists>cs. snd (ensureRBACClusterRole R k ?b) = k @ cs \<and> list_all ?ok cs" for k
    by (simp add: access_steps Let_def written_def split: sum.splits if_splits option.splits) blast
  obtain e2 l2 where s2: "ensureRBACRoleBinding R l ?b = (e2, l2)" by force
  obtain e3 l3 where s3: "ensureRBACClusterRole R l2 ?b = (e3, l3)" by force
  obtain e4 l4 where s4: "ensureRBACClusterRoleBinding R l3 ?b = (e4, l4)" by force
  have "l @ cs = l4"
    using assms by (simp add: access_reconcile_def Let_def s2 s3 s4)
  then have "list_all ?ok cs"
    using 1[of l] 3[of l2] 2[of l3] by (auto simp: s2 s3 s4)
  then show "\<forall>role. CreateClusterRole role \<in> set cs \<or> UpdateClusterRole role \<in> set cs \<longrightarrow>
      (\<exists>k exports. ar_listServiceExports R k (bindingNamespace b) = Inr exports \<and>
         ro_Rules role = map exportRule (concat (map exportedResources exports)))"
    by (auto simp: list_all_iff exportRules_eq)
qed

lemma sampleAccess_run:
  "\<exists>errs b' cs role. access_reconcile (sampleAccess ''Cluster'') 7 [] sampleCluster = (errs, b', [] @ cs) \<and>
     CreateClusterRole role \<in> set cs"
  by (auto simp: access_reconcile_def access_steps sampleAccess_def written_def klutch_defs Let_def ClusterScope_def)

theorem access_grants_only_consumer_witness:
  "\<exists>errs b' cs role. access_reconcile (sampleAccess ''Cluster'') 7 [] sampleCluster = (errs, b', cs) \<and>
     CreateClusterRole role \<in> set cs \<and> ro_Rules role = [exportRule (''g'', ''pgs'')]"
proof -
  obtain errs b' cs role
    where run: "access_reconcile (sampleAccess ''Cluster'') 7 [] sampleCluster = (errs, b', [] @ cs)"
      and c: "CreateClusterRole role \<in> set cs"
    using sampleAccess_run by blast
  have "ro_Rules role = [exportRule (''g'', ''pgs'')]"
    using access_grants_only_consumer[OF run] c
    by (auto simp: sampleAccess_def exportedResources_def sampleExport_def)
  then show ?thesis
    using run c by auto
qed

text \<open>In a scope other than Cluster the ClusterRoleBinding of a consumer is deleted, but the step does not return
  there: when the binding was not found, which is the normal case, the step ends by creating the cluster-wide binding
  that it is meant to take away.\<close>

lemma namespaced_scope_keeps_cluster_binding:
  assumes "ar_scope R \<noteq> ClusterScope" and "name = clusterRoleName (bindingNamespace b)"
    and "ar_getClusterRoleBinding R l name = Inl e" and "IsNotFound e"
    and "ar_deleteClusterRoleBinding R (l @ [GetClusterRoleBinding name]) name = deletion"
    and "deletion = None \<or> (\<exists>e'. deletion = Some e' \<and> IsNotFound e')"
    and "\<forall>k. \<exists>nsObj. ar_getNamespace R k (bindingNamespace b) = Inr nsObj"
  shows "\<exists>k rb. snd (ensureRBACClusterRoleBinding R l b) = k @ [CreateClusterRoleBinding rb] \<and>
           om_Name (rb_Meta rb) = name \<and> rb_Subjects rb = [binderSubject (bindingNamespace b)] \<and>
           rb_RoleRef rb = clusterRoleRef name"
  using assms(7)[rule_format, of "l @ [GetClusterRoleBinding name, DeleteClusterRoleBinding name]"] assms(1-6)
  by (auto simp: ensureRBACClusterRoleBinding_def written_def Let_def namedMeta_def)

lemma namespaced_scope_keeps_cluster_binding_example:
  "\<exists>k rb. snd (ensureRBACClusterRoleBinding (sampleAccess ''Namespaced'') [] sampleCluster) = k @ [CreateClusterRoleBinding rb] \<and>
     rb_Subjects rb = [binderSubject '''']"
  using namespaced_scope_keeps_cluster_binding[of "sampleAccess ''Namespaced''" _ sampleCluster "[]" notFound]
  by (simp add: sampleAccess_def ClusterScope_def bindingNamespace_def sampleCluster_def namedMeta_def) blast

lemma cluster_distinct:
  assumes "cluster_reconcile R now b = (errs, b', w)" and "distinctTypes (cbGet b)"
  shows "distinctTypes (cbGet b')"
proof -
  define s where "s = (if \<not> cr_controlPlaneMode R then ensureConsumerSecret R now b else (None, b, []))"
  obtain e b1 w1 where e: "s = (e, b1, w1)" by (cases s)
  have "distinctTypes (cbGet b1)"
    using consumerSecret_frame(1)[OF _ assms(2)] e assms(2) by (auto simp: s_def split: if_splits)
  then have "distinctTypes (cbGet (ensureKonnectorVersion R now (ensureHeartbeat R now b1)))"
    by (intro ensureKonnectorVersion_marks(3)) simp
  then show ?thesis
    using assms(1) unfolding cluster_reconcile_def s_def[symmetric] e
    by (auto simp: SetSummary_def Let_def cb.distinctTypes_Set)
qed

text \<open>Right after the konnector has sent a heartbeat, and for the ten seconds after it, a reconcile of the
  ClusterBinding in the provider cluster does not report the consumer as healthy: a heartbeat less than ten
  seconds old is taken for a clock that is wrong.\<close>

lemma fresh_heartbeat_unhealthy:
  assumes "cluster_reconcile R now b = (errs, b', w)"
    and "IsZero (cb_LastHeartbeatTime b) \<or> now > cb_LastHeartbeatTime b + heartbeatInterval R sdiv 2"
    and "distinctTypes (GetConditions clusterBindingSetter b)"
    and "now \<le> later" and "later < now + 10 * second"
  shows "\<not> IsTrue clusterBindingSetter (fst (snd (access_reconcile A later l b'))) ClusterBindingConditionHealthy"
proof -
  have "cb_LastHeartbeatTime b' = now"
    using assms(1,2) heartbeat_secret
    by (fastforce simp: cluster_reconcile_def SetSummary_def ensureHeartbeat_def Let_def split: prod.splits if_splits)
  then have "Since later (cb_LastHeartbeatTime b') < 10 * second"
    using assms(4,5) by (simp add: Since_def)
  then show ?thesis
    using access_Healthy[OF cluster_distinct[OF assms(1,3)]] by (simp add: heartbeatInTime_def)
qed

lemma fresh_heartbeat_unhealthy_example:
  "\<exists>errs b' w. cluster_reconcile sampleClusterReconciler 100 sampleCluster = (errs, b', w) \<and>
     \<not> IsTrue clusterBindingSetter (fst (snd (access_reconcile (sampleAccess ''Cluster'') (100 + 5 * second) [] b')))
         ClusterBindingConditionHealthy"
proof -
  obtain errs b' w where run: "cluster_reconcile sampleClusterReconciler 100 sampleCluster = (errs, b', w)"
    by (metis prod_cases3)
  have "IsZero (cb_LastHeartbeatTime sampleCluster)" "0 < second"
    by (simp_all add: sampleCluster_def IsZero_def second_def)
  then show ?thesis
    using fresh_heartbeat_unhealthy[OF run _ sample_distinct(1), of "100 + 5 * second"] run by auto
qed

section \<open>Exports and requests\<close>

text \<open>C20: an export follows its CRD in two runs and then rests. While the CRD stays as it is, the first run stores its
  schema and queues the export once more if the stored hash differs; the second run queues nothing, marks the export in
  sync and leaves the schema of the CRD with its hash.\<close>

theorem export_follows_crd:
  assumes "\<forall>k. eb_getCRD R k (om_Name (ex_Meta e)) = Inr crd" and "CRDToServiceExport (eb_marshal R) crd = Inr spec"
    and "distinctTypes (GetConditions serviceExportSetter e)" and "storedHash e \<noteq> specHash R spec"
    and "bex_reconcile R t1 l e = (errs1, e1, l1)" and "bex_reconcile R t2 l1 e1 = (errs2, e2, l2)"
  shows "errs1 = [] \<and> l1 = l @ [ReadCRD (om_Name (ex_Meta e)), RequeueExport (om_Namespace (ex_Meta e)) (om_Name (ex_Meta e))] \<and>
    errs2 = [] \<and> l2 = l1 @ [ReadCRD (om_Name (ex_Meta e))] \<and>
    ex_Spec e2 = spec \<and> storedHash e2 = specHash R spec \<and>
    IsTrue serviceExportSetter e2 APIServiceExportConditionProviderInSync"
proof -
  have e1: "e1 = withSpec spec (specHash R spec) e" and first: "errs1 = []"
    "l1 = l @ [ReadCRD (om_Name (ex_Meta e)), RequeueExport (om_Namespace (ex_Meta e)) (om_Name (ex_Meta e))]"
    using assms(5) ensureSchema_settles(1)[OF _ assms(2,4), of l t1] assms(1)
    by (auto simp: bex_reconcile_def withSpec_def)
  have s2: "ensureSchema R t2 l1 e1 = ((None, False), MarkTrue serviceExportSetter t2 e1 APIServiceExportConditionProviderInSync,
      l1 @ [ReadCRD (om_Name (ex_Meta e1))])"
    using assms(1) by (intro ensureSchema_settles(2)[OF _ assms(2)]) (simp_all add: e1)
  then have e2: "e2 = MarkTrue serviceExportSetter t2 e1 APIServiceExportConditionProviderInSync"
    and second: "errs2 = []" "l2 = l1 @ [ReadCRD (om_Name (ex_Meta e))]"
    using assms(6) by (auto simp: bex_reconcile_def e1)
  have "r_Spec (serviceExportResource e2) = r_Spec (serviceExportResource e1)"
      "r_Meta (serviceExportResource e2) = r_Meta (serviceExportResource e1)"
    unfolding e2 by (simp_all add: mark_defs)
  then have kept: "ex_Spec e2 = spec" "storedHash e2 = specHash R spec"
    by (simp_all add: serviceExportResource_def e1 storedHash_def) (simp_all add: withSpec_def)
  have "distinctTypes (GetConditions serviceExportSetter e1)"
    using assms(3) by (simp add: e1 serviceExportSetter_def)
  then have "IsTrue serviceExportSetter e2 APIServiceExportConditionProviderInSync"
    unfolding e2 by (rule ex.IsTrue_MarkTrue)
  with first second kept show ?thesis by blast
qed

definition sampleBackend :: export_backend where
  "sampleBackend =
     \<lparr>eb_informerScope = ''Cluster'', eb_clusterScopedIsolation = ''Prefixed'', eb_getCRD = (\<lambda>l n. Inr sampleCRD),
      eb_getServiceExport = (\<lambda>l ns n. Inl notFound), eb_templates = (\<lambda>l. Inr [sampleTemplate]),
      eb_createServiceExport = (\<lambda>l e. None), eb_deleteServiceExport = (\<lambda>l ns n. None),
      eb_deleteServiceExportRequest = (\<lambda>l ns n. None), eb_marshal = (\<lambda>j. Inr ''s''), eb_marshalSpec = (\<lambda>s. Inr ''s''),
      eb_sum224 = (\<lambda>s. [1])\<rparr>"

lemma sampleCRD_converts: "\<exists>spec. CRDToServiceExport (eb_marshal sampleBackend) sampleCRD = Inr spec"
  by (simp add: CRDToServiceExport_def versionFromCRD_def sampleCRD_def sampleBackend_def)

theorem export_follows_crd_witness:
  "\<exists>e1 l1 e2 l2. bex_reconcile sampleBackend 7 [] sampleExport = ([], e1, l1) \<and>
     bex_reconcile sampleBackend 8 l1 e1 = ([], e2, l2) \<and> l2 = l1 @ [ReadCRD ''pg''] \<and>
     IsTrue serviceExportSetter e2 APIServiceExportConditionProviderInSync"
proof -
  obtain spec where spec: "CRDToServiceExport (eb_marshal sampleBackend) sampleCRD = Inr spec"
    using sampleCRD_converts by blast
  obtain errs1 e1 l1 where r1: "bex_reconcile sampleBackend 7 [] sampleExport = (errs1, e1, l1)" by (metis prod_cases3)
  obtain errs2 e2 l2 where r2: "bex_reconcile sampleBackend 8 l1 e1 = (errs2, e2, l2)" by (metis prod_cases3)
  have crd: "\<forall>k. eb_getCRD sampleBackend k (om_Name (ex_Meta sampleExport)) = Inr sampleCRD"
    by (simp add: sampleBackend_def)
  have h: "storedHash sampleExport \<noteq> specHash sampleBackend spec"
    by (simp add: storedHash_def sampleExport_def namedMeta_def specHash_def APIServiceExportCRDSpecHash_def sampleBackend_def
        toSha224Base62_def toBase62_def setBytes_def text62.simps)
  note * = export_follows_crd[OF crd spec sample_distinct(3) h r1 r2]
  show ?thesis
    using r1 r2 * by (simp add: sampleExport_def namedMeta_def)
qed

text \<open>A request only creates exports that the provider has a template for: each export that a run creates
  copies the CRD of a requested resource and takes its permission claims from the template of that resource,
  and a request that a run turns from Pending to Succeeded has every requested export found or created.\<close>

lemma exports_only_from_templates:
  assumes "req_reconcile R now l req = (errs, req', l')"
  defines "ns \<equiv> om_Namespace (rq_Meta req)"
  shows "\<exists>cs. l' = l @ cs \<and> (\<forall>e. CreateServiceExport e \<in> set cs \<longrightarrow>
           (\<exists>res \<in> set (rq_Resources req). fromTemplate R ns res e)) \<and>
         (rq_Phase req = APIServiceExportRequestPhasePending \<and> rq_Phase req' = APIServiceExportRequestPhaseSucceeded \<longrightarrow>
           (\<forall>res \<in> set (rq_Resources req). available R ns l' res))"
proof -
  obtain fin r1 l1 where lo: "exportLoop R now l req (rq_Resources req) = (fin, r1, l1)" by (cases rule: prod_cases3)
  note calls = exportLoop_calls[OF lo, folded ns_def]
  have pending: "l' = l1" if "rq_Phase req = APIServiceExportRequestPhasePending"
    using assms(1) that lo
    by (auto simp: req_reconcile_def ensureExports_def split: loop_end.splits if_splits)
  have other: "\<exists>cs. l' = l @ cs \<and> (\<forall>e. CreateServiceExport e \<notin> set cs)"
    if "rq_Phase req \<noteq> APIServiceExportRequestPhasePending"
    using assms(1) that by (auto simp: req_reconcile_def ensureExports_def Let_def split: if_splits)
  have 1: "\<exists>cs. l' = l @ cs \<and> (\<forall>e. CreateServiceExport e \<in> set cs \<longrightarrow>
           (\<exists>res \<in> set (rq_Resources req). fromTemplate R ns res e))"
    using calls pending other by (cases "rq_Phase req = APIServiceExportRequestPhasePending") blast+
  have 2: "\<forall>res \<in> set (rq_Resources req). available R ns l' res"
    if p: "rq_Phase req = APIServiceExportRequestPhasePending"
      and s: "rq_Phase req' = APIServiceExportRequestPhaseSucceeded"
  proof -
    have "rq_Phase r1 = APIServiceExportRequestPhasePending"
      using exportLoop_frame(1)[OF lo] p by simp
    then have "fin = LoopDone"
      using assms(1) p s lo
      by (cases fin) (auto simp: req_reconcile_def ensureExports_def SetSummary_def Let_def klutch_defs split: if_splits)
    then show ?thesis
      using calls pending[OF p] by blast
  qed
  from 1 2 show ?thesis by blast
qed

definition sampleRequest :: APIServiceExportRequest where
  "sampleRequest =
     \<lparr>rq_Kind = ''APIServiceExportRequest'', rq_Meta = (namedMeta ''r'')\<lparr>om_Namespace := ''ns''\<rparr>, rq_CreationTimestamp = 1,
      rq_Parameters = None,
      rq_Resources = [\<lparr>gr_Group = ''g'', gr_Resource = ''pgs'', rr_Versions = [], rr_PermissionClaims = []\<rparr>],
      rq_Phase = ''Pending'', rq_TerminalMessage = '''', rq_Conditions = []\<rparr>"

lemma sampleRequest_phase:
  "\<exists>req' l'. req_reconcile sampleBackend 7 [] sampleRequest = ([], req', l') \<and>
     rq_Phase req' = APIServiceExportRequestPhaseSucceeded"
proof -
  obtain spec where spec: "CRDToServiceExport (\<lambda>j. Inr ''s'') sampleCRD = Inr spec"
    using sampleCRD_converts by (auto simp: sampleBackend_def)
  show ?thesis
    by (simp add: req_reconcile_def ensureExports_def sampleRequest_def exportResource_def sampleBackend_def spec
        TemplateFor_def sampleTemplate_def SetSummary_def klutch_defs errList_def Let_def)
qed

lemma exports_only_from_templates_example:
  "\<exists>req' l'. req_reconcile sampleBackend 7 [] sampleRequest = ([], req', l') \<and>
     (\<forall>res \<in> set (rq_Resources sampleRequest). available sampleBackend ''ns'' l' res)"
proof -
  obtain req' l' where run: "req_reconcile sampleBackend 7 [] sampleRequest = ([], req', l')"
      and s: "rq_Phase req' = APIServiceExportRequestPhaseSucceeded"
    using sampleRequest_phase by blast
  have "rq_Phase sampleRequest = APIServiceExportRequestPhasePending"
    by (simp add: sampleRequest_def klutch_defs)
  with exports_only_from_templates[OF run] s run show ?thesis
    by (simp add: sampleRequest_def)
qed

text \<open>Runs of the request controller at the given times, each on what the one before left: their errors and the
  request at the end.\<close>

fun requestRuns ::
  "export_backend \<Rightarrow> time list \<Rightarrow> export_calls \<Rightarrow> APIServiceExportRequest \<Rightarrow> apierr list list \<times> APIServiceExportRequest" where
  "requestRuns R [] l req = ([], req)"
| "requestRuns R (now # ts) l req =
     (let (errs, req1, l1) = req_reconcile R now l req; (ess, req2) = requestRuns R ts l1 req1 in (errs # ess, req2))"

lemma requestRuns_settled:
  "requestRuns R ts l req = (ess, req') \<Longrightarrow> settled req \<Longrightarrow> rq_Phase req' = rq_Phase req"
proof (induction R ts l req arbitrary: ess req' rule: requestRuns.induct)
  case (2 R now ts l req)
  obtain errs req1 l1 where r: "req_reconcile R now l req = (errs, req1, l1)" by (cases rule: prod_cases3)
  obtain ess2 req2 where r2: "requestRuns R ts l1 req1 = (ess2, req2)" by force
  have "rq_Phase req1 = rq_Phase req"
    using request_phase(1)[OF r] "2.prems"(2) by simp
  then show ?case
    using "2.IH"[OF r[symmetric] refl refl r2] "2.prems" by (auto simp: r r2 settled_def)
qed simp

text \<open>C19: a pending request does not stay pending. Over any sequence of runs, one run that is more than a minute after
  the creation of the request and reports no error is enough: from then on the request is
  Succeeded or Failed, and later runs leave that as it is.\<close>

theorem request_settles:
  assumes "requestRuns R ts l req = (ess, req')" and "rq_Phase req = APIServiceExportRequestPhasePending"
    and "i < length ts" and "ess ! i = []" and "Since (ts ! i) (rq_CreationTimestamp req) > 60 * second"
  shows "rq_Phase req' \<in> {APIServiceExportRequestPhaseSucceeded, APIServiceExportRequestPhaseFailed}"
  using assms
proof (induction ts arbitrary: i l req ess)
  case (Cons now ts)
  obtain errs req1 l1 where r: "req_reconcile R now l req = (errs, req1, l1)" by (cases rule: prod_cases3)
  obtain ess2 where r2: "requestRuns R ts l1 req1 = (ess2, req')" and ess: "ess = errs # ess2"
    using Cons.prems(1) by (auto simp: r split: prod.splits)
  note ph = request_phase(2-4)[OF r]
  show ?case
  proof (cases "settled req1")
    case True
    then show ?thesis
      using requestRuns_settled[OF r2 True] ph(1) Cons.prems(2) by (auto simp: settled_def)
  next
    case False
    then obtain j where j: "i = Suc j"
      using ph(2) Cons.prems(4,5) ess by (cases i) auto
    show ?thesis
      using Cons.IH[OF r2, of j] False ph(3) Cons.prems(3-5) ess by (simp add: j settled_def)
  qed
qed simp

theorem request_settles_witness:
  "\<exists>ess req'. requestRuns sampleBackend [100 * second] [] sampleRequest = (ess, req') \<and>
     rq_Phase req' \<in> {APIServiceExportRequestPhaseSucceeded, APIServiceExportRequestPhaseFailed}"
proof -
  obtain spec where spec: "CRDToServiceExport (\<lambda>j. Inr ''s'') sampleCRD = Inr spec"
    using sampleCRD_converts by (auto simp: sampleBackend_def)
  obtain ess req' where run: "requestRuns sampleBackend [100 * second] [] sampleRequest = (ess, req')" by force
  have "ess ! 0 = []"
    using run by (auto simp: req_reconcile_def ensureExports_def sampleRequest_def exportResource_def sampleBackend_def spec
        TemplateFor_def sampleTemplate_def klutch_defs errList_def Let_def)
  with request_settles[OF run, of 0] run show ?thesis
    by (simp add: sampleRequest_def klutch_defs second_def Since_def)
qed

text \<open>A request for a resource without a template is the exception. The lookup of the template is an error, not a
  failure of the request, so that every run reports an error and the request stays Pending, however
  long it exists.\<close>

lemma missing_template_retried_forever:
  assumes "requestRuns R ts l req = (ess, req')" and "rq_Phase req = APIServiceExportRequestPhasePending"
    and "rq_Resources req = res # rest" and "\<forall>k. eb_getCRD R k (resourceName res) = Inr crd"
    and "\<forall>k. \<exists>e. eb_getServiceExport R k (om_Namespace (rq_Meta req)) (resourceName res) = Inl e \<and> IsNotFound e"
    and "\<forall>k. \<exists>e. TemplateFor (eb_templates R k) (gr_Group res) (gr_Resource res) = Inl e"
  shows "rq_Phase req' = APIServiceExportRequestPhasePending \<and> (\<forall>errs \<in> set ess. errs \<noteq> [])"
  using assms
proof (induction ts arbitrary: l req ess)
  case (Cons now ts)
  obtain e where x: "eb_getServiceExport R (l @ [ReadCRD (resourceName res)]) (om_Namespace (rq_Meta req)) (resourceName res) = Inl e"
      "IsNotFound e"
    using Cons.prems(5) by blast
  obtain e' l1 where run: "exportResource R now l req res = (Some (LoopError e'), req, l1)"
    using Cons.prems(6)[rule_format, of "l @ [ReadCRD (resourceName res), ReadServiceExport (om_Namespace (rq_Meta req)) (resourceName res)]"]
      Cons.prems(4) x by (auto simp: exportResource_def Let_def)
  then have r: "req_reconcile R now l req = ([e'], SetSummary requestSetter now req [], l1)"
    using Cons.prems(2,3) by (simp add: req_reconcile_def ensureExports_def errList_def)
  obtain ess2 where r2: "requestRuns R ts l1 (SetSummary requestSetter now req []) = (ess2, req')" "ess = [e'] # ess2"
    using Cons.prems(1) by (auto simp: r split: prod.splits)
  show ?case
    using Cons.IH[OF r2(1)] Cons.prems(2-6) r2(2) by (simp add: SetSummary_def)
qed simp

lemma missing_template_retried_forever_example:
  "rq_Phase (snd (requestRuns (sampleBackend\<lparr>eb_templates := \<lambda>l. Inr []\<rparr>) [7, 1000 * second] [] sampleRequest)) =
     APIServiceExportRequestPhasePending"
proof -
  let ?R = "sampleBackend\<lparr>eb_templates := \<lambda>l. Inr []\<rparr>"
  obtain ess req' where run: "requestRuns ?R [7, 1000 * second] [] sampleRequest = (ess, req')" by force
  have "rq_Phase req' = APIServiceExportRequestPhasePending \<and> (\<forall>errs \<in> set ess. errs \<noteq> [])"
    by (rule missing_template_retried_forever[OF run, where res = "hd (rq_Resources sampleRequest)" and rest = "[]"
          and crd = sampleCRD])
      (simp_all add: sampleRequest_def sampleBackend_def klutch_defs TemplateFor_def)
  then show ?thesis using run by simp
qed

section \<open>A changed secret queues what depends on it\<close>

text \<open>References by name and namespace, as the API server admits them.\<close>

definition plainRef :: "ClusterSecretKeyRef \<Rightarrow> bool" where
  "plainRef r \<longleftrightarrow> plainName (ref_Namespace r) \<and> plainName (ref_Name r)"

lemma plain_key_parts:
  assumes "plainName x"
  shows "takeWhile (\<lambda>c. c \<noteq> CHR ''/'') (x @ CHR ''/'' # y) = x"
    and "dropWhile (\<lambda>c. c \<noteq> CHR ''/'') (x @ CHR ''/'' # y) = CHR ''/'' # y"
proof -
  have "CHR ''/'' \<notin> set x"
    using assms by (simp add: plainName_def)
  then show "takeWhile (\<lambda>c. c \<noteq> CHR ''/'') (x @ CHR ''/'' # y) = x"
    and "dropWhile (\<lambda>c. c \<noteq> CHR ''/'') (x @ CHR ''/'' # y) = CHR ''/'' # y"
    by (induction x) auto
qed

lemma plain_key_eq:
  assumes "plainName a" and "plainName a'"
  shows "a @ CHR ''/'' # b = a' @ CHR ''/'' # b' \<longleftrightarrow> a = a' \<and> b = b'"
proof
  assume "a @ CHR ''/'' # b = a' @ CHR ''/'' # b'"
  from arg_cong[OF this, of "takeWhile (\<lambda>c. c \<noteq> CHR ''/'')"] arg_cong[OF this, of "dropWhile (\<lambda>c. c \<noteq> CHR ''/'')"]
  show "a = a' \<and> b = b'"
    unfolding plain_key_parts[OF assms(1)] plain_key_parts[OF assms(2)] by simp
qed simp

text \<open>When a secret changes, its key queues exactly the objects that name it as their kubeconfig, in the top-level
  controller and in the controller of the APIServiceBindings, and in the backend the AppClusterBindings.\<close>

lemma secret_change_queues_dependents:
  assumes "keysSplit K" and "indexes bindings ix" and "indexes apps ax" and "plainName ns" and "plainName name"
    and "\<forall>s \<in> bindings. plainRef (sb_KubeconfigSecretRef s)" and "\<forall>b \<in> apps. plainRef (ab_KubeconfigSecretRef b)"
  shows "set (konn_enqueueSecret K ix (metaKey K ns name)) =
      bindingKey K ` {s \<in> bindings. ref_Namespace (sb_KubeconfigSecretRef s) = ns \<and> ref_Name (sb_KubeconfigSecretRef s) = name} \<and>
    set (sb_enqueueConsumerSecret K ix (metaKey K ns name)) =
      bindingKey K ` {s \<in> bindings. ref_Namespace (sb_KubeconfigSecretRef s) = ns \<and> ref_Name (sb_KubeconfigSecretRef s) = name} \<and>
    set (app_enqueueSecret K ax (metaKey K ns name)) =
      (\<lambda>b. metaKey K (appNamespace b) (appName b)) `
        {b \<in> apps. ref_Namespace (ab_KubeconfigSecretRef b) = ns \<and> ref_Name (ab_KubeconfigSecretRef b) = name}"
proof (intro conjI)
  have key: "metaKey K ns name = ns @ ''/'' @ name" "splitMetaNamespaceKey K (metaKey K ns name) = Inr (ns, name)"
    using assms(1,4,5) unfolding keysSplit_def by blast+
  have "ns @ ''/'' @ name \<in> set (IndexServiceBindingByKubeconfigSecret s) \<longleftrightarrow>
      ref_Namespace (sb_KubeconfigSecretRef s) = ns \<and> ref_Name (sb_KubeconfigSecretRef s) = name" if "s \<in> bindings" for s
  proof -
    have "plainName (ref_Namespace (sb_KubeconfigSecretRef s))"
      using assms(6) that by (simp add: plainRef_def)
    from plain_key_eq[OF assms(4) this] show ?thesis
      by (simp add: IndexServiceBindingByKubeconfigSecret_def ByServiceBindingKubeconfigSecretKey_def eq_commute)
  qed
  then have b: "set (ix IndexServiceBindingByKubeconfigSecret (ns @ ''/'' @ name)) =
      {s \<in> bindings. ref_Namespace (sb_KubeconfigSecretRef s) = ns \<and> ref_Name (sb_KubeconfigSecretRef s) = name}"
    using assms(2) by (auto simp: indexes_def)
  then show "set (konn_enqueueSecret K ix (metaKey K ns name)) =
      bindingKey K ` {s \<in> bindings. ref_Namespace (sb_KubeconfigSecretRef s) = ns \<and> ref_Name (sb_KubeconfigSecretRef s) = name}"
    and "set (sb_enqueueConsumerSecret K ix (metaKey K ns name)) =
      bindingKey K ` {s \<in> bindings. ref_Namespace (sb_KubeconfigSecretRef s) = ns \<and> ref_Name (sb_KubeconfigSecretRef s) = name}"
    by (simp_all only: konn_enqueueSecret_def sb_enqueueConsumerSecret_def key key(2)[unfolded key(1)]
        sum.case prod.case set_map)
  have "ns @ ''/'' @ name \<in> set (indexAppClusterBindingByKubeconfigSecret a) \<longleftrightarrow>
      ref_Namespace (ab_KubeconfigSecretRef a) = ns \<and> ref_Name (ab_KubeconfigSecretRef a) = name" if "a \<in> apps" for a
  proof -
    have p: "plainName (ref_Namespace (ab_KubeconfigSecretRef a))" "plainName (ref_Name (ab_KubeconfigSecretRef a))"
      using assms(7) that by (auto simp: plainRef_def)
    then have "indexAppClusterBindingByKubeconfigSecret a =
        [ref_Namespace (ab_KubeconfigSecretRef a) @ ''/'' @ ref_Name (ab_KubeconfigSecretRef a)]"
      by (simp add: indexAppClusterBindingByKubeconfigSecret_def secretRef_def plainName_def)
    then show ?thesis
      using plain_key_eq[OF assms(4) p(1)] by (simp add: eq_commute)
  qed
  then have "set (ax indexAppClusterBindingByKubeconfigSecret (ns @ ''/'' @ name)) =
      {b \<in> apps. ref_Namespace (ab_KubeconfigSecretRef b) = ns \<and> ref_Name (ab_KubeconfigSecretRef b) = name}"
    using assms(3) by (auto simp: indexes_def)
  then show "set (app_enqueueSecret K ax (metaKey K ns name)) =
      (\<lambda>b. metaKey K (appNamespace b) (appName b)) `
        {b \<in> apps. ref_Namespace (ab_KubeconfigSecretRef b) = ns \<and> ref_Name (ab_KubeconfigSecretRef b) = name}"
    by (simp only: app_enqueueSecret_def key set_map)
qed

lemma sampleKeys_split: "keysSplit sampleKeys"
  by (simp add: keysSplit_def sampleKeys_def plain_key_parts)

definition listIndexer :: "'o list \<Rightarrow> 'o indexer" where
  "listIndexer items f key = filter (\<lambda>obj. key \<in> set (f obj)) items"

lemma listIndexer_indexes: "indexes (set items) (listIndexer items)"
  by (auto simp: indexes_def listIndexer_def)

lemma secret_change_queues_dependents_example:
  "set (konn_enqueueSecret sampleKeys (listIndexer [sampleBinding]) (metaKey sampleKeys ''klutch'' ''kubeconfig'')) =
     bindingKey sampleKeys ` {sampleBinding}"
proof -
  let ?apps = "[] :: AppClusterBinding list"
  have e: "{s \<in> set [sampleBinding]. ref_Namespace (sb_KubeconfigSecretRef s) = ''klutch'' \<and>
      ref_Name (sb_KubeconfigSecretRef s) = ''kubeconfig''} = {sampleBinding}"
    by (auto simp: sampleBinding_def)
  have p: "plainName ''klutch''" "plainName ''kubeconfig''" "\<forall>s \<in> set [sampleBinding]. plainRef (sb_KubeconfigSecretRef s)"
      "\<forall>b \<in> set ?apps. plainRef (ab_KubeconfigSecretRef b)"
    by (simp_all add: plainRef_def plainName_def sampleBinding_def)
  show ?thesis
    using secret_change_queues_dependents[OF sampleKeys_split listIndexer_indexes listIndexer_indexes p]
    unfolding e by blast
qed

end
