(* ===== verification/Broker_Setup.thy ===== *)
theory Broker_Setup
  imports Backup_Manager Broker_Client "HOL-Library.Word"
begin

text \<open>
  The set-up of the Open Service Broker client and its operations that no controller calls
  (\<open>clients/a9s-open-service-broker\<close>), and the factory of the provider (\<open>provider-anynines/pkg/client/osb\<close>).

  \<^item> \<open>osb_configuration\<close> is \<open>ClientConfiguration\<close>. The TLS configuration of a transport is the record \<open>bm_tls\<close>, as for
    the Backup Manager client; a certificate pool is the text of the certificates that it was filled
    with, and the empty text is the empty pool, which trusts nobody.
  \<^item> \<open>osb_library\<close> has what the client takes from elsewhere: the transport that a timeout and a TLS configuration give,
    the parser of \<open>x509\<close>, the expiry of the catalog cache for a time to live, and in \<open>ol_functions\<close> the remaining
    fields of the model's client (decoders, encoders).
  \<^item> \<open>time.Duration\<close> is an \<open>int64\<close>: the delay of a polling response is computed on 64-bit words.
  \<^item> \<open>errorText\<close> is the method \<open>Error\<close> of the error types, as \<open>fmt\<close> and the health check call it.

  The lemmas show what the TLS configuration of a client is, when its creation fails, how far the delay is exact, and
  what an availability check sends.
\<close>

section \<open>The text of an error\<close>

text \<open>\<open>%v\<close> of a value whose method panics: \<open>fmt\<close> recovers and says so.\<close>

definition panicText :: string where
  "panicText = ''%!v(PANIC=Error method: runtime error: invalid memory address or nil pointer dereference)''"

fun osb_Error :: "go_err \<Rightarrow> string" where
  "osb_Error (OsbHTTP h) = httpErrorText h"
| "osb_Error (OperationStateError s) = Sprintf ''Operation is in failed state %q'' [FStr s]"
| "osb_Error (GetInstanceNotAllowed r) = Sprintf ''GetInstance not allowed: %s'' [FStr r]"
| "osb_Error (GetServiceInstanceNotAllowed r) = Sprintf ''GetServiceInstance not allowed: %s'' [FStr r]"
| "osb_Error (GetBindingNotAllowed r) = Sprintf ''GetBinding not allowed: %s'' [FStr r]"
| "osb_Error (AsyncBindingOperationsNotAllowed r) =
     Sprintf ''Asynchronous binding operations are not allowed: %s'' [FStr r]"
| "osb_Error (AvailabilityInvalidStatusError s) = Sprintf ''Received unexpected status %d'' [FInt s]"
| "osb_Error e = ''''"

text \<open>The formats of the errors of the Backup Manager client, which show their reason.\<close>

fun backup_ErrorFmt :: "go_err \<Rightarrow> string" where
  "backup_ErrorFmt (InstanceNotFoundError e) = ''instance not found: %s''"
| "backup_ErrorFmt (BackupNotFoundError e) = ''backup not found: %s''"
| "backup_ErrorFmt (BackupLockedError r) = ''backup is locked because it is currently being restored: %s''"
| "backup_ErrorFmt (BackupFileDeletionFailed r) = ''backup file could not be deleted: %s''"
| "backup_ErrorFmt (BackupNonRestorableState e) = ''backup is in a non-restorable state: %s''"
| "backup_ErrorFmt (BackupNotFound e) = ''backup not found: %s''"
| "backup_ErrorFmt (RestoreInProgress e) = ''restore already in progress: %s''"
| "backup_ErrorFmt e = ''''"

fun errorText :: "go_err \<Rightarrow> string" where
  "errorText (BackupHTTP h) = httpErrorText h"
| "errorText (InstanceNotFoundError e) = Sprintf (backup_ErrorFmt (InstanceNotFoundError e)) [FStr (errorText e)]"
| "errorText (BackupNotFoundError e) = Sprintf (backup_ErrorFmt (BackupNotFoundError e)) [FStr (errorText e)]"
| "errorText (BackupLockedError r) = Sprintf (backup_ErrorFmt (BackupLockedError r)) [FStr r]"
| "errorText (BackupFileDeletionFailed r) = Sprintf (backup_ErrorFmt (BackupFileDeletionFailed r)) [FStr r]"
| "errorText (BackupNonRestorableState e) =
     Sprintf (backup_ErrorFmt (BackupNonRestorableState e)) [FStr (errorText e)]"
| "errorText (BackupNotFound e) = Sprintf (backup_ErrorFmt (BackupNotFound e)) [FStr (errorText e)]"
| "errorText (RestoreInProgress e) = Sprintf (backup_ErrorFmt (RestoreInProgress e)) [FStr (errorText e)]"
| "errorText (UserError m cause) = (case cause of None \<Rightarrow> panicText | Some e \<Rightarrow> errorText e)"
| "errorText (PlainUserErr s) = s"
| "errorText (ErrServiceNameNotFound n) = ''no entry for the service name \"'' @ n @ ''\"''"
| "errorText (ErrPlanNameNotFound n) = ''no entry for the plan name \"'' @ n @ ''\"''"
| "errorText (Errorf p e) = Sprintf ''%s: %w'' [FStr p, FStr (errorText e)]"
| "errorText (ErrorString s) = s"
| "errorText e = osb_Error e"

section \<open>The configuration of the client\<close>

record osb_configuration =
  oc_Name :: string
  oc_URL :: string
  oc_APIVersion :: APIVersion
  oc_AuthConfig :: "AuthConfig option"
  oc_TLSConfig :: "bm_tls option"
  oc_Insecure :: bool
  oc_TimeoutSeconds :: int
  oc_CacheFreshnessSeconds :: "int option"
  oc_EnableAlphaFeatures :: bool
  oc_CAData :: string
  oc_OverrideServerName :: string
  oc_Verbose :: bool

definition osb_DefaultClientConfiguration :: osb_configuration where
  "osb_DefaultClientConfiguration =
     \<lparr>oc_Name = '''', oc_URL = '''', oc_APIVersion = LatestAPIVersion, oc_AuthConfig = None, oc_TLSConfig = None,
      oc_Insecure = False, oc_TimeoutSeconds = 300, oc_CacheFreshnessSeconds = None, oc_EnableAlphaFeatures = False,
      oc_CAData = '''', oc_OverrideServerName = '''', oc_Verbose = False\<rparr>"

record osb_library =
  ol_transport :: "int \<Rightarrow> bm_tls \<Rightarrow> http_request list \<Rightarrow> http_request \<Rightarrow> go_err + http_response"
  ol_parsesPEM :: "string \<Rightarrow> bool"
  ol_cacheExpired :: "int \<Rightarrow> http_world \<Rightarrow> bool"
  ol_functions :: client

definition emptyTLS :: bm_tls where
  "emptyTLS = \<lparr>tl_InsecureSkipVerify = False, tl_ServerName = '''', tl_RootCAs = None\<rparr>"

text \<open>The result of \<open>AppendCertsFromPEM\<close> is not looked at: a text without certificates adds none to the pool.\<close>

definition osb_tls :: "osb_library \<Rightarrow> osb_configuration \<Rightarrow> bm_tls" where
  "osb_tls L config =
     (let t0 = (case oc_TLSConfig config of None \<Rightarrow> emptyTLS | Some t \<Rightarrow> t);
          t1 = (if oc_Insecure config then t0\<lparr>tl_InsecureSkipVerify := True\<rparr> else t0);
          t2 = (if oc_OverrideServerName config \<noteq> '''' then t1\<lparr>tl_ServerName := oc_OverrideServerName config\<rparr> else t1)
      in if oc_CAData config \<noteq> ''''
         then t2\<lparr>tl_RootCAs := Some ((case tl_RootCAs t2 of None \<Rightarrow> '''' | Some pool \<Rightarrow> pool) @
                (if ol_parsesPEM L (oc_CAData config) then oc_CAData config else ''''))\<rparr>
         else t2)"

definition osb_NewClient :: "osb_library \<Rightarrow> osb_configuration \<Rightarrow> go_err + client" where
  "osb_NewClient L config =
     (let fresh = (case oc_CacheFreshnessSeconds config of None \<Rightarrow> 15 | Some s \<Rightarrow> s); tls = osb_tls L config in
      if fresh < 0
      then Inl (ErrorString ''the value of CacheFreshnessSeconds must not be a negative number'')
      else if tl_InsecureSkipVerify tls \<and> tl_RootCAs tls \<noteq> None
      then Inl (ErrorString ''cannot specify root CAs and to skip TLS verification'')
      else
        (let c = (ol_functions L)\<lparr>cl_URL := TrimRight (oc_URL config) (CHR ''/''), cl_APIVersion := oc_APIVersion config,
                  cl_EnableAlphaFeatures := oc_EnableAlphaFeatures config, cl_AuthConfig := None,
                  cl_hasCache := fresh \<noteq> 0, cl_cacheExpired := ol_cacheExpired L fresh,
                  cl_do := ol_transport L (oc_TimeoutSeconds config) tls\<rparr>
         in case oc_AuthConfig config of
              None \<Rightarrow> Inr c
            | Some a \<Rightarrow>
                (if ac_BasicAuthConfig a = None \<and> ac_BearerConfig a = None
                 then Inl (ErrorString ''non-nil AuthConfig cannot be empty'')
                 else if ac_BasicAuthConfig a \<noteq> None \<and> ac_BearerConfig a \<noteq> None
                 then Inl (ErrorString ''only one AuthConfig implementation must be set at a time'')
                 else Inr (c\<lparr>cl_AuthConfig := Some a\<rparr>))))"

definition osb_configurationWithTLS ::
  "string \<Rightarrow> string \<Rightarrow> string \<Rightarrow> bool \<Rightarrow> string \<Rightarrow> string \<Rightarrow> osb_configuration" where
  "osb_configurationWithTLS username password url insecureSkipVerify caBundle overrideServerName =
     osb_DefaultClientConfiguration
       \<lparr>oc_Name := ''OSBClient'', oc_URL := url, oc_Insecure := insecureSkipVerify,
        oc_OverrideServerName := overrideServerName, oc_CAData := caBundle,
        oc_AuthConfig := Some \<lparr>ac_BasicAuthConfig = Some (TrimSpace username, TrimSpace password),
                               ac_BearerConfig = None\<rparr>\<rparr>"

definition NewOsbServiceWithTLS ::
  "osb_library \<Rightarrow> string \<Rightarrow> string \<Rightarrow> string \<Rightarrow> bool \<Rightarrow> string \<Rightarrow> string \<Rightarrow> go_err + client" where
  "NewOsbServiceWithTLS L username password url insecureSkipVerify caBundle overrideServerName =
     osb_NewClient L (osb_configurationWithTLS username password url insecureSkipVerify caBundle overrideServerName)"

definition NewOsbService :: "osb_library \<Rightarrow> string \<Rightarrow> string \<Rightarrow> string \<Rightarrow> go_err + client" where
  "NewOsbService L username password url = NewOsbServiceWithTLS L username password url False '''' ''''"

section \<open>Availability, instances and polling\<close>

text \<open>The endpoint becomes part of the format.\<close>

definition prepareEndpointFmtOrDefault :: "string \<Rightarrow> string" where
  "prepareEndpointFmtOrDefault endpoint =
     (if endpoint = '''' then ''%s/instances'' else ''%s/'' @ TrimPrefix endpoint ''/'')"

definition osb_CheckAvailability :: "client \<Rightarrow> http_world \<Rightarrow> string \<Rightarrow> go_err option \<times> http_world" where
  "osb_CheckAvailability c w endpoint =
     (case prepareAndDo c w HEAD (Sprintf (prepareEndpointFmtOrDefault endpoint) [FStr (cl_URL c)]) None None None of
        (Inl e, w') \<Rightarrow> (Some e, w')
      | (Inr resp, w') \<Rightarrow>
          (if rs_StatusCode resp = 200 then None else Some (AvailabilityInvalidStatusError (rs_StatusCode resp)), w'))"

record GetInstancesResponse =
  gi_TotalResults :: int
  gi_TotalPages :: int
  gi_CurrentPage :: int
  gi_PrevURL :: json
  gi_NextURL :: json
  gi_Resources :: "GetInstanceResponse list"

definition GetInstances ::
  "(string \<Rightarrow> string + GetInstancesResponse) \<Rightarrow> client \<Rightarrow> http_world \<Rightarrow> GetInstancesResponse goptr \<times> http_world" where
  "GetInstances decode c w =
     (case validateClientVersionIsAtLeast c Version2_14 of
        Some e \<Rightarrow> ((None, Some (GetInstanceNotAllowed e)), w)
      | None \<Rightarrow> getAndDecode c w (Sprintf ''%s/instances'' [FStr (cl_URL c)]) None decode)"

record LastOperationRequest =
  lo_InstanceID :: string
  lo_ServiceID :: "string option"
  lo_PlanID :: "string option"
  lo_OperationKey :: "string option"
  lo_OriginatingIdentity :: "OriginatingIdentity option"

record BindingLastOperationRequest =
  bl_InstanceID :: string
  bl_BindingID :: string
  bl_ServiceID :: "string option"
  bl_PlanID :: "string option"
  bl_OperationKey :: "string option"
  bl_OriginatingIdentity :: "OriginatingIdentity option"

record LastOperationResponse =
  lr_State :: string
  lr_Description :: "string option"
  lr_PollDelay :: "64 word option"

definition optionalParam :: "string \<Rightarrow> string option \<Rightarrow> (string, string) fmap \<Rightarrow> (string, string) fmap" where
  "optionalParam key v m = (case v of None \<Rightarrow> m | Some x \<Rightarrow> fmupd key x m)"

definition pollParams ::
  "string option \<Rightarrow> string option \<Rightarrow> string option \<Rightarrow> (string, string) fmap" where
  "pollParams serviceID planID operation =
     optionalParam ''operation'' operation (optionalParam ''plan_id'' planID (optionalParam ''service_id'' serviceID fmempty))"

text \<open>\<open>time.Duration(delay) * time.Second\<close>\<close>

definition pollDuration :: "int \<Rightarrow> 64 word" where
  "pollDuration delay = word_of_int delay * word_of_int second"

text \<open>
  Both polling operations: one \<open>GET\<close>, and the delay of the header \<open>Retry-After\<close> (\<open>hdr\<close>), if alpha features are on and
  \<open>accepts\<close> takes it.
\<close>

definition poll ::
  "(string \<Rightarrow> string + LastOperationResponse) \<Rightarrow> (http_response \<Rightarrow> string) \<Rightarrow> (int \<Rightarrow> bool) \<Rightarrow> client \<Rightarrow> http_world \<Rightarrow>
   string \<Rightarrow> (string, string) fmap \<Rightarrow> OriginatingIdentity option \<Rightarrow> LastOperationResponse goptr \<times> http_world" where
  "poll decode hdr accepts c w url params ident =
     (case prepareAndDo c w GET url (Some params) None ident of
        (Inl e, w') \<Rightarrow> ((None, Some e), w')
      | (Inr resp, w') \<Rightarrow>
          (if rs_StatusCode resp = 200
           then case unmarshalResponse decode resp of
                  Inl e \<Rightarrow> ((None, Some (malformed resp e)), w')
                | Inr u \<Rightarrow>
                    ((Some (if cl_EnableAlphaFeatures c
                            then case Atoi (hdr resp) of
                                   None \<Rightarrow> u
                                 | Some d \<Rightarrow> if accepts d then u\<lparr>lr_PollDelay := Some (pollDuration d)\<rparr> else u
                            else u), None), w')
           else ((None, Some (handleFailureResponse c resp)), w')))"

definition PollLastOperation where
  "PollLastOperation decode hdr c w r =
     (if lo_InstanceID r = '''' then ((None, Some (required ''instanceID'')), w)
      else poll decode hdr (\<lambda>d. 0 < d) c w
             (Sprintf ''%s/v2/service_instances/%s/last_operation'' [FStr (cl_URL c), FStr (lo_InstanceID r)])
             (pollParams (lo_ServiceID r) (lo_PlanID r) (lo_OperationKey r)) (lo_OriginatingIdentity r))"

definition PollBindingLastOperation where
  "PollBindingLastOperation decode hdr c w r =
     (case validateClientVersionIsAtLeast c Version2_14 of
        Some e \<Rightarrow> ((None, Some (AsyncBindingOperationsNotAllowed e)), w)
      | None \<Rightarrow>
          (if bl_InstanceID r = '''' then ((None, Some (required ''instanceID'')), w)
           else if bl_BindingID r = '''' then ((None, Some (required ''bindingID'')), w)
           else poll decode hdr (\<lambda>d. True) c w
                  (Sprintf ''%s/v2/service_instances/%s/service_bindings/%s/last_operation''
                     [FStr (cl_URL c), FStr (bl_InstanceID r), FStr (bl_BindingID r)])
                  (pollParams (bl_ServiceID r) (bl_PlanID r) (bl_OperationKey r)) (bl_OriginatingIdentity r)))"

section \<open>What the set-up gives\<close>

lemma osb_tls_withTLS:
  "osb_tls L (osb_configurationWithTLS u p url insecure ca name) =
     \<lparr>tl_InsecureSkipVerify = insecure, tl_ServerName = name,
      tl_RootCAs = (if ca = '''' then None else Some (if ol_parsesPEM L ca then ca else ''''))\<rparr>"
  by (simp add: osb_tls_def osb_configurationWithTLS_def osb_DefaultClientConfiguration_def emptyTLS_def Let_def)

text \<open>The client that the factory builds.\<close>

definition osb_built :: "osb_library \<Rightarrow> string \<Rightarrow> string \<Rightarrow> string \<Rightarrow> bm_tls \<Rightarrow> client" where
  "osb_built L u p url tls =
     (ol_functions L)\<lparr>cl_URL := TrimRight url (CHR ''/''), cl_APIVersion := LatestAPIVersion,
        cl_EnableAlphaFeatures := False, cl_hasCache := True, cl_cacheExpired := ol_cacheExpired L 15,
        cl_do := ol_transport L 300 tls,
        cl_AuthConfig := Some \<lparr>ac_BasicAuthConfig = Some (TrimSpace u, TrimSpace p), ac_BearerConfig = None\<rparr>\<rparr>"

lemma NewOsbServiceWithTLS_eq:
  "NewOsbServiceWithTLS L u p url insecure ca name =
     (if insecure \<and> ca \<noteq> '''' then Inl (ErrorString ''cannot specify root CAs and to skip TLS verification'')
      else Inr (osb_built L u p url (osb_tls L (osb_configurationWithTLS u p url insecure ca name))))"
  by (simp add: NewOsbServiceWithTLS_def osb_NewClient_def osb_tls_withTLS osb_built_def Let_def)
    (simp add: osb_configurationWithTLS_def osb_DefaultClientConfiguration_def)

lemma osb_built_simps [simp]:
  "cl_do (osb_built L u p url tls) = ol_transport L 300 tls"
  "cl_URL (osb_built L u p url tls) = TrimRight url (CHR ''/'')"
  "cl_newRequest (osb_built L u p url tls) = cl_newRequest (ol_functions L)"
  "authorizationOf (cl_AuthConfig (osb_built L u p url tls)) = Some (BasicAuth (TrimSpace u) (TrimSpace p))"
  by (simp_all add: osb_built_def)

text \<open>What a check of the availability sends: one \<open>HEAD\<close>, to a URL that begins with that of the broker.\<close>

definition headRequest :: "client \<Rightarrow> string \<Rightarrow> http_request" where
  "headRequest c url = \<lparr>rq_Method = HEAD, rq_URL = url, rq_Params = None, rq_Body = None,
     rq_APIVersion = av_label (cl_APIVersion c), rq_ContentType = None,
     rq_Authorization = authorizationOf (cl_AuthConfig c), rq_OriginatingIdentity = None\<rparr>"

definition endpointURL :: "client \<Rightarrow> string \<Rightarrow> string" where
  "endpointURL c endpoint = Sprintf (prepareEndpointFmtOrDefault endpoint) [FStr (cl_URL c)]"

lemma osb_CheckAvailability_eq:
  assumes "cl_newRequest c (endpointURL c endpoint) = None"
  shows "osb_CheckAvailability c w endpoint =
    ((case cl_do c (hw_requests w) (headRequest c (endpointURL c endpoint)) of
        Inl e \<Rightarrow> Some e
      | Inr resp \<Rightarrow> if rs_StatusCode resp = 200 then None else Some (AvailabilityInvalidStatusError (rs_StatusCode resp))),
     w\<lparr>hw_requests := hw_requests w @ [headRequest c (endpointURL c endpoint)]\<rparr>)"
  using assms
  by (simp add: osb_CheckAvailability_def prepareAndDo_def identityHeader_def headRequest_def endpointURL_def Let_def
      split: sum.split)

lemma endpointURL_plain:
  assumes "CHR ''%'' \<notin> set endpoint"
  shows "endpointURL c endpoint =
    cl_URL c @ (if endpoint = '''' then ''/instances'' else ''/'' @ TrimPrefix endpoint ''/'')"
proof -
  have "CHR ''%'' \<notin> set (TrimPrefix endpoint ''/'')"
    using assms by (auto simp: TrimPrefix_def dest: in_set_dropD)
  then have "Sprintf (CHR ''/'' # TrimPrefix endpoint ''/'') [] = CHR ''/'' # TrimPrefix endpoint ''/''"
    by (intro Sprintf_noverb) simp
  then show ?thesis
    by (simp add: endpointURL_def prepareEndpointFmtOrDefault_def)
qed

text \<open>The delay of a polling response is exact as long as it fits into an \<open>int64\<close> of nanoseconds.\<close>

lemma pollDuration_exact:
  assumes "0 \<le> d" "d \<le> 9223372036"
  shows "sint (pollDuration d) = d * second"
proof -
  have "- (2 ^ 63) \<le> d * second" "d * second < 2 ^ 63"
    using assms by (simp_all add: second_def)
  then have "signed_take_bit 63 (d * second) = d * second"
    by (intro signed_take_bit_int_eq_self) simp_all
  then show ?thesis
    by (simp add: pollDuration_def wi_hom_mult sint_sbintrunc' del: of_int_mult)
qed

lemma pollDuration_wraps: "sint (pollDuration 9223372037) < 0"
  by (simp add: pollDuration_def second_def sint_sbintrunc' signed_take_bit_def take_bit_eq_mod bit_iff_odd
      flip: wi_hom_mult)

end
