(* ===== verification/Provider_Health.thy ===== *)
theory Provider_Health
  imports Broker_Setup Restore_Controller Binding_Controller
begin

text \<open>
  How the provider connects, and how it knows that a connection works: the ProviderConfig (\<open>apis/v1\<close>), the credentials
  (\<open>internal/controller/utils/credentials_helper.go\<close>), the factory of the Backup Manager client
  (\<open>pkg/client/backupmanager\<close>), the method \<open>Connect\<close> of the four controllers, the controller that checks the health of
  ProviderConfigs (\<open>internal/controller/confighealth\<close>) and the endpoint that reports it (\<open>pkg/healthz\<close>).

  \<^item> \<open>provider_kube\<close> has what the Kubernetes API and crossplane-runtime answer: ProviderConfigs, secrets, the extraction of
    a credential, the tracking of a usage and the patch of a status.
  \<^item> A byte slice is a string; the nil slice is the empty string, which every user of it treats alike.
  \<^item> \<open>health_world\<close> has the requests that were sent to brokers and to backup managers.
  \<^item> A managed resource is what \<open>Connect\<close> reads of it: whether it has the kind of the controller, and its reference to a
    ProviderConfig. A nil reference panics.
  \<^item> \<open>Reconcile\<close> returns when to come back, its error, the status it wrote and the events it recorded.

  The lemmas show which TLS configuration a ProviderConfig gives, where the two clients differ, and when the health is
  checked again.
\<close>

section \<open>The ProviderConfig\<close>

record SecretKeySelector =
  sk_Namespace :: string
  sk_Name :: string
  sk_Key :: string

record CommonCredentialSelectors =
  cs_Fs :: "string option"
  cs_Env :: "string option"
  cs_SecretRef :: "SecretKeySelector option"

record ProviderCredentials =
  pk_Source :: string
  pk_Username :: CommonCredentialSelectors
  pk_Password :: CommonCredentialSelectors

record ProviderConfigTLS =
  pt_InsecureSkipVerify :: bool
  pt_CABundleSecretRef :: "SecretKeySelector option"
  pt_OverrideServerName :: string

record ProviderConfigHealth =
  ph_LastCheckTime :: "time option"
  ph_LastStatus :: bool
  ph_LastMessage :: string

record ProviderConfig =
  pc_Name :: string
  pc_Url :: string
  pc_ServiceType :: string
  pc_HealthCheckEndpoint :: string
  pc_ProviderCredentials :: ProviderCredentials
  pc_TLS :: "ProviderConfigTLS option"
  pc_Health :: ProviderConfigHealth

definition ServiceTypeBackupManager :: string where
  [klutch_defs]: "ServiceTypeBackupManager = ''backupmanager''"

record provider_kube =
  kc_getProviderConfig :: "string \<Rightarrow> apierr + ProviderConfig"
  kc_listProviderConfigs :: "apierr + ProviderConfig list"
  kc_getSecret :: "string \<Rightarrow> string \<Rightarrow> apierr + (string, string) fmap"
  kc_extractCredential :: "string \<Rightarrow> CommonCredentialSelectors \<Rightarrow> go_err + string"
  kc_track :: "go_err option"
  kc_patchStatus :: "ProviderConfig \<Rightarrow> ProviderConfig \<Rightarrow> apierr option"

definition kubeError :: "apierr \<Rightarrow> go_err" where
  "kubeError e = ErrorString (error_text e)"

section \<open>Credentials\<close>

record Credentials =
  cr_Username :: string
  cr_Password :: string
  cr_CABundle :: string
  cr_InsecureSkipVerify :: bool
  cr_OverrideServerName :: string

definition extractSecretData :: "provider_kube \<Rightarrow> SecretKeySelector option \<Rightarrow> go_err + string" where
  "extractSecretData K ref =
     (case ref of
        None \<Rightarrow> Inr ''''
      | Some r \<Rightarrow>
          (if sk_Name r = '''' then Inr ''''
           else case kc_getSecret K (sk_Namespace r) (sk_Name r) of
                  Inl e \<Rightarrow> Inl (WithCause ''cannot get secret'' (Some (kubeError e)))
                | Inr data \<Rightarrow>
                    (let key = (if sk_Key r = '''' then ''ca.crt'' else sk_Key r) in
                     case fmlookup data key of
                       None \<Rightarrow> Inl (PlainUserErr (''secret key not found in CA certificate secret: '' @ key))
                     | Some d \<Rightarrow> Inr d)))"

definition GetCredentialsFromProvider :: "provider_kube \<Rightarrow> ProviderConfig \<Rightarrow> go_err + Credentials" where
  "GetCredentialsFromProvider K pc =
     (let pcr = pc_ProviderCredentials pc in
      case kc_extractCredential K (pk_Source pcr) (pk_Username pcr) of
        Inl e \<Rightarrow> Inl (WithCause ''cannot get credentials'' (Some e))
      | Inr username \<Rightarrow>
          (case kc_extractCredential K (pk_Source pcr) (pk_Password pcr) of
             Inl e \<Rightarrow> Inl (WithCause ''cannot get credentials'' (Some e))
           | Inr password \<Rightarrow>
               (let creds = \<lparr>cr_Username = username, cr_Password = password, cr_CABundle = '''',
                             cr_InsecureSkipVerify = False, cr_OverrideServerName = ''''\<rparr>
                in case pc_TLS pc of
                     None \<Rightarrow> Inr creds
                   | Some tls \<Rightarrow>
                       (let creds' = creds\<lparr>cr_InsecureSkipVerify := pt_InsecureSkipVerify tls,
                                           cr_OverrideServerName := pt_OverrideServerName tls\<rparr>
                        in case pt_CABundleSecretRef tls of
                             None \<Rightarrow> Inr creds'
                           | Some ref \<Rightarrow>
                               (case extractSecretData K (Some ref) of
                                  Inl e \<Rightarrow> Inl e
                                | Inr ca \<Rightarrow> Inr (creds'\<lparr>cr_CABundle := ca\<rparr>))))))"

section \<open>The clients\<close>

definition bm_configurationWithTLS ::
  "string \<Rightarrow> string \<Rightarrow> string \<Rightarrow> bool \<Rightarrow> string \<Rightarrow> string \<Rightarrow> bm_configuration" where
  "bm_configurationWithTLS username password url insecureSkipVerify caBundle overrideServerName =
     DefaultClientConfiguration
       \<lparr>bc_Name := ''BackupManagerClient'', bc_URL := url, bc_InsecureSkipVerify := insecureSkipVerify,
        bc_CABundle := caBundle, bc_OverrideServerName := overrideServerName,
        bc_AuthConfig := Some \<lparr>ba_BasicAuthConfig = Some (TrimSpace username, TrimSpace password)\<rparr>\<rparr>"

definition NewBackupManagerServiceWithTLS ::
  "bm_library \<Rightarrow> string \<Rightarrow> string \<Rightarrow> string \<Rightarrow> bool \<Rightarrow> string \<Rightarrow> string \<Rightarrow> go_err + bm_client" where
  "NewBackupManagerServiceWithTLS L username password url insecureSkipVerify caBundle overrideServerName =
     bm_NewClient L (bm_configurationWithTLS username password url insecureSkipVerify caBundle overrideServerName)"

definition NewBackupManagerService :: "bm_library \<Rightarrow> string \<Rightarrow> string \<Rightarrow> string \<Rightarrow> go_err + bm_client" where
  "NewBackupManagerService L username password url =
     NewBackupManagerServiceWithTLS L username password url False '''' ''''"

type_synonym 'c service_factory = "string \<Rightarrow> string \<Rightarrow> string \<Rightarrow> bool \<Rightarrow> string \<Rightarrow> string \<Rightarrow> go_err + 'c"

definition newService :: "'c service_factory \<Rightarrow> Credentials \<Rightarrow> ProviderConfig \<Rightarrow> go_err + 'c" where
  "newService f cr pc =
     f (cr_Username cr) (cr_Password cr) (pc_Url pc) (cr_InsecureSkipVerify cr) (cr_CABundle cr) (cr_OverrideServerName cr)"

datatype managed_resource = OtherKind | OwnKind "string option"

text \<open>The four methods differ in their errors and in the factory.\<close>

definition connectAs ::
  "go_err \<Rightarrow> (go_err \<Rightarrow> go_err) \<Rightarrow> (go_err \<Rightarrow> go_err) \<Rightarrow> string \<Rightarrow> 'c service_factory \<Rightarrow> provider_kube \<Rightarrow>
   managed_resource \<Rightarrow> 'c option go_result" where
  "connectAs notKind errTrack errGet errNew f K mg =
     (case mg of
        OtherKind \<Rightarrow> Return None (Some notKind)
      | OwnKind ref \<Rightarrow>
          (case kc_track K of
             Some e \<Rightarrow> Return None (Some (errTrack e))
           | None \<Rightarrow>
               (case ref of
                  None \<Rightarrow> Panic
                | Some name \<Rightarrow>
                    (case kc_getProviderConfig K name of
                       Inl e \<Rightarrow> Return None (Some (errGet (kubeError e)))
                     | Inr pc \<Rightarrow>
                         (case GetCredentialsFromProvider K pc of
                            Inl e \<Rightarrow> Return None (Some e)
                          | Inr cr \<Rightarrow>
                              (case newService f cr pc of
                                 Inl e \<Rightarrow> Return None (Some (Errorf errNew e))
                               | Inr c \<Rightarrow> Return (Some c) None))))))"

definition SI_Connect :: "osb_library \<Rightarrow> provider_kube \<Rightarrow> managed_resource \<Rightarrow> client option go_result" where
  "SI_Connect L = connectAs errNotServiceInstance (Errorf ''cannot track ProviderConfig usage'')
     (Errorf ''cannot get ProviderConfig'') ''cannot create new Client'' (NewOsbServiceWithTLS L)"

definition SB_Connect :: "osb_library \<Rightarrow> provider_kube \<Rightarrow> managed_resource \<Rightarrow> client option go_result" where
  "SB_Connect L = connectAs errNotServiceBinding (\<lambda>e. WithCause ''cannot track ProviderConfig usage'' (Some e))
     (\<lambda>e. WithCause ''cannot get ProviderConfig'' (Some e)) ''cannot create new Service'' (NewOsbServiceWithTLS L)"

definition BK_Connect :: "bm_library \<Rightarrow> provider_kube \<Rightarrow> managed_resource \<Rightarrow> bm_client option go_result" where
  "BK_Connect L = connectAs errNotBackup (Errorf ''cannot track ProviderConfig usage'')
     (Errorf ''cannot get ProviderConfig'') ''cannot create new client'' (NewBackupManagerServiceWithTLS L)"

definition RS_Connect :: "bm_library \<Rightarrow> provider_kube \<Rightarrow> managed_resource \<Rightarrow> bm_client option go_result" where
  "RS_Connect L = connectAs errNotRestore (Errorf ''cannot track ProviderConfig usage'')
     (Errorf ''cannot get ProviderConfig'') ''cannot create new client'' (NewBackupManagerServiceWithTLS L)"

section \<open>The health of a ProviderConfig\<close>

definition successCheckInterval :: int where
  "successCheckInterval = 3 * 60 * second"

definition failureCheckInterval :: int where
  "failureCheckInterval = 30 * second"

definition isCheckNeeded :: "ProviderConfig \<Rightarrow> time \<Rightarrow> bool" where
  "isCheckNeeded pc now =
     (case ph_LastCheckTime (pc_Health pc) of
        None \<Rightarrow> True
      | Some checked \<Rightarrow>
          now - checked > (if ph_LastStatus (pc_Health pc) then successCheckInterval else failureCheckInterval))"

record health_world =
  hh_broker :: http_world
  hh_manager :: bm_world

definition performOsbCheck ::
  "osb_library \<Rightarrow> health_world \<Rightarrow> ProviderConfig \<Rightarrow> Credentials \<Rightarrow> (bool \<times> string) \<times> health_world" where
  "performOsbCheck L w pc cr =
     (case newService (NewOsbServiceWithTLS L) cr pc of
        Inl e \<Rightarrow> ((False, Sprintf ''Constructing OSB service client: %v'' [FStr (errorText e)]), w)
      | Inr svc \<Rightarrow>
          (case osb_CheckAvailability svc (hh_broker w) (pc_HealthCheckEndpoint pc) of
             (Some e, b) \<Rightarrow> ((False, errorText e), w\<lparr>hh_broker := b\<rparr>)
           | (None, b) \<Rightarrow> ((True, ''Available''), w\<lparr>hh_broker := b\<rparr>)))"

definition performBackupManagerCheck ::
  "bm_library \<Rightarrow> health_world \<Rightarrow> ProviderConfig \<Rightarrow> Credentials \<Rightarrow> (bool \<times> string) \<times> health_world" where
  "performBackupManagerCheck L w pc cr =
     (case newService (NewBackupManagerServiceWithTLS L) cr pc of
        Inl e \<Rightarrow> ((False, Sprintf ''Constructing backup manager client: %v'' [FStr (errorText e)]), w)
      | Inr svc \<Rightarrow>
          (case bm_CheckAvailability svc (hh_manager w) (pc_HealthCheckEndpoint pc) of
             (Some e, b) \<Rightarrow> ((False, errorText e), w\<lparr>hh_manager := b\<rparr>)
           | (None, b) \<Rightarrow> ((True, ''Available''), w\<lparr>hh_manager := b\<rparr>)))"

record health_reconciler =
  hr_kube :: provider_kube
  hr_osb :: osb_library
  hr_manager :: bm_library

definition performCheck :: "health_reconciler \<Rightarrow> health_world \<Rightarrow> ProviderConfig \<Rightarrow> (bool \<times> string) \<times> health_world" where
  "performCheck R w pc =
     (case GetCredentialsFromProvider (hr_kube R) pc of
        Inl e \<Rightarrow> ((False, Sprintf ''Extracting credentials: %v'' [FStr (errorText e)]), w)
      | Inr cr \<Rightarrow>
          (if pc_ServiceType pc = ServiceTypeBackupManager then performBackupManagerCheck (hr_manager R) w pc cr
           else performOsbCheck (hr_osb R) w pc cr))"

definition getUpdatedProviderConfig ::
  "health_reconciler \<Rightarrow> health_world \<Rightarrow> ProviderConfig \<Rightarrow> time \<Rightarrow> ProviderConfig \<times> health_world" where
  "getUpdatedProviderConfig R w pc now =
     (case performCheck R w pc of
        ((status, message), w') \<Rightarrow>
          (pc\<lparr>pc_Health := \<lparr>ph_LastCheckTime = Some now, ph_LastStatus = status, ph_LastMessage = message\<rparr>\<rparr>, w'))"

datatype health_event = Normal string string | Warning string string

record health_run =
  hx_Requeue :: bool
  hx_RequeueAfter :: int
  hx_Error :: "apierr option"
  hx_Patched :: "ProviderConfig option"
  hx_Events :: "health_event list"
  hx_World :: health_world

definition stoppedRun :: "apierr option \<Rightarrow> ProviderConfig option \<Rightarrow> health_world \<Rightarrow> health_run" where
  "stoppedRun err patched w =
     \<lparr>hx_Requeue = False, hx_RequeueAfter = 0, hx_Error = err, hx_Patched = patched, hx_Events = [], hx_World = w\<rparr>"

definition health_Reconcile :: "health_reconciler \<Rightarrow> health_world \<Rightarrow> string \<Rightarrow> time \<Rightarrow> health_run" where
  "health_Reconcile R w name now =
     (case kc_getProviderConfig (hr_kube R) name of
        Inl e \<Rightarrow> stoppedRun (if IsNotFound e then None else Some e) None w
      | Inr pc \<Rightarrow>
          (if isCheckNeeded pc now
           then
             (case getUpdatedProviderConfig R w pc now of
                (updated, w') \<Rightarrow>
                  (let status = ph_LastStatus (pc_Health updated) in
                   case kc_patchStatus (hr_kube R) updated pc of
                     Some e \<Rightarrow> stoppedRun (Some e) None w'
                   | None \<Rightarrow>
                       \<lparr>hx_Requeue = True,
                        hx_RequeueAfter = (if status then successCheckInterval else failureCheckInterval),
                        hx_Error = None, hx_Patched = Some updated,
                        hx_Events =
                          (if ph_LastCheckTime (pc_Health pc) = None \<or> status \<noteq> ph_LastStatus (pc_Health pc)
                           then [if status then Normal ''CheckSuccess'' ''ProviderConfig is now healthy''
                                 else Warning ''CheckFailure''
                                        (Sprintf ''Health check failed: %v'' [FStr (ph_LastMessage (pc_Health updated))])]
                           else []),
                        hx_World = w'\<rparr>))
           else \<lparr>hx_Requeue = True, hx_RequeueAfter = successCheckInterval, hx_Error = None, hx_Patched = None,
                 hx_Events = [], hx_World = w\<rparr>))"

section \<open>The endpoint\<close>

definition configStatus :: "ProviderConfig \<Rightarrow> go_err option" where
  "configStatus pc =
     (if ph_LastCheckTime (pc_Health pc) = None then None
      else if \<not> ph_LastStatus (pc_Health pc) then Some (ErrorString (ph_LastMessage (pc_Health pc)))
      else None)"

definition recordStatus :: "ProviderConfig \<Rightarrow> (string, string) fmap \<Rightarrow> (string, string) fmap" where
  "recordStatus pc status = fmupd (pc_Name pc) (if configStatus pc \<noteq> None then ''degraded'' else ''ok'') status"

datatype health_answer = HealthText int string | HealthJSON int "(string, string) fmap"

definition ServeHTTP :: "provider_kube \<Rightarrow> health_answer" where
  "ServeHTTP K =
     (case kc_listProviderConfigs K of
        Inl e \<Rightarrow> HealthText 500 ''Failed to list provider configs''
      | Inr items \<Rightarrow> HealthJSON 200 (fold recordStatus items fmempty))"

definition handleHealthz :: health_answer where
  "handleHealthz = HealthText 200 ''ok''"

section \<open>What a ProviderConfig gives\<close>

definition bm_built :: "bm_library \<Rightarrow> string \<Rightarrow> string \<Rightarrow> string \<Rightarrow> bm_tls \<Rightarrow> bm_client" where
  "bm_built L u p url tls =
     \<lparr>bm_Name = ''BackupManagerClient'', bm_URL = TrimRight url (CHR ''/''),
      bm_AuthConfig = Some \<lparr>ba_BasicAuthConfig = Some (TrimSpace u, TrimSpace p)\<rparr>, bm_Verbose = False,
      bm_do = bl_transport L 60 tls, bm_library = L\<rparr>"

lemma NewBackupManagerServiceWithTLS_eq:
  "NewBackupManagerServiceWithTLS L u p url insecure ca name =
     (if ca \<noteq> '''' \<and> \<not> bl_parsesPEM L ca then Inl (ErrorString ''failed to parse CA certificate'')
      else Inr (bm_built L u p url \<lparr>tl_InsecureSkipVerify = insecure, tl_ServerName = name,
                  tl_RootCAs = (if ca \<noteq> '''' then Some ca else None)\<rparr>))"
  by (simp add: NewBackupManagerServiceWithTLS_def bm_NewClient_def bm_configurationWithTLS_def bm_built_def
      DefaultClientConfiguration_def Let_def)

lemma bm_built_simps [simp]:
  "bm_do (bm_built L u p url tls) = bl_transport L 60 tls"
  "bm_URL (bm_built L u p url tls) = TrimRight url (CHR ''/'')"
  "bm_library (bm_built L u p url tls) = L"
  "basicAuth (bm_built L u p url tls) = Some (TrimSpace u, TrimSpace p)"
  by (simp_all add: bm_built_def basicAuth_def)

text \<open>A connector that gets as far as the credentials.\<close>

definition reaches :: "provider_kube \<Rightarrow> string \<Rightarrow> ProviderConfig \<Rightarrow> Credentials \<Rightarrow> bool" where
  "reaches K name pc cr \<longleftrightarrow>
     kc_track K = None \<and> kc_getProviderConfig K name = Inr pc \<and> GetCredentialsFromProvider K pc = Inr cr"

lemma connectAs_reaches:
  assumes "reaches K name pc cr"
  shows "connectAs notKind errTrack errGet errNew f K (OwnKind (Some name)) =
    (case newService f cr pc of Inl e \<Rightarrow> Return None (Some (Errorf errNew e)) | Inr c \<Rightarrow> Return (Some c) None)"
  using assms by (simp add: connectAs_def reaches_def)

lemmas connect_defs = SI_Connect_def SB_Connect_def BK_Connect_def RS_Connect_def

text \<open>The TLS configuration that credentials stand for.\<close>

definition credentialTLS :: "Credentials \<Rightarrow> bm_tls" where
  "credentialTLS cr = \<lparr>tl_InsecureSkipVerify = cr_InsecureSkipVerify cr, tl_ServerName = cr_OverrideServerName cr,
     tl_RootCAs = (if cr_CABundle cr \<noteq> '''' then Some (cr_CABundle cr) else None)\<rparr>"

lemma broker_service:
  "newService (NewOsbServiceWithTLS L) cr pc =
     (if cr_InsecureSkipVerify cr \<and> cr_CABundle cr \<noteq> ''''
      then Inl (ErrorString ''cannot specify root CAs and to skip TLS verification'')
      else Inr (osb_built L (cr_Username cr) (cr_Password cr) (pc_Url pc)
             (if cr_CABundle cr = '''' \<or> ol_parsesPEM L (cr_CABundle cr) then credentialTLS cr
              else (credentialTLS cr)\<lparr>tl_RootCAs := Some ''''\<rparr>)))"
  by (simp add: newService_def NewOsbServiceWithTLS_eq osb_tls_withTLS credentialTLS_def)

lemma manager_service:
  "newService (NewBackupManagerServiceWithTLS L) cr pc =
     (if cr_CABundle cr \<noteq> '''' \<and> \<not> bl_parsesPEM L (cr_CABundle cr)
      then Inl (ErrorString ''failed to parse CA certificate'')
      else Inr (bm_built L (cr_Username cr) (cr_Password cr) (pc_Url pc) (credentialTLS cr)))"
  by (simp add: newService_def NewBackupManagerServiceWithTLS_eq credentialTLS_def)

section \<open>When the health is checked\<close>

text \<open>The API server keeps times in whole seconds.\<close>

definition stored :: "ProviderConfig \<Rightarrow> ProviderConfig" where
  "stored pc = pc\<lparr>pc_Health := (pc_Health pc)\<lparr>ph_LastCheckTime :=
     map_option (\<lambda>t. Truncate t second) (ph_LastCheckTime (pc_Health pc))\<rparr>\<rparr>"

lemma stored_simps [simp]:
  "ph_LastStatus (pc_Health (stored pc)) = ph_LastStatus (pc_Health pc)"
  "ph_LastMessage (pc_Health (stored pc)) = ph_LastMessage (pc_Health pc)"
  "ph_LastCheckTime (pc_Health (stored pc)) = map_option (\<lambda>t. Truncate t second) (ph_LastCheckTime (pc_Health pc))"
  "pc_Name (stored pc) = pc_Name pc"
  "configStatus (stored pc) = configStatus pc"
  by (simp_all add: stored_def configStatus_def)

lemma Truncate_second_le: "Truncate t second \<le> t"
  by (simp add: Truncate_def second_def)

lemma intervals: "0 < failureCheckInterval" "failureCheckInterval \<le> successCheckInterval"
  by (simp_all add: failureCheckInterval_def successCheckInterval_def second_def)

lemma updated_config:
  assumes "getUpdatedProviderConfig R w pc now = (u, w')"
  shows "pc_Health u = \<lparr>ph_LastCheckTime = Some now, ph_LastStatus = fst (fst (performCheck R w pc)),
           ph_LastMessage = snd (fst (performCheck R w pc))\<rparr>"
    and "pc_Name u = pc_Name pc"
  using assms by (auto simp: getUpdatedProviderConfig_def split: prod.splits)

lemma checked_run:
  assumes "kc_getProviderConfig (hr_kube R) name = Inr pc" "isCheckNeeded pc now"
    and "getUpdatedProviderConfig R w pc now = (u, w')" "kc_patchStatus (hr_kube R) u pc = None"
  shows "hx_Patched (health_Reconcile R w name now) = Some u"
    and "hx_Requeue (health_Reconcile R w name now)"
    and "hx_RequeueAfter (health_Reconcile R w name now) =
           (if ph_LastStatus (pc_Health u) then successCheckInterval else failureCheckInterval)"
    and "hx_Error (health_Reconcile R w name now) = None"
  using assms by (simp_all add: health_Reconcile_def Let_def)

lemma skipped_run:
  assumes "kc_getProviderConfig (hr_kube R) name = Inr pc" "\<not> isCheckNeeded pc now"
  shows "health_Reconcile R w name now = \<lparr>hx_Requeue = True, hx_RequeueAfter = successCheckInterval, hx_Error = None,
    hx_Patched = None, hx_Events = [], hx_World = w\<rparr>"
  using assms by (simp add: health_Reconcile_def)

lemma needed_after_check:
  assumes "ph_LastCheckTime (pc_Health u) = Some now"
    and "now + (if ph_LastStatus (pc_Health u) then successCheckInterval else failureCheckInterval) < t"
  shows "isCheckNeeded (stored u) t"
  using assms Truncate_second_le [of now] by (simp add: isCheckNeeded_def split: if_splits)

lemma needed_after_skip:
  assumes "ph_LastCheckTime (pc_Health pc) = Some checked" "checked \<le> now" "now + successCheckInterval < t"
  shows "isCheckNeeded pc t"
  using assms intervals by (simp add: isCheckNeeded_def)

section \<open>What the endpoint reports\<close>

lemma fold_recordStatus_notin:
  "n \<notin> pc_Name ` set items \<Longrightarrow> fmlookup (fold recordStatus items m) n = fmlookup m n"
  by (induction items arbitrary: m) (auto simp: recordStatus_def)

lemma fold_recordStatus:
  assumes "pc \<in> set items" "distinct (map pc_Name items)"
  shows "fmlookup (fold recordStatus items m) (pc_Name pc) =
    Some (if configStatus pc \<noteq> None then ''degraded'' else ''ok'')"
  using assms
proof (induction items arbitrary: m)
  case (Cons x xs)
  show ?case
  proof (cases "pc = x")
    case True
    then have "pc_Name pc \<notin> pc_Name ` set xs"
      using Cons.prems(2) by auto
    then show ?thesis
      using True by (simp add: fold_recordStatus_notin) (simp add: recordStatus_def)
  next
    case False
    then show ?thesis
      using Cons by simp
  qed
qed simp

text \<open>The service of a ProviderConfig answers as it should.\<close>

definition answers :: "health_reconciler \<Rightarrow> health_world \<Rightarrow> ProviderConfig \<Rightarrow> bool" where
  "answers R w pc \<longleftrightarrow>
     (\<exists>cr. GetCredentialsFromProvider (hr_kube R) pc = Inr cr \<and>
        (if pc_ServiceType pc = ServiceTypeBackupManager
         then \<exists>c. newService (NewBackupManagerServiceWithTLS (hr_manager R)) cr pc = Inr c \<and>
                fst (bm_CheckAvailability c (hh_manager w) (pc_HealthCheckEndpoint pc)) = None
         else \<exists>c. newService (NewOsbServiceWithTLS (hr_osb R)) cr pc = Inr c \<and>
                fst (osb_CheckAvailability c (hh_broker w) (pc_HealthCheckEndpoint pc)) = None))"

lemma performCheck_iff: "fst (fst (performCheck R w pc)) \<longleftrightarrow> answers R w pc"
  by (auto simp: performCheck_def answers_def performBackupManagerCheck_def performOsbCheck_def
      split: sum.split prod.split option.split)

end
