(* ===== verification/Health_Properties.thy ===== *)
theory Health_Properties
  imports Provider_Health Provider_Properties Backup_Properties
begin

text \<open>
  The properties of the connections of the provider: the clients that a ProviderConfig gives, its health, and the
  polling of the broker client, with a small provider for the witnesses.
\<close>

section \<open>A provider for the witnesses\<close>

definition sampleSelectors :: CommonCredentialSelectors where
  "sampleSelectors = \<lparr>cs_Fs = None, cs_Env = None, cs_SecretRef = None\<rparr>"

definition sampleConfig :: "ProviderConfigTLS option \<Rightarrow> ProviderConfigHealth \<Rightarrow> ProviderConfig" where
  "sampleConfig tls health = \<lparr>pc_Name = ''broker'', pc_Url = ''https://broker/'', pc_ServiceType = ''servicebroker'',
     pc_HealthCheckEndpoint = '''',
     pc_ProviderCredentials = \<lparr>pk_Source = ''None'', pk_Username = sampleSelectors, pk_Password = sampleSelectors\<rparr>,
     pc_TLS = tls, pc_Health = health\<rparr>"

definition neverChecked :: ProviderConfigHealth where
  "neverChecked = \<lparr>ph_LastCheckTime = None, ph_LastStatus = False, ph_LastMessage = ''''\<rparr>"

definition sampleKube :: "ProviderConfig \<Rightarrow> provider_kube" where
  "sampleKube pc = \<lparr>kc_getProviderConfig = (\<lambda>_. Inr pc), kc_listProviderConfigs = Inr [pc],
     kc_getSecret = (\<lambda>_ _. Inr (fmupd ''ca.crt'' ''no certificate'' fmempty)),
     kc_extractCredential = (\<lambda>_ _. Inr ''admin''), kc_track = None, kc_patchStatus = (\<lambda>_ _. None)\<rparr>"

text \<open>Every request is answered with the given status; no text is a certificate.\<close>

definition sampleOsb :: "int \<Rightarrow> osb_library" where
  "sampleOsb code = \<lparr>ol_transport = (\<lambda>_ _ _ _. Inr \<lparr>rs_StatusCode = code, rs_Body = Inr ''''\<rparr>),
     ol_parsesPEM = (\<lambda>_. False), ol_cacheExpired = (\<lambda>_ _. True), ol_functions = sampleClient emptyBroker\<rparr>"

definition sampleHealth :: "int \<Rightarrow> ProviderConfig \<Rightarrow> health_reconciler" where
  "sampleHealth code pc = \<lparr>hr_kube = sampleKube pc, hr_osb = sampleOsb code, hr_manager = sampleLibrary\<rparr>"

definition noRequests :: health_world where
  "noRequests = \<lparr>hh_broker = freshWorld, hh_manager = []\<rparr>"

lemmas health_samples = sampleSelectors_def sampleConfig_def neverChecked_def sampleKube_def sampleOsb_def
  sampleHealth_def noRequests_def

definition plainCredentials :: Credentials where
  "plainCredentials = \<lparr>cr_Username = ''admin'', cr_Password = ''admin'', cr_CABundle = '''',
     cr_InsecureSkipVerify = False, cr_OverrideServerName = ''''\<rparr>"

lemma sample_credentials:
  "GetCredentialsFromProvider (sampleKube pc) (sampleConfig None h) = Inr plainCredentials"
  by (simp add: GetCredentialsFromProvider_def health_samples plainCredentials_def)

section \<open>Connections\<close>

text \<open>What a ProviderConfig and the CA certificates of its secret ask of a connection.\<close>

definition configuredTLS :: "ProviderConfig \<Rightarrow> string \<Rightarrow> bm_tls" where
  "configuredTLS pc ca =
     \<lparr>tl_InsecureSkipVerify = (case pc_TLS pc of None \<Rightarrow> False | Some t \<Rightarrow> pt_InsecureSkipVerify t),
      tl_ServerName = (case pc_TLS pc of None \<Rightarrow> '''' | Some t \<Rightarrow> pt_OverrideServerName t),
      tl_RootCAs = (if ca = '''' then None else Some ca)\<rparr>"

definition configuredCA :: "provider_kube \<Rightarrow> ProviderConfig \<Rightarrow> string" where
  "configuredCA K pc =
     (case Option.bind (pc_TLS pc) pt_CABundleSecretRef of
        None \<Rightarrow> ''''
      | Some ref \<Rightarrow> (case extractSecretData K (Some ref) of Inl _ \<Rightarrow> '''' | Inr ca \<Rightarrow> ca))"

lemma credentials_configured:
  assumes "GetCredentialsFromProvider K pc = Inr cr"
  shows "kc_extractCredential K (pk_Source (pc_ProviderCredentials pc)) (pk_Username (pc_ProviderCredentials pc)) = Inr (cr_Username cr)"
    and "kc_extractCredential K (pk_Source (pc_ProviderCredentials pc)) (pk_Password (pc_ProviderCredentials pc)) = Inr (cr_Password cr)"
    and "cr_CABundle cr = configuredCA K pc" and "credentialTLS cr = configuredTLS pc (configuredCA K pc)"
    and "cr_InsecureSkipVerify cr = tl_InsecureSkipVerify (configuredTLS pc ca)"
  using assms
  by (auto simp: GetCredentialsFromProvider_def configuredCA_def configuredTLS_def credentialTLS_def Let_def
      split: sum.splits option.splits)

text \<open>C30: one ProviderConfig gives both clients the same connection. When it names no CA certificates, or certificates that can be
  parsed while verification is on, the service instance and the backup controller both connect: to the URL of the ProviderConfig
  without slashes at its end, with the TLS configuration of the ProviderConfig, and with the user and the password that its credentials
  name, trimmed. In the other cases they do not agree: skip-verify together with CA certificates is refused by the
  broker client only, and CA certificates that cannot be parsed are refused by the Backup Manager client only. The
  hypotheses are that the ProviderConfig and its credentials can be read, and that both clients parse the same
  certificates, which they do with the same function of the x509 package.\<close>

theorem connected_clients_agree:
  assumes "reaches K name pc cr" and "\<And>ca. ol_parsesPEM L ca = bl_parsesPEM M ca"
  shows "(configuredCA K pc = '''' \<or>
        bl_parsesPEM M (configuredCA K pc) \<and> \<not> tl_InsecureSkipVerify (configuredTLS pc (configuredCA K pc)) \<longrightarrow>
      (\<exists>c m user password.
        SI_Connect L K (OwnKind (Some name)) = Return (Some c) None \<and>
        BK_Connect M K (OwnKind (Some name)) = Return (Some m) None \<and>
        cl_URL c = TrimRight (pc_Url pc) (CHR ''/'') \<and> bm_URL m = TrimRight (pc_Url pc) (CHR ''/'') \<and>
        cl_do c = ol_transport L 300 (configuredTLS pc (configuredCA K pc)) \<and>
        bm_do m = bl_transport M 60 (configuredTLS pc (configuredCA K pc)) \<and>
        kc_extractCredential K (pk_Source (pc_ProviderCredentials pc)) (pk_Username (pc_ProviderCredentials pc)) = Inr user \<and>
        kc_extractCredential K (pk_Source (pc_ProviderCredentials pc)) (pk_Password (pc_ProviderCredentials pc)) = Inr password \<and>
        authorizationOf (cl_AuthConfig c) = Some (BasicAuth (TrimSpace user) (TrimSpace password)) \<and>
        basicAuth m = Some (TrimSpace user, TrimSpace password))) \<and>
    ((\<exists>e. SI_Connect L K (OwnKind (Some name)) = Return None (Some e)) \<longleftrightarrow>
       configuredCA K pc \<noteq> '''' \<and> tl_InsecureSkipVerify (configuredTLS pc (configuredCA K pc))) \<and>
    ((\<exists>e. BK_Connect M K (OwnKind (Some name)) = Return None (Some e)) \<longleftrightarrow>
       configuredCA K pc \<noteq> '''' \<and> \<not> bl_parsesPEM M (configuredCA K pc))"
proof -
  have cr: "GetCredentialsFromProvider K pc = Inr cr" using assms(1) by (simp add: reaches_def)
  note conf = credentials_configured [OF cr]
  show ?thesis
    unfolding connect_defs connectAs_reaches [OF assms(1)] broker_service manager_service conf assms(2)
    using conf(5) [of "configuredCA K pc"] conf(4) by (auto simp: assms(2))
qed

theorem connected_clients_agree_witness:
  "\<exists>c m. SI_Connect (sampleOsb 200) (sampleKube (sampleConfig None neverChecked)) (OwnKind (Some ''broker'')) =
     Return (Some c) None \<and> cl_URL c = ''https://broker'' \<and>
   BK_Connect sampleLibrary (sampleKube (sampleConfig None neverChecked)) (OwnKind (Some ''broker'')) =
     Return (Some m) None \<and> basicAuth m = Some (''admin'', ''admin'')"
proof -
  let ?pc = "sampleConfig None neverChecked"
  have 1: "reaches (sampleKube ?pc) ''broker'' ?pc plainCredentials"
    by (simp add: reaches_def sample_credentials) (simp add: sampleKube_def)
  have 2: "ol_parsesPEM (sampleOsb 200) ca = bl_parsesPEM sampleLibrary ca" for ca
    by (simp add: sampleOsb_def sampleLibrary_def)
  have 3: "configuredCA (sampleKube ?pc) ?pc = ''''"
    by (simp add: configuredCA_def sampleConfig_def)
  have 4: "TrimRight (pc_Url ?pc) (CHR ''/'') = ''https://broker''"
    by (simp add: TrimRight_def sampleConfig_def)
  have 5: "kc_extractCredential (sampleKube ?pc) s x = Inr u \<Longrightarrow> TrimSpace u = ''admin''" for s x u
    by (auto simp: sampleKube_def TrimSpace_def isSpace_def)
  from connected_clients_agree [OF 1 2] 3 4 5 show ?thesis by metis
qed

text \<open>CA certificates that cannot be parsed are an error for the Backup Manager client only. The broker client is created all the
  same, with a pool that holds no certificate and so trusts no server.\<close>

lemma unparsable_ca_trusts_nobody:
  assumes "reaches K name pc cr" "cr_CABundle cr \<noteq> ''''" "\<not> cr_InsecureSkipVerify cr"
    and "\<not> ol_parsesPEM L (cr_CABundle cr)" "\<not> bl_parsesPEM M (cr_CABundle cr)"
  shows "(\<exists>c. SI_Connect L K (OwnKind (Some name)) = Return (Some c) None \<and>
            cl_do c = ol_transport L 300 ((credentialTLS cr)\<lparr>tl_RootCAs := Some ''''\<rparr>)) \<and>
         BK_Connect M K (OwnKind (Some name)) =
           Return None (Some (Errorf ''cannot create new client'' (ErrorString ''failed to parse CA certificate'')))"
  using assms(2-)
  by (simp add: connect_defs connectAs_reaches [OF assms(1)] broker_service manager_service)

definition caConfig :: ProviderConfig where
  "caConfig = sampleConfig (Some \<lparr>pt_InsecureSkipVerify = False,
     pt_CABundleSecretRef = Some \<lparr>sk_Namespace = ''ns'', sk_Name = ''ca'', sk_Key = ''''\<rparr>, pt_OverrideServerName = ''''\<rparr>) neverChecked"

lemma unparsable_ca_trusts_nobody_example:
  "BK_Connect sampleLibrary (sampleKube caConfig) (OwnKind (Some ''broker'')) =
     Return None (Some (Errorf ''cannot create new client'' (ErrorString ''failed to parse CA certificate'')))"
proof -
  have "reaches (sampleKube caConfig) ''broker'' caConfig (plainCredentials\<lparr>cr_CABundle := ''no certificate''\<rparr>)"
    by (simp add: reaches_def GetCredentialsFromProvider_def extractSecretData_def caConfig_def health_samples
        plainCredentials_def)
  from unparsable_ca_trusts_nobody [OF this, of "sampleOsb 200" sampleLibrary] show ?thesis
    by (simp add: plainCredentials_def sampleOsb_def sampleLibrary_def)
qed

section \<open>Health\<close>

text \<open>C39: the health of a ProviderConfig is checked for ever. A run on an existing ProviderConfig whose last check is not in the
  future and that ends without error asks to be called again, after a positive time, and at every moment after that time a
  check is due for the ProviderConfig as the run left it, also with the time of the last check cut to whole seconds by the API server.\<close>

theorem health_checked_again:
  assumes "kc_getProviderConfig (hr_kube R) name = Inr pc" "hx_Error (health_Reconcile R w name now) = None"
    and "\<And>t. ph_LastCheckTime (pc_Health pc) = Some t \<Longrightarrow> t \<le> now"
  shows "hx_Requeue (health_Reconcile R w name now) \<and> 0 < hx_RequeueAfter (health_Reconcile R w name now) \<and>
    (\<forall>t > now + hx_RequeueAfter (health_Reconcile R w name now).
       isCheckNeeded (case hx_Patched (health_Reconcile R w name now) of None \<Rightarrow> pc | Some u \<Rightarrow> stored u) t)"
proof (cases "isCheckNeeded pc now")
  case True
  obtain u w' where u: "getUpdatedProviderConfig R w pc now = (u, w')"
    by fastforce
  then have "kc_patchStatus (hr_kube R) u pc = None"
    using assms(1,2) True
    by (cases "kc_patchStatus (hr_kube R) u pc") (auto simp: health_Reconcile_def stoppedRun_def Let_def)
  note run = checked_run [OF assms(1) True u this]
  have "ph_LastCheckTime (pc_Health u) = Some now"
    by (simp add: updated_config(1) [OF u])
  then show ?thesis
    using needed_after_check [of u now] intervals by (simp add: run)
next
  case False
  then obtain t where t: "ph_LastCheckTime (pc_Health pc) = Some t"
    by (auto simp: isCheckNeeded_def split: option.splits)
  show ?thesis
    using needed_after_skip [OF t assms(3) [OF t]] intervals by (simp add: skipped_run [OF assms(1) False])
qed

lemma sample_get: "kc_getProviderConfig (hr_kube (sampleHealth code pc)) name = Inr pc"
  by (simp add: sampleHealth_def sampleKube_def)

theorem health_checked_again_witness:
  "hx_Requeue (health_Reconcile (sampleHealth 200 (sampleConfig None neverChecked)) noRequests ''broker'' 0)"
proof -
  have "hx_Error (health_Reconcile (sampleHealth 200 (sampleConfig None neverChecked)) noRequests ''broker'' 0) = None"
    by (simp add: health_Reconcile_def sample_get isCheckNeeded_def Let_def split: prod.split)
      (simp add: health_samples)
  from health_checked_again [OF sample_get this] show ?thesis
    by (simp add: sampleConfig_def neverChecked_def)
qed

text \<open>A failing ProviderConfig can wait six times as long for its next check as it should. When a run finds that the last check
  failed at most half a minute ago, it checks nothing and asks to be called in three minutes, although a check is due
  half a minute after the last one.\<close>

lemma skipped_check_delays_retry:
  assumes "kc_getProviderConfig (hr_kube R) name = Inr pc"
    and "ph_LastCheckTime (pc_Health pc) = Some checked" "\<not> ph_LastStatus (pc_Health pc)"
    and "checked \<le> now" "now \<le> checked + 30 * second"
  shows "hx_RequeueAfter (health_Reconcile R w name now) = 180 * second \<and>
    hx_Patched (health_Reconcile R w name now) = None \<and> (\<forall>t > checked + 30 * second. isCheckNeeded pc t)"
proof -
  have "\<not> isCheckNeeded pc now" "\<forall>t > checked + 30 * second. isCheckNeeded pc t"
    using assms(2-) by (simp_all add: isCheckNeeded_def failureCheckInterval_def)
  then show ?thesis
    by (simp add: skipped_run [OF assms(1)] successCheckInterval_def)
qed

lemma skipped_check_delays_retry_example:
  "hx_RequeueAfter (health_Reconcile
      (sampleHealth 200 (sampleConfig None \<lparr>ph_LastCheckTime = Some 0, ph_LastStatus = False, ph_LastMessage = ''''\<rparr>))
      noRequests ''broker'' (5 * second)) = 180 * second"
  using skipped_check_delays_retry [OF sample_get,
      of "sampleConfig None \<lparr>ph_LastCheckTime = Some 0, ph_LastStatus = False, ph_LastMessage = ''''\<rparr>" 0 "5 * second" 200
        noRequests "''broker''"]
  by (simp add: sampleConfig_def second_def)

text \<open>The endpoint for the health of the services tells the truth about the last check. When a run has written the status of a
  ProviderConfig and the list that the endpoint reads holds what was written, the endpoint says \<open>ok\<close> for it if its service
  could be reached with its credentials and answered well, and \<open>degraded\<close> otherwise.\<close>

lemma endpoint_reports_last_check:
  assumes "kc_getProviderConfig (hr_kube R) name = Inr pc" "hx_Patched (health_Reconcile R w name now) = Some u"
    and "kc_listProviderConfigs K = Inr items" "stored u \<in> set items" "distinct (map pc_Name items)"
  shows "\<exists>report. ServeHTTP K = HealthJSON 200 report \<and>
    fmlookup report (pc_Name pc) = Some (if answers R w pc then ''ok'' else ''degraded'')"
proof -
  from assms(1,2) obtain w' where u: "getUpdatedProviderConfig R w pc now = (u, w')"
    by (auto simp: health_Reconcile_def stoppedRun_def Let_def split: if_splits option.splits prod.splits)
  have "configStatus (stored u) = None \<longleftrightarrow> answers R w pc"
    by (simp add: configStatus_def updated_config(1) [OF u] performCheck_iff)
  then show ?thesis
    using fold_recordStatus [OF assms(4,5), of fmempty] by (simp add: ServeHTTP_def assms(3) updated_config(2) [OF u])
qed

definition checkedConfig :: "int \<Rightarrow> ProviderConfig" where
  "checkedConfig code = sampleConfig None \<lparr>ph_LastCheckTime = Some 0, ph_LastStatus = (code = 200),
     ph_LastMessage = (if code = 200 then ''Available'' else Sprintf ''Received unexpected status %d'' [FInt code])\<rparr>"

lemma sample_check:
  "fst (performCheck (sampleHealth code pc) noRequests (sampleConfig None h)) =
     (code = 200, if code = 200 then ''Available'' else Sprintf ''Received unexpected status %d'' [FInt code])"
  by (simp add: performCheck_def sampleHealth_def sample_credentials)
    (simp add: sampleConfig_def ServiceTypeBackupManager_def performOsbCheck_def broker_service plainCredentials_def
      osb_CheckAvailability_eq sampleOsb_def sampleClient_def)

lemma sampleHealth_run:
  "hx_Patched (health_Reconcile (sampleHealth code (sampleConfig None neverChecked)) noRequests ''broker'' 0) =
     Some (checkedConfig code)"
proof -
  obtain u w' where u: "getUpdatedProviderConfig (sampleHealth code (sampleConfig None neverChecked)) noRequests
      (sampleConfig None neverChecked) 0 = (u, w')"
    by fastforce
  then have "u = checkedConfig code"
    using sample_check [of code "sampleConfig None neverChecked" neverChecked]
    by (auto simp: getUpdatedProviderConfig_def checkedConfig_def sampleConfig_def split: prod.splits)
  moreover have "isCheckNeeded (sampleConfig None neverChecked) 0"
    by (simp add: isCheckNeeded_def sampleConfig_def neverChecked_def)
  ultimately show ?thesis
    using checked_run(1) [OF sample_get _ u] by (simp add: sampleHealth_def sampleKube_def)
qed

lemma endpoint_reports_last_check_example:
  "\<exists>report. ServeHTTP (sampleKube (stored (checkedConfig 503))) = HealthJSON 200 report \<and>
     fmlookup report ''broker'' = Some ''degraded''"
proof -
  have "\<not> answers (sampleHealth 503 (sampleConfig None neverChecked)) noRequests (sampleConfig None neverChecked)"
    using sample_check [of 503 "sampleConfig None neverChecked" neverChecked]
    by (simp flip: performCheck_iff)
  with endpoint_reports_last_check [OF sample_get sampleHealth_run, of "sampleKube (stored (checkedConfig 503))"
      "[stored (checkedConfig 503)]" 503]
  show ?thesis
    by (simp add: sampleKube_def) (simp add: sampleConfig_def)
qed

section \<open>Polling\<close>

text \<open>The delay that a broker asks for between two polls is read exactly, in nanoseconds, up to 9223372036 seconds; the next
  value already overflows the 64 bits of a duration and turns negative. A delay that is not positive is ignored.\<close>

lemma poll_delay_exact:
  assumes "PollLastOperation decode hdr c w r = ((Some u, None), w')" "cl_EnableAlphaFeatures c"
    and "\<And>t x. decode t = Inr x \<Longrightarrow> lr_PollDelay x = None" "\<And>resp. Atoi (hdr resp) = Some d"
  shows "(0 < d \<and> d \<le> 9223372036 \<longrightarrow> map_option sint (lr_PollDelay u) = Some (d * second)) \<and>
    (d = 9223372037 \<longrightarrow> (\<exists>x. lr_PollDelay u = Some x \<and> sint x < 0)) \<and>
    (d \<le> 0 \<longrightarrow> lr_PollDelay u = None)"
proof -
  from assms(1,2,4) obtain resp x where "unmarshalResponse decode resp = Inr x"
      "u = (if 0 < d then x\<lparr>lr_PollDelay := Some (pollDuration d)\<rparr> else x)"
    by (auto simp: PollLastOperation_def poll_def split: if_splits prod.splits sum.splits)
  moreover from this(1) have "lr_PollDelay x = None"
    using assms(3) by (auto simp: unmarshalResponse_def split: sum.splits)
  ultimately show ?thesis
    using pollDuration_exact [of d] pollDuration_wraps by auto
qed

definition pollRequest :: LastOperationRequest where
  "pollRequest = \<lparr>lo_InstanceID = ''i1'', lo_ServiceID = None, lo_PlanID = None, lo_OperationKey = None,
     lo_OriginatingIdentity = None\<rparr>"

lemma poll_delay_exact_example:
  "\<exists>u w'. PollLastOperation (\<lambda>_. Inr \<lparr>lr_State = ''in progress'', lr_Description = None, lr_PollDelay = None\<rparr>)
      (\<lambda>_. Itoa 10) ((sampleClient emptyBroker)\<lparr>cl_EnableAlphaFeatures := True,
         cl_do := (\<lambda>_ _. Inr \<lparr>rs_StatusCode = 200, rs_Body = Inr ''''\<rparr>)\<rparr>) freshWorld pollRequest = ((Some u, None), w') \<and>
    map_option sint (lr_PollDelay u) = Some (10 * second)"
proof -
  let ?c = "(sampleClient emptyBroker)\<lparr>cl_EnableAlphaFeatures := True,
      cl_do := (\<lambda>_ _. Inr \<lparr>rs_StatusCode = 200, rs_Body = Inr ''''\<rparr>)\<rparr>"
  let ?d = "\<lambda>_ :: string. Inr \<lparr>lr_State = ''in progress'', lr_Description = None, lr_PollDelay = None\<rparr>"
  have ten: "Atoi (Itoa 10) = Some 10"
    by (simp add: int64_range_def)
  obtain u w' where "PollLastOperation ?d (\<lambda>_. Itoa 10) ?c freshWorld pollRequest = ((Some u, None), w')"
    by (simp add: PollLastOperation_def poll_def pollRequest_def prepareAndDo_def identityHeader_def sampleClient_def
        unmarshalResponse_def Let_def)
  with poll_delay_exact [OF this, of 10] ten show ?thesis
    by (auto intro!: exI [of _ u] exI [of _ w'])
qed

end
