(* ===== verification/Call_Log.thy ===== *)
theory Call_Log
  imports Klutch_Prelude
begin

text \<open>
  Operations that call an API and stop at the first error. An operation takes the log of the calls made so far, on which the
  answers may depend, and returns a result or an error with the log that it leaves: \<open>apiCall\<close> makes one call, \<open>followedBy\<close>
  goes on unless there is an error, \<open>recovering\<close> hands an error to the operation that checks it. The
  manager of the backend and the command line client are written with them.

  \<open>runs\<close> is what is proved of an operation, one rule per construct.
\<close>

section \<open>Operations\<close>

type_synonym ('c, 'a) op = "'c list \<Rightarrow> (apierr + 'a) \<times> 'c list"

definition apiCall :: "('c list \<Rightarrow> apierr + 'a) \<Rightarrow> 'c \<Rightarrow> ('c, 'a) op" where
  "apiCall f c l = (f l, l @ [c])"

definition finished :: "'a \<Rightarrow> ('c, 'a) op" where
  "finished x l = (Inr x, l)"

definition fails :: "apierr \<Rightarrow> ('c, 'a) op" where
  "fails e l = (Inl e, l)"

definition followedBy :: "('c, 'a) op \<Rightarrow> ('a \<Rightarrow> ('c, 'b) op) \<Rightarrow> ('c, 'b) op" where
  "followedBy m f l = (case m l of (Inl e, l') \<Rightarrow> (Inl e, l') | (Inr x, l') \<Rightarrow> f x l')"

definition recovering :: "('c, 'a) op \<Rightarrow> (apierr \<Rightarrow> ('c, 'b) op) \<Rightarrow> ('a \<Rightarrow> ('c, 'b) op) \<Rightarrow> ('c, 'b) op" where
  "recovering m h f l = (case m l of (Inl e, l') \<Rightarrow> h e l' | (Inr x, l') \<Rightarrow> f x l')"

definition plainError :: "string \<Rightarrow> apierr" where
  "plainError s = \<lparr>reason = OtherReason '''', error_text = s\<rparr>"

section \<open>Runs\<close>

text \<open>
  \<open>runs P Q m\<close>: whatever was called before, \<open>m\<close> only adds calls that satisfy \<open>P\<close>, and a result that it returns
  satisfies \<open>Q\<close>.
\<close>

definition runs :: "('c \<Rightarrow> bool) \<Rightarrow> ('a \<Rightarrow> bool) \<Rightarrow> ('c, 'a) op \<Rightarrow> bool" where
  "runs P Q m = (\<forall>l. (\<exists>cs. snd (m l) = l @ cs \<and> list_all P cs) \<and> (\<forall>x. fst (m l) = Inr x \<longrightarrow> Q x))"

named_theorems runs_intros

lemma runs_calls: "runs P Q m \<Longrightarrow> \<exists>cs. snd (m l) = l @ cs \<and> list_all P cs"
  by (simp add: runs_def)

lemma runs_result: "runs P Q m \<Longrightarrow> fst (m l) = Inr x \<Longrightarrow> Q x"
  by (simp add: runs_def)

lemma runs_apiCall [runs_intros]: "P c \<Longrightarrow> (\<And>l x. f l = Inr x \<Longrightarrow> Q x) \<Longrightarrow> runs P Q (apiCall f c)"
  by (simp add: runs_def apiCall_def)

lemma runs_finished [runs_intros]: "Q x \<Longrightarrow> runs P Q (finished x)"
  by (simp add: runs_def finished_def)

lemma runs_fails [runs_intros]: "runs P Q (fails e)"
  by (simp add: runs_def fails_def)

lemma runs_recovering:
  assumes m: "runs P R m" and h: "\<And>e. runs P Q (h e)" and f: "\<And>x. R x \<Longrightarrow> runs P Q (f x)"
  shows "runs P Q (recovering m h f)"
  unfolding runs_def
proof (intro allI)
  fix l
  obtain r l' where eq: "m l = (r, l')" by fastforce
  obtain cs where cs: "l' = l @ cs" "list_all P cs" using runs_calls [OF m, of l] eq by auto
  define k where "k = (case r of Inl e \<Rightarrow> h e | Inr x \<Rightarrow> f x)"
  have k: "runs P Q k"
    using h f runs_result [OF m, of l] by (auto simp: k_def eq split: sum.split)
  have run: "recovering m h f l = k l'"
    by (simp add: recovering_def eq k_def split: sum.split)
  from runs_calls [OF k, of l'] obtain ds where "snd (k l') = l' @ ds" "list_all P ds" by auto
  then show "(\<exists>cs. snd (recovering m h f l) = l @ cs \<and> list_all P cs)
      \<and> (\<forall>x. fst (recovering m h f l) = Inr x \<longrightarrow> Q x)"
    using cs runs_result [OF k] by (auto simp: run)
qed

lemma followedBy_recovering: "followedBy m f = recovering m fails f"
  by (rule ext) (simp add: followedBy_def recovering_def fails_def split: prod.split sum.split)

lemma runs_followedBy: "runs P R m \<Longrightarrow> (\<And>x. R x \<Longrightarrow> runs P Q (f x)) \<Longrightarrow> runs P Q (followedBy m f)"
  unfolding followedBy_recovering by (rule runs_recovering [where R = R]) (auto intro: runs_intros)

lemma runs_weaken: "runs P R m \<Longrightarrow> (\<And>x. R x \<Longrightarrow> Q x) \<Longrightarrow> runs P Q m"
  by (auto simp: runs_def)

end
