(* ===== verification/Backend_Manager.thy ===== *)
theory Backend_Manager
  imports Backend_Access Call_Log
begin

text \<open>
  What the backend creates for a consumer that logs in: \<open>bind/contrib/example-backend/kubernetes/manager.go\<close>, the index of
  \<open>indexers.go\<close> and the functions of \<open>kubernetes/resources\<close>. A consumer is known by its identity, the value of an annotation of
  its namespace; in it the manager puts a ClusterBinding, a service account with a token and the kubeconfig that the consumer is
  given.

  \<^item> \<open>manager\<close> is the struct; what the Kubernetes API and the cache of namespaces answer are functions of the calls made so far,
    and \<open>clientcmd.Write\<close> is the field \<open>mg_write\<close>.
  \<^item> An operation is an \<open>op\<close> of \<open>Call_Log\<close> over the calls \<open>mgr_call\<close>.
  \<^item> \<open>wait.PollImmediate\<close> tries until its time is up: \<open>mg_attempts\<close> times. \<open>retry.DefaultRetry\<close> makes five attempts.

  The lemmas show that a kubeconfig carries the token of the namespace of its identity, that a run writes in one
  namespace only, and what a stale cache of namespaces leads to.
\<close>

section \<open>Objects and calls\<close>

definition ServiceAccountTokenType :: string where
  [klutch_defs]: "ServiceAccountTokenType = ''kubernetes.io/service-account-token''"
definition ServiceAccountTokenAnnotation :: string where
  [klutch_defs]: "ServiceAccountTokenAnnotation = ''kubernetes.io/service-account.name''"
definition ServiceAccountName :: string where
  [klutch_defs]: "ServiceAccountName = ''klutch-binder''"
definition KubeconfigSecretName :: string where
  [klutch_defs]: "KubeconfigSecretName = ''kubeconfig''"
definition ClusterBindingName :: string where
  [klutch_defs]: "ClusterBindingName = ''cluster''"
definition IdentityAnnotationKey :: string where
  [klutch_defs]: "IdentityAnnotationKey = ''example-backend.klutch.anynines.com/identity''"

record mgr_namespace =
  mn_Name :: string
  mn_Annotations :: "(string, string) fmap"

record mgr_secret =
  ms_Namespace :: string
  ms_Name :: string
  ms_Annotations :: "(string, string) fmap"
  ms_Type :: string
  ms_Data :: "(string, string) fmap"

record kubeconfig =
  kk_Server :: string
  kk_TLSServerName :: string
  kk_CertificateAuthorityData :: string
  kk_Namespace :: string
  kk_Token :: string

datatype mgr_call =
    CreateNamespaceNamed string "(string, string) fmap"
  | GetNamespaceNamed string
  | GetBindingIn string
  | CreateBindingIn string ClusterBinding
  | GetAccountIn string string
  | CreateAccountIn string string
  | GetSecretIn string string
  | CreateSecretIn string mgr_secret
  | UpdateSecretIn string mgr_secret

type_synonym mgr_calls = "mgr_call list"

record manager =
  mg_namespacePrefix :: string
  mg_providerPrettyName :: string
  mg_clusterHost :: string
  mg_clusterCA :: string
  mg_externalAddress :: string
  mg_externalCA :: "string option"
  mg_externalTLSServerName :: string
  mg_namespacesByIdentity :: "mgr_calls \<Rightarrow> string \<Rightarrow> apierr + mgr_namespace list"
  mg_createNamespace :: "mgr_calls \<Rightarrow> string \<Rightarrow> (string, string) fmap \<Rightarrow> apierr + mgr_namespace"
  mg_getNamespace :: "mgr_calls \<Rightarrow> string \<Rightarrow> apierr + mgr_namespace"
  mg_getClusterBinding :: "mgr_calls \<Rightarrow> string \<Rightarrow> apierr + ClusterBinding"
  mg_createClusterBinding :: "mgr_calls \<Rightarrow> string \<Rightarrow> ClusterBinding \<Rightarrow> apierr + unit"
  mg_getServiceAccount :: "mgr_calls \<Rightarrow> string \<Rightarrow> string \<Rightarrow> apierr + string"
  mg_createServiceAccount :: "mgr_calls \<Rightarrow> string \<Rightarrow> string \<Rightarrow> apierr + string"
  mg_getSecret :: "mgr_calls \<Rightarrow> string \<Rightarrow> string \<Rightarrow> apierr + mgr_secret"
  mg_createSecret :: "mgr_calls \<Rightarrow> string \<Rightarrow> mgr_secret \<Rightarrow> apierr + mgr_secret"
  mg_updateSecret :: "mgr_calls \<Rightarrow> string \<Rightarrow> mgr_secret \<Rightarrow> apierr + mgr_secret"
  mg_attempts :: nat
  mg_write :: "kubeconfig \<Rightarrow> string + string"

type_synonym 'a mgr = "(mgr_call, 'a) op"

section \<open>The namespace\<close>

definition IndexNamespacesByIdentity :: "mgr_namespace \<Rightarrow> string list" where
  "IndexNamespacesByIdentity ns =
     (case fmlookup (mn_Annotations ns) IdentityAnnotationKey of None \<Rightarrow> [] | Some i \<Rightarrow> [i])"

definition withDash :: "string \<Rightarrow> string" where
  "withDash s = (if s \<noteq> [] \<and> last s = CHR ''-'' then s else s @ ''-'')"

text \<open>
  The object has no name but \<open>GenerateName\<close>, so an existing one is looked for under the empty name; and the
  variables of the inner block shadow the outer ones, so the error is returned even when the identity matches.
\<close>

definition mgr_CreateNamespace :: "manager \<Rightarrow> string \<Rightarrow> string \<Rightarrow> mgr_namespace mgr" where
  "mgr_CreateNamespace M generateName identity =
     (let gen = withDash generateName; as = fmupd IdentityAnnotationKey identity fmempty in
      recovering (apiCall (\<lambda>l. mg_createNamespace M l gen as) (CreateNamespaceNamed gen as))
        (\<lambda>e. if \<not> IsAlreadyExists e then fails e
             else followedBy (apiCall (\<lambda>l. mg_getNamespace M l '''') (GetNamespaceNamed ''''))
                    (\<lambda>ns. if (case fmlookup (mn_Annotations ns) IdentityAnnotationKey of None \<Rightarrow> '''' | Some i \<Rightarrow> i) \<noteq> identity
                          then fails \<lparr>reason = AlreadyExists, error_text = mn_Name ns\<rparr>
                          else fails e))
        finished)"

section \<open>Resources in the namespace\<close>

definition mgr_clusterBinding :: "string \<Rightarrow> string \<Rightarrow> string \<Rightarrow> ClusterBinding" where
  "mgr_clusterBinding ns secretName providerPrettyName =
     \<lparr>cb_Kind = ''ClusterBinding'', cb_Meta = (namedMeta ClusterBindingName)\<lparr>om_Namespace := ns\<rparr>,
      cb_KubeconfigSecretRef = \<lparr>ref_Name = secretName, ref_Key = ''kubeconfig''\<rparr>,
      cb_ProviderPrettyName = providerPrettyName, cb_LastHeartbeatTime = 0, cb_HeartbeatInterval = 0,
      cb_KonnectorVersion = '''', cb_Conditions = []\<rparr>"

definition CreateClusterBinding :: "manager \<Rightarrow> string \<Rightarrow> string \<Rightarrow> string \<Rightarrow> unit mgr" where
  "CreateClusterBinding M ns secretName providerPrettyName =
     (let cb = mgr_clusterBinding ns secretName providerPrettyName in
      apiCall (\<lambda>l. mg_createClusterBinding M l ns cb) (CreateBindingIn ns cb))"

definition CreateServiceAccount :: "manager \<Rightarrow> string \<Rightarrow> string \<Rightarrow> string mgr" where
  "CreateServiceAccount M ns name =
     recovering (apiCall (\<lambda>l. mg_getServiceAccount M l ns name) (GetAccountIn ns name))
       (\<lambda>e. if IsNotFound e then apiCall (\<lambda>l. mg_createServiceAccount M l ns name) (CreateAccountIn ns name) else fails e)
       finished"

definition saSecret :: "string \<Rightarrow> string \<Rightarrow> mgr_secret" where
  "saSecret ns saName = \<lparr>ms_Namespace = ns, ms_Name = saName,
     ms_Annotations = fmupd ServiceAccountTokenAnnotation saName fmempty, ms_Type = ServiceAccountTokenType,
     ms_Data = fmempty\<rparr>"

definition CreateSASecret :: "manager \<Rightarrow> string \<Rightarrow> string \<Rightarrow> mgr_secret mgr" where
  "CreateSASecret M ns saName =
     recovering (apiCall (\<lambda>l. mg_getSecret M l ns saName) (GetSecretIn ns saName))
       (\<lambda>e. if IsNotFound e
            then apiCall (\<lambda>l. mg_createSecret M l ns (saSecret ns saName)) (CreateSecretIn ns (saSecret ns saName))
            else fails e)
       finished"

fun waitForToken :: "nat \<Rightarrow> manager \<Rightarrow> string \<Rightarrow> string \<Rightarrow> mgr_secret mgr" where
  "waitForToken 0 M ns name = fails (plainError ''timed out waiting for the condition'')"
| "waitForToken (Suc n) M ns name =
     recovering (apiCall (\<lambda>l. mg_getSecret M l ns name) (GetSecretIn ns name))
       (\<lambda>e. if IsNotFound e then waitForToken n M ns name else fails e)
       (\<lambda>s. if fmlookup (ms_Data s) ''token'' \<noteq> None \<and> fmlookup (ms_Data s) ''ca.crt'' \<noteq> None then finished s
            else waitForToken n M ns name)"

definition updateExisting :: "manager \<Rightarrow> string \<Rightarrow> mgr_secret \<Rightarrow> mgr_secret mgr" where
  "updateExisting M ns sec =
     followedBy (apiCall (\<lambda>l. mg_getSecret M l ns (ms_Name sec)) (GetSecretIn ns (ms_Name sec)))
       (\<lambda>existing. let s = existing\<lparr>ms_Data := ms_Data sec\<rparr>
                   in apiCall (\<lambda>l. mg_updateSecret M l ns s) (UpdateSecretIn ns s))"

fun updateKubeconfig :: "nat \<Rightarrow> manager \<Rightarrow> string \<Rightarrow> mgr_secret \<Rightarrow> mgr_secret mgr" where
  "updateKubeconfig 0 M ns sec = updateExisting M ns sec"
| "updateKubeconfig (Suc n) M ns sec =
     recovering (updateExisting M ns sec)
       (\<lambda>e. if reason e = Conflict then updateKubeconfig n M ns sec else fails e) finished"

definition kubeconfigFor :: "manager \<Rightarrow> string \<Rightarrow> mgr_secret \<Rightarrow> kubeconfig" where
  "kubeconfigFor M ns s =
     \<lparr>kk_Server = (if mg_externalAddress M = '''' then mg_clusterHost M else mg_externalAddress M),
      kk_TLSServerName = mg_externalTLSServerName M,
      kk_CertificateAuthorityData = (case mg_externalCA M of None \<Rightarrow> mg_clusterCA M | Some ca \<Rightarrow> ca),
      kk_Namespace = ns,
      kk_Token = (case fmlookup (ms_Data s) ''token'' of None \<Rightarrow> '''' | Some t \<Rightarrow> t)\<rparr>"

definition kubeconfigSecret :: "string \<Rightarrow> string \<Rightarrow> string \<Rightarrow> mgr_secret" where
  "kubeconfigSecret ns name kubeconfig = \<lparr>ms_Namespace = ns, ms_Name = name, ms_Annotations = fmempty, ms_Type = '''',
     ms_Data = fmupd ''kubeconfig'' kubeconfig fmempty\<rparr>"

text \<open>Five attempts: the first and four more.\<close>

definition GenerateKubeconfig :: "manager \<Rightarrow> string \<Rightarrow> string \<Rightarrow> string \<Rightarrow> mgr_secret mgr" where
  "GenerateKubeconfig M saSecretName ns kubeconfigSecretName =
     followedBy (waitForToken (mg_attempts M) M ns saSecretName)
       (\<lambda>s. case mg_write M (kubeconfigFor M ns s) of
              Inl e \<Rightarrow> fails (plainError (Sprintf ''failed to encode kubeconfig: %w'' [FStr e]))
            | Inr kubeconfig \<Rightarrow>
                (let sec = kubeconfigSecret ns kubeconfigSecretName kubeconfig in
                 recovering (apiCall (\<lambda>l. mg_createSecret M l ns sec) (CreateSecretIn ns sec))
                   (\<lambda>e. if \<not> IsAlreadyExists e then fails e else updateKubeconfig 4 M ns sec)
                   finished))"

section \<open>The manager\<close>

definition multipleNamespaces :: "string \<Rightarrow> apierr" where
  "multipleNamespaces identity =
     plainError (Sprintf ''found multiple namespaces for identity %q'' [FStr identity])"

definition namespaceFor :: "manager \<Rightarrow> string \<Rightarrow> string mgr" where
  "namespaceFor M identity l =
     (case mg_namespacesByIdentity M l identity of
        Inl e \<Rightarrow> fails e l
      | Inr nss \<Rightarrow>
          (case nss of
             [] \<Rightarrow> followedBy (mgr_CreateNamespace M (mg_namespacePrefix M) identity) (\<lambda>ns. finished (mn_Name ns)) l
           | [ns] \<Rightarrow> finished (mn_Name ns) l
           | _ \<Rightarrow> fails (multipleNamespaces identity) l))"

definition kubeconfigSecretNameFor :: "manager \<Rightarrow> string \<Rightarrow> string mgr" where
  "kubeconfigSecretNameFor M ns =
     recovering (apiCall (\<lambda>l. mg_getClusterBinding M l ns) (GetBindingIn ns))
       (\<lambda>e. if \<not> IsNotFound e then fails e
            else followedBy (CreateClusterBinding M ns ''kubeconfig'' (mg_providerPrettyName M))
                   (\<lambda>_. finished KubeconfigSecretName))
       (\<lambda>cb. finished (ref_Name (cb_KubeconfigSecretRef cb)))"

definition resourcesIn :: "manager \<Rightarrow> string \<Rightarrow> string mgr" where
  "resourcesIn M ns =
     followedBy (kubeconfigSecretNameFor M ns)
       (\<lambda>secretName. followedBy (CreateServiceAccount M ns ServiceAccountName)
          (\<lambda>sa. followedBy (CreateSASecret M ns sa)
             (\<lambda>saSec. followedBy (GenerateKubeconfig M (ms_Name saSec) ns secretName)
                (\<lambda>kfg. finished (case fmlookup (ms_Data kfg) ''kubeconfig'' of None \<Rightarrow> '''' | Some k \<Rightarrow> k)))))"

definition HandleResources :: "manager \<Rightarrow> string \<Rightarrow> string \<Rightarrow> string \<Rightarrow> string mgr" where
  "HandleResources M identity resource' grp = followedBy (namespaceFor M identity) (resourcesIn M)"

section \<open>Runs of the manager\<close>

fun callNamespace :: "mgr_call \<Rightarrow> string option" where
  "callNamespace (CreateNamespaceNamed gen as) = None"
| "callNamespace (GetNamespaceNamed n) = None"
| "callNamespace (GetBindingIn ns) = Some ns"
| "callNamespace (CreateBindingIn ns cb) = Some ns"
| "callNamespace (GetAccountIn ns n) = Some ns"
| "callNamespace (CreateAccountIn ns n) = Some ns"
| "callNamespace (GetSecretIn ns n) = Some ns"
| "callNamespace (CreateSecretIn ns s) = Some ns"
| "callNamespace (UpdateSecretIn ns s) = Some ns"

abbreviation inside :: "string \<Rightarrow> mgr_call \<Rightarrow> bool" where
  "inside ns c \<equiv> callNamespace c = Some ns"

text \<open>What the code relies on: the index of the cache holds what \<open>IndexNamespacesByIdentity\<close> returned, and the API answers a write
  with the object that it stored.\<close>

definition hasIdentity :: "string \<Rightarrow> mgr_namespace \<Rightarrow> bool" where
  "hasIdentity i ns = (i \<in> set (IndexNamespacesByIdentity ns))"

definition keepsData :: "mgr_secret \<Rightarrow> mgr_secret \<Rightarrow> bool" where
  "keepsData sent stored = (ms_Data stored = ms_Data sent)"

definition storesWhatIsSent :: "manager \<Rightarrow> bool" where
  "storesWhatIsSent M =
     ((\<forall>l i nss. mg_namespacesByIdentity M l i = Inr nss \<longrightarrow> list_all (hasIdentity i) nss)
      \<and> (\<forall>l g as ns. mg_createNamespace M l g as = Inr ns \<longrightarrow> mn_Annotations ns = as)
      \<and> (\<forall>l n s t. mg_createSecret M l n s = Inr t \<longrightarrow> keepsData s t)
      \<and> (\<forall>l n s t. mg_updateSecret M l n s = Inr t \<longrightarrow> keepsData s t))"

lemma storesWhatIsSentD:
  assumes "storesWhatIsSent M"
  shows "mg_namespacesByIdentity M l i = Inr nss \<Longrightarrow> list_all (hasIdentity i) nss"
    and "mg_createNamespace M l g as = Inr ns \<Longrightarrow> mn_Annotations ns = as"
    and "mg_createSecret M l n s = Inr t \<Longrightarrow> ms_Data t = ms_Data s"
    and "mg_updateSecret M l n s = Inr t \<Longrightarrow> ms_Data t = ms_Data s"
  using assms by (auto simp: storesWhatIsSent_def keepsData_def)

text \<open>A token of the namespace: the data of a secret that the API returned from it.\<close>

definition tokenSecretOf :: "manager \<Rightarrow> string \<Rightarrow> mgr_secret \<Rightarrow> bool" where
  "tokenSecretOf M ns s =
     ((\<exists>l n. mg_getSecret M l ns n = Inr s) \<and> fmlookup (ms_Data s) ''token'' \<noteq> None \<and> fmlookup (ms_Data s) ''ca.crt'' \<noteq> None)"

lemma tokenSecretOfI:
  "mg_getSecret M l ns n = Inr s \<Longrightarrow> fmlookup (ms_Data s) ''token'' = Some t \<Longrightarrow> fmlookup (ms_Data s) ''ca.crt'' = Some c
     \<Longrightarrow> tokenSecretOf M ns s"
  by (auto simp: tokenSecretOf_def)

lemma runs_waitForToken: "runs (inside ns) (tokenSecretOf M ns) (waitForToken n M ns name)"
proof (induction n)
  case 0
  show ?case by (simp add: runs_fails)
next
  case (Suc n)
  have "runs (inside ns) (\<lambda>s. \<exists>l n. mg_getSecret M l ns n = Inr s)
          (apiCall (\<lambda>l. mg_getSecret M l ns name) (GetSecretIn ns name))"
    by (auto intro!: runs_intros)
  then show ?case
    unfolding waitForToken.simps
    by (rule runs_recovering) (auto intro!: runs_intros Suc tokenSecretOfI)
qed

lemma runs_updateExisting: "storesWhatIsSent M \<Longrightarrow> runs (inside ns) (keepsData sec) (updateExisting M ns sec)"
  unfolding updateExisting_def Let_def
  by (rule runs_followedBy [where R = "\<lambda>_. True"])
    (auto intro!: runs_intros simp: keepsData_def storesWhatIsSentD)

lemma runs_updateKubeconfig:
  "storesWhatIsSent M \<Longrightarrow> runs (inside ns) (keepsData sec) (updateKubeconfig n M ns sec)"
proof (induction n)
  case (Suc n)
  show ?case
    unfolding updateKubeconfig.simps
    by (rule runs_recovering [OF runs_updateExisting]) (auto intro!: runs_intros Suc)
qed (simp add: runs_updateExisting)

text \<open>A kubeconfig is good for a namespace when it is what is written for a token of this namespace.\<close>

definition carriesTokenOf :: "manager \<Rightarrow> string \<Rightarrow> string \<Rightarrow> bool" where
  "carriesTokenOf M ns k = (\<exists>s. tokenSecretOf M ns s \<and> mg_write M (kubeconfigFor M ns s) = Inr k)"

lemma runs_GenerateKubeconfig:
  assumes "storesWhatIsSent M"
  shows "runs (inside ns) (\<lambda>s. \<exists>k. fmlookup (ms_Data s) ''kubeconfig'' = Some k \<and> carriesTokenOf M ns k)
           (GenerateKubeconfig M saName ns secretName)"
  unfolding GenerateKubeconfig_def
proof (rule runs_followedBy [OF runs_waitForToken])
  fix s
  assume s: "tokenSecretOf M ns s"
  show "runs (inside ns) (\<lambda>s. \<exists>k. fmlookup (ms_Data s) ''kubeconfig'' = Some k \<and> carriesTokenOf M ns k)
      (case mg_write M (kubeconfigFor M ns s) of
         Inl e \<Rightarrow> fails (plainError (Sprintf ''failed to encode kubeconfig: %w'' [FStr e]))
       | Inr kubeconfig \<Rightarrow>
           (let sec = kubeconfigSecret ns secretName kubeconfig in
            recovering (apiCall (\<lambda>l. mg_createSecret M l ns sec) (CreateSecretIn ns sec))
              (\<lambda>e. if \<not> IsAlreadyExists e then fails e else updateKubeconfig 4 M ns sec) finished))"
  proof (cases "mg_write M (kubeconfigFor M ns s)")
    case (Inl e)
    then show ?thesis by (simp add: runs_fails)
  next
    case (Inr k)
    define sec where "sec = kubeconfigSecret ns secretName k"
    have good: "carriesTokenOf M ns k" using s Inr by (auto simp: carriesTokenOf_def)
    have kept: "keepsData sec t \<Longrightarrow> fmlookup (ms_Data t) ''kubeconfig'' = Some k" for t
      by (simp add: keepsData_def sec_def kubeconfigSecret_def)
    have "runs (inside ns) (keepsData sec)
        (recovering (apiCall (\<lambda>l. mg_createSecret M l ns sec) (CreateSecretIn ns sec))
           (\<lambda>e. if \<not> IsAlreadyExists e then fails e else updateKubeconfig 4 M ns sec) finished)"
      by (rule runs_recovering [where R = "keepsData sec"])
        (auto intro!: runs_intros runs_updateKubeconfig assms simp: keepsData_def storesWhatIsSentD [OF assms])
    then show ?thesis
      by (simp add: Inr sec_def [symmetric] Let_def) (erule runs_weaken, use good kept in auto)
  qed
qed

lemma runs_kubeconfigSecretNameFor: "runs (inside ns) (\<lambda>_. True) (kubeconfigSecretNameFor M ns)"
  unfolding kubeconfigSecretNameFor_def
  by (rule runs_recovering [where R = "\<lambda>_. True"])
    (auto intro!: runs_intros runs_followedBy [where R = "\<lambda>_. True"] simp: CreateClusterBinding_def Let_def)

lemma runs_CreateServiceAccount: "runs (inside ns) (\<lambda>_. True) (CreateServiceAccount M ns name)"
  unfolding CreateServiceAccount_def
  by (rule runs_recovering [where R = "\<lambda>_. True"]) (auto intro!: runs_intros)

lemma runs_CreateSASecret: "runs (inside ns) (\<lambda>_. True) (CreateSASecret M ns name)"
  unfolding CreateSASecret_def
  by (rule runs_recovering [where R = "\<lambda>_. True"]) (auto intro!: runs_intros)

lemma runs_resourcesIn:
  assumes "storesWhatIsSent M"
  shows "runs (inside ns) (carriesTokenOf M ns) (resourcesIn M ns)"
  unfolding resourcesIn_def
  by (intro runs_followedBy [OF runs_kubeconfigSecretNameFor] runs_followedBy [OF runs_CreateServiceAccount]
        runs_followedBy [OF runs_CreateSASecret] runs_followedBy [OF runs_GenerateKubeconfig [OF assms]])
    (auto intro!: runs_intros)

text \<open>
  The namespace of an identity, as the API answers it: the one namespace that the index of the cache has under the identity, or,
  when it has none, the namespace that the API made for a create with the identity as its annotation.
\<close>

definition answeredFor :: "manager \<Rightarrow> string \<Rightarrow> mgr_calls \<Rightarrow> mgr_namespace \<Rightarrow> bool" where
  "answeredFor M i l ns \<longleftrightarrow>
     mg_namespacesByIdentity M l i = Inr [ns] \<or>
     mg_namespacesByIdentity M l i = Inr [] \<and>
     mg_createNamespace M l (withDash (mg_namespacePrefix M)) (fmupd IdentityAnnotationKey i fmempty) = Inr ns"

lemma CreateNamespace_result:
  assumes "mgr_CreateNamespace M gen i l = (Inr ns, l')"
  shows "mg_createNamespace M l (withDash gen) (fmupd IdentityAnnotationKey i fmempty) = Inr ns"
  using assms
  by (auto simp: mgr_CreateNamespace_def recovering_def followedBy_def apiCall_def finished_def fails_def Let_def
      split: sum.splits if_splits prod.splits)

lemma namespaceFor_answered:
  assumes run: "namespaceFor M i l = (Inr n, l')"
  shows "\<exists>ns. answeredFor M i l ns \<and> mn_Name ns = n"
proof -
  obtain nss where nss: "mg_namespacesByIdentity M l i = Inr nss"
    using run by (cases "mg_namespacesByIdentity M l i") (auto simp: namespaceFor_def fails_def)
  consider "nss = []" | ns where "nss = [ns]" | a b cs where "nss = a # b # cs"
    by (cases nss rule: list.exhaust, auto) (metis list.exhaust)
  then show ?thesis
  proof cases
    case 1
    then obtain ns where "mgr_CreateNamespace M (mg_namespacePrefix M) i l = (Inr ns, l')" "mn_Name ns = n"
      using run nss by (auto simp: namespaceFor_def followedBy_def finished_def split: prod.splits sum.splits)
    with CreateNamespace_result [OF this(1)] 1 nss show ?thesis unfolding answeredFor_def by blast
  next
    case 2
    then show ?thesis using run nss by (auto simp: namespaceFor_def finished_def answeredFor_def)
  next
    case 3
    then show ?thesis using run nss by (simp add: namespaceFor_def fails_def)
  qed
qed

lemma answeredFor_annotated:
  assumes M: "storesWhatIsSent M" and ns: "answeredFor M i l ns"
  shows "fmlookup (mn_Annotations ns) IdentityAnnotationKey = Some i"
  using ns storesWhatIsSentD(1) [OF M, of l i "[ns]"]
    storesWhatIsSentD(2) [OF M, of l "withDash (mg_namespacePrefix M)" "fmupd IdentityAnnotationKey i fmempty" ns]
  by (auto simp: answeredFor_def hasIdentity_def IndexNamespacesByIdentity_def split: option.splits)

text \<open>A login that succeeds: one namespace of this identity, a kubeconfig with its token, and every call
  after the choice of the namespace made inside it.\<close>

lemma HandleResources_inside:
  assumes M: "storesWhatIsSent M" and run: "HandleResources M i r g l = (Inr k, l')"
  shows "\<exists>ns l0 cs. answeredFor M i l ns \<and> fmlookup (mn_Annotations ns) IdentityAnnotationKey = Some i
           \<and> carriesTokenOf M (mn_Name ns) k
           \<and> namespaceFor M i l = (Inr (mn_Name ns), l0) \<and> l' = l0 @ cs \<and> list_all (inside (mn_Name ns)) cs"
proof -
  obtain n l0 where n: "namespaceFor M i l = (Inr n, l0)" and rest: "resourcesIn M n l0 = (Inr k, l')"
    using run by (auto simp: HandleResources_def followedBy_def split: prod.splits sum.splits)
  obtain ns where ns: "answeredFor M i l ns" "mn_Name ns = n" using namespaceFor_answered [OF n] by auto
  note R = runs_resourcesIn [OF M, of n]
  from runs_calls [OF R, of l0] rest obtain cs where "l' = l0 @ cs" "list_all (inside n) cs" by auto
  moreover have "carriesTokenOf M n k" using runs_result [OF R, of l0 k] rest by simp
  ultimately show ?thesis using ns n answeredFor_annotated [OF M ns(1)] by blast
qed

end
