(* ===== verification/Base64.thy ===== *)
theory Base64
  imports Klutch_Prelude
begin

text \<open>
  \<open>encoding/base64\<close>, as far as the backend uses it: an encoding is its two last characters, which is all that
  \<open>StdEncoding\<close> and \<open>URLEncoding\<close> differ in, and whether it pads. Bytes are numbers below 256. Decoding skips line breaks, wants
  the padding where the encoding has one and ignores the bits after the last byte, as Go does.

  The lemmas show that decoding inverts encoding, and that what one alphabet encodes is decoded with the other exactly
  when it has none of the two characters.
\<close>

section \<open>Definitions\<close>

record encoding =
  en_62 :: char
  en_63 :: char
  en_pad :: bool

definition StdEncoding :: encoding where
  "StdEncoding = \<lparr>en_62 = CHR ''+'', en_63 = CHR ''/'', en_pad = True\<rparr>"

definition URLEncoding :: encoding where
  "URLEncoding = \<lparr>en_62 = CHR ''-'', en_63 = CHR ''_'', en_pad = True\<rparr>"

definition RawURLEncoding :: encoding where
  "RawURLEncoding = URLEncoding\<lparr>en_pad := False\<rparr>"

definition digitFor :: "encoding \<Rightarrow> nat \<Rightarrow> char" where
  "digitFor E i =
     (if i < 26 then char_of (65 + i)
      else if i < 52 then char_of (71 + i)
      else if i < 62 then char_of (i - 4)
      else if i = 62 then en_62 E else en_63 E)"

definition digitOf :: "encoding \<Rightarrow> char \<Rightarrow> nat option" where
  "digitOf E c =
     (let n = of_char c in
      if 65 \<le> n \<and> n \<le> 90 then Some (n - 65)
      else if 97 \<le> n \<and> n \<le> 122 then Some (n - 71)
      else if 48 \<le> n \<and> n \<le> 57 then Some (n + 4)
      else if c = en_62 E then Some 62
      else if c = en_63 E then Some 63
      else None)"

fun encodeBytes :: "encoding \<Rightarrow> nat list \<Rightarrow> string" where
  "encodeBytes E [] = []"
| "encodeBytes E [x] =
     [digitFor E (x div 4), digitFor E ((x mod 4) * 16)] @ (if en_pad E then ''=='' else [])"
| "encodeBytes E [x, y] =
     [digitFor E (x div 4), digitFor E ((x mod 4) * 16 + y div 16), digitFor E ((y mod 16) * 4)]
     @ (if en_pad E then ''='' else [])"
| "encodeBytes E (x # y # z # r) =
     [digitFor E (x div 4), digitFor E ((x mod 4) * 16 + y div 16), digitFor E ((y mod 16) * 4 + z div 64),
      digitFor E (z mod 64)] @ encodeBytes E r"

definition oneByte :: "encoding \<Rightarrow> char \<Rightarrow> char \<Rightarrow> nat list option" where
  "oneByte E a b =
     (case (digitOf E a, digitOf E b) of
        (Some i, Some j) \<Rightarrow> Some [i * 4 + j div 16]
      | _ \<Rightarrow> None)"

definition twoBytes :: "encoding \<Rightarrow> char \<Rightarrow> char \<Rightarrow> char \<Rightarrow> nat list option" where
  "twoBytes E a b c =
     (case (digitOf E a, digitOf E b, digitOf E c) of
        (Some i, Some j, Some k) \<Rightarrow> Some [i * 4 + j div 16, (j mod 16) * 16 + k div 4]
      | _ \<Rightarrow> None)"

definition threeBytes :: "encoding \<Rightarrow> char \<Rightarrow> char \<Rightarrow> char \<Rightarrow> char \<Rightarrow> nat list option" where
  "threeBytes E a b c d =
     (case (digitOf E a, digitOf E b, digitOf E c, digitOf E d) of
        (Some i, Some j, Some k, Some l) \<Rightarrow>
          Some [i * 4 + j div 16, (j mod 16) * 16 + k div 4, (k mod 4) * 64 + l]
      | _ \<Rightarrow> None)"

fun decodeDigits :: "encoding \<Rightarrow> string \<Rightarrow> nat list option" where
  "decodeDigits E [] = Some []"
| "decodeDigits E [a] = None"
| "decodeDigits E [a, b] = (if en_pad E then None else oneByte E a b)"
| "decodeDigits E [a, b, c] = (if en_pad E then None else twoBytes E a b c)"
| "decodeDigits E (a # b # c # d # r) =
     (if en_pad E \<and> d = CHR ''=''
      then (if r \<noteq> [] then None else if c = CHR ''='' then oneByte E a b else twoBytes E a b c)
      else case threeBytes E a b c d of
             None \<Rightarrow> None
           | Some xs \<Rightarrow> map_option (\<lambda>ys. xs @ ys) (decodeDigits E r))"

definition lineBreak :: "char \<Rightarrow> bool" where
  "lineBreak c \<longleftrightarrow> of_char c \<in> {10, 13 :: nat}"

definition EncodeToString :: "encoding \<Rightarrow> string \<Rightarrow> string" where
  "EncodeToString E s = encodeBytes E (map of_char s)"

definition DecodeString :: "encoding \<Rightarrow> string \<Rightarrow> string option" where
  "DecodeString E s = map_option (map char_of) (decodeDigits E (filter (\<lambda>c. \<not> lineBreak c) s))"

section \<open>Digits\<close>

text \<open>The two characters are distinct, and neither letters, digits, padding nor line breaks.\<close>

definition plainSymbol :: "char \<Rightarrow> bool" where
  "plainSymbol c \<longleftrightarrow>
     (let n = (of_char c :: nat) in
      \<not> (65 \<le> n \<and> n \<le> 90) \<and> \<not> (97 \<le> n \<and> n \<le> 122) \<and> \<not> (48 \<le> n \<and> n \<le> 57) \<and> c \<noteq> CHR ''='' \<and> \<not> lineBreak c)"

definition validEncoding :: "encoding \<Rightarrow> bool" where
  "validEncoding E \<longleftrightarrow> en_62 E \<noteq> en_63 E \<and> plainSymbol (en_62 E) \<and> plainSymbol (en_63 E)"

lemma valid_encodings [simp]: "validEncoding StdEncoding" "validEncoding URLEncoding" "validEncoding RawURLEncoding"
  by (simp_all add: validEncoding_def StdEncoding_def URLEncoding_def RawURLEncoding_def plainSymbol_def lineBreak_def)

text \<open>The first 62 digits do not depend on the encoding.\<close>

lemma digitOf_common: "i < 62 \<Longrightarrow> digitOf E (digitFor F i) = Some i"
  by (auto simp: digitOf_def digitFor_def Let_def)

lemma digitOf_symbol:
  assumes "plainSymbol c"
  shows "digitOf E c = (if c = en_62 E then Some 62 else if c = en_63 E then Some 63 else None)"
proof -
  have "\<not> (65 \<le> (of_char c :: nat) \<and> of_char c \<le> (90 :: nat))" "\<not> (97 \<le> (of_char c :: nat) \<and> of_char c \<le> (122 :: nat))"
    "\<not> (48 \<le> (of_char c :: nat) \<and> of_char c \<le> (57 :: nat))"
    using assms unfolding plainSymbol_def Let_def by blast+
  then show ?thesis unfolding digitOf_def Let_def by (simp only: if_False)
qed

lemma digitOf_digitFor:
  assumes "validEncoding E" "i < 64"
  shows "digitOf E (digitFor E i) = Some i"
proof (cases "i < 62")
  case False
  then have "i = 62 \<or> i = 63"
    using assms(2) by linarith
  then show ?thesis
    using assms(1) by (auto simp: digitFor_def digitOf_symbol validEncoding_def)
qed (simp add: digitOf_common)

lemma digitFor_code: "i < 62 \<Longrightarrow> of_char (digitFor E i) \<notin> {61, 10, 13 :: nat}"
  by (auto simp: digitFor_def)

lemma digitFor_plain:
  assumes "validEncoding E"
  shows "digitFor E i \<noteq> CHR ''=''" and "\<not> lineBreak (digitFor E i)"
proof -
  consider "i < 62" | "digitFor E i = en_62 E" | "digitFor E i = en_63 E"
    by (cases "i < 62"; cases "i = 62") (simp_all add: digitFor_def)
  then have "digitFor E i \<noteq> CHR ''='' \<and> \<not> lineBreak (digitFor E i)"
  proof cases
    case 1
    have "of_char (CHR ''='') = (61 :: nat)"
      by simp
    with digitFor_code [OF 1, of E] show ?thesis
      unfolding lineBreak_def by (metis insertCI)
  qed (use assms in \<open>simp_all add: validEncoding_def plainSymbol_def Let_def\<close>)
  then show "digitFor E i \<noteq> CHR ''=''" and "\<not> lineBreak (digitFor E i)"
    by blast+
qed

section \<open>Decoding inverts encoding\<close>

lemma pad_no_break: "\<not> lineBreak (CHR ''='')"
  by (simp add: lineBreak_def)

lemma encode_no_break: "validEncoding E \<Longrightarrow> filter (\<lambda>c. \<not> lineBreak c) (encodeBytes E xs) = encodeBytes E xs"
  by (induction E xs rule: encodeBytes.induct) (simp_all add: digitFor_plain pad_no_break)

lemma decode_encode_bytes:
  assumes "validEncoding E"
  shows "list_all (\<lambda>x. x < 256) xs \<Longrightarrow> decodeDigits E (encodeBytes E xs) = Some xs"
  using assms
proof (induction E xs rule: encodeBytes.induct)
  case (4 E x y z r)
  have "x div 4 < 64" "(x mod 4) * 16 + y div 16 < 64" "(y mod 16) * 4 + z div 64 < 64" "z mod 64 < 64"
    using "4.prems"(1) by auto
  moreover have "z div 64 < 4" "y div 16 < 16"
    using "4.prems"(1) by auto
  ultimately show ?case
    using 4 by (simp add: threeBytes_def digitOf_digitFor digitFor_plain)
qed (auto simp: oneByte_def twoBytes_def digitOf_digitFor digitFor_plain)

lemma of_char_less: "of_char c < (256 :: nat)"
  by (metis mod_less_divisor of_char_mod_256 zero_less_numeral)

lemma Decode_Encode:
  assumes "validEncoding E"
  shows "DecodeString E (EncodeToString E s) = Some s"
proof -
  have "list_all (\<lambda>x. x < 256) (map of_char s :: nat list)"
    by (simp add: list_all_iff of_char_less)
  then show ?thesis
    using assms by (simp add: DecodeString_def EncodeToString_def encode_no_break decode_encode_bytes comp_def)
qed

section \<open>The wrong alphabet\<close>

text \<open>An encoding that differs in its two characters only.\<close>

definition foreign :: "encoding \<Rightarrow> encoding \<Rightarrow> bool" where
  "foreign E F \<longleftrightarrow> validEncoding E \<and> validEncoding F \<and> en_pad E = en_pad F \<and>
     {en_62 E, en_63 E} \<inter> {en_62 F, en_63 F} = {}"

lemma std_url_foreign: "foreign StdEncoding URLEncoding"
  by (simp add: foreign_def) (simp add: StdEncoding_def URLEncoding_def)

lemma digitOf_foreign:
  assumes "foreign E F" "i < 64"
  shows "digitOf E (digitFor F i) = (if i < 62 then Some i else None)"
proof (cases "i < 62")
  case False
  then have "i = 62 \<or> i = 63"
    using assms(2) by linarith
  then show ?thesis
    using assms(1) by (auto simp: foreign_def digitFor_def digitOf_symbol validEncoding_def)
qed (simp add: digitOf_common)

text \<open>The digits of the last two values, which the other encoding does not know.\<close>

definition symbols :: "encoding \<Rightarrow> char set" where
  "symbols F = {en_62 F, en_63 F}"

lemma digitFor_symbols:
  assumes "validEncoding F" "i < 64"
  shows "digitFor F i \<in> symbols F \<longleftrightarrow> 62 \<le> i"
proof
  assume "digitFor F i \<in> symbols F"
  then have "digitOf F (digitFor F i) = Some 62 \<or> digitOf F (digitFor F i) = Some 63"
    using assms(1) by (auto simp: symbols_def validEncoding_def digitOf_symbol)
  then show "62 \<le> i"
    using digitOf_digitFor [OF assms] by auto
next
  assume "62 \<le> i"
  then have "i = 62 \<or> i = 63"
    using assms(2) by linarith
  then show "digitFor F i \<in> symbols F"
    by (auto simp: symbols_def digitFor_def)
qed

lemma pad_symbols: "validEncoding F \<Longrightarrow> CHR ''='' \<notin> symbols F"
  by (auto simp: symbols_def validEncoding_def plainSymbol_def Let_def)

lemma decode_foreign_bytes:
  assumes "foreign E F"
  shows "list_all (\<lambda>x. x < 256) xs \<Longrightarrow>
    decodeDigits E (encodeBytes F xs) = (if set (encodeBytes F xs) \<inter> symbols F = {} then Some xs else None)"
  using assms
proof (induction F xs rule: encodeBytes.induct)
  case (2 F x)
  then have v: "validEncoding F" "en_pad E = en_pad F" and
      "x div 4 < 64" "(x mod 4) * 16 < 64"
    by (auto simp: foreign_def)
  then show ?case
    using 2 by (auto simp: oneByte_def digitOf_foreign digitFor_symbols pad_symbols)
next
  case (3 F x y)
  then have v: "validEncoding F" "en_pad E = en_pad F" and
      "x div 4 < 64" "(x mod 4) * 16 + y div 16 < 64" "(y mod 16) * 4 < 64"
    by (auto simp: foreign_def)
  then show ?case
    using 3 by (auto simp: twoBytes_def digitOf_foreign digitFor_symbols pad_symbols digitFor_plain)
next
  case (4 F x y z r)
  then have v: "validEncoding F" "en_pad E = en_pad F" and
      "x div 4 < 64" "(x mod 4) * 16 + y div 16 < 64" "(y mod 16) * 4 + z div 64 < 64" "z mod 64 < 64"
      "z div 64 < 4" "y div 16 < 16"
    by (auto simp: foreign_def)
  then show ?case
    using 4 by (auto simp: threeBytes_def digitOf_foreign digitFor_symbols digitFor_plain)
qed simp

text \<open>Decoding with one of the two alphabets what the other encoded.\<close>

lemma Decode_foreign:
  "DecodeString StdEncoding (EncodeToString URLEncoding s) =
     (if CHR ''-'' \<in> set (EncodeToString URLEncoding s) \<or> CHR ''_'' \<in> set (EncodeToString URLEncoding s)
      then None else Some s)"
proof -
  have "list_all (\<lambda>x. x < 256) (map of_char s :: nat list)"
    by (simp add: list_all_iff of_char_less)
  moreover have "symbols URLEncoding = {CHR ''-'', CHR ''_''}"
    by (simp add: symbols_def URLEncoding_def)
  ultimately show ?thesis
    using decode_foreign_bytes [OF std_url_foreign, of "map of_char s"]
    by (auto simp: DecodeString_def EncodeToString_def encode_no_break comp_def)
qed

section \<open>Where the two alphabets differ\<close>

fun everyThird :: "'a list \<Rightarrow> 'a list" where
  "everyThird (x # y # z # r) = z # everyThird r"
| "everyThird xs = []"

lemma everyThird_map: "everyThird (map f xs) = map f (everyThird xs)"
  by (induction xs rule: everyThird.induct) simp_all

lemma set_everyThird: "set (everyThird xs) \<subseteq> set xs"
  by (induction xs rule: everyThird.induct) auto

text \<open>Of bytes below 128 only every third can give one of the two last digits: with six low bits set, or all but the lowest.\<close>

lemma encode_symbols:
  assumes "validEncoding F" "list_all (\<lambda>x. x < 128) xs"
  shows "set (encodeBytes F xs) \<inter> symbols F = {} \<longleftrightarrow> list_all (\<lambda>z. z mod 64 < 62) (everyThird xs)"
  using assms
proof (induction F xs rule: encodeBytes.induct)
  case (2 F x)
  then have "x div 4 < 62" "(x mod 4) * 16 < 62" by auto
  then show ?case using 2 by (auto simp: digitFor_symbols pad_symbols)
next
  case (3 F x y)
  then have "x div 4 < 62" "(x mod 4) * 16 + y div 16 < 62" "(y mod 16) * 4 < 62" by auto
  then show ?case using 3 by (auto simp: digitFor_symbols pad_symbols)
next
  case (4 F x y z r)
  then have "x div 4 < 62" "(x mod 4) * 16 + y div 16 < 62" "(y mod 16) * 4 + z div 64 < 62" "z mod 64 < 64" by auto
  then show ?case using 4 by (auto simp: digitFor_symbols)
qed simp

text \<open>On ASCII: a question mark, a tilde, a greater-than sign or DEL.\<close>

definition differs :: "char \<Rightarrow> bool" where
  "differs c \<longleftrightarrow> of_char c mod 64 \<ge> (62 :: nat)"

lemma Decode_foreign_ascii:
  assumes "list_all (\<lambda>c. of_char c < (128 :: nat)) s"
  shows "DecodeString StdEncoding (EncodeToString URLEncoding s) =
    (if list_all (\<lambda>c. \<not> differs c) (everyThird s) then Some s else None)"
proof -
  have small: "list_all (\<lambda>x. x < 128) (map of_char s :: nat list)"
    using assms by (simp add: list_all_iff)
  have "symbols URLEncoding = {CHR ''-'', CHR ''_''}"
    by (simp add: symbols_def URLEncoding_def)
  then have "(CHR ''-'' \<in> set (EncodeToString URLEncoding s) \<or> CHR ''_'' \<in> set (EncodeToString URLEncoding s))
      \<longleftrightarrow> \<not> list_all (\<lambda>z. z mod 64 < 62) (everyThird (map of_char s :: nat list))"
    using encode_symbols [OF _ small, of URLEncoding] by (auto simp: EncodeToString_def)
  then show ?thesis
    by (auto simp: Decode_foreign everyThird_map list_all_iff differs_def not_le)
qed

end
