(* ===== verification/Backend_Login.thy ===== *)
theory Backend_Login
  imports Backend_Manager Backend_Exports Cluster_Binding Base64
begin

text \<open>
  The web side of the example backend: \<open>bind/contrib/example-backend/http/handler.go\<close> and \<open>oidc.go\<close> with the cookies of
  \<open>cookie/cookie.go\<close> and \<open>cookie/session.go\<close>. A browser is sent to \<open>/authorize\<close>, from there to the OIDC provider, back to
  \<open>/callback\<close>, which stores a session in a cookie, then to \<open>/resources\<close> and \<open>/bind\<close>, which answers with a kubeconfig.

  \<^item> \<open>web_request\<close> is what a handler reads of \<open>http.Request\<close>. \<open>wq_Form\<close> is empty unless \<open>ParseForm\<close> was called.
  \<^item> A handler returns the response that it wrote, or \<open>Panicked\<close>; \<open>handleBind\<close> also returns the calls of the manager.
  \<^item> \<open>weblib\<close> holds what is not under \<open>src\<close> or depends on the environment: OAuth2 and OIDC, the secure cookies, \<open>msgpack\<close>, the
    JSON and URL functions on the types used here, the HTML template and the clock.

  The lemmas show which states survive the way through the provider, that a session is read back as it was stored, and for
  whom \<open>/bind\<close> prepares access.
\<close>

section \<open>Requests, responses and cookies\<close>

type_synonym url_values = "(string \<times> string list) list"

definition valuesGet :: "url_values \<Rightarrow> string \<Rightarrow> string" where
  "valuesGet vs k = (case map_of vs k of Some (v # _) \<Rightarrow> v | _ \<Rightarrow> '''')"

record web_request =
  wq_Host :: string
  wq_Query :: url_values
  wq_Form :: url_values
  wq_Cookies :: "(string \<times> string) list"

datatype SameSite = SameSiteUnset | SameSiteLaxMode | SameSiteStrictMode | SameSiteNoneMode

record http_cookie =
  ck_Name :: string
  ck_Value :: string
  ck_Path :: string
  ck_Domain :: string
  ck_Expires :: int
  ck_HttpOnly :: bool
  ck_Secure :: bool
  ck_SameSite :: SameSite

record web_response =
  wp_Status :: nat
  wp_Headers :: "(string, string) fmap"
  wp_Cookies :: "http_cookie list"
  wp_Location :: string
  wp_Body :: string

datatype handled = Responds web_response | Panicked string

definition newResponse :: web_response where
  "newResponse = \<lparr>wp_Status = 200, wp_Headers = fmempty, wp_Cookies = [], wp_Location = '''', wp_Body = ''''\<rparr>"

definition httpError :: "web_response \<Rightarrow> string \<Rightarrow> nat \<Rightarrow> handled" where
  "httpError w msg code =
     Responds (w\<lparr>wp_Status := code,
                 wp_Headers := fmupd ''X-Content-Type-Options'' ''nosniff''
                                 (fmupd ''Content-Type'' ''text/plain; charset=utf-8'' (wp_Headers w)),
                 wp_Body := msg @ [CHR 0x0A]\<rparr>)"

definition httpRedirect :: "web_response \<Rightarrow> string \<Rightarrow> handled" where
  "httpRedirect w target = Responds (w\<lparr>wp_Status := 302, wp_Location := target\<rparr>)"

definition writeBody :: "web_response \<Rightarrow> string \<Rightarrow> string \<Rightarrow> handled" where
  "writeBody w contentType b =
     Responds (w\<lparr>wp_Headers := fmupd ''Content-Type'' contentType (wp_Headers w), wp_Body := b\<rparr>)"

text \<open>\<open>http.SetCookie\<close> drops a cookie whose name is not a token of RFC 7230.\<close>

definition isTokenChar :: "char \<Rightarrow> bool" where
  "isTokenChar c =
     (let n = of_char c :: nat in
      48 \<le> n \<and> n \<le> 57 \<or> 65 \<le> n \<and> n \<le> 90 \<or> 97 \<le> n \<and> n \<le> 122 \<or> c \<in> set ''!#$%&*+-.^_|~'' \<or> n = 39 \<or> n = 96)"

definition SetCookie :: "web_response \<Rightarrow> http_cookie \<Rightarrow> web_response" where
  "SetCookie w ck =
     (if ck_Name ck \<noteq> '''' \<and> list_all isTokenChar (ck_Name ck) then w\<lparr>wp_Cookies := wp_Cookies w @ [ck]\<rparr> else w)"

definition ParseSameSite :: "string \<Rightarrow> string + SameSite" where
  "ParseSameSite v =
     (if v = ''lax'' then Inr SameSiteLaxMode
      else if v = ''strict'' then Inr SameSiteStrictMode
      else if v = ''none'' then Inr SameSiteNoneMode
      else if v = '''' then Inr SameSiteUnset
      else Inl (Sprintf ''Invalid value for SameSite: %s'' [FStr v]))"

definition MakeCookie :: "int \<Rightarrow> string \<Rightarrow> string \<Rightarrow> int \<Rightarrow> string + http_cookie" where
  "MakeCookie now name value expiration =
     (case ParseSameSite '''' of
        Inl p \<Rightarrow> Inl p
      | Inr s \<Rightarrow> Inr \<lparr>ck_Name = name, ck_Value = value, ck_Path = ''/'', ck_Domain = '''', ck_Expires = now + expiration,
                      ck_HttpOnly = True, ck_Secure = False, ck_SameSite = s\<rparr>)"

section \<open>Sessions and the OIDC provider\<close>

record SessionState =
  ss_CreatedAt :: int
  ss_ExpiresOn :: int
  ss_AccessToken :: string
  ss_IDToken :: string
  ss_RefreshToken :: string
  ss_RedirectURL :: string
  ss_SessionID :: string
  ss_ClusterID :: string

record AuthCode =
  ac_RedirectURL :: string
  ac_SessionID :: string
  ac_ClusterID :: string

record OIDCServiceProvider =
  op_clientID :: string
  op_clientSecret :: string
  op_redirectURI :: string
  op_issuerURL :: string
  op_endpoint :: string

record oauth2_Config =
  oc_ClientID :: string
  oc_ClientSecret :: string
  oc_Endpoint :: string
  oc_RedirectURL :: string
  oc_Scopes :: "string list"

record oauth2_Token =
  ot_AccessToken :: string
  ot_RefreshToken :: string
  ot_Expiry :: int
  ot_IDToken :: "string option"

text \<open>The provider is found under its issuer URL; it gives the endpoint.\<close>

definition NewOIDCServiceProvider ::
  "(string \<Rightarrow> string + string) \<Rightarrow> string \<Rightarrow> string \<Rightarrow> string \<Rightarrow> string \<Rightarrow> string + OIDCServiceProvider" where
  "NewOIDCServiceProvider oidc_NewProvider clientID clientSecret redirectURI issuerURL =
     (case oidc_NewProvider issuerURL of
        Inl e \<Rightarrow> Inl e
      | Inr endpoint \<Rightarrow> Inr \<lparr>op_clientID = clientID, op_clientSecret = clientSecret, op_redirectURI = redirectURI,
                             op_issuerURL = issuerURL, op_endpoint = endpoint\<rparr>)"

definition OIDCProviderConfig :: "OIDCServiceProvider \<Rightarrow> string list \<Rightarrow> oauth2_Config" where
  "OIDCProviderConfig P scopes = \<lparr>oc_ClientID = op_clientID P, oc_ClientSecret = op_clientSecret P,
     oc_Endpoint = op_endpoint P, oc_RedirectURL = op_redirectURI P, oc_Scopes = scopes\<rparr>"

definition session_Encode :: "(SessionState \<Rightarrow> string + string) \<Rightarrow> SessionState \<Rightarrow> string + string" where
  "session_Encode msgpack_Marshal s = msgpack_Marshal s"

definition session_Decode ::
  "(string \<Rightarrow> string) \<Rightarrow> (string \<Rightarrow> string + SessionState) \<Rightarrow> string \<Rightarrow> string + SessionState" where
  "session_Decode corruptInput msgpack_Unmarshal data =
     (case DecodeString RawURLEncoding data of
        None \<Rightarrow> Inl (corruptInput data)
      | Some decoded \<Rightarrow>
          (case msgpack_Unmarshal decoded of
             Inl e \<Rightarrow> Inl (Sprintf ''error unmarshalling data to session state: %w'' [FStr e])
           | Inr ss \<Rightarrow> Inr ss))"

section \<open>Answers to a consumer\<close>

record BindingProvider =
  bp_APIVersion :: string
  bp_Kind :: string
  bp_Version :: string
  bp_ProviderPrettyName :: string
  bp_AuthenticationMethods :: "(string \<times> string option) list"

record ExportRequestResponse =
  er_APIVersion :: string
  er_Kind :: string
  er_Name :: string
  er_Resources :: "(GroupResource \<times> PermissionClaim list) list"

record BindingResponse =
  br_APIVersion :: string
  br_Kind :: string
  br_OAuth2CodeGrant :: "(string \<times> string) option"
  br_Kubeconfig :: string
  br_Requests :: "string list"

record weblib =
  wl_now :: int
  wl_epochText :: string
  wl_quoteForm :: "url_values \<Rightarrow> string"
  wl_corruptInput :: "string \<Rightarrow> string"
  wl_marshalProvider :: "BindingProvider \<Rightarrow> string + string"
  wl_marshalAuthCode :: "AuthCode \<Rightarrow> string + string"
  wl_unmarshalAuthCode :: "string \<Rightarrow> string + AuthCode"
  wl_unmarshalIDToken :: "string \<Rightarrow> string + string \<times> string"
  wl_marshalRequest :: "ExportRequestResponse \<Rightarrow> string + string"
  wl_marshalResponse :: "BindingResponse \<Rightarrow> string + string"
  wl_AuthCodeURL :: "oauth2_Config \<Rightarrow> string \<Rightarrow> string"
  wl_Exchange :: "oauth2_Config \<Rightarrow> string \<Rightarrow> string + oauth2_Token"
  wl_seal :: "string \<Rightarrow> string \<Rightarrow> string \<Rightarrow> SessionState \<Rightarrow> string + string"
  wl_unseal :: "string \<Rightarrow> string \<Rightarrow> string \<Rightarrow> string \<Rightarrow> string + SessionState"
  wl_addToQuery :: "string \<Rightarrow> string \<Rightarrow> string \<Rightarrow> string + string"
  wl_resourcesPage :: "string \<Rightarrow> CRD list \<Rightarrow> string + string"

section \<open>The handlers\<close>

record handler =
  hd_oidc :: OIDCServiceProvider
  hd_scope :: string
  hd_oidcAuthorizeURL :: string
  hd_backendCallbackURL :: string
  hd_providerPrettyName :: string
  hd_testingAutoSelect :: string
  hd_cookieEncryptionKey :: string
  hd_cookieSigningKey :: string
  hd_crds :: "apierr + CRD list"
  hd_templates :: "apierr + APIServiceExportTemplate list"
  hd_kubeManager :: manager
  hd_gitVersion :: string

datatype route = ServiceExportRoute | ResourcesRoute | BindRoute | AuthorizeRoute | CallbackRoute

definition AddRoutes :: "(string \<times> string \<times> route) list" where
  "AddRoutes = [(''/export'', ''GET'', ServiceExportRoute), (''/resources'', ''GET'', ResourcesRoute),
     (''/bind'', ''GET'', BindRoute), (''/authorize'', ''GET'', AuthorizeRoute), (''/callback'', ''GET'', CallbackRoute)]"

definition handleServiceExport :: "weblib \<Rightarrow> handler \<Rightarrow> web_request \<Rightarrow> handled" where
  "handleServiceExport L h r =
     (let authorizeURL = (if hd_oidcAuthorizeURL h = ''''
                          then Sprintf ''http://%s/authorize'' [FStr (wq_Host r)] else hd_oidcAuthorizeURL h);
          ver = (case BinaryVersion (hd_gitVersion h) of Inl _ \<Rightarrow> ''v0.0.0'' | Inr v \<Rightarrow> v);
          provider = \<lparr>bp_APIVersion = ''v1alpha1'', bp_Kind = ''BindingProvider'', bp_Version = ver,
                      bp_ProviderPrettyName = ''example-backend'',
                      bp_AuthenticationMethods = [(''OAuth2CodeGrant'', Some authorizeURL)]\<rparr>
      in case wl_marshalProvider L provider of
           Inl e \<Rightarrow> httpError newResponse e 500
         | Inr bs \<Rightarrow> writeBody newResponse ''application/json'' bs)"

text \<open>The order in which \<open>range\<close> visits the headers does not matter: their keys differ.\<close>

definition prepareNoCache :: "weblib \<Rightarrow> web_response \<Rightarrow> web_response" where
  "prepareNoCache L w =
     w\<lparr>wp_Headers := fmupd ''X-Accel-Expires'' ''0''
         (fmupd ''Cache-Control'' ''no-cache, no-store, must-revalidate, max-age=0''
            (fmupd ''Expires'' (wl_epochText L) (wp_Headers w)))\<rparr>"

definition authCodeOf :: "web_request \<Rightarrow> AuthCode" where
  "authCodeOf r =
     (let u = valuesGet (wq_Query r) ''u''; p = valuesGet (wq_Query r) ''p'' in
      \<lparr>ac_RedirectURL = (if p \<noteq> '''' \<and> u = '''' then Sprintf ''http://localhost:%s/callback'' [FStr p] else u),
       ac_SessionID = valuesGet (wq_Query r) ''s'', ac_ClusterID = valuesGet (wq_Query r) ''c''\<rparr>)"

definition handleAuthorize :: "weblib \<Rightarrow> handler \<Rightarrow> web_request \<Rightarrow> handled" where
  "handleAuthorize L h r =
     (let code = authCodeOf r in
      if ac_RedirectURL code = '''' \<or> ac_SessionID code = '''' \<or> ac_ClusterID code = ''''
      then httpError newResponse ''missing redirect_url or session_id'' 400
      else case wl_marshalAuthCode L code of
             Inl e \<Rightarrow> httpError newResponse e 500
           | Inr dataCode \<Rightarrow>
               httpRedirect newResponse
                 (wl_AuthCodeURL L (OIDCProviderConfig (hd_oidc h) [''openid'', ''profile'', ''email'', ''offline_access''])
                    (EncodeToString URLEncoding dataCode)))"

fun Split :: "char \<Rightarrow> string \<Rightarrow> string list" where
  "Split sep [] = [[]]"
| "Split sep (c # cs) = (if c = sep then [] # Split sep cs
                         else (case Split sep cs of [] \<Rightarrow> [[c]] | p # ps \<Rightarrow> (c # p) # ps))"

definition parseJWT :: "weblib \<Rightarrow> string \<Rightarrow> string + string" where
  "parseJWT L p =
     (let parts = Split (CHR ''.'') p in
      if length parts < 2
      then Inl (Sprintf ''oidc: malformed jwt, expected 3 parts got %d'' [FInt (int (length parts))])
      else case DecodeString RawURLEncoding (parts ! 1) of
             None \<Rightarrow> Inl (Sprintf ''oidc: malformed jwt payload: %v'' [FStr (wl_corruptInput L (parts ! 1))])
           | Some payload \<Rightarrow> Inr payload)"

text \<open>\<open>r.Form.Get\<close>, and the query when that is empty.\<close>

definition formOrQuery :: "web_request \<Rightarrow> string \<Rightarrow> string" where
  "formOrQuery r k = (if valuesGet (wq_Form r) k = '''' then valuesGet (wq_Query r) k else valuesGet (wq_Form r) k)"

definition cookieNameFor :: "string \<Rightarrow> string" where
  "cookieNameFor sid = ''klutch-bind-'' @ sid"

definition sessionFor :: "weblib \<Rightarrow> oauth2_Token \<Rightarrow> string \<Rightarrow> AuthCode \<Rightarrow> SessionState" where
  "sessionFor L token jwt ac =
     \<lparr>ss_CreatedAt = wl_now L, ss_ExpiresOn = ot_Expiry token, ss_AccessToken = ot_AccessToken token, ss_IDToken = jwt,
      ss_RefreshToken = ot_RefreshToken token, ss_RedirectURL = ac_RedirectURL ac, ss_SessionID = ac_SessionID ac,
      ss_ClusterID = ac_ClusterID ac\<rparr>"

text \<open>After the state is decoded: the code is exchanged for a token, and the session is stored in a cookie for one hour.\<close>

definition startSession :: "weblib \<Rightarrow> handler \<Rightarrow> string \<Rightarrow> AuthCode \<Rightarrow> handled" where
  "startSession L h code authCode =
     (case wl_Exchange L (OIDCProviderConfig (hd_oidc h) []) code of
        Inl e \<Rightarrow> httpError newResponse ''internal error'' 500
      | Inr token \<Rightarrow>
          (case ot_IDToken token of
             None \<Rightarrow> httpError newResponse ''internal error'' 500
           | Some jwtStr \<Rightarrow>
               (case parseJWT L jwtStr of
                  Inl e \<Rightarrow> httpError newResponse ''internal error'' 500
                | Inr jwt \<Rightarrow>
                    (let cookieName = cookieNameFor (ac_SessionID authCode) in
                     case wl_seal L (hd_cookieSigningKey h) (hd_cookieEncryptionKey h) cookieName
                            (sessionFor L token jwt authCode) of
                       Inl e \<Rightarrow> httpError newResponse ''internal error'' 500
                     | Inr encoded \<Rightarrow>
                         (case MakeCookie (wl_now L) cookieName encoded 3600000000000 of
                            Inl p \<Rightarrow> Panicked p
                          | Inr ck \<Rightarrow> httpRedirect (SetCookie newResponse ck) (''/resources?s='' @ ac_SessionID authCode))))))"

definition handleCallback :: "weblib \<Rightarrow> handler \<Rightarrow> web_request \<Rightarrow> handled" where
  "handleCallback L h r =
     (let errMsg = valuesGet (wq_Form r) ''error''; code = formOrQuery r ''code''; state = formOrQuery r ''state'' in
      if errMsg \<noteq> ''''
      then httpError newResponse (errMsg @ '': '' @ valuesGet (wq_Form r) ''error_description'') 400
      else if code = '''' then httpError newResponse (''no code in request: '' @ wl_quoteForm L (wq_Form r)) 400
      else case DecodeString StdEncoding state of
             None \<Rightarrow> httpError newResponse (wl_corruptInput L state) 400
           | Some decoded \<Rightarrow>
               (case wl_unmarshalAuthCode L decoded of
                  Inl e \<Rightarrow> httpError newResponse e 400
                | Inr authCode \<Rightarrow> startSession L h code authCode))"

definition rightScoped :: "handler \<Rightarrow> CRD list \<Rightarrow> CRD list" where
  "rightScoped h crds = filter (\<lambda>crd. hd_scope h = ClusterScope \<or> crd_Scope crd = NamespacedScope) crds"

definition handleResources :: "weblib \<Rightarrow> handler \<Rightarrow> web_request \<Rightarrow> handled" where
  "handleResources L h r =
     (let w = prepareNoCache L newResponse in
      if hd_testingAutoSelect h \<noteq> ''''
      then (let parts = SplitN2 (CHR ''.'') (hd_testingAutoSelect h) in
            if length parts < 2 then Panicked ''runtime error: index out of range [1] with length 1''
            else httpRedirect w (''/resources/'' @ parts ! 0 @ ''/'' @ parts ! 1))
      else case GetExported (hd_crds h) (hd_templates h) of
             Inl e \<Rightarrow> httpError w ''internal error'' 500
           | Inr crds \<Rightarrow>
               (case wl_resourcesPage L (valuesGet (wq_Query r) ''s'')
                       (rightScoped h (sort_key (\<lambda>crd. om_Name (crd_Meta crd)) crds)) of
                  Inl e \<Rightarrow> httpError w ''internal error'' 500
                | Inr bs \<Rightarrow> writeBody w ''text/html'' bs))"

definition SchemeGroupVersion :: string where
  [klutch_defs]: "SchemeGroupVersion = ''klutch.anynines.com/v1alpha1''"

definition exportRequestFor :: "string \<Rightarrow> string \<Rightarrow> APIServiceExportTemplate \<Rightarrow> ExportRequestResponse" where
  "exportRequestFor grp res t =
     \<lparr>er_APIVersion = SchemeGroupVersion, er_Kind = ''APIServiceExportRequest'', er_Name = res @ ''.'' @ grp,
      er_Resources = [(\<lparr>gr_Group = grp, gr_Resource = res\<rparr>, et_PermissionClaims t)]\<rparr>"

definition bindingResponseFor :: "SessionState \<Rightarrow> string \<Rightarrow> string \<Rightarrow> string \<Rightarrow> string \<Rightarrow> BindingResponse" where
  "bindingResponseFor state issuer subject kfg requestBytes =
     \<lparr>br_APIVersion = SchemeGroupVersion, br_Kind = ''BindingResponse'',
      br_OAuth2CodeGrant = Some (ss_SessionID state, issuer @ ''/'' @ subject), br_Kubeconfig = kfg,
      br_Requests = [requestBytes]\<rparr>"

text \<open>The answer is handed to the consumer in the query of its redirect URL.\<close>

definition sendResponse :: "weblib \<Rightarrow> web_response \<Rightarrow> SessionState \<Rightarrow> BindingResponse \<Rightarrow> handled" where
  "sendResponse L w state response =
     (case wl_marshalResponse L response of
        Inl e \<Rightarrow> httpError w ''internal error'' 500
      | Inr payload \<Rightarrow>
          (case wl_addToQuery L (ss_RedirectURL state) ''response'' (EncodeToString URLEncoding payload) of
             Inl e \<Rightarrow> httpError w ''internal error'' 500
           | Inr u \<Rightarrow> httpRedirect w u))"

definition identityOf :: "string \<Rightarrow> string \<Rightarrow> string" where
  "identityOf subject clusterID = subject @ ''#'' @ clusterID"

text \<open>The part of the handler after the session is known.\<close>

definition bindSession :: "weblib \<Rightarrow> handler \<Rightarrow> web_request \<Rightarrow> SessionState \<Rightarrow> string \<times> string
    \<Rightarrow> mgr_calls \<Rightarrow> handled \<times> mgr_calls" where
  "bindSession L h r state idToken l =
     (let w = prepareNoCache L newResponse; (subject, issuer) = idToken;
          grp = valuesGet (wq_Query r) ''group''; res = valuesGet (wq_Query r) ''resource'' in
      case HandleResources (hd_kubeManager h) (identityOf subject (ss_ClusterID state)) res grp l of
        (Inl e, l') \<Rightarrow> (httpError w ''internal error'' 500, l')
      | (Inr kfg, l') \<Rightarrow>
          ((case TemplateFor (hd_templates h) grp res of
              Inl e \<Rightarrow> httpError w ''internal error'' 500
            | Inr t \<Rightarrow>
                (case wl_marshalRequest L (exportRequestFor grp res t) of
                   Inl e \<Rightarrow> httpError w ''internal error'' 500
                 | Inr requestBytes \<Rightarrow>
                     sendResponse L w state (bindingResponseFor state issuer subject kfg requestBytes))), l'))"

definition handleBind :: "weblib \<Rightarrow> handler \<Rightarrow> web_request \<Rightarrow> mgr_calls \<Rightarrow> handled \<times> mgr_calls" where
  "handleBind L h r l =
     (let w = prepareNoCache L newResponse; cookieName = cookieNameFor (valuesGet (wq_Query r) ''s'') in
      case map_of (wq_Cookies r) cookieName of
        None \<Rightarrow> (httpError w ''internal error'' 500, l)
      | Some v \<Rightarrow>
          (case wl_unseal L (hd_cookieSigningKey h) (hd_cookieEncryptionKey h) cookieName v of
             Inl e \<Rightarrow> (httpError w ''internal error'' 500, l)
           | Inr state \<Rightarrow>
               (case wl_unmarshalIDToken L (ss_IDToken state) of
                  Inl e \<Rightarrow> (httpError w ''internal error'' 500, l)
                | Inr idToken \<Rightarrow> bindSession L h r state idToken l)))"

section \<open>States and sessions\<close>

text \<open>The laws of the library that a login relies on.\<close>

definition marshalsBack :: "weblib \<Rightarrow> bool" where
  "marshalsBack L = (\<forall>ac s. wl_marshalAuthCode L ac = Inr s \<longrightarrow> wl_unmarshalAuthCode L s = Inr ac)"

definition unsealsBack :: "weblib \<Rightarrow> bool" where
  "unsealsBack L = (\<forall>k e n s v. wl_seal L k e n s = Inr v \<longrightarrow> wl_unseal L k e n v = Inr s)"

text \<open>The state that \<open>/authorize\<close> puts into the URL of the provider.\<close>

definition stateFor :: "weblib \<Rightarrow> web_request \<Rightarrow> string option" where
  "stateFor L r = (case wl_marshalAuthCode L (authCodeOf r) of Inl _ \<Rightarrow> None | Inr d \<Rightarrow> Some (EncodeToString URLEncoding d))"

text \<open>The text that \<open>encoding/json\<close> writes when no character needs an escape.\<close>

definition unescaped :: "string \<Rightarrow> bool" where
  "unescaped s = list_all (\<lambda>c. let n = of_char c :: nat in
     48 \<le> n \<and> n \<le> 57 \<or> 65 \<le> n \<and> n \<le> 90 \<or> 97 \<le> n \<and> n \<le> 122 \<or> c \<in> set '':/.?=_-~'') s"

definition quoted :: "string \<Rightarrow> string" where
  "quoted s = [CHR 0x22] @ s @ [CHR 0x22]"

definition authCodeText :: "AuthCode \<Rightarrow> string" where
  "authCodeText ac =
     ''{'' @ quoted ''redirectURL'' @ '':'' @ quoted (ac_RedirectURL ac) @ '','' @ quoted ''sid'' @ '':''
     @ quoted (ac_SessionID ac) @ '','' @ quoted ''cid'' @ '':'' @ quoted (ac_ClusterID ac) @ ''}''"

definition plainJSON :: "weblib \<Rightarrow> bool" where
  "plainJSON L =
     (\<forall>ac. unescaped (ac_RedirectURL ac) \<and> unescaped (ac_SessionID ac) \<and> unescaped (ac_ClusterID ac)
        \<longrightarrow> wl_marshalAuthCode L ac = Inr (authCodeText ac))"

lemma unescaped_ascii: "unescaped s \<Longrightarrow> list_all (\<lambda>c. of_char c < (128 :: nat)) s"
  by (auto simp: unescaped_def list_all_iff Let_def)

lemma authCodeText_ascii:
  assumes "unescaped (ac_RedirectURL ac)" "unescaped (ac_SessionID ac)" "unescaped (ac_ClusterID ac)"
  shows "list_all (\<lambda>c. of_char c < (128 :: nat)) (authCodeText ac)"
  using assms [THEN unescaped_ascii] by (simp add: authCodeText_def quoted_def)

text \<open>What \<open>/callback\<close> does with the state of \<open>/authorize\<close>.\<close>

definition returnsState :: "weblib \<Rightarrow> web_request \<Rightarrow> web_request \<Rightarrow> bool" where
  "returnsState L r cb \<longleftrightarrow> wq_Form cb = [] \<and> valuesGet (wq_Query cb) ''code'' \<noteq> ''''
     \<and> stateFor L r = Some (valuesGet (wq_Query cb) ''state'')"

definition unescapedRequest :: "web_request \<Rightarrow> bool" where
  "unescapedRequest r \<longleftrightarrow> unescaped (ac_RedirectURL (authCodeOf r)) \<and> unescaped (ac_SessionID (authCodeOf r))
     \<and> unescaped (ac_ClusterID (authCodeOf r))"

lemma stateFor_plain:
  "plainJSON L \<Longrightarrow> unescapedRequest r
     \<Longrightarrow> stateFor L r = Some (EncodeToString URLEncoding (authCodeText (authCodeOf r)))"
  by (simp add: plainJSON_def unescapedRequest_def stateFor_def)

lemma formOrQuery_nil: "wq_Form r = [] \<Longrightarrow> formOrQuery r k = valuesGet (wq_Query r) k"
  by (simp add: formOrQuery_def valuesGet_def)

lemma handleCallback_state:
  assumes J: "plainJSON L" "marshalsBack L" and r: "unescapedRequest r" and cb: "returnsState L r cb"
  shows "handleCallback L h cb =
    (if list_all (\<lambda>c. \<not> differs c) (everyThird (authCodeText (authCodeOf r)))
     then startSession L h (valuesGet (wq_Query cb) ''code'') (authCodeOf r)
     else httpError newResponse (wl_corruptInput L (valuesGet (wq_Query cb) ''state'')) 400)"
proof -
  define t where "t = authCodeText (authCodeOf r)"
  have state: "valuesGet (wq_Query cb) ''state'' = EncodeToString URLEncoding t"
    using cb stateFor_plain [OF J(1) r] by (simp add: returnsState_def t_def)
  have dec: "DecodeString StdEncoding (EncodeToString URLEncoding t) =
      (if list_all (\<lambda>c. \<not> differs c) (everyThird t) then Some t else None)"
    using r by (intro Decode_foreign_ascii) (simp add: t_def unescapedRequest_def authCodeText_ascii)
  have readBack: "wl_unmarshalAuthCode L t = Inr (authCodeOf r)"
    using J r by (simp add: marshalsBack_def plainJSON_def unescapedRequest_def t_def)
  show ?thesis
    using cb unfolding t_def [symmetric]
    by (simp add: handleCallback_def returnsState_def formOrQuery_nil state dec readBack valuesGet_def [of "[]"])
qed

text \<open>A request of the command line client: a port, and identifiers in base 62.\<close>

definition alphanumeric :: "string \<Rightarrow> bool" where
  "alphanumeric s = (s \<noteq> '''' \<and> list_all (\<lambda>c. let n = of_char c :: nat in
     48 \<le> n \<and> n \<le> 57 \<or> 65 \<le> n \<and> n \<le> 90 \<or> 97 \<le> n \<and> n \<le> 122) s)"

definition clientRequest :: "web_request \<Rightarrow> bool" where
  "clientRequest r \<longleftrightarrow> valuesGet (wq_Query r) ''u'' = '''' \<and> alphanumeric (valuesGet (wq_Query r) ''p'')
     \<and> alphanumeric (valuesGet (wq_Query r) ''s'') \<and> alphanumeric (valuesGet (wq_Query r) ''c'')"

lemma alphanumeric_unescaped: "alphanumeric s \<Longrightarrow> unescaped s"
  by (auto simp: alphanumeric_def unescaped_def list_all_iff Let_def)

lemma alphanumeric_same:
  assumes "alphanumeric s" shows "list_all (\<lambda>c. \<not> differs c) s"
proof -
  have "48 \<le> n \<and> n \<le> 57 \<or> 65 \<le> n \<and> n \<le> 90 \<or> 97 \<le> n \<and> n \<le> 122 \<Longrightarrow> \<not> 62 \<le> n mod 64" for n :: nat
    by (cases "n < 64") (auto simp: mod_if [of n 64])
  then show ?thesis using assms by (auto simp: alphanumeric_def differs_def list_all_iff Let_def)
qed

lemma alphanumeric_token: "alphanumeric s \<Longrightarrow> list_all isTokenChar s"
  by (auto simp: alphanumeric_def isTokenChar_def list_all_iff Let_def)

lemma clientRequest_code:
  "clientRequest r \<Longrightarrow> authCodeOf r =
     \<lparr>ac_RedirectURL = ''http://localhost:'' @ valuesGet (wq_Query r) ''p'' @ ''/callback'',
      ac_SessionID = valuesGet (wq_Query r) ''s'', ac_ClusterID = valuesGet (wq_Query r) ''c''\<rparr>"
  by (simp add: clientRequest_def authCodeOf_def alphanumeric_def Let_def)

lemma clientRequest_plain:
  assumes "clientRequest r"
  shows "unescapedRequest r" and "list_all (\<lambda>c. \<not> differs c) (authCodeText (authCodeOf r))"
proof -
  have a: "alphanumeric (valuesGet (wq_Query r) k)" if "k \<in> {''p'', ''s'', ''c''}" for k
    using assms that by (auto simp: clientRequest_def)
  show "unescapedRequest r"
    using a [THEN alphanumeric_unescaped] clientRequest_code [OF assms]
    by (simp add: unescapedRequest_def unescaped_def)
  show "list_all (\<lambda>c. \<not> differs c) (authCodeText (authCodeOf r))"
    using a [THEN alphanumeric_same] clientRequest_code [OF assms]
    by (simp add: authCodeText_def quoted_def differs_def)
qed

section \<open>From the callback to the kubeconfig\<close>

lemma everyThird_all: "list_all P xs \<Longrightarrow> list_all P (everyThird xs)"
  using set_everyThird [of xs] by (auto simp: list_all_iff)

lemma handleCallback_client:
  assumes "plainJSON L" "marshalsBack L" "clientRequest r" "returnsState L r cb"
  shows "handleCallback L h cb = startSession L h (valuesGet (wq_Query cb) ''code'') (authCodeOf r)"
  using handleCallback_state [OF assms(1,2) clientRequest_plain(1) [OF assms(3)] assms(4)]
    everyThird_all [OF clientRequest_plain(2) [OF assms(3)]]
  by simp

definition sessionCookie :: "weblib \<Rightarrow> string \<Rightarrow> string \<Rightarrow> http_cookie" where
  "sessionCookie L name v = \<lparr>ck_Name = name, ck_Value = v, ck_Path = ''/'', ck_Domain = '''',
     ck_Expires = wl_now L + 3600000000000, ck_HttpOnly = True, ck_Secure = False, ck_SameSite = SameSiteUnset\<rparr>"

lemma MakeCookie_hour: "MakeCookie (wl_now L) name v 3600000000000 = Inr (sessionCookie L name v)"
  by (simp add: MakeCookie_def ParseSameSite_def sessionCookie_def)

definition redirected :: "handled \<Rightarrow> bool" where
  "redirected x = (case x of Responds w \<Rightarrow> wp_Status w = 302 | Panicked _ \<Rightarrow> False)"

lemma redirected_simps [simp]:
  "redirected (httpRedirect w t)" "redirected (httpError w m c) = (c = 302)" "\<not> redirected (Panicked p)"
  by (simp_all add: redirected_def httpRedirect_def httpError_def)

lemma startSession_redirects:
  assumes "redirected (startSession L h code ac)"
  obtains token raw jwt v where
    "wl_Exchange L (OIDCProviderConfig (hd_oidc h) []) code = Inr token"
    "ot_IDToken token = Some raw" "parseJWT L raw = Inr jwt"
    "wl_seal L (hd_cookieSigningKey h) (hd_cookieEncryptionKey h) (cookieNameFor (ac_SessionID ac))
       (sessionFor L token jwt ac) = Inr v"
    "startSession L h code ac =
       httpRedirect (SetCookie newResponse (sessionCookie L (cookieNameFor (ac_SessionID ac)) v))
         (''/resources?s='' @ ac_SessionID ac)"
  using assms
  by (auto simp: startSession_def MakeCookie_hour Let_def split: sum.splits option.splits)

lemma SetCookie_token:
  "alphanumeric sid \<Longrightarrow> wp_Cookies (SetCookie newResponse (sessionCookie L (cookieNameFor sid) v))
     = [sessionCookie L (cookieNameFor sid) v]"
  by (simp add: SetCookie_def sessionCookie_def cookieNameFor_def newResponse_def alphanumeric_token isTokenChar_def)

text \<open>The browser returns the cookies that it was given.\<close>

definition returnsCookies :: "handled \<Rightarrow> web_request \<Rightarrow> bool" where
  "returnsCookies x b =
     (case x of Responds w \<Rightarrow> wq_Cookies b = map (\<lambda>ck. (ck_Name ck, ck_Value ck)) (wp_Cookies w) | Panicked _ \<Rightarrow> False)"

definition withIDToken :: "weblib \<Rightarrow> handler \<Rightarrow> web_request \<Rightarrow> SessionState \<Rightarrow> mgr_calls \<Rightarrow> handled \<times> mgr_calls" where
  "withIDToken L h b state l =
     (case wl_unmarshalIDToken L (ss_IDToken state) of
        Inl e \<Rightarrow> (httpError (prepareNoCache L newResponse) ''internal error'' 500, l)
      | Inr idToken \<Rightarrow> bindSession L h b state idToken l)"

lemma handleBind_session:
  assumes "unsealsBack L" "alphanumeric sid" "valuesGet (wq_Query b) ''s'' = sid"
    and x: "x = httpRedirect (SetCookie newResponse (sessionCookie L (cookieNameFor sid) v)) t" "returnsCookies x b"
    and v: "wl_seal L (hd_cookieSigningKey h) (hd_cookieEncryptionKey h) (cookieNameFor sid) state = Inr v"
  shows "handleBind L h b l = withIDToken L h b state l"
proof -
  have "wq_Cookies b = [(cookieNameFor sid, v)]"
    using x SetCookie_token [OF assms(2), of L v]
    by (simp add: returnsCookies_def httpRedirect_def sessionCookie_def)
  moreover have "wl_unseal L (hd_cookieSigningKey h) (hd_cookieEncryptionKey h) (cookieNameFor sid) v = Inr state"
    using assms(1) v by (simp add: unsealsBack_def)
  ultimately show ?thesis using assms(3) by (simp add: handleBind_def withIDToken_def Let_def)
qed

text \<open>An answer with a kubeconfig comes from a session, and its kubeconfig from the manager.\<close>

lemma sendResponse_redirects:
  "redirected (sendResponse L w state resp) \<Longrightarrow>
     \<exists>p u. wl_marshalResponse L resp = Inr p
         \<and> wl_addToQuery L (ss_RedirectURL state) ''response'' (EncodeToString URLEncoding p) = Inr u
         \<and> sendResponse L w state resp = httpRedirect w u"
  by (auto simp: sendResponse_def split: sum.splits)

lemma bindSession_redirects:
  assumes "bindSession L h b state (subject, issuer) l = (x, l')" "redirected x"
  obtains kfg req where
    "HandleResources (hd_kubeManager h) (identityOf subject (ss_ClusterID state)) (valuesGet (wq_Query b) ''resource'')
       (valuesGet (wq_Query b) ''group'') l = (Inr kfg, l')"
    "x = sendResponse L (prepareNoCache L newResponse) state (bindingResponseFor state issuer subject kfg req)"
  using assms by (auto simp: bindSession_def Let_def split: sum.splits prod.splits)

lemma handleBind_redirects:
  assumes "handleBind L h b l = (x, l')" "redirected x"
  obtains v state subject issuer where
    "map_of (wq_Cookies b) (cookieNameFor (valuesGet (wq_Query b) ''s'')) = Some v"
    "wl_unseal L (hd_cookieSigningKey h) (hd_cookieEncryptionKey h) (cookieNameFor (valuesGet (wq_Query b) ''s'')) v
       = Inr state"
    "wl_unmarshalIDToken L (ss_IDToken state) = Inr (subject, issuer)"
    "bindSession L h b state (subject, issuer) l = (x, l')"
  using assms by (auto simp: handleBind_def Let_def split: sum.splits option.splits)

section \<open>Identities\<close>

text \<open>The subject and the identifier of the cluster are joined with a character that both may contain.\<close>

lemma takeWhile_before: "x \<notin> set s \<Longrightarrow> takeWhile (\<lambda>y. y \<noteq> x) (s @ x # c) = s"
  by (induction s) auto

lemma identityOf_inject:
  assumes "CHR ''#'' \<notin> set s" "CHR ''#'' \<notin> set t" "identityOf s c = identityOf t d"
  shows "s = t \<and> c = d"
proof -
  have "takeWhile (\<lambda>x. x \<noteq> CHR ''#'') (identityOf s c) = s" "takeWhile (\<lambda>x. x \<noteq> CHR ''#'') (identityOf t d) = t"
    using assms(1,2) by (simp_all add: identityOf_def takeWhile_before)
  then have "s = t" using assms(3) by simp
  then show ?thesis using assms(3) by (simp add: identityOf_def)
qed

lemma identityOf_collides: "identityOf (s @ ''#'' @ t) c = identityOf s (t @ ''#'' @ c)"
  by (simp add: identityOf_def)

text \<open>A session of the package \<open>cookie\<close> is read back from its base64 form.\<close>

lemma session_Decode_Encode:
  assumes "\<And>t. pack s = Inr t \<Longrightarrow> unpack t = Inr s" "session_Encode pack s = Inr t"
  shows "session_Decode corrupt unpack (EncodeToString RawURLEncoding t) = Inr s"
  using assms by (simp add: session_Encode_def session_Decode_def Decode_Encode)

end
