(* ===== verification/Login_Properties.thy ===== *)
theory Login_Properties
  imports Backend_Login
begin

text \<open>
  The properties of a login at the example backend: which states come back from the identity provider, that a session
  ends at the client that began it, whose kubeconfig \<open>/bind\<close> hands out, and how a cache that lags behind locks a consumer out.
\<close>

section \<open>Namespaces that are created twice\<close>

abbreviation namespaceCall :: "manager \<Rightarrow> string \<Rightarrow> mgr_call" where
  "namespaceCall M i \<equiv> CreateNamespaceNamed (withDash (mg_namespacePrefix M)) (fmupd IdentityAnnotationKey i fmempty)"

lemma mgr_CreateNamespace_calls:
  "\<exists>cs. snd (mgr_CreateNamespace M g i l) = l @ CreateNamespaceNamed (withDash g) (fmupd IdentityAnnotationKey i fmempty) # cs"
  by (simp add: mgr_CreateNamespace_def recovering_def followedBy_def apiCall_def finished_def fails_def Let_def
        split: sum.split)

lemma HandleResources_creates:
  assumes "storesWhatIsSent M" "mg_namespacesByIdentity M l i = Inr []" "HandleResources M i r g l = (x, l')"
  shows "\<exists>cs. l' = l @ namespaceCall M i # cs"
proof -
  obtain res l0 where c: "mgr_CreateNamespace M (mg_namespacePrefix M) i l = (res, l0)" by fastforce
  obtain cs where l0: "l0 = l @ namespaceCall M i # cs"
    using mgr_CreateNamespace_calls [of M "mg_namespacePrefix M" i l] c by auto
  show ?thesis
  proof (cases res)
    case (Inl e)
    then show ?thesis
      using assms(2,3) c l0 by (auto simp: HandleResources_def namespaceFor_def followedBy_def)
  next
    case (Inr ns)
    then have "snd (resourcesIn M (mn_Name ns) l0) = l'"
      using assms(2,3) c by (simp add: HandleResources_def namespaceFor_def followedBy_def finished_def)
    with runs_calls [OF runs_resourcesIn [OF assms(1)], of "mn_Name ns" l0] l0 show ?thesis by auto
  qed
qed

lemma HandleResources_multiple:
  "mg_namespacesByIdentity M l i = Inr (a # b # cs) \<Longrightarrow> HandleResources M i r g l = (Inl (multipleNamespaces i), l)"
  by (simp add: HandleResources_def namespaceFor_def followedBy_def fails_def)

section \<open>A sample backend\<close>

definition demoManager :: "(mgr_calls \<Rightarrow> string \<Rightarrow> mgr_namespace list) \<Rightarrow> manager" where
  "demoManager idx =
     \<lparr>mg_namespacePrefix = ''cluster'', mg_providerPrettyName = ''a9s'', mg_clusterHost = ''https://api'', mg_clusterCA = ''ca'',
      mg_externalAddress = '''', mg_externalCA = None, mg_externalTLSServerName = '''',
      mg_namespacesByIdentity = (\<lambda>l i. Inr (idx l i)),
      mg_createNamespace = (\<lambda>l g as. Inr \<lparr>mn_Name = g @ ''x'', mn_Annotations = as\<rparr>),
      mg_getNamespace = (\<lambda>l n. Inl (plainError ''down'')),
      mg_getClusterBinding = (\<lambda>l ns. Inl \<lparr>reason = NotFound, error_text = ''''\<rparr>),
      mg_createClusterBinding = (\<lambda>l ns cb. Inr ()),
      mg_getServiceAccount = (\<lambda>l ns n. Inr n), mg_createServiceAccount = (\<lambda>l ns n. Inr n),
      mg_getSecret = (\<lambda>l ns n. Inr \<lparr>ms_Namespace = ns, ms_Name = n, ms_Annotations = fmempty, ms_Type = '''',
                       ms_Data = fmupd ''token'' (''secret of '' @ ns) (fmupd ''ca.crt'' ''ca'' fmempty)\<rparr>),
      mg_createSecret = (\<lambda>l ns s. Inr s), mg_updateSecret = (\<lambda>l ns s. Inr s),
      mg_attempts = Suc (Suc 0), mg_write = (\<lambda>k. Inr (kk_Token k))\<rparr>"

definition namespaceOf :: "string \<Rightarrow> string \<Rightarrow> mgr_namespace" where
  "namespaceOf n i = \<lparr>mn_Name = n, mn_Annotations = fmupd IdentityAnnotationKey i fmempty\<rparr>"

lemma demoManager_fields [simp]:
  "mg_namespacePrefix (demoManager idx) = ''cluster''"
  "mg_namespacesByIdentity (demoManager idx) l i = Inr (idx l i)"
  "mg_createNamespace (demoManager idx) l g as = Inr \<lparr>mn_Name = g @ ''x'', mn_Annotations = as\<rparr>"
  "mg_getClusterBinding (demoManager idx) l ns = Inl \<lparr>reason = NotFound, error_text = ''''\<rparr>"
  "mg_createClusterBinding (demoManager idx) l ns cb = Inr ()"
  "mg_getServiceAccount (demoManager idx) l ns n = Inr n"
  "mg_getSecret (demoManager idx) l ns n = Inr \<lparr>ms_Namespace = ns, ms_Name = n, ms_Annotations = fmempty,
     ms_Type = '''', ms_Data = fmupd ''token'' (''secret of '' @ ns) (fmupd ''ca.crt'' ''ca'' fmempty)\<rparr>"
  "mg_createSecret (demoManager idx) l ns s = Inr s"
  "mg_attempts (demoManager idx) = Suc (Suc 0)"
  "mg_write (demoManager idx) k = Inr (kk_Token k)"
  by (simp_all add: demoManager_def)

lemmas run_defs = followedBy_def recovering_def apiCall_def finished_def fails_def

lemma demoManager_resources:
  "\<exists>cs. resourcesIn (demoManager idx) ns l = (Inr (''secret of '' @ ns), l @ cs) \<and> length cs = 6"
  by (simp add: resourcesIn_def kubeconfigSecretNameFor_def CreateClusterBinding_def CreateServiceAccount_def
        CreateSASecret_def GenerateKubeconfig_def kubeconfigSecret_def kubeconfigFor_def IsNotFound_def run_defs Let_def)

lemma demoManager_stores:
  assumes "\<And>l i. list_all (hasIdentity i) (idx l i)"
  shows "storesWhatIsSent (demoManager idx)"
  using assms by (simp add: storesWhatIsSent_def demoManager_def keepsData_def)

lemma namespaceOf_hasIdentity [simp]: "hasIdentity i (namespaceOf n i)"
  by (simp add: hasIdentity_def IndexNamespacesByIdentity_def namespaceOf_def)

text \<open>A cache that shows nothing before thirteen calls and then two namespaces.\<close>

definition lagging :: "mgr_calls \<Rightarrow> string \<Rightarrow> mgr_namespace list" where
  "lagging l i = (if length l < 13 then [] else [namespaceOf ''a'' i, namespaceOf ''b'' i])"

section \<open>The properties\<close>

text \<open>When the cache of namespaces does not show the namespace of a first login by the time of the second, a second
  namespace is created for the same identity; once the cache shows both, every login of this identity fails
  and changes nothing.\<close>

lemma stale_cache_locks_out:
  assumes "storesWhatIsSent M"
    and "mg_namespacesByIdentity M l i = Inr []" "HandleResources M i r g l = (x, l1)"
    and "mg_namespacesByIdentity M l1 i = Inr []" "HandleResources M i r' g' l1 = (y, l2)"
    and "mg_namespacesByIdentity M l2 i = Inr (a # b # cs)"
  shows "(\<exists>ds es. l2 = l @ [namespaceCall M i] @ ds @ [namespaceCall M i] @ es)
    \<and> HandleResources M i r'' g'' l2 = (Inl (multipleNamespaces i), l2)"
proof
  obtain ds where "l1 = l @ namespaceCall M i # ds" using HandleResources_creates [OF assms(1-3)] by blast
  moreover obtain es where "l2 = l1 @ namespaceCall M i # es"
    using HandleResources_creates [OF assms(1,4,5)] by blast
  ultimately show "\<exists>ds es. l2 = l @ [namespaceCall M i] @ ds @ [namespaceCall M i] @ es" by auto
  show "HandleResources M i r'' g'' l2 = (Inl (multipleNamespaces i), l2)"
    by (rule HandleResources_multiple [OF assms(6)])
qed

lemma lagging_run:
  assumes "length l \<le> 7"
  shows "\<exists>l'. HandleResources (demoManager lagging) ''u#c'' r g l = (Inr ''secret of cluster-x'', l')
    \<and> length l' = length l + 7"
proof -
  have "\<exists>k. namespaceFor (demoManager lagging) ''u#c'' l = (Inr ''cluster-x'', l @ [k])"
    using assms by (simp add: namespaceFor_def lagging_def mgr_CreateNamespace_def withDash_def run_defs Let_def)
  then obtain k where k: "namespaceFor (demoManager lagging) ''u#c'' l = (Inr ''cluster-x'', l @ [k])" by blast
  obtain cs where "resourcesIn (demoManager lagging) ''cluster-x'' (l @ [k]) = (Inr ''secret of cluster-x'', (l @ [k]) @ cs)"
      "length cs = 6"
    using demoManager_resources [of lagging "''cluster-x''" "l @ [k]"] by auto
  with k show ?thesis by (simp add: HandleResources_def followedBy_def)
qed

lemma stale_cache_locks_out_example:
  "\<exists>l2. (\<exists>ds es. l2 = [namespaceCall (demoManager lagging) ''u#c''] @ ds @ [namespaceCall (demoManager lagging) ''u#c''] @ es)
    \<and> HandleResources (demoManager lagging) ''u#c'' ''r'' ''g'' l2 = (Inl (multipleNamespaces ''u#c''), l2)"
proof -
  have M: "storesWhatIsSent (demoManager lagging)"
    by (rule demoManager_stores) (simp add: lagging_def)
  obtain l1 where 1: "HandleResources (demoManager lagging) ''u#c'' ''r'' ''g'' [] = (Inr ''secret of cluster-x'', l1)"
      "length l1 = 7"
    using lagging_run [of "[]" "''r''" "''g''"] by auto
  obtain l2 where 2: "HandleResources (demoManager lagging) ''u#c'' ''r'' ''g'' l1 = (Inr ''secret of cluster-x'', l2)"
      "length l2 = 14"
    using lagging_run [of l1 "''r''" "''g''"] 1 by auto
  show ?thesis
    using stale_cache_locks_out [OF M _ 1(1) _ 2(1), of "namespaceOf ''a'' ''u#c''" "namespaceOf ''b'' ''u#c''" "[]" "''r''" "''g''"] 1(2) 2(2)
    by (auto simp: lagging_def)
qed

section \<open>A sample web side\<close>

text \<open>A reader of the JSON of an \<open>AuthCode\<close> without escapes: the texts between quotes.\<close>

definition readAuthCode :: "string \<Rightarrow> string + AuthCode" where
  "readAuthCode s =
     (let ps = Split (CHR 0x22) s in
      if length ps < 12 then Inl ''unexpected end of JSON input''
      else Inr \<lparr>ac_RedirectURL = ps ! 3, ac_SessionID = ps ! 7, ac_ClusterID = ps ! 11\<rparr>)"

definition escapeFree :: "AuthCode \<Rightarrow> bool" where
  "escapeFree ac \<longleftrightarrow> unescaped (ac_RedirectURL ac) \<and> unescaped (ac_SessionID ac) \<and> unescaped (ac_ClusterID ac)"

definition sampleSession :: SessionState where
  "sampleSession = \<lparr>ss_CreatedAt = 0, ss_ExpiresOn = 60, ss_AccessToken = ''at'', ss_IDToken = ''iss'', ss_RefreshToken = ''rt'',
     ss_RedirectURL = ''http://localhost:80/callback'', ss_SessionID = ''100000'', ss_ClusterID = ''100000''\<rparr>"

definition sampleResponse :: BindingResponse where
  "sampleResponse = bindingResponseFor sampleSession ''iss'' ''u'' ''secret of ns'' ''request''"

definition sampleWeb :: weblib where
  "sampleWeb = \<lparr>wl_now = 0, wl_epochText = ''Thu, 01 Jan 1970 00:00:00 UTC'', wl_quoteForm = (\<lambda>_. ''map[]''),
     wl_corruptInput = (\<lambda>_. ''illegal base64 data''), wl_marshalProvider = (\<lambda>_. Inr ''provider''),
     wl_marshalAuthCode = (\<lambda>ac. if escapeFree ac then Inr (authCodeText ac) else Inl ''too long''),
     wl_unmarshalAuthCode = readAuthCode,
     wl_unmarshalIDToken = (\<lambda>s. Inr (''u'', s)), wl_marshalRequest = (\<lambda>_. Inr ''request''),
     wl_marshalResponse = (\<lambda>r. if r = sampleResponse then Inr ''answer'' else Inl ''too long''), wl_AuthCodeURL = (\<lambda>c s. oc_Endpoint c @ s),
     wl_Exchange = (\<lambda>c code. Inr \<lparr>ot_AccessToken = ''at'', ot_RefreshToken = ''rt'', ot_Expiry = 60, ot_IDToken = Some ''h.aXNz.s''\<rparr>),
     wl_seal = (\<lambda>k e n s. if s = sampleSession then Inr ''sealed'' else Inl ''too long''),
     wl_unseal = (\<lambda>k e n v. if v = ''sealed'' then Inr sampleSession else Inl ''not valid''),
     wl_addToQuery = (\<lambda>u k v. Inr (u @ ''?'' @ k @ ''='' @ v)), wl_resourcesPage = (\<lambda>s cs. Inr s)\<rparr>"

definition sampleHandler :: handler where
  "sampleHandler = \<lparr>hd_oidc = \<lparr>op_clientID = ''id'', op_clientSecret = ''cs'', op_redirectURI = ''cb'', op_issuerURL = ''iss'',
       op_endpoint = ''https://oidc?state=''\<rparr>, hd_scope = ''Namespaced'', hd_oidcAuthorizeURL = '''', hd_backendCallbackURL = '''',
     hd_providerPrettyName = '''', hd_testingAutoSelect = '''', hd_cookieEncryptionKey = ''e'', hd_cookieSigningKey = ''k'',
     hd_crds = Inr [], hd_templates = Inr [\<lparr>et_Name = ''t'', et_Selector = \<lparr>gr_Group = ''g'', gr_Resource = ''r''\<rparr>,
       et_Version = None, et_PermissionClaims = []\<rparr>],
     hd_kubeManager = demoManager (\<lambda>l i. [namespaceOf ''ns'' i]), hd_gitVersion = ''v1''\<rparr>"

lemma Split_before: "sep \<notin> set a \<Longrightarrow> Split sep (a @ sep # r) = a # Split sep r"
  by (induction a) auto

lemma Split_whole: "sep \<notin> set a \<Longrightarrow> Split sep a = [a]"
  by (induction a) auto

lemma unescaped_no_quote: "unescaped s \<Longrightarrow> CHR 0x22 \<notin> set s"
  by (auto simp: unescaped_def list_all_iff Let_def)

lemma readAuthCode_text:
  assumes "escapeFree ac"
  shows "readAuthCode (authCodeText ac) = Inr ac"
proof -
  obtain u s c where ac: "ac = \<lparr>ac_RedirectURL = u, ac_SessionID = s, ac_ClusterID = c\<rparr>" by (cases ac)
  have q: "CHR 0x22 \<notin> set u" "CHR 0x22 \<notin> set s" "CHR 0x22 \<notin> set c"
    using assms unescaped_no_quote by (auto simp: ac escapeFree_def)
  have "authCodeText ac = ''{'' @ CHR 0x22 # ''redirectURL'' @ CHR 0x22 # '':'' @ CHR 0x22 # u @ CHR 0x22 # '','' @ CHR 0x22 # ''sid'' @
      CHR 0x22 # '':'' @ CHR 0x22 # s @ CHR 0x22 # '','' @ CHR 0x22 # ''cid'' @ CHR 0x22 # '':'' @ CHR 0x22 # c @ CHR 0x22 # ''}''"
    by (simp add: ac authCodeText_def quoted_def)
  then have "Split (CHR 0x22) (authCodeText ac) =
      [''{'', ''redirectURL'', '':'', u, '','', ''sid'', '':'', s, '','', ''cid'', '':'', c, ''}'']"
    by (simp only: Split_before q) (simp add: Split_before q)
  then show ?thesis by (simp add: readAuthCode_def ac)
qed

lemma sampleWeb_laws: "plainJSON sampleWeb" "marshalsBack sampleWeb" "unsealsBack sampleWeb"
  by (auto simp: plainJSON_def marshalsBack_def unsealsBack_def sampleWeb_def escapeFree_def readAuthCode_text
        split: if_splits)

definition queryOf :: "(string \<times> string) list \<Rightarrow> web_request" where
  "queryOf kvs = \<lparr>wq_Host = ''backend'', wq_Query = map (\<lambda>(k, v). (k, [v])) kvs, wq_Form = [], wq_Cookies = []\<rparr>"

section \<open>The way through the provider\<close>

text \<open>C29: the state is encoded with one alphabet of base64 and decoded with the other. When no
  character of the request needs an escape in JSON, the callback accepts the state of its own redirect exactly if none of the
  characters in which the alphabets differ (the question mark and the tilde) is at a place of the JSON text that is a multiple of
  three; otherwise the login ends with status 400.\<close>

theorem state_accepted_iff:
  assumes "plainJSON L" "marshalsBack L" "unescapedRequest r" "returnsState L r cb"
  shows "handleCallback L h cb =
    (if list_all (\<lambda>c. \<not> differs c) (everyThird (authCodeText (authCodeOf r)))
     then startSession L h (valuesGet (wq_Query cb) ''code'') (authCodeOf r)
     else httpError newResponse (wl_corruptInput L (valuesGet (wq_Query cb) ''state'')) 400)"
  by (rule handleCallback_state [OF assms])

definition browserRequest :: web_request where
  "browserRequest = queryOf [(''u'', ''http://abc?''), (''s'', ''100000''), (''c'', ''100000'')]"

definition stateOf :: "web_request \<Rightarrow> string" where
  "stateOf r = EncodeToString URLEncoding (authCodeText (authCodeOf r))"

definition callbackOf :: "web_request \<Rightarrow> web_request" where
  "callbackOf r = queryOf [(''code'', ''x''), (''state'', stateOf r)]"

lemma callbackOf_returns: "unescapedRequest r \<Longrightarrow> returnsState sampleWeb r (callbackOf r)"
  by (simp add: returnsState_def stateFor_plain sampleWeb_laws callbackOf_def queryOf_def valuesGet_def stateOf_def)

lemma browserRequest_code:
  "authCodeOf browserRequest = \<lparr>ac_RedirectURL = ''http://abc?'', ac_SessionID = ''100000'', ac_ClusterID = ''100000''\<rparr>"
  by (simp add: authCodeOf_def browserRequest_def queryOf_def valuesGet_def Let_def)

theorem state_accepted_iff_witness:
  "handleCallback sampleWeb sampleHandler (callbackOf browserRequest) = httpError newResponse ''illegal base64 data'' 400"
proof -
  have plain: "unescapedRequest browserRequest"
    by (simp add: unescapedRequest_def browserRequest_code unescaped_def Let_def)
  have "\<not> list_all (\<lambda>c. \<not> differs c) (everyThird (authCodeText (authCodeOf browserRequest)))"
    by (simp add: browserRequest_code authCodeText_def quoted_def differs_def)
  then show ?thesis
    using state_accepted_iff [OF sampleWeb_laws(1,2) plain callbackOf_returns [OF plain], of sampleHandler]
    by (simp add: sampleWeb_def)
qed

text \<open>
  The ID token of a session is the one that the identity provider gave for the code of the callback.
\<close>

definition loggedInBy :: "weblib \<Rightarrow> handler \<Rightarrow> web_request \<Rightarrow> SessionState \<Rightarrow> bool" where
  "loggedInBy L h cb state \<longleftrightarrow>
     (\<exists>token jwt. wl_Exchange L (OIDCProviderConfig (hd_oidc h) []) (valuesGet (wq_Query cb) ''code'') = Inr token \<and>
        ot_IDToken token = Some jwt \<and> parseJWT L jwt = Inr (ss_IDToken state))"

lemma session_of_login:
  assumes "plainJSON L" "marshalsBack L" "unsealsBack L" "clientRequest r" "returnsState L r cb"
    and "redirected (handleCallback L h cb)" "returnsCookies (handleCallback L h cb) b"
    and "valuesGet (wq_Query b) ''s'' = valuesGet (wq_Query r) ''s''"
  shows "\<exists>state. ss_RedirectURL state = ''http://localhost:'' @ valuesGet (wq_Query r) ''p'' @ ''/callback''
    \<and> ss_SessionID state = valuesGet (wq_Query r) ''s'' \<and> ss_ClusterID state = valuesGet (wq_Query r) ''c''
    \<and> loggedInBy L h cb state \<and> handleBind L h b l = withIDToken L h b state l"
proof -
  note cb = handleCallback_client [OF assms(1,2,4,5), of h]
  note code = clientRequest_code [OF assms(4)]
  obtain token raw jwt v where v:
    "wl_seal L (hd_cookieSigningKey h) (hd_cookieEncryptionKey h) (cookieNameFor (ac_SessionID (authCodeOf r)))
       (sessionFor L token jwt (authCodeOf r)) = Inr v"
    "handleCallback L h cb =
       httpRedirect (SetCookie newResponse (sessionCookie L (cookieNameFor (ac_SessionID (authCodeOf r))) v))
         (''/resources?s='' @ ac_SessionID (authCodeOf r))"
    "wl_Exchange L (OIDCProviderConfig (hd_oidc h) []) (valuesGet (wq_Query cb) ''code'') = Inr token"
    "ot_IDToken token = Some raw" "parseJWT L raw = Inr jwt"
    using startSession_redirects [of L h "valuesGet (wq_Query cb) ''code''" "authCodeOf r"] assms(6) cb by metis
  have "alphanumeric (ac_SessionID (authCodeOf r))" using assms(4) code by (simp add: clientRequest_def)
  moreover have "valuesGet (wq_Query b) ''s'' = ac_SessionID (authCodeOf r)" using assms(8) code by simp
  ultimately have "handleBind L h b l = withIDToken L h b (sessionFor L token jwt (authCodeOf r)) l"
    by (rule handleBind_session [OF assms(3) _ _ v(2) assms(7) v(1)])
  then show ?thesis
    by (intro exI [of _ "sessionFor L token jwt (authCodeOf r)"]) (simp add: sessionFor_def code loggedInBy_def v(3-5))
qed

text \<open>A login that the command line client began ends at that client. The session that \<open>/bind\<close> reads from
  the cookie has the port, the session and the cluster of the request to \<open>/authorize\<close>, so that the answer goes to the address
  on which the client listens.\<close>

lemma login_roundtrip:
  assumes "plainJSON L" "marshalsBack L" "unsealsBack L" "clientRequest r" "returnsState L r cb"
    and "redirected (handleCallback L h cb)" "returnsCookies (handleCallback L h cb) b"
    and "valuesGet (wq_Query b) ''s'' = valuesGet (wq_Query r) ''s''"
  shows "\<exists>state. ss_RedirectURL state = ''http://localhost:'' @ valuesGet (wq_Query r) ''p'' @ ''/callback''
    \<and> ss_SessionID state = valuesGet (wq_Query r) ''s'' \<and> ss_ClusterID state = valuesGet (wq_Query r) ''c''
    \<and> handleBind L h b l = withIDToken L h b state l"
  using session_of_login [OF assms] by blast

definition sampleCLI :: web_request where
  "sampleCLI = queryOf [(''p'', ''80''), (''s'', ''100000''), (''c'', ''100000'')]"

definition sampleBind :: web_request where
  "sampleBind = (queryOf [(''s'', ''100000''), (''group'', ''g''), (''resource'', ''r'')])
     \<lparr>wq_Cookies := [(''klutch-bind-100000'', ''sealed'')]\<rparr>"

lemma sampleCLI_request: "clientRequest sampleCLI"
  by (simp add: clientRequest_def sampleCLI_def queryOf_def valuesGet_def alphanumeric_def Let_def)

lemma sample_jwt: "parseJWT sampleWeb ''h.aXNz.s'' = Inr ''iss''"
  by code_simp

lemma sample_callback:
  "handleCallback sampleWeb sampleHandler (callbackOf sampleCLI) =
     httpRedirect (SetCookie newResponse (sessionCookie sampleWeb ''klutch-bind-100000'' ''sealed'')) ''/resources?s=100000''"
proof -
  note r = sampleCLI_request
  have code: "authCodeOf sampleCLI =
      \<lparr>ac_RedirectURL = ''http://localhost:80/callback'', ac_SessionID = ''100000'', ac_ClusterID = ''100000''\<rparr>"
    using clientRequest_code [OF r] by (simp add: sampleCLI_def queryOf_def valuesGet_def)
  have "wl_seal sampleWeb k e n (sessionFor sampleWeb t ''iss'' (authCodeOf sampleCLI)) = Inr ''sealed''"
    if "t = \<lparr>ot_AccessToken = ''at'', ot_RefreshToken = ''rt'', ot_Expiry = 60, ot_IDToken = Some ''h.aXNz.s''\<rparr>" for k e n t
    by (simp add: that code sessionFor_def sampleSession_def sampleWeb_def)
  moreover have "wl_Exchange sampleWeb c x =
      Inr \<lparr>ot_AccessToken = ''at'', ot_RefreshToken = ''rt'', ot_Expiry = 60, ot_IDToken = Some ''h.aXNz.s''\<rparr>" for c x
    by (simp add: sampleWeb_def)
  ultimately show ?thesis
    using handleCallback_client [OF sampleWeb_laws(1,2) r callbackOf_returns [OF clientRequest_plain(1) [OF r]]]
    by (simp add: startSession_def sample_jwt MakeCookie_hour Let_def code cookieNameFor_def)
qed

lemma sample_returns:
  "returnsCookies (handleCallback sampleWeb sampleHandler (callbackOf sampleCLI)) sampleBind"
  "redirected (handleCallback sampleWeb sampleHandler (callbackOf sampleCLI))"
  "valuesGet (wq_Query sampleBind) ''s'' = valuesGet (wq_Query sampleCLI) ''s''"
proof -
  show "returnsCookies (handleCallback sampleWeb sampleHandler (callbackOf sampleCLI)) sampleBind"
    using SetCookie_token [of "''100000''" sampleWeb "''sealed''"]
    by (simp add: sample_callback returnsCookies_def httpRedirect_def sampleBind_def cookieNameFor_def alphanumeric_def
          sessionCookie_def)
  show "redirected (handleCallback sampleWeb sampleHandler (callbackOf sampleCLI))"
    by (simp add: sample_callback)
  show "valuesGet (wq_Query sampleBind) ''s'' = valuesGet (wq_Query sampleCLI) ''s''"
    by (simp add: sampleBind_def sampleCLI_def queryOf_def valuesGet_def)
qed

lemma login_roundtrip_example:
  "\<exists>state. ss_RedirectURL state = ''http://localhost:80/callback'' \<and> ss_SessionID state = ''100000'' \<and> ss_ClusterID state = ''100000''
    \<and> handleBind sampleWeb sampleHandler sampleBind [] = withIDToken sampleWeb sampleHandler sampleBind state []"
  using login_roundtrip [OF sampleWeb_laws sampleCLI_request
      callbackOf_returns [OF clientRequest_plain(1) [OF sampleCLI_request]] sample_returns(2,1,3), of "[]"]
  by (simp add: sampleCLI_def queryOf_def valuesGet_def)

text \<open>C28: a redirect of \<open>/bind\<close> carries a kubeconfig whose token was read from the namespace of the identity of the
  session, which is the subject of its ID token and its cluster: the one namespace that the index of the cache answers
  for this identity or, when it answers none, the namespace that the API answered to a create with this identity as its
  annotation; it is annotated with the identity. Every call after the choice of the namespace was
  made inside it. The hypothesis \<open>storesWhatIsSent\<close> is that the index answers namespaces with the annotation that they are indexed by, and that
  the API answers a write with what was sent.\<close>

theorem kubeconfig_belongs_to_identity:
  assumes M: "storesWhatIsSent (hd_kubeManager h)" and run: "handleBind L h b l = (x, l')" "redirected x"
  shows "\<exists>state subject issuer ns k req l0 cs.
    (\<exists>v. map_of (wq_Cookies b) (cookieNameFor (valuesGet (wq_Query b) ''s'')) = Some v
       \<and> wl_unseal L (hd_cookieSigningKey h) (hd_cookieEncryptionKey h) (cookieNameFor (valuesGet (wq_Query b) ''s'')) v
         = Inr state)
    \<and> wl_unmarshalIDToken L (ss_IDToken state) = Inr (subject, issuer)
    \<and> (mg_namespacesByIdentity (hd_kubeManager h) l (subject @ ''#'' @ ss_ClusterID state) = Inr [ns] \<or>
       mg_namespacesByIdentity (hd_kubeManager h) l (subject @ ''#'' @ ss_ClusterID state) = Inr [] \<and>
       mg_createNamespace (hd_kubeManager h) l (withDash (mg_namespacePrefix (hd_kubeManager h)))
         (fmupd IdentityAnnotationKey (subject @ ''#'' @ ss_ClusterID state) fmempty) = Inr ns)
    \<and> fmlookup (mn_Annotations ns) IdentityAnnotationKey = Some (subject @ ''#'' @ ss_ClusterID state)
    \<and> carriesTokenOf (hd_kubeManager h) (mn_Name ns) k
    \<and> x = sendResponse L (prepareNoCache L newResponse) state (bindingResponseFor state issuer subject k req)
    \<and> l' = l0 @ cs \<and> list_all (inside (mn_Name ns)) cs
    \<and> namespaceFor (hd_kubeManager h) (subject @ ''#'' @ ss_ClusterID state) l = (Inr (mn_Name ns), l0)"
proof -
  obtain v state subject issuer where s:
    "map_of (wq_Cookies b) (cookieNameFor (valuesGet (wq_Query b) ''s'')) = Some v"
    "wl_unseal L (hd_cookieSigningKey h) (hd_cookieEncryptionKey h) (cookieNameFor (valuesGet (wq_Query b) ''s'')) v = Inr state"
    "wl_unmarshalIDToken L (ss_IDToken state) = Inr (subject, issuer)"
    "bindSession L h b state (subject, issuer) l = (x, l')"
    using handleBind_redirects [OF run] by blast
  obtain k req where k:
    "HandleResources (hd_kubeManager h) (identityOf subject (ss_ClusterID state)) (valuesGet (wq_Query b) ''resource'')
       (valuesGet (wq_Query b) ''group'') l = (Inr k, l')"
    "x = sendResponse L (prepareNoCache L newResponse) state (bindingResponseFor state issuer subject k req)"
    using bindSession_redirects [OF s(4) run(2)] by blast
  from HandleResources_inside [OF M k(1)] s k(2) show ?thesis unfolding identityOf_def answeredFor_def by blast
qed

lemma sample_manager: "storesWhatIsSent (hd_kubeManager sampleHandler)"
  by (simp add: sampleHandler_def demoManager_stores)

lemma sample_bind: "\<exists>x cs. handleBind sampleWeb sampleHandler sampleBind [] = (x, cs) \<and> redirected x"
proof -
  obtain cs where run: "resourcesIn (hd_kubeManager sampleHandler) ''ns'' [] = (Inr ''secret of ns'', cs)"
    using demoManager_resources [of "\<lambda>l i. [namespaceOf ''ns'' i]" "''ns''" "[]"] by (auto simp: sampleHandler_def)
  have "namespaceFor (hd_kubeManager sampleHandler) i [] = (Inr ''ns'', [])" for i
    by (simp add: sampleHandler_def namespaceFor_def finished_def namespaceOf_def)
  with run have H: "HandleResources (hd_kubeManager sampleHandler) i r g [] = (Inr ''secret of ns'', cs)" for i r g
    by (simp add: HandleResources_def followedBy_def)
  have web: "wl_unseal sampleWeb a e n ''sealed'' = Inr sampleSession" "wl_unmarshalIDToken sampleWeb t = Inr (''u'', t)"
      "wl_marshalRequest sampleWeb q = Inr ''request''" "wl_marshalResponse sampleWeb (bindingResponseFor sampleSession ''iss'' ''u'' ''secret of ns'' ''request'') = Inr ''answer''"
      "wl_addToQuery sampleWeb u n t = Inr (u @ ''?'' @ n @ ''='' @ t)" for a e n t q u
    by (simp_all add: sampleWeb_def sampleResponse_def)
  have token: "ss_IDToken sampleSession = ''iss''" by (simp add: sampleSession_def)
  have bound: "map_of (wq_Cookies sampleBind) (cookieNameFor (valuesGet (wq_Query sampleBind) ''s'')) = Some ''sealed''"
      "valuesGet (wq_Query sampleBind) ''group'' = ''g''" "valuesGet (wq_Query sampleBind) ''resource'' = ''r''"
    by (simp_all add: sampleBind_def queryOf_def valuesGet_def cookieNameFor_def)
  have "\<exists>t. TemplateFor (hd_templates sampleHandler) ''g'' ''r'' = Inr t"
    by (simp add: sampleHandler_def TemplateFor_def)
  then show ?thesis
    by (auto simp: handleBind_def bound web token bindSession_def H Let_def sendResponse_def)
qed

lemma sample_session:
  "map_of (wq_Cookies sampleBind) (cookieNameFor (valuesGet (wq_Query sampleBind) ''s'')) = Some v
     \<Longrightarrow> wl_unseal sampleWeb a e n v = Inr state \<Longrightarrow> state = sampleSession"
  by (auto simp: sampleWeb_def sampleBind_def queryOf_def valuesGet_def cookieNameFor_def split: if_splits)

lemma sample_subject: "wl_unmarshalIDToken sampleWeb (ss_IDToken state) = Inr (subject, issuer) \<Longrightarrow> subject = ''u''"
  by (simp add: sampleWeb_def)

theorem kubeconfig_belongs_to_identity_witness:
  "\<exists>x l' ns k. handleBind sampleWeb sampleHandler sampleBind [] = (x, l') \<and> redirected x
    \<and> fmlookup (mn_Annotations ns) IdentityAnnotationKey = Some ''u#100000''
    \<and> (mg_namespacesByIdentity (hd_kubeManager sampleHandler) [] ''u#100000'' = Inr [ns] \<or>
       mg_namespacesByIdentity (hd_kubeManager sampleHandler) [] ''u#100000'' = Inr [])
    \<and> carriesTokenOf (hd_kubeManager sampleHandler) (mn_Name ns) k"
proof -
  obtain x cs where x: "handleBind sampleWeb sampleHandler sampleBind [] = (x, cs)" "redirected x" using sample_bind by blast
  obtain state subject issuer ns k v where
    v: "map_of (wq_Cookies sampleBind) (cookieNameFor (valuesGet (wq_Query sampleBind) ''s'')) = Some v"
      "wl_unseal sampleWeb (hd_cookieSigningKey sampleHandler) (hd_cookieEncryptionKey sampleHandler)
         (cookieNameFor (valuesGet (wq_Query sampleBind) ''s'')) v = Inr state"
      "wl_unmarshalIDToken sampleWeb (ss_IDToken state) = Inr (subject, issuer)"
    and ns: "mg_namespacesByIdentity (hd_kubeManager sampleHandler) [] (subject @ ''#'' @ ss_ClusterID state) = Inr [ns] \<or>
        mg_namespacesByIdentity (hd_kubeManager sampleHandler) [] (subject @ ''#'' @ ss_ClusterID state) = Inr []"
      "fmlookup (mn_Annotations ns) IdentityAnnotationKey = Some (subject @ ''#'' @ ss_ClusterID state)"
      "carriesTokenOf (hd_kubeManager sampleHandler) (mn_Name ns) k"
    using kubeconfig_belongs_to_identity [OF sample_manager x] by blast
  have "subject @ ''#'' @ ss_ClusterID state = ''u#100000''"
    using sample_session [OF v(1,2)] sample_subject [OF v(3)] by (simp add: sampleSession_def)
  with ns x show ?thesis by auto
qed

end
