(* ===== verification/Bind_Client.thy ===== *)
theory Bind_Client
  imports Backend_Login Call_Log
begin

text \<open>
  The command \<open>kubectl bind\<close>: \<open>bind/pkg/kubectl/bind\<close> with the handling of kubeconfig secrets in \<open>bind/pkg/kubectl/base\<close>. The
  command fetches the description of a provider, sends the user to its login page, waits for the browser to come back
  with a kubeconfig, stores that in a secret and runs \<open>kubectl bind apiservice\<close> for each request that it got.

  \<^item> Operations are those of \<open>Call_Log\<close> over \<open>cli_call\<close>; the record \<open>cli\<close> has what they call: the two clusters, HTTP, the file of
    requests, and the functions of \<open>clientcmd\<close>, \<open>semver\<close>, \<open>net/url\<close> and \<open>encoding/json\<close> that the code uses. Random bytes and the
    hash of the cluster are fields too.
  \<^item> The local server that the browser is sent to is the state \<open>authenticator\<close> with the operation \<open>callback\<close>; \<open>Run\<close> is given the
    requests that reach it before the timeout.
  \<^item> A panic is the error \<open>panicError\<close>. Messages on the terminal are left out.

  The lemmas show that the first answer that can be read is the one that counts, which secret a kubeconfig is stored in, and what
  the sub-commands are given.
\<close>

section \<open>Calls\<close>

record remote_config =
  rc_CurrentContext :: string
  rc_Contexts :: "(string, string \<times> string) fmap"
  rc_Clusters :: "(string, string) fmap"

type_synonym semver_version = "nat \<times> nat \<times> nat \<times> string list"

text \<open>What a claim asks for beyond the fields that the controllers read: what the user is shown.\<close>

record update_terms =
  ut_Fields :: "string list option"
  ut_Preserving :: "string list option"
  ut_AlwaysRecreate :: bool

record claim_terms = PermissionClaim +
  ct_ReplaceExisting :: "bool option"
  ct_AutoAdopt :: bool
  ct_AutoDonate :: bool
  ct_RecreateWhenConsumerSideDeleted :: "bool option"
  ct_Update :: "update_terms option"

record request_resource = GroupResource +
  qr_PermissionClaims :: "claim_terms list"

record export_request =
  xr_APIVersion :: string
  xr_Kind :: string
  xr_Name :: string
  xr_GenerateName :: string
  xr_Resources :: "request_resource list"
  xr_Phase :: string
  xr_TerminalMessage :: string

datatype cli_call =
    FetchURL string
  | GetBindNamespace
  | CreateBindNamespace
  | ShowURL string
  | ListKubeconfigs
  | GetSecretOf string string
  | CreateKubeconfig Secret
  | UpdateKubeconfig Secret
  | PrintRequest ExportRequestResponse
  | RunSubcommand "string list" string
  | ReadManifest string
  | CreateExportRequest string export_request
  | GetExportRequest string string
  | GetKonnectorDeployment
  | BootstrapKonnector string
  | ListServiceBindings
  | GetBindingNamed string
  | GetCRDNamed string
  | AskUser string
  | CreateServiceBinding APIServiceBinding
  | UpdateBindingStatus APIServiceBinding
  | PrintTable "APIServiceBinding list"

type_synonym 'a cmd = "(cli_call, 'a) op"

record cli =
  ci_httpGet :: "cli_call list \<Rightarrow> string \<Rightarrow> apierr + string"
  ci_getNamespace :: "cli_call list \<Rightarrow> apierr + string"
  ci_createNamespace :: "cli_call list \<Rightarrow> apierr + string"
  ci_listSecrets :: "cli_call list \<Rightarrow> apierr + Secret list"
  ci_getSecret :: "cli_call list \<Rightarrow> string \<Rightarrow> string \<Rightarrow> apierr + Secret"
  ci_createSecret :: "cli_call list \<Rightarrow> Secret \<Rightarrow> apierr + Secret"
  ci_updateSecret :: "cli_call list \<Rightarrow> Secret \<Rightarrow> apierr + Secret"
  ci_printObj :: "cli_call list \<Rightarrow> ExportRequestResponse \<Rightarrow> apierr + unit"
  ci_run :: "cli_call list \<Rightarrow> string list \<Rightarrow> string \<Rightarrow> apierr + unit"
  ci_Load :: "string \<Rightarrow> string + remote_config"
  ci_semver :: "string \<Rightarrow> string + semver_version"
  ci_before :: "semver_version \<Rightarrow> semver_version \<Rightarrow> bool"
  ci_addToQuery :: "string \<Rightarrow> (string \<times> string) list \<Rightarrow> string + string"
  ci_urlHost :: "string \<Rightarrow> string + string"
  ci_splitPort :: "string \<Rightarrow> string + string"
  ci_unmarshalProvider :: "string \<Rightarrow> string + BindingProvider"
  ci_decodeResponse :: "string \<Rightarrow> string + (string \<times> string) \<times> BindingResponse option"
  ci_unmarshalAPIVersion :: "string \<Rightarrow> string + string"
  ci_unmarshalRequest :: "string \<Rightarrow> string + ExportRequestResponse"
  ci_marshalRequest :: "ExportRequestResponse \<Rightarrow> string + string"
  ci_sum224 :: "string \<Rightarrow> nat list"
  ci_random :: "nat list"
  ci_clientGitVersion :: string
  ci_port :: nat
  ci_listens :: "string option"

definition lifted :: "(string \<Rightarrow> string) \<Rightarrow> string + 'a \<Rightarrow> 'a cmd" where
  "lifted msg r = (case r of Inl e \<Rightarrow> fails (plainError (msg e)) | Inr x \<Rightarrow> finished x)"

definition panicError :: apierr where
  "panicError = \<lparr>reason = OtherReason ''panic'', error_text = ''runtime error: slice bounds out of range''\<rparr>"

section \<open>Kubeconfig secrets\<close>

definition NAMESPACE :: string where
  [klutch_defs]: "NAMESPACE = ''klutch-bind''"

text \<open>A kubeconfig that cannot be loaded has the empty host and the empty namespace: the error is dropped.\<close>

definition ParseRemoteKubeconfig :: "cli \<Rightarrow> string \<Rightarrow> string + string \<times> string" where
  "ParseRemoteKubeconfig C kubeconfig =
     (case ci_Load C kubeconfig of
        Inl _ \<Rightarrow> Inr ('''', '''')
      | Inr config \<Rightarrow>
          (case fmlookup (rc_Contexts config) (rc_CurrentContext config) of
             None \<Rightarrow> Inl (Sprintf ''current context %q of remote kubeconfig not found'' [FStr (rc_CurrentContext config)])
           | Some (cluster, ns) \<Rightarrow>
               (case fmlookup (rc_Clusters config) cluster of
                  None \<Rightarrow> Inl (Sprintf ''cluster %q in current context %q of remote kubeconfig not found''
                                [FStr cluster, FStr (rc_CurrentContext config)])
                | Some server \<Rightarrow> Inr (server, ns))))"

definition holdsKubeconfigOf :: "cli \<Rightarrow> string \<times> string \<Rightarrow> Secret \<Rightarrow> bool" where
  "holdsKubeconfigOf C remote s =
     (case fmlookup (sec_Data s) ''kubeconfig'' of
        None \<Rightarrow> False
      | Some bs \<Rightarrow> ParseRemoteKubeconfig C bs = Inr remote)"

definition FindRemoteKubeconfig :: "cli \<Rightarrow> string \<Rightarrow> string \<Rightarrow> string cmd" where
  "FindRemoteKubeconfig C remoteNamespace remoteHost =
     followedBy (apiCall (ci_listSecrets C) ListKubeconfigs)
       (\<lambda>secrets. finished (case find (holdsKubeconfigOf C (remoteHost, remoteNamespace)) secrets of
                              None \<Rightarrow> '''' | Some s \<Rightarrow> sec_Name s))"

text \<open>The secret that is created has a generated name.\<close>

definition newKubeconfigSecret :: "string \<Rightarrow> Secret" where
  "newKubeconfigSecret kubeconfig = \<lparr>sec_Name = '''', sec_Namespace = NAMESPACE, sec_Labels = fmempty,
     sec_Data = fmupd ''kubeconfig'' kubeconfig fmempty, sec_Type = ''''\<rparr>"

definition updateKubeconfigSecret :: "cli \<Rightarrow> string \<Rightarrow> string \<times> string \<Rightarrow> string \<Rightarrow> Secret cmd" where
  "updateKubeconfigSecret C kubeconfig remote name =
     followedBy (apiCall (\<lambda>l. ci_getSecret C l NAMESPACE name) (GetSecretOf NAMESPACE name))
       (\<lambda>secret. case fmlookup (sec_Data secret) ''kubeconfig'' of
          None \<Rightarrow> fails (plainError (Sprintf ''secret %s/%s does not contain a kubeconfig'' [FStr NAMESPACE, FStr name]))
        | Some bs \<Rightarrow>
            (case ParseRemoteKubeconfig C bs of
               Inl e \<Rightarrow> fails (plainError e)
             | Inr existing \<Rightarrow>
                 if existing \<noteq> remote then fails \<lparr>reason = AlreadyExists, error_text = sec_Name secret\<rparr>
                 else (let s = secret\<lparr>sec_Data := fmupd ''kubeconfig'' kubeconfig (sec_Data secret)\<rparr> in
                       followedBy (apiCall (\<lambda>l. ci_updateSecret C l s) (UpdateKubeconfig s)) (\<lambda>_. finished s))))"

text \<open>\<open>retry.DefaultRetry\<close>: the first attempt and four more.\<close>

fun retryOnConflict :: "nat \<Rightarrow> 'a cmd \<Rightarrow> 'a cmd" where
  "retryOnConflict 0 m = m"
| "retryOnConflict (Suc n) m =
     recovering m (\<lambda>e. if reason e = Conflict then retryOnConflict n m else fails e) finished"

definition EnsureKubeconfigSecret :: "cli \<Rightarrow> string \<Rightarrow> string \<Rightarrow> (Secret \<times> bool) cmd" where
  "EnsureKubeconfigSecret C kubeconfig name =
     followedBy (lifted id (ParseRemoteKubeconfig C kubeconfig))
       (\<lambda>remote.
          if name = ''''
          then (let s = newKubeconfigSecret kubeconfig in
                followedBy (apiCall (\<lambda>l. ci_createSecret C l s) (CreateKubeconfig s)) (\<lambda>s'. finished (s', True)))
          else followedBy (retryOnConflict 4 (updateKubeconfigSecret C kubeconfig remote name))
                 (\<lambda>s. finished (s, False)))"

section \<open>The description of a provider\<close>

definition TrimLeft :: "string \<Rightarrow> char \<Rightarrow> string" where
  "TrimLeft s c = dropWhile (\<lambda>x. x = c) s"

definition minVersion :: semver_version where
  "minVersion = (0, 3, 0, [])"

definition validateProviderVersion :: "cli \<Rightarrow> string \<Rightarrow> string option" where
  "validateProviderVersion C v =
     (if v = '''' then Some (Sprintf ''provider version %q is empty, please update the backend to v0.3.0+'' [FStr v])
      else if v = ''v0.0.0'' \<or> v = ''v0.0.0-master+$Format:%H$'' then None
      else case ci_semver C (TrimPrefix v ''v'') of
             Inl _ \<Rightarrow> Some (Sprintf ''provider version %q cannot be parsed'' [FStr v])
           | Inr sv \<Rightarrow>
               if ci_before C sv minVersion
               then Some (Sprintf ''provider version %s is not supported, must be at least v%s'' [FStr v, FStr ''0.3.0''])
               else None)"

definition getProvider :: "cli \<Rightarrow> string \<Rightarrow> BindingProvider cmd" where
  "getProvider C url =
     followedBy (apiCall (\<lambda>l. ci_httpGet C l url) (FetchURL url))
       (\<lambda>blob. followedBy (lifted id (ci_unmarshalProvider C blob))
          (\<lambda>provider. followedBy (lifted id (BinaryVersion (ci_clientGitVersion C)))
             (\<lambda>bindVersion.
                case ci_semver C (TrimLeft bindVersion (CHR ''v'')) of
                  Inl e \<Rightarrow> fails (plainError (Sprintf ''failed to parse bind version %q: %v'' [FStr bindVersion, FStr e]))
                | Inr sv \<Rightarrow>
                    (if ci_before C sv minVersion then finished provider
                     else case validateProviderVersion C (bp_Version provider) of
                            Some e \<Rightarrow> fails (plainError e)
                          | None \<Rightarrow> finished provider))))"

section \<open>The login\<close>

definition firstSix :: "string \<Rightarrow> string cmd" where
  "firstSix s = (if length s < 6 then fails panicError else finished (take 6 s))"

definition ClusterID :: "cli \<Rightarrow> string \<Rightarrow> string cmd" where
  "ClusterID C uid = firstSix (toBase62 (ci_sum224 C uid))"

definition SessionID :: "cli \<Rightarrow> string cmd" where
  "SessionID C = firstSix (toBase62 (ci_random C))"

text \<open>The first method of the name decides, whether or not it has its configuration.\<close>

definition authenticateURL :: "BindingProvider \<Rightarrow> string option" where
  "authenticateURL provider =
     (case find (\<lambda>m. fst m = ''OAuth2CodeGrant'') (bp_AuthenticationMethods provider) of
        None \<Rightarrow> None
      | Some m \<Rightarrow> snd m)"

definition authenticate :: "cli \<Rightarrow> BindingProvider \<Rightarrow> string \<Rightarrow> string \<Rightarrow> string \<Rightarrow> unit cmd" where
  "authenticate C provider callback sessionID clusterID =
     (case authenticateURL provider of
        None \<Rightarrow> fails (plainError ''server does not support OAuth2 code grant flow'')
      | Some authURL \<Rightarrow>
          followedBy (lifted (\<lambda>e. Sprintf ''failed to parse auth url: %v'' [FStr e]) (ci_addToQuery C authURL []))
            (\<lambda>_. followedBy (lifted (\<lambda>e. Sprintf ''failed to parse callback url: %v'' [FStr e]) (ci_urlHost C callback))
               (\<lambda>host. followedBy (lifted (\<lambda>e. Sprintf ''failed to parse callback port: %v'' [FStr e]) (ci_splitPort C host))
                  (\<lambda>port. followedBy (lifted id (ci_addToQuery C authURL [(''p'', port), (''s'', sessionID), (''c'', clusterID)]))
                     (\<lambda>u. apiCall (\<lambda>_. Inr ()) (ShowURL u))))))"

section \<open>The local server\<close>

record authenticator =
  au_port :: nat
  au_started :: bool
  au_response :: "((string \<times> string) \<times> BindingResponse option) option"

definition NewLocalhostCallbackAuthenticator :: authenticator where
  "NewLocalhostCallbackAuthenticator = \<lparr>au_port = 0, au_started = False, au_response = None\<rparr>"

definition authenticator_Start :: "cli \<Rightarrow> authenticator \<Rightarrow> string + authenticator" where
  "authenticator_Start C d =
     (if au_started d then Inl ''already started''
      else case ci_listens C of
             Some e \<Rightarrow> Inl e
           | None \<Rightarrow> Inr (d\<lparr>au_started := True, au_port := ci_port C\<rparr>))"

definition Endpoint :: "authenticator \<Rightarrow> string" where
  "Endpoint d = Sprintf ''http://%s/callback'' [FStr (''localhost:'' @ Itoa (int (au_port d)))]"

text \<open>The channel \<open>done\<close> is closed exactly when a response is stored.\<close>

definition callback :: "cli \<Rightarrow> web_request \<Rightarrow> authenticator \<Rightarrow> handled \<times> authenticator" where
  "callback C r d =
     (if au_response d \<noteq> None then (Responds (newResponse\<lparr>wp_Body := ''Already authenticated''\<rparr>), d)
      else case DecodeString StdEncoding (valuesGet (wq_Query r) ''response'') of
             None \<Rightarrow> (httpError newResponse ''internal error'' 500, d)
           | Some decoded \<Rightarrow>
               (case ci_decodeResponse C decoded of
                  Inl e \<Rightarrow> (httpError newResponse ''internal error'' 500, d)
                | Inr resp \<Rightarrow>
                    (Responds (newResponse\<lparr>wp_Body := ''<h1>You have been authenticated successfully! Please head back to the command line</h1>''\<rparr>),
                     d\<lparr>au_response := Some resp\<rparr>)))"

definition callbacks :: "cli \<Rightarrow> web_request list \<Rightarrow> authenticator \<Rightarrow> authenticator" where
  "callbacks C rs d = fold (\<lambda>r d'. snd (callback C r d')) rs d"

definition WaitForResponse :: "authenticator \<Rightarrow> string + (string \<times> string) \<times> BindingResponse option" where
  "WaitForResponse d =
     (case au_response d of
        Some r \<Rightarrow> Inr r
      | None \<Rightarrow> Inl ''error while waiting for response: context deadline exceeded'')"

section \<open>The answer\<close>

definition checkResponse :: "string \<Rightarrow> (string \<times> string) \<times> BindingResponse option \<Rightarrow> string + BindingResponse" where
  "checkResponse sessionID answer =
     (case answer of ((gv, kind), resp) \<Rightarrow>
        if gv \<noteq> SchemeGroupVersion \<or> kind \<noteq> ''BindingResponse''
        then Inl (Sprintf ''unexpected response type %s, only supporting %s''
                    [FStr (gv @ '', Kind='' @ kind), FStr (SchemeGroupVersion @ '', Kind=BindingResponse'')])
        else case resp of
               None \<Rightarrow> Inl ''unexpected response type''
             | Some b \<Rightarrow>
                 (case br_OAuth2CodeGrant b of
                    None \<Rightarrow> Inl ''unexpected response: authentication.oauth2CodeGrant is nil''
                  | Some (sid, _) \<Rightarrow>
                      if sid \<noteq> sessionID then Inl ''unexpected response: sessionID does not match'' else Inr b))"

fun extractRequests :: "cli \<Rightarrow> nat \<Rightarrow> string list \<Rightarrow> string + ExportRequestResponse list" where
  "extractRequests C i [] = Inr []"
| "extractRequests C i (raw # rest) =
     (case ci_unmarshalAPIVersion C raw of
        Inl e \<Rightarrow> Inl (Sprintf ''unexpected response: failed to unmarshal request #%d: %v'' [FInt (int i), FStr e])
      | Inr v \<Rightarrow>
          if v \<noteq> SchemeGroupVersion
          then Inl (Sprintf ''unexpected response: request #%d is not %s, got %s''
                      [FInt (int i), FStr SchemeGroupVersion, FStr v])
          else case ci_unmarshalRequest C raw of
                 Inl e \<Rightarrow> Inl (Sprintf ''failed to unmarshal api request #%d: %v'' [FInt (int i + 1), FStr e])
               | Inr r \<Rightarrow>
                   (case extractRequests C (Suc i) rest of
                      Inl e \<Rightarrow> Inl e
                    | Inr rs \<Rightarrow> Inr (r # rs)))"

section \<open>The command\<close>

record BindOptions =
  bo_URL :: string
  bo_DryRun :: bool
  bo_KonnectorImageOverride :: string
  bo_flags :: "(string \<times> bool \<times> string) list"
  bo_outFile :: string
  bo_parsesURL :: "string \<Rightarrow> string + string"

definition PassOnFlags :: "string set" where
  "PassOnFlags = {''allow-missing-template-keys'', ''kubeconfig'', ''log-flush-frequency'', ''logging-format'', ''o'', ''output'',
     ''show-managed-fields'', ''skip-konnector'', ''template'', ''v'', ''vmodule'', ''konnector-image'',
     ''log-text-info-buffer-size'', ''log-text-split-stream''}"

definition BindOptions_Validate :: "BindOptions \<Rightarrow> string option" where
  "BindOptions_Validate b =
     (if bo_URL b = '''' then Some ''url is required as an argument''
      else case bo_parsesURL b (bo_URL b) of
             Inl e \<Rightarrow> Some (Sprintf ''invalid url %q: %w'' [FStr (bo_URL b), FStr e])
           | Inr _ \<Rightarrow> None)"

definition ensureBindNamespace :: "cli \<Rightarrow> string cmd" where
  "ensureBindNamespace C =
     recovering (apiCall (ci_getNamespace C) GetBindNamespace)
       (\<lambda>e. if \<not> IsNotFound e then fails e else apiCall (ci_createNamespace C) CreateBindNamespace)
       finished"

definition subcommandArgs :: "BindOptions \<Rightarrow> Secret \<Rightarrow> string list" where
  "subcommandArgs b secret =
     [''apiservice'', ''--remote-kubeconfig-namespace'', sec_Namespace secret, ''--remote-kubeconfig-name'', sec_Name secret,
      ''-f'', bo_outFile b]
     @ map (\<lambda>(n, _, v). ''--'' @ n @ ''='' @ v) (filter (\<lambda>(n, changed, _). changed \<and> n \<in> PassOnFlags) (bo_flags b))
     @ (if bo_KonnectorImageOverride b \<noteq> '''' then [''--konnector-image='' @ bo_KonnectorImageOverride b] else [])
     @ [''--no-banner'']"

text \<open>The requests are written one after the other to the same open file: each sub-command finds all texts so far.\<close>

fun runSubcommands :: "cli \<Rightarrow> BindOptions \<Rightarrow> Secret \<Rightarrow> string \<Rightarrow> ExportRequestResponse list \<Rightarrow> unit cmd" where
  "runSubcommands C b secret sofar [] = finished ()"
| "runSubcommands C b secret sofar (r # rs) =
     followedBy (lifted id (ci_marshalRequest C r))
       (\<lambda>bs. followedBy (apiCall (\<lambda>l. ci_run C l (subcommandArgs b secret) (sofar @ bs))
                           (RunSubcommand (subcommandArgs b secret) (sofar @ bs)))
               (\<lambda>_. runSubcommands C b secret (sofar @ bs) rs))"

fun printRequests :: "cli \<Rightarrow> ExportRequestResponse list \<Rightarrow> unit cmd" where
  "printRequests C [] = finished ()"
| "printRequests C (r # rs) =
     followedBy (apiCall (\<lambda>l. ci_printObj C l r) (PrintRequest r)) (\<lambda>_. printRequests C rs)"

text \<open>The kubeconfig goes into the secret of its host and namespace.\<close>

definition storeKubeconfig :: "cli \<Rightarrow> string \<Rightarrow> (Secret \<times> bool) cmd" where
  "storeKubeconfig C kubeconfig =
     followedBy (lifted id (ParseRemoteKubeconfig C kubeconfig))
       (\<lambda>(remoteHost, remoteNamespace). followedBy (FindRemoteKubeconfig C remoteNamespace remoteHost)
          (\<lambda>secretName. EnsureKubeconfigSecret C kubeconfig secretName))"

definition useResponse :: "cli \<Rightarrow> BindOptions \<Rightarrow> BindingResponse \<Rightarrow> unit cmd" where
  "useResponse C b resp =
     followedBy (lifted id (extractRequests C 0 (br_Requests resp)))
       (\<lambda>requests. followedBy (storeKubeconfig C (br_Kubeconfig resp))
          (\<lambda>(secret, created). if bo_DryRun b then printRequests C requests
                                else runSubcommands C b secret '''' requests))"

definition Run_bind :: "cli \<Rightarrow> BindOptions \<Rightarrow> web_request list \<Rightarrow> unit cmd" where
  "Run_bind C b rs =
     followedBy (lifted id (bo_parsesURL b (bo_URL b)))
       (\<lambda>exportURL. followedBy
          (recovering (getProvider C exportURL)
             (\<lambda>e. fails (plainError (Sprintf ''failed to fetch authentication url %q: %v'' [FStr exportURL, FStr (error_text e)])))
             finished)
          (\<lambda>provider.
             if bp_APIVersion provider \<noteq> ''v1alpha1''
             then fails (plainError (Sprintf ''unsupported binding provider version: %q'' [FStr (bp_APIVersion provider)]))
             else followedBy (ensureBindNamespace C)
               (\<lambda>uid. followedBy (lifted id (authenticator_Start C NewLocalhostCallbackAuthenticator))
                  (\<lambda>auth. followedBy (SessionID C)
                     (\<lambda>sessionID. followedBy (ClusterID C uid)
                        (\<lambda>clusterID. followedBy (authenticate C provider (Endpoint auth) sessionID clusterID)
                           (\<lambda>_. followedBy (lifted id (WaitForResponse (callbacks C rs auth)))
                              (\<lambda>answer. followedBy (lifted id (checkResponse sessionID answer))
                                 (useResponse C b)))))))))"

section \<open>The first answer counts\<close>

lemma callback_done: "au_response d \<noteq> None \<Longrightarrow> snd (callback C r d) = d"
  by (simp add: callback_def)

lemma callbacks_done: "au_response d \<noteq> None \<Longrightarrow> callbacks C rs d = d"
  by (induction rs) (simp_all add: callbacks_def callback_done)

text \<open>What a request carries, if it can be read.\<close>

definition readable :: "cli \<Rightarrow> web_request \<Rightarrow> ((string \<times> string) \<times> BindingResponse option) option" where
  "readable C r =
     (case DecodeString StdEncoding (valuesGet (wq_Query r) ''response'') of
        None \<Rightarrow> None
      | Some decoded \<Rightarrow> (case ci_decodeResponse C decoded of Inl _ \<Rightarrow> None | Inr x \<Rightarrow> Some x))"

lemma callback_response: "au_response d = None \<Longrightarrow> au_response (snd (callback C r d)) = readable C r"
  by (simp add: callback_def readable_def split: option.split sum.split)

lemma callbacks_Cons: "callbacks C (r # rs) d = callbacks C rs (snd (callback C r d))"
  by (simp add: callbacks_def)

lemma callbacks_first:
  "au_response d = None \<Longrightarrow>
     au_response (callbacks C rs d) = (case dropWhile (\<lambda>r. readable C r = None) rs of [] \<Rightarrow> None | r # _ \<Rightarrow> readable C r)"
proof (induction rs arbitrary: d)
  case Nil
  then show ?case by (simp add: callbacks_def)
next
  case (Cons r rs)
  note resp = callback_response [OF Cons.prems, of C r]
  show ?case
  proof (cases "readable C r")
    case None
    then show ?thesis using Cons.IH resp by (simp add: callbacks_Cons)
  next
    case (Some x)
    then show ?thesis using resp callbacks_done [of "snd (callback C r d)" C rs] by (simp add: callbacks_Cons)
  qed
qed

lemma checkResponse_ok:
  "checkResponse sid answer = Inr b \<longleftrightarrow>
     (\<exists>i. answer = ((SchemeGroupVersion, ''BindingResponse''), Some b) \<and> br_OAuth2CodeGrant b = Some (sid, i))"
  by (auto simp: checkResponse_def split: prod.splits option.splits if_splits)

section \<open>Identifiers of the client\<close>

lemma base62Char_alphanumeric: "d < 62 \<Longrightarrow> alphanumeric [base62Char d]"
  by (auto simp: base62Char_def alphanumeric_def Let_def)

lemma alphanumeric_append: "alphanumeric a \<Longrightarrow> alphanumeric b \<Longrightarrow> alphanumeric (a @ b)"
  by (simp add: alphanumeric_def)

lemma text62_alphanumeric: "alphanumeric (text62 n)"
proof (induction n rule: text62.induct)
  case (1 n)
  then show ?case
    by (subst text62.simps) (simp add: base62Char_alphanumeric alphanumeric_append)
qed

lemma alphanumeric_take: "alphanumeric s \<Longrightarrow> 0 < n \<Longrightarrow> alphanumeric (take n s)"
  by (auto simp: alphanumeric_def list_all_iff dest: in_set_takeD)

lemma firstSix_alphanumeric: "firstSix (text62 n) l = (Inr s, l') \<Longrightarrow> alphanumeric s \<and> length s = 6 \<and> l' = l"
  by (auto simp: firstSix_def finished_def fails_def intro: alphanumeric_take text62_alphanumeric split: if_splits)

lemma SessionID_alphanumeric: "SessionID C l = (Inr s, l') \<Longrightarrow> alphanumeric s \<and> length s = 6"
  by (auto simp: SessionID_def toBase62_def dest: firstSix_alphanumeric)

lemma ClusterID_alphanumeric: "ClusterID C u l = (Inr s, l') \<Longrightarrow> alphanumeric s \<and> length s = 6"
  by (auto simp: ClusterID_def toBase62_def dest: firstSix_alphanumeric)

section \<open>Secrets of other providers\<close>

text \<open>An update replaces the kubeconfig in a secret that was read and had the same host and namespace.\<close>

definition replacesOwn :: "cli \<Rightarrow> string \<Rightarrow> cli_call \<Rightarrow> bool" where
  "replacesOwn C kubeconfig c =
     (case c of
        UpdateKubeconfig s \<Rightarrow>
          (\<exists>l n s0 remote. ci_getSecret C l NAMESPACE n = Inr s0 \<and> ParseRemoteKubeconfig C kubeconfig = Inr remote
             \<and> holdsKubeconfigOf C remote s0 \<and> s = s0\<lparr>sec_Data := fmupd ''kubeconfig'' kubeconfig (sec_Data s0)\<rparr>)
      | CreateKubeconfig s \<Rightarrow> s = newKubeconfigSecret kubeconfig
      | GetSecretOf ns n \<Rightarrow> ns = NAMESPACE
      | ListKubeconfigs \<Rightarrow> True
      | _ \<Rightarrow> False)"

lemma runs_lifted: "(\<And>x. r = Inr x \<Longrightarrow> Q x) \<Longrightarrow> runs P Q (lifted msg r)"
  by (cases r) (auto simp: lifted_def intro: runs_intros)

lemma runs_retryOnConflict: "runs P Q m \<Longrightarrow> runs P Q (retryOnConflict n m)"
  by (induction n) (auto intro!: runs_recovering [where R = Q] runs_intros)

lemma runs_updateKubeconfigSecret:
  assumes "ParseRemoteKubeconfig C kubeconfig = Inr remote"
  shows "runs (replacesOwn C kubeconfig) (holdsKubeconfigOf C remote) (updateKubeconfigSecret C kubeconfig remote name)"
  unfolding updateKubeconfigSecret_def
proof (rule runs_followedBy [where R = "\<lambda>s. \<exists>l. ci_getSecret C l NAMESPACE name = Inr s"], goal_cases)
  case 1
  show ?case by (auto intro!: runs_intros simp: replacesOwn_def)
next
  case (2 s0)
  then obtain l where l: "ci_getSecret C l NAMESPACE name = Inr s0" by blast
  show ?case
  proof (cases "fmlookup (sec_Data s0) ''kubeconfig''")
    case None
    then show ?thesis by (simp add: runs_fails)
  next
    case (Some bs)
    show ?thesis
    proof (cases "ParseRemoteKubeconfig C bs = Inr remote")
      case True
      define s where "s = s0\<lparr>sec_Data := fmupd ''kubeconfig'' kubeconfig (sec_Data s0)\<rparr>"
      have "holdsKubeconfigOf C remote s0" using True Some by (simp add: holdsKubeconfigOf_def)
      then have own: "replacesOwn C kubeconfig (UpdateKubeconfig s)"
        using assms l unfolding replacesOwn_def s_def by auto
      have "holdsKubeconfigOf C remote s" using assms by (simp add: holdsKubeconfigOf_def s_def)
      then have "runs (replacesOwn C kubeconfig) (holdsKubeconfigOf C remote)
          (followedBy (apiCall (\<lambda>l. ci_updateSecret C l s) (UpdateKubeconfig s)) (\<lambda>_. finished s))"
        by (intro runs_followedBy [where R = "\<lambda>_. True"]) (auto intro!: runs_intros own)
      then show ?thesis using True Some by (simp add: s_def Let_def)
    next
      case False
      then show ?thesis using Some by (cases "ParseRemoteKubeconfig C bs") (simp_all add: runs_fails)
    qed
  qed
qed

lemma runs_EnsureKubeconfigSecret:
  "runs (replacesOwn C kubeconfig) (\<lambda>_. True) (EnsureKubeconfigSecret C kubeconfig name)"
  unfolding EnsureKubeconfigSecret_def Let_def
proof (rule runs_followedBy [where R = "\<lambda>r. ParseRemoteKubeconfig C kubeconfig = Inr r"], goal_cases)
  case 1
  show ?case by (simp add: runs_lifted)
next
  case (2 remote)
  have "runs (replacesOwn C kubeconfig) (holdsKubeconfigOf C remote)
      (retryOnConflict 4 (updateKubeconfigSecret C kubeconfig remote name))"
    by (rule runs_retryOnConflict [OF runs_updateKubeconfigSecret [OF 2]])
  then show ?case
    by (auto intro!: runs_intros runs_followedBy [where R = "\<lambda>_. True"] simp: replacesOwn_def intro: runs_weaken)
qed

lemma runs_storeKubeconfig: "runs (replacesOwn C kubeconfig) (\<lambda>_. True) (storeKubeconfig C kubeconfig)"
  unfolding storeKubeconfig_def FindRemoteKubeconfig_def
  by (auto intro!: runs_followedBy [where R = "\<lambda>_. True"] runs_lifted runs_intros runs_EnsureKubeconfigSecret
        simp: replacesOwn_def split: prod.split)

text \<open>Two kubeconfigs that cannot be loaded count as kubeconfigs of one provider.\<close>

lemma unloadable_kubeconfigs_match:
  "ci_Load C k = Inl e \<Longrightarrow> fmlookup (sec_Data s) ''kubeconfig'' = Some k' \<Longrightarrow> ci_Load C k' = Inl e'
     \<Longrightarrow> ParseRemoteKubeconfig C k = Inr ('''', '''') \<and> holdsKubeconfigOf C ('''', '''') s"
  by (simp add: ParseRemoteKubeconfig_def holdsKubeconfigOf_def)

section \<open>Sub-commands\<close>

text \<open>The manifest of the n-th sub-command is the text of all requests up to it.\<close>

lemma runSubcommands_manifests:
  assumes "\<And>r. ci_marshalRequest C r = Inr (text_of r)" "\<And>l as t. ci_run C l as t = Inr ()"
  shows "runSubcommands C b s t rs l =
    (Inr (), l @ map (\<lambda>n. RunSubcommand (subcommandArgs b s) (t @ concat (map text_of (take (Suc n) rs)))) [0..<length rs])"
proof (induction rs arbitrary: t l)
  case Nil
  show ?case by (simp add: finished_def)
next
  case (Cons r rs)
  have "[0..<length (r # rs)] = 0 # map Suc [0..<length rs]"
    by (simp add: upt_conv_Cons map_Suc_upt del: upt_Suc)
  then show ?case
    using Cons.IH [of "t @ text_of r"] assms
    by (simp add: followedBy_def lifted_def finished_def apiCall_def comp_def del: upt_Suc)
qed

end
