(* ===== verification/Bind_APIService.thy ===== *)
theory Bind_APIService
  imports Bind_Client App_Names Service_Binding
begin

text \<open>
  The command \<open>kubectl bind apiservice\<close>: \<open>bind/pkg/kubectl/bind-apiservice/plugin\<close>. With the kubeconfig of a
  provider it creates an APIServiceExportRequest there and waits for it, deploys the konnector, stores the kubeconfig, and
  creates an APIServiceBinding for every resource, after the user was asked about the claims of the provider.

  \<^item> The record \<open>svc\<close> has the \<open>cli\<close> of \<open>Bind_Client\<close> and the calls of this command.
  \<^item> \<open>wait.PollImmediate\<close> with a time limit makes \<open>sv_attempts\<close> attempts. The wait for the API of the bindings has no limit
    in the code; \<open>sv_patience\<close> attempts are modelled, after which the command is still waiting.
  \<^item> Standard input is the list of the texts that single reads return. \<open>promptYesNo\<close> makes a new buffered reader
    for every question: what such a reader read ahead is lost with it.

  The lemmas show that no claim is accepted without a yes, that an existing binding of another provider stops
  the command, which konnector is deployed, and what happens to answers that are typed ahead.
\<close>

section \<open>Options\<close>

record BindAPIServiceOptions =
  ao_url :: string
  ao_file :: string
  ao_OutputFormat :: string
  ao_allowedFormats :: "string list"
  ao_remoteKubeconfigFile :: string
  ao_remoteKubeconfigNamespace :: string
  ao_remoteKubeconfigName :: string
  ao_remoteNamespace :: string
  ao_SkipKonnector :: bool
  ao_KonnectorImageOverride :: string
  ao_DowngradeKonnector :: bool

record svc =
  sv_cli :: cli
  sv_parsesURL :: "string \<Rightarrow> string + unit"
  sv_loadFromFile :: "string \<Rightarrow> string + remote_config"
  sv_ClientConfig :: "remote_config \<Rightarrow> string + string"
  sv_Write :: "remote_config \<Rightarrow> string + string"
  sv_readManifest :: "cli_call list \<Rightarrow> string \<Rightarrow> apierr + string"
  sv_unmarshalManifest :: "string \<Rightarrow> string + export_request"
  sv_createRequest :: "cli_call list \<Rightarrow> string \<Rightarrow> export_request \<Rightarrow> apierr + export_request"
  sv_getRequest :: "cli_call list \<Rightarrow> string \<Rightarrow> string \<Rightarrow> apierr + export_request"
  sv_attempts :: nat
  sv_patience :: nat
  sv_getKonnector :: "cli_call list \<Rightarrow> apierr + string list"
  sv_bootstrap :: "cli_call list \<Rightarrow> string \<Rightarrow> apierr + unit"
  sv_listBindings :: "cli_call list \<Rightarrow> apierr + unit"
  sv_getBinding :: "cli_call list \<Rightarrow> string \<Rightarrow> apierr + APIServiceBinding"
  sv_getCRD :: "cli_call list \<Rightarrow> string \<Rightarrow> apierr + CRD"
  sv_createBinding :: "cli_call list \<Rightarrow> APIServiceBinding \<Rightarrow> apierr + APIServiceBinding"
  sv_updateStatus :: "cli_call list \<Rightarrow> APIServiceBinding \<Rightarrow> apierr + unit"
  sv_printTable :: "cli_call list \<Rightarrow> APIServiceBinding list \<Rightarrow> apierr + unit"
  sv_now :: time

text \<open>The set of the formats is printed in its order.\<close>

definition joined :: "string list \<Rightarrow> string" where
  "joined xs = (case xs of [] \<Rightarrow> '''' | y # ys \<Rightarrow> y @ concat (map (\<lambda>z. '', '' @ z) ys))"

definition APIService_Validate :: "svc \<Rightarrow> BindAPIServiceOptions \<Rightarrow> string option" where
  "APIService_Validate S b =
     (if ao_url b = '''' \<and> ao_file b = '''' then Some ''url or file is required''
      else if ao_url b \<noteq> '''' \<and> ao_file b \<noteq> '''' then Some ''url and file are mutually exclusive''
      else case (if ao_url b = '''' then Inr () else sv_parsesURL S (ao_url b)) of
        Inl e \<Rightarrow> Some (Sprintf ''invalid url %q: %w'' [FStr (ao_url b), FStr e])
      | Inr _ \<Rightarrow>
          if ao_OutputFormat b \<noteq> '''' \<and> ao_OutputFormat b \<notin> set (ao_allowedFormats b)
          then Some (Sprintf ''invalid output format %q (allowed: %s)''
                       [FStr (ao_OutputFormat b), FStr (joined (sort (remdups (ao_allowedFormats b))))])
          else if (ao_remoteKubeconfigNamespace b = '''') \<noteq> (ao_remoteKubeconfigName b = '''')
          then Some ''remote-kubeconfig-namespace and remote-kubeconfig-name must be specified together''
          else if ao_remoteKubeconfigFile b = '''' \<and> ao_remoteKubeconfigNamespace b = '''' \<and> ao_remoteKubeconfigName b = ''''
          then Some ''remote-kubeconfig or remote-kubeconfig-namespace and remote-kubeconfig-name are required''
          else None)"

section \<open>The remote kubeconfig and the manifest\<close>

definition loadRemote :: "svc \<Rightarrow> BindAPIServiceOptions \<Rightarrow> remote_config cmd" where
  "loadRemote S b =
     (if ao_remoteKubeconfigFile b \<noteq> '''' then lifted id (sv_loadFromFile S (ao_remoteKubeconfigFile b))
      else let ns = ao_remoteKubeconfigNamespace b; name = ao_remoteKubeconfigName b in
           followedBy (apiCall (\<lambda>l. ci_getSecret (sv_cli S) l ns name) (GetSecretOf ns name))
             (\<lambda>secret. case fmlookup (sec_Data secret) ''kubeconfig'' of
                None \<Rightarrow> fails (plainError (Sprintf ''secret %s/%s does not contain a kubeconfig'' [FStr ns, FStr name]))
              | Some bs \<Rightarrow> lifted id (ci_Load (sv_cli S) bs)))"

text \<open>The context of the loaded kubeconfig is changed in place: the text that is returned has the namespace of the flag.\<close>

definition getRemoteKubeconfig :: "svc \<Rightarrow> BindAPIServiceOptions \<Rightarrow> (string \<times> string \<times> string) cmd" where
  "getRemoteKubeconfig S b =
     followedBy (loadRemote S b)
       (\<lambda>cfg. case fmlookup (rc_Contexts cfg) (rc_CurrentContext cfg) of
          None \<Rightarrow> fails (plainError (Sprintf ''current context %q not found in remote kubeconfig'' [FStr (rc_CurrentContext cfg)]))
        | Some (cluster, ns0) \<Rightarrow>
            (let ns = (if ao_remoteNamespace b \<noteq> '''' then ao_remoteNamespace b else ns0);
                 cfg' = cfg\<lparr>rc_Contexts := fmupd (rc_CurrentContext cfg) (cluster, ns) (rc_Contexts cfg)\<rparr> in
             if ns = ''''
             then fails (plainError ''remote namespace is required, either as flag or in the passed remote kubeconfig'')
             else followedBy (lifted id (sv_ClientConfig S cfg'))
                    (\<lambda>host. followedBy (lifted id (sv_Write S cfg')) (\<lambda>text. finished (text, ns, host)))))"

definition getRequestManifest :: "svc \<Rightarrow> BindAPIServiceOptions \<Rightarrow> string cmd" where
  "getRequestManifest S b =
     (let wrap = (\<lambda>fmt args e. fails (plainError (Sprintf fmt (args @ [FStr (error_text e)])))) in
      if ao_url b \<noteq> ''''
      then recovering (apiCall (\<lambda>l. ci_httpGet (sv_cli S) l (ao_url b)) (FetchURL (ao_url b)))
             (wrap ''failed to get %s: %w'' [FStr (ao_url b)]) finished
      else if ao_file b = ''-''
      then recovering (apiCall (\<lambda>l. sv_readManifest S l ''-'') (ReadManifest ''-'')) (wrap ''failed to read from stdin: %w'' []) finished
      else recovering (apiCall (\<lambda>l. sv_readManifest S l (ao_file b)) (ReadManifest (ao_file b)))
             (wrap ''failed to read file %s: %w'' [FStr (ao_file b)]) finished)"

definition unmarshalManifest :: "svc \<Rightarrow> string \<Rightarrow> export_request cmd" where
  "unmarshalManifest S bs =
     followedBy (lifted (\<lambda>e. Sprintf ''failed to unmarshal manifest: %w'' [FStr e]) (sv_unmarshalManifest S bs))
       (\<lambda>r. if xr_APIVersion r \<noteq> SchemeGroupVersion
            then fails (plainError (Sprintf ''invalid apiVersion %q'' [FStr (xr_APIVersion r)]))
            else if xr_Kind r \<noteq> ''APIServiceExportRequest''
            then fails (plainError (Sprintf ''invalid kind %q'' [FStr (xr_Kind r)]))
            else finished r)"

section \<open>The export request\<close>

definition submitRequest :: "svc \<Rightarrow> string \<Rightarrow> export_request \<Rightarrow> export_request cmd" where
  "submitRequest S ns request =
     (let r = (if xr_Name request = '''' then request\<lparr>xr_GenerateName := ''export-''\<rparr> else request) in
      recovering (apiCall (\<lambda>l. sv_createRequest S l ns r) (CreateExportRequest ns r))
        (\<lambda>e. if \<not> IsAlreadyExists e \<or> xr_Name r = '''' then fails e
             else let r' = r\<lparr>xr_GenerateName := xr_Name r @ ''-'', xr_Name := ''''\<rparr> in
                  apiCall (\<lambda>l. sv_createRequest S l ns r') (CreateExportRequest ns r'))
        finished)"

fun awaitRequest :: "nat \<Rightarrow> svc \<Rightarrow> string \<Rightarrow> string \<Rightarrow> export_request cmd" where
  "awaitRequest 0 S ns name = fails (plainError ''timed out waiting for the condition'')"
| "awaitRequest (Suc n) S ns name =
     recovering (apiCall (\<lambda>l. sv_getRequest S l ns name) (GetExportRequest ns name))
       (\<lambda>e. if \<not> IsNotFound e then fails e
            else fails (plainError (Sprintf ''APIServiceExportRequest %s was deleted by the service provider'' [FStr name])))
       (\<lambda>r. if xr_Phase r = APIServiceExportRequestPhaseSucceeded then finished r
            else if xr_Phase r = APIServiceExportRequestPhaseFailed
            then fails (plainError (Sprintf ''binding request failed: %s'' [FStr (xr_TerminalMessage r)]))
            else awaitRequest n S ns name)"

definition createServiceExportRequest :: "svc \<Rightarrow> string \<Rightarrow> export_request \<Rightarrow> export_request cmd" where
  "createServiceExportRequest S ns request =
     followedBy (submitRequest S ns request) (\<lambda>created. awaitRequest (sv_attempts S) S ns (xr_Name created))"

section \<open>The konnector\<close>

definition ImageRepository :: string where
  [klutch_defs]: "ImageRepository = ''public.ecr.aws/w5n9a2g2/klutch/konnector''"

definition konnector_Image :: "string \<Rightarrow> string" where
  "konnector_Image version = ImageRepository @ '':'' @ version"

definition ParseVersion :: "string \<Rightarrow> string \<times> bool" where
  "ParseVersion img =
     (let prefix = ImageRepository @ '':'' in
      if \<not> HasPrefix img prefix then (''unknown'', False) else (TrimPrefix img prefix, True))"

text \<open>The version, and whether there is a deployment; a deployment without containers is a panic.\<close>

definition currentKonnectorVersion :: "svc \<Rightarrow> (string \<times> bool) cmd" where
  "currentKonnectorVersion S =
     recovering (apiCall (sv_getKonnector S) GetKonnectorDeployment)
       (\<lambda>e. if \<not> IsNotFound e then fails e else finished ('''', False))
       (\<lambda>imgs. case imgs of
          [] \<Rightarrow> fails panicError
        | img # _ \<Rightarrow> (case ParseVersion img of (ver, ok) \<Rightarrow> finished (if ok then ver else ''unknown'', True)))"

definition bootstrap :: "svc \<Rightarrow> string \<Rightarrow> unit cmd" where
  "bootstrap S img = apiCall (\<lambda>l. sv_bootstrap S l img) (BootstrapKonnector img)"

definition replaceKonnector :: "svc \<Rightarrow> string \<Rightarrow> string \<Rightarrow> unit cmd" where
  "replaceKonnector S konnectorVersion bindVersion =
     followedBy (lifted (\<lambda>e. Sprintf ''failed to parse konnector SemVer version %q: %w'' [FStr konnectorVersion, FStr e])
                   (ci_semver (sv_cli S) (TrimLeft konnectorVersion (CHR ''v''))))
       (\<lambda>kv. followedBy (lifted (\<lambda>e. Sprintf ''failed to parse kubectl-bind SemVer version %q: %w'' [FStr bindVersion, FStr e])
                           (ci_semver (sv_cli S) (TrimLeft bindVersion (CHR ''v''))))
          (\<lambda>bv. if ci_before (sv_cli S) kv bv then bootstrap S (konnector_Image bindVersion) else finished ()))"

definition installKonnector :: "svc \<Rightarrow> BindAPIServiceOptions \<Rightarrow> string \<Rightarrow> unit cmd" where
  "installKonnector S b bindVersion =
     (if ao_KonnectorImageOverride b \<noteq> '''' then bootstrap S (ao_KonnectorImageOverride b)
      else if ao_SkipKonnector b then finished ()
      else followedBy
        (recovering (currentKonnectorVersion S)
           (\<lambda>e. if e = panicError then fails e
                else fails (e\<lparr>error_text := Sprintf ''failed to check current konnector version in the cluster: %w'' [FStr (error_text e)]\<rparr>))
           finished)
        (\<lambda>(konnectorVersion, installed).
           if installed \<and> (konnectorVersion = ''unknown'' \<or> konnectorVersion = ''latest'') then finished ()
           else if installed then replaceKonnector S konnectorVersion bindVersion
           else bootstrap S (konnector_Image bindVersion)))"

fun awaitBindingsAPI :: "nat \<Rightarrow> svc \<Rightarrow> unit cmd" where
  "awaitBindingsAPI 0 S = fails (plainError ''still waiting'')"
| "awaitBindingsAPI (Suc n) S =
     recovering (apiCall (sv_listBindings S) ListServiceBindings) (\<lambda>_. awaitBindingsAPI n S) finished"

definition deployKonnector :: "svc \<Rightarrow> BindAPIServiceOptions \<Rightarrow> unit cmd" where
  "deployKonnector S b =
     followedBy (lifted id (BinaryVersion (ci_clientGitVersion (sv_cli S))))
       (\<lambda>bindVersion. followedBy (installKonnector S b bindVersion) (\<lambda>_. awaitBindingsAPI (sv_patience S) S))"

section \<open>The kubeconfig secret\<close>

text \<open>A secret that is found is used as it is.\<close>

definition createKubeconfigSecret :: "svc \<Rightarrow> string \<Rightarrow> string \<Rightarrow> string \<Rightarrow> string cmd" where
  "createKubeconfigSecret S remoteHost remoteNamespace kubeconfig =
     followedBy
       (recovering (apiCall (ci_createNamespace (sv_cli S)) CreateBindNamespace)
          (\<lambda>e. if \<not> IsAlreadyExists e then fails e else finished ()) (\<lambda>_. finished ()))
       (\<lambda>_. followedBy (FindRemoteKubeconfig (sv_cli S) remoteNamespace remoteHost)
          (\<lambda>secretName. if secretName \<noteq> '''' then finished secretName
             else followedBy (EnsureKubeconfigSecret (sv_cli S) kubeconfig '''')
                    (\<lambda>(secret, _). followedBy (lifted id (ParseRemoteKubeconfig (sv_cli S) kubeconfig))
                       (\<lambda>_. finished (sec_Name secret)))))"

section \<open>The questions\<close>

definition nl :: string where
  "nl = [CHR 0x0A]"

definition tab :: string where
  "tab = [CHR 0x09]"

definition quotes :: "string \<Rightarrow> string" where
  "quotes s = [CHR 0x22] @ s @ [CHR 0x22]"

definition claimedObjects :: "claim_terms \<Rightarrow> string" where
  "claimedObjects p =
     gr_Resource p @ '' objects (apiVersion: ''
     @ quotes (if gr_Group p \<noteq> '''' then gr_Group p @ ''/'' @ pc_Version p else pc_Version p) @ '')''"

definition claimVerb :: "claim_terms \<Rightarrow> string" where
  "claimVerb p =
     (let owner = (case pc_Selector p of None \<Rightarrow> '''' | Some s \<Rightarrow> rs_Owner s) in
      if owner = ''Provider'' then ''write'' else if owner = ''Consumer'' then ''read'' else ''read and write'')"

definition writeFirstLines :: "string \<Rightarrow> claim_terms \<Rightarrow> string" where
  "writeFirstLines groupResource p =
     (let names = (case pc_Selector p of None \<Rightarrow> [] | Some s \<Rightarrow> rs_Names s);
          phrase = (if \<not> ct_AutoDonate p \<and> \<not> ct_AutoAdopt p then claimVerb p @ '' '' @ groupResource
                    else if ct_AutoDonate p \<and> \<not> ct_AutoAdopt p then ''create user owned '' @ groupResource
                    else if \<not> ct_AutoDonate p \<and> ct_AutoAdopt p then ''have ownership of '' @ groupResource
                    else groupResource);
          ref = (if names \<noteq> []
                 then '' which are referenced with:'' @ concat (map (\<lambda>n. nl @ tab @ ''- name: '' @ quotes n) names) @ nl
                 else '' '')
      in ''The provider wants to '' @ phrase @ ref @ ''on your cluster.'' @ nl)"

definition writeCreate :: "claim_terms \<Rightarrow> string" where
  "writeCreate p = (if ct_ReplaceExisting p = Some True then ''Conflicting objects will be replaced by the provider. '' else '''')"

definition writeOnConflict :: "claim_terms \<Rightarrow> string" where
  "writeOnConflict p =
     (if ct_RecreateWhenConsumerSideDeleted p = Some True then ''Created objects will be recreated upon deletion. '' else '''')"

definition writeUpdateClause :: "claim_terms \<Rightarrow> string" where
  "writeUpdateClause p =
     (case ct_Update p of
        None \<Rightarrow> ''''
      | Some u \<Rightarrow>
          (if ut_Fields u \<noteq> None
           then ''The following fields of the objects will still be able to be changed by the provider:'' @ nl else '''')
          @ (if ut_Preserving u \<noteq> None then ''The following fields of the objects will be preserved by the provider:'' @ nl else '''')
          @ concat (map (\<lambda>s. tab @ quotes s @ nl)
              (case_option [] id (ut_Fields u) @ case_option [] id (ut_Preserving u)))
          @ (if ut_AlwaysRecreate u
             then ''Modification of said objects will by handled by deletion and recreation of said objects.'' @ nl else ''''))"

definition writeRequiredAndAcceptance :: "bool \<Rightarrow> string" where
  "writeRequiredAndAcceptance required =
     (if required then ''Accepting this Permission is required in order to proceed.'' else ''Accepting this Permission is optional.'')
     @ nl @ ''Do you accept this Permission? [No,Yes]'' @ nl"

definition printPermissionClaim :: "claim_terms \<Rightarrow> string" where
  "printPermissionClaim p =
     writeFirstLines (claimedObjects p) p @ writeCreate p @ writeOnConflict p @ writeUpdateClause p
     @ writeRequiredAndAcceptance (pc_Required p)"

text \<open>One line from a buffered reader: what it holds, then one read after the other; \<open>None\<close> at the end of the input.\<close>

fun readString :: "string \<Rightarrow> string list \<Rightarrow> (string \<times> string \<times> string list) option" where
  "readString buf reads =
     (if CHR 0x0A \<in> set buf
      then Some (takeWhile (\<lambda>c. c \<noteq> CHR 0x0A) buf, tl (dropWhile (\<lambda>c. c \<noteq> CHR 0x0A) buf), reads)
      else case reads of [] \<Rightarrow> None | r # rs \<Rightarrow> readString (buf @ r) rs)"

declare readString.simps [simp del]

abbreviation unread :: "string \<Rightarrow> string list \<Rightarrow> nat" where
  "unread buf reads \<equiv> length buf + sum_list (map length reads)"

lemma readString_shorter: "readString buf reads = Some (line, rest, reads') \<Longrightarrow> unread rest reads' < unread buf reads"
proof (induction buf reads rule: readString.induct)
  case (1 buf reads)
  show ?case
  proof (cases "CHR 0x0A \<in> set buf")
    case True
    have split: "length buf = length (takeWhile (\<lambda>c. c \<noteq> CHR 0x0A) buf) + length (dropWhile (\<lambda>c. c \<noteq> CHR 0x0A) buf)"
      by (metis length_append takeWhile_dropWhile_id)
    have "dropWhile (\<lambda>c. c \<noteq> CHR 0x0A) buf \<noteq> []" using True by (auto simp: dropWhile_eq_Nil_conv)
    then have "length (tl (dropWhile (\<lambda>c. c \<noteq> CHR 0x0A) buf)) < length buf"
      using split by (cases "dropWhile (\<lambda>c. c \<noteq> CHR 0x0A) buf") simp_all
    then show ?thesis using 1 True by (subst (asm) (2) readString.simps) auto
  next
    case False
    then show ?thesis using 1 by (subst (asm) (2) readString.simps) (auto split: list.splits)
  qed
qed

definition affirmative :: "string \<Rightarrow> bool option" where
  "affirmative line =
     (let r = ToLower (TrimSpace line) in
      if r = ''y'' \<or> r = ''yes'' then Some True else if r = ''n'' \<or> r = ''no'' then Some False else None)"

text \<open>The answer, how often the question was shown, and the reads that are left.\<close>

function answerFrom :: "string \<Rightarrow> string list \<Rightarrow> bool option \<times> nat \<times> string list" where
  "answerFrom buf reads =
     (case readString buf reads of
        None \<Rightarrow> (None, 1, [])
      | Some (line, rest, reads') \<Rightarrow>
          (case affirmative line of
             Some a \<Rightarrow> (Some a, 1, reads')
           | None \<Rightarrow> (case answerFrom rest reads' of (a, n, rs) \<Rightarrow> (a, Suc n, rs))))"
  by pat_completeness auto
termination
  by (relation "measure (\<lambda>(buf, reads). unread buf reads)") (auto dest: readString_shorter)

declare answerFrom.simps [simp del]

definition promptYesNo :: "claim_terms \<Rightarrow> string list \<Rightarrow> (bool \<times> string list) cmd" where
  "promptYesNo p reads l =
     (case answerFrom '''' reads of (a, n, reads') \<Rightarrow>
        (case a of None \<Rightarrow> Inl (plainError ''EOF'') | Some b \<Rightarrow> Inr (b, reads'),
         l @ replicate n (AskUser (printPermissionClaim p))))"

section \<open>The bindings\<close>

definition ClaimRejected :: string where
  [klutch_defs]: "ClaimRejected = ''Rejected''"

definition answeredClaim :: "claim_terms \<Rightarrow> bool \<Rightarrow> AcceptablePermissionClaim" where
  "answeredClaim p accepted = \<lparr>gr_Group = gr_Group p, gr_Resource = gr_Resource p, pc_Version = pc_Version p,
     pc_Selector = pc_Selector p, pc_Required = pc_Required p, apc_State = (if accepted then ClaimAccepted else ClaimRejected)\<rparr>"

fun askClaims :: "claim_terms list \<Rightarrow> string list \<Rightarrow> (AcceptablePermissionClaim list \<times> string list) cmd" where
  "askClaims [] reads = finished ([], reads)"
| "askClaims (p # ps) reads =
     followedBy (promptYesNo p reads)
       (\<lambda>(accepted, reads'). followedBy (askClaims ps reads')
          (\<lambda>(claims, reads''). finished (answeredClaim p accepted # claims, reads'')))"

definition AppClusterBindDefaultNamespace :: string where
  [klutch_defs]: "AppClusterBindDefaultNamespace = ''klutch-bind''"

definition newBinding :: "string \<Rightarrow> string \<Rightarrow> AcceptablePermissionClaim list \<Rightarrow> APIServiceBinding" where
  "newBinding name secretName claims =
     \<lparr>sb_Kind = '''', sb_Meta = (namedMeta name)\<lparr>om_Namespace := AppClusterBindDefaultNamespace\<rparr>,
      sb_KubeconfigSecretRef = \<lparr>ref_Name = secretName, ref_Key = ''kubeconfig'', ref_Namespace = AppClusterBindDefaultNamespace\<rparr>,
      sb_PermissionClaims = claims, sb_ProviderPrettyName = '''', sb_Conditions = []\<rparr>"

definition pendingBinding :: "time \<Rightarrow> APIServiceBinding \<Rightarrow> APIServiceBinding" where
  "pendingBinding now b = MarkFalse serviceBindingSetter now b ReadyCondition ''Pending'' ConditionSeverityInfo ''Pending'' []"

definition createBinding :: "svc \<Rightarrow> APIServiceBinding \<Rightarrow> APIServiceBinding cmd" where
  "createBinding S b =
     followedBy (apiCall (\<lambda>l. sv_createBinding S l b) (CreateServiceBinding b))
       (\<lambda>created. let p = pendingBinding (sv_now S) created in
          recovering (apiCall (\<lambda>l. sv_updateStatus S l p) (UpdateBindingStatus p)) (\<lambda>_. finished p) (\<lambda>_. finished p))"

definition checkExisting :: "svc \<Rightarrow> string \<Rightarrow> string \<Rightarrow> APIServiceBinding \<Rightarrow> APIServiceBinding cmd" where
  "checkExisting S name secretName existing =
     (if ref_Namespace (sb_KubeconfigSecretRef existing) \<noteq> AppClusterBindDefaultNamespace
          \<or> ref_Name (sb_KubeconfigSecretRef existing) \<noteq> secretName
      then fails (plainError (Sprintf ''found existing APIServiceBinding %s not from this service provider'' [FStr name]))
      else recovering (apiCall (\<lambda>l. sv_getCRD S l name) (GetCRDNamed name))
             (\<lambda>e. if \<not> IsNotFound e then fails e else finished existing)
             (\<lambda>crd. if \<not> IsOwnedByBinding (om_Name (sb_Meta existing)) (om_UID (sb_Meta existing)) (om_OwnerReferences (crd_Meta crd))
                    then fails (plainError (Sprintf ''CustomResourceDefinition %s exists, but is not owned by klutch-bind''
                                  [FStr (om_Name (crd_Meta crd))]))
                    else finished existing))"

definition bindResource :: "svc \<Rightarrow> string \<Rightarrow> request_resource \<Rightarrow> string list \<Rightarrow> (APIServiceBinding \<times> string list) cmd" where
  "bindResource S secretName r reads =
     (let name = gr_Resource r @ ''.'' @ gr_Group r in
      recovering (apiCall (\<lambda>l. sv_getBinding S l name) (GetBindingNamed name))
        (\<lambda>e. if \<not> IsNotFound e then fails e
             else followedBy (askClaims (qr_PermissionClaims r) reads)
                    (\<lambda>(claims, reads'). followedBy (createBinding S (newBinding name secretName claims))
                       (\<lambda>b. finished (b, reads'))))
        (\<lambda>existing. followedBy (checkExisting S name secretName existing) (\<lambda>b. finished (b, reads))))"

fun createAPIServiceBindings :: "svc \<Rightarrow> string \<Rightarrow> request_resource list \<Rightarrow> string list \<Rightarrow> APIServiceBinding list cmd" where
  "createAPIServiceBindings S secretName [] reads = finished []"
| "createAPIServiceBindings S secretName (r # rs) reads =
     followedBy (bindResource S secretName r reads)
       (\<lambda>(b, reads'). followedBy (createAPIServiceBindings S secretName rs reads') (\<lambda>bs. finished (b # bs)))"

section \<open>The command\<close>

definition Run_apiservice :: "svc \<Rightarrow> BindAPIServiceOptions \<Rightarrow> string list \<Rightarrow> unit cmd" where
  "Run_apiservice S b reads =
     followedBy (getRemoteKubeconfig S b)
       (\<lambda>(remoteKubeconfig, remoteNamespace, host). followedBy (getRequestManifest S b)
          (\<lambda>bs. followedBy (unmarshalManifest S bs)
             (\<lambda>request. followedBy (createServiceExportRequest S remoteNamespace request)
                (\<lambda>result. followedBy (deployKonnector S b)
                   (\<lambda>_. followedBy (createKubeconfigSecret S host remoteNamespace remoteKubeconfig)
                      (\<lambda>secretName. followedBy (createAPIServiceBindings S secretName (xr_Resources result) reads)
                         (\<lambda>bindings. apiCall (\<lambda>l. sv_printTable S l bindings) (PrintTable bindings))))))))"

section \<open>Answers\<close>

text \<open>A terminal hands over one line per read.\<close>

definition terminal :: "string list \<Rightarrow> string list" where
  "terminal ls = map (\<lambda>s. s @ nl) ls"

definition oneLine :: "string \<Rightarrow> bool" where
  "oneLine s \<longleftrightarrow> CHR 0x0A \<notin> set s"

lemma readString_line: "oneLine s \<Longrightarrow> readString (s @ nl @ rest) reads = Some (s, rest, reads)"
  by (subst readString.simps) (simp add: oneLine_def nl_def takeWhile_before dropWhile_append)

lemma readString_nil: "readString '''' reads = (case reads of [] \<Rightarrow> None | r # rs \<Rightarrow> readString r rs)"
  by (subst readString.simps) (simp split: list.split)

text \<open>The answers among the lines, the others being asked again.\<close>

definition answersIn :: "string list \<Rightarrow> bool list" where
  "answersIn ls = List.map_filter affirmative ls"

lemma answersIn_simps [simp]:
  "answersIn [] = []"
  "answersIn (s # ls) = (case affirmative s of None \<Rightarrow> answersIn ls | Some a \<Rightarrow> a # answersIn ls)"
  by (simp_all add: answersIn_def map_filter_simps split: option.split)

lemma answerFrom_terminal:
  assumes "list_all oneLine ls"
  shows "\<exists>n. answerFrom '''' (terminal ls) =
    (case answersIn ls of
       [] \<Rightarrow> (None, n, [])
     | a # _ \<Rightarrow> (Some a, n, terminal (tl (dropWhile (\<lambda>s. affirmative s = None) ls))))"
  using assms
proof (induction ls)
  case Nil
  show ?case by (subst answerFrom.simps) (simp add: terminal_def readString_nil)
next
  case (Cons s ls)
  have line: "readString '''' (terminal (s # ls)) = Some (s, '''', terminal ls)"
    using readString_line [of s "''''" "terminal ls"] Cons.prems by (simp add: terminal_def readString_nil)
  show ?case
  proof (cases "affirmative s")
    case None
    from Cons obtain n where "answerFrom '''' (terminal ls) =
      (case answersIn ls of [] \<Rightarrow> (None, n, [])
       | a # _ \<Rightarrow> (Some a, n, terminal (tl (dropWhile (\<lambda>s. affirmative s = None) ls))))" by auto
    then show ?thesis
      by (intro exI [of _ "Suc n"], subst answerFrom.simps) (simp add: line None split: list.split)
  next
    case (Some a)
    then show ?thesis by (intro exI [of _ 1], subst answerFrom.simps) (simp add: line)
  qed
qed

lemma answersIn_dropWhile: "answersIn (tl (dropWhile (\<lambda>s. affirmative s = None) ls)) = tl (answersIn ls)"
  by (induction ls) (auto split: option.split)

lemma oneLine_dropWhile: "list_all oneLine ls \<Longrightarrow> list_all oneLine (tl (dropWhile P ls))"
  by (induction ls) auto

lemma promptYesNo_terminal:
  assumes "list_all oneLine ls"
  shows "\<exists>n. promptYesNo p (terminal ls) l =
    (case answersIn ls of
       [] \<Rightarrow> Inl (plainError ''EOF'')
     | a # _ \<Rightarrow> Inr (a, terminal (tl (dropWhile (\<lambda>s. affirmative s = None) ls))),
     l @ replicate n (AskUser (printPermissionClaim p)))"
  using answerFrom_terminal [OF assms] by (auto simp: promptYesNo_def split: list.split)

lemma askClaims_terminal:
  assumes "list_all oneLine ls"
  shows "\<exists>ls' cs. list_all oneLine ls' \<and> answersIn ls' = drop (length ps) (answersIn ls) \<and>
    askClaims ps (terminal ls) l =
      (if length ps \<le> length (answersIn ls)
       then Inr (map2 answeredClaim ps (answersIn ls), terminal ls') else Inl (plainError ''EOF''), l @ cs)"
  using assms
proof (induction ps arbitrary: ls l)
  case Nil
  then show ?case by (intro exI [of _ ls] exI [of _ "[]"]) (simp add: finished_def)
next
  case (Cons p ps)
  obtain n where p: "promptYesNo p (terminal ls) l =
      (case answersIn ls of [] \<Rightarrow> Inl (plainError ''EOF'')
       | a # _ \<Rightarrow> Inr (a, terminal (tl (dropWhile (\<lambda>s. affirmative s = None) ls))),
       l @ replicate n (AskUser (printPermissionClaim p)))"
    using promptYesNo_terminal [OF Cons.prems] by blast
  show ?case
  proof (cases "answersIn ls")
    case Nil
    then show ?thesis using p
      by (intro exI [of _ ls] exI [of _ "replicate n (AskUser (printPermissionClaim p))"] conjI)
        (simp_all add: followedBy_def Cons.prems)
  next
    case (Cons a as)
    define ms where "ms = tl (dropWhile (\<lambda>s. affirmative s = None) ls)"
    have ms: "list_all oneLine ms" "answersIn ms = as"
      using Cons.prems answersIn_dropWhile [of ls] \<open>answersIn ls = a # as\<close> by (simp_all add: ms_def oneLine_dropWhile)
    have p': "promptYesNo p (terminal ls) l = (Inr (a, terminal ms), l @ replicate n (AskUser (printPermissionClaim p)))"
      using p Cons by (simp add: ms_def)
    from Cons.IH [OF ms(1), of "l @ replicate n (AskUser (printPermissionClaim p))"] obtain ls' cs where
      "list_all oneLine ls'" "answersIn ls' = drop (length ps) as"
      "askClaims ps (terminal ms) (l @ replicate n (AskUser (printPermissionClaim p))) =
        (if length ps \<le> length as then Inr (map2 answeredClaim ps as, terminal ls') else Inl (plainError ''EOF''),
         (l @ replicate n (AskUser (printPermissionClaim p))) @ cs)"
      using ms(2) by auto
    then show ?thesis using p' Cons
      by (intro exI [of _ ls'] exI [of _ "replicate n (AskUser (printPermissionClaim p)) @ cs"])
        (simp add: followedBy_def finished_def)
  qed
qed

text \<open>Answers in one read: the first question takes one and drops the others.\<close>

lemma answerFrom_one_read:
  assumes "oneLine s" "affirmative s = Some a"
  shows "answerFrom '''' [s @ nl @ later] = (Some a, 1, [])"
  using readString_line [OF assms(1), of later "[]"] assms(2)
  by (subst answerFrom.simps) (simp add: readString_nil)

lemma askClaims_typed_ahead:
  assumes "oneLine s" "affirmative s = Some a"
  shows "\<exists>l'. askClaims (p # q # ps) [s @ nl @ later] l = (Inl (plainError ''EOF''), l')"
proof -
  have "answerFrom '''' [] = (None, 1, [])"
    by (subst answerFrom.simps) (simp add: readString_nil)
  then show ?thesis
    using answerFrom_one_read [OF assms, of later] by (simp add: followedBy_def promptYesNo_def)
qed

section \<open>Versions of the konnector\<close>

text \<open>What is deployed: the given image, or that of the version of the command where no konnector or an older one was found.\<close>

definition foundOlder :: "svc \<Rightarrow> string \<Rightarrow> bool" where
  "foundOlder S bindVersion =
     (\<exists>l old rest kv bv. sv_getKonnector S l = Inr (old # rest)
        \<and> ci_semver (sv_cli S) (TrimLeft (fst (ParseVersion old)) (CHR ''v'')) = Inr kv
        \<and> ci_semver (sv_cli S) (TrimLeft bindVersion (CHR ''v'')) = Inr bv \<and> ci_before (sv_cli S) kv bv)"

definition foundNone :: "svc \<Rightarrow> bool" where
  "foundNone S = (\<exists>l e. sv_getKonnector S l = Inl e \<and> IsNotFound e)"

definition upgradeOnly :: "svc \<Rightarrow> BindAPIServiceOptions \<Rightarrow> string \<Rightarrow> cli_call \<Rightarrow> bool" where
  "upgradeOnly S b bindVersion c =
     (case c of
        BootstrapKonnector img \<Rightarrow>
          (if ao_KonnectorImageOverride b \<noteq> '''' then img = ao_KonnectorImageOverride b
           else \<not> ao_SkipKonnector b \<and> img = konnector_Image bindVersion \<and> (foundNone S \<or> foundOlder S bindVersion))
      | GetKonnectorDeployment \<Rightarrow> True
      | ListServiceBindings \<Rightarrow> True
      | _ \<Rightarrow> False)"

definition readVersion :: "svc \<Rightarrow> string \<times> bool \<Rightarrow> bool" where
  "readVersion S r =
     (if snd r then (\<exists>l old rest. sv_getKonnector S l = Inr (old # rest) \<and> fst r = fst (ParseVersion old)) else foundNone S)"

lemma upgradeOnly_reads [simp]: "upgradeOnly S b v GetKonnectorDeployment" "upgradeOnly S b v ListServiceBindings"
  by (simp_all add: upgradeOnly_def)

lemma ParseVersion_version: "(case ParseVersion img of (ver, ok) \<Rightarrow> (if ok then ver else ''unknown'')) = fst (ParseVersion img)"
  by (simp add: ParseVersion_def Let_def)

lemma currentKonnectorVersion_eq:
  "currentKonnectorVersion S l =
     (case sv_getKonnector S l of
        Inl e \<Rightarrow> if IsNotFound e then Inr ('''', False) else Inl e
      | Inr imgs \<Rightarrow> (case imgs of [] \<Rightarrow> Inl panicError | img # _ \<Rightarrow> Inr (fst (ParseVersion img), True)),
      l @ [GetKonnectorDeployment])"
  by (simp add: currentKonnectorVersion_def recovering_def apiCall_def fails_def finished_def
        ParseVersion_version [symmetric] split: sum.split list.split prod.split)

lemma runs_currentKonnectorVersion: "runs (upgradeOnly S b v) (readVersion S) (currentKonnectorVersion S)"
  unfolding runs_def currentKonnectorVersion_eq readVersion_def foundNone_def
  by (auto split: sum.splits list.splits if_splits)

lemma runs_replaceKonnector:
  assumes "sv_getKonnector S l = Inr (old # rest)" "ver = fst (ParseVersion old)"
    and "ao_KonnectorImageOverride b = ''''" "\<not> ao_SkipKonnector b"
  shows "runs (upgradeOnly S b v) (\<lambda>_. True) (replaceKonnector S ver v)"
  unfolding replaceKonnector_def
proof (rule runs_followedBy [where R = "\<lambda>kv. ci_semver (sv_cli S) (TrimLeft ver (CHR ''v'')) = Inr kv"], goal_cases)
  case 1
  show ?case by (rule runs_lifted)
next
  case (2 kv)
  show ?case
  proof (rule runs_followedBy [where R = "\<lambda>bv. ci_semver (sv_cli S) (TrimLeft v (CHR ''v'')) = Inr bv"], goal_cases)
    case 1
    show ?case by (rule runs_lifted)
  next
    case (2 bv)
    then have "ci_before (sv_cli S) kv bv \<Longrightarrow> foundOlder S v"
      using \<open>ci_semver (sv_cli S) (TrimLeft ver (CHR ''v'')) = Inr kv\<close> assms(1,2) unfolding foundOlder_def by blast
    then show ?case
      using assms(3,4) by (auto intro!: runs_intros simp: bootstrap_def upgradeOnly_def)
  qed
qed

lemma runs_installKonnector: "runs (upgradeOnly S b v) (\<lambda>_. True) (installKonnector S b v)"
proof (cases "ao_KonnectorImageOverride b \<noteq> '''' \<or> ao_SkipKonnector b")
  case True
  then show ?thesis
    by (auto simp: installKonnector_def bootstrap_def upgradeOnly_def intro!: runs_intros)
next
  case False
  have cur: "runs (upgradeOnly S b v) (readVersion S)
      (recovering (currentKonnectorVersion S)
        (\<lambda>e. if e = panicError then fails e
             else fails (e\<lparr>error_text := Sprintf ''failed to check current konnector version in the cluster: %w'' [FStr (error_text e)]\<rparr>))
        finished)"
    by (rule runs_recovering [OF runs_currentKonnectorVersion]) (auto intro: runs_intros)
  have step: "runs (upgradeOnly S b v) (\<lambda>_. True)
      (if installed \<and> (ver = ''unknown'' \<or> ver = ''latest'') then finished ()
       else if installed then replaceKonnector S ver v else bootstrap S (konnector_Image v))"
    if r: "readVersion S (ver, installed)" for ver installed
  proof (cases installed)
    case True
    then obtain l old rest where "sv_getKonnector S l = Inr (old # rest)" "ver = fst (ParseVersion old)"
      using r by (auto simp: readVersion_def)
    then have "runs (upgradeOnly S b v) (\<lambda>_. True) (replaceKonnector S ver v)"
      using False by (intro runs_replaceKonnector) simp_all
    then show ?thesis using True by (simp add: runs_finished)
  next
    case no: False
    then have "foundNone S" using r by (simp add: readVersion_def)
    then have "upgradeOnly S b v (BootstrapKonnector (konnector_Image v))"
      using False by (simp add: upgradeOnly_def)
    then show ?thesis using no by (simp add: bootstrap_def runs_apiCall)
  qed
  have "runs (upgradeOnly S b v) (\<lambda>_. True) (followedBy
      (recovering (currentKonnectorVersion S)
        (\<lambda>e. if e = panicError then fails e
             else fails (e\<lparr>error_text := Sprintf ''failed to check current konnector version in the cluster: %w'' [FStr (error_text e)]\<rparr>))
        finished)
      (\<lambda>(ver, installed). if installed \<and> (ver = ''unknown'' \<or> ver = ''latest'') then finished ()
         else if installed then replaceKonnector S ver v else bootstrap S (konnector_Image v)))"
    using step by (intro runs_followedBy [OF cur]) (simp add: case_prod_beta)
  then show ?thesis using False unfolding installKonnector_def by simp
qed

lemma runs_awaitBindingsAPI: "runs (upgradeOnly S b v) (\<lambda>_. True) (awaitBindingsAPI n S)"
  by (induction n) (auto intro!: runs_recovering [where R = "\<lambda>_. True"] runs_intros)

lemma runs_deployKonnector:
  assumes "BinaryVersion (ci_clientGitVersion (sv_cli S)) = Inr v"
  shows "runs (upgradeOnly S b v) (\<lambda>_. True) (deployKonnector S b)"
  unfolding deployKonnector_def assms
  by (rule runs_followedBy [where R = "\<lambda>x. x = v"])
    (auto intro!: runs_lifted runs_followedBy [OF runs_installKonnector] runs_awaitBindingsAPI)

text \<open>The flag for a downgrade is never read.\<close>

lemma downgrade_flag_ignored: "deployKonnector S (b\<lparr>ao_DowngradeKonnector := d\<rparr>) = deployKonnector S b"
proof -
  have "ao_KonnectorImageOverride (b\<lparr>ao_DowngradeKonnector := d\<rparr>) = ao_KonnectorImageOverride b"
      "ao_SkipKonnector (b\<lparr>ao_DowngradeKonnector := d\<rparr>) = ao_SkipKonnector b" by simp_all
  then show ?thesis unfolding deployKonnector_def installKonnector_def by (simp only:)
qed

lemma ParseVersion_Image: "ParseVersion (konnector_Image v) = (v, True)"
proof -
  have prefix: "HasPrefix (p @ s) p" for p s by (induction p) simp_all
  have "konnector_Image v = (ImageRepository @ '':'') @ v" by (simp add: konnector_Image_def)
  then show ?thesis using prefix [of "ImageRepository @ '':''" v] by (simp add: ParseVersion_def TrimPrefix_def Let_def)
qed

section \<open>The request and the bindings\<close>

lemma awaitRequest_succeeded:
  "runs (\<lambda>c. c = GetExportRequest ns name) (\<lambda>r. xr_Phase r = APIServiceExportRequestPhaseSucceeded) (awaitRequest n S ns name)"
  by (induction n) (auto intro!: runs_recovering [where R = "\<lambda>_. True"] runs_intros)

text \<open>A binding of the command refers to the secret of this provider.\<close>

definition boundTo :: "string \<Rightarrow> APIServiceBinding \<Rightarrow> bool" where
  "boundTo secretName b \<longleftrightarrow> ref_Name (sb_KubeconfigSecretRef b) = secretName
     \<and> ref_Namespace (sb_KubeconfigSecretRef b) = AppClusterBindDefaultNamespace"

definition keepsSecretRef :: "svc \<Rightarrow> bool" where
  "keepsSecretRef S = (\<forall>l b c. sv_createBinding S l b = Inr c \<longrightarrow> sb_KubeconfigSecretRef c = sb_KubeconfigSecretRef b)"

lemma pendingBinding_ref [simp]: "sb_KubeconfigSecretRef (pendingBinding now b) = sb_KubeconfigSecretRef b"
  by (simp add: pendingBinding_def MarkFalse_def Set_condition_def serviceBindingSetter_def split: option.split)

lemma runs_askClaims: "runs (\<lambda>_. True) (\<lambda>_. True) (askClaims ps reads)"
proof (induction ps arbitrary: reads)
  case (Cons p ps)
  have "runs (\<lambda>_. True) (\<lambda>_. True) (promptYesNo p reads)"
    by (auto simp: runs_def promptYesNo_def list_all_iff split: prod.split)
  then show ?case
    by (auto intro!: runs_followedBy [where R = "\<lambda>_. True"] runs_intros Cons split: prod.split)
qed (simp add: runs_finished)

lemma runs_bindResource:
  assumes "keepsSecretRef S"
  shows "runs (\<lambda>_. True) (\<lambda>x. boundTo secretName (fst x)) (bindResource S secretName r reads)"
proof -
  have create: "runs (\<lambda>_. True) (boundTo secretName) (createBinding S (newBinding name secretName claims))" for name claims
    using assms unfolding createBinding_def Let_def
    by (intro runs_followedBy [where R = "boundTo secretName"] runs_recovering [where R = "\<lambda>_. True"])
      (auto intro!: runs_intros simp: boundTo_def keepsSecretRef_def newBinding_def)
  have existing: "runs (\<lambda>_. True) (boundTo secretName) (checkExisting S name secretName b)" for name b
    unfolding checkExisting_def
    by (auto intro!: runs_intros runs_recovering [where R = "\<lambda>_. True"] simp: boundTo_def)
  show ?thesis
    unfolding bindResource_def Let_def
    by (rule runs_recovering [where R = "\<lambda>_. True"])
      (auto intro!: runs_intros runs_followedBy [OF runs_askClaims] runs_followedBy [OF create]
         runs_followedBy [OF existing] split: prod.split)
qed

lemma runs_createAPIServiceBindings:
  "keepsSecretRef S \<Longrightarrow> runs (\<lambda>_. True) (list_all (boundTo secretName)) (createAPIServiceBindings S secretName rs reads)"
proof (induction rs arbitrary: reads)
  case (Cons r rs)
  show ?case
    unfolding createAPIServiceBindings.simps
    by (rule runs_followedBy [OF runs_bindResource [OF Cons.prems]])
      (auto intro!: runs_followedBy [OF Cons.IH [OF Cons.prems]] runs_intros split: prod.split)
qed (simp add: runs_finished)

end
