(* ===== verification/Client_Properties.thy ===== *)
theory Client_Properties
  imports Bind_APIService Login_Properties
begin

text \<open>
  The properties of the command line client, and of a login from its request to the kubeconfig that it stores: the
  composition of \<open>Bind_Client\<close> with \<open>Backend_Login\<close> and \<open>Backend_Manager\<close>.
\<close>

section \<open>A login from end to end\<close>

text \<open>The browser asks for the page that the client showed, and later brings the answer of the backend.\<close>

definition asksFor :: "nat \<Rightarrow> string \<Rightarrow> string \<Rightarrow> web_request \<Rightarrow> bool" where
  "asksFor port sid cid r \<longleftrightarrow> valuesGet (wq_Query r) ''u'' = '''' \<and> valuesGet (wq_Query r) ''p'' = Itoa (int port)
     \<and> valuesGet (wq_Query r) ''s'' = sid \<and> valuesGet (wq_Query r) ''c'' = cid"

definition bringsAnswer :: "weblib \<Rightarrow> BindingResponse \<Rightarrow> web_request \<Rightarrow> bool" where
  "bringsAnswer L resp rq \<longleftrightarrow>
     (\<exists>p. wl_marshalResponse L resp = Inr p \<and> valuesGet (wq_Query rq) ''response'' = EncodeToString URLEncoding p
        \<and> list_all (\<lambda>c. of_char c < (128 :: nat)) p \<and> list_all (\<lambda>c. \<not> differs c) (everyThird p))"

text \<open>The client reads a response as the backend wrote it.\<close>

definition readsResponses :: "cli \<Rightarrow> weblib \<Rightarrow> bool" where
  "readsResponses C L =
     (\<forall>resp p. wl_marshalResponse L resp = Inr p \<longrightarrow> ci_decodeResponse C p = Inr ((br_APIVersion resp, br_Kind resp), Some resp))"

lemma Itoa_alphanumeric: "alphanumeric (Itoa (int n))"
  using natDigits_digits [of n] by (auto simp: Itoa_def alphanumeric_def isDigit_def list_all_iff Let_def)

lemma asksFor_client:
  assumes "SessionID C l = (Inr sid, l1)" "ClusterID C uid l1 = (Inr cid, l2)" "asksFor port sid cid r"
  shows "clientRequest r"
  using assms SessionID_alphanumeric [OF assms(1)] ClusterID_alphanumeric [OF assms(2)]
  by (simp add: clientRequest_def asksFor_def Itoa_alphanumeric)

lemma answer_accepted:
  assumes "readsResponses C L" "bringsAnswer L (bindingResponseFor state issuer subject k req) rq" "au_response d = None"
  shows "\<exists>answer. WaitForResponse (snd (callback C rq d)) = Inr answer
    \<and> checkResponse (ss_SessionID state) answer = Inr (bindingResponseFor state issuer subject k req)"
proof -
  define resp where "resp = bindingResponseFor state issuer subject k req"
  have fields: "br_APIVersion resp = SchemeGroupVersion" "br_Kind resp = ''BindingResponse''"
      "br_OAuth2CodeGrant resp = Some (ss_SessionID state, issuer @ ''/'' @ subject)"
    by (simp_all add: resp_def bindingResponseFor_def)
  obtain p where p: "wl_marshalResponse L resp = Inr p" "valuesGet (wq_Query rq) ''response'' = EncodeToString URLEncoding p"
      "list_all (\<lambda>c. of_char c < (128 :: nat)) p" "list_all (\<lambda>c. \<not> differs c) (everyThird p)"
    using assms(2) by (auto simp: bringsAnswer_def resp_def)
  have "readable C rq = Some ((SchemeGroupVersion, ''BindingResponse''), Some resp)"
    using Decode_foreign_ascii [OF p(3)] p assms(1) fields by (simp add: readable_def readsResponses_def)
  then have "WaitForResponse (snd (callback C rq d)) = Inr ((SchemeGroupVersion, ''BindingResponse''), Some resp)"
    using callback_response [OF assms(3), of C rq] by (simp add: WaitForResponse_def)
  then show ?thesis using fields(3) unfolding resp_def [symmetric] by (simp add: checkResponse_ok)
qed

text \<open>C31: a login from end to end. The identifiers and the port of the client go through the backend and the identity provider
  to \<open>/bind\<close>; its redirect goes to the address on which the client listens, with a kubeconfig that has
  the token of the namespace of this user and this cluster. The user is the subject of the ID token that the identity provider gave for the
  code of the callback; the namespace is the one that the index answers for the identity made of this subject and the
  cluster of the client or, when it answers none, the one that the API answered to a create with this identity as its annotation. When
  the text of the answer has none of the characters in which the two base64 alphabets differ at the positions where
  that matters (\<open>bringsAnswer\<close>), the client takes it for the answer to its own session.\<close>

theorem login_end_to_end:
  assumes ids: "SessionID C l0 = (Inr sid, l1)" "ClusterID C uid l1 = (Inr cid, l2)"
    and r: "asksFor (au_port auth) sid cid r"
    and laws: "plainJSON L" "marshalsBack L" "unsealsBack L" "readsResponses C L" "storesWhatIsSent (hd_kubeManager h)"
    and cb: "returnsState L r cb" "redirected (handleCallback L h cb)" "returnsCookies (handleCallback L h cb) b"
    and b: "valuesGet (wq_Query b) ''s'' = sid" "handleBind L h b l = (x, l')" "redirected x"
  shows "\<exists>state token jwt subject issuer ns k req. ss_RedirectURL state = Endpoint auth
    \<and> x = sendResponse L (prepareNoCache L newResponse) state (bindingResponseFor state issuer subject k req)
    \<and> wl_Exchange L (OIDCProviderConfig (hd_oidc h) []) (valuesGet (wq_Query cb) ''code'') = Inr token
    \<and> ot_IDToken token = Some jwt \<and> parseJWT L jwt = Inr (ss_IDToken state)
    \<and> wl_unmarshalIDToken L (ss_IDToken state) = Inr (subject, issuer)
    \<and> (mg_namespacesByIdentity (hd_kubeManager h) l (subject @ ''#'' @ cid) = Inr [ns] \<or>
       mg_namespacesByIdentity (hd_kubeManager h) l (subject @ ''#'' @ cid) = Inr [] \<and>
       mg_createNamespace (hd_kubeManager h) l (withDash (mg_namespacePrefix (hd_kubeManager h)))
         (fmupd IdentityAnnotationKey (subject @ ''#'' @ cid) fmempty) = Inr ns)
    \<and> fmlookup (mn_Annotations ns) IdentityAnnotationKey = Some (subject @ ''#'' @ cid)
    \<and> carriesTokenOf (hd_kubeManager h) (mn_Name ns) k
    \<and> (\<forall>rq d. bringsAnswer L (bindingResponseFor state issuer subject k req) rq \<and> au_response d = None \<longrightarrow>
         (\<exists>answer. WaitForResponse (snd (callback C rq d)) = Inr answer
            \<and> checkResponse sid answer = Inr (bindingResponseFor state issuer subject k req)))"
proof -
  have client: "clientRequest r" by (rule asksFor_client [OF ids r])
  have s: "valuesGet (wq_Query b) ''s'' = valuesGet (wq_Query r) ''s''" using b(1) r by (simp add: asksFor_def)
  obtain state where state:
    "ss_RedirectURL state = ''http://localhost:'' @ valuesGet (wq_Query r) ''p'' @ ''/callback''"
    "ss_SessionID state = sid" "ss_ClusterID state = cid" "handleBind L h b l = withIDToken L h b state l"
    "loggedInBy L h cb state"
    using session_of_login [OF laws(1,2,3) client cb s, of l] r by (auto simp: asksFor_def)
  have url: "ss_RedirectURL state = Endpoint auth" using state(1) r by (simp add: asksFor_def Endpoint_def)
  obtain subject issuer where id: "wl_unmarshalIDToken L (ss_IDToken state) = Inr (subject, issuer)"
    and "bindSession L h b state (subject, issuer) l = (x, l')"
    using b(2,3) state(4) by (auto simp: withIDToken_def split: sum.splits)
  from bindSession_redirects [OF this(2) b(3)] obtain k req where
    k: "HandleResources (hd_kubeManager h) (identityOf subject cid) (valuesGet (wq_Query b) ''resource'')
       (valuesGet (wq_Query b) ''group'') l = (Inr k, l')"
    "x = sendResponse L (prepareNoCache L newResponse) state (bindingResponseFor state issuer subject k req)"
    unfolding state(3) by blast
  obtain ns where ns: "answeredFor (hd_kubeManager h) (subject @ ''#'' @ cid) l ns"
      "fmlookup (mn_Annotations ns) IdentityAnnotationKey = Some (subject @ ''#'' @ cid)"
      "carriesTokenOf (hd_kubeManager h) (mn_Name ns) k"
    using HandleResources_inside [OF laws(5) k(1)] unfolding identityOf_def by blast
  obtain token jwt where tk: "wl_Exchange L (OIDCProviderConfig (hd_oidc h) []) (valuesGet (wq_Query cb) ''code'') = Inr token"
      "ot_IDToken token = Some jwt" "parseJWT L jwt = Inr (ss_IDToken state)"
    using state(5) unfolding loggedInBy_def by blast
  have accepted: "\<forall>rq d. bringsAnswer L (bindingResponseFor state issuer subject k req) rq \<and> au_response d = None \<longrightarrow>
      (\<exists>answer. WaitForResponse (snd (callback C rq d)) = Inr answer
         \<and> checkResponse sid answer = Inr (bindingResponseFor state issuer subject k req))"
    using answer_accepted [OF laws(4), of state issuer subject k req] unfolding state(2) by blast
  show ?thesis
    by (rule exI [of _ state], rule exI [of _ token], rule exI [of _ jwt], rule exI [of _ subject], rule exI [of _ issuer],
        rule exI [of _ ns], rule exI [of _ k], rule exI [of _ req])
      (intro conjI url k(2) tk id ns(1) [unfolded answeredFor_def] ns(2,3) accepted)
qed

section \<open>A sample client\<close>

definition sampleCli :: cli where
  "sampleCli = \<lparr>ci_httpGet = (\<lambda>l u. Inr ''provider''), ci_getNamespace = (\<lambda>l. Inr ''uid''), ci_createNamespace = (\<lambda>l. Inr ''uid''),
     ci_listSecrets = (\<lambda>l. Inr [\<lparr>sec_Name = ''kubeconfig-a'', sec_Namespace = ''klutch-bind'', sec_Labels = fmempty,
       sec_Data = fmupd ''kubeconfig'' ''old'' fmempty, sec_Type = ''''\<rparr>]),
     ci_getSecret = (\<lambda>l ns n. Inr \<lparr>sec_Name = n, sec_Namespace = ns, sec_Labels = fmempty,
       sec_Data = fmupd ''kubeconfig'' ''old'' fmempty, sec_Type = ''''\<rparr>),
     ci_createSecret = (\<lambda>l s. Inr s), ci_updateSecret = (\<lambda>l s. Inr s), ci_printObj = (\<lambda>l r. Inr ()), ci_run = (\<lambda>l as t. Inr ()),
     ci_Load = (\<lambda>k. Inr \<lparr>rc_CurrentContext = ''default'', rc_Contexts = fmupd ''default'' (''default'', ''ns'') fmempty,
       rc_Clusters = fmupd ''default'' ''https://api'' fmempty\<rparr>),
     ci_semver = (\<lambda>s. if s = ''1'' then Inr (1, 0, 0, []) else if s = ''2'' then Inr (2, 0, 0, []) else Inl ''no version''),
     ci_before = (\<lambda>a b. fst a < fst b), ci_addToQuery = (\<lambda>u kvs. Inr u), ci_urlHost = (\<lambda>u. Inr ''localhost:80''),
     ci_splitPort = (\<lambda>h. Inr ''80''), ci_unmarshalProvider = (\<lambda>b. Inl ''no provider''),
     ci_decodeResponse = (\<lambda>p. if p = ''answer''
       then Inr ((SchemeGroupVersion, ''BindingResponse''), Some sampleResponse) else Inl ''no object''),
     ci_unmarshalAPIVersion = (\<lambda>r. Inr SchemeGroupVersion), ci_unmarshalRequest = (\<lambda>r. Inl ''no request''),
     ci_marshalRequest = (\<lambda>r. Inr ''request''), ci_sum224 = (\<lambda>s. [54, 155, 19, 224]), ci_random = [54, 155, 19, 224],
     ci_clientGitVersion = ''v1+kube-bind-2'', ci_port = 80, ci_listens = None\<rparr>"

lemma digit_chars: "char_of (48 :: nat) = CHR ''0''" "char_of (49 :: nat) = CHR ''1''" "char_of (56 :: nat) = CHR ''8''"
  by code_simp+

lemma sampleCli_ids: "SessionID sampleCli l = (Inr ''100000'', l)" "ClusterID sampleCli u l = (Inr ''100000'', l)"
  by (simp_all add: SessionID_def ClusterID_def firstSix_def finished_def sampleCli_def toBase62_def setBytes_def
        text62.simps base62Char_def digit_chars)

lemma sampleCli_reads: "readsResponses sampleCli sampleWeb"
  by (auto simp: readsResponses_def sampleCli_def sampleWeb_def sampleResponse_def bindingResponseFor_def split: if_splits)

definition sampleAuth :: authenticator where
  "sampleAuth = \<lparr>au_port = 80, au_started = True, au_response = None\<rparr>"

lemma sampleCLI_asks: "asksFor (au_port sampleAuth) ''100000'' ''100000'' sampleCLI"
  by (simp add: asksFor_def sampleCLI_def queryOf_def valuesGet_def sampleAuth_def Itoa_def natDigits.simps digitChar_def digit_chars)

theorem login_end_to_end_witness:
  "\<exists>x l' (state :: SessionState) (ns :: mgr_namespace) k. handleBind sampleWeb sampleHandler sampleBind [] = (x, l') \<and> redirected x
    \<and> ss_RedirectURL state = Endpoint sampleAuth
    \<and> fmlookup (mn_Annotations ns) IdentityAnnotationKey = Some ''u#100000''
    \<and> carriesTokenOf (hd_kubeManager sampleHandler) (mn_Name ns) k"
proof -
  obtain x cs where x: "handleBind sampleWeb sampleHandler sampleBind [] = (x, cs)" "redirected x" using sample_bind by blast
  have sid: "valuesGet (wq_Query sampleBind) ''s'' = ''100000''"
    by (simp add: sampleBind_def queryOf_def valuesGet_def)
  obtain state :: SessionState and ns :: mgr_namespace and subject issuer k where "ss_RedirectURL state = Endpoint sampleAuth"
      "wl_unmarshalIDToken sampleWeb (ss_IDToken state) = Inr (subject, issuer)"
      "fmlookup (mn_Annotations ns) IdentityAnnotationKey = Some (subject @ ''#'' @ ''100000'')"
      "carriesTokenOf (hd_kubeManager sampleHandler) (mn_Name ns) k"
    using login_end_to_end [OF sampleCli_ids(1) sampleCli_ids(2) sampleCLI_asks sampleWeb_laws sampleCli_reads sample_manager
        callbackOf_returns [OF clientRequest_plain(1) [OF sampleCLI_request]] sample_returns(2,1) sid x] by (elim exE conjE) (rule that)
  with x sample_subject show ?thesis by fastforce
qed

section \<open>Secrets and versions\<close>



definition sampleSvc :: svc where
  "sampleSvc = \<lparr>sv_cli = sampleCli, sv_parsesURL = (\<lambda>u. Inr ()), sv_loadFromFile = (\<lambda>f. Inl ''no file''), sv_ClientConfig = (\<lambda>c. Inr ''https://api''),
     sv_Write = (\<lambda>c. Inr ''kubeconfig''), sv_readManifest = (\<lambda>l f. Inr ''manifest''), sv_unmarshalManifest = (\<lambda>t. Inl ''no yaml''),
     sv_createRequest = (\<lambda>l ns r. Inr r), sv_getRequest = (\<lambda>l ns n. Inl (plainError ''down'')), sv_attempts = 600, sv_patience = 1,
     sv_getKonnector = (\<lambda>l. Inr [konnector_Image ''v1'']), sv_bootstrap = (\<lambda>l i. Inr ()), sv_listBindings = (\<lambda>l. Inr ()),
     sv_getBinding = (\<lambda>l n. Inl \<lparr>reason = NotFound, error_text = ''''\<rparr>), sv_getCRD = (\<lambda>l n. Inl (plainError ''down'')),
     sv_createBinding = (\<lambda>l b. Inr b), sv_updateStatus = (\<lambda>l b. Inr ()), sv_printTable = (\<lambda>l bs. Inr ()), sv_now = 0\<rparr>"




section \<open>Questions and answers\<close>

lemma runs_questions: "runs (\<lambda>c. \<exists>p. c = AskUser (printPermissionClaim p)) (\<lambda>_. True) (askClaims ps reads)"
proof (induction ps arbitrary: reads)
  case (Cons p ps)
  have "runs (\<lambda>c. \<exists>p. c = AskUser (printPermissionClaim p)) (\<lambda>_. True) (promptYesNo p reads)"
    by (auto simp: runs_def promptYesNo_def list_all_iff split: prod.split)
  then show ?case
    by (auto intro!: runs_followedBy [where R = "\<lambda>_. True"] runs_intros Cons split: prod.split)
qed (simp add: runs_finished)

abbreviation dottedName :: "request_resource \<Rightarrow> string" where
  "dottedName r \<equiv> gr_Resource r @ ''.'' @ gr_Group r"


definition secretClaim :: claim_terms where
  "secretClaim = \<lparr>gr_Group = '''', gr_Resource = ''secrets'', pc_Version = ''v1'', pc_Selector = None, pc_Required = True,
     ct_ReplaceExisting = None, ct_AutoAdopt = False, ct_AutoDonate = False, ct_RecreateWhenConsumerSideDeleted = None,
     ct_Update = None\<rparr>"

definition sampleResource :: request_resource where
  "sampleResource = \<lparr>gr_Group = ''g'', gr_Resource = ''r'', qr_PermissionClaims = [secretClaim, secretClaim]\<rparr>"

lemma sample_answers: "affirmative ''maybe'' = None" "affirmative ''Yes'' = Some True" "affirmative ''n'' = Some False"
  by code_simp+

lemma sampleSvc_unbound: "\<exists>e. sv_getBinding sampleSvc l n = Inl e \<and> IsNotFound e"
  by (simp add: sampleSvc_def IsNotFound_def)


text \<open>Answers that arrive together are lost. Each question has a buffered reader of its own, so when the answers to several
  claims come in one read, as from a pipe or a file, the first is taken, the others are dropped with the
  reader, and the second question ends the command with EOF, whatever the other answers were.\<close>

lemma typed_ahead_answers_lost:
  assumes "oneLine s" "affirmative s = Some a" "qr_PermissionClaims r = p # q # ps"
    and "sv_getBinding S l (dottedName r) = Inl e" "IsNotFound e"
  shows "\<exists>cs. bindResource S secretName r [s @ nl @ later] l =
      (Inl (plainError ''EOF''), l @ GetBindingNamed (dottedName r) # cs)
    \<and> list_all (\<lambda>c. \<exists>p. c = AskUser (printPermissionClaim p)) cs"
proof -
  define l1 where "l1 = l @ [GetBindingNamed (dottedName r)]"
  obtain l2 where l2: "askClaims (qr_PermissionClaims r) [s @ nl @ later] l1 = (Inl (plainError ''EOF''), l2)"
    using askClaims_typed_ahead [OF assms(1,2), of p q ps later l1] assms(3) by auto
  obtain cs where "l2 = l1 @ cs" "list_all (\<lambda>c. \<exists>p. c = AskUser (printPermissionClaim p)) cs"
    using runs_calls [OF runs_questions, of "qr_PermissionClaims r" "[s @ nl @ later]" l1] l2 by auto
  moreover have "bindResource S secretName r [s @ nl @ later] l = (Inl (plainError ''EOF''), l2)"
    using assms(4,5) l2 by (simp add: bindResource_def recovering_def apiCall_def followedBy_def l1_def Let_def)
  ultimately show ?thesis by (auto simp: l1_def)
qed

lemma typed_ahead_answers_lost_example:
  "\<exists>l'. bindResource sampleSvc ''kubeconfig-a'' sampleResource [''Yes'' @ nl @ ''Yes'' @ nl] [] = (Inl (plainError ''EOF''), l')"
proof -
  obtain e where e: "sv_getBinding sampleSvc [] (dottedName sampleResource) = Inl e" "IsNotFound e"
    using sampleSvc_unbound by blast
  have "oneLine ''Yes''" by (simp add: oneLine_def)
  moreover have "qr_PermissionClaims sampleResource = secretClaim # secretClaim # []" by (simp add: sampleResource_def)
  ultimately show ?thesis
    using typed_ahead_answers_lost [OF _ sample_answers(2) _ e, of secretClaim secretClaim "[]" "''kubeconfig-a''" "''Yes'' @ nl"]
    by blast
qed

end
