(* ===== verification/Cluster_Controller.thy ===== *)
theory Cluster_Controller
  imports Backend_Access
begin

text \<open>
  What runs per provider cluster beside the controllers of bindings and exports, under \<open>bind/pkg/konnector/controllers/cluster\<close>:
  the controller that deletes an APIServiceNamespace whose namespace is gone from the consumer cluster
  (\<open>namespacedeletion\<close>), and \<open>Start\<close> of \<open>cluster_controller.go\<close>, which waits for the informers and starts the four
  controllers. The helpers of \<open>bind/pkg/indexers/util.go\<close> for maps of index functions are here too.

  \<^item> A getter answers \<open>None\<close> where the Go function returns no error and its object is not used.
  \<^item> \<open>wait.PollImmediateInfiniteWithContext\<close> is given as the list of the calls that it makes of its function, each with what the
    function finds: which factories synced in half a heartbeat, whether the context of the controller is done, and
    the bindings of the index. It ends at the first call that answers true, or when the context is done.
  \<^item> A map that Go ranges over is the list of its entries in the order of that loop.

  The lemmas show which keys a change queues, when a service namespace is deleted, that the
  outcome of the cache synchronisation has no effect, and when maps of indexers can be joined.
\<close>

section \<open>Deletion of service namespaces\<close>

record namespace_deletion =
  nd_providerNamespace :: string
  nd_getNamespace :: "string \<Rightarrow> apierr option"
  nd_deleteServiceNamespace :: "string \<Rightarrow> string \<Rightarrow> apierr option"

definition nd_enqueueServiceNamespace :: "keyfuncs \<Rightarrow> APIServiceNamespace \<Rightarrow> string list" where
  "nd_enqueueServiceNamespace K sns = [serviceNamespaceKey K sns]"

definition nd_enqueueNamespace :: "namespace_deletion \<Rightarrow> string \<Rightarrow> string list" where
  "nd_enqueueNamespace D nsKey = [Sprintf ''%s/%s'' [FStr (nd_providerNamespace D), FStr nsKey]]"

text \<open>The error of the run and the deletions that it asked for.\<close>

definition nd_process ::
  "keyfuncs \<Rightarrow> namespace_deletion \<Rightarrow> string \<Rightarrow> apierr option \<times> (string \<times> string) list" where
  "nd_process K D key =
     (case splitMetaNamespaceKey K key of
        Inl _ \<Rightarrow> (None, [])
      | Inr (snsNamespace, name) \<Rightarrow>
          (case nd_getNamespace D name of
             None \<Rightarrow> (None, [])
           | Some err \<Rightarrow>
               if \<not> IsNotFound err then (Some err, [])
               else
                 (case nd_deleteServiceNamespace D snsNamespace name of
                    None \<Rightarrow> (None, [(snsNamespace, name)])
                  | Some e \<Rightarrow> (if IsNotFound e then None else Some e, [(snsNamespace, name)]))))"

section \<open>Start\<close>

definition APIServiceBindingConditionInformersSynced :: ConditionType where
  [klutch_defs]: "APIServiceBindingConditionInformersSynced = ''InformersSynced''"

record sync_attempt =
  sa_synced :: "bool list"
  sa_ctxDone :: bool
  sa_now :: time
  sa_bindings :: "apierr + APIServiceBinding list"

definition informersNotSynced :: "time \<Rightarrow> APIServiceBinding \<Rightarrow> APIServiceBinding" where
  "informersNotSynced now binding =
     MarkFalse serviceBindingSetter now binding APIServiceBindingConditionInformersSynced ''InformerSyncTimeout''
       ConditionSeverityError ''Informers did not sync within %s'' [FStr ''2m30s'']"

definition informersSynced :: "time \<Rightarrow> APIServiceBinding \<Rightarrow> APIServiceBinding" where
  "informersSynced now binding = MarkTrue serviceBindingSetter now binding APIServiceBindingConditionInformersSynced"

text \<open>One call of the polled function: what \<open>WaitForCacheSync\<close> answers is logged and not looked at.\<close>

definition awaitSync :: "sync_attempt \<Rightarrow> bool \<times> APIServiceBinding list" where
  "awaitSync a =
     (if sa_ctxDone a then (False, updateServiceBindings (sa_bindings a) (informersNotSynced (sa_now a)))
      else (True, []))"

fun pollSync :: "sync_attempt list \<Rightarrow> bool \<times> APIServiceBinding list" where
  "pollSync [] = (False, [])"
| "pollSync (a # as) =
     (let (ok, ws) = awaitSync a in
      if ok then (True, ws) else (let (ok', ws') = pollSync as in (ok', ws @ ws')))"

text \<open>The statuses that are written, and the controllers that are started.\<close>

definition cluster_Start ::
  "sync_attempt list \<Rightarrow> time \<Rightarrow> apierr + APIServiceBinding list \<Rightarrow> APIServiceBinding list \<times> string list" where
  "cluster_Start attempts now objs =
     (let (ok, ws) = pollSync attempts in
      if \<not> ok then (ws, [])
      else (ws @ updateServiceBindings objs (informersSynced now),
            [''clusterbinding'', ''namespacedeletion'', ''servicebinding'', ''serviceexport'']))"

section \<open>Maps of index functions\<close>

type_synonym 'f Indexers = "(string \<times> 'f) list"

fun appendIndexers :: "'f Indexers \<Rightarrow> 'f Indexers \<Rightarrow> string + 'f Indexers" where
  "appendIndexers ret [] = Inr ret"
| "appendIndexers ret ((k, v) # ind) =
     (if k \<in> fst ` set ret then Inl (Sprintf ''duplicate indexer: %s'' [FStr k])
      else appendIndexers (ret @ [(k, v)]) ind)"

fun appendAll :: "'f Indexers \<Rightarrow> 'f Indexers list \<Rightarrow> string + 'f Indexers" where
  "appendAll ret [] = Inr ret"
| "appendAll ret (ind # inds) =
     (case appendIndexers ret ind of Inl e \<Rightarrow> Inl e | Inr ret' \<Rightarrow> appendAll ret' inds)"

definition Append :: "'f Indexers list \<Rightarrow> string + 'f Indexers" where
  "Append indexers = appendAll [] indexers"

text \<open>\<open>None\<close> is a panic.\<close>

definition AppendOrDie :: "'f Indexers list \<Rightarrow> 'f Indexers option" where
  "AppendOrDie indexers = (case Append indexers of Inl _ \<Rightarrow> None | Inr ret \<Rightarrow> Some ret)"

text \<open>\<open>AddIndexers\<close> of client-go gets the entries of \<open>toAdd\<close> that do not exist yet.\<close>

definition AddIfNotPresentOrDie ::
  "('f Indexers \<Rightarrow> 'f Indexers \<Rightarrow> apierr + 'f Indexers) \<Rightarrow> 'f Indexers \<Rightarrow> 'f Indexers \<Rightarrow> 'f Indexers option" where
  "AddIfNotPresentOrDie AddIndexers existing toAdd =
     (case AddIndexers existing (filter (\<lambda>(indexName, _). indexName \<notin> fst ` set existing) toAdd) of
        Inl _ \<Rightarrow> None
      | Inr merged \<Rightarrow> Some merged)"

section \<open>Lemmas\<close>

lemma appendIndexers_distinct:
  "distinct (map fst ret) \<Longrightarrow> distinct (map fst (ret @ ind)) \<longleftrightarrow> appendIndexers ret ind = Inr (ret @ ind)"
  by (induction ret ind rule: appendIndexers.induct) (auto simp: image_iff)

lemma appendIndexers_Inr: "appendIndexers ret ind = Inr r \<Longrightarrow> r = ret @ ind"
  by (induction ret ind rule: appendIndexers.induct) (auto split: if_splits)

lemma appendIndexers_append:
  "appendIndexers ret (xs @ ys) = (case appendIndexers ret xs of Inl e \<Rightarrow> Inl e | Inr r \<Rightarrow> appendIndexers r ys)"
  by (induction ret xs rule: appendIndexers.induct) simp_all

lemma appendAll_concat: "appendAll ret inds = appendIndexers ret (concat inds)"
  by (induction ret inds rule: appendAll.induct) (simp_all add: appendIndexers_append split: sum.split)

text \<open>Maps are joined exactly when no name occurs twice.\<close>

lemma AppendOrDie_panics_iff: "AppendOrDie inds = None \<longleftrightarrow> \<not> distinct (map fst (concat inds))"
  using appendIndexers_distinct [of "[]" "concat inds"] appendIndexers_Inr [of "[]" "concat inds"]
  by (auto simp: AppendOrDie_def Append_def appendAll_concat split: sum.splits)

lemma pollSync_synced: "fst (pollSync as) \<longleftrightarrow> \<not> list_all sa_ctxDone as"
  by (induction as) (auto simp: awaitSync_def Let_def split: prod.splits)

text \<open>Every status that the polling writes reports a timeout, in an attempt that found the context of the controller ended.\<close>

lemma updateServiceBindings_written:
  "w \<in> set (updateServiceBindings objs f) \<Longrightarrow> \<exists>listed b. objs = Inr listed \<and> b \<in> set listed \<and> w = f b"
  by (auto simp: updateServiceBindings_def split: sum.splits)

lemma pollSync_writes:
  "w \<in> set (snd (pollSync as)) \<Longrightarrow> \<exists>d \<in> set as. sa_ctxDone d \<and>
     (\<exists>listed b. sa_bindings d = Inr listed \<and> b \<in> set listed \<and> w = informersNotSynced (sa_now d) b)"
proof (induction as)
  case (Cons a as)
  then show ?case
    using updateServiceBindings_written [of w "sa_bindings a" "informersNotSynced (sa_now a)"]
    by (auto simp: awaitSync_def Let_def split: if_splits prod.splits)
qed simp

lemma cluster_Start_writes:
  assumes "w \<in> set (fst (cluster_Start attempts now objs))"
  shows "(\<exists>listed b. objs = Inr listed \<and> b \<in> set listed \<and> w = informersSynced now b) \<or>
     (\<exists>d \<in> set attempts. sa_ctxDone d \<and>
        (\<exists>listed b. sa_bindings d = Inr listed \<and> b \<in> set listed \<and> w = informersNotSynced (sa_now d) b))"
proof -
  have "w \<in> set (snd (pollSync attempts)) \<or> w \<in> set (updateServiceBindings objs (informersSynced now))"
    using assms by (auto simp: cluster_Start_def Let_def split: if_splits prod.splits)
  then show ?thesis using pollSync_writes updateServiceBindings_written by blast
qed

lemma pollSync_unlooked: "pollSync (map (\<lambda>a. a\<lparr>sa_synced := s a\<rparr>) as) = pollSync as"
  by (induction as) (simp_all add: awaitSync_def)

lemma nd_keys_agree:
  assumes "keysSplit K" "plainName (sn_Namespace sns)" "plainName (sn_Name sns)"
    and "nd_providerNamespace D = sn_Namespace sns"
  shows "nd_enqueueNamespace D (sn_Name sns) = nd_enqueueServiceNamespace K sns"
  using assms
  by (simp add: nd_enqueueNamespace_def nd_enqueueServiceNamespace_def serviceNamespaceKey_def keysSplit_def)

lemma nd_process_deletes:
  assumes "splitMetaNamespaceKey K key = Inr (ns, name)"
  shows "snd (nd_process K D key) = (if (\<exists>e. nd_getNamespace D name = Some e \<and> IsNotFound e) then [(ns, name)] else [])"
  using assms by (auto simp: nd_process_def split: option.splits)

end
