(* ===== verification/Work_Queue.thy ===== *)
theory Work_Queue
  imports Cluster_Controller
begin

text \<open>
  The workers of a controller. Every controller of the konnector and of the backend has the same \<open>Start\<close>, \<open>startWorker\<close> and
  \<open>processNextWorkItem\<close>: event handlers add keys to a rate limited work queue, and each worker takes a key, processes it, adds it again if that
  failed or lets the queue forget its failures, and tells the queue that it is done.

  \<^item> The queue is client-go: its functions are the record \<open>work_queue\<close> over an arbitrary state, and what client-go documents of
    them is \<open>queueLaws\<close>, with the keys that wait (added and not yet taken, also those whose delay is not over) and those in
    process. A key that is taken may go on waiting, when it was added a second time with a delay. The laws are those of a queue
    that has not been shut down; with the queue, the controller ends.
  \<^item> A worker is between \<open>Get\<close> and \<open>Done\<close> or it is not (\<open>pl_busy\<close>). \<open>work_step\<close> has one step for an event handler, one for \<open>Get\<close> and one for the
    end of an item, so that runs interleave any number of workers with the handlers.

  The lemmas show that a key is never processed by two workers at once, and that no event and no failure is lost.
\<close>

section \<open>Queue and worker\<close>

record 'q work_queue =
  wk_Get :: "'q \<Rightarrow> (string \<times> 'q) option"
  wk_Add :: "string \<Rightarrow> 'q \<Rightarrow> 'q"
  wk_AddRateLimited :: "string \<Rightarrow> 'q \<Rightarrow> 'q"
  wk_Forget :: "string \<Rightarrow> 'q \<Rightarrow> 'q"
  wk_Done :: "string \<Rightarrow> 'q \<Rightarrow> 'q"

text \<open>What follows \<open>process\<close>; \<open>Done\<close> is deferred, so that it comes last.\<close>

definition finishItem :: "'q work_queue \<Rightarrow> string \<Rightarrow> apierr option \<Rightarrow> 'q \<Rightarrow> 'q" where
  "finishItem Q key err q =
     wk_Done Q key (case err of Some _ \<Rightarrow> wk_AddRateLimited Q key q | None \<Rightarrow> wk_Forget Q key q)"

text \<open>The answer is false when the queue has been shut down. \<open>process\<close> works on the state of the controller.\<close>

definition processNextWorkItem ::
  "'q work_queue \<Rightarrow> (string \<Rightarrow> 'w \<Rightarrow> apierr option \<times> 'w) \<Rightarrow> 'q \<Rightarrow> 'w \<Rightarrow> bool \<times> 'q \<times> 'w" where
  "processNextWorkItem Q process q w =
     (case wk_Get Q q of
        None \<Rightarrow> (False, q, w)
      | Some (key, q') \<Rightarrow> (let (err, w') = process key w in (True, finishItem Q key err q', w')))"

definition nd_processNextWorkItem ::
  "'q work_queue \<Rightarrow> keyfuncs \<Rightarrow> namespace_deletion \<Rightarrow> 'q \<Rightarrow> (string \<times> string) list \<Rightarrow> bool \<times> 'q \<times> (string \<times> string) list" where
  "nd_processNextWorkItem Q K D =
     processNextWorkItem Q (\<lambda>key deleted. let (err, ds) = nd_process K D key in (err, deleted @ ds))"

section \<open>Workers and handlers\<close>

definition queueLaws :: "'q work_queue \<Rightarrow> ('q \<Rightarrow> string set) \<Rightarrow> ('q \<Rightarrow> string set) \<Rightarrow> bool" where
  "queueLaws Q waits inProcess \<longleftrightarrow>
     (\<forall>key q. waits (wk_Add Q key q) = insert key (waits q) \<and> inProcess (wk_Add Q key q) = inProcess q) \<and>
     (\<forall>key q. waits (wk_AddRateLimited Q key q) = insert key (waits q) \<and> inProcess (wk_AddRateLimited Q key q) = inProcess q) \<and>
     (\<forall>key q. waits (wk_Forget Q key q) = waits q \<and> inProcess (wk_Forget Q key q) = inProcess q) \<and>
     (\<forall>key q. waits (wk_Done Q key q) = waits q \<and> inProcess (wk_Done Q key q) = inProcess q - {key}) \<and>
     (\<forall>q key q'. wk_Get Q q = Some (key, q') \<longrightarrow>
        key \<notin> inProcess q \<and> waits q - {key} \<subseteq> waits q' \<and> waits q' \<subseteq> waits q \<and>
        inProcess q' = insert key (inProcess q))"

record 'q pool =
  pl_queue :: 'q
  pl_busy :: "nat \<Rightarrow> string option"

datatype work_event = Queued string | Taken nat string | Ended nat string "apierr option"

inductive work_step :: "'q work_queue \<Rightarrow> 'q pool \<Rightarrow> work_event \<Rightarrow> 'q pool \<Rightarrow> bool" for Q where
  Queue: "work_step Q p (Queued key) (p\<lparr>pl_queue := wk_Add Q key (pl_queue p)\<rparr>)"
| Take: "pl_busy p i = None \<Longrightarrow> wk_Get Q (pl_queue p) = Some (key, q) \<Longrightarrow>
    work_step Q p (Taken i key) (p\<lparr>pl_queue := q, pl_busy := (pl_busy p)(i := Some key)\<rparr>)"
| End: "pl_busy p i = Some key \<Longrightarrow>
    work_step Q p (Ended i key err) (p\<lparr>pl_queue := finishItem Q key err (pl_queue p), pl_busy := (pl_busy p)(i := None)\<rparr>)"

inductive work_run :: "'q work_queue \<Rightarrow> 'q pool \<Rightarrow> work_event list \<Rightarrow> 'q pool \<Rightarrow> bool" for Q where
  Start: "work_run Q p [] p"
| Step: "work_run Q p es p' \<Longrightarrow> work_step Q p' e p'' \<Longrightarrow> work_run Q p (es @ [e]) p''"

text \<open>What the events call for: a key is due from its last event or failure until a worker takes it.\<close>

fun due :: "work_event \<Rightarrow> string set \<Rightarrow> string set" where
  "due (Queued key) D = insert key D"
| "due (Taken i key) D = D - {key}"
| "due (Ended i key err) D = (case err of None \<Rightarrow> D | Some _ \<Rightarrow> insert key D)"

section \<open>Lemmas\<close>

text \<open>One call of \<open>processNextWorkItem\<close> is a take and an end of the same worker.\<close>

lemma processNextWorkItem_steps:
  assumes "processNextWorkItem Q process (pl_queue p) w = (True, q', w')" "pl_busy p i = None"
  shows "\<exists>key err. work_run Q p [Taken i key, Ended i key err] (p\<lparr>pl_queue := q'\<rparr>) \<and> process key w = (err, w')"
proof -
  obtain key q err where k: "wk_Get Q (pl_queue p) = Some (key, q)" "process key w = (err, w')" "q' = finishItem Q key err q"
    using assms(1) by (auto simp: processNextWorkItem_def Let_def split: option.splits prod.splits)
  let ?p = "p\<lparr>pl_queue := q, pl_busy := (pl_busy p)(i := Some key)\<rparr>"
  have "work_run Q p [Taken i key] ?p"
    using work_run.Step [OF work_run.Start Take [of p i Q key q, OF assms(2) k(1)]] by simp
  moreover have "work_step Q ?p (Ended i key err) (p\<lparr>pl_queue := q'\<rparr>)"
    using End [of ?p i key Q err] k(3) assms(2) by (simp add: fun_upd_idem)
  ultimately show ?thesis using k(2) work_run.Step by fastforce
qed

definition pool_inv :: "('q \<Rightarrow> string set) \<Rightarrow> 'q pool \<Rightarrow> bool" where
  "pool_inv inProcess p \<longleftrightarrow>
     (\<forall>i key. pl_busy p i = Some key \<longrightarrow> key \<in> inProcess (pl_queue p)) \<and>
     (\<forall>i j key. pl_busy p i = Some key \<longrightarrow> pl_busy p j = Some key \<longrightarrow> i = j)"

lemma finishItem_laws:
  assumes "queueLaws Q waits inProcess"
  shows "waits (finishItem Q key err q) = due (Ended i key err) (waits q)"
    and "inProcess (finishItem Q key err q) = inProcess q - {key}"
  using assms by (auto simp: queueLaws_def finishItem_def split: option.splits)

lemma work_step_inv:
  assumes "queueLaws Q waits inProcess" "work_step Q p e p'" "pool_inv inProcess p"
  shows "pool_inv inProcess p'"
  using assms(2)
proof (cases rule: work_step.cases)
  case (Take i key q)
  then have "key \<notin> inProcess (pl_queue p)" "inProcess q = insert key (inProcess (pl_queue p))"
    using assms(1) unfolding queueLaws_def by blast+
  with Take assms(3) show ?thesis by (auto simp: pool_inv_def)
next
  case (End i key err)
  then show ?thesis
    using assms(3) by (auto simp: pool_inv_def finishItem_laws(2) [OF assms(1)])
qed (use assms in \<open>auto simp: pool_inv_def queueLaws_def\<close>)

lemma due_mono: "D \<subseteq> D' \<Longrightarrow> due e D \<subseteq> due e D'"
  by (cases e) (auto split: option.splits)

lemma work_step_waits:
  assumes "queueLaws Q waits inProcess" "work_step Q p e p'"
  shows "due e (waits (pl_queue p)) \<subseteq> waits (pl_queue p')"
  using assms(2)
proof (cases rule: work_step.cases)
  case (Take i key q)
  then show ?thesis using assms(1) unfolding queueLaws_def by auto
next
  case (End i key err)
  then show ?thesis using finishItem_laws(1) [OF assms(1)] by simp
qed (use assms(1) in \<open>auto simp: queueLaws_def\<close>)

lemma work_run_inv:
  assumes "queueLaws Q waits inProcess"
  shows "work_run Q p es p' \<Longrightarrow> pool_inv inProcess p \<Longrightarrow>
     pool_inv inProcess p' \<and> fold due es (waits (pl_queue p)) \<subseteq> waits (pl_queue p')"
proof (induction rule: work_run.induct)
  case (Step p es p' e p'')
  have "due e (fold due es (waits (pl_queue p))) \<subseteq> due e (waits (pl_queue p'))"
    using Step.IH [OF Step.prems] by (intro due_mono) blast
  then show ?case
    using Step work_step_inv [OF assms] work_step_waits [OF assms, of p' e p''] by fastforce
qed simp

text \<open>A key is in process exactly as long as a worker is busy with it: every item that a worker takes is ended by \<open>Done\<close>.\<close>

definition busyKeys :: "'q pool \<Rightarrow> string set" where
  "busyKeys p = {key. \<exists>i. pl_busy p i = Some key}"

lemma work_step_busy:
  assumes "queueLaws Q waits inProcess" "work_step Q p e p'" "pool_inv inProcess p"
    and "inProcess (pl_queue p) = busyKeys p"
  shows "inProcess (pl_queue p') = busyKeys p'"
  using assms(2)
proof (cases rule: work_step.cases)
  case (Queue key)
  then show ?thesis using assms(1,4) by (simp add: queueLaws_def busyKeys_def)
next
  case (Take i key q)
  then have "inProcess q = insert key (busyKeys p)"
    using assms(1,4) unfolding queueLaws_def by metis
  moreover have "busyKeys p' = insert key (busyKeys p)"
    using Take unfolding busyKeys_def by auto (metis option.distinct(1))
  ultimately show ?thesis using Take by simp
next
  case (End i key err)
  then have "inProcess (pl_queue p') = busyKeys p - {key}"
    using finishItem_laws(2) [OF assms(1)] assms(4) by simp
  moreover have "busyKeys p' = busyKeys p - {key}"
    using End assms(3) unfolding busyKeys_def pool_inv_def by (auto split: if_splits) (metis option.inject)
  ultimately show ?thesis by simp
qed

lemma work_run_busy:
  assumes "queueLaws Q waits inProcess"
  shows "work_run Q p es p' \<Longrightarrow> pool_inv inProcess p \<Longrightarrow> inProcess (pl_queue p) = busyKeys p \<Longrightarrow>
     inProcess (pl_queue p') = busyKeys p'"
proof (induction rule: work_run.induct)
  case (Step p es p' e p'')
  have "pool_inv inProcess p'" using work_run_inv [OF assms Step.hyps(1) Step.prems(1)] by blast
  from work_step_busy [OF assms Step.hyps(2) this Step.IH [OF Step.prems]] show ?case .
qed simp

end
