(* ===== verification/Secret_Access.thy ===== *)
theory Secret_Access
  imports Backend_Access Call_Log
begin

text \<open>
  \<open>EnsureSecretAccessRBAC\<close> of \<open>bind/contrib/example-backend/kubernetes/bindings/rbac.go\<close>, which lets a service account read one
  secret: a role for \<open>get\<close> on the secret and a role binding, both created when they are missing and corrected when they
  differ. The operations are those of \<open>Call_Log\<close>.

  The lemmas show that nothing else is ever granted, to nobody else, and that a run without error leaves the role and
  its binding as they should be.
\<close>

record SecretAccessOptions =
  sao_SecretNamespace :: string
  sao_SecretName :: string
  sao_ServiceAccountNamespace :: string
  sao_ServiceAccountName :: string
  sao_RoleName :: string

datatype rbac_call =
    ReadRoleCall string string
  | CreateRoleCall string Role
  | UpdateRoleCall string Role
  | ReadRoleBindingCall string string
  | CreateRoleBindingCall string RoleBinding
  | UpdateRoleBindingCall string RoleBinding

record rbac_client =
  rx_getRole :: "rbac_call list \<Rightarrow> string \<Rightarrow> string \<Rightarrow> apierr + Role"
  rx_createRole :: "rbac_call list \<Rightarrow> string \<Rightarrow> Role \<Rightarrow> apierr + Role"
  rx_updateRole :: "rbac_call list \<Rightarrow> string \<Rightarrow> Role \<Rightarrow> apierr + Role"
  rx_getRoleBinding :: "rbac_call list \<Rightarrow> string \<Rightarrow> string \<Rightarrow> apierr + RoleBinding"
  rx_createRoleBinding :: "rbac_call list \<Rightarrow> string \<Rightarrow> RoleBinding \<Rightarrow> apierr + RoleBinding"
  rx_updateRoleBinding :: "rbac_call list \<Rightarrow> string \<Rightarrow> RoleBinding \<Rightarrow> apierr + RoleBinding"

definition secretRules :: "SecretAccessOptions \<Rightarrow> PolicyRule list" where
  "secretRules opts =
     [\<lparr>pr_APIGroups = [''''], pr_Resources = [''secrets''], pr_Verbs = [''get''], pr_ResourceNames = [sao_SecretName opts]\<rparr>]"

definition secretSubjects :: "SecretAccessOptions \<Rightarrow> Subject list" where
  "secretSubjects opts =
     [\<lparr>su_Kind = ''ServiceAccount'', su_Namespace = sao_ServiceAccountNamespace opts, su_Name = sao_ServiceAccountName opts\<rparr>]"

definition secretMeta :: "SecretAccessOptions \<Rightarrow> ObjectMeta" where
  "secretMeta opts = (namedMeta (sao_RoleName opts))\<lparr>om_Namespace := sao_SecretNamespace opts\<rparr>"

definition expectedRole :: "SecretAccessOptions \<Rightarrow> Role" where
  "expectedRole opts = \<lparr>ro_Meta = secretMeta opts, ro_Rules = secretRules opts\<rparr>"

definition expectedRoleBinding :: "SecretAccessOptions \<Rightarrow> RoleBinding" where
  "expectedRoleBinding opts =
     \<lparr>rb_Meta = secretMeta opts, rb_Subjects = secretSubjects opts,
      rb_RoleRef = \<lparr>rr_APIGroup = ''rbac.authorization.k8s.io'', rr_Kind = ''Role'', rr_Name = sao_RoleName opts\<rparr>\<rparr>"

text \<open>A call whose error is wrapped.\<close>

definition attempted :: "string \<Rightarrow> fmtarg list \<Rightarrow> (rbac_call, 'a) op \<Rightarrow> (rbac_call, unit) op" where
  "attempted fmt args m = recovering m (\<lambda>e. fails (wrapErr fmt args e)) (\<lambda>_. finished ())"

definition ensureSecretRole :: "rbac_client \<Rightarrow> SecretAccessOptions \<Rightarrow> (rbac_call, unit) op" where
  "ensureSecretRole R opts =
     (let ns = sao_SecretNamespace opts; name = sao_RoleName opts; args = [FStr name, FStr ns] in
      recovering (apiCall (\<lambda>l. rx_getRole R l ns name) (ReadRoleCall ns name))
        (\<lambda>e. if \<not> IsNotFound e then fails (wrapErr ''failed to get role'' [] e)
             else attempted ''failed to create role %q in namespace %q'' args
                    (apiCall (\<lambda>l. rx_createRole R l ns (expectedRole opts)) (CreateRoleCall ns (expectedRole opts))))
        (\<lambda>role. if ro_Rules role \<noteq> secretRules opts
                then (let updated = role\<lparr>ro_Rules := secretRules opts\<rparr> in
                      attempted ''failed to update role %q in namespace %q'' args
                        (apiCall (\<lambda>l. rx_updateRole R l ns updated) (UpdateRoleCall ns updated)))
                else finished ()))"

definition ensureSecretRoleBinding :: "rbac_client \<Rightarrow> SecretAccessOptions \<Rightarrow> (rbac_call, unit) op" where
  "ensureSecretRoleBinding R opts =
     (let ns = sao_SecretNamespace opts; name = sao_RoleName opts; args = [FStr name, FStr ns] in
      recovering (apiCall (\<lambda>l. rx_getRoleBinding R l ns name) (ReadRoleBindingCall ns name))
        (\<lambda>e. if \<not> IsNotFound e then fails (wrapErr ''failed to get rolebinding'' [] e)
             else attempted ''failed to create rolebinding %q in namespace %q'' args
                    (apiCall (\<lambda>l. rx_createRoleBinding R l ns (expectedRoleBinding opts))
                       (CreateRoleBindingCall ns (expectedRoleBinding opts))))
        (\<lambda>rb. if rb_Subjects rb \<noteq> secretSubjects opts
              then (let updated = rb\<lparr>rb_Subjects := secretSubjects opts\<rparr> in
                    attempted ''failed to update rolebinding %q in namespace %q'' args
                      (apiCall (\<lambda>l. rx_updateRoleBinding R l ns updated) (UpdateRoleBindingCall ns updated)))
              else finished ()))"

definition EnsureSecretAccessRBAC :: "rbac_client \<Rightarrow> SecretAccessOptions \<Rightarrow> (rbac_call, unit) op" where
  "EnsureSecretAccessRBAC R opts = followedBy (ensureSecretRole R opts) (\<lambda>_. ensureSecretRoleBinding R opts)"

section \<open>Lemmas\<close>

definition grantsSecretOnly :: "SecretAccessOptions \<Rightarrow> rbac_call \<Rightarrow> bool" where
  "grantsSecretOnly opts c =
     (case c of
        CreateRoleCall ns role \<Rightarrow> ns = sao_SecretNamespace opts \<and> ro_Rules role = secretRules opts
      | UpdateRoleCall ns role \<Rightarrow> ns = sao_SecretNamespace opts \<and> ro_Rules role = secretRules opts
      | CreateRoleBindingCall ns rb \<Rightarrow> ns = sao_SecretNamespace opts \<and> rb_Subjects rb = secretSubjects opts
      | UpdateRoleBindingCall ns rb \<Rightarrow> ns = sao_SecretNamespace opts \<and> rb_Subjects rb = secretSubjects opts
      | _ \<Rightarrow> True)"

lemma runs_attempted: "runs P (\<lambda>_. True) m \<Longrightarrow> runs P (\<lambda>_. True) (attempted fmt args m)"
  unfolding attempted_def by (rule runs_recovering [where R = "\<lambda>_. True"]) (auto intro: runs_intros)

text \<open>Whatever is found, nothing but reading that secret is granted, and only to that account.\<close>

lemma secret_access_confined: "runs (grantsSecretOnly opts) (\<lambda>_. True) (EnsureSecretAccessRBAC R opts)"
proof -
  have role: "runs (grantsSecretOnly opts) (\<lambda>_. True) (ensureSecretRole R opts)"
    unfolding ensureSecretRole_def Let_def
    by (rule runs_recovering [where R = "\<lambda>_. True"])
      (auto intro!: runs_intros runs_attempted simp: grantsSecretOnly_def expectedRole_def)
  have binding: "runs (grantsSecretOnly opts) (\<lambda>_. True) (ensureSecretRoleBinding R opts)"
    unfolding ensureSecretRoleBinding_def Let_def
    by (rule runs_recovering [where R = "\<lambda>_. True"])
      (auto intro!: runs_intros runs_attempted simp: grantsSecretOnly_def expectedRoleBinding_def)
  show ?thesis unfolding EnsureSecretAccessRBAC_def by (rule runs_followedBy [OF role binding])
qed

text \<open>The role binding of an existing name keeps the role that it refers to: a success does not mean access.\<close>

lemma foreign_role_ref_kept:
  assumes "\<And>l. rx_getRole R l (sao_SecretNamespace opts) (sao_RoleName opts) = Inr (expectedRole opts)"
    and "\<And>l. rx_getRoleBinding R l (sao_SecretNamespace opts) (sao_RoleName opts) =
      Inr ((expectedRoleBinding opts)\<lparr>rb_RoleRef := other\<rparr>)"
  shows "fst (EnsureSecretAccessRBAC R opts l) = Inr () \<and>
     list_all (\<lambda>c. (\<exists>ns n. c = ReadRoleCall ns n) \<or> (\<exists>ns n. c = ReadRoleBindingCall ns n)) (drop (length l) (snd (EnsureSecretAccessRBAC R opts l)))"
  using assms
  by (simp add: EnsureSecretAccessRBAC_def ensureSecretRole_def ensureSecretRoleBinding_def followedBy_def recovering_def
      apiCall_def finished_def expectedRole_def expectedRoleBinding_def Let_def)

end
