(* ===== verification/CRD_Bootstrap.thy ===== *)
theory CRD_Bootstrap
  imports Bind_API Call_Log Go_Fmt
begin

text \<open>
  The installation of CRDs when a program starts: \<open>bind/deploy/crd/bootstrap.go\<close>.

  \<^item> The operations are those of \<open>Call_Log\<close> over \<open>crd_call\<close>; \<open>crd_client\<close> has the API server, the files that are compiled into the
    program with their decoder, and what client-go adds: which errors mean that a connection was refused or that
    there are too many requests, and how often \<open>retry.OnError\<close> tries again.
  \<^item> The goroutines of \<open>CreateFromFS\<close> each handle one CRD; the model runs them in the order of the arguments.
  \<^item> The wait for a CRD polls without end; \<open>cd_patience\<close> is how often it looks before the context is cancelled, which ends it
    with \<open>ErrWaitTimeout\<close>.
  \<^item> The messages of the log are left out.

  The lemmas show that a run only writes the CRDs that it is given, that an update carries the resource version that was
  read, and that success means that the CRD is established.
\<close>

section \<open>Calls\<close>

datatype crd_call = GetCRDNamed string | CreateCRDCall CRD | UpdateCRDCall CRD

record crd_client =
  cd_get :: "crd_call list \<Rightarrow> string \<Rightarrow> apierr + CRD"
  cd_create :: "crd_call list \<Rightarrow> CRD \<Rightarrow> apierr + CRD"
  cd_update :: "crd_call list \<Rightarrow> CRD \<Rightarrow> apierr + CRD"
  cd_readFile :: "string \<Rightarrow> apierr + string"
  cd_decode :: "string \<Rightarrow> apierr + (string \<times> string \<times> string) \<times> CRD option"
  cd_refusedOrBusy :: "apierr \<Rightarrow> bool"
  cd_retries :: nat
  cd_patience :: nat
  cd_ctxErr :: "apierr option"

type_synonym 'a crd_op = "(crd_call, 'a) op"

definition crd_wrap :: "string \<Rightarrow> string \<Rightarrow> apierr \<Rightarrow> apierr" where
  "crd_wrap fmt name e = e\<lparr>error_text := Sprintf (fmt @ '': %s'') [FStr name, FStr (error_text e)]\<rparr>"

section \<open>One CRD\<close>

definition expectedGvk :: "string \<times> string \<times> string" where
  [klutch_defs]: "expectedGvk = (''apiextensions.k8s.io'', ''v1'', ''CustomResourceDefinition'')"

definition embeddedCRD :: "crd_client \<Rightarrow> string \<times> string \<Rightarrow> apierr + CRD" where
  "embeddedCRD D gr =
     (let text = (if fst gr = '''' then snd gr else snd gr @ ''.'' @ fst gr) in
      case cd_readFile D (Sprintf ''%s_%s.yaml'' [FStr (fst gr), FStr (snd gr)]) of
        Inl e \<Rightarrow> Inl (crd_wrap ''could not read CRD %s'' text e)
      | Inr raw \<Rightarrow>
          (case cd_decode D raw of
             Inl e \<Rightarrow> Inl (crd_wrap ''could not decode raw CRD %s'' text e)
           | Inr (gvk, obj) \<Rightarrow>
               if gvk \<noteq> expectedGvk
               then Inl (plainError (Sprintf ''decoded CRD %s into incorrect GroupVersionKind'' [FStr text]))
               else case obj of
                      None \<Rightarrow> Inl (plainError (Sprintf ''decoded CRD %s into incorrect type'' [FStr text]))
                    | Some crd \<Rightarrow> Inr crd))"

definition getCRD :: "crd_client \<Rightarrow> string \<Rightarrow> CRD crd_op" where
  "getCRD D name = apiCall (\<lambda>l. cd_get D l name) (GetCRDNamed name)"

text \<open>The CRD whose resource version an update needs, or none when it was created.\<close>

definition fetchOrCreate :: "crd_client \<Rightarrow> CRD \<Rightarrow> CRD option crd_op" where
  "fetchOrCreate D rawCRD =
     (let name = om_Name (crd_Meta rawCRD) in
      recovering (getCRD D name)
        (\<lambda>e. if IsNotFound e
             then recovering (apiCall (\<lambda>l. cd_create D l rawCRD) (CreateCRDCall rawCRD))
                    (\<lambda>e'. if IsAlreadyExists e'
                          then recovering (getCRD D name)
                                 (\<lambda>e2. fails (crd_wrap ''error getting CRD %s'' name e2))
                                 (\<lambda>crd. finished (Some crd))
                          else fails (crd_wrap ''error creating CRD %s'' name e'))
                    (\<lambda>_. finished None)
             else fails (crd_wrap ''error fetching CRD %s'' name e))
        (\<lambda>crd. finished (Some crd)))"

definition withVersionOf :: "CRD \<Rightarrow> CRD \<Rightarrow> CRD" where
  "withVersionOf crd rawCRD =
     rawCRD\<lparr>crd_Meta := (crd_Meta rawCRD)\<lparr>om_ResourceVersion := om_ResourceVersion (crd_Meta crd)\<rparr>\<rparr>"

definition isEstablished :: "CRD \<Rightarrow> bool" where
  "isEstablished crd = list_ex (\<lambda>c. cc_Type c = ''Established'' \<and> cc_Status c = ''True'') (crd_Conditions crd)"

fun awaitEstablished :: "nat \<Rightarrow> crd_client \<Rightarrow> string \<Rightarrow> CRD crd_op" where
  "awaitEstablished 0 D name = fails (plainError ''timed out waiting for the condition'')"
| "awaitEstablished (Suc n) D name =
     recovering (getCRD D name)
       (\<lambda>e. if IsNotFound e
            then fails (plainError (Sprintf ''CRD %s was deleted before being established'' [FStr name]))
            else fails (crd_wrap ''error fetching CRD %s'' name e))
       (\<lambda>crd. if isEstablished crd then finished crd else awaitEstablished n D name)"

definition CreateSingle :: "crd_client \<Rightarrow> CRD \<Rightarrow> CRD crd_op" where
  "CreateSingle D rawCRD =
     followedBy (fetchOrCreate D rawCRD)
       (\<lambda>found. followedBy
          (case found of
             None \<Rightarrow> finished ()
           | Some crd \<Rightarrow>
               (let updated = withVersionOf crd rawCRD in
                followedBy (apiCall (\<lambda>l. cd_update D l updated) (UpdateCRDCall updated)) (\<lambda>_. finished ())))
          (\<lambda>_. awaitEstablished (cd_patience D) D (om_Name (crd_Meta rawCRD))))"

section \<open>All CRDs\<close>

definition createSingleFromFS :: "crd_client \<Rightarrow> string \<times> string \<Rightarrow> CRD crd_op" where
  "createSingleFromFS D gr =
     (case embeddedCRD D gr of Inl e \<Rightarrow> fails e | Inr crd \<Rightarrow> CreateSingle D crd)"

fun retryRetryableErrors :: "crd_client \<Rightarrow> nat \<Rightarrow> 'a crd_op \<Rightarrow> 'a crd_op" where
  "retryRetryableErrors D 0 m = m"
| "retryRetryableErrors D (Suc n) m =
     recovering m
       (\<lambda>e. if cd_refusedOrBusy D e \<or> reason e = Conflict then retryRetryableErrors D n m else fails e) finished"

text \<open>The error of one CRD: that of the context has precedence.\<close>

definition bootstrapOne :: "crd_client \<Rightarrow> string \<times> string \<Rightarrow> apierr option crd_op" where
  "bootstrapOne D gr =
     recovering (retryRetryableErrors D (cd_retries D) (createSingleFromFS D gr))
       (\<lambda>e. finished (Some (case cd_ctxErr D of None \<Rightarrow> e | Some e' \<Rightarrow> e')))
       (\<lambda>_. finished (cd_ctxErr D))"

fun bootstrapErrors :: "crd_client \<Rightarrow> (string \<times> string) list \<Rightarrow> apierr list crd_op" where
  "bootstrapErrors D [] = finished []"
| "bootstrapErrors D (gr # grs) =
     followedBy (bootstrapOne D gr)
       (\<lambda>err. followedBy (bootstrapErrors D grs) (\<lambda>es. finished (case err of None \<Rightarrow> es | Some e \<Rightarrow> e # es)))"

text \<open>The errors are reported together; the model keeps the first.\<close>

definition CreateFromFS :: "crd_client \<Rightarrow> (string \<times> string) list \<Rightarrow> unit crd_op" where
  "CreateFromFS D grs =
     followedBy (bootstrapErrors D grs)
       (\<lambda>es. case es of
               [] \<Rightarrow> finished ()
             | e # _ \<Rightarrow> fails (e\<lparr>error_text := ''could not bootstrap CRDs: '' @ error_text e\<rparr>))"

section \<open>Lemmas\<close>

text \<open>What may be written: an embedded CRD, created as it is or updated with a resource version that the server gave.\<close>

definition writesOnly :: "crd_client \<Rightarrow> CRD set \<Rightarrow> crd_call \<Rightarrow> bool" where
  "writesOnly D raws c =
     (case c of
        GetCRDNamed _ \<Rightarrow> True
      | CreateCRDCall crd \<Rightarrow> crd \<in> raws
      | UpdateCRDCall crd \<Rightarrow> (\<exists>raw \<in> raws. \<exists>l cur. cd_get D l (om_Name (crd_Meta raw)) = Inr cur \<and> crd = withVersionOf cur raw))"

lemma runs_getCRD: "runs (writesOnly D raws) (\<lambda>crd. \<exists>l. cd_get D l name = Inr crd) (getCRD D name)"
  unfolding getCRD_def by (rule runs_intros) (auto simp: writesOnly_def)

lemma runs_fetchOrCreate:
  assumes "raw \<in> raws"
  shows "runs (writesOnly D raws)
     (\<lambda>r. \<forall>crd. r = Some crd \<longrightarrow> (\<exists>l. cd_get D l (om_Name (crd_Meta raw)) = Inr crd)) (fetchOrCreate D raw)"
  unfolding fetchOrCreate_def Let_def
  by (rule runs_recovering [OF runs_getCRD])
    (use assms in \<open>auto intro!: runs_intros runs_recovering [OF runs_getCRD] runs_recovering [where R = "\<lambda>_. True"]
       simp: writesOnly_def\<close>)

lemma writesOnly_update:
  "raw \<in> raws \<Longrightarrow> cd_get D l (om_Name (crd_Meta raw)) = Inr crd \<Longrightarrow>
     writesOnly D raws (UpdateCRDCall (withVersionOf crd raw))"
  by (auto simp: writesOnly_def)

text \<open>The server has shown the CRD as established.\<close>

definition seenEstablished :: "crd_client \<Rightarrow> string \<Rightarrow> bool" where
  "seenEstablished D name \<longleftrightarrow> (\<exists>l crd. cd_get D l name = Inr crd \<and> isEstablished crd)"

lemma seenEstablishedI: "cd_get D l name = Inr crd \<Longrightarrow> isEstablished crd \<Longrightarrow> seenEstablished D name"
  unfolding seenEstablished_def by blast

lemma runs_awaitEstablished: "runs (writesOnly D raws) (\<lambda>_. seenEstablished D name) (awaitEstablished n D name)"
  by (induction n) (auto intro!: runs_intros runs_recovering [OF runs_getCRD] intro: seenEstablishedI)

lemma runs_CreateSingle:
  assumes "raw \<in> raws"
  shows "runs (writesOnly D raws) (\<lambda>_. seenEstablished D (om_Name (crd_Meta raw))) (CreateSingle D raw)"
  unfolding CreateSingle_def Let_def
proof (rule runs_followedBy [OF runs_fetchOrCreate [OF assms]], goal_cases)
  case (1 found)
  show ?case
    by (rule runs_followedBy [where R = "\<lambda>_. True"], cases found)
      (use 1 assms in \<open>auto intro!: runs_intros runs_awaitEstablished runs_followedBy [where R = "\<lambda>_. True"]
         intro: writesOnly_update\<close>)
qed

lemma runs_retryRetryableErrors: "runs P Q m \<Longrightarrow> runs P Q (retryRetryableErrors D n m)"
  by (induction n) (auto intro!: runs_intros runs_recovering [where R = Q])

definition embeddedCRDs :: "crd_client \<Rightarrow> (string \<times> string) set \<Rightarrow> CRD set" where
  "embeddedCRDs D grs = {crd. \<exists>gr \<in> grs. embeddedCRD D gr = Inr crd}"

definition installedCRD :: "crd_client \<Rightarrow> string \<times> string \<Rightarrow> bool" where
  "installedCRD D gr \<longleftrightarrow> (\<exists>raw. embeddedCRD D gr = Inr raw \<and> seenEstablished D (om_Name (crd_Meta raw)))"

lemma runs_createSingleFromFS:
  assumes "gr \<in> grs"
  shows "runs (writesOnly D (embeddedCRDs D grs)) (\<lambda>_. installedCRD D gr) (createSingleFromFS D gr)"
proof (cases "embeddedCRD D gr")
  case (Inl e)
  then show ?thesis by (simp add: createSingleFromFS_def runs_fails)
next
  case (Inr raw)
  with assms have "raw \<in> embeddedCRDs D grs" by (auto simp: embeddedCRDs_def)
  from runs_CreateSingle [OF this] Inr show ?thesis
    by (auto simp: createSingleFromFS_def installedCRD_def intro: runs_weaken)
qed

lemma runs_bootstrapOne:
  assumes "gr \<in> grs"
  shows "runs (writesOnly D (embeddedCRDs D grs)) (\<lambda>err. err = None \<longrightarrow> installedCRD D gr) (bootstrapOne D gr)"
  unfolding bootstrapOne_def
  by (rule runs_recovering [OF runs_retryRetryableErrors [OF runs_createSingleFromFS [OF assms]]])
    (auto intro: runs_intros)

lemma runs_bootstrapErrors:
  "set grs \<subseteq> G \<Longrightarrow>
     runs (writesOnly D (embeddedCRDs D G)) (\<lambda>es. es = [] \<longrightarrow> list_all (installedCRD D) grs) (bootstrapErrors D grs)"
proof (induction grs)
  case Nil
  show ?case by (auto intro: runs_intros)
next
  case (Cons gr grs)
  then have gr: "gr \<in> G"
    and IH: "runs (writesOnly D (embeddedCRDs D G)) (\<lambda>es. es = [] \<longrightarrow> list_all (installedCRD D) grs) (bootstrapErrors D grs)"
    by auto
  show ?case unfolding bootstrapErrors.simps
    by (rule runs_followedBy [OF runs_bootstrapOne [OF gr]], rule runs_followedBy [OF IH])
      (auto intro!: runs_intros split: option.split)
qed

text \<open>
  Bootstrapping writes nothing but the embedded CRDs, in an update with a resource version that the server gave, and
  succeeds only after the server showed every CRD as established.
\<close>

lemma runs_CreateFromFS:
  "runs (writesOnly D (embeddedCRDs D (set grs))) (\<lambda>_. list_all (installedCRD D) grs) (CreateFromFS D grs)"
  unfolding CreateFromFS_def
  by (rule runs_followedBy [OF runs_bootstrapErrors [OF subset_refl]]) (auto intro: runs_intros split: list.split)

end
