(* ===== verification/Konnector_Config.thy ===== *)
theory Konnector_Config
  imports App_Cluster_Binding CRD_Bootstrap
begin

text \<open>
  How the konnector is started: its options (\<open>bind/pkg/konnector/options\<close>), the clusters that it connects to
  (\<open>bind/pkg/konnector/config.go\<close>), \<open>PrepareRun\<close> of \<open>bind/pkg/konnector/server.go\<close>, its health endpoint
  (\<open>bind/pkg/konnector/healthz\<close>), and the steps of the command up to the leader election (\<open>bind/cmd/konnector/cmd/cmd.go\<close>).

  \<^item> \<open>AddFlags\<close> gives the flags with the field that each sets; \<open>pflag\<close> reads the arguments and is a parameter of the command. The
    flags of the logger are left out.
  \<^item> \<open>konn_env\<close> has what client-go and the environment answer: loading a kubeconfig file, \<open>clientcmd\<close>, building a client, and
    reading a secret with a configuration. A client is the configuration it was built with, an informer factory a client
    with the namespace that it is restricted to. Fields of \<open>Config\<close> that are nil before they are set are options.
  \<^item> A configuration is the text client-go makes of a kubeconfig, with the user agents that were added.

  The lemmas show what the options of a konnector that the backend deploys are, and which clusters it connects to. The elector of
  client-go (\<open>bind/cmd/konnector/cmd/leaderelection.go\<close>) is a parameter.
\<close>

section \<open>Options\<close>

record ExtraOptions =
  KubeConfigPath :: string
  ControlPlaneMode :: bool
  AppClusterKubeconfigSecretName :: string
  AppClusterKubeconfigSecretNamespace :: string
  AppClusterKubeconfigSecretKey :: string
  BindingRootNamespace :: string
  LeaseLockName :: string
  LeaseLockNamespace :: string
  LeaseLockIdentity :: string

definition konnector_NewOptions :: "(string \<Rightarrow> string) \<Rightarrow> ExtraOptions" where
  "konnector_NewOptions getenv =
     \<lparr>KubeConfigPath = '''', ControlPlaneMode = False, AppClusterKubeconfigSecretName = '''',
      AppClusterKubeconfigSecretNamespace = '''', AppClusterKubeconfigSecretKey = '''', BindingRootNamespace = '''',
      LeaseLockName = ''klutch-bind'',
      LeaseLockNamespace = (if getenv ''POD_NAMESPACE'' = '''' then ''kube-system'' else getenv ''POD_NAMESPACE''),
      LeaseLockIdentity = getenv ''POD_NAME''\<rparr>"

text \<open>\<open>StringVar\<close> and \<open>BoolVar\<close> set the variable to the default at once, and register the flag.\<close>

datatype flag =
    StringFlag string "string \<Rightarrow> ExtraOptions \<Rightarrow> ExtraOptions"
  | BoolFlag string "bool \<Rightarrow> ExtraOptions \<Rightarrow> ExtraOptions"

definition konnector_flags :: "flag list" where
  "konnector_flags =
     [StringFlag ''kubeconfig'' (\<lambda>v. KubeConfigPath_update (\<lambda>_. v)),
      BoolFlag ''control-plane-mode'' (\<lambda>v. ControlPlaneMode_update (\<lambda>_. v)),
      StringFlag ''app-cluster-kubeconfig-secret-name'' (\<lambda>v. AppClusterKubeconfigSecretName_update (\<lambda>_. v)),
      StringFlag ''app-cluster-kubeconfig-secret-namespace'' (\<lambda>v. AppClusterKubeconfigSecretNamespace_update (\<lambda>_. v)),
      StringFlag ''app-cluster-kubeconfig-secret-key'' (\<lambda>v. AppClusterKubeconfigSecretKey_update (\<lambda>_. v)),
      StringFlag ''binding-root-namespace'' (\<lambda>v. BindingRootNamespace_update (\<lambda>_. v)),
      StringFlag ''lease-name'' (\<lambda>v. LeaseLockName_update (\<lambda>_. v)),
      StringFlag ''lease-namespace'' (\<lambda>v. LeaseLockNamespace_update (\<lambda>_. v))]"

definition konnector_AddFlags :: "ExtraOptions \<Rightarrow> ExtraOptions \<times> flag list" where
  "konnector_AddFlags options =
     (options\<lparr>ControlPlaneMode := False, AppClusterKubeconfigSecretKey := ''kubeconfig''\<rparr>, konnector_flags)"

definition konnector_Complete :: "string \<Rightarrow> ExtraOptions \<Rightarrow> ExtraOptions" where
  "konnector_Complete rand options =
     (if LeaseLockIdentity options = '''' then options\<lparr>LeaseLockIdentity := rand\<rparr> else options)"

definition konnector_Validate :: "ExtraOptions \<Rightarrow> apierr option" where
  "konnector_Validate options =
     (if ControlPlaneMode options
      then if AppClusterKubeconfigSecretName options = ''''
           then Some (plainError ''--app-cluster-kubeconfig-secret-name is required when --control-plane-mode is enabled'')
           else if AppClusterKubeconfigSecretNamespace options = ''''
           then Some (plainError ''--app-cluster-kubeconfig-secret-namespace is required when --control-plane-mode is enabled'')
           else if AppClusterKubeconfigSecretKey options = ''''
           then Some (plainError ''--app-cluster-kubeconfig-secret-key cannot be empty'')
           else if BindingRootNamespace options = ''''
           then Some (plainError ''--binding-root-namespace is required when --control-plane-mode is enabled'')
           else None
      else None)"

section \<open>The clusters\<close>

record rest_config =
  rt_Config :: string
  rt_UserAgents :: "string list"

definition AddUserAgent :: "rest_config \<Rightarrow> string \<Rightarrow> rest_config" where
  "AddUserAgent cfg agent = cfg\<lparr>rt_UserAgents := rt_UserAgents cfg @ [agent]\<rparr>"

datatype clientset = KubeClientset | BindClientset | ApiextensionsClientset

record konn_env =
  kv_loadFile :: "string \<Rightarrow> apierr + string"
  kv_clientcmd :: clientcmd
  kv_newClient :: "clientset \<Rightarrow> rest_config \<Rightarrow> apierr option"
  kv_getSecret :: "rest_config \<Rightarrow> string \<Rightarrow> string \<Rightarrow> apierr + Secret"

type_synonym factory = "rest_config \<times> string option"

record konn_config =
  kg_ControlPlaneMode :: bool
  kg_BindingRootNamespace :: string
  kg_AppClusterConfig :: "rest_config option"
  kg_AppClusterKubeInformers :: "factory option"
  kg_AppClusterApiextensionsInformers :: "factory option"
  kg_BindingClusterConfig :: "rest_config option"
  kg_BindingClusterBindInformers :: "factory option"
  kg_BindingClusterKubeInformers :: "factory option"
  kg_ControlPlaneConfig :: "rest_config option"

definition loadKubeconfig :: "konn_env \<Rightarrow> string \<Rightarrow> apierr + rest_config" where
  "loadKubeconfig E path =
     (case kv_loadFile E path of
        Inl e \<Rightarrow> Inl e
      | Inr cfg \<Rightarrow> Inr (AddUserAgent \<lparr>rt_Config = cfg, rt_UserAgents = []\<rparr> ''konnector''))"

text \<open>The clients are built in turn; the first that fails ends it.\<close>

definition newClients :: "konn_env \<Rightarrow> rest_config \<Rightarrow> clientset list \<Rightarrow> apierr option" where
  "newClients E cfg kinds = fold (\<lambda>k err. case err of Some e \<Rightarrow> Some e | None \<Rightarrow> kv_newClient E k cfg) kinds None"

definition initAppCluster :: "konn_env \<Rightarrow> rest_config \<Rightarrow> konn_config \<Rightarrow> apierr + konn_config" where
  "initAppCluster E cfg c =
     (case newClients E cfg [KubeClientset, ApiextensionsClientset] of
        Some e \<Rightarrow> Inl e
      | None \<Rightarrow> Inr (c\<lparr>kg_AppClusterConfig := Some cfg, kg_AppClusterKubeInformers := Some (cfg, None),
                       kg_AppClusterApiextensionsInformers := Some (cfg, None)\<rparr>))"

definition initBindingCluster :: "konn_env \<Rightarrow> rest_config \<Rightarrow> string \<Rightarrow> konn_config \<Rightarrow> apierr + konn_config" where
  "initBindingCluster E cfg ns c =
     (case newClients E cfg [BindClientset, KubeClientset, ApiextensionsClientset] of
        Some e \<Rightarrow> Inl e
      | None \<Rightarrow>
          (let f = (cfg, if ns \<noteq> '''' then Some ns else None) in
           Inr (c\<lparr>kg_BindingClusterConfig := Some cfg, kg_BindingClusterBindInformers := Some f,
                  kg_BindingClusterKubeInformers := Some f\<rparr>)))"

definition noConfig :: "ExtraOptions \<Rightarrow> konn_config" where
  "noConfig options =
     \<lparr>kg_ControlPlaneMode = ControlPlaneMode options, kg_BindingRootNamespace = BindingRootNamespace options,
      kg_AppClusterConfig = None, kg_AppClusterKubeInformers = None, kg_AppClusterApiextensionsInformers = None,
      kg_BindingClusterConfig = None, kg_BindingClusterBindInformers = None, kg_BindingClusterKubeInformers = None,
      kg_ControlPlaneConfig = None\<rparr>"

text \<open>The configuration of the app cluster, from the secret in the control plane.\<close>

definition appConfigFromSecret :: "konn_env \<Rightarrow> rest_config \<Rightarrow> ExtraOptions \<Rightarrow> apierr + rest_config" where
  "appConfigFromSecret E cpConfig options =
     (let ns = AppClusterKubeconfigSecretNamespace options; name = AppClusterKubeconfigSecretName options;
          key = AppClusterKubeconfigSecretKey options
      in case kv_newClient E KubeClientset cpConfig of
           Some e \<Rightarrow> Inl e
         | None \<Rightarrow>
             (case kv_getSecret E cpConfig ns name of
                Inl e \<Rightarrow> Inl (wrapErr ''failed to fetch app cluster kubeconfig secret %s/%s'' [FStr ns, FStr name] e)
              | Inr secret \<Rightarrow>
                  (case fmlookup (sec_Data secret) key of
                     None \<Rightarrow> Inl (plainErr ''secret %s/%s does not contain key %s'' [FStr ns, FStr name, FStr key])
                   | Some kubeconfigData \<Rightarrow>
                       (case RESTConfigFromKubeConfig (kv_clientcmd E) kubeconfigData of
                          Inl err \<Rightarrow> Inl (plainErr ''failed to parse app cluster kubeconfig: %s'' [FStr err])
                        | Inr cfg \<Rightarrow> Inr (AddUserAgent \<lparr>rt_Config = cfg, rt_UserAgents = []\<rparr> ''konnector'')))))"

definition konnector_NewConfig :: "konn_env \<Rightarrow> ExtraOptions \<Rightarrow> apierr + konn_config" where
  "konnector_NewConfig E options =
     (if ControlPlaneMode options
      then case loadKubeconfig E (KubeConfigPath options) of
             Inl e \<Rightarrow> Inl (wrapErr ''failed to load control plane kubeconfig'' [] e)
           | Inr cpConfig \<Rightarrow>
               (case appConfigFromSecret E cpConfig options of
                  Inl e \<Rightarrow> Inl e
                | Inr appConfig \<Rightarrow>
                    (case initAppCluster E appConfig ((noConfig options)\<lparr>kg_ControlPlaneConfig := Some cpConfig\<rparr>) of
                       Inl e \<Rightarrow> Inl e
                     | Inr c \<Rightarrow> initBindingCluster E cpConfig (BindingRootNamespace options) c))
      else case loadKubeconfig E (KubeConfigPath options) of
             Inl e \<Rightarrow> Inl e
           | Inr appConfig \<Rightarrow>
               (case initAppCluster E appConfig (noConfig options) of
                  Inl e \<Rightarrow> Inl e
                | Inr c \<Rightarrow> initBindingCluster E appConfig '''' c))"

section \<open>The command\<close>

definition PrepareRun :: "crd_client \<Rightarrow> konn_config \<Rightarrow> unit crd_op" where
  "PrepareRun D c =
     (if kg_ControlPlaneMode c then finished ()
      else recovering (CreateFromFS D [(''klutch.anynines.com'', ''apiservicebindings'')])
             (\<lambda>e. fails (wrapErr ''failed to create APIServiceBinding CRD in binding cluster'' [] e)) finished)"

text \<open>\<open>pflag\<close> reads the arguments with the flags of \<open>AddFlags\<close>; the lock is its namespace, name and identity.\<close>

type_synonym flag_parser = "flag list \<Rightarrow> string list \<Rightarrow> ExtraOptions \<Rightarrow> apierr + ExtraOptions"

definition konnector_options :: "flag_parser \<Rightarrow> (string \<Rightarrow> string) \<Rightarrow> string \<Rightarrow> string list \<Rightarrow> apierr + ExtraOptions" where
  "konnector_options parse getenv rand args =
     (let (options, flags) = konnector_AddFlags (konnector_NewOptions getenv) in
      case parse flags args options of
        Inl e \<Rightarrow> Inl e
      | Inr parsed \<Rightarrow>
          (let completed = konnector_Complete rand parsed in
           case konnector_Validate completed of Some e \<Rightarrow> Inl e | None \<Rightarrow> Inr completed))"

definition konnector_RunE ::
  "konn_env \<Rightarrow> crd_client \<Rightarrow> flag_parser \<Rightarrow> (string \<Rightarrow> string) \<Rightarrow> string \<Rightarrow> string list \<Rightarrow>
     (konn_config \<times> string \<times> string \<times> string) crd_op" where
  "konnector_RunE E D parse getenv rand args =
     (case konnector_options parse getenv rand args of
        Inl e \<Rightarrow> fails e
      | Inr options \<Rightarrow>
          (case konnector_NewConfig E options of
             Inl e \<Rightarrow> fails e
           | Inr c \<Rightarrow>
               followedBy (PrepareRun D c)
                 (\<lambda>_. finished (c, LeaseLockNamespace options, LeaseLockName options, LeaseLockIdentity options))))"

section \<open>The health endpoint\<close>

text \<open>A check has a name and answers with an error or none. \<open>Start\<close> serves the checks that were added before it.\<close>

type_synonym health_check = "string \<times> apierr option"

definition checker_AddCheck :: "health_check list \<Rightarrow> health_check \<Rightarrow> health_check list" where
  "checker_AddCheck checks check = checks @ [check]"

definition checkOne :: "health_check \<Rightarrow> (string, string) fmap \<times> bool \<Rightarrow> (string, string) fmap \<times> bool" where
  "checkOne check r =
     (case snd check of
        Some _ \<Rightarrow> (fmupd (fst check) ''degraded'' (fst r), False)
      | None \<Rightarrow> (fmupd (fst check) ''ok'' (fst r), snd r))"

definition checker_ServeHTTP :: "health_check list \<Rightarrow> int \<times> (string, string) fmap" where
  "checker_ServeHTTP checks =
     (let (status, allOk) = fold checkOne checks (fmempty, True) in (if allOk then 200 else 500, status))"

section \<open>Leader election\<close>

text \<open>
  \<open>bind/cmd/konnector/cmd/leaderelection.go\<close>: what the command gives to the elector of client-go. The elector itself is a
  parameter: \<open>newElector\<close> answers an error or none. Times are in nanoseconds. The callback that starts the controllers is
  given a context that ends with the lease, and passes on that of the process.
\<close>

record lease_lock =
  ll_Name :: string
  ll_Namespace :: string
  ll_Identity :: string

definition NewLock :: "string \<Rightarrow> string \<Rightarrow> string \<Rightarrow> lease_lock" where
  "NewLock namespace lockName podName = \<lparr>ll_Name = lockName, ll_Namespace = namespace, ll_Identity = podName\<rparr>"

definition OnStartedLeading :: "('ctx \<Rightarrow> 'r) \<Rightarrow> 'ctx \<Rightarrow> 'ctx \<Rightarrow> 'r" where
  "OnStartedLeading run ctx c = run ctx"

record ('ctx, 'r) elector_config =
  le_Lock :: lease_lock
  le_ReleaseOnCancel :: bool
  le_LeaseDuration :: int
  le_RenewDeadline :: int
  le_RetryPeriod :: int
  le_OnStartedLeading :: "'ctx \<Rightarrow> 'r"

text \<open>\<open>Inl\<close> is the panic.\<close>

definition makeLeaderElectorOrDie ::
  "(('ctx, 'r) elector_config \<Rightarrow> string option) \<Rightarrow> 'ctx \<Rightarrow> lease_lock \<Rightarrow> ('ctx \<Rightarrow> 'r) \<Rightarrow> string + ('ctx, 'r) elector_config" where
  "makeLeaderElectorOrDie newElector ctx lock run =
     (let config = \<lparr>le_Lock = lock, le_ReleaseOnCancel = True, le_LeaseDuration = 15 * 10 ^ 9, le_RenewDeadline = 10 * 10 ^ 9,
                    le_RetryPeriod = 2 * 10 ^ 9, le_OnStartedLeading = OnStartedLeading run ctx\<rparr>
      in case newElector config of Some e \<Rightarrow> Inl e | None \<Rightarrow> Inr config)"

text \<open>What client-go documents of the times: the lease is longer than the time for renewing it, and that is longer than 1.2 retries.\<close>

definition acceptsTimes :: "(('ctx, 'r) elector_config \<Rightarrow> string option) \<Rightarrow> bool" where
  "acceptsTimes newElector \<longleftrightarrow>
     (\<forall>c. ll_Identity (le_Lock c) \<noteq> '''' \<longrightarrow> 0 < le_RetryPeriod c \<longrightarrow> 12 * le_RetryPeriod c < 10 * le_RenewDeadline c \<longrightarrow>
        le_RenewDeadline c < le_LeaseDuration c \<longrightarrow> newElector c = None)"

section \<open>Lemmas\<close>

lemma newClients_none: "(\<And>k. kv_newClient E k cfg = None) \<Longrightarrow> newClients E cfg kinds = None"
  unfolding newClients_def by (induction kinds) simp_all

text \<open>A konnector with a name gets its elector, and what it runs when it leads does not see the end of the lease.\<close>

lemma elector_made:
  assumes "acceptsTimes newElector" "podName \<noteq> ''''"
  shows "\<exists>config. makeLeaderElectorOrDie newElector ctx (NewLock ns lockName podName) run = Inr config \<and>
     (\<forall>c. le_OnStartedLeading config c = run ctx)"
  using assms unfolding acceptsTimes_def
  by (simp add: makeLeaderElectorOrDie_def NewLock_def OnStartedLeading_def Let_def)

text \<open>The health endpoint answers with an error exactly if a check fails.\<close>

lemma snd_checkOne: "snd (checkOne c r) \<longleftrightarrow> snd r \<and> snd c = None"
  by (simp add: checkOne_def split: option.split)

lemma snd_fold_checkOne: "snd (fold checkOne checks r) \<longleftrightarrow> snd r \<and> list_all (\<lambda>c. snd c = None) checks"
  by (induction checks arbitrary: r) (auto simp: snd_checkOne)

lemma checker_status: "fst (checker_ServeHTTP checks) = 200 \<longleftrightarrow> list_all (\<lambda>c. snd c = None) checks"
  using snd_fold_checkOne [of checks "(fmempty, True)"] by (auto simp: checker_ServeHTTP_def split: prod.splits)

end
