(* ===== verification/Manifest_Bootstrap.thy ===== *)
theory Manifest_Bootstrap
  imports Backend_Login Call_Log
begin

text \<open>
  The installation of manifests: \<open>bind/pkg/bootstrap/bootstrap.go\<close>, with the konnector manifests of \<open>bind/deploy/konnector\<close>. Every document of
  every embedded file is transformed, executed as a template, decoded and created; an object that exists is updated unless it is
  marked as create-only, and an object that belongs to batteries is skipped unless one of them is included.

  \<^item> The operations are those of \<open>Call_Log\<close> over \<open>manifest_call\<close>. The record \<open>bootstrapper\<close> has the embedded files, the YAML reader (the documents of a
    file and the error it ends with, if it is not the end of the file), \<open>text/template\<close>, the decoder, the REST mapper and the API server.
  \<^item> The set of batteries is given as a list. Errors of several documents are aggregated; the model keeps the list.
  \<^item> \<open>Bootstrap\<close> tries again every second until nothing fails; \<open>bo_patience\<close> is how often before the context is done.

  The lemmas show which objects are ever written, that a create-only object is never changed, and what the image of the konnector
  replaces.
\<close>

section \<open>Calls\<close>

record manifest =
  mf_GroupVersionKind :: "string \<times> string \<times> string"
  mf_Namespace :: string
  mf_Name :: string
  mf_ResourceVersion :: string
  mf_Annotations :: annotationMap
  mf_Content :: string

datatype manifest_call =
    CreateManifest string string manifest
  | GetManifest string string string
  | UpdateManifest string string manifest

record bootstrapper =
  bo_readDir :: "apierr + (string \<times> bool) list"
  bo_readFile :: "string \<Rightarrow> apierr + string"
  bo_documents :: "string \<Rightarrow> string list \<times> apierr option"
  bo_parse :: "string \<Rightarrow> apierr option"
  bo_execute :: "string \<Rightarrow> string list \<Rightarrow> apierr + string"
  bo_decode :: "string \<Rightarrow> apierr + manifest option"
  bo_mapping :: "string \<times> string \<times> string \<Rightarrow> apierr + string"
  bo_create :: "manifest_call list \<Rightarrow> string \<Rightarrow> string \<Rightarrow> manifest \<Rightarrow> apierr + manifest"
  bo_get :: "manifest_call list \<Rightarrow> string \<Rightarrow> string \<Rightarrow> string \<Rightarrow> apierr + manifest"
  bo_update :: "manifest_call list \<Rightarrow> string \<Rightarrow> string \<Rightarrow> manifest \<Rightarrow> apierr + manifest"
  bo_patience :: nat

type_synonym 'a boot = "(manifest_call, 'a) op"

section \<open>Transformers\<close>

text \<open>\<open>bytes.ReplaceAll\<close>; the number says how many bytes of a match are left to skip.\<close>

fun replaceFrom :: "string \<Rightarrow> string \<Rightarrow> nat \<Rightarrow> string \<Rightarrow> string" where
  "replaceFrom old new n [] = []"
| "replaceFrom old new (Suc n) (c # s) = replaceFrom old new n s"
| "replaceFrom old new 0 (c # s) =
     (if take (length old) (c # s) = old then new @ replaceFrom old new (length old - 1) s
      else c # replaceFrom old new 0 s)"

definition ReplaceAll :: "string \<Rightarrow> string \<Rightarrow> string \<Rightarrow> string" where
  "ReplaceAll s old new =
     (if old = '''' then new @ concat (map (\<lambda>c. c # new) s) else replaceFrom old new 0 s)"

type_synonym transformer = "string \<Rightarrow> apierr + string"

fun replacePairs :: "string list \<Rightarrow> string \<Rightarrow> string" where
  "replacePairs (old # new # pairs) bs = replacePairs pairs (ReplaceAll bs old new)"
| "replacePairs _ bs = bs"

definition ReplaceOption :: "string list \<Rightarrow> transformer" where
  "ReplaceOption pairs bs =
     (if odd (length pairs) then Inl (plainError ''odd number of arguments'') else Inr (replacePairs pairs bs))"

fun transformed :: "transformer list \<Rightarrow> string \<Rightarrow> apierr + string" where
  "transformed [] doc = Inr doc"
| "transformed (t # ts) doc = (case t doc of Inl e \<Rightarrow> Inl e | Inr doc' \<Rightarrow> transformed ts doc')"

section \<open>One object\<close>

definition annotationCreateOnlyKey :: string where
  [klutch_defs]: "annotationCreateOnlyKey = ''bootstrap.klutch.anynines.com/create-only''"

definition annotationBattery :: string where
  [klutch_defs]: "annotationBattery = ''bootstrap.klutch.anynines.com/battery''"

definition includedIn :: "string list \<Rightarrow> manifest \<Rightarrow> bool" where
  "includedIn batteries u =
     (case fmlookup (mf_Annotations u) annotationBattery of
        None \<Rightarrow> True
      | Some v \<Rightarrow> list_ex (\<lambda>p. TrimSpace p \<in> set batteries) (Split (CHR '','') v))"

definition qualifiedObjectName :: "manifest \<Rightarrow> string" where
  "qualifiedObjectName u = (if mf_Namespace u \<noteq> '''' then mf_Namespace u @ ''/'' @ mf_Name u else mf_Name u)"

definition prefixed :: "string \<Rightarrow> apierr \<Rightarrow> apierr" where
  "prefixed msg e = e\<lparr>error_text := msg @ '': '' @ error_text e\<rparr>"

definition decodedManifest :: "bootstrapper \<Rightarrow> string list \<Rightarrow> string \<Rightarrow> apierr + manifest" where
  "decodedManifest B batteries doc =
     (case bo_parse B doc of
        Some e \<Rightarrow> Inl (prefixed ''failed to parse manifest'' e)
      | None \<Rightarrow>
          (case bo_execute B doc batteries of
             Inl e \<Rightarrow> Inl (prefixed ''failed to execute manifest'' e)
           | Inr text \<Rightarrow>
               (case bo_decode B text of
                  Inl e \<Rightarrow> Inl (prefixed ''could not decode raw'' e)
                | Inr None \<Rightarrow> Inl (plainError ''decoded into incorrect type'')
                | Inr (Some u) \<Rightarrow> Inr u)))"

definition updateManifest :: "bootstrapper \<Rightarrow> string \<Rightarrow> manifest \<Rightarrow> unit boot" where
  "updateManifest B res u =
     followedBy (apiCall (\<lambda>l. bo_get B l res (mf_Namespace u) (mf_Name u)) (GetManifest res (mf_Namespace u) (mf_Name u)))
       (\<lambda>existing.
          if fmlookup (mf_Annotations existing) annotationCreateOnlyKey \<noteq> None then finished ()
          else (let updated = u\<lparr>mf_ResourceVersion := mf_ResourceVersion existing\<rparr> in
                recovering (apiCall (\<lambda>l. bo_update B l res (mf_Namespace u) updated) (UpdateManifest res (mf_Namespace u) updated))
                  (\<lambda>e. fails (e\<lparr>error_text := Sprintf ''could not update %s %s: %w''
                                 [FStr (snd (snd (mf_GroupVersionKind u))), FStr (qualifiedObjectName existing), FStr (error_text e)]\<rparr>))
                  (\<lambda>_. finished ())))"

definition createResource :: "bootstrapper \<Rightarrow> string list \<Rightarrow> string \<Rightarrow> unit boot" where
  "createResource B batteries doc =
     (case decodedManifest B batteries doc of
        Inl e \<Rightarrow> fails e
      | Inr u \<Rightarrow>
          if \<not> includedIn batteries u then finished ()
          else case bo_mapping B (mf_GroupVersionKind u) of
                 Inl e \<Rightarrow> fails (prefixed ''could not get REST mapping'' e)
               | Inr res \<Rightarrow>
                   recovering (apiCall (\<lambda>l. bo_create B l res (mf_Namespace u) u) (CreateManifest res (mf_Namespace u) u))
                     (\<lambda>e. if IsAlreadyExists e then updateManifest B res u else fails e) (\<lambda>_. finished ()))"

section \<open>All files\<close>

text \<open>Documents are numbered from one; the error of a transformer ends the file at once and stands for the errors before it.\<close>

fun createDocuments ::
  "bootstrapper \<Rightarrow> string list \<Rightarrow> transformer list \<Rightarrow> string \<Rightarrow> int \<Rightarrow> string list \<Rightarrow> (apierr option \<times> apierr list) boot" where
  "createDocuments B batteries ts filename i [] = finished (None, [])"
| "createDocuments B batteries ts filename i (doc # docs) =
     (if TrimSpace doc = '''' then createDocuments B batteries ts filename (i + 1) docs
      else case transformed ts doc of
             Inl e \<Rightarrow> finished (Some e, [])
           | Inr doc' \<Rightarrow>
               followedBy
                 (recovering (createResource B batteries doc')
                    (\<lambda>e. finished [e\<lparr>error_text := Sprintf ''failed to create resource %s doc %d: %w''
                                       [FStr filename, FInt i, FStr (error_text e)]\<rparr>])
                    (\<lambda>_. finished []))
                 (\<lambda>es. followedBy (createDocuments B batteries ts filename (i + 1) docs) (\<lambda>(stop, es'). finished (stop, es @ es'))))"

definition CreateResourceFromFS ::
  "bootstrapper \<Rightarrow> string list \<Rightarrow> transformer list \<Rightarrow> string \<Rightarrow> apierr list boot" where
  "CreateResourceFromFS B batteries ts filename =
     (case bo_readFile B filename of
        Inl e \<Rightarrow> finished [e\<lparr>error_text := Sprintf ''could not read %s: %w'' [FStr filename, FStr (error_text e)]\<rparr>]
      | Inr raw \<Rightarrow>
          if raw = '''' then finished []
          else (case bo_documents B raw of
                  (docs, readError) \<Rightarrow>
                    followedBy (createDocuments B batteries ts filename 1 docs)
                      (\<lambda>(stop, es). finished
                         (case stop of Some e \<Rightarrow> [e] | None \<Rightarrow> (case readError of Some e \<Rightarrow> [e] | None \<Rightarrow> es)))))"

fun createFiles :: "bootstrapper \<Rightarrow> string list \<Rightarrow> transformer list \<Rightarrow> (string \<times> bool) list \<Rightarrow> apierr list boot" where
  "createFiles B batteries ts [] = finished []"
| "createFiles B batteries ts ((name, isDir) # fs) =
     (if isDir then createFiles B batteries ts fs
      else followedBy (CreateResourceFromFS B batteries ts name)
             (\<lambda>es. followedBy (createFiles B batteries ts fs) (\<lambda>es'. finished (es @ es'))))"

definition CreateResourcesFromFS :: "bootstrapper \<Rightarrow> string list \<Rightarrow> transformer list \<Rightarrow> apierr list boot" where
  "CreateResourcesFromFS B batteries ts =
     (case bo_readDir B of Inl e \<Rightarrow> finished [e] | Inr files \<Rightarrow> createFiles B batteries ts files)"

fun bootstrapUntil :: "nat \<Rightarrow> bootstrapper \<Rightarrow> string list \<Rightarrow> transformer list \<Rightarrow> unit boot" where
  "bootstrapUntil 0 B batteries ts = fails (plainError ''timed out waiting for the condition'')"
| "bootstrapUntil (Suc n) B batteries ts =
     followedBy (CreateResourcesFromFS B batteries ts)
       (\<lambda>es. if es \<noteq> [] then bootstrapUntil n B batteries ts else finished ())"

definition Bootstrap :: "bootstrapper \<Rightarrow> string list \<Rightarrow> transformer list \<Rightarrow> unit boot" where
  "Bootstrap B batteries ts = bootstrapUntil (bo_patience B) B batteries ts"

definition konnector_Bootstrap :: "bootstrapper \<Rightarrow> string \<Rightarrow> unit boot" where
  "konnector_Bootstrap B img = Bootstrap B [] [ReplaceOption [''IMAGE'', img]]"

section \<open>Lemmas\<close>

text \<open>What may be written: a decoded object of an included battery, created as it is, or updated with the resource version of an
  object that is not create-only.\<close>

definition bootWrite :: "bootstrapper \<Rightarrow> string list \<Rightarrow> manifest_call \<Rightarrow> bool" where
  "bootWrite B batteries c =
     (case c of
        GetManifest _ _ _ \<Rightarrow> True
      | CreateManifest _ ns u \<Rightarrow> ns = mf_Namespace u \<and> includedIn batteries u \<and> (\<exists>doc. decodedManifest B batteries doc = Inr u)
      | UpdateManifest res ns u \<Rightarrow>
          (\<exists>doc raw l existing. decodedManifest B batteries doc = Inr raw \<and> includedIn batteries raw \<and>
             bo_get B l res ns (mf_Name raw) = Inr existing \<and>
             fmlookup (mf_Annotations existing) annotationCreateOnlyKey = None \<and> ns = mf_Namespace raw \<and>
             u = raw\<lparr>mf_ResourceVersion := mf_ResourceVersion existing\<rparr>))"

abbreviation bootRuns :: "bootstrapper \<Rightarrow> string list \<Rightarrow> 'a boot \<Rightarrow> bool" where
  "bootRuns B batteries m \<equiv> runs (bootWrite B batteries) (\<lambda>_. True) m"

lemma bootRuns_followedBy: "bootRuns B bs m \<Longrightarrow> (\<And>x. bootRuns B bs (f x)) \<Longrightarrow> bootRuns B bs (followedBy m f)"
  by (rule runs_followedBy [where R = "\<lambda>_. True"])

lemma bootRuns_recovering:
  "bootRuns B bs m \<Longrightarrow> (\<And>e. bootRuns B bs (h e)) \<Longrightarrow> (\<And>x. bootRuns B bs (f x)) \<Longrightarrow> bootRuns B bs (recovering m h f)"
  by (rule runs_recovering [where R = "\<lambda>_. True"])

lemmas bootRuns_intros = bootRuns_followedBy bootRuns_recovering runs_intros

lemma bootRuns_updateManifest:
  assumes "decodedManifest B bs doc = Inr u" "includedIn bs u"
  shows "bootRuns B bs (updateManifest B res u)"
  unfolding updateManifest_def
proof (rule runs_followedBy [where R = "\<lambda>e. \<exists>l. bo_get B l res (mf_Namespace u) (mf_Name u) = Inr e"], goal_cases)
  case 1
  show ?case by (rule runs_intros) (auto simp: bootWrite_def)
next
  case (2 existing)
  then obtain l where l: "bo_get B l res (mf_Namespace u) (mf_Name u) = Inr existing" by blast
  show ?case
  proof (cases "fmlookup (mf_Annotations existing) annotationCreateOnlyKey = None")
    case True
    have "bootWrite B bs (UpdateManifest res (mf_Namespace u) (u\<lparr>mf_ResourceVersion := mf_ResourceVersion existing\<rparr>))"
      unfolding bootWrite_def manifest_call.case using assms l True by blast
    then show ?thesis using True by (auto simp: Let_def intro!: bootRuns_intros)
  next
    case False
    then show ?thesis by (auto intro: runs_intros)
  qed
qed

lemma bootRuns_createResource: "bootRuns B bs (createResource B bs doc)"
proof (cases "decodedManifest B bs doc")
  case (Inl e)
  then show ?thesis by (simp add: createResource_def runs_fails)
next
  case (Inr u)
  show ?thesis
  proof (cases "includedIn bs u")
    case True
    have "bootWrite B bs (CreateManifest res (mf_Namespace u) u)" for res
      unfolding bootWrite_def manifest_call.case using Inr True by blast
    with True show ?thesis
      unfolding createResource_def Inr sum.case
      by (auto intro!: bootRuns_intros bootRuns_updateManifest [OF Inr True] split: sum.split)
  next
    case False
    then show ?thesis by (simp add: createResource_def Inr runs_intros)
  qed
qed

lemma bootRuns_createDocuments: "bootRuns B bs (createDocuments B bs ts f i docs)"
  by (induction docs arbitrary: i) (auto intro!: bootRuns_intros bootRuns_createResource split: sum.split)

lemma bootRuns_CreateResourceFromFS: "bootRuns B bs (CreateResourceFromFS B bs ts f)"
  unfolding CreateResourceFromFS_def
  by (auto intro!: bootRuns_intros bootRuns_createDocuments split: sum.split prod.split)

lemma bootRuns_createFiles: "bootRuns B bs (createFiles B bs ts fs)"
  by (induction fs) (auto intro!: bootRuns_intros bootRuns_CreateResourceFromFS)

lemma bootRuns_bootstrapUntil: "bootRuns B bs (bootstrapUntil n B bs ts)"
  by (induction n)
    (auto intro!: bootRuns_intros bootRuns_createFiles simp: CreateResourcesFromFS_def split: sum.split)

text \<open>However often the bootstrap is tried, it writes what was decoded from its files and is included, and never changes an object that
  is marked as create-only.\<close>

lemma bootstrap_confined:
  "\<exists>cs. snd (Bootstrap B batteries ts l) = l @ cs \<and> list_all (bootWrite B batteries) cs"
  unfolding Bootstrap_def by (rule runs_calls [OF bootRuns_bootstrapUntil])

text \<open>Without a match nothing is replaced, and the placeholder of the konnector manifests is replaced by the image.\<close>

lemma replaceFrom_none:
  "(\<And>xs ys. s = xs @ ys \<Longrightarrow> take (length old) ys \<noteq> old) \<Longrightarrow> replaceFrom old new 0 s = s"
proof (induction s)
  case (Cons c s)
  have "take (length old) (c # s) \<noteq> old" using Cons.prems [of "[]"] by simp
  moreover have "replaceFrom old new 0 s = s" using Cons.prems [of "c # _"] by (intro Cons.IH) simp
  ultimately show ?case by simp
qed simp

lemma replaceFrom_skip: "replaceFrom old new (length xs) (xs @ s) = replaceFrom old new 0 s"
  by (induction xs) simp_all

lemma ReplaceAll_match:
  assumes "old \<noteq> ''''"
  shows "replaceFrom old new 0 (old @ s) = new @ replaceFrom old new 0 s"
proof -
  obtain c cs where old: "old = c # cs" using assms by (cases old) auto
  show ?thesis using replaceFrom_skip [of old new cs s] by (simp add: old)
qed

end
