(* ===== verification/Backend_Options.thy ===== *)
theory Backend_Options
  imports Backend_Login Backend_Access App_Names
begin

text \<open>
  How the backend is started: its options (\<open>bind/contrib/example-backend/options\<close>), the web server (\<open>http/server.go\<close>) and \<open>NewServer\<close> of
  \<open>server.go\<close>, which makes the login handler and the controllers of valid options, in the order of \<open>cmd/example-backend/main.go\<close>.

  \<^item> \<open>backend_env\<close> has what the environment answers: the CA file, \<open>url.Parse\<close>, the listener, the identity provider, the API behind the
    manager, which clients and controllers can be built, and whether the cluster serves deployments. The flags are set before.
  \<^item> A key is a string of bytes; \<open>encoding/base64\<close> is that of \<open>Base64\<close>.
  \<^item> The controllers are their names, in the order in which they are built. The position in an error of \<open>base64\<close> is left out.

  The lemmas show what valid options guarantee to the handler.
\<close>

section \<open>Options\<close>

record ServeOptions =
  so_ListenIP :: string
  so_ListenPort :: int
  so_ListenAddress :: string
  so_CertFile :: string
  so_KeyFile :: string

record OIDCOptions =
  oo_IssuerClientID :: string
  oo_IssuerClientSecret :: string
  oo_IssuerURL :: string
  oo_CallbackURL :: string
  oo_AuthorizeURL :: string

record CookieOptions =
  ko_SigningKey :: string
  ko_EncryptionKey :: string

record BackendOptions =
  be_OIDC :: "OIDCOptions option"
  be_Cookie :: CookieOptions
  be_Serve :: ServeOptions
  be_KubeConfig :: string
  be_NamespacePrefix :: string
  be_PrettyName :: string
  be_ConsumerScope :: string
  be_ClusterScopedIsolation :: string
  be_ExternalAddress :: string
  be_ExternalCAFile :: string
  be_ExternalCA :: "string option"
  be_TLSExternalServerName :: string
  be_TestingAutoSelect :: string
  be_ControlPlaneMode :: bool

definition NewServe :: ServeOptions where
  "NewServe = \<lparr>so_ListenIP = '''', so_ListenPort = 0, so_ListenAddress = ''127.0.0.1:8080'', so_CertFile = '''', so_KeyFile = ''''\<rparr>"

definition NewOIDC :: OIDCOptions where
  "NewOIDC = \<lparr>oo_IssuerClientID = '''', oo_IssuerClientSecret = '''', oo_IssuerURL = '''', oo_CallbackURL = '''', oo_AuthorizeURL = ''''\<rparr>"

definition backend_NewOptions :: BackendOptions where
  "backend_NewOptions =
     \<lparr>be_OIDC = Some NewOIDC, be_Cookie = \<lparr>ko_SigningKey = '''', ko_EncryptionKey = ''''\<rparr>, be_Serve = NewServe, be_KubeConfig = '''',
      be_NamespacePrefix = ''cluster'', be_PrettyName = ''Example Backend'', be_ConsumerScope = NamespacedScope,
      be_ClusterScopedIsolation = ''Prefixed'', be_ExternalAddress = '''', be_ExternalCAFile = '''', be_ExternalCA = None,
      be_TLSExternalServerName = '''', be_TestingAutoSelect = '''', be_ControlPlaneMode = False\<rparr>"

definition shouldEnableOIDC :: "bool \<Rightarrow> OIDCOptions option \<Rightarrow> bool" where
  "shouldEnableOIDC controlPlaneMode oidc =
     (if \<not> controlPlaneMode then True
      else case oidc of
             None \<Rightarrow> False
           | Some o' \<Rightarrow> oo_IssuerClientID o' \<noteq> '''' \<or> oo_IssuerClientSecret o' \<noteq> '''' \<or> oo_IssuerURL o' \<noteq> '''' \<or>
                        oo_CallbackURL o' \<noteq> '''' \<or> oo_AuthorizeURL o' \<noteq> '''')"

definition OIDCEnabled :: "BackendOptions \<Rightarrow> bool" where
  "OIDCEnabled options = shouldEnableOIDC (be_ControlPlaneMode options) (be_OIDC options)"

text \<open>The methods \<open>Complete\<close> of the parts do nothing.\<close>

definition normalScope :: "string \<Rightarrow> string" where
  "normalScope s =
     (let s1 = (if ToLower s = ''namespaced'' then NamespacedScope else s)
      in if ToLower s1 = ''cluster'' then ClusterScope else s1)"

definition normalIsolation :: "string \<Rightarrow> string" where
  "normalIsolation s =
     (if ToLower s = ''prefixed'' then ''Prefixed''
      else if ToLower s = ''namespaced'' then ''Namespaced''
      else if ToLower s = ''none'' then ''None''
      else s)"

definition backend_Complete :: "(string \<Rightarrow> string + string) \<Rightarrow> BackendOptions \<Rightarrow> string + BackendOptions" where
  "backend_Complete readFile options =
     (let o1 = options\<lparr>be_ConsumerScope := normalScope (be_ConsumerScope options),
                       be_ClusterScopedIsolation := normalIsolation (be_ClusterScopedIsolation options)\<rparr> in
      if be_ExternalCAFile o1 \<noteq> '''' \<and> be_ExternalCA o1 \<noteq> None
      then Inl ''cannot specify both --external-ca-file and set ExternalCA''
      else if be_ExternalCAFile o1 \<noteq> ''''
      then (case readFile (be_ExternalCAFile o1) of
              Inl e \<Rightarrow> Inl (Sprintf ''error reading external CA file: %v'' [FStr e])
            | Inr ca \<Rightarrow> Inr (o1\<lparr>be_ExternalCA := Some ca\<rparr>))
      else Inr o1)"

definition OIDC_Validate :: "OIDCOptions \<Rightarrow> string option" where
  "OIDC_Validate options =
     (if oo_IssuerClientID options = '''' then Some ''OIDC issuer client ID cannot be empty''
      else if oo_IssuerClientSecret options = '''' then Some ''OIDC issuer client secret cannot be empty''
      else if oo_IssuerURL options = '''' then Some ''OIDC issuer URL cannot be empty''
      else if oo_CallbackURL options = '''' then Some ''OIDC callback URL cannot be empty''
      else None)"

definition checkKey :: "string \<Rightarrow> nat list \<Rightarrow> string option" where
  "checkKey key validLengths =
     (case DecodeString StdEncoding key of
        None \<Rightarrow> Some ''illegal base64 data''
      | Some b \<Rightarrow>
          if length b \<in> set validLengths then None
          else Some (Sprintf ''invalid key length: %d'' [FInt (int (length b))]))"

definition Cookie_Validate :: "CookieOptions \<Rightarrow> string option" where
  "Cookie_Validate options =
     (if ko_SigningKey options = '''' then Some ''cookie signing key must not be empty''
      else case checkKey (ko_SigningKey options) [32, 64] of
             Some e \<Rightarrow> Some (Sprintf ''invalid signing key: %w'' [FStr e])
           | None \<Rightarrow>
               if ko_EncryptionKey options \<noteq> ''''
               then (case checkKey (ko_SigningKey options) [16, 24, 32] of
                       Some e \<Rightarrow> Some (Sprintf ''invalid encryption key: %w'' [FStr e])
                     | None \<Rightarrow> None)
               else None)"

text \<open>Nothing calls it.\<close>

definition Serve_Validate :: "ServeOptions \<Rightarrow> string option" where
  "Serve_Validate options =
     (if (so_ListenIP options = '''') \<noteq> (so_ListenAddress options = '''')
      then Some ''either listen-ip or listen-address must be provided''
      else if so_CertFile options = '''' \<and> so_KeyFile options \<noteq> ''''
      then Some ''TLS key file cannot be specified without TLS cert file''
      else if so_CertFile options \<noteq> '''' \<and> so_KeyFile options = ''''
      then Some ''TLS cert file cannot be specified without TLS key file''
      else None)"

text \<open>A nil pointer to the OIDC options, which \<open>NewOptions\<close> never makes, would panic when they are validated.\<close>

definition validateLogin :: "BackendOptions \<Rightarrow> string option" where
  "validateLogin options =
     (if OIDCEnabled options
      then case be_OIDC options of
             None \<Rightarrow> Some ''panic''
           | Some oidc \<Rightarrow> (case OIDC_Validate oidc of Some e \<Rightarrow> Some e | None \<Rightarrow> Cookie_Validate (be_Cookie options))
      else None)"

definition backend_Validate :: "(string \<Rightarrow> string option) \<Rightarrow> BackendOptions \<Rightarrow> string option" where
  "backend_Validate urlParse options =
     (if be_NamespacePrefix options = '''' then Some ''namespace prefix cannot be empty''
      else if be_PrettyName options = '''' then Some ''pretty name cannot be empty''
      else case validateLogin options of
             Some e \<Rightarrow> Some e
           | None \<Rightarrow>
               if be_ConsumerScope options \<noteq> NamespacedScope \<and> be_ConsumerScope options \<noteq> ClusterScope
               then Some (Sprintf ''consumer scope must be either %q or %q'' [FStr NamespacedScope, FStr ClusterScope])
               else if be_ExternalAddress options \<noteq> ''''
               then (if \<not> HasPrefix (be_ExternalAddress options) ''https://''
                     then Some ''external hostname must start with https://''
                     else map_option (\<lambda>e. Sprintf ''invalid external hostname: %v'' [FStr e]) (urlParse (be_ExternalAddress options)))
               else None)"

section \<open>The server\<close>

record backend_env =
  bv_readFile :: "string \<Rightarrow> string + string"
  bv_urlParse :: "string \<Rightarrow> string option"
  bv_listen :: "string \<Rightarrow> string + string"
  bv_newProvider :: "string \<Rightarrow> string + string"
  bv_newClients :: "string option"
  bv_api :: manager
  bv_crds :: "apierr + CRD list"
  bv_templates :: "apierr + APIServiceExportTemplate list"
  bv_gitVersion :: string
  bv_newController :: "string \<Rightarrow> string option"
  bv_appsResources :: "string + string list"

record backend_server =
  bsv_addr :: string
  bsv_handler :: "handler option"
  bsv_controllers :: "string list"
  bsv_watchesDeployments :: bool

definition JoinHostPort :: "string \<Rightarrow> string \<Rightarrow> string" where
  "JoinHostPort host port =
     (if CHR '':'' \<in> set host then ''['' @ host @ '']:'' @ port else host @ '':'' @ port)"

definition listenAddress :: "ServeOptions \<Rightarrow> string" where
  "listenAddress options =
     (if so_ListenIP options \<noteq> '''' then JoinHostPort (so_ListenIP options) (Itoa (so_ListenPort options))
      else so_ListenAddress options)"

definition NewKubernetesManager :: "backend_env \<Rightarrow> BackendOptions \<Rightarrow> string + manager" where
  "NewKubernetesManager E options =
     (case bv_newClients E of
        Some e \<Rightarrow> Inl e
      | None \<Rightarrow>
          Inr ((bv_api E)\<lparr>mg_namespacePrefix := be_NamespacePrefix options, mg_providerPrettyName := be_PrettyName options,
                          mg_externalAddress := be_ExternalAddress options, mg_externalCA := be_ExternalCA options,
                          mg_externalTLSServerName := be_TLSExternalServerName options\<rparr>))"

text \<open>A nil encryption key is the empty string.\<close>

definition cookieKeys :: "CookieOptions \<Rightarrow> string + string \<times> string" where
  "cookieKeys options =
     (case DecodeString StdEncoding (ko_SigningKey options) of
        None \<Rightarrow> Inl ''error creating signing key: illegal base64 data''
      | Some signingKey \<Rightarrow>
          if ko_EncryptionKey options \<noteq> ''''
          then (case DecodeString StdEncoding (ko_EncryptionKey options) of
                  None \<Rightarrow> Inl ''error creating encryption key: illegal base64 data''
                | Some encryptionKey \<Rightarrow> Inr (signingKey, encryptionKey))
          else Inr (signingKey, ''''))"

definition NewHandler :: "backend_env \<Rightarrow> OIDCServiceProvider \<Rightarrow> string \<Rightarrow> string \<Rightarrow> BackendOptions \<Rightarrow> string \<times> string \<Rightarrow> manager \<Rightarrow> handler" where
  "NewHandler E provider oidcAuthorizeURL callback options keys mgr =
     \<lparr>hd_oidc = provider, hd_scope = be_ConsumerScope options, hd_oidcAuthorizeURL = oidcAuthorizeURL,
      hd_backendCallbackURL = callback, hd_providerPrettyName = be_PrettyName options,
      hd_testingAutoSelect = be_TestingAutoSelect options, hd_cookieEncryptionKey = snd keys, hd_cookieSigningKey = fst keys,
      hd_crds = bv_crds E, hd_templates = bv_templates E, hd_kubeManager = mgr, hd_gitVersion = bv_gitVersion E\<rparr>"

definition loginHandler :: "backend_env \<Rightarrow> BackendOptions \<Rightarrow> string \<Rightarrow> string + handler" where
  "loginHandler E options addr =
     (case be_OIDC options of
        None \<Rightarrow> Inl ''panic''
      | Some oidc \<Rightarrow>
          (let callback = (if oo_CallbackURL oidc = '''' then Sprintf ''http://%s/callback'' [FStr addr] else oo_CallbackURL oidc) in
           case NewOIDCServiceProvider (bv_newProvider E) (oo_IssuerClientID oidc) (oo_IssuerClientSecret oidc) callback (oo_IssuerURL oidc) of
             Inl e \<Rightarrow> Inl (''error setting up OIDC: '' @ e)
           | Inr provider \<Rightarrow>
               (case NewKubernetesManager E options of
                  Inl e \<Rightarrow> Inl (''error setting up Kubernetes Manager: '' @ e)
                | Inr mgr \<Rightarrow>
                    (case cookieKeys (be_Cookie options) of
                       Inl e \<Rightarrow> Inl e
                     | Inr keys \<Rightarrow> Inr (NewHandler E provider (oo_AuthorizeURL oidc) callback options keys mgr)))))"

definition hasDeploymentsAPI :: "string + string list \<Rightarrow> bool" where
  "hasDeploymentsAPI resources = (case resources of Inl _ \<Rightarrow> False | Inr names \<Rightarrow> list_ex (\<lambda>n. n = ''deployments'') names)"

fun newControllers :: "(string \<Rightarrow> string option) \<Rightarrow> (string \<times> string) list \<Rightarrow> string + string list" where
  "newControllers new [] = Inr []"
| "newControllers new ((name, title) # cs) =
     (case new name of
        Some e \<Rightarrow> Inl (''error setting up '' @ title @ '' Controller: '' @ e)
      | None \<Rightarrow> (case newControllers new cs of Inl e \<Rightarrow> Inl e | Inr ns \<Rightarrow> Inr (name # ns)))"

definition backendControllers :: "BackendOptions \<Rightarrow> (string \<times> string) list" where
  "backendControllers options =
     [(''clusterbinding'', ''ClusterBinding''), (''servicenamespace'', ''APIServiceNamespace''),
      (''serviceexport'', ''APIServiceExport''), (''serviceexportrequest'', ''ServiceExportRequest'')]
     @ (if be_ControlPlaneMode options then [(''appclusterbinding'', ''AppClusterBinding'')] else [])"

definition backend_NewServer :: "backend_env \<Rightarrow> BackendOptions \<Rightarrow> string + backend_server" where
  "backend_NewServer E options =
     (case bv_listen E (listenAddress (be_Serve options)) of
        Inl e \<Rightarrow> Inl (''error setting up HTTP Server: '' @ e)
      | Inr addr \<Rightarrow>
          (case (if OIDCEnabled options then map_sum id Some (loginHandler E options addr) else Inr None) of
             Inl e \<Rightarrow> Inl e
           | Inr h \<Rightarrow>
               (case newControllers (bv_newController E) (backendControllers options) of
                  Inl e \<Rightarrow> Inl e
                | Inr cs \<Rightarrow>
                    Inr \<lparr>bsv_addr = addr, bsv_handler = h, bsv_controllers = cs,
                         bsv_watchesDeployments = be_ControlPlaneMode options \<and> hasDeploymentsAPI (bv_appsResources E)\<rparr>)))"

definition backend_main :: "backend_env \<Rightarrow> BackendOptions \<Rightarrow> string + backend_server" where
  "backend_main E options =
     (case backend_Complete (bv_readFile E) options of
        Inl e \<Rightarrow> Inl e
      | Inr completed \<Rightarrow>
          (case backend_Validate (bv_urlParse E) completed of
             Some e \<Rightarrow> Inl e
           | None \<Rightarrow> (case bv_newClients E of Some e \<Rightarrow> Inl e | None \<Rightarrow> backend_NewServer E completed)))"

section \<open>Lemmas\<close>

lemma checkKey_None: "checkKey key ls = None \<longleftrightarrow> (\<exists>b. DecodeString StdEncoding key = Some b \<and> length b \<in> set ls)"
  by (auto simp: checkKey_def split: option.split)

lemma Cookie_Validate_signing:
  "Cookie_Validate c = None \<Longrightarrow> \<exists>b. DecodeString StdEncoding (ko_SigningKey c) = Some b \<and> length b \<in> {32, 64}"
  using checkKey_None [of "ko_SigningKey c" "[32, 64]"]
  by (auto simp: Cookie_Validate_def split: option.splits if_splits)

lemma Validate_scope:
  "backend_Validate p o' = None \<Longrightarrow> be_ConsumerScope o' \<in> {NamespacedScope, ClusterScope} \<and> be_NamespacePrefix o' \<noteq> ''''"
  by (auto simp: backend_Validate_def split: if_splits option.splits)

lemma Validate_login:
  assumes "backend_Validate p o' = None" "OIDCEnabled o'"
  obtains oidc where "be_OIDC o' = Some oidc" "OIDC_Validate oidc = None" "Cookie_Validate (be_Cookie o') = None"
  using assms by (auto simp: backend_Validate_def validateLogin_def split: if_splits option.splits)

lemma OIDC_Validate_callback: "OIDC_Validate oidc = None \<Longrightarrow> oo_CallbackURL oidc \<noteq> ''''"
  by (auto simp: OIDC_Validate_def split: if_splits)

lemma loginHandler_Inr:
  assumes "loginHandler E o' addr = Inr h" "be_OIDC o' = Some oidc" "oo_CallbackURL oidc \<noteq> ''''"
  obtains keys where "cookieKeys (be_Cookie o') = Inr keys" "hd_cookieSigningKey h = fst keys" "hd_scope h = be_ConsumerScope o'"
    "hd_backendCallbackURL h = oo_CallbackURL oidc" "op_redirectURI (hd_oidc h) = oo_CallbackURL oidc"
    "mg_namespacePrefix (hd_kubeManager h) = be_NamespacePrefix o'"
  using assms
  by (auto simp: loginHandler_def NewHandler_def NewKubernetesManager_def NewOIDCServiceProvider_def Let_def
      split: sum.splits option.splits)

text \<open>
  The check of the encryption key looks at the signing key: any text passes in its place, and one that cannot be decoded only stops the
  server.
\<close>

lemma encryption_key_unchecked:
  assumes "backend_Validate p o' = None" "OIDCEnabled o'" "ko_EncryptionKey (be_Cookie o') \<noteq> ''''"
    and "e \<noteq> ''''" "DecodeString StdEncoding e = None"
    and "o2 = o'\<lparr>be_Cookie := (be_Cookie o')\<lparr>ko_EncryptionKey := e\<rparr>\<rparr>"
  shows "backend_Validate p o2 = None \<and> (\<forall>E s. backend_NewServer E o2 \<noteq> Inr s)"
proof
  have enabled: "OIDCEnabled o2" using assms(2,6) by (simp add: OIDCEnabled_def)
  have cookie: "Cookie_Validate (be_Cookie o2) = Cookie_Validate (be_Cookie o')"
    using assms(3,4,6) by (simp add: Cookie_Validate_def split: option.split)
  have login: "validateLogin o2 = validateLogin o'"
    using assms(2) enabled cookie by (simp add: validateLogin_def assms(6) split: option.split)
  have fields: "be_NamespacePrefix o2 = be_NamespacePrefix o'" "be_PrettyName o2 = be_PrettyName o'"
    "be_ConsumerScope o2 = be_ConsumerScope o'" "be_ExternalAddress o2 = be_ExternalAddress o'" by (simp_all add: assms(6))
  show "backend_Validate p o2 = None"
    using assms(1) unfolding backend_Validate_def login fields .
  have "cookieKeys (be_Cookie o2) \<noteq> Inr keys" for keys
    using assms(4,5,6) by (simp add: cookieKeys_def split: option.split)
  then have "loginHandler E o2 addr \<noteq> Inr h" for E addr h
    by (auto simp: loginHandler_def Let_def split: sum.splits option.splits)
  then show "\<forall>E s. backend_NewServer E o2 \<noteq> Inr s"
    using enabled by (auto simp: backend_NewServer_def split: sum.splits) (metis map_sum.simps(2) sum.exhaust map_sum.simps(1) sum.distinct(1))
qed

text \<open>With an encryption key, a signing key of 64 bytes is refused, though it is valid.\<close>

lemma long_signing_key_refused:
  assumes "DecodeString StdEncoding (ko_SigningKey c) = Some b" "length b = 64" "ko_EncryptionKey c \<noteq> ''''"
  shows "Cookie_Validate c \<noteq> None"
  using assms by (auto simp: Cookie_Validate_def checkKey_def)

text \<open>The default options would not pass the check of the web server, which nothing calls.\<close>

lemma default_serve_refused: "Serve_Validate NewServe \<noteq> None"
  by (simp add: Serve_Validate_def NewServe_def)

lemma newControllers_names: "newControllers new cs = Inr ns \<Longrightarrow> ns = map fst cs"
  by (induction new cs arbitrary: ns rule: newControllers.induct) (auto split: option.splits sum.splits)

lemma map_sum_Some [simp]: "map_sum id Some x = Inr (Some h) \<longleftrightarrow> x = Inr h"
  by (cases x) auto

lemma NewServer_handler:
  assumes "backend_NewServer E o' = Inr s" "bsv_handler s = Some h"
  obtains addr where "OIDCEnabled o'" "loginHandler E o' addr = Inr h"
    "newControllers (bv_newController E) (backendControllers o') = Inr (bsv_controllers s)"
  using assms by (auto simp: backend_NewServer_def split: sum.splits if_splits)

end
