(* ===== verification/Runtime_Properties.thy ===== *)
theory Runtime_Properties
  imports Work_Queue Secret_Access Konnector_Config Manifest_Bootstrap Backend_Options Backend_Properties Login_Properties
begin

text \<open>
  The properties of a running konnector: how it gets from the deployment that the backend makes to the clusters that it
  connects to, what its start reports, and how the namespaces of a consumer are cleaned up
  in both clusters.
\<close>

section \<open>From the deployment to the clusters\<close>

text \<open>
  What \<open>pflag\<close> documents: \<open>--name=value\<close> sets a flag with a value, \<open>--name\<close> a boolean flag, in the order of the arguments.
\<close>

primrec flagName :: "flag \<Rightarrow> string" where
  "flagName (StringFlag name _) = name"
| "flagName (BoolFlag name _) = name"

definition plainFlag :: "string \<Rightarrow> bool" where
  "plainFlag name \<longleftrightarrow> name \<noteq> '''' \<and> hd name \<noteq> CHR ''-'' \<and> CHR ''='' \<notin> set name"

definition flagSyntax :: "flag_parser \<Rightarrow> bool" where
  "flagSyntax parse \<longleftrightarrow>
     (\<forall>fs o'. parse fs [] o' = Inr o') \<and>
     (\<forall>fs name f v rest o'. distinct (map flagName fs) \<longrightarrow> plainFlag name \<longrightarrow> StringFlag name f \<in> set fs \<longrightarrow>
        parse fs ((''--'' @ name @ ''='' @ v) # rest) o' = parse fs rest (f v o')) \<and>
     (\<forall>fs name f rest o'. distinct (map flagName fs) \<longrightarrow> plainFlag name \<longrightarrow> BoolFlag name f \<in> set fs \<longrightarrow>
        parse fs ((''--'' @ name) # rest) o' = parse fs rest (f True o'))"

text \<open>
  What Kubernetes documents of the arguments of a container: \<open>$(NAME)\<close> stands for the variable, everything else is
  left as it is.
\<close>

definition expandsEnv :: "(string \<Rightarrow> string) \<Rightarrow> (string \<Rightarrow> string) \<Rightarrow> bool" where
  "expandsEnv getenv expand \<longleftrightarrow>
     (\<forall>s. CHR ''$'' \<notin> set s \<longrightarrow> expand s = s) \<and>
     (\<forall>p. CHR ''$'' \<notin> set p \<longrightarrow> expand (p @ ''$(POD_NAMESPACE)'') = p @ getenv ''POD_NAMESPACE'')"

lemma konnector_flags_distinct: "distinct (map flagName konnector_flags)"
  by (simp add: konnector_flags_def)

lemma parse_string:
  assumes "flagSyntax parse" "StringFlag name f \<in> set konnector_flags" "plainFlag name"
    and "arg = ''--'' @ name @ ''='' @ v"
  shows "parse konnector_flags (arg # rest) opts = parse konnector_flags rest (f v opts)"
  using assms konnector_flags_distinct unfolding flagSyntax_def by blast

lemma parse_bool:
  assumes "flagSyntax parse" "BoolFlag name f \<in> set konnector_flags" "plainFlag name" and "arg = ''--'' @ name"
  shows "parse konnector_flags (arg # rest) opts = parse konnector_flags rest (f True opts)"
  using assms konnector_flags_distinct unfolding flagSyntax_def by blast

text \<open>The options of the konnector that the backend deploys.\<close>

definition deployedOptions :: "(string \<Rightarrow> string) \<Rightarrow> string \<Rightarrow> AppClusterBinding \<Rightarrow> ExtraOptions" where
  "deployedOptions getenv rand b =
     \<lparr>KubeConfigPath = '''', ControlPlaneMode = True, AppClusterKubeconfigSecretName = ref_Name (secretRef b),
      AppClusterKubeconfigSecretNamespace = rootNamespace b, AppClusterKubeconfigSecretKey = ref_Key (secretRef b),
      BindingRootNamespace = rootNamespace b, LeaseLockName = ''klutch-bind'',
      LeaseLockNamespace = getenv ''POD_NAMESPACE'',
      LeaseLockIdentity = (if getenv ''POD_NAME'' = '''' then rand else getenv ''POD_NAME'')\<rparr>"

definition expandable :: "AppClusterBinding \<Rightarrow> bool" where
  "expandable b \<longleftrightarrow> ref_Name (secretRef b) \<noteq> '''' \<and> ref_Key (secretRef b) \<noteq> '''' \<and>
     CHR ''$'' \<notin> set (ref_Name (secretRef b) @ ref_Key (secretRef b) @ rootNamespace b)"

lemma expanded_args:
  assumes "expandsEnv getenv expand" "expandable b"
  shows "map expand (konnectorArgs b) =
     butlast (konnectorArgs b) @ [''--lease-namespace='' @ getenv ''POD_NAMESPACE'']"
proof -
  have keep: "expand s = s" if "CHR ''$'' \<notin> set s" for s using assms(1) that unfolding expandsEnv_def by blast
  have env: "expand (p @ ''$(POD_NAMESPACE)'') = p @ getenv ''POD_NAMESPACE''" if "CHR ''$'' \<notin> set p" for p
    using assms(1) that unfolding expandsEnv_def by blast
  show ?thesis
    using assms(2) env [of "''--lease-namespace=''"] by (simp add: konnectorArgs_def keep expandable_def)
qed

lemma rootNamespace_nonempty: "rootNamespace b \<noteq> ''''"
  by (simp add: rootNamespace_eq bindingRootNamespacePrefix_def)

lemma parsed_args:
  assumes "flagSyntax parse"
  shows "parse konnector_flags (butlast (konnectorArgs b) @ [''--lease-namespace='' @ ns]) opts =
     Inr (opts\<lparr>ControlPlaneMode := True, AppClusterKubeconfigSecretName := ref_Name (secretRef b),
               AppClusterKubeconfigSecretNamespace := rootNamespace b,
               AppClusterKubeconfigSecretKey := ref_Key (secretRef b), BindingRootNamespace := rootNamespace b,
               LeaseLockNamespace := ns\<rparr>)"
proof -
  note S = parse_string [OF assms] and B = parse_bool [OF assms]
  let ?F = konnector_flags
  have mode: "parse ?F (''--control-plane-mode'' # r) x = parse ?F r (x\<lparr>ControlPlaneMode := True\<rparr>)" for r x
    by (rule B [where f = "\<lambda>v. ControlPlaneMode_update (\<lambda>_. v)" and name = "''control-plane-mode''"])
      (simp_all add: konnector_flags_def plainFlag_def)
  have name: "parse ?F ((''--app-cluster-kubeconfig-secret-name='' @ v) # r) x =
      parse ?F r (x\<lparr>AppClusterKubeconfigSecretName := v\<rparr>)" for v r x
    by (rule S [where f = "\<lambda>v. AppClusterKubeconfigSecretName_update (\<lambda>_. v)"
          and name = "''app-cluster-kubeconfig-secret-name''"]) (simp_all add: konnector_flags_def plainFlag_def)
  have secretNs: "parse ?F ((''--app-cluster-kubeconfig-secret-namespace='' @ v) # r) x =
      parse ?F r (x\<lparr>AppClusterKubeconfigSecretNamespace := v\<rparr>)" for v r x
    by (rule S [where f = "\<lambda>v. AppClusterKubeconfigSecretNamespace_update (\<lambda>_. v)"
          and name = "''app-cluster-kubeconfig-secret-namespace''"]) (simp_all add: konnector_flags_def plainFlag_def)
  have key: "parse ?F ((''--app-cluster-kubeconfig-secret-key='' @ v) # r) x =
      parse ?F r (x\<lparr>AppClusterKubeconfigSecretKey := v\<rparr>)" for v r x
    by (rule S [where f = "\<lambda>v. AppClusterKubeconfigSecretKey_update (\<lambda>_. v)"
          and name = "''app-cluster-kubeconfig-secret-key''"]) (simp_all add: konnector_flags_def plainFlag_def)
  have root: "parse ?F ((''--binding-root-namespace='' @ v) # r) x = parse ?F r (x\<lparr>BindingRootNamespace := v\<rparr>)" for v r x
    by (rule S [where f = "\<lambda>v. BindingRootNamespace_update (\<lambda>_. v)" and name = "''binding-root-namespace''"])
      (simp_all add: konnector_flags_def plainFlag_def)
  have lease: "parse ?F ((''--lease-namespace='' @ v) # r) x = parse ?F r (x\<lparr>LeaseLockNamespace := v\<rparr>)" for v r x
    by (rule S [where f = "\<lambda>v. LeaseLockNamespace_update (\<lambda>_. v)" and name = "''lease-namespace''"])
      (simp_all add: konnector_flags_def plainFlag_def)
  have args: "butlast (konnectorArgs b) @ [y] =
      [''--control-plane-mode'', ''--app-cluster-kubeconfig-secret-name='' @ ref_Name (secretRef b),
       ''--app-cluster-kubeconfig-secret-namespace='' @ rootNamespace b,
       ''--app-cluster-kubeconfig-secret-key='' @ ref_Key (secretRef b), ''--binding-root-namespace='' @ rootNamespace b, y]" for y
    by (simp add: konnectorArgs_def)
  have empty: "parse ?F [] x = Inr x" for x using assms unfolding flagSyntax_def by blast
  show ?thesis unfolding args mode name secretNs key root lease empty by simp
qed

lemma deployed_options:
  assumes "flagSyntax parse" "expandsEnv getenv expand" "expandable b"
  shows "konnector_options parse getenv rand (map expand (konnectorArgs b)) = Inr (deployedOptions getenv rand b)"
  unfolding konnector_options_def konnector_AddFlags_def prod.case Let_def
    expanded_args [OF assms(2,3)] parsed_args [OF assms(1)] sum.case
  using assms(3) rootNamespace_nonempty [of b]
  by (simp add: konnector_Complete_def konnector_Validate_def konnector_NewOptions_def deployedOptions_def expandable_def)

definition konnectorConfig :: "string \<Rightarrow> rest_config" where
  "konnectorConfig cfg = AddUserAgent \<lparr>rt_Config = cfg, rt_UserAgents = []\<rparr> ''konnector''"

lemma checked_kubeconfig:
  assumes "fst (checkKubeconfig R now b source)"
  obtains data cfg where "fmlookup (sec_Data source) (ref_Key (secretRef b)) = Some data"
    and "RESTConfigFromKubeConfig (ap_clientcmd R) data = Inr cfg"
  using assms by (auto simp: checkKubeconfig_def Let_def split: option.splits sum.splits if_splits)

text \<open>
  The setting of a konnector that was deployed for a binding: clients can be built, and its pod reads the mirrored secret that
  the backend writes.
\<close>

definition deployedFor ::
  "app_reconciler \<Rightarrow> AppClusterBinding \<Rightarrow> Secret \<Rightarrow> konn_env \<Rightarrow> rest_config \<Rightarrow> bool" where
  "deployedFor R b source E cp \<longleftrightarrow>
     kv_clientcmd E = ap_clientcmd R \<and> (\<forall>k cfg. kv_newClient E k cfg = None) \<and> loadKubeconfig E '''' = Inr cp \<and>
     (\<forall>data. fmlookup (sec_Data source) (ref_Key (secretRef b)) = Some data \<longrightarrow>
        kv_getSecret E cp (rootNamespace b) (ref_Name (secretRef b)) = Inr (mirroredSecret b source data))"

text \<open>C32: the konnector that the backend deploys for an AppClusterBinding with a valid kubeconfig secret starts, when the
  binding has no overrides for the deployment: \<open>ContainerOverrides.Args\<close> replaces the arguments, and then nothing of the following
  need hold. It runs in control plane mode without installing anything, watches bindings and secrets of the root namespace of this binding
  only, connects to exactly the cluster that the secret of the binding names, and competes for the lease
  in the namespace of its pod. The other hypotheses are that the names in the arguments have nothing that Kubernetes expands
  (\<open>expandable\<close>), that the pod can build its clients and reads the mirrored secret (\<open>deployedFor\<close>), that the flag
  package parses \<open>--name=value\<close> (\<open>flagSyntax\<close>) and that Kubernetes expands the environment in arguments (\<open>expandsEnv\<close>).\<close>

theorem deployed_konnector_connects:
  assumes "buildKonnectorDeployment R b = Inr d" "Option.bind (ab_Konnector b) ks_Overrides = None" "expandable b"
    and "fst (checkKubeconfig R now b source)" "deployedFor R b source E cp"
    and "flagSyntax parse" "expandsEnv getenv expand"
  shows "\<exists>c data cfg ident.
     konnector_RunE E D parse getenv rand (map expand (co_Args (hd (ds_Containers (dp_Spec d))))) l =
       (Inr (c, getenv ''POD_NAMESPACE'', ''klutch-bind'', ident), l) \<and>
     fmlookup (sec_Data source) (ref_Key (secretRef b)) = Some data \<and>
     RESTConfigFromKubeConfig (ap_clientcmd R) data = Inr cfg \<and>
     kg_AppClusterConfig c = Some (konnectorConfig cfg) \<and> kg_ControlPlaneMode c \<and>
     kg_BindingClusterBindInformers c = Some (cp, Some (rootNamespace b)) \<and>
     kg_BindingClusterKubeInformers c = Some (cp, Some (rootNamespace b))"
proof -
  obtain data cfg where data: "fmlookup (sec_Data source) (ref_Key (secretRef b)) = Some data"
    and cfg: "RESTConfigFromKubeConfig (ap_clientcmd R) data = Inr cfg" using checked_kubeconfig [OF assms(4)] .
  have args: "co_Args (hd (ds_Containers (dp_Spec d))) = konnectorArgs b"
    using assms(1,2)
    by (auto simp: buildKonnectorDeployment_def labelledDeployment_def baseContainer_def BaseDeployment_def Let_def)
  let ?o = "deployedOptions getenv rand b"
  have app: "appConfigFromSecret E cp ?o = Inr (konnectorConfig cfg)"
    using assms(5) data cfg
    by (simp add: deployedFor_def appConfigFromSecret_def deployedOptions_def mirroredSecret_def konnectorConfig_def Let_def)
  obtain c where c: "konnector_NewConfig E ?o = Inr c" "kg_AppClusterConfig c = Some (konnectorConfig cfg)"
    "kg_ControlPlaneMode c" "kg_BindingClusterBindInformers c = Some (cp, Some (rootNamespace b))"
    "kg_BindingClusterKubeInformers c = Some (cp, Some (rootNamespace b))"
    using assms(5) app rootNamespace_nonempty [of b]
    by (simp add: konnector_NewConfig_def deployedFor_def initAppCluster_def initBindingCluster_def
        newClients_none noConfig_def Let_def deployedOptions_def)
  have "konnector_RunE E D parse getenv rand (map expand (konnectorArgs b)) l =
      (Inr (c, getenv ''POD_NAMESPACE'', ''klutch-bind'', LeaseLockIdentity ?o), l)"
    unfolding konnector_RunE_def deployed_options [OF assms(6,7,3)] sum.case c(1)
    using c(3) by (simp add: PrepareRun_def followedBy_def finished_def deployedOptions_def)
  then show ?thesis using data cfg c unfolding args by blast
qed

fun plainParse :: "flag_parser" where
  "plainParse fs [] opts = Inr opts"
| "plainParse fs (arg # rest) opts =
     (let body = drop 2 arg; name = takeWhile (\<lambda>c. c \<noteq> CHR ''='') body in
      case List.find (\<lambda>f. flagName f = name) fs of
        Some (StringFlag _ f) \<Rightarrow> plainParse fs rest (f (tl (dropWhile (\<lambda>c. c \<noteq> CHR ''='') body)) opts)
      | Some (BoolFlag _ f) \<Rightarrow> plainParse fs rest (f True opts)
      | None \<Rightarrow> Inl (plainError ''unknown flag''))"

lemma find_flag: "distinct (map flagName fs) \<Longrightarrow> f \<in> set fs \<Longrightarrow> List.find (\<lambda>g. flagName g = flagName f) fs = Some f"
  by (induction fs) (auto simp: image_iff)

lemma plainParse_syntax: "flagSyntax plainParse"
proof -
  have name: "takeWhile (\<lambda>c. c \<noteq> CHR ''='') (name @ CHR ''='' # v) = name"
      "dropWhile (\<lambda>c. c \<noteq> CHR ''='') (name @ CHR ''='' # v) = CHR ''='' # v"
      "takeWhile (\<lambda>c. c \<noteq> CHR ''='') name = name" if "plainFlag name" for name v
    using that by (auto simp: plainFlag_def takeWhile_append dropWhile_append)
  show ?thesis
    unfolding flagSyntax_def
    by (simp add: name find_flag [of _ "StringFlag n f" for n f, simplified] find_flag [of _ "BoolFlag n f" for n f, simplified]
        del: takeWhile_eq_all_conv)
qed

definition podEnv :: "string \<Rightarrow> string" where
  "podEnv v = (if v = ''POD_NAMESPACE'' then ''klutch-bind-default-app'' else if v = ''POD_NAME'' then ''konnector-0'' else '''')"

definition podExpand :: "string \<Rightarrow> string" where
  "podExpand s = takeWhile (\<lambda>c. c \<noteq> CHR ''$'') s @
     (if CHR ''$'' \<in> set s
      then podEnv (takeWhile (\<lambda>c. c \<noteq> CHR '')'') (drop 2 (dropWhile (\<lambda>c. c \<noteq> CHR ''$'') s))) else '''')"

lemma podExpand_env: "expandsEnv podEnv podExpand"
proof -
  have keep: "takeWhile (\<lambda>c. c \<noteq> CHR ''$'') s = s" if "CHR ''$'' \<notin> set s" for s :: string
    using that by (auto simp: takeWhile_eq_all_conv)
  show ?thesis
    by (auto simp: expandsEnv_def podExpand_def keep takeWhile_append dropWhile_append)
qed

definition podCluster :: konn_env where
  "podCluster =
     \<lparr>kv_loadFile = (\<lambda>p. Inr ''in-cluster''), kv_clientcmd = sampleClientcmd, kv_newClient = (\<lambda>k cfg. None),
      kv_getSecret = (\<lambda>cfg ns n. Inr (mirroredSecret theApp sampleSecret ''cfg''))\<rparr>"

definition quietClient :: crd_client where
  "quietClient =
     \<lparr>cd_get = (\<lambda>l n. Inl notFound), cd_create = (\<lambda>l crd. Inr crd), cd_update = (\<lambda>l crd. Inr crd),
      cd_readFile = (\<lambda>f. Inl notFound), cd_decode = (\<lambda>s. Inl notFound), cd_refusedOrBusy = (\<lambda>e. False),
      cd_retries = 3, cd_patience = 2, cd_ctxErr = None\<rparr>"

definition theDeployment :: Deployment where
  "theDeployment =
     (let d = labelledDeployment theApp (BaseDeployment konnectorImage) in
      d\<lparr>dp_Spec := (dp_Spec d)\<lparr>ds_Containers := (ds_Containers (dp_Spec d))[0 := baseContainer theApp]\<rparr>\<rparr>)"

lemma theApp_konnector [simp]:
  "ab_Konnector theApp = None" "ab_KubeconfigSecretRef theApp =
     \<lparr>ref_Name = ''kubeconfig'', ref_Key = ''kubeconfig'', ref_Namespace = ''default''\<rparr>"
  by (simp_all add: sampleApp_def)

theorem deployed_konnector_connects_witness:
  "\<exists>c ident.
     konnector_RunE podCluster quietClient plainParse podEnv ''7''
       (map podExpand (co_Args (hd (ds_Containers (dp_Spec theDeployment))))) [] =
       (Inr (c, podEnv ''POD_NAMESPACE'', ''klutch-bind'', ident), []) \<and>
     kg_AppClusterConfig c = Some (konnectorConfig ''cfg'')"
proof -
  have 1: "buildKonnectorDeployment controlPlane theApp = Inr theDeployment"
    by (simp add: buildKonnectorDeployment_def theDeployment_def Let_def)
  have 2: "expandable theApp" by (simp add: expandable_def secretRef_def)
  have clientcmd: "ap_clientcmd controlPlane = sampleClientcmd" by (simp add: controlPlane_def emptyControlPlane_def)
  have 3: "fst (checkKubeconfig controlPlane 0 theApp sampleSecret)"
    by (simp add: checkKubeconfig_def clientcmd secretRef_def konn_samples)
  have 4: "deployedFor controlPlane theApp sampleSecret podCluster (konnectorConfig ''in-cluster'')"
    by (simp add: deployedFor_def clientcmd podCluster_def loadKubeconfig_def konnectorConfig_def secretRef_def
        sampleSecret_def)
  have cfg: "fmlookup (sec_Data sampleSecret) (ref_Key (secretRef theApp)) = Some ''cfg''"
      "RESTConfigFromKubeConfig (ap_clientcmd controlPlane) x = Inr x" for x
    by (simp_all add: clientcmd secretRef_def konn_samples)
  show ?thesis
    using deployed_konnector_connects
      [OF 1 _ 2 3 4 plainParse_syntax podExpand_env, of quietClient "''7''" "[]"]
    by (auto simp: cfg)
qed

section \<open>Start\<close>

text \<open>C38: \<open>Start\<close> of the controllers of a provider cluster does not notice that the informers have not synced: as long as the
  context of the controller lives, every binding is reported as synced and the four controllers run, whatever
  \<open>WaitForCacheSync\<close> answered, and nothing else is written. The condition \<open>InformerSyncTimeout\<close> is written only when the controller is being
  stopped: for any attempts, a status that is written is that of a listed binding reported as synced, or that of
  a binding reported as timed out in an attempt that found the context ended. The controllers are not started exactly if every attempt found that.\<close>

theorem unsynced_informers_go_unnoticed:
  assumes "\<not> sa_ctxDone a" "\<forall>b \<in> set bs. distinctTypes (sb_Conditions b)"
  shows "snd (cluster_Start (a\<lparr>sa_synced := synced\<rparr> # as) now (Inr bs)) =
       [''clusterbinding'', ''namespacedeletion'', ''servicebinding'', ''serviceexport''] \<and>
     (\<forall>b \<in> set bs. \<exists>b'. (b' = b \<or> b' \<in> set (fst (cluster_Start (a\<lparr>sa_synced := synced\<rparr> # as) now (Inr bs)))) \<and>
        sb_Meta b' = sb_Meta b \<and> IsTrue serviceBindingSetter b' APIServiceBindingConditionInformersSynced) \<and>
     (\<forall>w \<in> set (fst (cluster_Start (a\<lparr>sa_synced := synced\<rparr> # as) now (Inr bs))). \<exists>b \<in> set bs. w = informersSynced now b) \<and>
     (\<forall>w \<in> set (fst (cluster_Start attempts now objs)).
        (\<exists>listed b. objs = Inr listed \<and> b \<in> set listed \<and> w = informersSynced now b) \<or>
        (\<exists>d \<in> set attempts. sa_ctxDone d \<and>
           (\<exists>listed b. sa_bindings d = Inr listed \<and> b \<in> set listed \<and> w = informersNotSynced (sa_now d) b))) \<and>
     (snd (cluster_Start attempts now objs) = [] \<longleftrightarrow> list_all sa_ctxDone attempts)"
proof (intro conjI ballI)
  have start: "cluster_Start (a\<lparr>sa_synced := synced\<rparr> # as) now (Inr bs) =
      (updateServiceBindings (Inr bs) (informersSynced now),
       [''clusterbinding'', ''namespacedeletion'', ''servicebinding'', ''serviceexport''])"
    using assms(1) by (simp add: cluster_Start_def awaitSync_def)
  show "snd (cluster_Start (a\<lparr>sa_synced := synced\<rparr> # as) now (Inr bs)) =
      [''clusterbinding'', ''namespacedeletion'', ''servicebinding'', ''serviceexport'']" by (simp add: start)
  show "snd (cluster_Start attempts now objs) = [] \<longleftrightarrow> list_all sa_ctxDone attempts"
    using pollSync_synced [of attempts] by (auto simp: cluster_Start_def split: prod.splits)
  show "\<exists>b \<in> set bs. w = informersSynced now b" if "w \<in> set (fst (cluster_Start (a\<lparr>sa_synced := synced\<rparr> # as) now (Inr bs)))" for w
    using that unfolding start by (auto simp: updateServiceBindings_def)
  show "(\<exists>listed b. objs = Inr listed \<and> b \<in> set listed \<and> w = informersSynced now b) \<or>
      (\<exists>d \<in> set attempts. sa_ctxDone d \<and>
         (\<exists>listed b. sa_bindings d = Inr listed \<and> b \<in> set listed \<and> w = informersNotSynced (sa_now d) b))"
    if "w \<in> set (fst (cluster_Start attempts now objs))" for w
    using that by (rule cluster_Start_writes)
  fix b
  assume b: "b \<in> set bs"
  let ?b = "informersSynced now b"
  have dist: "distinctTypes (GetConditions serviceBindingSetter b)"
    using assms(2) b by (simp add: serviceBindingSetter_def)
  have true: "IsTrue serviceBindingSetter ?b APIServiceBindingConditionInformersSynced"
    unfolding informersSynced_def by (rule sb.IsTrue_MarkTrue [OF dist])
  have meta: "sb_Meta ?b = sb_Meta b" by (simp add: informersSynced_def MarkTrue_def Set_condition_def Let_def serviceBindingSetter_def split: option.split)
  show "\<exists>b'. (b' = b \<or> b' \<in> set (fst (cluster_Start (a\<lparr>sa_synced := synced\<rparr> # as) now (Inr bs)))) \<and>
      sb_Meta b' = sb_Meta b \<and> IsTrue serviceBindingSetter b' APIServiceBindingConditionInformersSynced"
  proof (cases "sb_Conditions ?b = sb_Conditions b")
    case True
    then have "IsTrue serviceBindingSetter b APIServiceBindingConditionInformersSynced"
      using true by (simp add: IsTrue_def Get_condition_def serviceBindingSetter_def)
    then show ?thesis by blast
  next
    case False
    then have "?b \<in> set (fst (cluster_Start (a\<lparr>sa_synced := synced\<rparr> # as) now (Inr bs)))"
      using b unfolding start by (auto simp: updateServiceBindings_def)
    then show ?thesis using meta true by blast
  qed
qed

definition silentAttempt :: sync_attempt where
  "silentAttempt = \<lparr>sa_synced = [False, False, False, False], sa_ctxDone = False, sa_now = 7, sa_bindings = Inr [sampleBinding]\<rparr>"

theorem unsynced_informers_go_unnoticed_witness:
  "snd (cluster_Start [silentAttempt] 7 (Inr [sampleBinding])) \<noteq> []"
proof -
  have 1: "\<not> sa_ctxDone silentAttempt" by (simp add: silentAttempt_def)
  have 2: "\<forall>b \<in> set [sampleBinding]. distinctTypes (sb_Conditions b)"
    by (simp add: sampleBinding_def distinctTypes_def)
  have 3: "silentAttempt\<lparr>sa_synced := [False, False, False, False]\<rparr> = silentAttempt" by (simp add: silentAttempt_def)
  from unsynced_informers_go_unnoticed [OF 1 2, of "[False, False, False, False]" "[]" 7] show ?thesis unfolding 3 by simp
qed

section \<open>Clean-up of namespaces\<close>

text \<open>C34: a namespace that a consumer deletes is cleaned up in the provider cluster. The event of the namespace and that of
  its APIServiceNamespace queue the same key; processing it deletes that APIServiceNamespace if and only if the consumer cluster says that the
  namespace is gone; and once it is gone from the provider, its controller in the backend deletes under the same key
  the very namespace that it had created for it.\<close>

theorem deleted_namespace_cleaned_up:
  assumes "keysSplit K" "plainName (nd_providerNamespace D)" "plainName name"
    and "sns = \<lparr>sn_Name = name, sn_Namespace = nd_providerNamespace D, sn_Status_Namespace = ''''\<rparr>"
  shows "\<exists>key. nd_enqueueNamespace D name = [key] \<and> nd_enqueueServiceNamespace K sns = [key] \<and>
     snd (nd_process K D key) =
       (if (\<exists>e. nd_getNamespace D name = Some e \<and> IsNotFound e) then [(sn_Namespace sns, name)] else []) \<and>
     ((\<exists>e. L (sn_Namespace sns) name = Inl e \<and> IsNotFound e) \<longrightarrow>
        snd (sns_process K L C R [] key) = [DeleteNamespace (targetNamespace sns)])"
proof -
  let ?key = "serviceNamespaceKey K sns"
  have sns: "sn_Namespace sns = nd_providerNamespace D" "sn_Name sns = name" by (simp_all add: assms(4))
  have split: "splitMetaNamespaceKey K ?key = Inr (sn_Namespace sns, name)"
    unfolding serviceNamespaceKey_def sns by (metis assms(1-3) keysSplit_def)
  have "nd_enqueueNamespace D name = nd_enqueueServiceNamespace K sns"
    using nd_keys_agree [OF assms(1), of sns D] assms(2,3) unfolding sns by blast
  moreover have "nd_enqueueServiceNamespace K sns = [?key]" by (simp add: nd_enqueueServiceNamespace_def)
  moreover have "snd (sns_process K L C R [] ?key) = [DeleteNamespace (targetNamespace sns)]"
    if "L (sn_Namespace sns) name = Inl e" "IsNotFound e" for e
    using that split assms(4) by (auto simp: sns_process_def targetNamespace_def Let_def split: option.splits)
  ultimately show ?thesis using nd_process_deletes [OF split] by auto
qed

definition goneNamespaces :: namespace_deletion where
  "goneNamespaces =
     \<lparr>nd_providerNamespace = ''kube-bind-x'', nd_getNamespace = (\<lambda>n. Some notFound), nd_deleteServiceNamespace = (\<lambda>ns n. None)\<rparr>"

theorem deleted_namespace_cleaned_up_witness:
  "snd (nd_process sampleKeys goneNamespaces ''kube-bind-x/default'') = [(''kube-bind-x'', ''default'')]"
proof -
  have p: "plainName (nd_providerNamespace goneNamespaces)" "plainName ''default''"
    by (simp_all add: plainName_def goneNamespaces_def)
  from deleted_namespace_cleaned_up [OF sampleKeys_split p refl, of undefined undefined undefined]
  show ?thesis by (auto simp: goneNamespaces_def nd_enqueueNamespace_def)
qed

section \<open>Workers\<close>

definition quietFor :: "string \<Rightarrow> work_event list \<Rightarrow> bool" where
  "quietFor key es \<longleftrightarrow> (\<forall>e \<in> set es. e \<noteq> Queued key \<and> (\<forall>i err. e \<noteq> Ended i key (Some err)))"

lemma not_due_taken:
  "key \<notin> fold due es D \<Longrightarrow> (\<exists>xs i ys. es = xs @ Taken i key # ys \<and> quietFor key ys) \<or> key \<notin> D \<and> quietFor key es"
proof (induction es arbitrary: D)
  case Nil
  then show ?case by (simp add: quietFor_def)
next
  case (Cons e es)
  then have "key \<notin> fold due es (due e D)" by simp
  from Cons.IH [OF this] show ?case
  proof (elim disjE exE conjE)
    fix xs i ys
    assume "es = xs @ Taken i key # ys" "quietFor key ys"
    then have "e # es = (e # xs) @ Taken i key # ys \<and> quietFor key ys" by simp
    then show ?thesis by blast
  next
    assume d: "key \<notin> due e D" "quietFor key es"
    show ?thesis
    proof (cases "\<exists>i. e = Taken i key")
      case True
      then show ?thesis using d(2) by (metis append_Nil)
    next
      case False
      with d show ?thesis by (cases e) (auto simp: quietFor_def split: option.splits)
    qed
  qed
qed

definition idlePool :: "'q \<Rightarrow> 'q pool" where
  "idlePool q = \<lparr>pl_queue = q, pl_busy = (\<lambda>_. None)\<rparr>"

text \<open>C33: the workers of a controller never process a key twice at the same time and never lose one. However many workers and event
  handlers interleave, two workers are never busy with the same key, and a key for which there was an event or a failure is
  waiting or was taken by a worker after the last of them. A queue that starts with no key in process has exactly the keys in process
  that a worker is busy with, so that no key stays blocked when its worker is done with it.\<close>

theorem no_key_lost:
  assumes "queueLaws Q waits inProcess" "work_run Q (idlePool q) es p"
  shows "(\<forall>i j key. pl_busy p i = Some key \<longrightarrow> pl_busy p j = Some key \<longrightarrow> i = j) \<and>
     (\<forall>key. \<not> quietFor key es \<longrightarrow>
        key \<in> waits (pl_queue p) \<or> (\<exists>xs i ys. es = xs @ Taken i key # ys \<and> quietFor key ys)) \<and>
     (inProcess q = {} \<longrightarrow> inProcess (pl_queue p) = {key. \<exists>i. pl_busy p i = Some key})"
proof -
  have inv: "pool_inv inProcess (idlePool q)" by (simp add: pool_inv_def idlePool_def)
  from work_run_inv [OF assms inv] have run: "pool_inv inProcess p" "fold due es (waits q) \<subseteq> waits (pl_queue p)"
    by (simp_all add: idlePool_def)
  have "inProcess q = {} \<longrightarrow> inProcess (pl_queue p) = {key. \<exists>i. pl_busy p i = Some key}"
    using work_run_busy [OF assms inv] by (simp add: busyKeys_def idlePool_def)
  with run show ?thesis using not_due_taken unfolding pool_inv_def by blast
qed

text \<open>A queue of two lists: the keys that wait and those in process.\<close>

definition listQueue :: "(string list \<times> string list) work_queue" where
  "listQueue =
     \<lparr>wk_Get = (\<lambda>(ws, ps). case filter (\<lambda>k. k \<notin> set ps) ws of
                              [] \<Rightarrow> None | k # _ \<Rightarrow> Some (k, removeAll k ws, k # ps)),
      wk_Add = (\<lambda>k (ws, ps). (if k \<in> set ws then ws else ws @ [k], ps)),
      wk_AddRateLimited = (\<lambda>k (ws, ps). (if k \<in> set ws then ws else ws @ [k], ps)),
      wk_Forget = (\<lambda>k q. q), wk_Done = (\<lambda>k (ws, ps). (ws, removeAll k ps))\<rparr>"

lemma listQueue_laws: "queueLaws listQueue (\<lambda>q. set (fst q)) (\<lambda>q. set (snd q))"
proof -
  have taken: "key \<notin> set (snd q) \<and> set (fst q') = set (fst q) - {key} \<and> set (snd q') = insert key (set (snd q))"
    if get: "wk_Get listQueue q = Some (key, q')" for q key q'
  proof -
    obtain ks where ks: "filter (\<lambda>k. k \<notin> set (snd q)) (fst q) = key # ks" "q' = (removeAll key (fst q), key # snd q)"
      using get by (auto simp: listQueue_def split: prod.splits list.splits)
    then have "key \<in> set (filter (\<lambda>k. k \<notin> set (snd q)) (fst q))" by simp
    then show ?thesis using ks(2) by auto
  qed
  then show ?thesis unfolding queueLaws_def by (auto simp: listQueue_def split: prod.splits)
qed

theorem no_key_lost_witness:
  "\<exists>p. work_run listQueue (idlePool ([], [])) [Queued ''a/b'', Taken 0 ''a/b'', Queued ''a/b''] p \<and> ''a/b'' \<in> set (fst (pl_queue p))"
proof -
  let ?p0 = "idlePool ([], []) :: (string list \<times> string list) pool"
  let ?p1 = "?p0\<lparr>pl_queue := ([''a/b''], [])\<rparr>"
  let ?p2 = "?p1\<lparr>pl_queue := ([], [''a/b'']), pl_busy := (pl_busy ?p1)(0 := Some ''a/b'')\<rparr>"
  let ?p3 = "?p2\<lparr>pl_queue := ([''a/b''], [''a/b''])\<rparr>"
  let ?es = "[Queued ''a/b'', Taken 0 ''a/b'', Queued ''a/b'']"
  have 1: "work_run listQueue ?p0 [Queued ''a/b''] ?p1"
    using work_run.Step [OF work_run.Start Queue [of listQueue ?p0 "''a/b''"]] by (simp add: listQueue_def idlePool_def)
  have 2: "work_run listQueue ?p0 [Queued ''a/b'', Taken 0 ''a/b''] ?p2"
    using work_run.Step [OF 1 Take [of ?p1 0 listQueue "''a/b''" "([], [''a/b''])"]] by (simp add: listQueue_def idlePool_def)
  have 3: "work_run listQueue ?p0 ?es ?p3"
    using work_run.Step [OF 2 Queue [of listQueue ?p2 "''a/b''"]] by (simp add: listQueue_def idlePool_def)
  have "\<not> quietFor ''a/b'' ?es" by (simp add: quietFor_def)
  moreover have "\<not> (\<exists>xs i ys. ?es = xs @ Taken i ''a/b'' # ys \<and> quietFor ''a/b'' ys)"
    by (auto simp: quietFor_def Cons_eq_append_conv)
  ultimately show ?thesis using no_key_lost [OF listQueue_laws 3] 3 by blast
qed

section \<open>The backend\<close>

text \<open>C40: a backend that starts with a login has a well-formed handler. Its signing key has 32 or 64 bytes, its scope is one of
  the two that the controllers know, the identity provider and the handler agree on a callback that is not empty, the namespaces of consumers
  get a prefix, and exactly the controllers of its mode run. Nothing is said of the encryption key, whose length is not
  checked: \<open>Cookie_Validate\<close> checks the signing key in its place.\<close>

theorem started_backend_wellformed:
  assumes "backend_main E options = Inr s" "bsv_handler s = Some h"
  shows "length (hd_cookieSigningKey h) \<in> {32, 64} \<and> hd_scope h \<in> {NamespacedScope, ClusterScope} \<and>
     hd_backendCallbackURL h \<noteq> '''' \<and> op_redirectURI (hd_oidc h) = hd_backendCallbackURL h \<and>
     mg_namespacePrefix (hd_kubeManager h) \<noteq> '''' \<and>
     bsv_controllers s = [''clusterbinding'', ''servicenamespace'', ''serviceexport'', ''serviceexportrequest'']
       @ (if be_ControlPlaneMode options then [''appclusterbinding''] else [])"
proof -
  obtain completed where c: "backend_Complete (bv_readFile E) options = Inr completed"
      "backend_Validate (bv_urlParse E) completed = None" "backend_NewServer E completed = Inr s"
    using assms(1) by (auto simp: backend_main_def split: sum.splits option.splits)
  obtain addr where enabled: "OIDCEnabled completed" and h: "loginHandler E completed addr = Inr h"
    and cs: "newControllers (bv_newController E) (backendControllers completed) = Inr (bsv_controllers s)"
    using NewServer_handler [OF c(3) assms(2)] .
  obtain oidc where oidc: "be_OIDC completed = Some oidc" "OIDC_Validate oidc = None" "Cookie_Validate (be_Cookie completed) = None"
    using Validate_login [OF c(2) enabled] .
  note cb = OIDC_Validate_callback [OF oidc(2)]
  obtain keys where keys: "cookieKeys (be_Cookie completed) = Inr keys" "hd_cookieSigningKey h = fst keys"
      "hd_scope h = be_ConsumerScope completed" "hd_backendCallbackURL h = oo_CallbackURL oidc"
      "op_redirectURI (hd_oidc h) = oo_CallbackURL oidc" "mg_namespacePrefix (hd_kubeManager h) = be_NamespacePrefix completed"
    using loginHandler_Inr [OF h oidc(1) cb] .
  have "length (fst keys) \<in> {32, 64}"
    using Cookie_Validate_signing [OF oidc(3)] keys(1) by (auto simp: cookieKeys_def split: option.splits if_splits)
  moreover have "be_ControlPlaneMode completed = be_ControlPlaneMode options"
    using c(1) by (auto simp: backend_Complete_def Let_def split: if_splits sum.splits)
  ultimately show ?thesis
    using Validate_scope [OF c(2)] keys cb newControllers_names [OF cs] by (simp add: backendControllers_def)
qed

definition sampleBackend :: backend_env where
  "sampleBackend =
     \<lparr>bv_readFile = (\<lambda>f. Inl ''no such file''), bv_urlParse = (\<lambda>u. None), bv_listen = (\<lambda>a. Inr a), bv_newProvider = (\<lambda>u. Inr u),
      bv_newClients = None, bv_api = hd_kubeManager sampleHandler, bv_crds = Inr [], bv_templates = Inr [], bv_gitVersion = '''',
      bv_newController = (\<lambda>n. None), bv_appsResources = Inr [''deployments'']\<rparr>"

definition sampleBackendOptions :: BackendOptions where
  "sampleBackendOptions = backend_NewOptions
     \<lparr>be_OIDC := Some \<lparr>oo_IssuerClientID = ''id'', oo_IssuerClientSecret = ''secret'', oo_IssuerURL = ''https://idp'',
                       oo_CallbackURL = ''https://backend/callback'', oo_AuthorizeURL = ''''\<rparr>,
      be_Cookie := \<lparr>ko_SigningKey = replicate 43 (CHR ''A'') @ ''='', ko_EncryptionKey = ''''\<rparr>\<rparr>"

lemma sampleKey_decodes: "map_option length (DecodeString StdEncoding (replicate 43 (CHR ''A'') @ ''='')) = Some 32"
  by code_simp

lemma sampleBackend_starts: "\<exists>s h. backend_main sampleBackend sampleBackendOptions = Inr s \<and> bsv_handler s = Some h"
proof -
  obtain b where b: "DecodeString StdEncoding (replicate 43 (CHR ''A'') @ ''='') = Some b" "length b = 32"
    using sampleKey_decodes by auto
  have scope: "normalScope NamespacedScope = NamespacedScope" "normalIsolation ''Prefixed'' = ''Prefixed''" by code_simp+
  have complete: "backend_Complete (bv_readFile sampleBackend) sampleBackendOptions = Inr sampleBackendOptions"
    by (simp add: backend_Complete_def sampleBackendOptions_def backend_NewOptions_def scope Let_def)
  have cookie: "be_Cookie sampleBackendOptions = \<lparr>ko_SigningKey = replicate 43 (CHR ''A'') @ ''='', ko_EncryptionKey = ''''\<rparr>"
    by (simp add: sampleBackendOptions_def)
  have "Cookie_Validate (be_Cookie sampleBackendOptions) = None"
    unfolding cookie Cookie_Validate_def checkKey_def by (simp add: b)
  then have valid: "backend_Validate (bv_urlParse sampleBackend) sampleBackendOptions = None"
    by (simp add: backend_Validate_def validateLogin_def OIDC_Validate_def sampleBackendOptions_def backend_NewOptions_def
       )
  have keys: "cookieKeys (be_Cookie sampleBackendOptions) = Inr (b, '''')"
    unfolding cookie cookieKeys_def by (simp add: b)
  have enabled: "OIDCEnabled sampleBackendOptions"
    by (simp add: OIDCEnabled_def shouldEnableOIDC_def sampleBackendOptions_def backend_NewOptions_def)
  obtain oidc where oidc: "be_OIDC sampleBackendOptions = Some oidc" by (simp add: sampleBackendOptions_def)
  have "\<exists>h. loginHandler sampleBackend sampleBackendOptions addr = Inr h" for addr
    by (simp add: loginHandler_def oidc keys NewOIDCServiceProvider_def NewKubernetesManager_def sampleBackend_def Let_def)
  then obtain h where h: "loginHandler sampleBackend sampleBackendOptions addr = Inr (h addr)" for addr by metis
  have env: "bv_newClients sampleBackend = None" "bv_listen sampleBackend a = Inr a" "bv_newController sampleBackend n = None"
    for a n by (simp_all add: sampleBackend_def)
  have cs: "\<exists>cs. newControllers (bv_newController sampleBackend) (backendControllers sampleBackendOptions) = Inr cs"
    by (simp add: backendControllers_def env)
  show ?thesis
    unfolding backend_main_def complete sum.case valid option.case env
    using cs by (auto simp: backend_NewServer_def enabled h env)
qed

theorem started_backend_wellformed_witness:
  "\<exists>s h. backend_main sampleBackend sampleBackendOptions = Inr s \<and> bsv_handler s = Some h \<and>
     length (hd_cookieSigningKey h) \<in> {32, 64} \<and> hd_backendCallbackURL h \<noteq> ''''"
proof -
  obtain s h where s: "backend_main sampleBackend sampleBackendOptions = Inr s" "bsv_handler s = Some h"
    using sampleBackend_starts by blast
  then show ?thesis using started_backend_wellformed [OF s] by blast
qed

end
