(* ===== verification/Spec2Isabelle.thy ===== *)
theory Spec2Isabelle
  imports Condition_Properties Sync_Properties Syncer_Properties Konnector_Properties Provider_Properties
    Backup_Properties Backend_Properties Health_Properties Login_Properties Client_Properties Runtime_Properties
begin

text \<open>
  A verification development for klutch.

  \<^bold>\<open>The program.\<close> Klutch lets a consumer cluster use data services that run elsewhere. It has three Go
  programs at its core. The konnector (\<open>src/bind\<close>) runs in the consumer cluster and keeps
  objects of a bound API in step between the consumer and the provider cluster. The backend
  (\<open>src/bind/contrib/example-backend\<close>) runs in the provider cluster, gives a consumer its namespaces, roles and exports,
  and for an AppClusterBinding deploys a konnector beside itself. The provider
  (\<open>src/provider-anynines\<close>) runs in the provider cluster too and turns service instances and service
  bindings into requests to a service broker, backups and restores into requests to a backup manager. The user begins with
  \<open>kubectl bind\<close> (\<open>src/bind/pkg/kubectl\<close>), which logs in at the backend, stores the kubeconfig that it gets, deploys the konnector and
  creates the bindings.

  In the konnector, the top-level controller starts one controller set per kubeconfig that an
  APIServiceBinding names. Each set has a controller for the ClusterBinding (heartbeat, secret, version), one for the
  APIServiceBindings (it installs the CRD of the bound service) and one for the APIServiceExports. The
  last starts, per export, the syncers: the spec syncer writes consumer objects to the provider, the
  status syncer writes their status back, the adopter creates consumer objects for provider objects, and
  the claimed-resources syncer copies secrets and config maps that belong to them. All controllers
  report through conditions, and a committer writes what a reconcile changed as one patch. The backend has a controller
  for each object of the bind API: ClusterBindings (roles and health), APIServiceNamespaces (namespaces),
  APIServiceExports (they follow their CRD), APIServiceExportRequests (they become exports) and
  AppClusterBindings. In the provider, crossplane's managed reconciler calls \<open>Observe\<close> and
  then \<open>Create\<close>, \<open>Update\<close> or \<open>Delete\<close> of the controllers of service instances and service bindings, which talk to
  the broker through an Open Service Broker client, and of those of backups and restores, which talk to the Backup Manager
  through a client of its own.

  \<^bold>\<open>The theories.\<close>

  \<^item> \<open>Klutch_Prelude\<close>, \<open>Go_Fmt\<close>: what the sources use of Go and its library (time, sorting, decimal
    numbers, strings, \<open>fmt.Sprintf\<close>) and the errors of the Kubernetes API.
  \<^item> \<open>Conditions\<close>, \<open>Condition_Merge\<close>, \<open>Condition_Patch\<close>: \<open>src/bind/pkg/apis/third_party/conditions\<close>. A
    list of conditions is refined to a map from types to conditions; \<open>Set\<close> is an update of that map,
    the summary is decided by a condition of least priority, a patch is a three-way merge.
  \<^item> \<open>Bind_API\<close>, \<open>Bind_Samples\<close>: the objects of \<open>src/bind/pkg/apis/bind/v1alpha1\<close>, their condition setters as
    interpretations of the locale \<open>condition_setter\<close>, and the conversion between a CRD and an export.
  \<^item> \<open>Kube_Object\<close>, \<open>Cluster_Scoped\<close>: Kubernetes objects, the interface of the syncers to the two
    clusters, and the translation of cluster-scoped objects
    (\<open>.../serviceexport/cluster-scoped/utils.go\<close>).
  \<^item> \<open>Spec_Sync\<close>, \<open>Status_Sync\<close>, \<open>Adopt_Sync\<close>, \<open>Claimed_Resources\<close>: the \<open>reconcile\<close> functions of the four syncers
    (\<open>spec_reconcile.go\<close>, \<open>status_reconcile.go\<close>, \<open>adopt_reconcile.go\<close>, \<open>claimedresources_reconciler.go\<close>).
  \<^item> \<open>Sync_Wiring\<close>: the controllers around these functions (\<open>spec_controller.go\<close> and the three others): the closures over
    the clients of both clusters, the keys that an event queues and what is done with a key.
  \<^item> \<open>Multi_Informer\<close>: the informers of \<open>controllers/dynamic\<close> and \<open>multinsinformer\<close>, the latter as the state machine
    \<open>mi_step\<close> of its events and of the end of its context.
  \<^item> \<open>Cluster_Binding\<close>, \<open>Service_Binding\<close>, \<open>Service_Export\<close>, \<open>Konnector\<close>: the controllers
    (\<open>clusterbinding_reconcile.go\<close>, the two \<open>servicebinding_reconcile.go\<close>, \<open>serviceexport_reconcile.go\<close>,
    \<open>konnector_reconcile.go\<close>).
  \<^item> \<open>Committer\<close>, \<open>Konnector_Process\<close>: \<open>src/bind/pkg/committer\<close>, the index functions of \<open>src/bind/pkg/indexers\<close>, and
    the functions \<open>process\<close> and \<open>enqueue...\<close> of the controllers above. The contract of a reconcile that changes the
    status only is the locale \<open>status_reconciler\<close>, interpreted for seven controllers.
  \<^item> \<open>Backend_Access\<close>, \<open>Backend_Exports\<close>: the controllers of ClusterBindings, APIServiceNamespaces, APIServiceExports and
    APIServiceExportRequests of the backend, with the template index and the policy rules.
  \<^item> \<open>App_Names\<close>, \<open>App_Calls\<close>, \<open>App_Cluster_Binding\<close>, \<open>App_Runs\<close>: the AppClusterBinding controller. Its operations
    are in the state monad over the log of its calls, with the rules \<open>emits\<close>, \<open>always\<close> and \<open>yields\<close> for what an
    operation calls and answers.
  \<^item> \<open>Provider_Error\<close>, \<open>Broker_Client\<close>, \<open>Service_Instance\<close>: \<open>src/provider-anynines/pkg/utilerr\<close>,
    \<open>src/clients/a9s-open-service-broker\<close> and the service instance controller
    (\<open>internal/controller/serviceinstance\<close>, \<open>pkg/client/serviceinstance\<close>, \<open>apis/serviceinstance\<close>).
  \<^item> \<open>Flatten_Map\<close>, \<open>Binding_Controller\<close>: the service binding controller (\<open>internal/controller/servicebinding\<close>) with the
    flattening of the credentials (\<open>pkg/utils/flattenmap.go\<close>).
  \<^item> \<open>Backup_Manager\<close>, \<open>Backup_Controller\<close>, \<open>Restore_Controller\<close>: \<open>src/clients/a9s-backup-manager\<close> and the controllers of
    backups and restores (\<open>internal/controller/backup\<close>, \<open>internal/controller/restore\<close>). Nine operations of the client are
    interpretations of the locale \<open>one_request_call\<close>: at most one request, to one URL.
  \<^item> \<open>Broker_Setup\<close>, \<open>Provider_Health\<close>: how the provider connects. The first has the TLS set-up of the broker client, its
    availability check and polling (\<open>client.go\<close>, \<open>check_availability.go\<close>, \<open>poll_last_operation.go\<close>), the second
    ProviderConfigs, their credentials, the four functions \<open>Connect\<close>, the health controller and the health endpoints
    (\<open>internal/controller/utils\<close>, \<open>confighealth\<close>, \<open>pkg/healthz\<close>).
  \<^item> \<open>Backend_Manager\<close>, \<open>Base64\<close>, \<open>Backend_Login\<close>: the login at the backend. \<open>HandleResources\<close> of
    \<open>kubernetes/manager.go\<close> creates namespace, service account and kubeconfig, as operations of \<open>Call_Log\<close>; \<open>http/handler.go\<close> and \<open>cookie\<close> are functions from requests to responses; \<open>encoding/base64\<close> is modelled because the
    code mixes its alphabets.
  \<^item> \<open>Call_Log\<close>: operations that call an API and stop at the first error, over the log of their calls, with the rules of \<open>runs\<close>.
    The manager, the command line client, the CRD bootstrap and the secret access are written with it.
  \<^item> \<open>Bind_Client\<close>, \<open>Bind_APIService\<close>: \<open>kubectl bind\<close> and \<open>kubectl bind apiservice\<close>: \<open>base/kubeconfig.go\<close>,
    \<open>bind/plugin\<close>, \<open>bind/authenticator\<close> and \<open>bind-apiservice/plugin\<close>, with the callback server as a state and the standard input as the list of
    what each read returns.
  \<^item> \<open>Cluster_Controller\<close>, \<open>Secret_Access\<close>: the namespace deletion controller and \<open>Start\<close> of the controllers of one provider cluster
    (\<open>namespacedeletion\<close>, \<open>cluster_controller.go\<close>), the helpers for index functions, and \<open>EnsureSecretAccessRBAC\<close> of \<open>rbac.go\<close>.
  \<^item> \<open>Work_Queue\<close>: the workers that every controller has (\<open>startWorker\<close>, \<open>processNextWorkItem\<close>), with the event handlers as the state
    machine \<open>work_step\<close>; the queue of client-go is a parameter with its documented laws.
  \<^item> \<open>Backend_Options\<close>: how the backend starts: \<open>example-backend/options\<close>, \<open>NewServer\<close> of \<open>server.go\<close> and \<open>main.go\<close>.
  \<^item> \<open>Manifest_Bootstrap\<close>: the installation of YAML manifests (\<open>pkg/bootstrap\<close>, \<open>deploy/konnector\<close>).
  \<^item> \<open>CRD_Bootstrap\<close>, \<open>Konnector_Config\<close>: how a konnector starts: \<open>deploy/crd/bootstrap.go\<close>, \<open>konnector/options\<close>, \<open>konnector/config.go\<close>,
    \<open>PrepareRun\<close>, the health checks, and what \<open>cmd/konnector\<close> gives client-go for the leader election: the lock, the times and the
    callback. The election itself is client-go's and no part of the model.
  \<^item> \<open>Condition_Properties\<close>, \<open>Sync_Properties\<close>, \<open>Syncer_Properties\<close>, \<open>Konnector_Properties\<close>, \<open>Provider_Properties\<close>,
    \<open>Backup_Properties\<close>, \<open>Backend_Properties\<close>, \<open>Health_Properties\<close>, \<open>Login_Properties\<close>, \<open>Client_Properties\<close>,
    \<open>Runtime_Properties\<close>: the properties, each with a witness at a concrete input where it has hypotheses.

  \<^bold>\<open>How the code is modelled.\<close>

  \<^item> A struct is a record, a reconciler struct with its function fields a record of functions. What lies
    behind such a field (API server, informer cache, HTTP transport) is not part of the repository: the function
    takes the list of all earlier calls, so its answers may change in any way over time, and the
    theorems hold for all of them.
  \<^item> A \<open>reconcile\<close> returns the error of the Go function, the mutated object and the list of calls it made, in
    order; statements about ordering are statements about that list.
  \<^item> A Go pair \<open>(x, err)\<close> is a sum; a nil pointer or nil map is \<open>None\<close>. Where the code can dereference nil, the
    result has a value for the panic.
  \<^item> \<open>time.Now()\<close> and random IDs are parameters. Third-party functions that the code calls (go-cmp,
    crossplane's \<open>SetConditions\<close>, the decoders of \<open>encoding/json\<close>, SHA-224) are parameters too, with their
    documented behaviour as a hypothesis where a property needs it.
  \<^item> \<open>sort.Slice\<close> is the insertion sort that Go runs on short slices. The locale \<open>strict_weak_order\<close> shows
    that any other correct sort gives the same result when no two elements are equivalent.
  \<^item> Mutexes: a critical section is one step. \<open>Service_Export\<close> has the steps of concurrent reconciliations as the
    inductive relation \<open>sync_step\<close>, \<open>Konnector\<close> the runs of its workers, which hold the lock from the lookup of the context on, as \<open>konn_reachable\<close>; the
    invariants hold in every reachable state, by rule induction. Contexts and their cancel functions live
    on an explicit heap.
  \<^item> All functions are total. The loops run over lists and finite maps, and the search for a new
    instance ID is bounded by its number of attempts. A loop that polls a server is given how often it looks before
    its deadline (\<open>sv_attempts\<close>, \<open>sv_patience\<close>, \<open>cd_patience\<close>, \<open>bo_patience\<close> and the attempts of the token); the number is arbitrary, running out is the
    timeout of the code and an error, and the theorems hold for every number.

  \<^bold>\<open>What is shown.\<close>

  \<^item> Conditions: \<open>Set\<close> keeps the list sorted and unique and changes one type only; \<open>SetSummary\<close> makes an object Ready
    exactly when it should; patches merge, conflicts are reported.
  \<^item> Syncers: the finalizer is on the consumer object before anything is created upstream and stays until the provider
    answered the deletion; runs without error converge; an object under deletion is never written upstream;
    which requests a run can make at all; the translation of cluster-scoped objects round-trips. With the clients around it,
    the spec syncer touches only what belongs to its tenant, and an event of a provider object finds the object it was made
    from; until its context ends no informer is leaked, and each has every handler.
  \<^item> Controllers: no syncer leaks under any interleaving and each export has at most one; each kubeconfig
    has one live controller set, cancelled with its last binding; a CRD is only written if it is owned; when
    secrets are valid and cluster bindings Ready.
  \<^item> Provider: \<open>Observe\<close> only reads, and reports an instance as missing only when it is; a new instance ID is unknown to
    the broker; the parameter update is right and the conversions are inverse; an error that reaches the user is one of the
    known texts, or the description of the broker's own refusal (4xx) of the last request; the connection secret holds the credentials, whatever the order of iteration. Every request about
    a backup is about the one that the manager created; when a backup is gone and when a restore may go; what a
    restore uses.
  \<^item> Backend: no commit of any controller, of the backend or of the konnector, can panic; roles name the service account of their consumer only and allow
    what is exported; a request settles and creates exports from templates only; an export follows its CRD and
    comes to rest; a reconcile of an AppClusterBinding writes in its root namespace only, beside the bindings that carry its labels, and refines a store of bindings;
    its finalizer goes only after everything was seen gone; request names are DNS labels; a changed
    secret queues what depends on it.
  \<^item> Start: a backend that starts has a well-formed login handler and the controllers of its mode.
  \<^item> Connections: when the two clients of the provider are made, and that they get the connection that a ProviderConfig describes; its health is checked for ever and the
    endpoint reports the last check; the delay between two polls is exact up to the width of a duration.
  \<^item> Login: a login that the command line client began ends there; the kubeconfig that it gets has the token of a
    namespace that the API answered for its identity, and a run works in that namespace only; from end to end, the client takes the answer for its own
    session.
  \<^item> Command line: a stored kubeconfig replaces only one of the same provider; each claim is stored with the answer of the user; a konnector
    is never replaced by an older one.
  \<^item> Konnector at run time: the konnector that the backend deploys connects to the cluster of its AppClusterBinding and watches one
    namespace; a namespace that a consumer deletes is deleted by both controllers of its APIServiceNamespace; the CRD bootstrap writes only what is
    embedded and ends when it is established, that of manifests never changes a create-only object; a role for a secret grants nothing else; workers never process a key twice at a time and
    lose none, and no key stays in process.
  \<^item> Deviations: theorems of the kind error show where the code does something else than it means to,
    among them exports deleted because a template could not be read, logins refused because of a question mark in a URL,
    and informers reported as synced that are not. Lemmas show more of
    them: a mark that is written to the wrong cluster, objects taken from other tenants, a finalizer that is never released, a nil dereference when a
    service namespace is deleted, a backup that is created again and again, a consumer locked out by a slow cache, certificates that are silently
    dropped, answers typed ahead that are lost, an encryption key that is never checked, a reason that is hidden from the user, a controller that is never restarted, an informer started after the end, nil dereferences in a filter and in \<open>Delete\<close>, a
    deletion sent to the wrong namespace, healthy consumers reported as unhealthy.

  \<^bold>\<open>Not modelled.\<close> Generated code (typed clients, informers, deep copies, fakes) and YAML packages, which have no logic of their own. The
  construction of clients and informers, which are calls of client-go and crossplane-runtime in sequence. The listeners of the
  HTTP servers, the registration of flags and commands with cobra (beyond the flags of the konnector and the checks of the options), and the table that
  \<open>kubectl bind apiservice\<close> prints. Error predicates that
  nothing calls, and the matchers that only tests use.
\<close>

end
